(* ===== verification/Prelude.thy ===== *)
theory Prelude
  imports Main "HOL-Library.Word"
begin

text \<open>
  Shared notions of the development: the C integer types at their widths, the bit macros of
  \<^verbatim>\<open>SYSTEM/sys/sys.h\<close>, \<^verbatim>\<open>HARDWARE/ALARM/alarm.h\<close> and \<^verbatim>\<open>HARDWARE/TIMER/timer.h\<close>, big-endian and
  little-endian splitting of a \<^verbatim>\<open>u16\<close>, and the lemma collections the component theories
  extend.  A C expression over \<^verbatim>\<open>u8\<close>, \<^verbatim>\<open>u16\<close> and \<^verbatim>\<open>s16\<close> operands is evaluated, as the integer
  promotions prescribe, in \<^typ>\<open>int\<close> (through \<open>uint\<close> and \<open>sint\<close>) and truncated where it is
  stored; the sums the code forms stay far below \<open>2 ^ 31\<close>.
\<close>

unbundle bit_operations_syntax

type_synonym u8 = "8 word"
type_synonym u16 = "16 word"
type_synonym u32 = "32 word"
type_synonym s16 = "16 word" \<comment> \<open>read with \<open>sint\<close>\<close>
type_synonym s32 = "32 word" \<comment> \<open>read with \<open>sint\<close>\<close>

named_theorems bit_state_simps \<open>how the macros on alarm words read and write single bits\<close>
named_theorems frame_simps \<open>which fields of the device an operation leaves alone\<close>

subsection \<open>Bit macros\<close>

text \<open>\<^verbatim>\<open>IS_SET_BIT(v, n)\<close> and \<^verbatim>\<open>IS_SET_VAR_BIT(v, n)\<close>.\<close>

definition IS_SET_BIT :: "'a::len word \<Rightarrow> nat \<Rightarrow> bool" where
  "IS_SET_BIT v n \<longleftrightarrow> drop_bit n v AND 1 \<noteq> 0"

definition SET_VAR_BIT :: "'a::len word \<Rightarrow> nat \<Rightarrow> 'a word" where
  "SET_VAR_BIT v n = v OR push_bit n 1"

definition CLEAR_VAR_BIT :: "'a::len word \<Rightarrow> nat \<Rightarrow> 'a word" where
  "CLEAR_VAR_BIT v n = v AND NOT (push_bit n 1)"

text \<open>\<^verbatim>\<open>GET_ALARM_STATE(state, mask)\<close>, stored by its callers into a \<^verbatim>\<open>u8\<close>.\<close>

definition GET_ALARM_STATE :: "u16 \<Rightarrow> nat \<Rightarrow> u8" where
  "GET_ALARM_STATE st m = ucast (drop_bit m st AND 1)"

definition SET_ALARM_STATE :: "u16 \<Rightarrow> nat \<Rightarrow> u16" where
  "SET_ALARM_STATE st m = st OR push_bit m 1"

definition CLEAR_ALARM_STATE :: "u16 \<Rightarrow> nat \<Rightarrow> u16" where
  "CLEAR_ALARM_STATE st m = st AND NOT (push_bit m 1)"

lemma IS_SET_BIT_iff [simp]: "IS_SET_BIT v n \<longleftrightarrow> bit v n"
  by (simp add: IS_SET_BIT_def and_one_eq bit_iff_odd_drop_bit odd_iff_mod_2_eq_one)

lemma bit_SET_VAR_BIT [simp]:
  "bit (SET_VAR_BIT (v :: 'a::len word) n) k \<longleftrightarrow> bit v k \<or> (k = n \<and> n < LENGTH('a))"
  by (auto simp: SET_VAR_BIT_def bit_or_iff push_bit_eq_mult bit_exp_iff possible_bit_word)

lemma bit_CLEAR_VAR_BIT [simp]:
  "bit (CLEAR_VAR_BIT (v :: 'a::len word) n) k \<longleftrightarrow> bit v k \<and> k \<noteq> n"
  by (auto simp: CLEAR_VAR_BIT_def bit_and_iff bit_not_iff push_bit_eq_mult bit_exp_iff
      possible_bit_word dest: bit_imp_le_length)

lemma GET_ALARM_STATE_of_bool: "GET_ALARM_STATE st m = of_bool (bit st m)"
  by (simp add: GET_ALARM_STATE_def and_one_eq bit_iff_odd_drop_bit mod2_eq_if)

lemma GET_ALARM_STATE_eq_1 [simp]: "GET_ALARM_STATE st m = 1 \<longleftrightarrow> bit st m"
  by (simp add: GET_ALARM_STATE_of_bool)

lemma GET_ALARM_STATE_eq_0 [simp]: "GET_ALARM_STATE st m = 0 \<longleftrightarrow> \<not> bit st m"
  by (simp add: GET_ALARM_STATE_of_bool)

lemma bit_SET_ALARM_STATE [simp]:
  "bit (SET_ALARM_STATE st m) k \<longleftrightarrow> bit st k \<or> (k = m \<and> m < 16)"
  by (auto simp: SET_ALARM_STATE_def bit_or_iff push_bit_eq_mult bit_exp_iff possible_bit_word)

lemma bit_CLEAR_ALARM_STATE [simp]:
  "bit (CLEAR_ALARM_STATE st m) k \<longleftrightarrow> bit st k \<and> k \<noteq> m"
  by (auto simp: CLEAR_ALARM_STATE_def bit_and_iff bit_not_iff push_bit_eq_mult bit_exp_iff
      possible_bit_word dest: bit_imp_le_length)

subsection \<open>Byte counters\<close>

lemma unat_u8_less: "unat w < 255" if "w \<noteq> (255 :: u8)"
proof -
  have "unat w < 256" using unsigned_less [of w] by simp
  moreover have "unat w \<noteq> unat (255 :: u8)" using that by (metis word_unat_eq_iff)
  ultimately show ?thesis by simp
qed

lemma unat_u8_Suc: "unat (w + 1 :: u8) = Suc (unat w)" if "w \<noteq> 255"
  using unat_u8_less [OF that] by (simp add: unat_word_ariths)

lemma unat_minus_one_u16 [simp]: "unat (- 1 :: u16) = 65535"
  by (simp add: unsigned_minus_1_eq_mask mask_eq_exp_minus_1)

subsection \<open>Two bytes and a half-word\<close>

text \<open>
  The code writes a \<^verbatim>\<open>u16\<close> high byte first (\<^verbatim>\<open>(u8)((x >> 8) & 0xff)\<close>, \<^verbatim>\<open>(u8)(x & 0xff)\<close>) and reads
  it back as \<^verbatim>\<open>(hi << 8) | lo\<close>.
\<close>

definition hi8 :: "u16 \<Rightarrow> u8" where
  "hi8 x = ucast (drop_bit 8 x AND 0xff)"

definition lo8 :: "u16 \<Rightarrow> u8" where
  "lo8 x = ucast (x AND 0xff)"

definition be16 :: "u8 \<Rightarrow> u8 \<Rightarrow> u16" where
  "be16 h l = push_bit 8 (ucast h) OR ucast l"

lemma mask_byte: "(0xff :: 'a::len word) = mask 8"
  by (simp add: mask_eq_exp_minus_1)

lemma bit_hi8 [bit_state_simps]: "bit (hi8 x) n \<longleftrightarrow> n < 8 \<and> bit x (n + 8)"
  by (auto simp: hi8_def mask_byte bit_simps ac_simps)

lemma bit_lo8 [bit_state_simps]: "bit (lo8 x) n \<longleftrightarrow> n < 8 \<and> bit x n"
  by (auto simp: lo8_def mask_byte bit_simps ac_simps)

lemma bit_be16 [bit_state_simps]:
  "bit (be16 h l) n \<longleftrightarrow> (if n < 8 then bit l n else n < 16 \<and> bit h (n - 8))"
  by (auto simp: be16_def bit_simps ac_simps dest: bit_imp_le_length)

lemma be16_hi8_lo8 [simp]: "be16 (hi8 x) (lo8 x) = x"
  by (rule bit_word_eqI) (auto simp: bit_state_simps)

lemma hi8_be16 [simp]: "hi8 (be16 h l) = h"
  by (rule bit_word_eqI) (auto simp: bit_state_simps)

lemma lo8_be16 [simp]: "lo8 (be16 h l) = l"
  by (rule bit_word_eqI) (auto simp: bit_state_simps)

lemma be16_eq_iff [simp]: "be16 h l = be16 h' l' \<longleftrightarrow> h = h' \<and> l = l'"
  by (metis hi8_be16 lo8_be16)

end
