(* ===== verification/Device.thy ===== *)
theory Device
  imports Prelude
begin

text \<open>
  The global variables of the firmware as one record, built up file by file with the names the
  C files use.  A C array is a total map from its index; every index the code forms is a loop
  counter or a zone number below the array's bound, except for the log type, which the web request
  leaves unchecked: there the model returns no result (theory \<open>WebCgi\<close>).  A bit-band pin holds one bit and is a \<^typ>\<open>bool\<close>.

  What lies outside the processor appears as data the firmware reads: the input pins, the
  converter's answers \<open>adc_src\<close> (a function of the conversion number, the channel and the four
  multiplexer lines) and the cells \<open>eemem\<close> of the 24C256, addressed by the 16 bits the driver
  sends.
\<close>

text \<open>The 24C256 behind \<^verbatim>\<open>HARDWARE/24CXX\<close>.\<close>

record eeprom_globals =
  eemem :: "u16 \<Rightarrow> u8"

text \<open>Pins, by the names of \<^verbatim>\<open>alarm.h\<close>, \<^verbatim>\<open>led.h\<close>, \<^verbatim>\<open>key.h\<close>, \<^verbatim>\<open>lcd.h\<close> and \<^verbatim>\<open>adc.h\<close>.\<close>

record pin_globals = eeprom_globals +
  FANG_CHAI :: bool
  SW1 :: bool
  SW2 :: bool
  FIELD_FLAG_S0D1 :: bool
  RL_A :: bool
  RL_B :: bool
  LED_FANG_CHAI :: bool
  LED_OPEN :: bool
  LED_INVD :: bool
  LED_BU_FANG :: bool
  LED_RUN :: bool
  LCD_BLA :: bool
  ADC_CTRL0 :: bool
  ADC_CTRL1 :: bool
  ADC_CTRL2 :: bool
  ADC_CTRL3 :: bool

text \<open>
  \<^verbatim>\<open>SYSTEM/sys/sys.c\<close>.  \<open>sys_reset\<close> records that the code has asked the core to reset
  (\<^verbatim>\<open>NVIC_SystemReset\<close>, \<^verbatim>\<open>Sys_Soft_Reset\<close>), a request from which control does not return.
\<close>

record sys_globals = pin_globals +
  config_code :: u8
  sys_reset :: bool

text \<open>\<^verbatim>\<open>HARDWARE/ALARM/alarm.c\<close>.\<close>

record alarm_globals = sys_globals +
  field_num :: "nat \<Rightarrow> u8"
  alarm_delay :: "nat \<Rightarrow> u16"
  ten_val_range :: "nat \<Rightarrow> nat \<Rightarrow> u16"
  alarm_sensitivity :: "nat \<Rightarrow> u8"
  ALARM_STATE :: u16
  ALARM_STATE_DELAY :: u16
  flag_fcgjsn :: u8
  adc_invd_crt :: "nat \<Rightarrow> u8"
  adc_open_crt :: "nat \<Rightarrow> u8"
  adc_relax_crt :: "nat \<Rightarrow> u8"
  BU_FANG_A_FLAG :: u8
  BU_FANG_B_FLAG :: u8
  alarm_threshold_up_dif :: u16
  alarm_threshold_down_dif :: u16
  FCAlmVerifyCnt :: u8
  adcIvdAlmVerifyCnt :: "nat \<Rightarrow> u8"
  adcOpnAlmVerifyCnt :: "nat \<Rightarrow> u8"
  adcRlxAlmVerifyCnt :: "nat \<Rightarrow> u8"
  alarmingCnt :: "nat \<Rightarrow> s32"
  W4_W6 :: u8
  SW_Alarm :: "nat \<Rightarrow> u8"
  SW_Type :: "nat \<Rightarrow> u8"
  remote_shutdown :: u8

text \<open>\<^verbatim>\<open>HARDWARE/ADC/adc.c\<close>, with the converter's answers and the number of conversions so far.\<close>

record adc_globals = alarm_globals +
  tension_max_range :: u16
  zero_val :: "nat \<Rightarrow> nat \<Rightarrow> s16"
  base_val :: "nat \<Rightarrow> nat \<Rightarrow> s16"
  crt_smp :: "nat \<Rightarrow> nat \<Rightarrow> s16"
  crt_val :: "nat \<Rightarrow> nat \<Rightarrow> s16"
  calibrating_flag :: u8
  calibrate_en :: "nat \<Rightarrow> u8"
  base_auto_calibrate_time :: u16
  calibrate_temp_val :: "nat \<Rightarrow> s32"
  calibrate_adc_cnt :: u16
  init_done :: u8
  adc_src :: "nat \<Rightarrow> u8 \<Rightarrow> bool \<times> bool \<times> bool \<times> bool \<Rightarrow> u16"
  adc_time :: nat

text \<open>
  \<^verbatim>\<open>HARDWARE/LOG/log.c\<close> and the time string of \<^verbatim>\<open>pcf8563.c\<close>.  Byte buffers are lists of bytes; the
  page buffers hold the text up to its terminating zero, because the code only clears them and
  appends to them.  \<open>web_page_overrun\<close> is no variable of the code: it records that the terminator of a page was
  written behind the end of \<^verbatim>\<open>crtWebPageLogData\<close>.
\<close>

record log_globals = adc_globals +
  rtcTempStr :: "u8 list"
  nextWriteAddrVal :: "nat \<Rightarrow> u32"
  crtReadAddrVal :: "nat \<Rightarrow> u32"
  crtWebLogPageNum :: u8
  lastWebPageLogNum :: u8
  lastLCDPageLogNum :: u8
  webLogPageFlag :: u8
  LCDLogPageFlag :: u8
  logType :: u8
  lastWebPageReadDir :: u8
  lastLCDPageReadDir :: u8
  crtWebPageLogData :: "u8 list"
  web_page_overrun :: bool
  crtLCDPageLogData :: "nat \<Rightarrow> u8 list"

text \<open>\<^verbatim>\<open>HARDWARE/TIMER/timer.c\<close>.\<close>

record timer_globals = log_globals +
  lm75TempCnt :: u8
  rtcTimeCnt :: u8
  alarmCheckCnt :: s32
  adcCalibrateCnt :: s32
  baseAutoCalibrateCnt :: "nat \<Rightarrow> s32"
  timerHandlerFlag :: u8
  run_screen_refresh :: u8

text \<open>\<^verbatim>\<open>LWIP/lwip_app\<close>: the device's addresses, and the server's address-change flag.\<close>

record dev = timer_globals +
  lw_mac :: "nat \<Rightarrow> u8"
  lw_remoteip :: "nat \<Rightarrow> u8"
  lw_ip :: "nat \<Rightarrow> u8"
  lw_netmask :: "nat \<Rightarrow> u8"
  lw_gateway :: "nat \<Rightarrow> u8"
  lw_dhcpstatus :: u8
  ip_change_flag :: u8

end
