(* ===== verification/I2cBus.thy ===== *)
theory I2cBus
  imports Prelude
begin

text \<open>
  \<^verbatim>\<open>HARDWARE/IIC/myiic.c\<close> (the bit-banged bus), \<^verbatim>\<open>HARDWARE/IIC/iicrw.c\<close> (register transfers) and the
  transfers of \<^verbatim>\<open>HARDWARE/LM75/lm75.c\<close>.

  Two levels.  At the line level an operation is the sequence of things it does to the two wires;
  what it samples is an argument.  At the transfer level an operation is the sequence of bus
  primitives and mutex calls it makes, given the outcome of each \<^verbatim>\<open>IIC_Wait_Ack\<close> and the bytes the
  slave supplies.  The delays have no effect in the model.
\<close>

subsection \<open>The lines\<close>

datatype line_ev = SdaOut | SdaIn | Sda bool | Scl bool

definition IIC_Start :: "line_ev list" where
  "IIC_Start = [SdaOut, Sda True, Scl True, Sda False, Scl False]"

definition IIC_Stop :: "line_ev list" where
  "IIC_Stop = [SdaOut, Scl False, Sda False, Scl True, Sda True]"

text \<open>
  \<^verbatim>\<open>IIC_Wait_Ack\<close>: \<open>high n\<close> is what the \<open>n\<close>-th poll of \<^verbatim>\<open>READ_SDA\<close> sees.  The loop counts in a
  \<^verbatim>\<open>u8\<close> and gives up after 251 high polls; the result is the C return value.
\<close>

function IIC_Wait_Ack_loop :: "(nat \<Rightarrow> bool) \<Rightarrow> nat \<Rightarrow> u8 \<Rightarrow> line_ev list \<times> u8" where
  "IIC_Wait_Ack_loop high n ucErrTime =
     (if high n then
        (let ucErrTime = ucErrTime + 1
         in if 250 < ucErrTime then (IIC_Stop, 1)
            else IIC_Wait_Ack_loop high (Suc n) ucErrTime)
      else ([Scl False], 0))"
  by pat_completeness auto
termination
  by (relation "measure (\<lambda>(high, n, e). if e = 255 then 256 else 255 - unat e)")
     (auto simp: unat_u8_Suc dest!: unat_u8_less)

declare IIC_Wait_Ack_loop.simps [simp del]

definition IIC_Wait_Ack :: "(nat \<Rightarrow> bool) \<Rightarrow> line_ev list \<times> u8" where
  "IIC_Wait_Ack high =
     (let (evs, r) = IIC_Wait_Ack_loop high 0 0
      in ([SdaIn, Sda True, Scl True] @ evs, r))"

definition IIC_Ack :: "line_ev list" where
  "IIC_Ack = [Scl False, SdaOut, Sda False, Scl True, Scl False]"

definition IIC_NAck :: "line_ev list" where
  "IIC_NAck = [Scl False, SdaOut, Sda True, Scl True, Scl False]"

fun IIC_Send_Byte_loop :: "nat \<Rightarrow> u8 \<Rightarrow> line_ev list" where
  "IIC_Send_Byte_loop 0 txd = []"
| "IIC_Send_Byte_loop (Suc t) txd =
     [Sda (drop_bit 7 (txd AND 0x80) = 1), Scl True, Scl False]
     @ IIC_Send_Byte_loop t (push_bit 1 txd)"

definition IIC_Send_Byte :: "u8 \<Rightarrow> line_ev list" where
  "IIC_Send_Byte txd = [SdaOut, Scl False] @ IIC_Send_Byte_loop 8 txd"

text \<open>\<open>sda i\<close> is what \<^verbatim>\<open>READ_SDA\<close> sees in round \<open>i\<close>; \<open>n\<close> rounds are left.\<close>

fun IIC_Read_Byte_loop :: "(nat \<Rightarrow> bool) \<Rightarrow> nat \<Rightarrow> nat \<Rightarrow> u8 \<Rightarrow> line_ev list \<times> u8" where
  "IIC_Read_Byte_loop sda 0 i receive = ([], receive)"
| "IIC_Read_Byte_loop sda (Suc n) i receive =
     (let receive = push_bit 1 receive;
          receive = (if sda i then receive + 1 else receive);
          (evs, r) = IIC_Read_Byte_loop sda n (Suc i) receive
      in ([Scl False, Scl True] @ evs, r))"

definition IIC_Read_Byte :: "(nat \<Rightarrow> bool) \<Rightarrow> u8 \<Rightarrow> line_ev list \<times> u8" where
  "IIC_Read_Byte sda ack =
     (let (evs, r) = IIC_Read_Byte_loop sda 8 0 0
      in ([SdaIn] @ evs @ (if ack = 0 then IIC_NAck else IIC_Ack), r))"

text \<open>
  What a receiver sees: the level of the data line at each rising clock, given the current level.
\<close>

fun clocked :: "bool \<Rightarrow> line_ev list \<Rightarrow> bool list" where
  "clocked s [] = []"
| "clocked s (Sda b # es) = clocked b es"
| "clocked s (Scl True # es) = s # clocked s es"
| "clocked s (_ # es) = clocked s es"

text \<open>
  Data may change only while the clock is low; a change while it is high is a START or a STOP.
\<close>

fun data_stable :: "bool \<Rightarrow> bool \<Rightarrow> line_ev list \<Rightarrow> bool" where
  "data_stable scl s [] = True"
| "data_stable scl s (Sda b # es) = ((scl \<longrightarrow> b = s) \<and> data_stable scl b es)"
| "data_stable scl s (Scl c # es) = data_stable c s es"
| "data_stable scl s (_ # es) = data_stable scl s es"

lemma IIC_Wait_Ack_loop_result:
  "snd (IIC_Wait_Ack_loop high n e) = 0 \<longleftrightarrow> (\<exists>k \<le> 250 - unat e. \<not> high (n + k))"
  if "unat e \<le> 250"
  using that
proof (induction high n e rule: IIC_Wait_Ack_loop.induct)
  case (1 high n e)
  have suc: "unat (e + 1) = Suc (unat e)"
    using 1(2) by (intro unat_u8_Suc) auto
  consider "\<not> high n" | "high n" "unat e = 250" | "high n" "unat e < 250"
    using 1(2) by linarith
  then show ?case
  proof cases
    case 1
    then show ?thesis by (subst IIC_Wait_Ack_loop.simps) (auto intro: exI [of _ 0])
  next
    case 2
    then show ?thesis
      using suc by (subst IIC_Wait_Ack_loop.simps) (simp add: word_less_nat_alt)
  next
    case 3
    then have small: "\<not> 250 < e + 1" and le: "unat (e + 1) \<le> 250"
      using suc by (simp_all add: word_less_nat_alt)
    have "snd (IIC_Wait_Ack_loop high (Suc n) (e + 1)) = 0
            \<longleftrightarrow> (\<exists>k \<le> 250 - unat (e + 1). \<not> high (Suc n + k))"
      using "1.IH" [OF 3(1) refl small le] by simp
    also have "\<dots> \<longleftrightarrow> (\<exists>k \<le> 250 - unat e. \<not> high (n + k))"
    proof
      assume "\<exists>k \<le> 250 - unat (e + 1). \<not> high (Suc n + k)"
      then obtain k where "k \<le> 250 - unat (e + 1)" "\<not> high (Suc n + k)" by blast
      then show "\<exists>k \<le> 250 - unat e. \<not> high (n + k)"
        using suc 3 by (intro exI [of _ "Suc k"]) auto
    next
      assume "\<exists>k \<le> 250 - unat e. \<not> high (n + k)"
      then obtain k where "k \<le> 250 - unat e" "\<not> high (n + k)" by blast
      moreover from this 3 have "k \<noteq> 0" by (metis add.right_neutral)
      ultimately show "\<exists>k \<le> 250 - unat (e + 1). \<not> high (Suc n + k)"
        using suc by (intro exI [of _ "k - 1"]) auto
    qed
    finally show ?thesis
      using 3 small by (subst IIC_Wait_Ack_loop.simps) simp
  qed
qed

lemma msb_test [simp]: "drop_bit 7 b AND 1 = (1 :: u8) \<longleftrightarrow> bit b 7"
  by (simp add: and_one_eq bit_iff_odd_drop_bit mod2_eq_if)

lemma bit_shl1 [simp]:
  "bit (w * 2 :: 'a::len word) k \<longleftrightarrow> 0 < k \<and> k < LENGTH('a) \<and> bit w (k - 1)"
  using bit_double_iff [of w k] by (auto simp: mult.commute possible_bit_word)

lemma bit_shl1_inc [simp]:
  "bit (w * 2 + 1 :: 'a::len word) k \<longleftrightarrow> k = 0 \<or> k < LENGTH('a) \<and> bit w (k - 1)"
  using even_bit_succ_iff [of "w * 2" k] by (auto simp: add.commute)

lemma clocked_Send_Byte_loop:
  "clocked s (IIC_Send_Byte_loop n b) = map (\<lambda>i. i \<le> 7 \<and> bit b (7 - i)) [0..<n]"
proof (induction n arbitrary: s b)
  case (Suc n)
  have "map (\<lambda>i. i \<le> 7 \<and> bit b (7 - i)) [0..<Suc n]
      = bit b 7 # map (\<lambda>i. Suc i \<le> 7 \<and> bit b (7 - Suc i)) [0..<n]"
    by (simp add: upt_conv_Cons map_Suc_upt [symmetric] del: upt_Suc)
  moreover have "(Suc i \<le> 7 \<and> bit b (7 - Suc i)) = (i \<le> 7 \<and> bit (b * 2) (7 - i))" for i
    by (cases "i = 7") auto
  ultimately show ?case by (simp add: Suc.IH)
qed simp

lemma clocked_Send_Byte:
  "clocked s (IIC_Send_Byte b) = map (\<lambda>i. bit b (7 - i)) [0..<8]"
  by (auto simp: IIC_Send_Byte_def clocked_Send_Byte_loop)

lemma data_stable_Send_Byte_loop: "data_stable False s (IIC_Send_Byte_loop n b)"
  by (induction n arbitrary: s b) auto

lemma bit_Read_Byte_loop:
  "bit (snd (IIC_Read_Byte_loop sda n i r)) k \<longleftrightarrow>
     k < 8 \<and> (if k < n then sda (i + n - 1 - k) else bit r (k - n))"
proof (induction n arbitrary: i r k)
  case 0
  then show ?case by (auto dest: bit_imp_le_length)
next
  case (Suc n)
  consider "k < n" | "k = n" | "n < k" by linarith
  then show ?case
    by cases (auto simp: Let_def split_beta Suc.IH)
qed

subsection \<open>Transfers\<close>

text \<open>
  The primitives a transfer is made of; \<open>Ack r\<close> is a call of \<^verbatim>\<open>IIC_Wait_Ack\<close> that returned \<open>r\<close>
  (\<open>True\<close>: no acknowledge), and \<open>Recv a\<close> a call of \<^verbatim>\<open>IIC_Read_Byte(a)\<close>.  \<open>Pend\<close> and \<open>Post\<close> are
  \<^verbatim>\<open>OSMutexPend\<close> and \<^verbatim>\<open>OSMutexPost\<close> on \<^verbatim>\<open>iicMutexSem\<close>.
\<close>

datatype bus_op = Pend | Post | Start | Stop | Send u8 | Ack bool | Recv u8

text \<open>
  A transfer's trace, its result, and, for the reading ones, the bytes received.  \<open>nack n\<close> is the
  answer to its \<open>n\<close>-th \<^verbatim>\<open>IIC_Wait_Ack\<close>, \<open>rx n\<close> the \<open>n\<close>-th byte the slave drives.
\<close>

definition IICRead ::
    "(nat \<Rightarrow> bool) \<Rightarrow> (nat \<Rightarrow> u8) \<Rightarrow> u8 \<Rightarrow> u8 \<Rightarrow> u16 \<Rightarrow> bus_op list \<times> u8 list \<times> u8" where
  "IICRead nack rx SlaveAddr ReadAddr RBufSize =
     (let tempSize = ucast RBufSize :: u8;
          n = (if 1 < tempSize then unat tempSize - 1 else 0);
          t0 = [Pend, Start, Send SlaveAddr, Ack (nack 0)]
      in if nack 0 then (t0 @ [Stop, Post], [], -1)
         else let t1 = t0 @ [Send ReadAddr, Ack (nack 1)]
         in if nack 1 then (t1 @ [Stop, Post], [], -1)
         else let t2 = t1 @ [Start, Send (SlaveAddr OR 1), Ack (nack 2)]
         in if nack 2 then (t2 @ [Stop, Post], [], -1)
         else (t2 @ replicate n (Recv 1) @ [Recv 0, Stop, Post],
               map rx [0..<Suc n], ucast RBufSize))"

fun IICWrite_loop :: "(nat \<Rightarrow> bool) \<Rightarrow> nat \<Rightarrow> u8 list \<Rightarrow> bus_op list \<times> bool" where
  "IICWrite_loop nack k [] = ([], True)"
| "IICWrite_loop nack k (b # bs) =
     (if nack k then ([Send b, Ack (nack k), Stop, Post], False)
      else let (t, ok) = IICWrite_loop nack (Suc k) bs
           in ([Send b, Ack (nack k)] @ t, ok))"

definition IICWrite :: "(nat \<Rightarrow> bool) \<Rightarrow> u8 \<Rightarrow> u8 \<Rightarrow> u8 list \<Rightarrow> bus_op list \<times> u8" where
  "IICWrite nack SlaveAddr WriteAddr WBuf =
     (let t0 = [Pend, Start, Send SlaveAddr, Ack (nack 0)]
      in if nack 0 then (t0 @ [Stop, Post], -1)
         else let t1 = t0 @ [Send WriteAddr, Ack (nack 1)]
         in if nack 1 then (t1 @ [Stop, Post], -1)
         else let (t, ok) = IICWrite_loop nack 2 (take (unat (of_nat (length WBuf) :: u8)) WBuf)
         in if ok then (t1 @ t @ [Stop, Post], of_nat (length WBuf)) else (t1 @ t, -1))"

definition LM75_SLAVE_ADDR :: u8 where "LM75_SLAVE_ADDR = 0x90"

definition LM75_SetPointer :: "(nat \<Rightarrow> bool) \<Rightarrow> u8 \<Rightarrow> bus_op list \<times> u8" where
  "LM75_SetPointer nack pointer =
     (let t0 = [Pend, Start, Send LM75_SLAVE_ADDR, Ack (nack 0)]
      in if nack 0 then (t0 @ [Stop, Post], 0)
         else let t1 = t0 @ [Send pointer, Ack (nack 1)]
         in if nack 1 then (t1 @ [Stop, Post], 0)
         else (t1 @ [Stop, Post], 1))"

text \<open>\<^verbatim>\<open>LM75_CORRECTION\<close> is \<open>-5\<close>, added to the integer part of the reading.\<close>

definition LM75_ReadTemp :: "(nat \<Rightarrow> bool) \<Rightarrow> (nat \<Rightarrow> u8) \<Rightarrow> bus_op list \<times> u16" where
  "LM75_ReadTemp nack rx =
     (let t0 = [Pend, Start, Send (LM75_SLAVE_ADDR OR 1), Ack (nack 0)]
      in if nack 0 then (t0 @ [Stop], 0)
         else (t0 @ [Recv 1, Recv 0, Stop, Post], be16 (rx 0 - 5) (rx 1)))"

text \<open>
  The mutex over a trace: \<open>Some h\<close> with \<open>h\<close> telling whether it is held at the end, \<open>None\<close> where
  the code pends while it holds it (it would wait for itself for ever, the timeout being 0) or
  touches the bus or posts without holding it.
\<close>

fun mutex_run :: "bool \<Rightarrow> bus_op list \<Rightarrow> bool option" where
  "mutex_run held [] = Some held"
| "mutex_run held (Pend # t) = (if held then None else mutex_run True t)"
| "mutex_run held (Post # t) = (if held then mutex_run False t else None)"
| "mutex_run held (_ # t) = (if held then mutex_run True t else None)"

definition mutex_disciplined :: "bus_op list \<Rightarrow> bool" where
  "mutex_disciplined t \<longleftrightarrow> mutex_run False t = Some False"

lemma mutex_run_append:
  "mutex_run h (s @ t) = Option.bind (mutex_run h s) (\<lambda>h'. mutex_run h' t)"
  by (induction h s rule: mutex_run.induct) auto

lemma mutex_run_Recv: "mutex_run True (replicate n (Recv a)) = Some True"
  by (induction n) auto

lemma mutex_run_Write_loop:
  "mutex_run True (fst (IICWrite_loop nack k bs)) = Some (snd (IICWrite_loop nack k bs))"
  by (induction bs arbitrary: k) (auto simp: split_beta Let_def)

lemma IICRead_disciplined: "mutex_disciplined (fst (IICRead nack rx sa ra n))"
  by (auto simp: IICRead_def mutex_disciplined_def Let_def mutex_run_Recv mutex_run_append)

lemma IICWrite_disciplined: "mutex_disciplined (fst (IICWrite nack sa wa bs))"
  by (auto simp: IICWrite_def mutex_disciplined_def Let_def split_beta mutex_run_append
      mutex_run_Write_loop)

lemma LM75_SetPointer_disciplined: "mutex_disciplined (fst (LM75_SetPointer nack p))"
  by (auto simp: LM75_SetPointer_def mutex_disciplined_def Let_def)

end
