(* ===== verification/Eeprom.thy ===== *)
theory Eeprom
  imports Device I2cBus
begin

text \<open>
  \<^verbatim>\<open>HARDWARE/24CXX/24cxx.c\<close>: the driver of the 24C256 and the parameter groups it keeps there.

  \<^verbatim>\<open>AT24CXX_ReadOneByte\<close> and \<^verbatim>\<open>AT24CXX_WriteOneByte\<close> are modelled by the transfer they put on the
  bus, run against the chip: \<open>at24_step\<close> states the protocol of the part (device select, two
  address bytes, data), the behaviour of the hardware that the driver relies on.  The lemmas
  \<open>AT24CXX_ReadOneByte_mem\<close> and \<open>AT24CXX_WriteOneByte_mem\<close> then reduce both to a read and an
  update of \<open>eemem\<close>, and everything above rests on the locale \<open>byte_store\<close>.
\<close>

subsection \<open>The address map (24cxx.h)\<close>

abbreviation (input) EE_ADDR_MAX :: u16 where "EE_ADDR_MAX \<equiv> 32767"
abbreviation (input) AT24CXX_SLAVER_ADDR :: u8 where "AT24CXX_SLAVER_ADDR \<equiv> 0xA0"
abbreviation (input) NetParaAddr :: u16 where "NetParaAddr \<equiv> 0x0000"
abbreviation (input) ConfigCodeAddr :: u16 where "ConfigCodeAddr \<equiv> 0x001E"
abbreviation (input) ADC_BASE_ADDR :: u16 where "ADC_BASE_ADDR \<equiv> 0x0020"
abbreviation (input) A_ADC_ZERO_ADDR :: u16 where "A_ADC_ZERO_ADDR \<equiv> 0x0020"
abbreviation (input) B_ADC_ZERO_ADDR :: u16 where "B_ADC_ZERO_ADDR \<equiv> 0x002C"
abbreviation (input) A_ADC_BASE_ADDR :: u16 where "A_ADC_BASE_ADDR \<equiv> 0x0038"
abbreviation (input) B_ADC_BASE_ADDR :: u16 where "B_ADC_BASE_ADDR \<equiv> 0x0044"
abbreviation (input) ALM_THRD_ADDR :: u16 where "ALM_THRD_ADDR \<equiv> 0x0050"
abbreviation (input) ControlParaAddr :: u16 where "ControlParaAddr \<equiv> 0x0054"
abbreviation (input) SWValAddr :: u16 where "SWValAddr \<equiv> 0x0056"
abbreviation (input) TENSION_MAX_RANGE_ADDR :: u16 where "TENSION_MAX_RANGE_ADDR \<equiv> 0x005A"
abbreviation (input) BASE_AUTO_CALIBRATE_TIME_ADDR :: u16 where "BASE_AUTO_CALIBRATE_TIME_ADDR \<equiv> 0x005C"
abbreviation (input) FieldParaAddr :: u16 where "FieldParaAddr \<equiv> 0x0060"

subsection \<open>The chip\<close>

datatype at24_phase = Idle | Select | AddrHi | AddrLo u8 | Writing | Reading

record at24 =
  cells :: "u16 \<Rightarrow> u8"
  ptr :: u16
  phase :: at24_phase

fun at24_step :: "at24 \<Rightarrow> bus_op \<Rightarrow> at24 \<times> u8 list" where
  "at24_step c Start = (c\<lparr>phase := Select\<rparr>, [])"
| "at24_step c Stop = (c\<lparr>phase := Idle\<rparr>, [])"
| "at24_step c (Send b) =
     (case phase c of
        Select \<Rightarrow> (c\<lparr>phase := (if b = AT24CXX_SLAVER_ADDR then AddrHi
                            else if b = AT24CXX_SLAVER_ADDR OR 1 then Reading else Idle)\<rparr>, [])
      | AddrHi \<Rightarrow> (c\<lparr>phase := AddrLo b\<rparr>, [])
      | AddrLo h \<Rightarrow> (c\<lparr>ptr := be16 h b, phase := Writing\<rparr>, [])
      | Writing \<Rightarrow> (c\<lparr>cells := (cells c)(ptr c := b), ptr := ptr c + 1\<rparr>, [])
      | _ \<Rightarrow> (c, []))"
| "at24_step c (Recv a) =
     (case phase c of Reading \<Rightarrow> (c\<lparr>ptr := ptr c + 1\<rparr>, [cells c (ptr c)]) | _ \<Rightarrow> (c, [255]))"
| "at24_step c _ = (c, [])"

fun at24_run :: "at24 \<Rightarrow> bus_op list \<Rightarrow> at24 \<times> u8 list" where
  "at24_run c [] = (c, [])"
| "at24_run c (e # es) =
     (let (c', out) = at24_step c e; (c'', out') = at24_run c' es in (c'', out @ out'))"

definition at24_of :: "dev \<Rightarrow> at24" where
  "at24_of d = \<lparr>cells = eemem d, ptr = 0, phase = Idle\<rparr>"

subsection \<open>Bytes\<close>

text \<open>
  \<^verbatim>\<open>EE_TYPE > AT24C16\<close> holds, so the two-byte addressing branch is taken.  The driver ignores
  what \<^verbatim>\<open>IIC_Wait_Ack\<close> returns.
\<close>

definition AT24CXX_ReadOneByte_ops :: "u16 \<Rightarrow> bus_op list" where
  "AT24CXX_ReadOneByte_ops ReadAddr =
     [Pend, Start, Send AT24CXX_SLAVER_ADDR, Ack False, Send (ucast (drop_bit 8 ReadAddr)),
      Ack False, Send (ucast (ReadAddr mod 256)), Ack False,
      Start, Send (AT24CXX_SLAVER_ADDR OR 1), Ack False, Recv 0, Stop, Post]"

definition AT24CXX_ReadOneByte :: "dev \<Rightarrow> u16 \<Rightarrow> u8" where
  "AT24CXX_ReadOneByte d ReadAddr =
     hd (snd (at24_run (at24_of d) (AT24CXX_ReadOneByte_ops ReadAddr)))"

definition AT24CXX_WriteOneByte_ops :: "u16 \<Rightarrow> u8 \<Rightarrow> bus_op list" where
  "AT24CXX_WriteOneByte_ops WriteAddr DataToWrite =
     [Pend, Start, Send AT24CXX_SLAVER_ADDR, Ack False, Send (ucast (drop_bit 8 WriteAddr)),
      Ack False, Send (ucast (WriteAddr mod 256)), Ack False,
      Send DataToWrite, Ack False, Stop, Post]"

definition AT24CXX_WriteOneByte :: "u16 \<Rightarrow> u8 \<Rightarrow> dev \<Rightarrow> dev" where
  "AT24CXX_WriteOneByte WriteAddr DataToWrite d =
     d\<lparr>eemem := cells (fst (at24_run (at24_of d)
                              (AT24CXX_WriteOneByte_ops WriteAddr DataToWrite)))\<rparr>"

lemma addr_bytes [simp]: "be16 (ucast (drop_bit 8 a)) (ucast (a mod 256 :: u16)) = a"
proof -
  have "a mod 256 = take_bit 8 a" by (simp add: take_bit_eq_mod)
  then show ?thesis
    by (intro bit_word_eqI) (auto simp: bit_be16 bit_simps ac_simps)
qed

lemma AT24CXX_ReadOneByte_mem [simp]: "AT24CXX_ReadOneByte d a = eemem d a"
  by (simp add: AT24CXX_ReadOneByte_def AT24CXX_ReadOneByte_ops_def at24_of_def)

lemma AT24CXX_WriteOneByte_mem [simp]:
  "AT24CXX_WriteOneByte a v d = d\<lparr>eemem := (eemem d)(a := v)\<rparr>"
  by (simp add: AT24CXX_WriteOneByte_def AT24CXX_WriteOneByte_ops_def at24_of_def)

lemma AT24CXX_transfers_disciplined:
  "mutex_disciplined (AT24CXX_ReadOneByte_ops a)" "mutex_disciplined (AT24CXX_WriteOneByte_ops a v)"
  by (simp_all add: mutex_disciplined_def AT24CXX_ReadOneByte_ops_def AT24CXX_WriteOneByte_ops_def)

subsection \<open>Runs of bytes\<close>

text \<open>
  \<^verbatim>\<open>AT24CXX_Write\<close> and \<^verbatim>\<open>AT24CXX_Read\<close>: the buffer is the list, \<^verbatim>\<open>WriteAddr\<close> and \<^verbatim>\<open>ReadAddr\<close> are
  \<^verbatim>\<open>u16\<close> and wrap.
\<close>

fun AT24CXX_Write :: "u16 \<Rightarrow> u8 list \<Rightarrow> dev \<Rightarrow> dev" where
  "AT24CXX_Write WriteAddr [] d = d"
| "AT24CXX_Write WriteAddr (b # bs) d =
     AT24CXX_Write (WriteAddr + 1) bs (AT24CXX_WriteOneByte WriteAddr b d)"

fun AT24CXX_Read :: "dev \<Rightarrow> u16 \<Rightarrow> nat \<Rightarrow> u8 list" where
  "AT24CXX_Read d ReadAddr 0 = []"
| "AT24CXX_Read d ReadAddr (Suc NumToRead) =
     AT24CXX_ReadOneByte d ReadAddr # AT24CXX_Read d (ReadAddr + 1) NumToRead"

text \<open>\<^verbatim>\<open>AT24CXX_WriteLenByte\<close> and \<^verbatim>\<open>AT24CXX_ReadLenByte\<close>: little-endian; \<open>n\<close> rounds are left.\<close>

fun AT24CXX_WriteLenByte_loop :: "u16 \<Rightarrow> u32 \<Rightarrow> nat \<Rightarrow> nat \<Rightarrow> dev \<Rightarrow> dev" where
  "AT24CXX_WriteLenByte_loop WriteAddr DataToWrite t 0 d = d"
| "AT24CXX_WriteLenByte_loop WriteAddr DataToWrite t (Suc n) d =
     AT24CXX_WriteLenByte_loop WriteAddr DataToWrite (Suc t) n
       (AT24CXX_WriteOneByte (WriteAddr + of_nat t)
          (ucast (drop_bit (8 * t) DataToWrite AND 0xff)) d)"

definition AT24CXX_WriteLenByte :: "u16 \<Rightarrow> u32 \<Rightarrow> nat \<Rightarrow> dev \<Rightarrow> dev" where
  "AT24CXX_WriteLenByte WriteAddr DataToWrite Len =
     AT24CXX_WriteLenByte_loop WriteAddr DataToWrite 0 Len"

fun AT24CXX_ReadLenByte_loop :: "dev \<Rightarrow> u16 \<Rightarrow> nat \<Rightarrow> u32 \<Rightarrow> u32" where
  "AT24CXX_ReadLenByte_loop d ReadAddr 0 temp = temp"
| "AT24CXX_ReadLenByte_loop d ReadAddr (Suc n) temp =
     AT24CXX_ReadLenByte_loop d ReadAddr n
       (push_bit 8 temp + ucast (AT24CXX_ReadOneByte d (ReadAddr + of_nat n)))"

text \<open>Round \<open>t\<close> of \<^verbatim>\<open>Len\<close> reads \<^verbatim>\<open>ReadAddr+Len-t-1\<close>, and \<open>n = Len - t - 1\<close> rounds follow it.\<close>

definition AT24CXX_ReadLenByte :: "dev \<Rightarrow> u16 \<Rightarrow> nat \<Rightarrow> u32" where
  "AT24CXX_ReadLenByte d ReadAddr Len = AT24CXX_ReadLenByte_loop d ReadAddr Len 0"

text \<open>\<^verbatim>\<open>AT24CXX_Check\<close>: 0 when the marker 0x55 reads back, 1 otherwise.\<close>

definition AT24CXX_Check :: "dev \<Rightarrow> dev \<times> u8" where
  "AT24CXX_Check d =
     (let d = AT24CXX_WriteOneByte EE_ADDR_MAX 0x55 d;
          temp = AT24CXX_ReadOneByte d EE_ADDR_MAX
      in if temp = 0x55 then (d, 0)
         else let d = AT24CXX_WriteOneByte EE_ADDR_MAX 0x55 d;
                  temp = AT24CXX_ReadOneByte d EE_ADDR_MAX
              in if temp = 0x55 then (d, 0) else (d, 1))"

text \<open>\<^verbatim>\<open>while(formatAddr--)\<close>: the body runs with the decremented value.\<close>

fun FormatEEProm_loop :: "nat \<Rightarrow> dev \<Rightarrow> dev" where
  "FormatEEProm_loop 0 d = d"
| "FormatEEProm_loop (Suc formatAddr) d =
     FormatEEProm_loop formatAddr (AT24CXX_WriteOneByte (of_nat formatAddr) 0xFF d)"

definition FormatEEProm :: "dev \<Rightarrow> dev" where
  "FormatEEProm = FormatEEProm_loop (unat (EE_ADDR_MAX + 1))"

fun EraseEEProm :: "u16 \<Rightarrow> nat \<Rightarrow> dev \<Rightarrow> dev" where
  "EraseEEProm eraseAddr 0 d = d"
| "EraseEEProm eraseAddr (Suc eraseLen) d =
     EraseEEProm (eraseAddr + 1) eraseLen (AT24CXX_WriteOneByte eraseAddr 0xFF d)"

definition EraseEEPormParas :: "dev \<Rightarrow> dev" where
  "EraseEEPormParas d =
     EraseEEProm SWValAddr 2 (EraseEEProm ControlParaAddr 1 (EraseEEProm FieldParaAddr 4
     (EraseEEProm BASE_AUTO_CALIBRATE_TIME_ADDR 2 (EraseEEProm TENSION_MAX_RANGE_ADDR 2
     (EraseEEProm ALM_THRD_ADDR 4 (EraseEEProm ADC_BASE_ADDR 48
     (EraseEEProm (NetParaAddr + 6) 12 d)))))))"

subsection \<open>Parameter groups\<close>

definition WriteNetParasToEEProm :: "dev \<Rightarrow> dev" where
  "WriteNetParasToEEProm d =
     (let addrOff = NetParaAddr; d = AT24CXX_Write addrOff (map (lw_mac d) [0..<6]) d;
          addrOff = addrOff + 6; d = AT24CXX_Write addrOff (map (lw_ip d) [0..<4]) d;
          addrOff = addrOff + 4; d = AT24CXX_Write addrOff (map (lw_netmask d) [0..<4]) d;
          addrOff = addrOff + 4
      in AT24CXX_Write addrOff (map (lw_gateway d) [0..<4]) d)"

text \<open>Filling the first \<open>length bs\<close> cells of an array.\<close>

definition fill :: "(nat \<Rightarrow> 'a) \<Rightarrow> 'a list \<Rightarrow> nat \<Rightarrow> 'a" where
  "fill f bs = (\<lambda>i. if i < length bs then bs ! i else f i)"

definition ReadNetParasFromEEProm :: "dev \<Rightarrow> dev" where
  "ReadNetParasFromEEProm d =
     (let addrOff = NetParaAddr;
          d = d\<lparr>lw_mac := fill (lw_mac d) (AT24CXX_Read d addrOff 6)\<rparr>;
          addrOff = addrOff + 6; d = d\<lparr>lw_ip := fill (lw_ip d) (AT24CXX_Read d addrOff 4)\<rparr>;
          addrOff = addrOff + 4;
          d = d\<lparr>lw_netmask := fill (lw_netmask d) (AT24CXX_Read d addrOff 4)\<rparr>;
          addrOff = addrOff + 4
      in d\<lparr>lw_gateway := fill (lw_gateway d) (AT24CXX_Read d addrOff 4)\<rparr>)"

text \<open>
  An \<^verbatim>\<open>s16[6]\<close> viewed through \<^verbatim>\<open>(u8 * )\<close>: the processor is little-endian.
\<close>

definition s16_bytes :: "(nat \<Rightarrow> s16) \<Rightarrow> u8 list" where
  "s16_bytes f = concat (map (\<lambda>i. [lo8 (f i), hi8 (f i)]) [0..<6])"

definition s16_fill :: "(nat \<Rightarrow> s16) \<Rightarrow> u8 list \<Rightarrow> nat \<Rightarrow> s16" where
  "s16_fill f bs = (\<lambda>i. if i < 6 then be16 (bs ! (2 * i + 1)) (bs ! (2 * i)) else f i)"

definition WriteAdcZeroToEEProm :: "nat \<Rightarrow> dev \<Rightarrow> dev" where
  "WriteAdcZeroToEEProm field_index d =
     AT24CXX_Write (if field_index = 0 then A_ADC_ZERO_ADDR else B_ADC_ZERO_ADDR)
       (s16_bytes (zero_val d field_index)) d"

definition ReadAdcZeroFromEEProm :: "nat \<Rightarrow> dev \<Rightarrow> dev" where
  "ReadAdcZeroFromEEProm field_index d =
     d\<lparr>zero_val := (zero_val d)(field_index := s16_fill (zero_val d field_index)
        (AT24CXX_Read d (if field_index = 0 then A_ADC_ZERO_ADDR else B_ADC_ZERO_ADDR) 12))\<rparr>"

definition WriteAdcBaseToEEProm :: "nat \<Rightarrow> dev \<Rightarrow> dev" where
  "WriteAdcBaseToEEProm field_index d =
     AT24CXX_Write (if field_index = 0 then A_ADC_BASE_ADDR else B_ADC_BASE_ADDR)
       (s16_bytes (base_val d field_index)) d"

definition ReadAdcBaseFromEEProm :: "nat \<Rightarrow> dev \<Rightarrow> dev" where
  "ReadAdcBaseFromEEProm field_index d =
     d\<lparr>base_val := (base_val d)(field_index := s16_fill (base_val d field_index)
        (AT24CXX_Read d (if field_index = 0 then A_ADC_BASE_ADDR else B_ADC_BASE_ADDR) 12))\<rparr>"

definition WriteAlmThrdToEEProm :: "dev \<Rightarrow> dev" where
  "WriteAlmThrdToEEProm d =
     (let d = AT24CXX_WriteOneByte ALM_THRD_ADDR (hi8 (alarm_threshold_up_dif d)) d;
          d = AT24CXX_WriteOneByte (ALM_THRD_ADDR + 1) (lo8 (alarm_threshold_up_dif d)) d;
          d = AT24CXX_WriteOneByte (ALM_THRD_ADDR + 2) (hi8 (alarm_threshold_down_dif d)) d
      in AT24CXX_WriteOneByte (ALM_THRD_ADDR + 3) (lo8 (alarm_threshold_down_dif d)) d)"

definition ReadAlmThrdFromEEProm :: "dev \<Rightarrow> dev" where
  "ReadAlmThrdFromEEProm d =
     d\<lparr>alarm_threshold_up_dif := be16 (AT24CXX_ReadOneByte d ALM_THRD_ADDR)
                                     (AT24CXX_ReadOneByte d (ALM_THRD_ADDR + 1)),
       alarm_threshold_down_dif := be16 (AT24CXX_ReadOneByte d (ALM_THRD_ADDR + 2))
                                       (AT24CXX_ReadOneByte d (ALM_THRD_ADDR + 3))\<rparr>"

definition WriteTensionMaxRangeToEEProm :: "dev \<Rightarrow> dev" where
  "WriteTensionMaxRangeToEEProm d =
     AT24CXX_WriteOneByte (TENSION_MAX_RANGE_ADDR + 1) (lo8 (tension_max_range d))
       (AT24CXX_WriteOneByte TENSION_MAX_RANGE_ADDR (hi8 (tension_max_range d)) d)"

definition ReadTensionMaxRangeFromEEProm :: "dev \<Rightarrow> dev" where
  "ReadTensionMaxRangeFromEEProm d =
     d\<lparr>tension_max_range := be16 (AT24CXX_ReadOneByte d TENSION_MAX_RANGE_ADDR)
                                (AT24CXX_ReadOneByte d (TENSION_MAX_RANGE_ADDR + 1))\<rparr>"

definition WriteBaseAutoCalibrateTimeToEEProm :: "dev \<Rightarrow> dev" where
  "WriteBaseAutoCalibrateTimeToEEProm d =
     AT24CXX_WriteOneByte (BASE_AUTO_CALIBRATE_TIME_ADDR + 1) (lo8 (base_auto_calibrate_time d))
       (AT24CXX_WriteOneByte BASE_AUTO_CALIBRATE_TIME_ADDR (hi8 (base_auto_calibrate_time d)) d)"

definition ReadBaseAutoCalibrateTimeFromEEProm :: "dev \<Rightarrow> dev" where
  "ReadBaseAutoCalibrateTimeFromEEProm d =
     d\<lparr>base_auto_calibrate_time :=
         be16 (AT24CXX_ReadOneByte d BASE_AUTO_CALIBRATE_TIME_ADDR)
              (AT24CXX_ReadOneByte d (BASE_AUTO_CALIBRATE_TIME_ADDR + 1))\<rparr>"

text \<open>
  The field parameters, eight bytes a zone.  \<^verbatim>\<open>addrTmp\<close> is a \<^verbatim>\<open>u8\<close> that every write increments.
\<close>

fun write_addrTmp :: "u8 \<Rightarrow> u8 list \<Rightarrow> dev \<Rightarrow> dev" where
  "write_addrTmp addrTmp [] d = d"
| "write_addrTmp addrTmp (b # bs) d =
     write_addrTmp (addrTmp + 1) bs (AT24CXX_WriteOneByte (ucast addrTmp) b d)"

definition WriteFieldPara_body :: "dev \<Rightarrow> nat \<Rightarrow> u8 list" where
  "WriteFieldPara_body d i =
     [field_num d i, hi8 (alarm_delay d i), lo8 (alarm_delay d i), alarm_sensitivity d i,
      hi8 (ten_val_range d i 0), lo8 (ten_val_range d i 0),
      hi8 (ten_val_range d i 1), lo8 (ten_val_range d i 1)]"

definition WriteFieldParaToEEProm :: "dev \<Rightarrow> dev" where
  "WriteFieldParaToEEProm d =
     write_addrTmp (ucast FieldParaAddr) (WriteFieldPara_body d 0 @ WriteFieldPara_body d 1) d"

definition ReadFieldPara_body :: "u8 \<Rightarrow> nat \<Rightarrow> dev \<Rightarrow> dev" where
  "ReadFieldPara_body addrTmp i d =
     (let rd = (\<lambda>k. AT24CXX_ReadOneByte d (ucast (addrTmp + k)))
      in d\<lparr>field_num := (field_num d)(i := rd 0),
           alarm_delay := (alarm_delay d)(i := be16 (rd 1) (rd 2)),
           alarm_sensitivity := (alarm_sensitivity d)(i := rd 3),
           ten_val_range := (ten_val_range d)
             (i := (ten_val_range d i)(0 := be16 (rd 4) (rd 5), 1 := be16 (rd 6) (rd 7)))\<rparr>)"

definition ReadFieldParaFromEEProm :: "dev \<Rightarrow> dev" where
  "ReadFieldParaFromEEProm d =
     (let addrTmp = ucast FieldParaAddr
      in ReadFieldPara_body (addrTmp + 8) 1 (ReadFieldPara_body addrTmp 0 d))"

definition controlPara :: "dev \<Rightarrow> u8" where
  "controlPara d = push_bit 2 (flag_fcgjsn d AND 0x01) OR push_bit 1 (BU_FANG_B_FLAG d AND 0x01)
                   OR (BU_FANG_A_FLAG d AND 0x01)"

definition WriteControlParaToEEProm :: "dev \<Rightarrow> dev" where
  "WriteControlParaToEEProm d = AT24CXX_Write ControlParaAddr [controlPara d] d"

definition ReadControlParaFromEEProm :: "dev \<Rightarrow> dev" where
  "ReadControlParaFromEEProm d =
     (let c = hd (AT24CXX_Read d ControlParaAddr 1)
      in d\<lparr>flag_fcgjsn := drop_bit 2 c AND 0x01, BU_FANG_B_FLAG := drop_bit 1 c AND 0x01,
           BU_FANG_A_FLAG := c AND 0x01\<rparr>)"

definition WriteSWValToEEProm :: "dev \<Rightarrow> dev" where
  "WriteSWValToEEProm d =
     AT24CXX_WriteOneByte (SWValAddr + 1) (SW_Type d 1)
       (AT24CXX_WriteOneByte SWValAddr (SW_Type d 0) d)"

definition ReadSWValToEEProm :: "dev \<Rightarrow> dev" where
  "ReadSWValToEEProm d =
     d\<lparr>SW_Type := (SW_Type d)(0 := AT24CXX_ReadOneByte d SWValAddr,
                             1 := AT24CXX_ReadOneByte d (SWValAddr + 1))\<rparr>"

definition WriteConfigCodeToEEProm :: "dev \<Rightarrow> dev" where
  "WriteConfigCodeToEEProm d = AT24CXX_WriteOneByte ConfigCodeAddr (config_code d) d"

definition ReadConfigCodeToEEProm :: "dev \<Rightarrow> dev" where
  "ReadConfigCodeToEEProm d = d\<lparr>config_code := AT24CXX_ReadOneByte d ConfigCodeAddr\<rparr>"

end
