(* ===== verification/ParamStore.thy ===== *)
theory ParamStore
  imports Eeprom
begin

text \<open>
  What the EEPROM driver promises to its callers.  \<open>byte_store\<close> is the interface of a store of
  bytes read and written one at a time, with the two loops over consecutive addresses; the driver
  of \<^verbatim>\<open>24cxx.c\<close> is its instance \<open>ee\<close>.  \<open>param_groups\<close> is the contract of a family of parameter
  groups kept at disjoint addresses; the twelve groups of \<^verbatim>\<open>24cxx.c\<close> are its instance \<open>nv\<close>.
\<close>

subsection \<open>A store of bytes\<close>

locale byte_store =
  fixes rd :: "'s \<Rightarrow> u16 \<Rightarrow> u8"
    and wr :: "u16 \<Rightarrow> u8 \<Rightarrow> 's \<Rightarrow> 's"
    and wrs :: "u16 \<Rightarrow> u8 list \<Rightarrow> 's \<Rightarrow> 's"
    and rds :: "'s \<Rightarrow> u16 \<Rightarrow> nat \<Rightarrow> u8 list"
  assumes rd_wr: "rd (wr a v s) b = (if b = a then v else rd s b)"
    and wrs_Nil: "wrs a [] s = s"
    and wrs_Cons: "wrs a (v # vs) s = wrs (a + 1) vs (wr a v s)"
    and rds_0: "rds s a 0 = []"
    and rds_Suc: "rds s a (Suc n) = rd s a # rds s (a + 1) n"
begin

text \<open>The offset of an address from the next one: \<open>2 ^ 16 - 1\<close> for the address itself.\<close>

lemma offset_next:
  "unat (b - (a + 1) :: u16) = (if b = a then 65535 else unat (b - a) - 1)"
proof (cases "b = a")
  case False
  then have "b - a \<noteq> 0" by simp
  then have "unat (b - a - 1) = unat (b - a) - 1"
    by (rule unat_minus_one)
  with False show ?thesis by (simp add: algebra_simps)
qed simp

lemma rd_wrs:
  assumes "length vs \<le> 65536"
  shows "rd (wrs a vs s) b = (if unat (b - a) < length vs then vs ! unat (b - a) else rd s b)"
  using assms
proof (induction vs arbitrary: a s)
  case Nil
  then show ?case by (simp add: wrs_Nil)
next
  case (Cons v vs)
  show ?case
  proof (cases "b = a")
    case True
    with Cons show ?thesis by (simp add: wrs_Cons rd_wr offset_next)
  next
    case False
    then have "unat (b - a) \<noteq> 0" by (simp add: unat_eq_zero)
    then obtain k where "unat (b - a) = Suc k" by (cases "unat (b - a)") auto
    with Cons False show ?thesis by (simp add: wrs_Cons rd_wr offset_next)
  qed
qed

lemma rd_wrs_outside:
  "length vs \<le> 65536 \<Longrightarrow> length vs \<le> unat (b - a) \<Longrightarrow> rd (wrs a vs s) b = rd s b"
  by (simp add: rd_wrs)

lemma length_rds [simp]: "length (rds s a n) = n"
  by (induction n arbitrary: a) (simp_all add: rds_0 rds_Suc)

lemma rds_nth: "i < n \<Longrightarrow> rds s a n ! i = rd s (a + of_nat i)"
proof (induction n arbitrary: a i)
  case (Suc n)
  then show ?case by (cases i) (simp_all add: rds_Suc algebra_simps)
qed simp

lemma rds_cong:
  "(\<And>i. i < n \<Longrightarrow> rd s (a + of_nat i) = rd t (a + of_nat i)) \<Longrightarrow> rds s a n = rds t a n"
  by (rule nth_equalityI) (simp_all add: rds_nth)

text \<open>What was written is read back.\<close>

lemma rds_wrs: "length vs \<le> 65535 \<Longrightarrow> rds (wrs a vs s) a (length vs) = vs"
  by (rule nth_equalityI) (auto simp: rds_nth rd_wrs unat_of_nat)

text \<open>A run elsewhere is not disturbed.\<close>

lemma rds_wrs_disjoint:
  assumes "unat a + length vs \<le> 65536" and "unat b + n \<le> 65536"
    and "unat a + length vs \<le> unat b \<or> unat b + n \<le> unat a"
  shows "rds (wrs a vs s) b n = rds s b n"
proof (rule rds_cong)
  fix i assume i: "i < n"
  have b': "unat (b + of_nat i) = unat b + i"
    using i assms by (simp add: unat_word_ariths unat_of_nat)
  have "length vs \<le> unat (b + of_nat i - a)"
  proof (cases "unat a + length vs \<le> unat b")
    case True
    then have "a \<le> b + of_nat i" using b' by (simp add: word_le_nat_alt)
    then show ?thesis using True b' by (simp add: unat_sub)
  next
    case False
    then have lt: "unat (b + of_nat i) < unat a" using assms i b' by linarith
    have "unat (b + of_nat i - a) = unat (b + of_nat i) + 65536 - unat a"
      using lt unsigned_less [of a] by (simp add: unat_sub_if_size word_size not_le)
    then show ?thesis using assms by linarith
  qed
  then show "rd (wrs a vs s) (b + of_nat i) = rd s (b + of_nat i)"
    using assms by (intro rd_wrs_outside) auto
qed

end

text \<open>The driver of \<^verbatim>\<open>24cxx.c\<close>.\<close>

interpretation ee: byte_store AT24CXX_ReadOneByte AT24CXX_WriteOneByte AT24CXX_Write AT24CXX_Read
  by unfold_locales auto

text \<open>Writes change nothing but the cells.\<close>

lemma AT24CXX_Write_only_mem:
  "AT24CXX_Write a bs d = d\<lparr>eemem := eemem (AT24CXX_Write a bs d)\<rparr>"
proof (induction bs arbitrary: a d)
  case (Cons b bs)
  show ?case using Cons.IH [of "a + 1" "d\<lparr>eemem := (eemem d)(a := b)\<rparr>"] by simp
qed simp

lemma eemem_Write:
  "length bs \<le> 65536 \<Longrightarrow>
   eemem (AT24CXX_Write a bs d) b = (if unat (b - a) < length bs then bs ! unat (b - a) else eemem d b)"
  using ee.rd_wrs [of bs a d b] by simp

subsection \<open>Groups of parameters at disjoint addresses\<close>

text \<open>
  \<open>image g d\<close> is what saving group \<open>g\<close> of the device \<open>d\<close> puts into the store, \<open>load\<close> the routine
  that reads it back.
\<close>

locale param_groups =
  fixes save :: "'g \<Rightarrow> dev \<Rightarrow> dev"
    and load :: "'g \<Rightarrow> dev \<Rightarrow> dev"
    and image :: "'g \<Rightarrow> dev \<Rightarrow> u8 list"
    and addr :: "'g \<Rightarrow> u16"
    and len :: "'g \<Rightarrow> nat"
  assumes save_writes: "save g d = AT24CXX_Write (addr g) (image g d) d"
    and length_image: "length (image g d) = len g"
    and image_load: "AT24CXX_Read d (addr g) (len g) = image g e \<Longrightarrow> image g (load g d) = image g e"
    and image_mem: "image g (d\<lparr>eemem := m\<rparr>) = image g d"
    and fits: "unat (addr g) + len g \<le> 224"
    and disjoint: "g \<noteq> g' \<Longrightarrow>
      unat (addr g) + len g \<le> unat (addr g') \<or> unat (addr g') + len g' \<le> unat (addr g)"
begin

definition stored :: "'g \<Rightarrow> dev \<Rightarrow> u8 list" where
  "stored g d = AT24CXX_Read d (addr g) (len g)"

lemma save_only_mem: "save g d = d\<lparr>eemem := eemem (save g d)\<rparr>"
  unfolding save_writes by (rule AT24CXX_Write_only_mem)

lemma image_save [simp]: "image g (save g' d) = image g d"
  by (subst save_only_mem) (rule image_mem)

lemma stored_save_same: "stored g (save g d) = image g d"
proof -
  have "len g \<le> 65535" using fits [of g] by simp
  then have "AT24CXX_Read (AT24CXX_Write (addr g) (image g d) d) (addr g) (length (image g d)) = image g d"
    by (intro ee.rds_wrs) (simp add: length_image)
  then show ?thesis by (simp add: stored_def save_writes length_image)
qed

lemma stored_save_other: "g \<noteq> g' \<Longrightarrow> stored g (save g' d) = stored g d"
  using fits [of g] fits [of g'] disjoint [of g g']
  by (auto simp: stored_def save_writes length_image intro!: ee.rds_wrs_disjoint)

lemma stored_save: "stored g (save g' d) = (if g = g' then image g d else stored g d)"
  by (simp add: stored_save_same stored_save_other)

lemma image_fold_save [simp]: "image g (fold save gs d) = image g d"
  by (induction gs arbitrary: d) auto

lemma stored_fold_save:
  "stored g (fold save gs d) = (if g \<in> set gs then image g d else stored g d)"
  by (induction gs arbitrary: d) (auto simp: stored_save)

text \<open>Saving groups in any order and any number of times, then loading one of them.\<close>

lemma load_fold_save: "g \<in> set gs \<Longrightarrow> image g (load g (fold save gs d)) = image g d"
  by (rule image_load) (simp add: stored_fold_save [unfolded stored_def])

lemma save_leaves_high: "224 \<le> unat b \<Longrightarrow> eemem (save g d) b = eemem d b"
proof -
  assume b: "224 \<le> unat b"
  have "addr g \<le> b" using b fits [of g] by (simp add: word_le_nat_alt)
  then have "unat (b - addr g) = unat b - unat (addr g)" by (simp add: unat_sub)
  then have "length (image g d) \<le> unat (b - addr g)"
    using b fits [of g] by (simp add: length_image)
  then show ?thesis
    using fits [of g] by (simp add: save_writes eemem_Write length_image)
qed

end

datatype nv_group =
    NvNet | NvConfig | NvZeroA | NvZeroB | NvBaseA | NvBaseB | NvThrd | NvControl | NvSw
  | NvRange | NvAuto | NvField

fun nv_save :: "nv_group \<Rightarrow> dev \<Rightarrow> dev" where
  "nv_save NvNet = WriteNetParasToEEProm"
| "nv_save NvConfig = WriteConfigCodeToEEProm"
| "nv_save NvZeroA = WriteAdcZeroToEEProm 0"
| "nv_save NvZeroB = WriteAdcZeroToEEProm 1"
| "nv_save NvBaseA = WriteAdcBaseToEEProm 0"
| "nv_save NvBaseB = WriteAdcBaseToEEProm 1"
| "nv_save NvThrd = WriteAlmThrdToEEProm"
| "nv_save NvControl = WriteControlParaToEEProm"
| "nv_save NvSw = WriteSWValToEEProm"
| "nv_save NvRange = WriteTensionMaxRangeToEEProm"
| "nv_save NvAuto = WriteBaseAutoCalibrateTimeToEEProm"
| "nv_save NvField = WriteFieldParaToEEProm"

fun nv_load :: "nv_group \<Rightarrow> dev \<Rightarrow> dev" where
  "nv_load NvNet = ReadNetParasFromEEProm"
| "nv_load NvConfig = ReadConfigCodeToEEProm"
| "nv_load NvZeroA = ReadAdcZeroFromEEProm 0"
| "nv_load NvZeroB = ReadAdcZeroFromEEProm 1"
| "nv_load NvBaseA = ReadAdcBaseFromEEProm 0"
| "nv_load NvBaseB = ReadAdcBaseFromEEProm 1"
| "nv_load NvThrd = ReadAlmThrdFromEEProm"
| "nv_load NvControl = ReadControlParaFromEEProm"
| "nv_load NvSw = ReadSWValToEEProm"
| "nv_load NvRange = ReadTensionMaxRangeFromEEProm"
| "nv_load NvAuto = ReadBaseAutoCalibrateTimeFromEEProm"
| "nv_load NvField = ReadFieldParaFromEEProm"

fun nv_image :: "nv_group \<Rightarrow> dev \<Rightarrow> u8 list" where
  "nv_image NvNet d = map (lw_mac d) [0..<6] @ map (lw_ip d) [0..<4] @ map (lw_netmask d) [0..<4]
                      @ map (lw_gateway d) [0..<4]"
| "nv_image NvConfig d = [config_code d]"
| "nv_image NvZeroA d = s16_bytes (zero_val d 0)"
| "nv_image NvZeroB d = s16_bytes (zero_val d 1)"
| "nv_image NvBaseA d = s16_bytes (base_val d 0)"
| "nv_image NvBaseB d = s16_bytes (base_val d 1)"
| "nv_image NvThrd d = [hi8 (alarm_threshold_up_dif d), lo8 (alarm_threshold_up_dif d),
                        hi8 (alarm_threshold_down_dif d), lo8 (alarm_threshold_down_dif d)]"
| "nv_image NvControl d = [controlPara d]"
| "nv_image NvSw d = [SW_Type d 0, SW_Type d 1]"
| "nv_image NvRange d = [hi8 (tension_max_range d), lo8 (tension_max_range d)]"
| "nv_image NvAuto d = [hi8 (base_auto_calibrate_time d), lo8 (base_auto_calibrate_time d)]"
| "nv_image NvField d = WriteFieldPara_body d 0 @ WriteFieldPara_body d 1"

fun nv_addr :: "nv_group \<Rightarrow> u16" where
  "nv_addr NvNet = NetParaAddr"
| "nv_addr NvConfig = ConfigCodeAddr"
| "nv_addr NvZeroA = A_ADC_ZERO_ADDR"
| "nv_addr NvZeroB = B_ADC_ZERO_ADDR"
| "nv_addr NvBaseA = A_ADC_BASE_ADDR"
| "nv_addr NvBaseB = B_ADC_BASE_ADDR"
| "nv_addr NvThrd = ALM_THRD_ADDR"
| "nv_addr NvControl = ControlParaAddr"
| "nv_addr NvSw = SWValAddr"
| "nv_addr NvRange = TENSION_MAX_RANGE_ADDR"
| "nv_addr NvAuto = BASE_AUTO_CALIBRATE_TIME_ADDR"
| "nv_addr NvField = FieldParaAddr"

fun nv_len :: "nv_group \<Rightarrow> nat" where
  "nv_len NvNet = 18" | "nv_len NvConfig = 1"
| "nv_len NvZeroA = 12" | "nv_len NvZeroB = 12" | "nv_len NvBaseA = 12" | "nv_len NvBaseB = 12"
| "nv_len NvThrd = 4" | "nv_len NvControl = 1" | "nv_len NvSw = 2" | "nv_len NvRange = 2"
| "nv_len NvAuto = 2" | "nv_len NvField = 16"

lemma upt_4: "[0..<4] = [0, 1, 2, 3 :: nat]" and upt_6: "[0..<6] = [0, 1, 2, 3, 4, 5 :: nat]"
  by (simp_all add: upt_conv_Cons)

lemma Read_numeral:
  "AT24CXX_Read d a (numeral n) = AT24CXX_ReadOneByte d a # AT24CXX_Read d (a + 1) (pred_numeral n)"
  by (simp add: numeral_eq_Suc)

lemma Write_append: "AT24CXX_Write a (bs @ cs) d = AT24CXX_Write (a + of_nat (length bs)) cs (AT24CXX_Write a bs d)"
  by (induction bs arbitrary: a d) (simp_all add: algebra_simps)

lemma nv_save_writes: "nv_save g d = AT24CXX_Write (nv_addr g) (nv_image g d) d"
  by (cases g)
     (simp_all add: WriteNetParasToEEProm_def WriteConfigCodeToEEProm_def WriteAdcZeroToEEProm_def
       WriteAdcBaseToEEProm_def WriteAlmThrdToEEProm_def WriteControlParaToEEProm_def
       WriteSWValToEEProm_def WriteTensionMaxRangeToEEProm_def
       WriteBaseAutoCalibrateTimeToEEProm_def WriteFieldParaToEEProm_def WriteFieldPara_body_def
       Let_def upt_4 upt_6)

lemma s16_bytes_fill:
  "length bs = 12 \<Longrightarrow> s16_bytes (s16_fill f bs) = bs"
  by (auto simp: s16_bytes_def s16_fill_def upt_6 length_Suc_conv numeral_eq_Suc)

text \<open>The control byte packs bit 0 of three flags; loading it unpacks them.\<close>

lemma bit_push_low: "bit (push_bit k (x AND 1) :: u8) n \<longleftrightarrow> k < 8 \<and> n = k \<and> bit x 0"
  by (cases "bit x 0")
     (auto simp: and_one_eq bit_push_bit_iff bit_1_iff mod2_eq_if bit_0 bit_exp_iff possible_bit_word)

lemma bit_controlPara:
  "bit (controlPara d) n \<longleftrightarrow> n = 0 \<and> bit (BU_FANG_A_FLAG d) 0 \<or> n = 1 \<and> bit (BU_FANG_B_FLAG d) 0
     \<or> n = 2 \<and> bit (flag_fcgjsn d) 0"
  using bit_push_low [of 0 "BU_FANG_A_FLAG d" n] bit_push_low [of 1 "BU_FANG_B_FLAG d" n]
    bit_push_low [of 2 "flag_fcgjsn d" n]
  by (auto simp only: controlPara_def bit_or_iff push_bit_0_id id_apply)

lemma bit_ReadControlPara:
  "bit (flag_fcgjsn (ReadControlParaFromEEProm d)) 0 \<longleftrightarrow> bit (eemem d ControlParaAddr) 2"
  "bit (BU_FANG_B_FLAG (ReadControlParaFromEEProm d)) 0 \<longleftrightarrow> bit (eemem d ControlParaAddr) 1"
  "bit (BU_FANG_A_FLAG (ReadControlParaFromEEProm d)) 0 \<longleftrightarrow> bit (eemem d ControlParaAddr) 0"
  by (simp_all add: ReadControlParaFromEEProm_def Let_def bit_simps numeral_eq_Suc)

lemma controlPara_load:
  "eemem d ControlParaAddr = controlPara e \<Longrightarrow> controlPara (ReadControlParaFromEEProm d) = controlPara e"
  by (rule bit_word_eqI) (auto simp: bit_controlPara bit_ReadControlPara)

lemma length_s16_bytes [simp]: "length (s16_bytes f) = 12"
  by (simp add: s16_bytes_def upt_6)

lemma nv_image_load:
  assumes "AT24CXX_Read d (nv_addr g) (nv_len g) = nv_image g e"
  shows "nv_image g (nv_load g d) = nv_image g e"
proof (cases g)
  case NvControl
  with assms show ?thesis by (simp add: controlPara_load)
next
  case NvField
  with assms show ?thesis
    by (simp add: ReadFieldParaFromEEProm_def ReadFieldPara_body_def WriteFieldPara_body_def Let_def
        Read_numeral)
qed (use assms in \<open>simp_all add: ReadNetParasFromEEProm_def ReadConfigCodeToEEProm_def
      ReadAdcZeroFromEEProm_def ReadAdcBaseFromEEProm_def ReadAlmThrdFromEEProm_def
      ReadSWValToEEProm_def ReadTensionMaxRangeFromEEProm_def s16_bytes_fill
      ReadBaseAutoCalibrateTimeFromEEProm_def Let_def Read_numeral upt_4 upt_6 fill_def\<close>)

lemma nv_image_mem: "nv_image g (d\<lparr>eemem := m\<rparr>) = nv_image g d"
  by (cases g) (simp_all add: WriteFieldPara_body_def controlPara_def)

lemma length_nv_image: "length (nv_image g d) = nv_len g"
  by (cases g) (simp_all add: s16_bytes_def upt_6 WriteFieldPara_body_def)

lemma nv_fits: "unat (nv_addr g) + nv_len g \<le> 224"
  by (cases g) simp_all

lemma nv_disjoint:
  "g \<noteq> g' \<Longrightarrow> unat (nv_addr g) + nv_len g \<le> unat (nv_addr g') \<or> unat (nv_addr g') + nv_len g' \<le> unat (nv_addr g)"
  by (cases g; cases g') simp_all

interpretation nv: param_groups nv_save nv_load nv_image nv_addr nv_len
  by unfold_locales
     (rule nv_save_writes length_nv_image nv_image_load nv_image_mem nv_fits nv_disjoint; assumption?)+

end
