(* ===== verification/EventLog.thy ===== *)
theory EventLog
  imports ParamStore
begin

text \<open>
  \<^verbatim>\<open>HARDWARE/LOG/log.c\<close>: five event logs, one per kind of event, each a ring of 300 records of 20
  bytes in the EEPROM: the time of the event (\<^verbatim>\<open>rtcTempStr\<close>, 19 characters) and a flag byte.  The
  write position of log \<open>t\<close> is kept in RAM (\<open>nextWriteAddrVal\<close>) and in the EEPROM; a record whose
  first byte is \<^verbatim>\<open>0xFF\<close> is free.  The cursor \<open>crtReadAddrVal\<close> walks from the newest record to the
  oldest.

  The log type is the index of arrays of five and is taken below five, as every caller but the web
  request guarantees.  \<open>log_wf\<close> is the ring's invariant and \<open>log_abs\<close> the list of records, newest
  first, that it stands for.
\<close>

subsection \<open>Layout (log.h)\<close>

abbreviation (input) LOG_MIDDLE :: u8 where "LOG_MIDDLE \<equiv> 0"
abbreviation (input) LOG_END :: u8 where "LOG_END \<equiv> 1"
abbreviation (input) LOG_HEAD :: u8 where "LOG_HEAD \<equiv> 2"
abbreviation (input) WEB_PAGE_READ_UP :: u8 where "WEB_PAGE_READ_UP \<equiv> 0"
abbreviation (input) WEB_PAGE_READ_DOWN :: u8 where "WEB_PAGE_READ_DOWN \<equiv> 1"
abbreviation (input) LCD_PAGE_READ_UP :: u8 where "LCD_PAGE_READ_UP \<equiv> 0"
abbreviation (input) LCD_PAGE_READ_DOWN :: u8 where "LCD_PAGE_READ_DOWN \<equiv> 1"
abbreviation (input) LOG_TYPE_BOPN :: nat where "LOG_TYPE_BOPN \<equiv> 0"
abbreviation (input) LOG_TYPE_BIVD :: nat where "LOG_TYPE_BIVD \<equiv> 1"
abbreviation (input) LOG_TYPE_AOPN :: nat where "LOG_TYPE_AOPN \<equiv> 2"
abbreviation (input) LOG_TYPE_AIVD :: nat where "LOG_TYPE_AIVD \<equiv> 3"
abbreviation (input) LOG_TYPE_FC :: nat where "LOG_TYPE_FC \<equiv> 4"

definition LOG_NEXT_W_ADDR :: "nat \<Rightarrow> u16" where
  "LOG_NEXT_W_ADDR t = of_nat (0x00E0 + t * 2)"

definition EACH_TYPE_LOG_BASED_ADDR :: "nat \<Rightarrow> u32" where
  "EACH_TYPE_LOG_BASED_ADDR t = of_nat (0x0100 + 6000 * t)"

definition EACH_TYPE_LOG_MAX_ADDR :: "nat \<Rightarrow> u32" where
  "EACH_TYPE_LOG_MAX_ADDR t = EACH_TYPE_LOG_BASED_ADDR t + 6000 - 20"

subsection \<open>Tests on the ring\<close>

definition isReadLoopEnd :: "nat \<Rightarrow> dev \<Rightarrow> bool" where
  "isReadLoopEnd t d \<longleftrightarrow> crtReadAddrVal d t = nextWriteAddrVal d t"

definition isLogFull :: "nat \<Rightarrow> dev \<Rightarrow> bool" where
  "isLogFull t d \<longleftrightarrow> AT24CXX_ReadOneByte d (ucast (EACH_TYPE_LOG_MAX_ADDR t)) \<noteq> 0xFF"

definition isWebLogPageOverOne :: "nat \<Rightarrow> dev \<Rightarrow> bool" where
  "isWebLogPageOverOne t d \<longleftrightarrow>
     (if isLogFull t d then True
      else EACH_TYPE_LOG_BASED_ADDR t + 10 * 20 < nextWriteAddrVal d t)"

definition isLCDLogPageOverOne :: "nat \<Rightarrow> dev \<Rightarrow> bool" where
  "isLCDLogPageOverOne t d \<longleftrightarrow>
     (if isLogFull t d then True
      else EACH_TYPE_LOG_BASED_ADDR t + 3 * 20 < nextWriteAddrVal d t)"

definition updateLogPageFlag :: "nat \<Rightarrow> u8 \<Rightarrow> dev \<Rightarrow> dev" where
  "updateLogPageFlag t logFlag d =
     (let d = (if isWebLogPageOverOne t d then d\<lparr>webLogPageFlag := logFlag\<rparr>
               else d\<lparr>webLogPageFlag := webLogPageFlag d OR logFlag\<rparr>)
      in if isLCDLogPageOverOne t d then d\<lparr>LCDLogPageFlag := logFlag\<rparr>
         else d\<lparr>LCDLogPageFlag := LCDLogPageFlag d OR logFlag\<rparr>)"

definition getWebLogPageTotal :: "nat \<Rightarrow> dev \<Rightarrow> u8" where
  "getWebLogPageTotal t d =
     (if isLogFull t d then 30
      else if nextWriteAddrVal d t = EACH_TYPE_LOG_BASED_ADDR t then 1
      else ucast ((nextWriteAddrVal d t - 20 - EACH_TYPE_LOG_BASED_ADDR t) div 20 div 10 + 1))"

subsection \<open>Start-up and writing\<close>

definition Log_Init_body :: "nat \<Rightarrow> dev \<Rightarrow> dev" where
  "Log_Init_body t d =
     (let d = d\<lparr>nextWriteAddrVal :=
                 (nextWriteAddrVal d)(t := AT24CXX_ReadLenByte d (LOG_NEXT_W_ADDR t) 2)\<rparr>
      in if nextWriteAddrVal d t = 0xffff
         then let d = d\<lparr>nextWriteAddrVal := (nextWriteAddrVal d)(t := EACH_TYPE_LOG_BASED_ADDR t)\<rparr>
              in AT24CXX_WriteLenByte (LOG_NEXT_W_ADDR t) (nextWriteAddrVal d t) 2 d
         else d)"

definition Log_Init :: "dev \<Rightarrow> dev" where
  "Log_Init d =
     (let d = fold Log_Init_body [0..<5] d
      in d\<lparr>lastWebPageReadDir := WEB_PAGE_READ_DOWN, lastLCDPageReadDir := LCD_PAGE_READ_DOWN\<rparr>)"

text \<open>\<^verbatim>\<open>rtcTempStr\<close> is an array of 19 bytes; clearing the LCD page writes zeros to its three rows.\<close>

definition WriteLog :: "nat \<Rightarrow> u8 \<Rightarrow> dev \<Rightarrow> dev" where
  "WriteLog t alarmFlag d =
     (let logDataStr = rtcTempStr d @ [alarmFlag];
          d = AT24CXX_Write (ucast (nextWriteAddrVal d t)) logDataStr d;
          d = d\<lparr>nextWriteAddrVal := (nextWriteAddrVal d)(t := nextWriteAddrVal d t + 20)\<rparr>;
          d = (if nextWriteAddrVal d t > EACH_TYPE_LOG_MAX_ADDR t
               then d\<lparr>nextWriteAddrVal := (nextWriteAddrVal d)(t := EACH_TYPE_LOG_BASED_ADDR t)\<rparr>
               else d);
          d = AT24CXX_WriteLenByte (LOG_NEXT_W_ADDR t) (nextWriteAddrVal d t) 2 d
      in d\<lparr>crtWebPageLogData := [], lastWebPageReadDir := WEB_PAGE_READ_DOWN,
           crtLCDPageLogData := (\<lambda>i. replicate 20 0), lastLCDPageReadDir := LCD_PAGE_READ_DOWN\<rparr>)"

subsection \<open>Walking the ring\<close>

text \<open>The second component is \<^verbatim>\<open>logDataStr\<close>, twenty bytes.\<close>

definition set_crt :: "nat \<Rightarrow> u32 \<Rightarrow> dev \<Rightarrow> dev" where
  "set_crt t a d = d\<lparr>crtReadAddrVal := (crtReadAddrVal d)(t := a)\<rparr>"

definition read_record :: "nat \<Rightarrow> dev \<Rightarrow> u8 list" where
  "read_record t d = (AT24CXX_Read d (ucast (crtReadAddrVal d t)) 20)[19 := 0]"

definition ReadNextLog :: "nat \<Rightarrow> dev \<Rightarrow> dev \<times> u8 list" where
  "ReadNextLog t d =
     (if crtReadAddrVal d t = EACH_TYPE_LOG_BASED_ADDR t \<and> \<not> isLogFull t d
      then (updateLogPageFlag t LOG_END d, replicate 20 0)
      else
        let d = (if crtReadAddrVal d t = EACH_TYPE_LOG_BASED_ADDR t
                 then set_crt t (EACH_TYPE_LOG_MAX_ADDR t) d
                 else set_crt t (crtReadAddrVal d t - 20) d);
            logDataStr = read_record t d
        in if isLogFull t d
           then if crtReadAddrVal d t = nextWriteAddrVal d t
                then (updateLogPageFlag t LOG_END d, logDataStr) else (d, logDataStr)
           else if crtReadAddrVal d t = EACH_TYPE_LOG_BASED_ADDR t
                then (updateLogPageFlag t LOG_END d, logDataStr) else (d, logDataStr))"

definition ReadFirstLog :: "nat \<Rightarrow> dev \<Rightarrow> dev \<times> u8 list" where
  "ReadFirstLog t d = ReadNextLog t (set_crt t (nextWriteAddrVal d t) d)"

definition ReadPreviousLog :: "nat \<Rightarrow> dev \<Rightarrow> dev \<times> u8 list" where
  "ReadPreviousLog t d =
     (if crtReadAddrVal d t \<noteq> EACH_TYPE_LOG_MAX_ADDR t
         \<and> crtReadAddrVal d t = nextWriteAddrVal d t - 20
      then (updateLogPageFlag t LOG_HEAD (set_crt t (nextWriteAddrVal d t) d), replicate 20 0)
      else
        let d = (if crtReadAddrVal d t = EACH_TYPE_LOG_MAX_ADDR t
                 then set_crt t (EACH_TYPE_LOG_BASED_ADDR t) d
                 else set_crt t (crtReadAddrVal d t + 20) d);
            logDataStr = read_record t d
        in if crtReadAddrVal d t = nextWriteAddrVal d t - 20
           then (updateLogPageFlag t LOG_HEAD d, logDataStr) else (d, logDataStr))"

subsection \<open>Web pages\<close>

text \<open>
  \<^verbatim>\<open>strcat\<close> appends the bytes before the first zero; 35 is \<^verbatim>\<open>#\<close>.  The page functions call
  \<^verbatim>\<open>ReadNextLog\<close> until the page is full or a record comes back empty; \<open>n\<close> is the number of rounds
  left and \<open>i\<close> the loop counter.
\<close>

definition cstr :: "u8 list \<Rightarrow> u8 list" where
  "cstr bs = takeWhile (\<lambda>b. b \<noteq> 0) bs"

text \<open>
  The array \<^verbatim>\<open>crtWebPageLogData\<close> has \<^verbatim>\<open>EACH_WEB_PAGE_LOG_NUM * EACH_LOG_SIZE\<close> = 200 bytes, and \<^verbatim>\<open>strcat\<close> writes the terminator of
  a text of \<open>n\<close> characters at index \<open>n\<close>: a page of 200 characters has it one byte behind the array.  That byte (the
  first of \<^verbatim>\<open>crtWebPageLogDataTmp\<close>, which is cleared before each use, when the arrays follow each other as declared) is
  taken to keep the zero until the page is sent; the write itself is recorded.
\<close>

definition set_web_page :: "u8 list \<Rightarrow> dev \<Rightarrow> dev" where
  "set_web_page page d = d\<lparr>crtWebPageLogData := page, web_page_overrun := (web_page_overrun d \<or> 200 \<le> length page)\<rparr>"

declare set_web_page_def [simp]

fun web_down_loop :: "nat \<Rightarrow> nat \<Rightarrow> u8 \<Rightarrow> dev \<Rightarrow> dev \<times> u8" where
  "web_down_loop t 0 i d = (d, i)"
| "web_down_loop t (Suc n) i d =
     (let (d, logTmp) = ReadNextLog t d
      in if hd logTmp = 0 then (d, i)
         else web_down_loop t n (i + 1)
                (set_web_page (crtWebPageLogData d @ cstr logTmp @ [35]) d))"

definition ReadWebFirstPageLog :: "nat \<Rightarrow> dev \<Rightarrow> dev" where
  "ReadWebFirstPageLog t d =
     (let d = d\<lparr>crtWebLogPageNum := 1, webLogPageFlag := LOG_HEAD, lastWebPageLogNum := 0,
                crtWebPageLogData := [], lastWebPageReadDir := WEB_PAGE_READ_DOWN\<rparr>;
          (d, logTmp) = ReadFirstLog t d
      in if hd logTmp = 0 then d
         else let (d, i) = web_down_loop t 9 1
                             (set_web_page (crtWebPageLogData d @ cstr logTmp @ [35]) d)
              in d\<lparr>lastWebPageLogNum := i\<rparr>)"

text \<open>The step the cursor makes when the reading direction changes, computed in \<^verbatim>\<open>int\<close>.\<close>

definition page_turn :: "u8 \<Rightarrow> u32" where
  "page_turn lastNum = of_int ((uint lastNum - 1) * 20)"

definition ReadWebNextPageLog :: "nat \<Rightarrow> dev \<Rightarrow> dev" where
  "ReadWebNextPageLog t d =
     (let d = d\<lparr>crtWebLogPageNum := crtWebLogPageNum d + 1, webLogPageFlag := LOG_MIDDLE\<rparr>;
          d = (if lastWebPageReadDir d = WEB_PAGE_READ_UP
               then (set_crt t (crtReadAddrVal d t - page_turn (lastWebPageLogNum d)) d)
                      \<lparr>lastWebPageReadDir := WEB_PAGE_READ_DOWN\<rparr>
               else d);
          (d, i) = web_down_loop t 10 0 (d\<lparr>crtWebPageLogData := []\<rparr>)
      in d\<lparr>lastWebPageLogNum := i\<rparr>)"

text \<open>
  Backwards the page so far goes through the array \<^verbatim>\<open>crtWebPageLogDataTmp\<close> of the same size; it holds at most nine records
  of twenty characters then, so its copy has a terminator.
\<close>

fun web_up_loop :: "nat \<Rightarrow> nat \<Rightarrow> u8 \<Rightarrow> dev \<Rightarrow> dev \<times> u8" where
  "web_up_loop t 0 i d = (d, i)"
| "web_up_loop t (Suc n) i d =
     (let (d, logTmp) = ReadPreviousLog t d
      in if hd logTmp = 0 then (d, i)
         else web_up_loop t n (i + 1)
                (set_web_page (cstr logTmp @ [35] @ crtWebPageLogData d) d))"

definition ReadWebPreviousPageLog :: "nat \<Rightarrow> dev \<Rightarrow> dev" where
  "ReadWebPreviousPageLog t d =
     (let d = d\<lparr>crtWebLogPageNum := crtWebLogPageNum d - 1, webLogPageFlag := LOG_MIDDLE\<rparr>;
          d = (if lastWebPageReadDir d = WEB_PAGE_READ_DOWN
               then (set_crt t (crtReadAddrVal d t + page_turn (lastWebPageLogNum d)) d)
                      \<lparr>lastWebPageReadDir := WEB_PAGE_READ_UP\<rparr>
               else d);
          (d, i) = web_up_loop t 10 0 (d\<lparr>crtWebPageLogData := []\<rparr>)
      in d\<lparr>lastWebPageLogNum := i\<rparr>)"

subsection \<open>LCD pages\<close>

definition put_row :: "nat \<Rightarrow> u8 list \<Rightarrow> dev \<Rightarrow> dev" where
  "put_row r bs d = d\<lparr>crtLCDPageLogData := (crtLCDPageLogData d)(r := bs)\<rparr>"

fun lcd_down_loop :: "nat \<Rightarrow> nat \<Rightarrow> u8 \<Rightarrow> dev \<Rightarrow> dev \<times> u8" where
  "lcd_down_loop t 0 i d = (d, i)"
| "lcd_down_loop t (Suc n) i d =
     (let (d, logTmp) = ReadNextLog t d
      in if hd logTmp = 0 then (d, i)
         else lcd_down_loop t n (i + 1) (put_row (unat i) logTmp d))"

definition ReadLCDFirstPageLog :: "nat \<Rightarrow> dev \<Rightarrow> dev" where
  "ReadLCDFirstPageLog t d =
     (let d = d\<lparr>LCDLogPageFlag := LOG_HEAD, crtLCDPageLogData := (\<lambda>i. replicate 20 0),
                lastLCDPageReadDir := LCD_PAGE_READ_DOWN\<rparr>;
          (d, logTmp) = ReadFirstLog t d
      in if hd logTmp = 0 then d
         else let (d, i) = lcd_down_loop t 2 1 (put_row 0 logTmp d)
              in d\<lparr>lastLCDPageLogNum := i\<rparr>)"

definition ReadLCDNextPageLog :: "nat \<Rightarrow> dev \<Rightarrow> dev" where
  "ReadLCDNextPageLog t d =
     (let d = d\<lparr>LCDLogPageFlag := LOG_MIDDLE\<rparr>;
          d = (if lastLCDPageReadDir d = LCD_PAGE_READ_UP
               then (set_crt t (crtReadAddrVal d t - page_turn (lastLCDPageLogNum d)) d)
                      \<lparr>lastLCDPageReadDir := LCD_PAGE_READ_DOWN\<rparr>
               else d);
          (d, i) = lcd_down_loop t 3 0 (d\<lparr>crtLCDPageLogData := (\<lambda>i. replicate 20 0)\<rparr>)
      in d\<lparr>lastLCDPageLogNum := i\<rparr>)"

fun lcd_up_loop :: "nat \<Rightarrow> nat \<Rightarrow> u8 \<Rightarrow> dev \<Rightarrow> dev \<times> u8" where
  "lcd_up_loop t 0 i d = (d, i)"
| "lcd_up_loop t (Suc n) i d =
     (let (d, logTmp) = ReadPreviousLog t d
      in if hd logTmp = 0 then (d, i)
         else lcd_up_loop t n (i + 1) (put_row (3 - 1 - unat i) logTmp d))"

definition ReadLCDPreviousPageLog :: "nat \<Rightarrow> dev \<Rightarrow> dev" where
  "ReadLCDPreviousPageLog t d =
     (let d = d\<lparr>LCDLogPageFlag := LOG_MIDDLE\<rparr>;
          d = (if lastLCDPageReadDir d = LCD_PAGE_READ_DOWN
               then (set_crt t (crtReadAddrVal d t + page_turn (lastLCDPageLogNum d)) d)
                      \<lparr>lastLCDPageReadDir := LCD_PAGE_READ_UP\<rparr>
               else d);
          (d, i) = lcd_up_loop t 3 0 (d\<lparr>crtLCDPageLogData := (\<lambda>i. replicate 20 0)\<rparr>)
      in d\<lparr>lastLCDPageLogNum := i\<rparr>)"

subsection \<open>Clearing\<close>

text \<open>
  \<^verbatim>\<open>while(eraseLen)\<close> with \<^verbatim>\<open>eraseLen -= 20\<close> on a \<^verbatim>\<open>u16\<close>: a length that no multiple of 20 reaches
  never becomes zero, and the model has the value \<^const>\<open>None\<close>.
\<close>

partial_function (option) FastEraseLogEEProm :: "u16 \<Rightarrow> u16 \<Rightarrow> dev \<Rightarrow> dev option" where
  "FastEraseLogEEProm eraseAddr eraseLen d =
     (if eraseLen = 0 then Some d
      else FastEraseLogEEProm (eraseAddr + 20) (eraseLen - 20)
             (AT24CXX_WriteOneByte eraseAddr 0xFF d))"

definition FastClearLog :: "nat \<Rightarrow> dev \<Rightarrow> dev option" where
  "FastClearLog t d =
     (let d = EraseEEProm (LOG_NEXT_W_ADDR t) 2 d;
          r = (if AT24CXX_ReadOneByte d (ucast (nextWriteAddrVal d t)) \<noteq> 0xFF
               then FastEraseLogEEProm (ucast (EACH_TYPE_LOG_BASED_ADDR t)) 6000 d
               else FastEraseLogEEProm (ucast (EACH_TYPE_LOG_BASED_ADDR t))
                      (ucast (nextWriteAddrVal d t - EACH_TYPE_LOG_BASED_ADDR t)) d)
      in case r of None \<Rightarrow> None | Some d \<Rightarrow> Some (Log_Init (d\<lparr>crtWebPageLogData := []\<rparr>)))"

definition ClearLog :: "nat \<Rightarrow> dev \<Rightarrow> dev option" where
  "ClearLog = FastClearLog"

definition FormatLogEEprom :: "dev \<Rightarrow> dev option" where
  "FormatLogEEprom d =
     Option.bind (FastClearLog LOG_TYPE_BOPN d) (\<lambda>d.
     Option.bind (FastClearLog LOG_TYPE_BIVD d) (\<lambda>d.
     Option.bind (FastClearLog LOG_TYPE_AOPN d) (\<lambda>d.
     Option.bind (FastClearLog LOG_TYPE_AIVD d) (\<lambda>d. FastClearLog LOG_TYPE_FC d))))"

definition ClearAllLog :: "dev \<Rightarrow> dev option" where
  "ClearAllLog = FormatLogEEprom"

end
