(* ===== verification/CString.thy ===== *)
theory CString
  imports Prelude "HOL-Library.Char_ord"
begin

text \<open>
  The part of the C string library the firmware uses, on HOL strings without the terminator: the
  conversions \<^verbatim>\<open>%d\<close>, \<^verbatim>\<open>%0<n>d\<close>, \<^verbatim>\<open>%02X\<close> and \<^verbatim>\<open>%02x\<close>, \<^verbatim>\<open>atoi\<close>, \<^verbatim>\<open>strtol\<close> in base ten with its end
  pointer, and \<^verbatim>\<open>strtok\<close>.  What \<^verbatim>\<open>%d\<close> prints, \<^verbatim>\<open>atoi\<close> reads back.
\<close>

subsection \<open>Printing numbers\<close>

definition digit_char :: "nat \<Rightarrow> char" where
  "digit_char n = char_of (48 + n)"

fun fmt_nat :: "nat \<Rightarrow> string" where
  "fmt_nat n = (if n < 10 then [digit_char n] else fmt_nat (n div 10) @ [digit_char (n mod 10)])"

declare fmt_nat.simps [simp del]

definition fmt_d :: "int \<Rightarrow> string" where
  "fmt_d x = (if x < 0 then CHR ''-'' # fmt_nat (nat (- x)) else fmt_nat (nat x))"

definition pad_left :: "nat \<Rightarrow> string \<Rightarrow> string" where
  "pad_left w s = replicate (w - length s) (CHR ''0'') @ s"

definition fmt_0d :: "nat \<Rightarrow> nat \<Rightarrow> string" where
  "fmt_0d w n = pad_left w (fmt_nat n)"

definition hex_upper :: "nat \<Rightarrow> char" where
  "hex_upper n = (if n < 10 then char_of (48 + n) else char_of (55 + n))"

definition hex_lower :: "nat \<Rightarrow> char" where
  "hex_lower n = (if n < 10 then char_of (48 + n) else char_of (87 + n))"

definition fmt_02X :: "u8 \<Rightarrow> string" where
  "fmt_02X b = [hex_upper (unat b div 16), hex_upper (unat b mod 16)]"

definition fmt_02x :: "u8 \<Rightarrow> string" where
  "fmt_02x b = [hex_lower (unat b div 16), hex_lower (unat b mod 16)]"

subsection \<open>Reading numbers\<close>

definition is_digit :: "char \<Rightarrow> bool" where
  "is_digit c \<longleftrightarrow> 48 \<le> (of_char c :: nat) \<and> (of_char c :: nat) \<le> 57"

definition is_space :: "char \<Rightarrow> bool" where
  "is_space c \<longleftrightarrow> (of_char c :: nat) = 32 \<or> 9 \<le> (of_char c :: nat) \<and> (of_char c :: nat) \<le> 13"

fun dec_value :: "nat \<Rightarrow> string \<Rightarrow> nat" where
  "dec_value a [] = a"
| "dec_value a (c # cs) = dec_value (a * 10 + (of_char c - 48)) cs"

text \<open>
  \<^verbatim>\<open>strtol(s, &end, 10)\<close>: the value, and the text at \<^verbatim>\<open>end\<close>.  Without a digit the value is zero
  and \<^verbatim>\<open>end\<close> is \<open>s\<close> itself.  The clamping of values beyond \<^verbatim>\<open>long\<close> is written out.
\<close>

definition clamp_long :: "int \<Rightarrow> int" where
  "clamp_long x = (if x > 2147483647 then 2147483647 else if x < - 2147483648 then - 2147483648 else x)"

definition strtol :: "string \<Rightarrow> int \<times> string" where
  "strtol s =
     (let t = dropWhile is_space s;
          neg = (t \<noteq> [] \<and> hd t = CHR ''-'');
          u = (if t \<noteq> [] \<and> (hd t = CHR ''-'' \<or> hd t = CHR ''+'') then tl t else t);
          ds = takeWhile is_digit u;
          v = int (dec_value 0 ds)
      in if ds = [] then (0, s) else (clamp_long (if neg then - v else v), dropWhile is_digit u))"

definition atoi :: "string \<Rightarrow> int" where
  "atoi s = fst (strtol s)"

subsection \<open>Tokens\<close>

text \<open>
  \<^verbatim>\<open>strtok(s, delims)\<close>: the next token and the text after the delimiter that ended it; \<open>None\<close> when
  only delimiters are left.
\<close>

definition strtok :: "char set \<Rightarrow> string \<Rightarrow> (string \<times> string) option" where
  "strtok delims s =
     (let t = dropWhile (\<lambda>c. c \<in> delims) s
      in if t = [] then None
         else Some (takeWhile (\<lambda>c. c \<notin> delims) t, tl (dropWhile (\<lambda>c. c \<notin> delims) t)))"

text \<open>\<^verbatim>\<open>strstr\<close>: the text from the first occurrence of the pattern on.\<close>

fun strstr :: "string \<Rightarrow> string \<Rightarrow> string option" where
  "strstr [] pat = (if pat = [] then Some [] else None)"
| "strstr (c # cs) pat = (if take (length pat) (c # cs) = pat then Some (c # cs) else strstr cs pat)"

subsection \<open>Round trips\<close>

lemma of_char_digit [simp]: "n < 10 \<Longrightarrow> (of_char (digit_char n) :: nat) = 48 + n"
  by (simp add: digit_char_def)

lemma is_digit_digit_char [simp]: "n < 10 \<Longrightarrow> is_digit (digit_char n)"
  by (simp add: is_digit_def)

lemma fmt_nat_digits: "\<forall>c\<in>set (fmt_nat n). is_digit c"
proof (induction n rule: fmt_nat.induct)
  case (1 n)
  then show ?case by (subst fmt_nat.simps) auto
qed

lemma fmt_nat_ne [simp]: "fmt_nat n \<noteq> []"
  by (subst fmt_nat.simps) simp

lemma dec_value_append: "dec_value a (xs @ ys) = dec_value (dec_value a xs) ys"
  by (induction xs arbitrary: a) simp_all

lemma dec_value_fmt_nat [simp]: "dec_value 0 (fmt_nat n) = n"
proof (induction n rule: fmt_nat.induct)
  case (1 n)
  show ?case
  proof (cases "n < 10")
    case True
    then show ?thesis by (subst fmt_nat.simps) simp
  next
    case False
    with 1 show ?thesis by (subst fmt_nat.simps) (simp add: dec_value_append)
  qed
qed

lemma dec_value_zeros: "dec_value 0 (replicate k (CHR ''0'') @ s) = dec_value 0 s"
  by (induction k) simp_all

lemma not_digit_minus: "\<not> is_digit (CHR ''-'')" and not_digit_plus: "\<not> is_digit (CHR ''+'')"
  by (simp_all add: is_digit_def)

lemma digit_not_space: "is_digit c \<Longrightarrow> \<not> is_space c"
  by (auto simp: is_digit_def is_space_def)

lemma strtol_digits:
  assumes "ds \<noteq> []" "\<forall>c\<in>set ds. is_digit c" "rest = [] \<or> \<not> is_digit (hd rest)"
  shows "strtol (ds @ rest) = (clamp_long (int (dec_value 0 ds)), rest)"
proof -
  obtain c cs where ds: "ds = c # cs" using assms(1) by (cases ds) auto
  have c: "\<not> is_space c" "c \<noteq> CHR ''-''" "c \<noteq> CHR ''+''"
    using assms(2) ds digit_not_space not_digit_minus not_digit_plus by auto
  have tw: "takeWhile is_digit (ds @ rest) = ds" "dropWhile is_digit (ds @ rest) = rest"
    using assms(2,3) by (cases rest; simp add: takeWhile_append2 dropWhile_append2)+
  from c tw show ?thesis by (simp add: strtol_def Let_def ds)
qed

lemma strtol_minus:
  assumes "ds \<noteq> []" "\<forall>c\<in>set ds. is_digit c" "rest = [] \<or> \<not> is_digit (hd rest)"
  shows "strtol (CHR ''-'' # ds @ rest) = (clamp_long (- int (dec_value 0 ds)), rest)"
proof -
  have tw: "takeWhile is_digit (ds @ rest) = ds" "dropWhile is_digit (ds @ rest) = rest"
    using assms(2,3) by (cases rest; simp add: takeWhile_append2 dropWhile_append2)+
  with assms(1) show ?thesis by (simp add: strtol_def Let_def is_space_def)
qed

lemma strtol_fmt_d:
  assumes "- 2147483648 \<le> x" "x \<le> 2147483647" "rest = [] \<or> \<not> is_digit (hd rest)"
  shows "strtol (fmt_d x @ rest) = (x, rest)"
  using assms strtol_digits [OF fmt_nat_ne fmt_nat_digits assms(3)]
    strtol_minus [OF fmt_nat_ne fmt_nat_digits assms(3)]
  by (auto simp: fmt_d_def clamp_long_def)

lemma atoi_fmt_d: "- 2147483648 \<le> x \<Longrightarrow> x \<le> 2147483647 \<Longrightarrow> atoi (fmt_d x) = x"
  using strtol_fmt_d [of x "[]"] by (simp add: atoi_def)

lemma atoi_fmt_0d: "int n \<le> 2147483647 \<Longrightarrow> atoi (fmt_0d w n) = int n"
proof -
  assume n: "int n \<le> 2147483647"
  have "\<forall>c\<in>set (fmt_0d w n). is_digit c"
    using fmt_nat_digits [of n] by (auto simp: fmt_0d_def pad_left_def is_digit_def)
  then have "strtol (fmt_0d w n @ []) = (clamp_long (int (dec_value 0 (fmt_0d w n))), [])"
    by (intro strtol_digits) (simp_all add: fmt_0d_def pad_left_def)
  with n show ?thesis
    by (simp add: atoi_def fmt_0d_def pad_left_def dec_value_zeros clamp_long_def)
qed

end
