(* ===== verification/Adc.thy ===== *)
theory Adc
  imports ParamStore CString "HOL-Library.Signed_Division"
begin

text \<open>
  \<^verbatim>\<open>HARDWARE/ADC/adc.c\<close>: sampling of the tension wires through the multiplexers, calibration of the
  zero and base values, and the corrected readings.  The converter is the field \<open>adc_src\<close>: what it
  answers to the \<open>n\<close>-th conversion on a channel, with the four select lines as they stand.
\<close>

abbreviation (input) ADC_A_Chn :: u8 where "ADC_A_Chn \<equiv> 12"
abbreviation (input) ADC_B_Chn :: u8 where "ADC_B_Chn \<equiv> 10"
abbreviation (input) ADC_AB_Chn :: u8 where "ADC_AB_Chn \<equiv> 13"
abbreviation (input) ADC_TIME_DEFAULT :: nat where "ADC_TIME_DEFAULT \<equiv> 20"
abbreviation (input) IS_W4 :: u8 where "IS_W4 \<equiv> 0"
abbreviation (input) IS_W6 :: u8 where "IS_W6 \<equiv> 1"
abbreviation (input) ON :: u8 where "ON \<equiv> 1"
abbreviation (input) OFF :: u8 where "OFF \<equiv> 0"

text \<open>An element of a two-dimensional array.\<close>

definition upd2 :: "nat \<Rightarrow> nat \<Rightarrow> 'a \<Rightarrow> (nat \<Rightarrow> nat \<Rightarrow> 'a) \<Rightarrow> nat \<Rightarrow> nat \<Rightarrow> 'a" where
  "upd2 i j v f = f(i := (f i)(j := v))"

definition line_count :: "dev \<Rightarrow> nat" where
  "line_count d = (if W4_W6 d = IS_W4 then 4 else 6)"

subsection \<open>Conversions\<close>

definition Get_Adc :: "u8 \<Rightarrow> dev \<Rightarrow> dev \<times> u16" where
  "Get_Adc ch d =
     (if init_done d = 0 then (d, 0)
      else (d\<lparr>adc_time := Suc (adc_time d)\<rparr>,
            adc_src d (adc_time d) ch (ADC_CTRL0 d, ADC_CTRL1 d, ADC_CTRL2 d, ADC_CTRL3 d)))"

fun Get_Adc_sum :: "u8 \<Rightarrow> nat \<Rightarrow> u32 \<Rightarrow> dev \<Rightarrow> dev \<times> u32" where
  "Get_Adc_sum ch 0 temp_val d = (d, temp_val)"
| "Get_Adc_sum ch (Suc n) temp_val d =
     (let (d, v) = Get_Adc ch d in Get_Adc_sum ch n (temp_val + ucast v) d)"

definition Get_Adc_Average :: "u8 \<Rightarrow> u8 \<Rightarrow> dev \<Rightarrow> dev \<times> u16" where
  "Get_Adc_Average ch cnt d =
     (let (d, temp_val) = Get_Adc_sum ch (unat cnt) 0 d in (d, ucast (temp_val div ucast cnt)))"

definition Get_Adc_Average_Def :: "u8 \<Rightarrow> dev \<Rightarrow> dev \<times> u16" where
  "Get_Adc_Average_Def ch d =
     (let (d, temp_val) = Get_Adc_sum ch ADC_TIME_DEFAULT 0 d in (d, ucast (temp_val div 20)))"

definition A_ADC_CK_EN :: "nat \<Rightarrow> dev \<Rightarrow> dev" where
  "A_ADC_CK_EN line_index d =
     (if line_index = 0 then d\<lparr>ADC_CTRL1 := True, ADC_CTRL0 := False\<rparr>
      else if line_index = 1 then d\<lparr>ADC_CTRL1 := False, ADC_CTRL0 := True\<rparr>
      else if line_index = 2 then d\<lparr>ADC_CTRL1 := False, ADC_CTRL0 := False\<rparr>
      else if line_index = 3 then d\<lparr>ADC_CTRL1 := True, ADC_CTRL0 := True\<rparr>
      else if line_index = 4 then d\<lparr>ADC_CTRL3 := True, ADC_CTRL2 := False\<rparr>
      else if line_index = 5 then d\<lparr>ADC_CTRL3 := False, ADC_CTRL2 := False\<rparr>
      else d)"

definition B_ADC_CK_EN :: "nat \<Rightarrow> dev \<Rightarrow> dev" where
  "B_ADC_CK_EN line_index d =
     (if line_index = 0 then d\<lparr>ADC_CTRL1 := False, ADC_CTRL0 := True\<rparr>
      else if line_index = 1 then d\<lparr>ADC_CTRL1 := True, ADC_CTRL0 := True\<rparr>
      else if line_index = 2 then d\<lparr>ADC_CTRL1 := True, ADC_CTRL0 := False\<rparr>
      else if line_index = 3 then d\<lparr>ADC_CTRL1 := False, ADC_CTRL0 := False\<rparr>
      else if line_index = 4 then d\<lparr>ADC_CTRL3 := True, ADC_CTRL2 := True\<rparr>
      else if line_index = 5 then d\<lparr>ADC_CTRL3 := False, ADC_CTRL2 := True\<rparr>
      else d)"

subsection \<open>Sampling\<close>

text \<open>One line: select it, convert, accumulate.  \<open>temp\<close> is \<^verbatim>\<open>temp_val\<close>.\<close>

definition sample_line :: "nat \<Rightarrow> nat \<Rightarrow> (nat \<Rightarrow> s32) \<times> dev \<Rightarrow> (nat \<Rightarrow> s32) \<times> dev" where
  "sample_line field_index i = (\<lambda>(temp, d).
     if field_index = 0
     then let (d, v) = Get_Adc (if i < 4 then ADC_A_Chn else ADC_AB_Chn) (A_ADC_CK_EN i d)
          in (temp(i := temp i + ucast v), d)
     else if field_index = 1
     then let (d, v) = Get_Adc (if i < 4 then ADC_B_Chn else ADC_AB_Chn) (B_ADC_CK_EN i d)
          in (temp(i := temp i + ucast v), d)
     else (temp, d))"

definition sample_round :: "nat \<Rightarrow> (nat \<Rightarrow> s32) \<times> dev \<Rightarrow> (nat \<Rightarrow> s32) \<times> dev" where
  "sample_round field_index s = fold (sample_line field_index) [0..<line_count (snd s)] s"

text \<open>
  The loop counter of the rounds is a \<^verbatim>\<open>u8\<close> and \<^verbatim>\<open>times\<close> a \<^verbatim>\<open>u16\<close>: above 255 rounds the loop does not
  end, and \<open>sampleAdc\<close> has no value.  The firmware always passes 0, the default of 20.
\<close>

definition sample_rounds :: "u16 \<Rightarrow> nat" where
  "sample_rounds cnt = (if cnt = 0 then ADC_TIME_DEFAULT else unat cnt)"

definition sampleAdc_run :: "nat \<Rightarrow> nat \<Rightarrow> dev \<Rightarrow> dev" where
  "sampleAdc_run field_index n d =
     (let (temp, d) = (sample_round field_index ^^ n) (\<lambda>i. 0, d)
      in d\<lparr>crt_smp := (crt_smp d)(field_index := (\<lambda>i.
            if i < line_count d
            then of_int ((sint (temp i) sdiv int n) * uint (tension_max_range d) sdiv 4096)
            else crt_smp d field_index i))\<rparr>)"

definition sampleAdc :: "nat \<Rightarrow> u16 \<Rightarrow> dev \<Rightarrow> dev option" where
  "sampleAdc field_index cnt d =
     (if 255 < sample_rounds cnt then None
      else Some (sampleAdc_run field_index (sample_rounds cnt) d))"

lemma sampleAdc_default: "sampleAdc f 0 d = Some (sampleAdc_run f (sample_rounds 0) d)"
  by (simp add: sampleAdc_def sample_rounds_def)

subsection \<open>Calibration and readings\<close>

definition updateZeroVal :: "nat \<Rightarrow> dev \<Rightarrow> dev" where
  "updateZeroVal field_index d = d\<lparr>calibrating_flag := 0x00 OR of_nat field_index\<rparr>"

definition updateBaseVal :: "nat \<Rightarrow> dev \<Rightarrow> dev" where
  "updateBaseVal field_index d = d\<lparr>calibrating_flag := 0x10 OR of_nat field_index\<rparr>"

definition clip0 :: "s16 \<Rightarrow> s16" where
  "clip0 v = (if sint v < 0 then 0 else v)"

text \<open>
  The end of a calibration.  A division by a zero \<^verbatim>\<open>calibrate_adc_cnt\<close> gives zero here, as the
  divide instruction of the Cortex-M4 does when its trap is not enabled.
\<close>

definition mean_of :: "dev \<Rightarrow> nat \<Rightarrow> int" where
  "mean_of d i = sint (calibrate_temp_val d i) sdiv uint (calibrate_adc_cnt d)"

definition calibrate_zero :: "nat \<Rightarrow> dev \<Rightarrow> dev" where
  "calibrate_zero field_index d =
     WriteAdcZeroToEEProm field_index
       (d\<lparr>zero_val := (zero_val d)(field_index := (\<lambda>i.
           if i < line_count d then of_int (mean_of d i) else zero_val d field_index i))\<rparr>)"

definition calibrate_base :: "nat \<Rightarrow> dev \<Rightarrow> dev" where
  "calibrate_base field_index d =
     WriteAdcBaseToEEProm field_index
       (d\<lparr>base_val := (base_val d)(field_index := (\<lambda>i.
           if i < line_count d
           then clip0 (of_int (mean_of d i - sint (zero_val d field_index i)))
           else base_val d field_index i))\<rparr>)"

definition calibrating :: "dev \<Rightarrow> dev" where
  "calibrating d =
     (if calibrating_flag d = 0xFF then d
      else
        let field_index = unat (calibrating_flag d AND 0x01)
        in if calibrating_flag d AND 0x80 = 0x80
           then let d = (if calibrating_flag d AND 0x10 = 0x00 then calibrate_zero field_index d else d);
                    d = (if calibrating_flag d AND 0x10 = 0x10 then calibrate_base field_index d else d)
                in d\<lparr>calibrate_adc_cnt := 0, calibrate_temp_val := (\<lambda>i. if i < 6 then 0 else calibrate_temp_val d i),
                     calibrating_flag := 0xFF\<rparr>
           else let d = sampleAdc_run field_index (sample_rounds 0) d
                in d\<lparr>calibrate_temp_val := (\<lambda>i.
                       if i < line_count d
                       then calibrate_temp_val d i + scast (crt_smp d field_index i)
                       else calibrate_temp_val d i),
                     calibrate_adc_cnt := calibrate_adc_cnt d + 1\<rparr>)"

definition updateCrtSmp :: "nat \<Rightarrow> dev \<Rightarrow> dev" where
  "updateCrtSmp field_index d =
     (if calibrating_flag d = 0xff
      then let d = sampleAdc_run field_index (sample_rounds 0) d;
               d = d\<lparr>calibrate_en := (calibrate_en d)(field_index := 1)\<rparr>
           in d\<lparr>crt_val := (crt_val d)(field_index := (\<lambda>i.
                 if i < line_count d
                 then clip0 (of_int (sint (crt_smp d field_index i) - sint (zero_val d field_index i)))
                 else crt_val d field_index i))\<rparr>
      else d)"

subsection \<open>Parameters\<close>

definition setTensionMaxRange :: "u16 \<Rightarrow> dev \<Rightarrow> dev" where
  "setTensionMaxRange value d = WriteTensionMaxRangeToEEProm (d\<lparr>tension_max_range := value\<rparr>)"

definition setBaseAutoCalibrateTime :: "u16 \<Rightarrow> dev \<Rightarrow> dev" where
  "setBaseAutoCalibrateTime value d =
     WriteBaseAutoCalibrateTimeToEEProm (d\<lparr>base_auto_calibrate_time := value\<rparr>)"

text \<open>The part of \<^verbatim>\<open>Adc_Init\<close> after the registers of the converter are set up.\<close>

definition zero6 :: "(nat \<Rightarrow> s16) \<Rightarrow> nat \<Rightarrow> s16" where
  "zero6 f = (\<lambda>i. if i < 6 then 0 else f i)"

definition Adc_Init_field :: "nat \<Rightarrow> dev \<Rightarrow> dev" where
  "Adc_Init_field i d =
     (let d = ReadAdcZeroFromEEProm i d;
          d = (if zero_val d i 0 = 0xffff
               then WriteAdcZeroToEEProm i (d\<lparr>zero_val := (zero_val d)(i := zero6 (zero_val d i))\<rparr>)
               else d);
          d = ReadAdcBaseFromEEProm i d;
          d = (if base_val d i 0 = 0xffff
               then WriteAdcBaseToEEProm i (d\<lparr>base_val := (base_val d)(i := zero6 (base_val d i))\<rparr>)
               else d)
      in d\<lparr>calibrate_en := (calibrate_en d)(i := 1)\<rparr>)"

definition Adc_Init :: "dev \<Rightarrow> dev" where
  "Adc_Init d =
     (let d = Adc_Init_field 1 (Adc_Init_field 0 d);
          d = ReadTensionMaxRangeFromEEProm d;
          d = (if tension_max_range d = 0xffff
               then WriteTensionMaxRangeToEEProm (d\<lparr>tension_max_range := 200\<rparr>) else d);
          d = ReadBaseAutoCalibrateTimeFromEEProm d;
          d = (if base_auto_calibrate_time d = 0xffff
               then WriteBaseAutoCalibrateTimeToEEProm (d\<lparr>base_auto_calibrate_time := 30\<rparr>) else d)
      in d\<lparr>init_done := 1\<rparr>)"

text \<open>Six readings joined by \<^verbatim>\<open>+\<close>.\<close>

definition six :: "(nat \<Rightarrow> s16) \<Rightarrow> string" where
  "six f = concat (map (\<lambda>i. (if i = 0 then '''' else ''+'') @ fmt_d (sint (f i))) [0..<6])"

definition getWebAdcValStr :: "dev \<Rightarrow> string" where
  "getWebAdcValStr d =
     six (crt_val d 0) @ ''#'' @ six (crt_val d 1) @ ''@'' @ six (zero_val d 0) @ ''#'' @ six (zero_val d 1)
     @ ''@'' @ six (base_val d 0) @ ''#'' @ six (base_val d 1)"

end
