(* ===== verification/SysCtl.thy ===== *)
theory SysCtl
  imports ParamStore
begin

text \<open>
  \<^verbatim>\<open>SYSTEM/sys/sys.c\<close>: the resets, the configuration code and the return to factory settings.
  A reset request is the flag \<open>sys_reset\<close>: control does not come back from it, so nothing that
  follows a call that resets takes effect.
\<close>

definition Sys_Soft_Reset :: "dev \<Rightarrow> dev" where
  "Sys_Soft_Reset d = d\<lparr>sys_reset := True\<rparr>"

definition SystemReset :: "dev \<Rightarrow> dev" where
  "SystemReset d = d\<lparr>sys_reset := True\<rparr>"

definition readConfigCode :: "dev \<Rightarrow> dev" where
  "readConfigCode d =
     (let d = ReadConfigCodeToEEProm d
      in if config_code d = 0xFF then WriteConfigCodeToEEProm (d\<lparr>config_code := 0x01\<rparr>) else d)"

definition setConfigCode :: "u8 \<Rightarrow> dev \<Rightarrow> dev" where
  "setConfigCode value d =
     (let d = WriteConfigCodeToEEProm (d\<lparr>config_code := value\<rparr>)
      in d\<lparr>W4_W6 := drop_bit 1 (config_code d) AND 0x01\<rparr>)"

definition systemDefault :: "dev \<Rightarrow> dev" where
  "systemDefault d = SystemReset (EraseEEPormParas d)"

lemma setConfigCode_readConfigCode:
  "config_code (readConfigCode (e\<lparr>eemem := eemem (setConfigCode v d)\<rparr>)) = (if v = 0xFF then 0x01 else v)"
  by (simp add: readConfigCode_def setConfigCode_def Let_def ReadConfigCodeToEEProm_def
      WriteConfigCodeToEEProm_def)

end
