(* ===== verification/Alarm.thy ===== *)
theory Alarm
  imports EventLog Adc SysCtl
begin

text \<open>
  \<^verbatim>\<open>HARDWARE/ALARM/alarm.c\<close>: the alarm words, the confirmation of alarms, arming and the zone
  parameters.  Zones are numbered 0 (A) and 1 (B); a mask is the number of a bit of \<^verbatim>\<open>ALARM_STATE\<close>.
\<close>

abbreviation (input) A_INVD_MASK :: nat where "A_INVD_MASK \<equiv> 0"
abbreviation (input) A_OPN_MASK :: nat where "A_OPN_MASK \<equiv> 1"
abbreviation (input) B_INVD_MASK :: nat where "B_INVD_MASK \<equiv> 2"
abbreviation (input) B_OPN_MASK :: nat where "B_OPN_MASK \<equiv> 3"
abbreviation (input) AB_FCH_MASK :: nat where "AB_FCH_MASK \<equiv> 4"
abbreviation (input) SW1_MASK :: nat where "SW1_MASK \<equiv> 5"
abbreviation (input) SW2_MASK :: nat where "SW2_MASK \<equiv> 6"
abbreviation (input) A_RLX_MASK :: nat where "A_RLX_MASK \<equiv> 8"
abbreviation (input) B_RLX_MASK :: nat where "B_RLX_MASK \<equiv> 9"
abbreviation (input) NO_ALARM :: u8 where "NO_ALARM \<equiv> 0"
abbreviation (input) ALARM :: u8 where "ALARM \<equiv> 1"
abbreviation (input) OPEN_VAL_MAX_KG :: int where "OPEN_VAL_MAX_KG \<equiv> 10"
abbreviation (input) RELAX_VERIFIED_TIME_S :: u8 where "RELAX_VERIFIED_TIME_S \<equiv> 2"

subsection \<open>Sirens, tamper switch, lamps\<close>

definition Alarm_RL_A :: "dev \<Rightarrow> dev" where
  "Alarm_RL_A d = d\<lparr>RL_A := True, alarmingCnt := (alarmingCnt d)(0 := 1)\<rparr>"

definition Remove_Alarm_RL_A :: "dev \<Rightarrow> dev" where
  "Remove_Alarm_RL_A d =
     d\<lparr>RL_A := False, alarmingCnt := (alarmingCnt d)(0 := -1), ALARM_STATE_DELAY := ALARM_STATE d\<rparr>"

definition Alarm_RL_B :: "dev \<Rightarrow> dev" where
  "Alarm_RL_B d = d\<lparr>RL_B := True, alarmingCnt := (alarmingCnt d)(1 := 1)\<rparr>"

definition Remove_Alarm_RL_B :: "dev \<Rightarrow> dev" where
  "Remove_Alarm_RL_B d =
     d\<lparr>RL_B := False, alarmingCnt := (alarmingCnt d)(1 := -1), ALARM_STATE_DELAY := ALARM_STATE d\<rparr>"

definition FangChai_Start :: "dev \<Rightarrow> dev" where
  "FangChai_Start d = WriteControlParaToEEProm (d\<lparr>flag_fcgjsn := ON\<rparr>)"

definition FangChai_Stop :: "dev \<Rightarrow> dev" where
  "FangChai_Stop d = WriteControlParaToEEProm (d\<lparr>flag_fcgjsn := OFF\<rparr>)"

definition Set_Alarm_State_Util_Clear :: "nat \<Rightarrow> dev \<Rightarrow> dev" where
  "Set_Alarm_State_Util_Clear m d =
     (let d = d\<lparr>ALARM_STATE := SET_ALARM_STATE (ALARM_STATE d) m\<rparr>
      in if \<not> IS_SET_BIT (config_code d) 2
         then d\<lparr>ALARM_STATE_DELAY := SET_ALARM_STATE (ALARM_STATE_DELAY d) m\<rparr> else d)"

text \<open>\<^verbatim>\<open>CLEAR_ALARM_STATE(ALARM_STATE, mask)\<close>.\<close>

definition clear_state :: "nat \<Rightarrow> dev \<Rightarrow> dev" where
  "clear_state m d = d\<lparr>ALARM_STATE := CLEAR_ALARM_STATE (ALARM_STATE d) m\<rparr>"

definition ALARM_Update :: "dev \<Rightarrow> dev" where
  "ALARM_Update d =
     d\<lparr>LED_FANG_CHAI := GET_ALARM_STATE (ALARM_STATE d) AB_FCH_MASK \<noteq> 0,
       LED_OPEN := GET_ALARM_STATE (ALARM_STATE d) A_OPN_MASK OR GET_ALARM_STATE (ALARM_STATE d) B_OPN_MASK \<noteq> 0,
       LED_INVD := GET_ALARM_STATE (ALARM_STATE d) A_INVD_MASK OR GET_ALARM_STATE (ALARM_STATE d) B_INVD_MASK \<noteq> 0\<rparr>"

definition FANG_CHAI_Check :: "dev \<Rightarrow> dev \<times> u8" where
  "FANG_CHAI_Check d =
     (let FANG_CHAI_last = GET_ALARM_STATE (ALARM_STATE d) AB_FCH_MASK
      in if flag_fcgjsn d = ON
         then let FANG_CHAI_crt = of_bool (FANG_CHAI d)
              in if FANG_CHAI_crt \<noteq> FANG_CHAI_last
                 then if FANG_CHAI_crt = ALARM
                      then let d = (if FCAlmVerifyCnt d = 0 then d\<lparr>FCAlmVerifyCnt := 1\<rparr> else d)
                           in if FCAlmVerifyCnt d = 4
                              then (ALARM_Update (WriteLog LOG_TYPE_FC ALARM
                                      (Set_Alarm_State_Util_Clear AB_FCH_MASK d)), ALARM)
                              else (d, NO_ALARM)
                      else (ALARM_Update (clear_state AB_FCH_MASK (d\<lparr>FCAlmVerifyCnt := 0\<rparr>)), NO_ALARM)
                 else (d, FANG_CHAI_last)
         else (ALARM_Update (clear_state AB_FCH_MASK (d\<lparr>FCAlmVerifyCnt := 0\<rparr>)), NO_ALARM))"

subsection \<open>Arming\<close>

text \<open>A pin written with a byte takes its lowest bit.\<close>

definition Push_A_Start :: "dev \<Rightarrow> dev" where
  "Push_A_Start d = WriteControlParaToEEProm (d\<lparr>BU_FANG_A_FLAG := ON, LED_BU_FANG := True\<rparr>)"

definition Push_A_Stop :: "dev \<Rightarrow> dev" where
  "Push_A_Stop d =
     WriteControlParaToEEProm (d\<lparr>BU_FANG_A_FLAG := OFF, LED_BU_FANG := bit (BU_FANG_B_FLAG d) 0\<rparr>)"

definition Push_B_Start :: "dev \<Rightarrow> dev" where
  "Push_B_Start d = WriteControlParaToEEProm (d\<lparr>BU_FANG_B_FLAG := ON, LED_BU_FANG := True\<rparr>)"

definition Push_B_Stop :: "dev \<Rightarrow> dev" where
  "Push_B_Stop d =
     WriteControlParaToEEProm (d\<lparr>BU_FANG_B_FLAG := OFF, LED_BU_FANG := bit (BU_FANG_A_FLAG d) 0\<rparr>)"

definition Push_AB_Start :: "dev \<Rightarrow> dev" where
  "Push_AB_Start d = Push_B_Start (Push_A_Start d)"

definition Push_AB_Stop :: "dev \<Rightarrow> dev" where
  "Push_AB_Stop d = Push_B_Stop (Push_A_Stop d)"

subsection \<open>Thresholds\<close>

definition setAlmThrdUpDif :: "u16 \<Rightarrow> dev \<Rightarrow> dev" where
  "setAlmThrdUpDif value d = WriteAlmThrdToEEProm (d\<lparr>alarm_threshold_up_dif := value\<rparr>)"

definition setAlmThrdDwDif :: "u16 \<Rightarrow> dev \<Rightarrow> dev" where
  "setAlmThrdDwDif value d = WriteAlmThrdToEEProm (d\<lparr>alarm_threshold_down_dif := value\<rparr>)"

text \<open>All operands are non-negative here, so C's division is \<^verbatim>\<open>div\<close>.\<close>

definition updateTensionParasByMaxValue :: "dev \<Rightarrow> dev" where
  "updateTensionParasByMaxValue d =
     (let r = uint (tension_max_range d);
          per20 = (of_int (r div 2 * 20 div 100) :: u16);
          d = WriteAlmThrdToEEProm (d\<lparr>alarm_threshold_up_dif := per20, alarm_threshold_down_dif := per20\<rparr>);
          lo = (of_int ((r div 2 - uint per20 + 5) div 10 * 10) :: u16);
          hi = (of_int ((r div 2 + uint per20 + 5) div 10 * 10) :: u16)
      in WriteFieldParaToEEProm
           (d\<lparr>ten_val_range := upd2 1 1 hi (upd2 1 0 lo (upd2 0 1 hi (upd2 0 0 lo (ten_val_range d))))\<rparr>))"

subsection \<open>Comparing the wires with the thresholds\<close>

text \<open>The three flags of one pass over the wires: intrusion, broken wire, slack wire.\<close>

definition ADC_Check_line :: "dev \<Rightarrow> nat \<Rightarrow> nat \<Rightarrow> u8 \<times> u8 \<times> u8 \<Rightarrow> u8 \<times> u8 \<times> u8" where
  "ADC_Check_line d f i = (\<lambda>(ivd, opn, rlx).
     let c = sint (crt_val d f i); b = sint (base_val d f i);
         ivd = (if ivd = NO_ALARM \<and> c - b > uint (alarm_threshold_up_dif d) then ALARM else ivd);
         opn = (if opn = NO_ALARM \<and> c < OPEN_VAL_MAX_KG then ALARM else opn);
         rlx = (if opn = NO_ALARM \<and> rlx = NO_ALARM \<and> b - c > uint (alarm_threshold_down_dif d)
                then ALARM else rlx)
     in (ivd, opn, rlx))"

definition ADC_Check :: "nat \<Rightarrow> dev \<Rightarrow> dev" where
  "ADC_Check f d =
     (let n = line_count d;
          d = d\<lparr>adc_invd_crt := (adc_invd_crt d)(f := NO_ALARM), adc_open_crt := (adc_open_crt d)(f := NO_ALARM),
               adc_relax_crt := (adc_relax_crt d)(f := NO_ALARM)\<rparr>;
          d = updateCrtSmp f d;
          (ivd, opn, rlx) = fold (ADC_Check_line d f) [0..<n] (NO_ALARM, NO_ALARM, NO_ALARM)
      in d\<lparr>adc_invd_crt := (adc_invd_crt d)(f := ivd), adc_open_crt := (adc_open_crt d)(f := opn),
           adc_relax_crt := (adc_relax_crt d)(f := rlx)\<rparr>)"

subsection \<open>Confirming alarms\<close>

definition INVD_MASK :: "nat \<Rightarrow> nat" where "INVD_MASK f = (if f = 0 then A_INVD_MASK else B_INVD_MASK)"
definition OPN_MASK :: "nat \<Rightarrow> nat" where "OPN_MASK f = (if f = 0 then A_OPN_MASK else B_OPN_MASK)"
definition RLX_MASK :: "nat \<Rightarrow> nat" where "RLX_MASK f = (if f = 0 then A_RLX_MASK else B_RLX_MASK)"

definition ivd_step :: "nat \<Rightarrow> u8 \<Rightarrow> dev \<Rightarrow> dev" where
  "ivd_step f prev d =
     (if adc_invd_crt d f \<noteq> prev
      then if adc_invd_crt d f = ALARM
           then let d = (if adcIvdAlmVerifyCnt d f = 0
                         then d\<lparr>adcIvdAlmVerifyCnt := (adcIvdAlmVerifyCnt d)(f := 1)\<rparr> else d)
                in if adcIvdAlmVerifyCnt d f \<ge> alarm_sensitivity d f
                   then ALARM_Update (WriteLog (if f = 0 then LOG_TYPE_AIVD else LOG_TYPE_BIVD) ALARM
                          (Set_Alarm_State_Util_Clear (INVD_MASK f) d))
                   else d
           else ALARM_Update (clear_state (INVD_MASK f)
                  (d\<lparr>adcIvdAlmVerifyCnt := (adcIvdAlmVerifyCnt d)(f := 0)\<rparr>))
      else d)"

definition opn_step :: "nat \<Rightarrow> u8 \<Rightarrow> dev \<Rightarrow> dev" where
  "opn_step f prev d =
     (if adc_open_crt d f \<noteq> prev
      then if adc_open_crt d f = ALARM
           then let d = (if adcOpnAlmVerifyCnt d f = 0
                         then d\<lparr>adcOpnAlmVerifyCnt := (adcOpnAlmVerifyCnt d)(f := 1)\<rparr> else d)
                in if adcOpnAlmVerifyCnt d f \<ge> alarm_sensitivity d f
                   then ALARM_Update (WriteLog (if f = 0 then LOG_TYPE_AOPN else LOG_TYPE_BOPN) ALARM
                          (Set_Alarm_State_Util_Clear (OPN_MASK f) d))
                   else d
           else ALARM_Update (clear_state (OPN_MASK f)
                  (d\<lparr>adcOpnAlmVerifyCnt := (adcOpnAlmVerifyCnt d)(f := 0)\<rparr>))
      else d)"

definition rlx_step :: "nat \<Rightarrow> u8 \<Rightarrow> dev \<Rightarrow> dev" where
  "rlx_step f prev d =
     (if adc_relax_crt d f \<noteq> prev
      then if adc_relax_crt d f = ALARM
           then let d = (if adcRlxAlmVerifyCnt d f = 0
                         then d\<lparr>adcRlxAlmVerifyCnt := (adcRlxAlmVerifyCnt d)(f := 1)\<rparr> else d)
                in if adcRlxAlmVerifyCnt d f \<ge> RELAX_VERIFIED_TIME_S
                   then ALARM_Update (Set_Alarm_State_Util_Clear (RLX_MASK f) d)
                   else d
           else ALARM_Update (clear_state (RLX_MASK f)
                  (d\<lparr>adcRlxAlmVerifyCnt := (adcRlxAlmVerifyCnt d)(f := 0)\<rparr>))
      else d)"

definition ADC_Check_Handler :: "nat \<Rightarrow> dev \<Rightarrow> dev" where
  "ADC_Check_Handler f d =
     (let adc_invd_last = GET_ALARM_STATE (ALARM_STATE d) (INVD_MASK f);
          adc_open_last = GET_ALARM_STATE (ALARM_STATE d) (OPN_MASK f);
          adc_relax_last = GET_ALARM_STATE (ALARM_STATE d) (RLX_MASK f);
          d = ADC_Check f d
      in if (f = 0 \<and> BU_FANG_A_FLAG d = ON) \<or> (f = 1 \<and> BU_FANG_B_FLAG d = ON)
         then rlx_step f adc_relax_last (opn_step f adc_open_last (ivd_step f adc_invd_last d))
         else ALARM_Update (clear_state (RLX_MASK f) (clear_state (INVD_MASK f) (clear_state (OPN_MASK f)
                (d\<lparr>adcIvdAlmVerifyCnt := (adcIvdAlmVerifyCnt d)(f := 0),
                   adcOpnAlmVerifyCnt := (adcOpnAlmVerifyCnt d)(f := 0),
                   adcRlxAlmVerifyCnt := (adcRlxAlmVerifyCnt d)(f := 0)\<rparr>)))))"

subsection \<open>Switch inputs\<close>

definition updateSWAlarmState :: "nat \<Rightarrow> dev \<Rightarrow> dev" where
  "updateSWAlarmState swNum d =
     (let d = d\<lparr>SW_Alarm := (SW_Alarm d)(swNum := of_bool (if swNum = 0 then SW1 d else SW2 d))\<rparr>;
          m = (if swNum = 0 then SW1_MASK else SW2_MASK)
      in if SW_Type d swNum \<noteq> 0 \<and> SW_Alarm d swNum \<noteq> 0
         then Set_Alarm_State_Util_Clear m d else clear_state m d)"

definition EXTI9_5_IRQHandler :: "dev \<Rightarrow> dev" where
  "EXTI9_5_IRQHandler = updateSWAlarmState 0"

definition EXTI15_10_IRQHandler :: "dev \<Rightarrow> dev" where
  "EXTI15_10_IRQHandler = updateSWAlarmState 1"

definition setSWValue :: "u16 \<Rightarrow> dev \<Rightarrow> dev" where
  "setSWValue swVal d =
     (let d = d\<lparr>SW_Type := (SW_Type d)(1 := hi8 swVal, 0 := lo8 swVal)\<rparr>
      in WriteSWValToEEProm (updateSWAlarmState 0 (updateSWAlarmState 1 d)))"

subsection \<open>Zone parameters\<close>

definition existFieldNum :: "dev \<Rightarrow> u8 \<Rightarrow> bool" where
  "existFieldNum d fieldNum \<longleftrightarrow> fieldNum = field_num d 0 \<or> fieldNum = field_num d 1"

definition setFieldNum :: "nat \<Rightarrow> u8 \<Rightarrow> dev \<Rightarrow> dev" where
  "setFieldNum i fieldNum d = WriteFieldParaToEEProm (d\<lparr>field_num := (field_num d)(i := fieldNum)\<rparr>)"

definition setAlarmDelay :: "nat \<Rightarrow> u16 \<Rightarrow> dev \<Rightarrow> dev" where
  "setAlarmDelay i almDly d = WriteFieldParaToEEProm (d\<lparr>alarm_delay := (alarm_delay d)(i := almDly)\<rparr>)"

definition setAlarmSensitivity :: "nat \<Rightarrow> u8 \<Rightarrow> dev \<Rightarrow> dev" where
  "setAlarmSensitivity i sensitivity d =
     WriteFieldParaToEEProm (d\<lparr>alarm_sensitivity := (alarm_sensitivity d)(i := sensitivity)\<rparr>)"

definition setTenValRange :: "nat \<Rightarrow> nat \<Rightarrow> u16 \<Rightarrow> dev \<Rightarrow> dev" where
  "setTenValRange i highLowFlag tenVal d =
     WriteFieldParaToEEProm (d\<lparr>ten_val_range := upd2 i highLowFlag tenVal (ten_val_range d)\<rparr>)"

definition modifyFieldNum :: "u8 \<Rightarrow> u8 \<Rightarrow> dev \<Rightarrow> dev" where
  "modifyFieldNum oldfieldNum newfieldNum d =
     WriteFieldParaToEEProm
       (if field_num d 0 = oldfieldNum then d\<lparr>field_num := (field_num d)(0 := newfieldNum)\<rparr>
        else if field_num d 1 = oldfieldNum then d\<lparr>field_num := (field_num d)(1 := newfieldNum)\<rparr>
        else d)"

definition modifyAlarmDelay :: "u8 \<Rightarrow> u16 \<Rightarrow> dev \<Rightarrow> dev" where
  "modifyAlarmDelay fieldNum alarmDelay d =
     WriteFieldParaToEEProm
       (if field_num d 0 = fieldNum then d\<lparr>alarm_delay := (alarm_delay d)(0 := alarmDelay)\<rparr>
        else if field_num d 1 = fieldNum then d\<lparr>alarm_delay := (alarm_delay d)(1 := alarmDelay)\<rparr>
        else d)"

definition getAlarmDelay :: "dev \<Rightarrow> u8 \<Rightarrow> u16" where
  "getAlarmDelay d fieldNum =
     (if field_num d 0 = fieldNum then alarm_delay d 0
      else if field_num d 1 = fieldNum then alarm_delay d 1 else 0)"

definition modifyBFFlag :: "u8 \<Rightarrow> u16 \<Rightarrow> dev \<Rightarrow> dev" where
  "modifyBFFlag fieldNum bfFlag d =
     (if field_num d 0 = fieldNum then (if bfFlag = 1 then Push_A_Start d else Push_A_Stop d)
      else if field_num d 1 = fieldNum then (if bfFlag = 1 then Push_B_Start d else Push_B_Stop d)
      else d)"

definition getBFFlag :: "dev \<Rightarrow> u8 \<Rightarrow> u8" where
  "getBFFlag d fieldNum =
     (if field_num d 0 = fieldNum then BU_FANG_A_FLAG d
      else if field_num d 1 = fieldNum then BU_FANG_B_FLAG d else 0)"

text \<open>The status byte of a zone, of either alarm word; \<^verbatim>\<open>&\<close> binds tighter than \<^verbatim>\<open>|\<close> in C.\<close>

definition zone_status_A :: "u16 \<Rightarrow> u8" where
  "zone_status_A st = ucast ((st AND 0xF3) OR (drop_bit 6 st AND 0x04))"

definition zone_status_B :: "u16 \<Rightarrow> u8" where
  "zone_status_B st = ucast ((st AND 0xF0) OR (drop_bit 2 st AND 0x03) OR (drop_bit 7 st AND 0x04))"

definition getAlarmStatus :: "dev \<Rightarrow> u8 \<Rightarrow> u8" where
  "getAlarmStatus d fieldNum =
     (if field_num d 0 = fieldNum then zone_status_A (ALARM_STATE d)
      else if field_num d 1 = fieldNum then zone_status_B (ALARM_STATE d) else 0)"

definition getAlarmDelayedStatus :: "dev \<Rightarrow> u8 \<Rightarrow> u8" where
  "getAlarmDelayedStatus d fieldNum =
     (if field_num d 0 = fieldNum then zone_status_A (ALARM_STATE_DELAY d)
      else if field_num d 1 = fieldNum then zone_status_B (ALARM_STATE_DELAY d) else 0)"

definition removeAlarmRL :: "u8 \<Rightarrow> dev \<Rightarrow> dev" where
  "removeAlarmRL fieldNum d =
     (if field_num d 0 = fieldNum then Remove_Alarm_RL_A d
      else if field_num d 1 = fieldNum then Remove_Alarm_RL_B d else d)"

definition getPeerFieldNum :: "dev \<Rightarrow> u8 \<Rightarrow> u8" where
  "getPeerFieldNum d fieldNum =
     (if field_num d 0 = fieldNum then field_num d 1
      else if field_num d 1 = fieldNum then field_num d 0 else 0)"

definition getFieldIndex :: "dev \<Rightarrow> u8 \<Rightarrow> nat" where
  "getFieldIndex d fieldNum = (if field_num d 0 = fieldNum then 0 else 1)"

text \<open>\<^verbatim>\<open>Lcd_Clear\<close> changes the display only, which the model does not hold.\<close>

definition remoteShutdown :: "u8 \<Rightarrow> dev \<Rightarrow> dev" where
  "remoteShutdown shutdownFlag d =
     (let d = d\<lparr>remote_shutdown := shutdownFlag\<rparr>
      in if remote_shutdown d \<noteq> 0
         then d\<lparr>flag_fcgjsn := OFF, BU_FANG_A_FLAG := OFF, BU_FANG_B_FLAG := OFF, LED_FANG_CHAI := False,
                LED_OPEN := False, LED_INVD := False, LED_BU_FANG := False, LED_RUN := False,
                LCD_BLA := False\<rparr>
         else SystemReset d)"

definition getWebFieldParas :: "dev \<Rightarrow> string" where
  "getWebFieldParas d =
     fmt_d (uint (field_num d 0)) @ ''+'' @ fmt_d (uint (alarm_delay d 0)) @ ''+'' @
     fmt_d (uint (alarm_sensitivity d 0)) @ ''#'' @
     fmt_d (uint (field_num d 1)) @ ''+'' @ fmt_d (uint (alarm_delay d 1)) @ ''+'' @
     fmt_d (uint (alarm_sensitivity d 1))"

subsection \<open>Start-up\<close>

text \<open>\<^verbatim>\<open>ALARM_Init\<close> after the pins are configured; the two relays are switched off first.\<close>

definition ALARM_Init_fields :: "dev \<Rightarrow> dev" where
  "ALARM_Init_fields d =
     (if AT24CXX_ReadOneByte d (FieldParaAddr + 1) = 0xFF \<or> AT24CXX_ReadOneByte d (FieldParaAddr + 2) = 0xFF
      then WriteFieldParaToEEProm (d\<lparr>field_num := (field_num d)(0 := 0, 1 := 0),
                                     alarm_delay := (alarm_delay d)(0 := 30, 1 := 30)\<rparr>)
      else ReadFieldParaFromEEProm d)"

definition ALARM_Init_control :: "dev \<Rightarrow> dev" where
  "ALARM_Init_control d =
     (let d = (if hd (AT24CXX_Read d ControlParaAddr 1) = 0xFF
               then WriteControlParaToEEProm
                      (d\<lparr>flag_fcgjsn := ON, BU_FANG_A_FLAG := ON,
                         BU_FANG_B_FLAG := (if \<not> FIELD_FLAG_S0D1 d then ON else OFF)\<rparr>)
               else let d = ReadControlParaFromEEProm d
                    in if FIELD_FLAG_S0D1 d then d\<lparr>BU_FANG_B_FLAG := OFF\<rparr> else d)
      in d\<lparr>LED_BU_FANG := bit (BU_FANG_A_FLAG d OR BU_FANG_B_FLAG d) 0\<rparr>)"

definition ALARM_Init_switches :: "dev \<Rightarrow> dev" where
  "ALARM_Init_switches d =
     (let d = (if hd (AT24CXX_Read d SWValAddr 1) = 0xFF then WriteSWValToEEProm d
               else ReadSWValToEEProm d)
      in updateSWAlarmState 0 (updateSWAlarmState 1 d))"

definition ALARM_Init_thresholds :: "dev \<Rightarrow> dev" where
  "ALARM_Init_thresholds d =
     (let d = ReadAlmThrdFromEEProm d;
          d = (if alarm_threshold_up_dif d = 0xffff
               then WriteAlmThrdToEEProm (d\<lparr>alarm_threshold_up_dif := 50\<rparr>) else d)
      in if alarm_threshold_down_dif d = 0xffff
         then WriteAlmThrdToEEProm (d\<lparr>alarm_threshold_down_dif := 50\<rparr>) else d)"

definition ALARM_Init :: "dev \<Rightarrow> dev" where
  "ALARM_Init d =
     (let d = d\<lparr>RL_A := False, RL_B := False\<rparr>;
          d = ALARM_Init_switches (ALARM_Init_control (ALARM_Init_fields d));
          d = d\<lparr>W4_W6 := (if drop_bit 1 (config_code d) AND 0x01 = 0 then IS_W4 else IS_W6)\<rparr>
      in ALARM_Init_thresholds d)"

end
