(* ===== verification/Timer.thy ===== *)
theory Timer
  imports Alarm
begin

text \<open>
  \<^verbatim>\<open>HARDWARE/TIMER/timer.c\<close>: the three periodic interrupts.  TIM3 (500 ms) counts the confirmation
  of alarms and starts the automatic calibration, TIM4 (10 us) requests the measurements, TIM5
  (100 ms) runs the sirens.  Each handler is its body under a set update flag.
\<close>

abbreviation (input) CALIBRATING_TIME :: int where "CALIBRATING_TIME \<equiv> 5000"

definition set_flag :: "nat \<Rightarrow> dev \<Rightarrow> dev" where
  "set_flag n d = d\<lparr>timerHandlerFlag := SET_VAR_BIT (timerHandlerFlag d) n\<rparr>"

subsection \<open>TIM3\<close>

text \<open>\<^verbatim>\<open>cnt > 0 && cnt < lim\<close>, with the limit an \<^verbatim>\<open>int\<close>, then \<^verbatim>\<open>cnt++\<close>.\<close>

definition count_to :: "int \<Rightarrow> u8 \<Rightarrow> u8" where
  "count_to lim cnt = (if 0 < uint cnt \<and> uint cnt < lim then cnt + 1 else cnt)"

definition TIM3_verify :: "nat \<Rightarrow> dev \<Rightarrow> dev" where
  "TIM3_verify i d =
     d\<lparr>adcIvdAlmVerifyCnt := (adcIvdAlmVerifyCnt d)
         (i := count_to (uint (alarm_sensitivity d i) + 1) (adcIvdAlmVerifyCnt d i)),
       adcOpnAlmVerifyCnt := (adcOpnAlmVerifyCnt d)
         (i := count_to (uint (alarm_sensitivity d i) + 1) (adcOpnAlmVerifyCnt d i))\<rparr>"

definition TIM3_relax :: "nat \<Rightarrow> dev \<Rightarrow> dev" where
  "TIM3_relax i d =
     d\<lparr>adcRlxAlmVerifyCnt := (adcRlxAlmVerifyCnt d)(i := count_to (2 + 1) (adcRlxAlmVerifyCnt d i))\<rparr>"

definition set_auto_cnt :: "nat \<Rightarrow> s32 \<Rightarrow> dev \<Rightarrow> dev" where
  "set_auto_cnt i v d = d\<lparr>baseAutoCalibrateCnt := (baseAutoCalibrateCnt d)(i := v)\<rparr>"

definition TIM3_auto :: "nat \<Rightarrow> dev \<Rightarrow> dev" where
  "TIM3_auto i d =
     (let d = set_auto_cnt i (baseAutoCalibrateCnt d i + 1) d
      in if sint (baseAutoCalibrateCnt d i) \<ge> uint (base_auto_calibrate_time d) * 60
         then if calibrating_flag d \<noteq> 0xFF
              then set_auto_cnt i (baseAutoCalibrateCnt d i - of_int (CALIBRATING_TIME div 1000)) d
              else if (BU_FANG_A_FLAG d = ON \<and> i = 0 \<and> ALARM_STATE d AND 0x0103 = 0)
                      \<or> (BU_FANG_B_FLAG d = ON \<and> i = 1 \<and> ALARM_STATE d AND 0x020C = 0)
                   then updateBaseVal i (set_auto_cnt i 0 d)
                   else set_auto_cnt i (of_int (uint (base_auto_calibrate_time d) * 60 - 60)) d
         else d)"

definition TIM3_second :: "dev \<Rightarrow> dev" where
  "TIM3_second d =
     (let d = set_flag 5 (set_flag 6 (d\<lparr>rtcTimeCnt := 0\<rparr>));
          d = d\<lparr>FCAlmVerifyCnt := count_to (3 + 1) (FCAlmVerifyCnt d)\<rparr>;
          d = TIM3_relax 1 (TIM3_relax 0 d)
      in if base_auto_calibrate_time d > 0 then TIM3_auto 1 (TIM3_auto 0 d)
         else set_auto_cnt 0 60 (set_auto_cnt 0 0 d))"

definition TIM3_IRQHandler :: "dev \<Rightarrow> dev" where
  "TIM3_IRQHandler d =
     (let d = d\<lparr>LED_RUN := (if remote_shutdown d \<noteq> 0 then False else \<not> LED_RUN d),
                run_screen_refresh := run_screen_refresh d + 1, lm75TempCnt := lm75TempCnt d + 1\<rparr>;
          d = (if lm75TempCnt d = 10 then set_flag 7 (d\<lparr>lm75TempCnt := 0\<rparr>) else d);
          d = TIM3_verify 1 (TIM3_verify 0 d);
          d = d\<lparr>rtcTimeCnt := rtcTimeCnt d + 1\<rparr>
      in if rtcTimeCnt d = 2 then TIM3_second d else d)"

subsection \<open>TIM4\<close>

text \<open>The mask of the second test is decimal 80.\<close>

definition TIM4_calibrate :: "dev \<Rightarrow> dev" where
  "TIM4_calibrate d =
     (if calibrating_flag d \<noteq> 0xFF \<and> calibrating_flag d AND 80 \<noteq> 0x80
      then let d = (if sint (adcCalibrateCnt d) \<ge> CALIBRATING_TIME * 100
                    then d\<lparr>calibrating_flag := calibrating_flag d OR 0x80, adcCalibrateCnt := 0\<rparr>
                    else if sint (adcCalibrateCnt d) smod 500 = 0 then set_flag 2 d else d)
           in d\<lparr>adcCalibrateCnt := adcCalibrateCnt d + 1\<rparr>
      else d)"

definition TIM4_schedule :: "dev \<Rightarrow> dev" where
  "TIM4_schedule d =
     (let d = (if alarmCheckCnt d = 0 then set_flag 0 d
               else if alarmCheckCnt d = 25000 then set_flag 1 d
               else if alarmCheckCnt d = 49999 then d\<lparr>alarmCheckCnt := -1\<rparr> else d)
      in d\<lparr>alarmCheckCnt := alarmCheckCnt d + 1\<rparr>)"

definition TIM4_IRQHandler :: "dev \<Rightarrow> dev" where
  "TIM4_IRQHandler d = TIM4_schedule (TIM4_calibrate d)"

subsection \<open>TIM5\<close>

definition siren_mask :: "dev \<Rightarrow> nat \<Rightarrow> u16" where
  "siren_mask d i =
     (if i = 0 then (if IS_SET_BIT (config_code d) 3 then 0x13 else 0x113)
      else (if IS_SET_BIT (config_code d) 3 then 0x1C else 0x21C))"

definition TIM5_A :: "dev \<Rightarrow> dev" where
  "TIM5_A d =
     (if sint (alarmingCnt d 0) = -1
      then if ALARM_STATE d AND siren_mask d 0 \<noteq> 0 then Alarm_RL_A d else d
      else if sint (alarmingCnt d 0) = uint (alarm_delay d 0) * 10
      then if ALARM_STATE d AND siren_mask d 0 \<noteq> 0 then Alarm_RL_A d else Remove_Alarm_RL_A d
      else d\<lparr>alarmingCnt := (alarmingCnt d)(0 := alarmingCnt d 0 + 1)\<rparr>)"

definition TIM5_B :: "dev \<Rightarrow> dev" where
  "TIM5_B d =
     (if sint (alarmingCnt d 1) = -1
      then if ALARM_STATE d AND siren_mask d 1 \<noteq> 0 then Alarm_RL_B d else d
      else if sint (alarmingCnt d 1) = uint (alarm_delay d 1) * 10
      then if ALARM_STATE d AND siren_mask d 1 \<noteq> 0 then Alarm_RL_B d else Remove_Alarm_RL_B d
      else d\<lparr>alarmingCnt := (alarmingCnt d)(1 := alarmingCnt d 1 + 1)\<rparr>)"

definition TIM5_IRQHandler :: "dev \<Rightarrow> dev" where
  "TIM5_IRQHandler d = TIM5_B (TIM5_A d)"

end
