(* ===== verification/NetConfig.thy ===== *)
theory NetConfig
  imports SysCtl
begin

text \<open>
  The device's own part of \<^verbatim>\<open>LWIP/lwip_app/lwip_comm/lwip_comm.c\<close>: the network parameters at
  start-up, their factory values, the restart that applies new ones, and the watch on the cable.
  The lwIP stack, the PHY and the unique number of the chip are arguments or recorded calls.
\<close>

definition mac_def :: "u8 list" where
  "mac_def = [0x44, 0x54, 0xA5]"

definition set4 :: "u8 \<Rightarrow> u8 \<Rightarrow> u8 \<Rightarrow> u8 \<Rightarrow> (nat \<Rightarrow> u8) \<Rightarrow> nat \<Rightarrow> u8" where
  "set4 a b c d f = f(0 := a, 1 := b, 2 := c, 3 := d)"

definition set_mac_oui :: "(nat \<Rightarrow> u8) \<Rightarrow> nat \<Rightarrow> u8" where
  "set_mac_oui f = f(0 := mac_def ! 0, 1 := mac_def ! 1, 2 := mac_def ! 2)"

text \<open>\<open>sn0\<close> is the word at \<^verbatim>\<open>0x1FFF7A10\<close>.\<close>

definition lwip_comm_default_ip_set :: "u32 \<Rightarrow> dev \<Rightarrow> dev" where
  "lwip_comm_default_ip_set sn0 d =
     (let d = d\<lparr>lw_remoteip := set4 192 168 0 90 (lw_remoteip d)\<rparr>;
          d = (if lw_mac d 0 = 0xFF \<and> lw_mac d 1 = 0xFF \<and> lw_mac d 2 = 0xFF
               then d\<lparr>lw_mac := set_mac_oui (lw_mac d)\<rparr> else d);
          d = d\<lparr>lw_mac := (lw_mac d)(3 := ucast (drop_bit 16 sn0 AND 0xFF),
                                     4 := ucast (drop_bit 8 sn0 AND 0xFFF), 5 := ucast (sn0 AND 0xFF))\<rparr>
      in WriteNetParasToEEProm
           (d\<lparr>lw_ip := set4 192 168 0 30 (lw_ip d), lw_netmask := set4 255 255 255 0 (lw_netmask d),
              lw_gateway := set4 192 168 0 1 (lw_gateway d), lw_dhcpstatus := 0\<rparr>))"

definition lwip_comm_ip_init :: "u32 \<Rightarrow> dev \<Rightarrow> dev" where
  "lwip_comm_ip_init sn0 d =
     (let d = ReadNetParasFromEEProm d;
          d = (if lw_mac d 0 = 0x55 \<and> lw_mac d 1 = 0x39 \<and> lw_mac d 2 = 0x72
               then WriteNetParasToEEProm (d\<lparr>lw_mac := set_mac_oui (lw_mac d)\<rparr>) else d)
      in if lw_ip d 0 = 0xFF \<and> lw_ip d 1 = 0xFF \<and> lw_ip d 2 = 0xFF \<and> lw_ip d 3 = 0xFF
         then lwip_comm_default_ip_set sn0 d else d)"

definition lwip_reset_netif_ipaddr :: "dev \<Rightarrow> dev" where
  "lwip_reset_netif_ipaddr d = Sys_Soft_Reset (WriteNetParasToEEProm d)"

subsection \<open>DHCP\<close>

text \<open>
  \<^verbatim>\<open>lwip_dhcp_task\<close>: each element of the list is what one round of the loop reads from lwIP, the
  three addresses and the number of tries.  The result is \<open>None\<close> while the task still waits.
\<close>

definition set_addr :: "u32 \<Rightarrow> (nat \<Rightarrow> u8) \<Rightarrow> nat \<Rightarrow> u8" where
  "set_addr a f = f(3 := ucast (drop_bit 24 a), 2 := ucast (drop_bit 16 a), 1 := ucast (drop_bit 8 a), 0 := ucast a)"

fun dhcp_loop :: "nat \<Rightarrow> (u32 \<times> u32 \<times> u32 \<times> nat) list \<Rightarrow> dev \<Rightarrow> dev option" where
  "dhcp_loop max_tries [] d = None"
| "dhcp_loop max_tries ((ip, netmask, gw, tries) # rs) d =
     (if ip \<noteq> 0
      then Some (d\<lparr>lw_dhcpstatus := 2, lw_ip := set_addr ip (lw_ip d),
                   lw_netmask := set_addr netmask (lw_netmask d), lw_gateway := set_addr gw (lw_gateway d)\<rparr>)
      else if tries > max_tries then Some (d\<lparr>lw_dhcpstatus := 0xFF\<rparr>)
      else dhcp_loop max_tries rs d)"

definition lwip_dhcp_task :: "nat \<Rightarrow> (u32 \<times> u32 \<times> u32 \<times> nat) list \<Rightarrow> dev \<Rightarrow> dev option" where
  "lwip_dhcp_task max_tries rs d = dhcp_loop max_tries rs (d\<lparr>lw_dhcpstatus := 1\<rparr>)"

subsection \<open>The cable\<close>

record link =
  EthInitStatus :: u8
  lastLinkStatus :: u8
  crtLinkStatus :: u8

datatype link_call = Call_ETH_Reinit | Call_httpd_init | Call_link_up | Call_link_down

text \<open>\<open>status\<close> is the answer of \<^verbatim>\<open>ETH_Get_Link_Status\<close>, \<open>reinit\<close> the one of \<^verbatim>\<open>ETH_Reinit\<close>.\<close>

definition Eth_Link_ITHandler :: "u8 \<Rightarrow> u8 \<Rightarrow> link \<Rightarrow> link \<times> link_call list" where
  "Eth_Link_ITHandler status reinit l =
     (let l = l\<lparr>crtLinkStatus := status\<rparr>
      in if lastLinkStatus l \<noteq> crtLinkStatus l
         then let (l, calls) =
                    (if crtLinkStatus l \<noteq> 0
                     then if EthInitStatus l = 0
                          then (l\<lparr>EthInitStatus := reinit\<rparr>, [Call_ETH_Reinit, Call_httpd_init])
                          else (l, [Call_link_up])
                     else (l, [Call_link_down]))
              in (l\<lparr>lastLinkStatus := crtLinkStatus l\<rparr>, calls)
         else (l, []))"

end
