(* ===== verification/TcpServer.thy ===== *)
theory TcpServer
  imports Alarm NetConfig
begin

text \<open>
  \<^verbatim>\<open>LWIP/lwip_app/tcp_server/tcp_server.c\<close>: the control protocol on port 9990.  What lwIP delivers
  and what it answers are arguments: the outcome of \<^verbatim>\<open>netconn_recv\<close> with the payloads of the pbuf
  chain, and the result \<open>wr\<close> of \<^verbatim>\<open>netconn_write\<close> on the bytes given to it.
\<close>

abbreviation (input) MSG_HEAD :: u8 where "MSG_HEAD \<equiv> 0x94"
abbreviation (input) RESULT_OK :: u8 where "RESULT_OK \<equiv> 0"
abbreviation (input) RESULT_ERROR :: u8 where "RESULT_ERROR \<equiv> 1"
abbreviation (input) ERR_OK :: u8 where "ERR_OK \<equiv> 0"
abbreviation (input) DEVICE_TYPE_TENSION :: u8 where "DEVICE_TYPE_TENSION \<equiv> 1"
abbreviation (input) MSG_TYPE_SEARCH_DEVICE :: u8 where "MSG_TYPE_SEARCH_DEVICE \<equiv> 1"
abbreviation (input) MSG_TYPE_SET_BUFANG :: u8 where "MSG_TYPE_SET_BUFANG \<equiv> 2"
abbreviation (input) MSG_TYPE_ALARM_RESET :: u8 where "MSG_TYPE_ALARM_RESET \<equiv> 3"
abbreviation (input) MSG_TYPE_SET_PARAS :: u8 where "MSG_TYPE_SET_PARAS \<equiv> 4"
abbreviation (input) MSG_TYPE_GET_DELAYED_ALARM_STATUS :: u8
  where "MSG_TYPE_GET_DELAYED_ALARM_STATUS \<equiv> 5"
abbreviation (input) MSG_TYPE_GET_STATUS :: u8 where "MSG_TYPE_GET_STATUS \<equiv> 6"
abbreviation (input) RX_BUFSIZE :: nat where "RX_BUFSIZE \<equiv> 512"

subsection \<open>Replies\<close>

text \<open>\<open>frame\<close> is the buffer up to \<^verbatim>\<open>sendLen\<close>, the length byte filled in at the end.\<close>

definition frame :: "u8 \<Rightarrow> u8 \<Rightarrow> u8 \<Rightarrow> u8 list \<Rightarrow> u8 list" where
  "frame fld msg_type result payload =
     (let buf = [MSG_HEAD, 0, fld, DEVICE_TYPE_TENSION, msg_type, result] @ payload
      in buf[1 := of_nat (length buf) - 2])"

definition tcp_send_err :: "u8 \<Rightarrow> u8 \<Rightarrow> u8 list" where
  "tcp_send_err field_num_tmp msg_type = frame field_num_tmp msg_type RESULT_ERROR []"

definition status_payload :: "dev \<Rightarrow> u8 \<Rightarrow> u8 \<Rightarrow> u8 list" where
  "status_payload d fld status =
     [if remote_shutdown d \<noteq> 0 then 4 else getBFFlag d fld, status,
      hi8 (getAlarmDelay d fld), lo8 (getAlarmDelay d fld), alarm_sensitivity d (getFieldIndex d fld),
      hi8 (alarm_threshold_up_dif d), lo8 (alarm_threshold_up_dif d),
      hi8 (alarm_threshold_down_dif d), lo8 (alarm_threshold_down_dif d),
      hi8 (tension_max_range d), lo8 (tension_max_range d),
      hi8 (base_auto_calibrate_time d), lo8 (base_auto_calibrate_time d),
      getPeerFieldNum d fld, SW_Type d 0, SW_Type d 1]"

definition tcp_send_data :: "dev \<Rightarrow> u8 \<Rightarrow> u8 \<Rightarrow> u8 list" where
  "tcp_send_data d fld msg_type =
     frame fld msg_type RESULT_OK
       (if msg_type = MSG_TYPE_SEARCH_DEVICE then [field_num d 0, field_num d 1]
        else if msg_type = MSG_TYPE_GET_DELAYED_ALARM_STATUS
             then status_payload d fld (getAlarmDelayedStatus d fld)
        else if msg_type = MSG_TYPE_GET_STATUS then status_payload d fld (getAlarmStatus d fld)
        else [])"

subsection \<open>Receiving\<close>

text \<open>\<^verbatim>\<open>memcpy(buf + n, q, len)\<close>.\<close>

definition overlay :: "nat \<Rightarrow> u8 list \<Rightarrow> u8 list \<Rightarrow> u8 list" where
  "overlay n q buf = take n buf @ q @ drop (n + length q) buf"

fun copy_pbufs :: "u8 list list \<Rightarrow> nat \<Rightarrow> u8 list \<Rightarrow> u8 list \<times> nat" where
  "copy_pbufs [] data_len buf = (buf, data_len)"
| "copy_pbufs (q # qs) data_len buf =
     (let buf = (if length q > RX_BUFSIZE - data_len
                 then overlay data_len (take (RX_BUFSIZE - data_len) q) buf
                 else overlay data_len q buf);
          data_len = data_len + length q
      in if data_len > RX_BUFSIZE then (buf, data_len) else copy_pbufs qs data_len buf)"

text \<open>
  The buffer afterwards, the error frame the code sends when it rejects the message, and the
  result.  \<^verbatim>\<open>data_len - 2\<close> is a \<^verbatim>\<open>u32\<close> and wraps for messages of less than two bytes.
\<close>

definition tcp_recv_data :: "u8 \<Rightarrow> u8 list list \<Rightarrow> u8 list \<Rightarrow> u8 list \<times> u8 list list \<times> u8" where
  "tcp_recv_data recv_err chain buf =
     (if recv_err = ERR_OK
      then let (buf, data_len) = copy_pbufs chain 0 (replicate RX_BUFSIZE 0)
           in if buf ! 0 \<noteq> MSG_HEAD then (buf, [tcp_send_err (buf ! 2) (buf ! 4)], RESULT_ERROR)
              else if (ucast (buf ! 1) :: u32) \<noteq> of_nat data_len - 2
              then (buf, [tcp_send_err (buf ! 2) (buf ! 4)], RESULT_ERROR)
              else if buf ! 4 \<noteq> MSG_TYPE_SEARCH_DEVICE \<and> buf ! 3 \<noteq> DEVICE_TYPE_TENSION
              then (buf, [tcp_send_err (buf ! 2) (buf ! 4)], RESULT_ERROR)
              else (buf, [], recv_err)
      else (buf, [], recv_err))"

subsection \<open>Acting on a message\<close>

definition set_ip_byte :: "nat \<Rightarrow> u8 \<Rightarrow> dev \<Rightarrow> dev" where
  "set_ip_byte i v d =
     (if lw_ip d i \<noteq> v then d\<lparr>lw_ip := (lw_ip d)(i := v), ip_change_flag := 1\<rparr> else d)"

definition set_bufang :: "u8 \<Rightarrow> u8 \<Rightarrow> dev \<Rightarrow> dev" where
  "set_bufang fieldNum defenceStatus d =
     (if defenceStatus = 1 \<or> defenceStatus = 0
      then if remote_shutdown d = 0 then modifyBFFlag fieldNum (ucast defenceStatus) d else d
      else if defenceStatus = 3 then remoteShutdown 0 d
      else if defenceStatus = 4 then remoteShutdown 1 d
      else d)"

definition set_paras :: "u8 list \<Rightarrow> u8 \<Rightarrow> dev \<Rightarrow> dev" where
  "set_paras buf fieldNum d =
     (let newFieldNum = buf ! 5;
          d = modifyFieldNum fieldNum newFieldNum d;
          d = set_ip_byte 3 (buf ! 9) (set_ip_byte 2 (buf ! 8) (set_ip_byte 1 (buf ! 7)
                (set_ip_byte 0 (buf ! 6) d)));
          d = modifyAlarmDelay newFieldNum (be16 (buf ! 10) (buf ! 11)) d;
          d = setAlarmSensitivity (getFieldIndex d newFieldNum) (buf ! 12) d;
          d = setAlmThrdUpDif (be16 (buf ! 13) (buf ! 14)) d;
          d = setAlmThrdDwDif (be16 (buf ! 15) (buf ! 16)) d;
          d = setTensionMaxRange (be16 (buf ! 17) (buf ! 18)) d
      in setBaseAutoCalibrateTime (be16 (buf ! 19) (buf ! 20)) d)"

text \<open>
  \<^verbatim>\<open>parse_reply_data\<close>: the device afterwards, the frames sent and the result.  A reset does not
  come back to send the reply.
\<close>

definition parse_reply_data ::
    "(u8 list \<Rightarrow> u8) \<Rightarrow> u8 list \<Rightarrow> dev \<Rightarrow> dev \<times> u8 list list \<times> u8" where
  "parse_reply_data wr buf d =
     (if buf ! 0 \<noteq> MSG_HEAD then (d, [], RESULT_ERROR)
      else
        let fieldNum = buf ! 2; msgType = buf ! 4
        in if msgType \<noteq> MSG_TYPE_SEARCH_DEVICE \<and> (fieldNum \<noteq> field_num d 0 \<and> fieldNum \<noteq> field_num d 1)
           then (d, [tcp_send_err fieldNum msgType], wr (tcp_send_err fieldNum msgType))
           else
             let d = (if msgType = MSG_TYPE_SET_BUFANG then set_bufang fieldNum (buf ! 5) d
                      else if msgType = MSG_TYPE_ALARM_RESET then removeAlarmRL fieldNum d
                      else if msgType = MSG_TYPE_SET_PARAS then set_paras buf fieldNum d
                      else d);
                 fieldNum = (if msgType = MSG_TYPE_SET_PARAS then buf ! 5 else fieldNum);
                 reply = tcp_send_data d fieldNum msgType
             in if sys_reset d then (d, [], ERR_OK) else (d, [reply], wr reply))"

subsection \<open>A connection\<close>

text \<open>
  The inner loop of \<^verbatim>\<open>tcp_server_thread\<close> over the outcomes of the successive receives; the list
  ends where the observation ends.  The events are the calls made on the connection.
\<close>

datatype conn_ev = Recv_call | Write_call "u8 list" | Disconnect

fun conn_loop :: "(u8 list \<Rightarrow> u8) \<Rightarrow> (u8 \<times> u8 list list) list \<Rightarrow> u8 list \<Rightarrow> dev \<Rightarrow> conn_ev list \<times> u8 list \<times> dev" where
  "conn_loop wr [] buf d = ([], buf, d)"
| "conn_loop wr ((recv_err, chain) # rs) buf d =
     (let (buf, out, err) = tcp_recv_data recv_err chain buf
      in if err = ERR_OK
         then let (d, out', err') = parse_reply_data wr buf d;
                  now = Recv_call # map Write_call (out @ out') @ (if err' \<noteq> ERR_OK then [Disconnect] else [])
              in if sys_reset d then (now, buf, d)
                 else let (later, buf, d) = conn_loop wr rs buf d in (now @ later, buf, d)
         else (Recv_call # map Write_call out @ [Disconnect], buf, d))"

text \<open>
  The outer loop's test before each \<^verbatim>\<open>netconn_accept\<close>: a changed address restarts the device.
\<close>

definition server_poll :: "dev \<Rightarrow> dev" where
  "server_poll d = (if ip_change_flag d \<noteq> 0 then lwip_reset_netif_ipaddr d else d)"

end
