(* ===== verification/Clock.thy ===== *)
theory Clock
  imports Device I2cBus CString
begin

text \<open>
  \<^verbatim>\<open>HARDWARE/PCF8563/pcf8563.c\<close> (the real-time clock), the temperature string of
  \<^verbatim>\<open>HARDWARE/LM75/lm75.c\<close> and \<^verbatim>\<open>HARDWARE/KEY/key.c\<close>.

  A transfer that fails leaves the receive buffer as it was, an uninitialised local array: its
  contents are the argument \<open>junk\<close>.  The failure test compares the result of \<^verbatim>\<open>IICRead\<close> with
  \<^verbatim>\<open>ERROR\<close>, which is 0.
\<close>

subsection \<open>Setting the clock\<close>

record rtc_td =
  tm_year :: u8
  tm_mon :: u8
  tm_mday :: u8
  tm_hour :: u8
  tm_min :: u8
  tm_sec :: u8

abbreviation (input) PCF8563_SLAVE_ADDR :: u8 where "PCF8563_SLAVE_ADDR \<equiv> 0xa2"

definition Hex2BCD :: "u8 \<Rightarrow> u8" where
  "Hex2BCD hexChar =
     (let hexChar = (if hexChar > 99 then 99 else hexChar)
      in push_bit 4 (hexChar div 10) + (hexChar - hexChar div 10 * 10))"

definition PCF8563_Init :: "(nat \<Rightarrow> bool) \<Rightarrow> bus_op list" where
  "PCF8563_Init nack =
     fst (IICWrite nack PCF8563_SLAVE_ADDR 0x00
       [0x00, 0x00, 0x00, 0x00, 0x00, 0x01, 0x06, 0x01, 0x18, 0x80, 0x80, 0x80, 0x80, 0x81, 0x00, 0x00])"

text \<open>January and February count as months 13 and 14 of the year before.\<close>

definition shift_month :: "rtc_td \<Rightarrow> rtc_td" where
  "shift_month td =
     (if tm_mon td = 1 \<or> tm_mon td = 2 then td\<lparr>tm_mon := tm_mon td + 12, tm_year := tm_year td - 1\<rparr> else td)"

definition weekday_raw :: "rtc_td \<Rightarrow> u8" where
  "weekday_raw td =
     of_int ((uint (tm_mday td) + 2 * uint (tm_mon td) + 3 * (uint (tm_mon td) + 1) div 5
              + uint (tm_year td) + uint (tm_year td) div 4 - uint (tm_year td) div 100
              + uint (tm_year td) div 400) mod 7)"

definition weekday_reg :: "rtc_td \<Rightarrow> u8" where
  "weekday_reg td = (if weekday_raw td = 6 then 0 else weekday_raw td + 1)"

text \<open>The sixteen registers, and the caller's structure, which the code shifts in place.\<close>

definition PCF8563_Set_regs :: "rtc_td \<Rightarrow> u8 list \<times> rtc_td" where
  "PCF8563_Set_regs td =
     (let td' = shift_month td
      in ([0x00, 0x00, Hex2BCD (tm_sec td), Hex2BCD (tm_min td), Hex2BCD (tm_hour td),
           Hex2BCD (tm_mday td), weekday_reg td', Hex2BCD (tm_mon td), Hex2BCD (tm_year td),
           0x80, 0x80, 0x80, 0x80, 0x81, 0x00, 0x00], td'))"

definition PCF8563_Set :: "(nat \<Rightarrow> bool) \<Rightarrow> rtc_td \<Rightarrow> bus_op list \<times> rtc_td" where
  "PCF8563_Set nack td =
     (let (regs, td') = PCF8563_Set_regs td
      in (fst (IICWrite nack PCF8563_SLAVE_ADDR 0x00 regs), td'))"

text \<open>
  \<^verbatim>\<open>splitStrToInt\<close>: the first token is converted without a test, so a string without a token is a
  null pointer.  \<open>n\<close> bounds the rounds by the length of the text, which every token shortens.
\<close>

fun split_rest :: "nat \<Rightarrow> char set \<Rightarrow> string \<Rightarrow> int list" where
  "split_rest 0 delim s = []"
| "split_rest (Suc n) delim s =
     (case strtok delim s of None \<Rightarrow> [] | Some (p, r) \<Rightarrow> fst (strtol p) # split_rest n delim r)"

definition splitStrToInt :: "char set \<Rightarrow> string \<Rightarrow> int list option" where
  "splitStrToInt delim s =
     (if strtok delim s = None then None else Some (split_rest (Suc (length s)) delim s))"

text \<open>
  \<^verbatim>\<open>PCF8563_Set_Str\<close>: three numbers go to an array of three; with more or fewer of them the code
  overruns the array or reads what was never written, and the model has no result.
\<close>

definition parse_rtc :: "string \<Rightarrow> rtc_td option" where
  "parse_rtc s =
     (if length s < 11 then None
      else case splitStrToInt {CHR ''-''} (take 10 s) of
        Some [y, mo, da] \<Rightarrow>
          (case splitStrToInt {CHR '':''} (take 8 (drop 11 s)) of
             Some [h, mi, se] \<Rightarrow>
               Some \<lparr>tm_year = of_int (y - 2000), tm_mon = of_int mo, tm_mday = of_int da,
                     tm_hour = of_int h, tm_min = of_int mi, tm_sec = of_int se\<rparr>
           | _ \<Rightarrow> None)
      | _ \<Rightarrow> None)"

definition PCF8563_Set_Str :: "(nat \<Rightarrow> bool) \<Rightarrow> string \<Rightarrow> (bus_op list \<times> rtc_td) option" where
  "PCF8563_Set_Str nack s = map_option (PCF8563_Set nack) (parse_rtc s)"

subsection \<open>Reading the clock\<close>

text \<open>The eleven bytes of \<^verbatim>\<open>read_time\<close> after the transfer, with the unused bits masked off.\<close>

definition read_time :: "(nat \<Rightarrow> bool) \<Rightarrow> (nat \<Rightarrow> u8) \<Rightarrow> (nat \<Rightarrow> u8) \<Rightarrow> (nat \<Rightarrow> u8) option" where
  "read_time nack rx junk =
     (let (ops, data, res) = IICRead nack rx PCF8563_SLAVE_ADDR 0x00 11;
          b = (\<lambda>i. if i < length data then data ! i else junk i)
      in if res = 0 then None
         else Some (b(2 := b 2 AND 0x7f, 3 := b 3 AND 0x7f, 4 := b 4 AND 0x3f, 5 := b 5 AND 0x3f,
                      7 := b 7 AND 0x1f, 8 := b 8 AND 0xff)))"

definition of_bcd :: "u8 \<Rightarrow> u8" where
  "of_bcd b = drop_bit 4 b * 10 + (b AND 0x0f)"

definition PCF8563_Get :: "(nat \<Rightarrow> bool) \<Rightarrow> (nat \<Rightarrow> u8) \<Rightarrow> (nat \<Rightarrow> u8) \<Rightarrow> rtc_td \<Rightarrow> rtc_td" where
  "PCF8563_Get nack rx junk td =
     (case read_time nack rx junk of
        None \<Rightarrow> td
      | Some b \<Rightarrow> \<lparr>tm_year = of_bcd (b 8), tm_mon = of_bcd (b 7), tm_mday = of_bcd (b 5),
                   tm_hour = of_bcd (b 4), tm_min = of_bcd (b 3), tm_sec = of_bcd (b 2)\<rparr>)"

definition rtc_string :: "(nat \<Rightarrow> u8) \<Rightarrow> string" where
  "rtc_string b = ''20'' @ fmt_02x (b 8) @ ''-'' @ fmt_02x (b 7) @ ''-'' @ fmt_02x (b 5) @ '' '' @
     fmt_02x (b 4) @ '':'' @ fmt_02x (b 3) @ '':'' @ fmt_02x (b 2)"

definition ascii :: "string \<Rightarrow> u8 list" where
  "ascii s = map (\<lambda>c. of_nat (of_char c)) s"

definition chars :: "u8 list \<Rightarrow> string" where
  "chars bs = map (\<lambda>b. char_of (unat b)) bs"

text \<open>The 19 characters fill \<^verbatim>\<open>rtcTempStr\<close>; the terminator goes to the byte behind it.\<close>

definition PCF8563_Get_Str :: "(nat \<Rightarrow> bool) \<Rightarrow> (nat \<Rightarrow> u8) \<Rightarrow> (nat \<Rightarrow> u8) \<Rightarrow> dev \<Rightarrow> dev" where
  "PCF8563_Get_Str nack rx junk d =
     (case read_time nack rx junk of None \<Rightarrow> d | Some b \<Rightarrow> d\<lparr>rtcTempStr := ascii (rtc_string b)\<rparr>)"

subsection \<open>The temperature string\<close>

definition LM75_ReadTempStr :: "u16 \<Rightarrow> string" where
  "LM75_ReadTempStr temp =
     (let half = (if drop_bit 7 temp AND 0x01 = 1 then ''5'' else ''0'')
      in if temp AND 0x8000 = 0
         then fmt_d (uint (ucast (drop_bit 8 temp AND 0xff) :: u8)) @ ''.'' @ half
         else ''-'' @ fmt_d (uint (- ucast (drop_bit 8 temp AND 0xff) :: u8)) @ ''.'' @ half)"

subsection \<open>Keys\<close>

text \<open>A key line is low while the key is pressed; \<open>key_up\<close> is the static flag.\<close>

record keys =
  KEY_ESC :: bool
  KEY_ENTER :: bool
  KEY_UP :: bool
  KEY_DOWN :: bool
  KEY_LEFT :: bool
  KEY_RIGHT :: bool

definition KEY_Scan :: "bool \<Rightarrow> keys \<Rightarrow> bool \<Rightarrow> bool \<times> u8" where
  "KEY_Scan mode k key_up =
     (let key_up = (if mode then True else key_up)
      in if key_up \<and> (\<not> KEY_ESC k \<or> \<not> KEY_ENTER k \<or> \<not> KEY_UP k \<or> \<not> KEY_DOWN k \<or> \<not> KEY_LEFT k \<or> \<not> KEY_RIGHT k)
         then (False,
               if \<not> KEY_ESC k then 1 else if \<not> KEY_ENTER k then 2 else if \<not> KEY_UP k then 3
               else if \<not> KEY_DOWN k then 4 else if \<not> KEY_LEFT k then 5 else if \<not> KEY_RIGHT k then 6 else 0)
         else if KEY_ESC k \<and> KEY_ENTER k \<and> KEY_UP k \<and> KEY_DOWN k \<and> KEY_LEFT k \<and> KEY_RIGHT k
         then (True, 0) else (key_up, 0))"

subsection \<open>Round trips\<close>

lemma length_fmt_02x [simp]: "length (fmt_02x b) = 2"
  by (simp add: fmt_02x_def)

lemma length_rtc_string [simp]: "length (rtc_string b) = 19"
  by (simp add: rtc_string_def)

end
