(* ===== verification/WebCgi.thy ===== *)
theory WebCgi
  imports EventLog Alarm NetConfig Clock
begin

text \<open>
  \<^verbatim>\<open>LWIP/lwip_app/web_server/httpd_cgi_ssi.c\<close>: the values the pages show (SSI) and the requests
  they send (CGI).  The HTTP server is lwIP's; it passes the parameters of a request as a list of
  names with values, each with an \<^verbatim>\<open>=\<close> in the request.  A log type that is not below five indexes
  beyond the log arrays, and the model has no result.
\<close>

type_synonym params = "(string \<times> string) list"

definition FindCGIParameter :: "string \<Rightarrow> params \<Rightarrow> bool" where
  "FindCGIParameter name ps \<longleftrightarrow> name \<in> fst ` set ps"

subsection \<open>Addresses as text\<close>

text \<open>
  \<open>section\<close> is an \<^verbatim>\<open>int\<close>, which wraps.  The first component of the result is the array, which the
  code fills as it goes.
\<close>

fun ipStrToInt_loop :: "string \<Rightarrow> s32 \<Rightarrow> nat \<Rightarrow> (nat \<Rightarrow> u8) \<Rightarrow> (nat \<Rightarrow> u8) \<times> int" where
  "ipStrToInt_loop [] sec dot ip_int =
     (if 0 \<le> sint sec \<and> sint sec \<le> 255 then (ip_int(3 := ucast sec), 0) else (ip_int, -1))"
| "ipStrToInt_loop (c # cs) sec dot ip_int =
     (if c = CHR ''.''
      then let dot = dot + 1
           in if dot > 3 \<or> (cs \<noteq> [] \<and> hd cs = CHR ''.'') then (ip_int, -1)
              else if 0 \<le> sint sec \<and> sint sec \<le> 255
              then ipStrToInt_loop cs 0 dot (ip_int(dot - 1 := ucast sec))
              else (ip_int, -1)
      else if is_digit c then ipStrToInt_loop cs (sec * 10 + of_nat (of_char c) - 48) dot ip_int
      else (ip_int, -1))"

definition ipStrToInt :: "(nat \<Rightarrow> u8) \<Rightarrow> string \<Rightarrow> (nat \<Rightarrow> u8) \<times> int" where
  "ipStrToInt ip_int ip = ipStrToInt_loop ip 0 0 ip_int"

definition hex_digit :: "char \<Rightarrow> s32 option" where
  "hex_digit c =
     (let n = of_char c :: nat
      in if 48 \<le> n \<and> n \<le> 57 then Some (of_nat n - 48)
         else if 97 \<le> n \<and> n \<le> 102 then Some (of_nat n - 97 + 0x0a)
         else if 65 \<le> n \<and> n \<le> 70 then Some (of_nat n - 65 + 0x0a) else None)"

fun macStrToInt_loop :: "string \<Rightarrow> s32 \<Rightarrow> nat \<Rightarrow> (nat \<Rightarrow> u8) \<Rightarrow> (nat \<Rightarrow> u8) \<times> int" where
  "macStrToInt_loop [] sec dot mac_int =
     (if 0 \<le> sint sec \<and> sint sec \<le> 255 then (mac_int(5 := ucast sec), 0) else (mac_int, -1))"
| "macStrToInt_loop (c # cs) sec dot mac_int =
     (if c = CHR '':''
      then let dot = dot + 1
           in if dot > 5 \<or> (cs \<noteq> [] \<and> hd cs = CHR '':'') then (mac_int, -1)
              else if 0 \<le> sint sec \<and> sint sec \<le> 255
              then macStrToInt_loop cs 0 dot (mac_int(dot - 1 := ucast sec))
              else (mac_int, -1)
      else case hex_digit c of
             Some v \<Rightarrow> macStrToInt_loop cs (sec * 16 + v) dot mac_int
           | None \<Rightarrow> (mac_int, -1))"

definition macStrToInt :: "(nat \<Rightarrow> u8) \<Rightarrow> string \<Rightarrow> (nat \<Rightarrow> u8) \<times> int" where
  "macStrToInt mac_int mac = macStrToInt_loop mac 0 0 mac_int"

definition fmt_ip :: "(nat \<Rightarrow> u8) \<Rightarrow> string" where
  "fmt_ip a = fmt_d (uint (a 0)) @ ''.'' @ fmt_d (uint (a 1)) @ ''.'' @ fmt_d (uint (a 2)) @ ''.'' @
     fmt_d (uint (a 3))"

definition fmt_mac :: "(nat \<Rightarrow> u8) \<Rightarrow> string" where
  "fmt_mac a = fmt_02X (a 0) @ '':'' @ fmt_02X (a 1) @ '':'' @ fmt_02X (a 2) @ '':'' @ fmt_02X (a 3) @ '':'' @
     fmt_02X (a 4) @ '':'' @ fmt_02X (a 5)"

subsection \<open>What the pages show\<close>

text \<open>
  \<^verbatim>\<open>SSIHandler\<close>: the device (a page of the log may be read) and the inserted text.  \<open>temp\<close> is what
  \<^verbatim>\<open>LM75_ReadTemp\<close> returns.  The version strings are cut at the size of their arrays.
\<close>

definition Temperate_Handler :: "u16 \<Rightarrow> string" where
  "Temperate_Handler temp = LM75_ReadTempStr temp"

definition SSI_log_page :: "dev \<Rightarrow> (dev \<times> string) option" where
  "SSI_log_page d =
     (if crtWebPageLogData d = []
      then if unat (logType d) < 5
           then let d = ReadWebFirstPageLog (unat (logType d)) d in Some (d, chars (crtWebPageLogData d))
           else None
      else Some (d, chars (crtWebPageLogData d)))"

definition SSIHandler :: "u16 \<Rightarrow> nat \<Rightarrow> dev \<Rightarrow> (dev \<times> string) option" where
  "SSIHandler temp iIndex d =
     (if iIndex = 12 then SSI_log_page d
      else if iIndex = 17
      then if unat (logType d) < 5
           then Some (d, fmt_d (uint (getWebLogPageTotal (unat (logType d)) d))) else None
      else Some (d,
        if iIndex = 0 then fmt_mac (lw_mac d)
        else if iIndex = 1 then fmt_ip (lw_ip d)
        else if iIndex = 2 then fmt_ip (lw_netmask d)
        else if iIndex = 3 then fmt_ip (lw_gateway d)
        else if iIndex = 4 then Temperate_Handler temp
        else if iIndex = 5 then chars (cstr (rtcTempStr d))
        else if iIndex = 6 then fmt_d (uint (ALARM_STATE d))
        else if iIndex = 7 then fmt_d (uint (tension_max_range d)) @ ''#'' @
          fmt_d (uint (alarm_threshold_up_dif d)) @ ''#'' @ fmt_d (uint (alarm_threshold_down_dif d)) @
          ''#'' @ fmt_d (uint (base_auto_calibrate_time d))
        else if iIndex = 8 then fmt_d (uint (controlPara d))
        else if iIndex = 9 then ''0.1''
        else if iIndex = 10 then ''00.01''
        else if iIndex = 11 then fmt_d (uint (logType d))
        else if iIndex = 13 then fmt_d (uint (webLogPageFlag d))
        else if iIndex = 14 then fmt_d (or (push_bit 8 (sint (SW_Type d 1))) (sint (SW_Type d 0)))
        else if iIndex = 15 then getWebFieldParas d
        else if iIndex = 16 then fmt_d (uint (crtWebLogPageNum d))
        else if iIndex = 18
        then fmt_d (or (and (push_bit 1 (uint (W4_W6 d))) 0x02) (of_bool (FIELD_FLAG_S0D1 d)))
        else if iIndex = 19 then fmt_d (uint (remote_shutdown d))
        else if iIndex = 20 then fmt_d (uint (config_code d))
        else if iIndex = 21 then getWebAdcValStr d
        else if iIndex = 22
        then fmt_d (or (or (push_bit 12 (uint (calibrate_en d 1))) (push_bit 8 (uint (calibrate_en d 0))))
                       (uint (calibrating_flag d)))
        else ''''))"

subsection \<open>Requests\<close>

text \<open>After a reset nothing more happens; \<open>unless_reset\<close> guards every step of a loop.\<close>

definition unless_reset :: "(dev \<Rightarrow> dev) \<Rightarrow> dev \<Rightarrow> dev" where
  "unless_reset f d = (if sys_reset d then d else f d)"

definition Network_param :: "string \<times> string \<Rightarrow> dev \<times> bool \<Rightarrow> dev \<times> bool" where
  "Network_param p s =
     (case (p, s) of ((name, v), (d, modify)) \<Rightarrow>
        if name = ''MAC'' then (d\<lparr>lw_mac := fst (macStrToInt (lw_mac d) v)\<rparr>, True)
        else if name = ''IP'' then (d\<lparr>lw_ip := fst (ipStrToInt (lw_ip d) v)\<rparr>, True)
        else if name = ''SUBMASK'' then (d\<lparr>lw_netmask := fst (ipStrToInt (lw_netmask d) v)\<rparr>, True)
        else if name = ''GATEWEY'' then (d\<lparr>lw_gateway := fst (ipStrToInt (lw_gateway d) v)\<rparr>, True)
        else (d, modify))"

definition Network_CGI_Handler :: "params \<Rightarrow> dev \<Rightarrow> dev \<times> string" where
  "Network_CGI_Handler ps d =
     (let (d, modify) = (if FindCGIParameter ''LAN'' ps then fold Network_param ps (d, False) else (d, False));
          d = (if modify then lwip_reset_netif_ipaddr d else d)
      in (d, ''/parameters.shtml''))"

text \<open>
  The date and the time of a request go to the global structure \<open>td\<close>; the clock gets its registers.
\<close>

definition Datetime_param :: "string \<times> string \<Rightarrow> rtc_td option \<Rightarrow> rtc_td option" where
  "Datetime_param p td =
     (case td of None \<Rightarrow> None
      | Some td \<Rightarrow>
          let (name, v) = p
          in if name = ''DATE''
             then (case splitStrToInt {CHR ''-''} v of
                     Some [y, mo, da] \<Rightarrow>
                       Some (td\<lparr>tm_year := of_int (y - 2000), tm_mon := of_int mo, tm_mday := of_int da\<rparr>)
                   | _ \<Rightarrow> None)
             else if name = ''TIME''
             then (case splitStrToInt {CHR '':''} v of
                     Some [h, mi, se] \<Rightarrow> Some (td\<lparr>tm_hour := of_int h, tm_min := of_int mi, tm_sec := of_int se\<rparr>)
                   | _ \<Rightarrow> None)
             else Some td)"

definition Datetime_CGI_Handler :: "params \<Rightarrow> rtc_td \<Rightarrow> (u8 list option \<times> rtc_td) option" where
  "Datetime_CGI_Handler ps td =
     (if FindCGIParameter ''DATE'' ps
      then (case fold Datetime_param ps (Some td) of
              None \<Rightarrow> None
            | Some td \<Rightarrow> let (regs, td) = PCF8563_Set_regs td in Some (Some regs, td))
      else Some (None, td))"

definition Switch_param :: "string \<times> string \<Rightarrow> dev \<Rightarrow> dev" where
  "Switch_param p d = (if fst p = ''SWITCH'' then setSWValue (of_int (atoi (snd p))) d else d)"

definition Switch_Handler :: "params \<Rightarrow> dev \<Rightarrow> dev \<times> string" where
  "Switch_Handler ps d =
     (if FindCGIParameter ''SWITCH'' ps then fold Switch_param ps d else d, ''/parameters.shtml'')"

definition Shutdown_param :: "string \<times> string \<Rightarrow> dev \<times> u8 \<Rightarrow> dev \<times> u8" where
  "Shutdown_param p s =
     (case s of (d, sd) \<Rightarrow>
        if sys_reset d then (d, sd)
        else if fst p = ''shutdown''
        then (remoteShutdown (of_int (atoi (snd p))) d, of_int (atoi (snd p))) else (d, sd))"

definition Shutdown_Handler :: "params \<Rightarrow> dev \<Rightarrow> dev \<times> string" where
  "Shutdown_Handler ps d =
     (let (d, sd) = (if FindCGIParameter ''shutdown'' ps then fold Shutdown_param ps (d, 0) else (d, 0))
      in (d, if sd = 1 then ''/parameters.shtml'' else ''/remotepower.shtml''))"

definition Control_field_param :: "string \<times> string \<Rightarrow> dev \<Rightarrow> dev" where
  "Control_field_param p d =
     (let name = fst p; v = atoi (snd p)
      in if name = ''field_num_0'' then d\<lparr>field_num := (field_num d)(0 := of_int v)\<rparr>
         else if name = ''alm_dly_0'' then d\<lparr>alarm_delay := (alarm_delay d)(0 := of_int v)\<rparr>
         else if name = ''sensitivity_0'' then d\<lparr>alarm_sensitivity := (alarm_sensitivity d)(0 := of_int v)\<rparr>
         else if name = ''field_num_1'' then d\<lparr>field_num := (field_num d)(1 := of_int v)\<rparr>
         else if name = ''alm_dly_1'' then d\<lparr>alarm_delay := (alarm_delay d)(1 := of_int v)\<rparr>
         else if name = ''sensitivity_1'' then d\<lparr>alarm_sensitivity := (alarm_sensitivity d)(1 := of_int v)\<rparr>
         else d)"

definition Control_reset_param :: "string \<times> string \<Rightarrow> dev \<Rightarrow> dev" where
  "Control_reset_param p d =
     (if fst p = ''alarm_reset'' \<and> snd p = ''0'' then Remove_Alarm_RL_A d
      else if fst p = ''alarm_reset'' \<and> snd p = ''1'' then Remove_Alarm_RL_B d else d)"

text \<open>The value of the last parameter of that name, or of the first parameter of all.\<close>

definition last_value :: "string \<Rightarrow> params \<Rightarrow> string" where
  "last_value name ps =
     (case filter (\<lambda>p. fst p = name) ps of [] \<Rightarrow> snd (hd ps) | q # qs \<Rightarrow> snd (last (q # qs)))"

definition Control_ctr :: "params \<Rightarrow> dev \<Rightarrow> dev" where
  "Control_ctr ps d =
     (let typ = last_value ''CTR_TYPE'' ps; on = (atoi (last_value ''CTR_VALUE'' ps) = 1)
      in if typ = ''fc'' then (if on then FangChai_Start d else FangChai_Stop d)
         else if typ = ''b_bf'' then (if on then Push_B_Start d else Push_B_Stop d)
         else if typ = ''a_bf'' then (if on then Push_A_Start d else Push_A_Stop d)
         else d)"

definition Control_thrd_param :: "string \<times> string \<Rightarrow> dev \<Rightarrow> dev" where
  "Control_thrd_param p d =
     (if fst p = ''THRESHOLD_UP'' then setAlmThrdUpDif (of_int (atoi (snd p))) d
      else if fst p = ''THRESHOLD_DOWN'' then setAlmThrdDwDif (of_int (atoi (snd p))) d else d)"

definition Control_range_param :: "string \<times> string \<Rightarrow> dev \<Rightarrow> dev" where
  "Control_range_param p d =
     (if fst p = ''TENSION_MAX_RANGE'' then setTensionMaxRange (of_int (atoi (snd p))) d
      else if fst p = ''BASE_AUTO_CALIBRATE_TIME'' then setBaseAutoCalibrateTime (of_int (atoi (snd p))) d
      else d)"

text \<open>The argument of \<^verbatim>\<open>updateZeroVal\<close> and \<^verbatim>\<open>updateBaseVal\<close> is cut to a byte.\<close>

definition Control_zero_param :: "string \<times> string \<Rightarrow> dev \<Rightarrow> dev" where
  "Control_zero_param p d =
     (if fst p = ''zero_reset'' then updateZeroVal (unat (of_int (atoi (snd p)) :: u8)) d else d)"

definition Control_base_param :: "string \<times> string \<Rightarrow> dev \<Rightarrow> dev" where
  "Control_base_param p d =
     (if fst p = ''base_reset'' then updateBaseVal (unat (of_int (atoi (snd p)) :: u8)) d else d)"

definition Control_CGI_Handler :: "params \<Rightarrow> dev \<Rightarrow> dev \<times> string" where
  "Control_CGI_Handler ps d =
     (if FindCGIParameter ''field_num_0'' ps
      then (WriteFieldParaToEEProm (fold Control_field_param ps d), ''/control.shtml'')
      else if FindCGIParameter ''alarm_reset'' ps then (fold Control_reset_param ps d, ''/control.shtml'')
      else if FindCGIParameter ''CTR_TYPE'' ps then (Control_ctr ps d, ''/control.shtml'')
      else if FindCGIParameter ''THRESHOLD_UP'' ps then (fold Control_thrd_param ps d, ''/control.shtml'')
      else if FindCGIParameter ''TENSION_MAX_RANGE'' ps then (fold Control_range_param ps d, ''/control.shtml'')
      else if FindCGIParameter ''zero_reset'' ps then (fold Control_zero_param ps d, ''/state.shtml'')
      else if FindCGIParameter ''base_reset'' ps then (fold Control_base_param ps d, ''/state.shtml'')
      else (d, ''/control.shtml''))"

definition Default_param :: "string \<times> string \<Rightarrow> dev \<Rightarrow> dev" where
  "Default_param p = unless_reset (\<lambda>d. if fst p = ''DEFAULT'' \<and> snd p = ''1'' then systemDefault d else d)"

text \<open>The first \<^verbatim>\<open>configcode\<close> parameter ends the loop and the function.\<close>

definition Default_CGI_Handler :: "params \<Rightarrow> dev \<Rightarrow> dev \<times> string" where
  "Default_CGI_Handler ps d =
     (let d = (if FindCGIParameter ''DEFAULT'' ps then fold Default_param ps d else d)
      in if sys_reset d then (d, [])
         else case filter (\<lambda>p. fst p = ''configcode'') ps of
                p # _ \<Rightarrow> (setConfigCode (of_int (atoi (snd p))) d, ''/adminsetting.shtml'')
              | [] \<Rightarrow> (d, ''/control.shtml''))"

definition Log_clear_param :: "string \<times> string \<Rightarrow> dev option \<Rightarrow> dev option" where
  "Log_clear_param p r =
     Option.bind r (\<lambda>d.
       if fst p = ''CLEAR'' \<and> snd p = ''1''
       then if unat (logType d) < 5 then ClearLog (unat (logType d)) d else None
       else Some d)"

definition Log_get_param :: "string \<times> string \<Rightarrow> dev option \<Rightarrow> dev option" where
  "Log_get_param p r =
     Option.bind r (\<lambda>d.
       if fst p = ''GETLOG'' \<and> snd p = ''0''
       then if unat (logType d) < 5 then Some (ReadWebPreviousPageLog (unat (logType d)) d) else None
       else if fst p = ''GETLOG'' \<and> snd p = ''1''
       then if unat (logType d) < 5 then Some (ReadWebNextPageLog (unat (logType d)) d) else None
       else Some d)"

definition Log_Handler :: "params \<Rightarrow> dev \<Rightarrow> (dev \<times> string) option" where
  "Log_Handler ps d =
     (case filter (\<lambda>p. fst p = ''LOGTYPE'') ps of
        p # _ \<Rightarrow> Some (d\<lparr>logType := of_int (atoi (snd p)), crtWebPageLogData := [],
                         lastWebPageReadDir := WEB_PAGE_READ_DOWN\<rparr>, ''/log.shtml'')
      | [] \<Rightarrow>
          map_option (\<lambda>d. (d, ''/log.shtml''))
            (if FindCGIParameter ''CLEAR'' ps then fold Log_clear_param ps (Some d)
             else if FindCGIParameter ''GETLOG'' ps then fold Log_get_param ps (Some d)
             else Some d))"

end
