(* ===== verification/LogRing.thy ===== *)
theory LogRing
  imports EventLog
begin

text \<open>
  The contract of \<^verbatim>\<open>log.c\<close>: under the invariant \<open>log_wf\<close> a log is the list \<open>log_abs\<close> of its
  records, newest first; writing puts a record in front and keeps at most 300, walking yields the
  records in that order, clearing empties the list, and no operation on one log changes another.
\<close>

subsection \<open>Records and their addresses\<close>

definition slot_addr :: "nat \<Rightarrow> nat \<Rightarrow> nat" where
  "slot_addr t k = 256 + 6000 * t + 20 * k"

definition slot :: "dev \<Rightarrow> nat \<Rightarrow> nat \<Rightarrow> u8 list" where
  "slot d t k = AT24CXX_Read d (of_nat (slot_addr t k)) 20"

definition log_pos :: "nat \<Rightarrow> dev \<Rightarrow> nat" where
  "log_pos t d = (unat (nextWriteAddrVal d t) - slot_addr t 0) div 20"

definition used :: "dev \<Rightarrow> nat \<Rightarrow> nat \<Rightarrow> bool" where
  "used d t k \<longleftrightarrow> hd (slot d t k) \<noteq> 0xFF \<and> hd (slot d t k) \<noteq> 0"

definition free :: "dev \<Rightarrow> nat \<Rightarrow> nat \<Rightarrow> bool" where
  "free d t k \<longleftrightarrow> hd (slot d t k) = 0xFF"

definition log_wf :: "nat \<Rightarrow> dev \<Rightarrow> bool" where
  "log_wf t d \<longleftrightarrow>
     log_pos t d < 300 \<and> nextWriteAddrVal d t = of_nat (slot_addr t (log_pos t d)) \<and>
     AT24CXX_ReadLenByte d (LOG_NEXT_W_ADDR t) 2 = nextWriteAddrVal d t \<and>
     (\<forall>k<log_pos t d. used d t k) \<and>
     ((\<forall>k\<in>{log_pos t d..<300}. used d t k) \<or> (\<forall>k\<in>{log_pos t d..<300}. free d t k))"

definition log_order :: "bool \<Rightarrow> nat \<Rightarrow> nat list" where
  "log_order full k = rev [0..<k] @ (if full then rev [k..<300] else [])"

definition log_abs :: "nat \<Rightarrow> dev \<Rightarrow> u8 list list" where
  "log_abs t d = map (slot d t) (log_order (isLogFull t d) (log_pos t d))"

lemma slot_addr_bound: "t < 5 \<Longrightarrow> k < 300 \<Longrightarrow> slot_addr t k + 20 \<le> 30256"
  by (simp add: slot_addr_def)

lemma slot_addr_low: "256 \<le> slot_addr t k"
  by (simp add: slot_addr_def)

lemma unat_slot_addr [simp]:
  "t < 5 \<Longrightarrow> k < 300 \<Longrightarrow> unat (of_nat (slot_addr t k) :: u16) = slot_addr t k"
  "t < 5 \<Longrightarrow> k < 300 \<Longrightarrow> unat (of_nat (slot_addr t k) :: u32) = slot_addr t k"
  using slot_addr_bound [of t k] by (simp_all add: unat_of_nat)

lemma ucast_of_nat_u16 [simp]: "(ucast (of_nat n :: u32) :: u16) = of_nat n"
  by (rule bit_word_eqI) (auto simp: bit_simps)

lemma slot_addr_apart:
  assumes "k < 300" and "k' < 300" and "(t, k) \<noteq> (t', k')"
  shows "slot_addr t k + 20 \<le> slot_addr t' k' \<or> slot_addr t' k' + 20 \<le> slot_addr t k"
proof (cases t t' rule: linorder_cases)
  case less
  then have "t + 1 \<le> t'" by simp
  with assms show ?thesis unfolding slot_addr_def by linarith
next
  case equal
  with assms have "k + 1 \<le> k' \<or> k' + 1 \<le> k" by auto
  with equal show ?thesis unfolding slot_addr_def by linarith
next
  case greater
  then have "t' + 1 \<le> t" by simp
  with assms show ?thesis unfolding slot_addr_def by linarith
qed

lemma BASED_slot: "EACH_TYPE_LOG_BASED_ADDR t = of_nat (slot_addr t 0)"
  by (simp add: EACH_TYPE_LOG_BASED_ADDR_def slot_addr_def)

lemma MAX_slot: "EACH_TYPE_LOG_MAX_ADDR t = of_nat (slot_addr t 299)"
  by (simp add: EACH_TYPE_LOG_MAX_ADDR_def EACH_TYPE_LOG_BASED_ADDR_def slot_addr_def algebra_simps)

lemma hd_slot: "hd (slot d t k) = eemem d (of_nat (slot_addr t k))"
  by (simp add: slot_def numeral_eq_Suc)

lemma length_slot [simp]: "length (slot d t k) = 20"
  by (simp add: slot_def)

lemma isLogFull_slot: "isLogFull t d \<longleftrightarrow> hd (slot d t 299) \<noteq> 0xFF"
  by (simp add: isLogFull_def MAX_slot hd_slot)

lemma slot_next_addr [simp]: "(of_nat (slot_addr t k) :: u32) + 20 = of_nat (slot_addr t (Suc k))"
  by (simp add: slot_addr_def)

lemma slot_prev_addr [simp]: "(of_nat (slot_addr t (Suc k)) :: u32) - 20 = of_nat (slot_addr t k)"
  by (simp add: slot_addr_def)

lemma slot_addr_word_eq [simp]:
  assumes "t < 5" "k \<le> 300" "k' \<le> 300"
  shows "(of_nat (slot_addr t k) :: u32) = of_nat (slot_addr t k') \<longleftrightarrow> k = k'"
proof -
  have "slot_addr t k < 2 ^ 32" "slot_addr t k' < 2 ^ 32"
    using assms by (simp_all add: slot_addr_def)
  then show ?thesis
    by (auto simp: word_unat_eq_iff unat_of_nat) (simp add: slot_addr_def)
qed

lemma log_pos_eq: "nextWriteAddrVal d t = of_nat (slot_addr t k) \<Longrightarrow> t < 5 \<Longrightarrow> k < 300 \<Longrightarrow> log_pos t d = k"
  by (simp add: log_pos_def) (simp add: slot_addr_def)

subsection \<open>What the writes of this file do to the records and the stored positions\<close>

lemma slot_Write_slot:
  assumes "t < 5" "k < 300" "t' < 5" "k' < 300" "length bs = 20"
  shows "slot (AT24CXX_Write (of_nat (slot_addr t k)) bs d) t' k' =
         (if t' = t \<and> k' = k then bs else slot d t' k')"
proof (cases "t' = t \<and> k' = k")
  case True
  with assms ee.rds_wrs [of bs "of_nat (slot_addr t k)" d] show ?thesis by (simp add: slot_def)
next
  case False
  then have "AT24CXX_Read (AT24CXX_Write (of_nat (slot_addr t k)) bs d) (of_nat (slot_addr t' k')) 20
             = AT24CXX_Read d (of_nat (slot_addr t' k')) 20"
    using assms slot_addr_bound [of t k] slot_addr_bound [of t' k'] slot_addr_apart [of k k' t t']
    by (intro ee.rds_wrs_disjoint) auto
  with False show ?thesis by (auto simp: slot_def)
qed

lemma slot_Write_low:
  assumes "unat a + length bs \<le> 256" "t' < 5" "k' < 300"
  shows "slot (AT24CXX_Write a bs d) t' k' = slot d t' k'"
  unfolding slot_def
  using assms slot_addr_bound [of t' k'] slot_addr_low [of t' k']
  by (intro ee.rds_wrs_disjoint) auto

lemma slot_cong: "eemem d = eemem e \<Longrightarrow> slot d = slot e"
  unfolding slot_def by (intro ext ee.rds_cong) simp

lemma WriteLenByte_2:
  "AT24CXX_WriteLenByte a v 2 d =
   AT24CXX_Write a [ucast (v AND 0xff), ucast (drop_bit 8 v AND 0xff)] d"
  by (simp add: AT24CXX_WriteLenByte_def numeral_eq_Suc)

lemma ReadLenByte_2:
  "AT24CXX_ReadLenByte d a 2 = push_bit 8 (ucast (eemem d (a + 1))) + ucast (eemem d a)"
  by (simp add: AT24CXX_ReadLenByte_def numeral_eq_Suc)

lemma ReadLenByte_2_cong:
  "eemem d a = eemem e a \<Longrightarrow> eemem d (a + 1) = eemem e (a + 1) \<Longrightarrow>
   AT24CXX_ReadLenByte d a 2 = AT24CXX_ReadLenByte e a 2"
  by (simp add: ReadLenByte_2)

lemma low_bytes_sum:
  fixes v :: u32
  assumes "unat v < 65536"
  shows "push_bit 8 (ucast (ucast (drop_bit 8 v AND 0xff) :: u8)) + ucast (ucast (v AND 0xff) :: u8) = v"
    (is "push_bit 8 ?h + ?l = v")
proof -
  have "take_bit 16 v = v"
    using assms by (simp add: word_unat_eq_iff unsigned_take_bit_eq take_bit_nat_eq_self)
  then have v: "bit v n \<Longrightarrow> n < 16" for n
    by (metis bit_take_bit_iff)
  have "push_bit 8 ?h + ?l = push_bit 8 ?h OR ?l"
    by (rule disjunctive_add) (auto simp: bit_simps mask_byte)
  also have "\<dots> = v"
    by (rule bit_word_eqI) (auto simp: bit_simps mask_byte dest: v)
  finally show ?thesis .
qed

lemma ReadLenByte_WriteLenByte_2:
  assumes "unat v < 65536"
  shows "AT24CXX_ReadLenByte (AT24CXX_WriteLenByte a v 2 d) a 2 = v"
  using low_bytes_sum [OF assms] by (simp add: ReadLenByte_2 WriteLenByte_2)

lemma unat_LOG_NEXT [simp]: "t < 5 \<Longrightarrow> unat (LOG_NEXT_W_ADDR t) = 224 + 2 * t"
  unfolding LOG_NEXT_W_ADDR_def unat_of_nat by simp

lemma unat_LOG_NEXT_1 [simp]: "t < 5 \<Longrightarrow> unat (LOG_NEXT_W_ADDR t + 1) = 225 + 2 * t"
  by (simp add: unat_word_ariths)

lemma slot_WriteLenByte:
  "t < 5 \<Longrightarrow> t' < 5 \<Longrightarrow> k' < 300 \<Longrightarrow> slot (AT24CXX_WriteLenByte (LOG_NEXT_W_ADDR t) v 2 d) t' k' = slot d t' k'"
  unfolding WriteLenByte_2 by (rule slot_Write_low) simp_all

subsection \<open>Writing a record\<close>

lemma slot_frame [simp]:
  "slot (d\<lparr>nextWriteAddrVal := x\<rparr>) = slot d" "slot (d\<lparr>crtReadAddrVal := x\<rparr>) = slot d"
  "slot (d\<lparr>crtWebPageLogData := y\<rparr>) = slot d" "slot (d\<lparr>lastWebPageReadDir := z\<rparr>) = slot d"
  "slot (d\<lparr>crtLCDPageLogData := w\<rparr>) = slot d" "slot (d\<lparr>lastLCDPageReadDir := z\<rparr>) = slot d"
  "slot (d\<lparr>webLogPageFlag := z\<rparr>) = slot d" "slot (d\<lparr>LCDLogPageFlag := z\<rparr>) = slot d"
  "slot (d\<lparr>lastWebPageLogNum := z\<rparr>) = slot d" "slot (d\<lparr>lastLCDPageLogNum := z\<rparr>) = slot d"
  "slot (d\<lparr>crtWebLogPageNum := z\<rparr>) = slot d" "slot (d\<lparr>web_page_overrun := v\<rparr>) = slot d"
  by (rule slot_cong, simp)+

lemma stored_frame [simp]:
  "AT24CXX_ReadLenByte (d\<lparr>nextWriteAddrVal := x\<rparr>) a 2 = AT24CXX_ReadLenByte d a 2"
  "AT24CXX_ReadLenByte (d\<lparr>crtWebPageLogData := y\<rparr>) a 2 = AT24CXX_ReadLenByte d a 2"
  "AT24CXX_ReadLenByte (d\<lparr>lastWebPageReadDir := z\<rparr>) a 2 = AT24CXX_ReadLenByte d a 2"
  "AT24CXX_ReadLenByte (d\<lparr>crtLCDPageLogData := w\<rparr>) a 2 = AT24CXX_ReadLenByte d a 2"
  "AT24CXX_ReadLenByte (d\<lparr>lastLCDPageReadDir := z\<rparr>) a 2 = AT24CXX_ReadLenByte d a 2"
  by (simp_all add: ReadLenByte_2)

lemma Write_frame [simp]:
  "nextWriteAddrVal (AT24CXX_Write a bs d) = nextWriteAddrVal d"
  "crtReadAddrVal (AT24CXX_Write a bs d) = crtReadAddrVal d"
  "rtcTempStr (AT24CXX_Write a bs d) = rtcTempStr d"
  by (subst AT24CXX_Write_only_mem, simp)+

lemma WriteLenByte_frame [simp]:
  "nextWriteAddrVal (AT24CXX_WriteLenByte a v 2 d) = nextWriteAddrVal d"
  "crtReadAddrVal (AT24CXX_WriteLenByte a v 2 d) = crtReadAddrVal d"
  "rtcTempStr (AT24CXX_WriteLenByte a v 2 d) = rtcTempStr d"
  by (simp_all add: WriteLenByte_2)

lemma eemem_WriteLenByte_2:
  "b \<noteq> a \<Longrightarrow> b \<noteq> a + 1 \<Longrightarrow> eemem (AT24CXX_WriteLenByte a v 2 d) b = eemem d b"
  by (simp add: WriteLenByte_2)

lemma LOG_NEXT_apart:
  assumes "t < 5" "t' < 5" "t \<noteq> t'"
  shows "LOG_NEXT_W_ADDR t \<noteq> LOG_NEXT_W_ADDR t'" "LOG_NEXT_W_ADDR t \<noteq> LOG_NEXT_W_ADDR t' + 1"
    "LOG_NEXT_W_ADDR t + 1 \<noteq> LOG_NEXT_W_ADDR t'"
  using assms by (auto simp: word_unat_eq_iff)

lemma stored_WriteLenByte:
  assumes "t < 5" "t' < 5" "unat v < 65536"
  shows "AT24CXX_ReadLenByte (AT24CXX_WriteLenByte (LOG_NEXT_W_ADDR t) v 2 d) (LOG_NEXT_W_ADDR t') 2
         = (if t = t' then v else AT24CXX_ReadLenByte d (LOG_NEXT_W_ADDR t') 2)"
proof (cases "t = t'")
  case True
  with assms show ?thesis by (simp add: ReadLenByte_WriteLenByte_2)
next
  case False
  with assms LOG_NEXT_apart [of t' t] LOG_NEXT_apart [of t t'] show ?thesis
    by (auto intro!: ReadLenByte_2_cong eemem_WriteLenByte_2)
qed

lemma stored_Write_slot:
  assumes "t < 5" "k < 300" "t' < 5" "length bs = 20"
  shows "AT24CXX_ReadLenByte (AT24CXX_Write (of_nat (slot_addr t k)) bs d) (LOG_NEXT_W_ADDR t') 2
         = AT24CXX_ReadLenByte d (LOG_NEXT_W_ADDR t') 2"
proof -
  have "AT24CXX_Read (AT24CXX_Write (of_nat (slot_addr t k)) bs d) (LOG_NEXT_W_ADDR t') 2
        = AT24CXX_Read d (LOG_NEXT_W_ADDR t') 2"
    using assms slot_addr_bound [of t k] slot_addr_low [of t k]
    by (intro ee.rds_wrs_disjoint) auto
  then show ?thesis
    by (intro ReadLenByte_2_cong) (simp_all add: numeral_eq_Suc)
qed

definition wrap_pos :: "nat \<Rightarrow> nat" where
  "wrap_pos k = (if k = 299 then 0 else Suc k)"

lemma WriteLog_shape:
  assumes "t < 5" "k < 300" "nextWriteAddrVal d t = of_nat (slot_addr t k)"
  shows "WriteLog t f d =
    (let d1 = AT24CXX_Write (of_nat (slot_addr t k)) (rtcTempStr d @ [f]) d;
         v = of_nat (slot_addr t (wrap_pos k));
         d2 = AT24CXX_WriteLenByte (LOG_NEXT_W_ADDR t) v 2
                (d1\<lparr>nextWriteAddrVal := (nextWriteAddrVal d)(t := v)\<rparr>)
     in d2\<lparr>crtWebPageLogData := [], lastWebPageReadDir := WEB_PAGE_READ_DOWN,
           crtLCDPageLogData := (\<lambda>i. replicate 20 0), lastLCDPageReadDir := LCD_PAGE_READ_DOWN\<rparr>)"
proof -
  have "(of_nat (slot_addr t (Suc k)) :: u32) > of_nat (slot_addr t 299) \<longleftrightarrow> k = 299"
  proof -
    have "slot_addr t (Suc k) < 2 ^ 32" "slot_addr t 299 < 2 ^ 32"
      using assms by (simp_all add: slot_addr_def)
    then show ?thesis
      using assms by (simp add: word_less_nat_alt unat_of_nat) (auto simp: slot_addr_def)
  qed
  then show ?thesis
    using assms by (simp add: WriteLog_def Let_def MAX_slot BASED_slot wrap_pos_def)
qed

lemma WriteLog_effect:
  assumes "t < 5" "k < 300" "nextWriteAddrVal d t = of_nat (slot_addr t k)" "length (rtcTempStr d) = 19"
  shows nextWriteAddrVal_WriteLog:
      "nextWriteAddrVal (WriteLog t f d) = (nextWriteAddrVal d)(t := of_nat (slot_addr t (wrap_pos k)))"
    and slot_WriteLog: "t' < 5 \<Longrightarrow> k' < 300 \<Longrightarrow> slot (WriteLog t f d) t' k' =
      (if t' = t \<and> k' = k then rtcTempStr d @ [f] else slot d t' k')"
    and stored_WriteLog: "t' < 5 \<Longrightarrow>
      AT24CXX_ReadLenByte (WriteLog t f d) (LOG_NEXT_W_ADDR t') 2 =
      (if t = t' then of_nat (slot_addr t (wrap_pos k)) else AT24CXX_ReadLenByte d (LOG_NEXT_W_ADDR t') 2)"
proof -
  have w: "wrap_pos k < 300" using assms by (simp add: wrap_pos_def)
  note shape = WriteLog_shape [OF assms(1-3)]
  show "nextWriteAddrVal (WriteLog t f d) = (nextWriteAddrVal d)(t := of_nat (slot_addr t (wrap_pos k)))"
    by (simp add: shape Let_def)
  show "slot (WriteLog t f d) t' k' = (if t' = t \<and> k' = k then rtcTempStr d @ [f] else slot d t' k')"
    if "t' < 5" "k' < 300"
    using assms that by (simp add: shape Let_def slot_WriteLenByte slot_Write_slot)
  show "AT24CXX_ReadLenByte (WriteLog t f d) (LOG_NEXT_W_ADDR t') 2 =
      (if t = t' then of_nat (slot_addr t (wrap_pos k)) else AT24CXX_ReadLenByte d (LOG_NEXT_W_ADDR t') 2)"
    if "t' < 5"
  proof -
    have "unat (of_nat (slot_addr t (wrap_pos k)) :: u32) < 65536"
      using assms w slot_addr_bound [of t "wrap_pos k"] by simp
    then show ?thesis
      using assms that by (simp add: shape Let_def stored_WriteLenByte stored_Write_slot)
  qed
qed

text \<open>The order of the records after the write position has moved on.\<close>

definition keep :: "bool \<Rightarrow> nat \<Rightarrow> nat list" where
  "keep full k = rev [0..<k] @ (if full then rev [Suc k..<300] else [])"

lemma log_order_keep: "k < 300 \<Longrightarrow> log_order full k = keep full k @ (if full then [k] else [])"
  by (simp add: log_order_def keep_def upt_conv_Cons)

lemma log_order_wrap: "k < 300 \<Longrightarrow> log_order (full \<or> k = 299) (wrap_pos k) = k # keep full k"
proof (cases "k = 299")
  case True
  have "[0..<300] = [0..<299] @ [299 :: nat]"
    using upt_Suc_append [of 0 299] by simp
  with True show ?thesis by (simp add: log_order_def keep_def wrap_pos_def)
qed (auto simp: log_order_def keep_def wrap_pos_def)

lemma length_keep: "k < 300 \<Longrightarrow> length (keep full k) = (if full then 299 else k)"
  by (simp add: keep_def)

lemma set_keep: "k < 300 \<Longrightarrow> set (keep full k) \<subseteq> {..<300} - {k}"
  by (auto simp: keep_def)

definition rtc_ok :: "dev \<Rightarrow> bool" where
  "rtc_ok d \<longleftrightarrow> length (rtcTempStr d) = 19 \<and> hd (rtcTempStr d) \<noteq> 0xFF \<and> hd (rtcTempStr d) \<noteq> 0"

lemma log_wfD:
  assumes "log_wf t d"
  shows log_wf_pos: "log_pos t d < 300"
    and log_wf_next: "nextWriteAddrVal d t = of_nat (slot_addr t (log_pos t d))"
    and log_wf_stored: "AT24CXX_ReadLenByte d (LOG_NEXT_W_ADDR t) 2 = nextWriteAddrVal d t"
    and log_wf_used: "k < log_pos t d \<or> k < 300 \<and> isLogFull t d \<Longrightarrow> used d t k"
    and log_wf_free: "log_pos t d \<le> k \<Longrightarrow> k < 300 \<Longrightarrow> \<not> isLogFull t d \<Longrightarrow> free d t k"
  using assms unfolding log_wf_def isLogFull_slot used_def free_def by (fastforce simp: not_less)+

lemma log_wfI:
  assumes "k < 300" "t < 5" "nextWriteAddrVal d t = of_nat (slot_addr t k)"
    and "AT24CXX_ReadLenByte d (LOG_NEXT_W_ADDR t) 2 = of_nat (slot_addr t k)"
    and "\<And>j. j < k \<or> j < 300 \<and> full \<Longrightarrow> used d t j"
    and "\<And>j. k \<le> j \<Longrightarrow> j < 300 \<Longrightarrow> \<not> full \<Longrightarrow> free d t j"
  shows "log_wf t d"
proof -
  have "log_pos t d = k" using assms by (intro log_pos_eq)
  then show ?thesis using assms unfolding log_wf_def by (cases full) auto
qed

lemma log_wf_full_iff: "log_wf t d \<Longrightarrow> isLogFull t d \<longleftrightarrow> (\<forall>k<300. used d t k)"
  using log_wf_used by (auto simp: isLogFull_slot used_def)

text \<open>After a write the log is full when it was full before, or when the last place was taken.\<close>

lemma isLogFull_WriteLog:
  assumes "t < 5" "t' < 5" "log_wf t d" "rtc_ok d"
  shows "isLogFull t' (WriteLog t f d) \<longleftrightarrow> isLogFull t' d \<or> t' = t \<and> log_pos t d = 299"
  using assms slot_WriteLog [of t "log_pos t d" d t' 299 f] log_wf_pos [OF assms(3)]
    log_wf_next [OF assms(3)]
  by (auto simp: isLogFull_slot rtc_ok_def neq_Nil_conv split: if_splits)
     (metis hd_append2 list.size(3) zero_neq_numeral)+

lemma log_pos_WriteLog:
  assumes "t < 5" "log_wf t d" "rtc_ok d"
  shows "log_pos t (WriteLog t f d) = wrap_pos (log_pos t d)"
  using assms log_wf_pos [OF assms(2)] log_wf_next [OF assms(2)]
  by (intro log_pos_eq) (simp_all add: nextWriteAddrVal_WriteLog rtc_ok_def wrap_pos_def)

lemma log_wf_WriteLog_same:
  assumes "t < 5" "log_wf t d" "rtc_ok d"
  shows "log_wf t (WriteLog t f d)"
proof (rule log_wfI [where k = "wrap_pos (log_pos t d)" and full = "isLogFull t (WriteLog t f d)"])
  note pos = log_wf_pos [OF assms(2)] and nxt = log_wf_next [OF assms(2)]
  have len: "length (rtcTempStr d) = 19" using assms(3) by (simp add: rtc_ok_def)
  note full = isLogFull_WriteLog [OF assms(1) assms(1-3), of f]
  have sl: "slot (WriteLog t f d) t j = (if j = log_pos t d then rtcTempStr d @ [f] else slot d t j)"
    if "j < 300" for j
    using slot_WriteLog [OF assms(1) pos nxt len assms(1) that] by simp
  have hd: "hd (rtcTempStr d @ [f]) = hd (rtcTempStr d)" using len by (cases "rtcTempStr d") auto
  show "wrap_pos (log_pos t d) < 300" using pos by (simp add: wrap_pos_def)
  show "used (WriteLog t f d) t j"
    if "j < wrap_pos (log_pos t d) \<or> j < 300 \<and> isLogFull t (WriteLog t f d)" for j
  proof -
    have j: "j < 300" and j': "j = log_pos t d \<or> j < log_pos t d \<or> j < 300 \<and> isLogFull t d"
      using that full pos by (auto simp: wrap_pos_def split: if_splits)
    then show ?thesis
      using log_wf_used [OF assms(2), of j] assms(3) hd by (auto simp: used_def sl rtc_ok_def)
  qed
  show "free (WriteLog t f d) t j"
    if "wrap_pos (log_pos t d) \<le> j" "j < 300" "\<not> isLogFull t (WriteLog t f d)" for j
    using that full log_wf_free [OF assms(2), of j] by (auto simp: free_def sl wrap_pos_def split: if_splits)
qed (use assms log_wf_pos [OF assms(2)] log_wf_next [OF assms(2)] in
      \<open>simp_all add: nextWriteAddrVal_WriteLog stored_WriteLog rtc_ok_def\<close>)

lemma log_wf_WriteLog_other:
  assumes "t < 5" "t' < 5" "t' \<noteq> t" "log_wf t d" "log_wf t' d" "rtc_ok d"
  shows "log_wf t' (WriteLog t f d)"
proof (rule log_wfI [where k = "log_pos t' d" and full = "isLogFull t' d"])
  note pos = log_wf_pos [OF assms(4)] and nxt = log_wf_next [OF assms(4)]
  have len: "length (rtcTempStr d) = 19" using assms(6) by (simp add: rtc_ok_def)
  have sl: "slot (WriteLog t f d) t' j = slot d t' j" if "j < 300" for j
    using slot_WriteLog [OF assms(1) pos nxt len assms(2) that] assms(3) by simp
  show "used (WriteLog t f d) t' j" if "j < log_pos t' d \<or> j < 300 \<and> isLogFull t' d" for j
    using that log_wf_used [OF assms(5), of j] log_wf_pos [OF assms(5)] by (auto simp: used_def sl)
  show "free (WriteLog t f d) t' j" if "log_pos t' d \<le> j" "j < 300" "\<not> isLogFull t' d" for j
    using that log_wf_free [OF assms(5), of j] by (auto simp: free_def sl)
qed (use assms log_wf_pos [OF assms(5)] log_wf_next [OF assms(5)] log_wf_stored [OF assms(5)]
      log_wf_pos [OF assms(4)] log_wf_next [OF assms(4)] in
      \<open>simp_all add: nextWriteAddrVal_WriteLog stored_WriteLog rtc_ok_def\<close>)

lemma log_wf_WriteLog_any:
  "t < 5 \<Longrightarrow> t' < 5 \<Longrightarrow> log_wf t d \<Longrightarrow> log_wf t' d \<Longrightarrow> rtc_ok d \<Longrightarrow> log_wf t' (WriteLog t f d)"
  by (cases "t' = t") (simp_all add: log_wf_WriteLog_same log_wf_WriteLog_other)

lemma log_abs_WriteLog_same:
  assumes "t < 5" "log_wf t d" "rtc_ok d"
  shows "log_abs t (WriteLog t f d) = take 300 ((rtcTempStr d @ [f]) # log_abs t d)"
proof -
  define k where "k = log_pos t d"
  note pos = log_wf_pos [OF assms(2)] and nxt = log_wf_next [OF assms(2)]
  have len: "length (rtcTempStr d) = 19" using assms(3) by (simp add: rtc_ok_def)
  have k: "k < 300" using pos by (simp add: k_def)
  have sl: "slot (WriteLog t f d) t j = (if j = k then rtcTempStr d @ [f] else slot d t j)"
    if "j < 300" for j
    using slot_WriteLog [OF assms(1) pos nxt len assms(1) that] by (simp add: k_def)
  have "map (slot (WriteLog t f d) t) (keep full k) = map (slot d t) (keep full k)" for full
  proof -
    have "j < 300 \<and> j \<noteq> k" if "j \<in> set (keep full k)" for j
      using set_keep [OF k, of full] that by auto
    then show ?thesis by (simp add: sl)
  qed
  then have "log_abs t (WriteLog t f d) = (rtcTempStr d @ [f]) # map (slot d t) (keep (isLogFull t d) k)"
    using isLogFull_WriteLog [OF assms(1) assms(1-3), of f] log_pos_WriteLog [OF assms, of f]
      log_order_wrap [OF k, of "isLogFull t d"] k
    by (simp add: log_abs_def k_def [symmetric] sl)
  moreover have "take 299 (log_abs t d) = map (slot d t) (keep (isLogFull t d) k)"
    using log_order_keep [OF k, of "isLogFull t d"] length_keep [OF k, of "isLogFull t d"] k
    by (simp add: log_abs_def k_def [symmetric])
  ultimately show ?thesis by (simp add: numeral_eq_Suc)
qed

lemma log_abs_WriteLog_other:
  assumes "t < 5" "t' < 5" "t' \<noteq> t" "log_wf t d" "log_wf t' d" "rtc_ok d"
  shows "log_abs t' (WriteLog t f d) = log_abs t' d"
proof -
  note pos = log_wf_pos [OF assms(4)] and nxt = log_wf_next [OF assms(4)]
  have len: "length (rtcTempStr d) = 19" using assms(6) by (simp add: rtc_ok_def)
  have sl: "slot (WriteLog t f d) t' j = slot d t' j" if "j < 300" for j
    using slot_WriteLog [OF assms(1) pos nxt len assms(2) that] assms(3) by simp
  have "log_pos t' (WriteLog t f d) = log_pos t' d"
    using assms pos nxt log_wf_pos [OF assms(5)] log_wf_next [OF assms(5)]
    by (intro log_pos_eq) (simp_all add: nextWriteAddrVal_WriteLog rtc_ok_def)
  moreover have "isLogFull t' (WriteLog t f d) = isLogFull t' d"
    by (simp add: isLogFull_slot sl)
  ultimately show ?thesis
    using log_wf_pos [OF assms(5)] by (auto simp: log_abs_def log_order_def sl)
qed

lemma length_log_abs:
  "log_wf t d \<Longrightarrow> length (log_abs t d) = (if isLogFull t d then 300 else log_pos t d)"
  using log_wf_pos [of t d] by (auto simp: log_abs_def log_order_def)

lemma log_abs_nth:
  assumes "log_wf t d" "i < length (log_abs t d)"
  shows "log_abs t d ! i = slot d t ((log_pos t d + 299 - i) mod 300)"
proof -
  define k where "k = log_pos t d"
  have k: "k < 300" using log_wf_pos [OF assms(1)] by (simp add: k_def)
  have i: "i < (if isLogFull t d then 300 else k)"
    using assms length_log_abs [OF assms(1)] by (auto simp: k_def)
  have "log_order (isLogFull t d) k ! i = (k + 299 - i) mod 300"
  proof (cases "i < k")
    case True
    then have "k + 299 - i = (k - Suc i) + 300" by linarith
    then have "(k + 299 - i) mod 300 = k - Suc i" using k by (simp only: mod_add_self2) simp
    with True show ?thesis by (simp add: log_order_def nth_append rev_nth)
  next
    case False
    with i k show ?thesis by (auto simp: log_order_def nth_append rev_nth split: if_splits)
  qed
  with assms show ?thesis by (simp add: log_abs_def k_def [symmetric])
qed

end
