(* ===== verification/LogPages.thy ===== *)
theory LogPages
  imports LogRing
begin

text \<open>
  Reading the logs of \<^verbatim>\<open>log.c\<close>: the cursor, the pages for the web server and the display, and the
  erasing of a log.  \<open>walk t L i\<close> says that log \<open>t\<close> holds the records \<open>L\<close> and that the cursor
  stands after the \<open>i\<close>-th of them.
\<close>

subsection \<open>The cursor\<close>

definition walk :: "nat \<Rightarrow> u8 list list \<Rightarrow> nat \<Rightarrow> dev \<Rightarrow> bool" where
  "walk t L i d \<longleftrightarrow> t < 5 \<and> log_wf t d \<and> log_abs t d = L \<and>
     crtReadAddrVal d t = of_nat (slot_addr t ((log_pos t d + 300 - i) mod 300))"

lemma log_cong:
  assumes "eemem d = eemem e" "nextWriteAddrVal d = nextWriteAddrVal e"
  shows "log_pos t d = log_pos t e" "isLogFull t d = isLogFull t e" "log_wf t d = log_wf t e"
    "log_abs t d = log_abs t e"
proof -
  show pos: "log_pos t d = log_pos t e" using assms by (simp add: log_pos_def)
  note sl = slot_cong [OF assms(1)]
  show full: "isLogFull t d = isLogFull t e" by (simp add: isLogFull_slot sl)
  show "log_wf t d = log_wf t e"
    using assms(2) ReadLenByte_2_cong [of d _ e] assms(1) by (simp add: log_wf_def pos used_def free_def sl)
  show "log_abs t d = log_abs t e" by (simp add: log_abs_def pos full sl)
qed

text \<open>What reading leaves alone.\<close>

definition same_store :: "dev \<Rightarrow> dev \<Rightarrow> bool" where
  "same_store d e \<longleftrightarrow> eemem e = eemem d \<and> nextWriteAddrVal e = nextWriteAddrVal d \<and>
     crtWebPageLogData e = crtWebPageLogData d \<and> web_page_overrun e = web_page_overrun d \<and> crtLCDPageLogData e = crtLCDPageLogData d \<and>
     lastWebPageReadDir e = lastWebPageReadDir d \<and> lastLCDPageReadDir e = lastLCDPageReadDir d"

lemma same_store_simps [simp]:
  "same_store d (set_crt t a d)" "same_store e (updateLogPageFlag t f d) = same_store e d"
  by (simp_all add: same_store_def set_crt_def updateLogPageFlag_def Let_def)

lemma crt_simps [simp]:
  "crtReadAddrVal (set_crt t a d) = (crtReadAddrVal d)(t := a)"
  "crtReadAddrVal (updateLogPageFlag t f d) = crtReadAddrVal d"
  "nextWriteAddrVal (set_crt t a d) = nextWriteAddrVal d"
  "isLogFull t' (set_crt t a d) = isLogFull t' d"
  by (simp_all add: set_crt_def updateLogPageFlag_def Let_def isLogFull_def)

lemma walk_same_store:
  "same_store d e \<Longrightarrow> crtReadAddrVal e t = of_nat (slot_addr t ((log_pos t d + 300 - i) mod 300)) \<Longrightarrow>
   t < 5 \<Longrightarrow> log_wf t d \<Longrightarrow> log_abs t d = L \<Longrightarrow> walk t L i e"
  using log_cong [of e d t] by (simp add: walk_def same_store_def)

lemma read_record_slot:
  "crtReadAddrVal d t = of_nat (slot_addr t k) \<Longrightarrow> read_record t d = (slot d t k)[19 := 0]"
  by (simp add: read_record_def slot_def)

lemma cursor_step:
  fixes p i :: nat
  assumes "p < 300" "i < 300"
  shows "(p + 299 - i) mod 300 = (if (p + 300 - i) mod 300 = 0 then 299 else (p + 300 - i) mod 300 - 1)"
proof (cases "i \<le> p")
  case True
  then have "(p + 300 - i) mod 300 = p - i"
    using assms by (metis Nat.add_diff_assoc2 less_imp_diff_less mod_add_self2 mod_less)
  moreover have "(p + 299 - i) mod 300 = (if p = i then 299 else p - i - 1)"
  proof (cases "p = i")
    case False
    with True have "p + 299 - i = (p - i - 1) + 300" by linarith
    with False assms show ?thesis by (simp only: mod_add_self2) simp
  qed (use assms in simp)
  ultimately show ?thesis using True by auto
next
  case False
  with assms show ?thesis by simp
qed

lemma ReadNextLog_step:
  assumes w: "walk t L i d" and i: "i < length L"
  shows "\<exists>d'. ReadNextLog t d = (d', (L ! i)[19 := 0]) \<and> walk t L (Suc i) d' \<and> same_store d d'"
proof -
  define c where "c = (log_pos t d + 300 - i) mod 300"
  define c' where "c' = (log_pos t d + 299 - i) mod 300"
  have t: "t < 5" and wf: "log_wf t d" and L: "log_abs t d = L"
    and crt: "crtReadAddrVal d t = of_nat (slot_addr t c)"
    using w by (simp_all add: walk_def c_def)
  have len: "i < (if isLogFull t d then 300 else log_pos t d)"
    using i L length_log_abs [OF wf] by simp
  then have i300: "i < 300" using log_wf_pos [OF wf] by (auto split: if_splits)
  have c300: "c < 300" "c' < 300" by (simp_all add: c_def c'_def)
  have step: "c' = (if c = 0 then 299 else c - 1)"
    using cursor_step [OF log_wf_pos [OF wf] i300] by (simp add: c_def c'_def)
  have "isLogFull t d" if "c = 0"
  proof (rule ccontr)
    assume nf: "\<not> isLogFull t d"
    with len have "i < log_pos t d" by simp
    then have "log_pos t d + 300 - i = (log_pos t d - i) + 300" by linarith
    then have "c = log_pos t d - i"
      using log_wf_pos [OF wf] by (simp only: c_def mod_add_self2) simp
    with \<open>i < log_pos t d\<close> that show False by simp
  qed
  moreover have "crtReadAddrVal d t = EACH_TYPE_LOG_BASED_ADDR t \<longleftrightarrow> c = 0"
    using t c300 by (simp add: crt BASED_slot)
  moreover have "(if c = 0 then set_crt t (EACH_TYPE_LOG_MAX_ADDR t) d
                  else set_crt t (crtReadAddrVal d t - 20) d) = set_crt t (of_nat (slot_addr t c')) d"
    using step by (cases c) (simp_all add: MAX_slot crt)
  ultimately have "\<exists>d'. ReadNextLog t d = (d', read_record t (set_crt t (of_nat (slot_addr t c')) d)) \<and>
      crtReadAddrVal d' t = of_nat (slot_addr t c') \<and> same_store d d'"
    unfolding ReadNextLog_def by (cases "c = 0") (simp_all add: Let_def)
  moreover have "read_record t (set_crt t (of_nat (slot_addr t c')) d) = (L ! i)[19 := 0]"
    using log_abs_nth [OF wf, of i] i L
    by (subst read_record_slot [where k = c']) (simp_all add: c'_def set_crt_def)
  moreover have "c' = (log_pos t d + 300 - Suc i) mod 300"
    unfolding c'_def by (rule arg_cong [where f = "\<lambda>n. n mod 300"]) linarith
  ultimately show ?thesis
    using walk_same_store [OF _ _ t wf L, of _ "Suc i"] by metis
qed

lemma ReadNextLog_end:
  assumes w: "walk t L (length L) d" and "length L < 300"
  shows "\<exists>d'. ReadNextLog t d = (d', replicate 20 0) \<and> walk t L (length L) d' \<and> same_store d d'"
proof -
  have t: "t < 5" and wf: "log_wf t d" and L: "log_abs t d = L"
    and crt: "crtReadAddrVal d t = of_nat (slot_addr t ((log_pos t d + 300 - length L) mod 300))"
    using w by (simp_all add: walk_def)
  have nf: "\<not> isLogFull t d" and len: "length L = log_pos t d"
    using assms(2) L length_log_abs [OF wf] by (auto split: if_splits)
  have "crtReadAddrVal d t = EACH_TYPE_LOG_BASED_ADDR t"
    using crt len by (simp add: BASED_slot)
  then have "ReadNextLog t d = (updateLogPageFlag t LOG_END d, replicate 20 0)"
    using nf by (simp add: ReadNextLog_def)
  moreover have "walk t L (length L) (updateLogPageFlag t LOG_END d)"
    by (rule walk_same_store [OF _ _ t wf L]) (simp_all add: crt, simp add: same_store_def)
  ultimately show ?thesis by (simp add: same_store_def [of d d])
qed

lemma ReadFirstLog_walk:
  assumes "t < 5" "log_wf t d"
  shows "walk t (log_abs t d) 0 (set_crt t (nextWriteAddrVal d t) d)"
proof (rule walk_same_store [OF _ _ assms refl])
  show "crtReadAddrVal (set_crt t (nextWriteAddrVal d t) d) t
        = of_nat (slot_addr t ((log_pos t d + 300 - 0) mod 300))"
    using log_wf_next [OF assms(2)] log_wf_pos [OF assms(2)] by simp
qed simp

lemma same_store_trans: "same_store d e \<Longrightarrow> same_store e f \<Longrightarrow> same_store d f"
  by (simp add: same_store_def)

text \<open>Records as they are shown: the flag byte is overwritten by the terminator.\<close>

definition shown :: "u8 list \<Rightarrow> u8 list" where
  "shown r = cstr (r[19 := 0]) @ [35]"

lemma hd_log_abs:
  assumes "log_wf t d" "i < length (log_abs t d)"
  shows "hd ((log_abs t d ! i)[19 := 0]) \<noteq> 0"
proof -
  define k where "k = (log_pos t d + 299 - i) mod 300"
  have "used d t k"
  proof (rule log_wf_used [OF assms(1)])
    show "k < log_pos t d \<or> k < 300 \<and> isLogFull t d"
    proof (cases "isLogFull t d")
      case False
      then have i: "i < log_pos t d" using assms length_log_abs by simp
      then have "log_pos t d + 299 - i = (log_pos t d - Suc i) + 300" by linarith
      then have "k = log_pos t d - Suc i"
        using log_wf_pos [OF assms(1)] by (simp only: k_def mod_add_self2) simp
      with i show ?thesis by simp
    qed (simp add: k_def)
  qed
  moreover have "log_abs t d ! i = slot d t k" using log_abs_nth [OF assms] by (simp add: k_def)
  moreover have "hd (xs[19 := 0]) = hd xs" if "length xs = 20" for xs :: "u8 list"
    using that by (cases xs) (simp_all add: numeral_eq_Suc)
  ultimately show ?thesis by (simp add: used_def)
qed

lemma walk_hd: "walk t L i d \<Longrightarrow> j < length L \<Longrightarrow> hd ((L ! j)[19 := 0]) \<noteq> 0"
  using hd_log_abs by (auto simp: walk_def)

lemma walk_cong:
  assumes "eemem d = eemem e" "nextWriteAddrVal d = nextWriteAddrVal e" "crtReadAddrVal d = crtReadAddrVal e"
  shows "walk t L i d = walk t L i e"
  using log_cong [OF assms(1,2), of t] assms(3) by (simp add: walk_def)

lemma walk_set [simp]:
  "walk t L i (d\<lparr>crtWebPageLogData := x\<rparr>) = walk t L i d"
  "walk t L i (d\<lparr>web_page_overrun := v\<rparr>) = walk t L i d"
  "walk t L i (d\<lparr>crtLCDPageLogData := y\<rparr>) = walk t L i d"
  "walk t L i (d\<lparr>lastWebPageLogNum := n\<rparr>) = walk t L i d"
  "walk t L i (d\<lparr>lastLCDPageLogNum := n\<rparr>) = walk t L i d"
  "walk t L i (d\<lparr>crtWebLogPageNum := n\<rparr>) = walk t L i d"
  "walk t L i (d\<lparr>webLogPageFlag := n\<rparr>) = walk t L i d"
  "walk t L i (d\<lparr>LCDLogPageFlag := n\<rparr>) = walk t L i d"
  by (rule walk_cong; simp)+

text \<open>
  The loop of a web page: it appends the next \<open>n\<close> records, or as many as there are.  The whole
  walk stays within 300 records, because a page of a full log never spans its end.
\<close>

lemma web_down_loop_walk:
  assumes "walk t L i d" "i \<le> length L" "length L = 300 \<Longrightarrow> i + n \<le> 300" "200 \<le> length (crtWebPageLogData d) \<Longrightarrow> web_page_overrun d"
  shows "\<exists>d'. web_down_loop t n j d = (d', j + of_nat (min n (length L - i))) \<and>
     walk t L (i + min n (length L - i)) d' \<and> eemem d' = eemem d \<and> nextWriteAddrVal d' = nextWriteAddrVal d \<and>
     lastWebPageReadDir d' = lastWebPageReadDir d \<and>
     (web_page_overrun d' \<longleftrightarrow> web_page_overrun d \<or> 200 \<le> length (crtWebPageLogData d')) \<and>
     crtWebPageLogData d' = crtWebPageLogData d @ concat (map shown (take n (drop i L)))"
  using assms
proof (induction n arbitrary: i j d)
  case (Suc n)
  show ?case
  proof (cases "i < length L")
    case True
    obtain d1 where d1: "ReadNextLog t d = (d1, (L ! i)[19 := 0])" "walk t L (Suc i) d1" "same_store d d1"
      using ReadNextLog_step [OF Suc.prems(1) True] by blast
    let ?d = "set_web_page (crtWebPageLogData d1 @ shown (L ! i)) d1"
    have "walk t L (Suc i) ?d" using d1 by simp
    then obtain d' where d': "web_down_loop t n (j + 1) ?d = (d', j + 1 + of_nat (min n (length L - Suc i)))"
      "walk t L (Suc i + min n (length L - Suc i)) d'" "eemem d' = eemem ?d"
      "nextWriteAddrVal d' = nextWriteAddrVal ?d" "lastWebPageReadDir d' = lastWebPageReadDir ?d"
      "web_page_overrun d' \<longleftrightarrow> web_page_overrun ?d \<or> 200 \<le> length (crtWebPageLogData d')"
      "crtWebPageLogData d' = crtWebPageLogData ?d @ concat (map shown (take n (drop (Suc i) L)))"
      using Suc.IH [of "Suc i" ?d "j + 1"] Suc.prems True by fastforce
    have m: "min (Suc n) (length L - i) = Suc (min n (length L - Suc i))" using True by simp
    have "take (Suc n) (drop i L) = L ! i # take n (drop (Suc i) L)"
      using True by (simp add: Cons_nth_drop_Suc [symmetric])
    then show ?thesis
      using d1 d' walk_hd [OF Suc.prems(1) True] m
      by (simp add: shown_def [of "L ! i"] same_store_def add.assoc) auto
  next
    case False
    then have i: "i = length L" and "length L < 300"
      using Suc.prems length_log_abs [of t d] log_wf_pos [of t d] by (auto simp: walk_def split: if_splits)
    then obtain d1 where "ReadNextLog t d = (d1, replicate 20 0)" "walk t L (length L) d1" "same_store d d1"
      using ReadNextLog_end [of t L d] Suc.prems(1) by blast
    with i Suc.prems(4) show ?thesis by (auto simp: same_store_def)
  qed
qed auto

lemma ReadWebFirstPageLog_walk:
  assumes "t < 5" "log_wf t d"
  defines "L \<equiv> log_abs t d"
  defines "d' \<equiv> ReadWebFirstPageLog t d"
  shows "walk t L (min 10 (length L)) d' \<and> lastWebPageReadDir d' = WEB_PAGE_READ_DOWN \<and>
     (web_page_overrun d' \<longleftrightarrow> web_page_overrun d \<or> 200 \<le> length (crtWebPageLogData d')) \<and>
     crtWebPageLogData d' = concat (map shown (take 10 L)) \<and>
     eemem d' = eemem d \<and> nextWriteAddrVal d' = nextWriteAddrVal d"
proof -
  let ?e = "d\<lparr>crtWebLogPageNum := 1, webLogPageFlag := LOG_HEAD, lastWebPageLogNum := 0,
              crtWebPageLogData := [], lastWebPageReadDir := WEB_PAGE_READ_DOWN\<rparr>"
  let ?c = "set_crt t (nextWriteAddrVal ?e t) ?e"
  have wf: "log_wf t ?e" "log_abs t ?e = L"
    using log_cong [of ?e d t] assms by simp_all
  have w: "walk t L 0 ?c" using ReadFirstLog_walk [OF assms(1) wf(1)] wf(2) by simp
  have c: "eemem ?c = eemem d" "crtWebPageLogData ?c = []" "lastWebPageReadDir ?c = WEB_PAGE_READ_DOWN"
    "web_page_overrun ?c = web_page_overrun d" "nextWriteAddrVal ?c = nextWriteAddrVal d"
    by (simp_all add: set_crt_def)
  have len: "length L \<le> 300"
    using length_log_abs [OF assms(2)] log_wf_pos [OF assms(2)] by (simp add: L_def)
  have first: "ReadFirstLog t ?e = ReadNextLog t ?c" by (simp add: ReadFirstLog_def)
  show ?thesis
  proof (cases L)
    case Nil
    then obtain d1 where "ReadNextLog t ?c = (d1, replicate 20 0)" "walk t L 0 d1" "same_store ?c d1"
      using ReadNextLog_end [of t L ?c] w by auto
    with c Nil first show ?thesis
      by (simp add: d'_def ReadWebFirstPageLog_def Let_def same_store_def)
  next
    case (Cons r L')
    then obtain d1 where d1: "ReadNextLog t ?c = (d1, (L ! 0)[19 := 0])" "walk t L (Suc 0) d1"
      "same_store ?c d1"
      using ReadNextLog_step [OF w] by auto
    let ?f = "set_web_page (crtWebPageLogData d1 @ shown (L ! 0)) d1"
    obtain d2 where "web_down_loop t 9 1 ?f = (d2, 1 + of_nat (min 9 (length L - 1)))"
      "walk t L (1 + min 9 (length L - 1)) d2"
      "eemem d2 = eemem ?f" "nextWriteAddrVal d2 = nextWriteAddrVal ?f"
      "lastWebPageReadDir d2 = lastWebPageReadDir ?f"
      "web_page_overrun d2 \<longleftrightarrow> web_page_overrun ?f \<or> 200 \<le> length (crtWebPageLogData d2)"
      "crtWebPageLogData d2 = crtWebPageLogData ?f @ concat (map shown (take 9 L'))"
      using web_down_loop_walk [of t L 1 ?f 9 1] d1 Cons by auto
    moreover have "take 10 L = L ! 0 # take 9 L'" "min 10 (length L) = 1 + min 9 (length L - 1)"
      using Cons by (simp_all add: numeral_eq_Suc)
    ultimately show ?thesis
      using d1 c first walk_hd [OF w, of 0] Cons
      by (simp add: d'_def ReadWebFirstPageLog_def Let_def same_store_def shown_def [of r]) auto
  qed
qed

lemma ReadWebNextPageLog_walk:
  assumes "walk t L i d" "i \<le> length L" "length L = 300 \<Longrightarrow> i + 10 \<le> 300"
    and "lastWebPageReadDir d = WEB_PAGE_READ_DOWN"
  defines "d' \<equiv> ReadWebNextPageLog t d"
  shows "walk t L (i + min 10 (length L - i)) d' \<and> lastWebPageReadDir d' = WEB_PAGE_READ_DOWN \<and>
     (web_page_overrun d' \<longleftrightarrow> web_page_overrun d \<or> 200 \<le> length (crtWebPageLogData d')) \<and>
     crtWebPageLogData d' = concat (map shown (take 10 (drop i L))) \<and>
     eemem d' = eemem d \<and> nextWriteAddrVal d' = nextWriteAddrVal d"
proof -
  let ?e = "d\<lparr>crtWebLogPageNum := crtWebLogPageNum d + 1, webLogPageFlag := LOG_MIDDLE,
              crtWebPageLogData := []\<rparr>"
  have e: "walk t L i ?e" using assms(1) by simp
  have z: "200 \<le> length (crtWebPageLogData ?e) \<Longrightarrow> web_page_overrun ?e" by simp
  obtain d2 where "web_down_loop t 10 0 ?e = (d2, 0 + of_nat (min 10 (length L - i)))"
    "walk t L (i + min 10 (length L - i)) d2" "eemem d2 = eemem ?e"
    "nextWriteAddrVal d2 = nextWriteAddrVal ?e" "lastWebPageReadDir d2 = lastWebPageReadDir ?e"
    "web_page_overrun d2 \<longleftrightarrow> web_page_overrun ?e \<or> 200 \<le> length (crtWebPageLogData d2)"
    "crtWebPageLogData d2 = crtWebPageLogData ?e @ concat (map shown (take 10 (drop i L)))"
    using web_down_loop_walk [where n = 10 and j = 0, OF e assms(2)] assms(3) z by blast
  with assms(4) show ?thesis
    by (simp add: d'_def ReadWebNextPageLog_def Let_def)
qed

text \<open>The \<open>p\<close>-th page, counted from zero, of a log that the user pages forward.\<close>

definition web_page :: "u8 list list \<Rightarrow> nat \<Rightarrow> u8 list" where
  "web_page L p = concat (map shown (take 10 (drop (10 * p) L)))"

lemma length_shown: "length (shown r) \<le> 20"
proof -
  have "length (takeWhile (\<lambda>b. b \<noteq> 0) (r[19 := 0])) \<le> 19"
  proof (rule ccontr)
    assume a: "\<not> ?thesis"
    then have n: "19 < length (takeWhile (\<lambda>b. b \<noteq> 0) (r[19 := 0]))" by simp
    then have "r[19 := 0] ! 19 \<noteq> 0" using nth_mem [OF n] set_takeWhileD takeWhile_nth [OF n] by metis
    moreover have "19 < length r" using n length_takeWhile_le [of "\<lambda>b. b \<noteq> 0" "r[19 := 0]"] by simp
    ultimately show False by simp
  qed
  then show ?thesis by (simp add: shown_def cstr_def)
qed

lemma length_web_page: "length (web_page L p) \<le> 200"
proof -
  have "length (concat (map shown xs)) \<le> 20 * length xs" for xs
    by (induction xs) (use length_shown in \<open>simp_all add: add_mono\<close>)
  from this [of "take 10 (drop (10 * p) L)"] show ?thesis by (simp add: web_page_def)
qed

lemma web_page_walk:
  assumes "t < 5" "log_wf t d" "p < 30"
  defines "L \<equiv> log_abs t d"
  defines "d' \<equiv> (ReadWebNextPageLog t ^^ p) (ReadWebFirstPageLog t d)"
  shows "walk t L (min (10 * p + 10) (length L)) d' \<and> lastWebPageReadDir d' = WEB_PAGE_READ_DOWN \<and>
     (web_page_overrun d' \<longleftrightarrow> web_page_overrun d \<or> (\<exists>q\<le>p. 200 \<le> length (web_page L q))) \<and>
     crtWebPageLogData d' = web_page L p \<and> eemem d' = eemem d"
  using assms(3) unfolding d'_def
proof (induction p)
  case 0
  show ?case using ReadWebFirstPageLog_walk [OF assms(1,2)] by (simp add: L_def web_page_def)
next
  case (Suc p)
  let ?d = "(ReadWebNextPageLog t ^^ p) (ReadWebFirstPageLog t d)"
  let ?i = "min (10 * p + 10) (length L)"
  have "?i + min 10 (length L - ?i) = min (10 * Suc p + 10) (length L)" by simp
  moreover have "take 10 (drop ?i L) = take 10 (drop (10 * Suc p) L)"
    by (simp add: min_def add.commute)
  moreover have "(\<exists>q\<le>Suc p. 200 \<le> length (web_page L q)) \<longleftrightarrow>
      (\<exists>q\<le>p. 200 \<le> length (web_page L q)) \<or> 200 \<le> length (web_page L (Suc p))"
    by (auto simp: le_Suc_eq)
  ultimately show ?case
    using Suc ReadWebNextPageLog_walk [of t L ?i ?d] by (simp add: web_page_def)
qed

end
