(* ===== verification/LogStore.thy ===== *)
theory LogStore
  imports LogPages
begin

text \<open>
  Start-up and erasing in \<^verbatim>\<open>log.c\<close>: \<open>Log_Init\<close> recovers the write positions from the EEPROM, so
  the logs survive a power cycle, and \<open>FastClearLog\<close> empties one log, returns, and leaves the
  others as they are.
\<close>

subsection \<open>Start-up\<close>

abbreviation stored_pos :: "dev \<Rightarrow> nat \<Rightarrow> u32" where
  "stored_pos d t \<equiv> AT24CXX_ReadLenByte d (LOG_NEXT_W_ADDR t) 2"

definition boot_pos :: "dev \<Rightarrow> nat \<Rightarrow> u32" where
  "boot_pos d t = (if stored_pos d t = 0xffff then EACH_TYPE_LOG_BASED_ADDR t else stored_pos d t)"

lemma unat_BASED: "t < 5 \<Longrightarrow> unat (EACH_TYPE_LOG_BASED_ADDR t) < 65536"
  using slot_addr_bound [of t 0] by (simp add: BASED_slot)

lemma Log_Init_body_effect:
  assumes "t < 5" "t' < 5"
  shows "nextWriteAddrVal (Log_Init_body t d) = (nextWriteAddrVal d)(t := boot_pos d t)"
    and "stored_pos (Log_Init_body t d) t' = (if t' = t then boot_pos d t else stored_pos d t')"
    and "k < 300 \<Longrightarrow> slot (Log_Init_body t d) t' k = slot d t' k"
  using assms unat_BASED
  by (auto simp: Log_Init_body_def boot_pos_def Let_def stored_WriteLenByte slot_WriteLenByte)

lemma Log_Init_fold:
  assumes "\<forall>t\<in>set ts. t < 5" "distinct ts" "t' < 5"
  shows "nextWriteAddrVal (fold Log_Init_body ts d) t' =
           (if t' \<in> set ts then boot_pos d t' else nextWriteAddrVal d t') \<and>
         stored_pos (fold Log_Init_body ts d) t' =
           (if t' \<in> set ts then boot_pos d t' else stored_pos d t') \<and>
         (\<forall>k<300. slot (fold Log_Init_body ts d) t' k = slot d t' k)"
  using assms
proof (induction ts arbitrary: d)
  case (Cons t ts)
  have "boot_pos (Log_Init_body t d) t' = boot_pos d t'" if "t' \<noteq> t"
    using that Cons.prems by (simp add: boot_pos_def Log_Init_body_effect)
  then show ?case
    using Cons by (auto simp: Log_Init_body_effect)
qed simp

lemma Log_Init_effect:
  assumes "t < 5"
  shows nextWriteAddrVal_Log_Init: "nextWriteAddrVal (Log_Init d) t = boot_pos d t"
    and stored_Log_Init: "stored_pos (Log_Init d) t = boot_pos d t"
    and slot_Log_Init: "k < 300 \<Longrightarrow> slot (Log_Init d) t k = slot d t k"
  using Log_Init_fold [of "[0..<5]" t d] assms by (auto simp: Log_Init_def Let_def)

text \<open>Two devices whose records of a log agree, with the same position, hold the same log.\<close>

lemma log_transfer:
  assumes "t < 5" "\<And>k. k < 300 \<Longrightarrow> slot e t k = slot d t k"
    and "nextWriteAddrVal e t = nextWriteAddrVal d t" "stored_pos e t = nextWriteAddrVal d t"
    and "log_wf t d"
  shows "log_wf t e" "log_abs t e = log_abs t d"
proof -
  note pos = log_wf_pos [OF assms(5)]
  have p: "log_pos t e = log_pos t d" using assms(3) by (simp add: log_pos_def)
  have f: "isLogFull t e = isLogFull t d" by (simp add: isLogFull_slot assms(2))
  have u: "used e t k = used d t k" "free e t k = free d t k" if "k < 300" for k
    using assms(2) [OF that] by (simp_all add: used_def free_def)
  show "log_wf t e"
    using assms pos u by (auto simp: log_wf_def p)
  show "log_abs t e = log_abs t d"
    using pos by (auto simp: log_abs_def log_order_def p f assms(2))
qed

lemma boot_pos_wf:
  assumes "t < 5" "log_wf t d"
  shows "boot_pos d t = nextWriteAddrVal d t"
proof -
  have "unat (nextWriteAddrVal d t) < 65535"
    using assms log_wf_next [OF assms(2)] log_wf_pos [OF assms(2)] slot_addr_bound [of t "log_pos t d"]
    by simp
  then have "nextWriteAddrVal d t \<noteq> 0xffff" by auto
  then show ?thesis using log_wf_stored [OF assms(2)] by (simp add: boot_pos_def)
qed

lemma Log_Init_keeps:
  assumes "t < 5" "log_wf t d" "eemem e = eemem d"
  shows "log_wf t (Log_Init e) \<and> log_abs t (Log_Init e) = log_abs t d"
proof -
  have "boot_pos e t = boot_pos d t"
    using ReadLenByte_2_cong [of e _ d] assms(3) by (simp add: boot_pos_def)
  then have b: "boot_pos e t = nextWriteAddrVal d t" using assms by (simp add: boot_pos_wf)
  have sl: "slot (Log_Init e) t k = slot d t k" if "k < 300" for k
    using that assms(1) slot_cong [OF assms(3)] by (simp add: slot_Log_Init)
  show ?thesis
    using log_transfer [OF assms(1) sl _ _ assms(2)] b assms(1)
    by (simp add: nextWriteAddrVal_Log_Init stored_Log_Init)
qed

subsection \<open>Erasing\<close>

lemma FastErase_unfold:
  "FastEraseLogEEProm a n d = (if n = 0 then Some d else FastEraseLogEEProm (a + 20) (n - 20)
     (AT24CXX_WriteOneByte a 0xFF d))"
  by (rule FastEraseLogEEProm.simps)

definition erase_heads :: "nat \<Rightarrow> nat set \<Rightarrow> dev \<Rightarrow> dev" where
  "erase_heads t K d = d\<lparr>eemem := (\<lambda>b. if b \<in> (\<lambda>k. of_nat (slot_addr t k)) ` K then 0xFF else eemem d b)\<rparr>"

lemma FastErase_slots:
  assumes "n \<le> 300"
  shows "FastEraseLogEEProm (of_nat (slot_addr t j)) (of_nat (20 * n)) d = Some (erase_heads t {j..<j + n} d)"
  using assms
proof (induction n arbitrary: j d)
  case 0
  show ?case by (subst FastErase_unfold) (simp add: erase_heads_def)
next
  case (Suc n)
  have "unat (of_nat (20 * Suc n) :: u16) = 20 * Suc n" using Suc.prems by (simp only: unat_of_nat) simp
  then have "(of_nat (20 * Suc n) :: u16) \<noteq> 0" by (metis Zero_not_Suc mult_eq_0_iff unat_0 zero_neq_numeral)
  moreover have "(of_nat (20 * Suc n) :: u16) - 20 = of_nat (20 * n)" by simp
  moreover have "(of_nat (slot_addr t j) :: u16) + 20 = of_nat (slot_addr t (Suc j))"
    by (simp add: slot_addr_def)
  moreover have "erase_heads t {Suc j..<Suc j + n} (AT24CXX_WriteOneByte (of_nat (slot_addr t j)) 0xFF d)
                 = erase_heads t {j..<j + Suc n} d"
  proof -
    have "{j..<j + Suc n} = insert j {Suc j..<Suc j + n}" by auto
    then show ?thesis by (auto simp: erase_heads_def fun_eq_iff)
  qed
  ultimately show ?case
    using Suc by (subst FastErase_unfold) simp
qed

lemma hd_slot_erase_heads:
  assumes "t < 5" "t' < 5" "k < 300" "K \<subseteq> {..<300}"
  shows "hd (slot (erase_heads t K d) t' k) = (if t' = t \<and> k \<in> K then 0xFF else hd (slot d t' k))"
proof -
  have "of_nat (slot_addr t' k) \<in> (\<lambda>k. of_nat (slot_addr t k) :: u16) ` K \<longleftrightarrow> t' = t \<and> k \<in> K"
  proof
    assume "of_nat (slot_addr t' k) \<in> (\<lambda>k. of_nat (slot_addr t k) :: u16) ` K"
    then obtain j where j: "j \<in> K" "(of_nat (slot_addr t' k) :: u16) = of_nat (slot_addr t j)" by auto
    then have "slot_addr t' k = slot_addr t j"
      using assms unat_slot_addr(1) [of t' k] unat_slot_addr(1) [of t j] by auto
    with j assms slot_addr_apart [of k j t' t] show "t' = t \<and> k \<in> K" by fastforce
  qed auto
  then show ?thesis by (auto simp: hd_slot erase_heads_def)
qed

lemma slot_erase_heads_other:
  assumes "t < 5" "t' < 5" "k < 300" "K \<subseteq> {..<300}" "t' \<noteq> t"
  shows "slot (erase_heads t K d) t' k = slot d t' k"
  unfolding slot_def
proof (rule ee.rds_cong)
  fix i assume i: "i < (20 :: nat)"
  have "of_nat (slot_addr t' k) + of_nat i \<noteq> (of_nat (slot_addr t j) :: u16)" if "j \<in> K" for j
  proof
    have j: "j < 300" using that assms by auto
    assume "of_nat (slot_addr t' k) + of_nat i = (of_nat (slot_addr t j) :: u16)"
    then have "(of_nat (slot_addr t' k + i) :: u16) = of_nat (slot_addr t j)" by simp
    moreover have "slot_addr t' k + i < 65536" "slot_addr t j < 65536"
      using i j assms slot_addr_bound [of t' k] slot_addr_bound [of t j] by simp_all
    ultimately have "slot_addr t' k + i = slot_addr t j"
      using of_nat_inverse [of "slot_addr t' k + i" "of_nat (slot_addr t j) :: u16"] assms j by simp
    with slot_addr_apart [of k j t' t] i j assms show False by auto
  qed
  then show "AT24CXX_ReadOneByte (erase_heads t K d) (of_nat (slot_addr t' k) + of_nat i)
             = AT24CXX_ReadOneByte d (of_nat (slot_addr t' k) + of_nat i)"
    by (auto simp: erase_heads_def)
qed

lemma stored_erase_heads:
  assumes "t < 5" "t' < 5" "K \<subseteq> {..<300}"
  shows "stored_pos (erase_heads t K d) t' = stored_pos d t'"
proof -
  have "b \<notin> (\<lambda>k. of_nat (slot_addr t k) :: u16) ` K" if "unat b < 256" for b
    using that assms slot_addr_low unat_slot_addr(1) [of t] by (force simp: not_le [symmetric])
  then show ?thesis
    using assms by (intro ReadLenByte_2_cong) (simp_all add: erase_heads_def)
qed

lemma nextWriteAddrVal_erase_heads [simp]:
  "nextWriteAddrVal (erase_heads t K d) = nextWriteAddrVal d"
  by (simp add: erase_heads_def)

text \<open>Erasing the stored position.\<close>

lemma erase_pos_Write: "EraseEEProm a 2 d = AT24CXX_Write a [0xFF, 0xFF] d"
  by (simp add: numeral_eq_Suc)

lemma erase_pos_effect:
  fixes d :: dev
  assumes "t < 5" "t' < 5"
  defines "e \<equiv> EraseEEProm (LOG_NEXT_W_ADDR t) 2 d"
  shows "nextWriteAddrVal e = nextWriteAddrVal d"
    and "stored_pos e t' = (if t' = t then 0xffff else stored_pos d t')"
    and "k < 300 \<Longrightarrow> slot e t' k = slot d t' k"
proof -
  show "nextWriteAddrVal e = nextWriteAddrVal d" by (simp add: e_def erase_pos_Write)
  show "slot e t' k = slot d t' k" if "k < 300"
    unfolding e_def erase_pos_Write using assms that by (intro slot_Write_low) simp_all
  show "stored_pos e t' = (if t' = t then 0xffff else stored_pos d t')"
  proof (cases "t' = t")
    case False
    with assms LOG_NEXT_apart [of t' t] LOG_NEXT_apart [of t t'] show ?thesis
      by (auto simp: e_def erase_pos_Write intro!: ReadLenByte_2_cong)
  qed (simp add: e_def erase_pos_Write ReadLenByte_2)
qed

lemma FastClearLog_erases:
  fixes d :: dev
  assumes "t < 5" "log_wf t d"
  defines "e \<equiv> EraseEEProm (LOG_NEXT_W_ADDR t) 2 d"
  shows "\<exists>n \<le> 300. FastClearLog t d = Some (Log_Init ((erase_heads t {..<n} e)\<lparr>crtWebPageLogData := []\<rparr>))
          \<and> (\<forall>k<300. n \<le> k \<longrightarrow> free d t k)"
proof -
  note pos = log_wf_pos [OF assms(2)] and nxt = log_wf_next [OF assms(2)]
  note e = erase_pos_effect [OF assms(1) assms(1), where d = d, folded e_def]
  have head: "AT24CXX_ReadOneByte e (ucast (nextWriteAddrVal e t)) = hd (slot d t (log_pos t d))"
    using arg_cong [OF e(3) [OF pos], of hd] by (simp add: e(1) nxt hd_slot)
  define n where "n = (if hd (slot d t (log_pos t d)) \<noteq> 0xFF then 300 else log_pos t d)"
  have n: "n \<le> 300" using pos by (simp add: n_def)
  have all: "FastEraseLogEEProm (ucast (EACH_TYPE_LOG_BASED_ADDR t)) (of_nat (20 * m)) e
             = Some (erase_heads t {..<m} e)" if "m \<le> 300" for m
    using FastErase_slots [OF that, of t 0 e] by (simp add: BASED_slot lessThan_atLeast0)
  have diff: "(ucast (nextWriteAddrVal e t - EACH_TYPE_LOG_BASED_ADDR t) :: u16) = of_nat (20 * log_pos t d)"
  proof -
    have "nextWriteAddrVal e t - EACH_TYPE_LOG_BASED_ADDR t = of_nat (20 * log_pos t d)"
      by (simp add: e(1) nxt BASED_slot) (simp add: slot_addr_def)
    then show ?thesis by (simp only: ucast_of_nat_u16)
  qed
  have "FastClearLog t d = Some (Log_Init ((erase_heads t {..<n} e)\<lparr>crtWebPageLogData := []\<rparr>))"
    using all [of 300] all [of "log_pos t d"] pos head diff
    by (simp add: FastClearLog_def Let_def e_def [symmetric] n_def)
  moreover have "free d t k" if "k < 300" "n \<le> k" for k
  proof -
    have "hd (slot d t (log_pos t d)) = 0xFF" using that by (auto simp: n_def split: if_splits)
    then have "\<not> isLogFull t d" using log_wf_used [OF assms(2), of "log_pos t d"] pos by (auto simp: used_def)
    with that log_wf_free [OF assms(2), of k] show ?thesis by (auto simp: n_def split: if_splits)
  qed
  ultimately show ?thesis using n by blast
qed

lemma FastClearLog_spec:
  assumes "t < 5" "log_wf t d"
  shows "\<exists>d'. FastClearLog t d = Some d' \<and> log_wf t d' \<and> log_abs t d' = [] \<and>
    (\<forall>t'<5. t' \<noteq> t \<longrightarrow> log_wf t' d \<longrightarrow> log_wf t' d' \<and> log_abs t' d' = log_abs t' d)"
proof -
  define e where "e = EraseEEProm (LOG_NEXT_W_ADDR t) 2 d"
  obtain n where n: "n \<le> 300" "\<forall>k<300. n \<le> k \<longrightarrow> free d t k"
    and r: "FastClearLog t d = Some (Log_Init ((erase_heads t {..<n} e)\<lparr>crtWebPageLogData := []\<rparr>))"
    using FastClearLog_erases [OF assms] by (auto simp: e_def)
  define f where "f = (erase_heads t {..<n} e)\<lparr>crtWebPageLogData := []\<rparr>"
  note e = erase_pos_effect [OF assms(1), where d = d, folded e_def]
  have K: "{..<n} \<subseteq> {..<300}" using n(1) by auto
  have head: "hd (slot f t k) = 0xFF" if "k < 300" for k
    using hd_slot_erase_heads [OF assms(1) assms(1) that K, of e] n(2) that e(3) [OF assms(1) that]
    by (auto simp: f_def free_def not_less)
  have st: "stored_pos f t' = (if t' = t then 0xffff else stored_pos d t')" if "t' < 5" for t'
    using stored_erase_heads [OF assms(1) that K, of e] e(2) [OF that] by (simp add: f_def)
  have wf: "log_wf t (Log_Init f)"
  proof (rule log_wfI [where k = 0 and full = False])
    show "free (Log_Init f) t k" if "k < 300" for k
      using head [OF that] slot_Log_Init [OF assms(1) that, of f] by (simp add: free_def)
  qed (use assms st in \<open>simp_all add: Log_Init_effect boot_pos_def BASED_slot\<close>)
  moreover have "log_abs t (Log_Init f) = []"
  proof -
    have "log_pos t (Log_Init f) = 0"
      using assms st by (intro log_pos_eq) (simp_all add: Log_Init_effect boot_pos_def BASED_slot)
    moreover have "\<not> isLogFull t (Log_Init f)"
      using head [of 299] slot_Log_Init [OF assms(1), of 299 f] by (simp add: isLogFull_slot)
    ultimately show ?thesis by (simp add: log_abs_def log_order_def)
  qed
  moreover have "log_wf t' (Log_Init f) \<and> log_abs t' (Log_Init f) = log_abs t' d"
    if t': "t' < 5" "t' \<noteq> t" "log_wf t' d" for t'
  proof -
    have sl: "slot (Log_Init f) t' k = slot d t' k" if "k < 300" for k
      using slot_Log_Init [OF t'(1) that, of f] slot_erase_heads_other [OF assms(1) t'(1) that K t'(2), of e]
        e(3) [OF t'(1) that] by (simp add: f_def)
    have "boot_pos f t' = nextWriteAddrVal d t'"
      using boot_pos_wf [OF t'(1,3)] st [OF t'(1)] t'(2) by (auto simp: boot_pos_def split: if_splits)
    then show ?thesis
      using log_transfer [OF t'(1) sl _ _ t'(3)] t'(1) by (simp add: Log_Init_effect)
  qed
  ultimately show ?thesis using r by (auto simp: f_def)
qed

text \<open>The factory state: a formatted EEPROM holds five empty logs.\<close>

lemma Log_Init_blank:
  assumes "\<And>a. 224 \<le> unat a \<Longrightarrow> unat a < 32767 \<Longrightarrow> eemem d a = 0xFF" "t < 5"
  shows "log_wf t (Log_Init d) \<and> log_abs t (Log_Init d) = []"
proof -
  have st: "stored_pos d t = 0xffff" using assms(2) by (simp add: ReadLenByte_2 assms(1))
  have head: "hd (slot (Log_Init d) t k) = 0xFF" if "k < 300" for k
    using slot_Log_Init [OF assms(2) that, of d] assms(2) that slot_addr_bound [of t k] slot_addr_low [of t k]
    by (simp add: hd_slot assms(1))
  have "log_wf t (Log_Init d)"
    by (rule log_wfI [where k = 0 and full = False])
       (use assms st head in \<open>simp_all add: Log_Init_effect boot_pos_def BASED_slot free_def\<close>)
  moreover have "log_pos t (Log_Init d) = 0"
    using assms st by (intro log_pos_eq) (simp_all add: Log_Init_effect boot_pos_def BASED_slot)
  ultimately show ?thesis
    using head [of 299] by (simp add: log_abs_def log_order_def isLogFull_slot)
qed

end
