(* ===== verification/Tasks.thy ===== *)
theory Tasks
  imports Timer TcpServer WebCgi LogStore
begin

text \<open>
  \<^verbatim>\<open>USER/main.c\<close>: the start of the system and the two background tasks.  The tests of the update
  flags in \<^verbatim>\<open>watch_task\<close> are one function each, because an interrupt may come between any two of
  them; \<open>watch_round\<close> is one round of the loop without interrupts.
\<close>

subsection \<open>Start\<close>

text \<open>\<^verbatim>\<open>while(AT24CXX_Check())\<close>: \<open>None\<close> stands for a check that never succeeds.\<close>

partial_function (option) wait_eeprom :: "dev \<Rightarrow> dev option" where
  "wait_eeprom d =
     (let (d, res) = AT24CXX_Check d in if res \<noteq> 0 then wait_eeprom (d\<lparr>LED_RUN := True\<rparr>) else Some d)"

text \<open>
  \<^verbatim>\<open>system_init\<close> from \<^verbatim>\<open>IIC_Init\<close> on; \<open>nack\<close>, \<open>rx\<close> and \<open>junk\<close> are the bus outcomes of the first
  reading of the clock.
\<close>

definition system_init_paras :: "(nat \<Rightarrow> bool) \<Rightarrow> (nat \<Rightarrow> u8) \<Rightarrow> (nat \<Rightarrow> u8) \<Rightarrow> dev \<Rightarrow> dev" where
  "system_init_paras nack rx junk d =
     ALARM_Init (Adc_Init (Log_Init (PCF8563_Get_Str nack rx junk (readConfigCode (d\<lparr>LED_RUN := False\<rparr>)))))"

definition system_init :: "(nat \<Rightarrow> bool) \<Rightarrow> (nat \<Rightarrow> u8) \<Rightarrow> (nat \<Rightarrow> u8) \<Rightarrow> dev \<Rightarrow> dev option" where
  "system_init nack rx junk d = map_option (system_init_paras nack rx junk) (wait_eeprom d)"

lemma AT24CXX_Check_ok: "AT24CXX_Check d = (AT24CXX_WriteOneByte EE_ADDR_MAX 0x55 d, 0)"
  by (simp add: AT24CXX_Check_def)

lemma wait_eeprom_ok: "wait_eeprom d = Some (d\<lparr>eemem := (eemem d)(EE_ADDR_MAX := 0x55)\<rparr>)"
  by (subst wait_eeprom.simps) (simp add: AT24CXX_Check_ok)

subsection \<open>The watch task\<close>

definition take_flag :: "nat \<Rightarrow> dev \<Rightarrow> dev" where
  "take_flag n d = d\<lparr>timerHandlerFlag := CLEAR_VAR_BIT (timerHandlerFlag d) n\<rparr>"

definition watch_temp :: "dev \<Rightarrow> dev" where
  "watch_temp d = (if IS_SET_BIT (timerHandlerFlag d) 7 then take_flag 7 d else d)"

definition watch_rtc :: "(nat \<Rightarrow> bool) \<Rightarrow> (nat \<Rightarrow> u8) \<Rightarrow> (nat \<Rightarrow> u8) \<Rightarrow> dev \<Rightarrow> dev" where
  "watch_rtc nack rx junk d =
     (if IS_SET_BIT (timerHandlerFlag d) 6 then PCF8563_Get_Str nack rx junk (take_flag 6 d) else d)"

definition watch_link :: "dev \<Rightarrow> dev" where
  "watch_link d = (if IS_SET_BIT (timerHandlerFlag d) 5 then take_flag 5 d else d)"

definition watch_calibrate :: "dev \<Rightarrow> dev" where
  "watch_calibrate d = (if IS_SET_BIT (timerHandlerFlag d) 2 then take_flag 2 (calibrating d) else d)"

definition watch_adc :: "nat \<Rightarrow> dev \<Rightarrow> dev" where
  "watch_adc f d = (if IS_SET_BIT (timerHandlerFlag d) f then take_flag f (ADC_Check_Handler f d) else d)"

definition watch_round :: "(nat \<Rightarrow> bool) \<Rightarrow> (nat \<Rightarrow> u8) \<Rightarrow> (nat \<Rightarrow> u8) \<Rightarrow> dev \<Rightarrow> dev" where
  "watch_round nack rx junk d =
     watch_adc 0 (watch_adc 1 (watch_calibrate (watch_link (watch_rtc nack rx junk
       (watch_temp (fst (FANG_CHAI_Check d)))))))"

subsection \<open>The key task\<close>

text \<open>One round: the key posted to the mailbox, if any, and the static flag of \<^verbatim>\<open>KEY_Scan\<close>.\<close>

definition key_round :: "keys \<Rightarrow> bool \<Rightarrow> u8 option \<times> bool" where
  "key_round k key_up =
     (let (key_up, key) = KEY_Scan False k key_up in (if key \<noteq> 0 then Some key else None, key_up))"

end
