(* ===== verification/Ui.thy ===== *)
theory Ui
  imports Tasks
begin

text \<open>
  The state of the operator's menu of \<^verbatim>\<open>USER/main.c\<close> and \<^verbatim>\<open>HARDWARE/LCD/DisplayMenu.c\<close>: the screen, the cursor,
  the copies that are edited, and the device behind it.  What is drawn is recorded as a list of events, one
  for each drawing function the menu calls and for each arrow; what a drawing function does to the variables of the
  program is modelled here, and the picture it draws in the theories \<open>Pictures\<close>, \<open>Screens\<close> and \<open>Display\<close>.
\<close>

subsection \<open>State\<close>

text \<open>The screens have the numbers of \<^verbatim>\<open>DisplayMenu.h\<close>.\<close>

type_synonym screen = nat

type_synonym s8 = "8 word"

abbreviation (input) InitScreen :: screen where "InitScreen \<equiv> 0"
abbreviation (input) RunScreen :: screen where "RunScreen \<equiv> 1"
abbreviation (input) SetScreen :: screen where "SetScreen \<equiv> 3"
abbreviation (input) InqScreen :: screen where "InqScreen \<equiv> 4"
abbreviation (input) VerScreen :: screen where "VerScreen \<equiv> 5"
abbreviation (input) SetSysScreen :: screen where "SetSysScreen \<equiv> 6"
abbreviation (input) SetFangQuParaScreen :: screen where "SetFangQuParaScreen \<equiv> 7"
abbreviation (input) SetAFangQuParaScreen :: screen where "SetAFangQuParaScreen \<equiv> 8"
abbreviation (input) SetBFangQuParaScreen :: screen where "SetBFangQuParaScreen \<equiv> 9"
abbreviation (input) SetBuFangParaScreen :: screen where "SetBuFangParaScreen \<equiv> 10"
abbreviation (input) SetClearRecordScreen :: screen where "SetClearRecordScreen \<equiv> 11"
abbreviation (input) InqSysParaScreen :: screen where "InqSysParaScreen \<equiv> 12"
abbreviation (input) InqFangQuParaScreen :: screen where "InqFangQuParaScreen \<equiv> 13"
abbreviation (input) InqAFangQuParaScreen :: screen where "InqAFangQuParaScreen \<equiv> 14"
abbreviation (input) InqBFangQuParaScreen :: screen where "InqBFangQuParaScreen \<equiv> 15"
abbreviation (input) InqBuFangParaScreen :: screen where "InqBuFangParaScreen \<equiv> 16"
abbreviation (input) InqAlarmRecordScreen :: screen where "InqAlarmRecordScreen \<equiv> 17"
abbreviation (input) SetDateTimeScreen :: screen where "SetDateTimeScreen \<equiv> 18"
abbreviation (input) SetEthParaScreen :: screen where "SetEthParaScreen \<equiv> 19"
abbreviation (input) SetRS485ParaScreen :: screen where "SetRS485ParaScreen \<equiv> 20"
abbreviation (input) InqDuanLuAlarmScreen :: screen where "InqDuanLuAlarmScreen \<equiv> 25"
abbreviation (input) InqDuanXianAlarmScreen :: screen where "InqDuanXianAlarmScreen \<equiv> 26"
abbreviation (input) InqFangChaiAlarmRecordScreen :: screen where "InqFangChaiAlarmRecordScreen \<equiv> 27"
abbreviation (input) InqEthParaScreen :: screen where "InqEthParaScreen \<equiv> 28"
abbreviation (input) InqRS485ParaScreen :: screen where "InqRS485ParaScreen \<equiv> 29"
abbreviation (input) SetMacAddrScreen :: screen where "SetMacAddrScreen \<equiv> 30"
abbreviation (input) SetIpAddrScreen :: screen where "SetIpAddrScreen \<equiv> 31"
abbreviation (input) SetSubnetMaskScreen :: screen where "SetSubnetMaskScreen \<equiv> 32"
abbreviation (input) SetGateWayScreen :: screen where "SetGateWayScreen \<equiv> 33"
abbreviation (input) InqMacAddrScreen :: screen where "InqMacAddrScreen \<equiv> 34"
abbreviation (input) InqIpAddrScreen :: screen where "InqIpAddrScreen \<equiv> 35"
abbreviation (input) InqSubnetMaskScreen :: screen where "InqSubnetMaskScreen \<equiv> 36"
abbreviation (input) InqGateWayScreen :: screen where "InqGateWayScreen \<equiv> 37"
abbreviation (input) InqAAreaDuanLuAlarmRecordScreen :: screen where "InqAAreaDuanLuAlarmRecordScreen \<equiv> 38"
abbreviation (input) InqBAreaDuanLuAlarmRecordScreen :: screen where "InqBAreaDuanLuAlarmRecordScreen \<equiv> 39"
abbreviation (input) InqAAreaDuanXianAlarmRecordScreen :: screen where "InqAAreaDuanXianAlarmRecordScreen \<equiv> 40"
abbreviation (input) InqBAreaDuanXianAlarmRecordScreen :: screen where "InqBAreaDuanXianAlarmRecordScreen \<equiv> 41"
abbreviation (input) ClearDuanLuAlarmRecordScreen :: screen where "ClearDuanLuAlarmRecordScreen \<equiv> 42"
abbreviation (input) ClearDuanXianAlarmRecordScreen :: screen where "ClearDuanXianAlarmRecordScreen \<equiv> 43"
abbreviation (input) InputPasswordScreen :: screen where "InputPasswordScreen \<equiv> 44"
abbreviation (input) PasswordErrorScreen :: screen where "PasswordErrorScreen \<equiv> 45"
abbreviation (input) AlarmTypeListScreen :: screen where "AlarmTypeListScreen \<equiv> 46"
abbreviation (input) SetExtDeviceTypeScreen :: screen where "SetExtDeviceTypeScreen \<equiv> 47"
abbreviation (input) UserLoginScreen :: screen where "UserLoginScreen \<equiv> 48"
abbreviation (input) SuperUserRootScreen :: screen where "SuperUserRootScreen \<equiv> 49"
abbreviation (input) OrdinaryUserRootScreen :: screen where "OrdinaryUserRootScreen \<equiv> 50"
abbreviation (input) TensionMonitorScreen :: screen where "TensionMonitorScreen \<equiv> 100"
abbreviation (input) AFangQuMonitorScreen :: screen where "AFangQuMonitorScreen \<equiv> 101"
abbreviation (input) BFangQuMonitorScreen :: screen where "BFangQuMonitorScreen \<equiv> 102"
abbreviation (input) SetAlarmThresholdScreen :: screen where "SetAlarmThresholdScreen \<equiv> 103"
abbreviation (input) CalibrationSetScreen :: screen where "CalibrationSetScreen \<equiv> 104"
abbreviation (input) ZeroCalibrationScreen :: screen where "ZeroCalibrationScreen \<equiv> 105"
abbreviation (input) DatumCalibrationScreen :: screen where "DatumCalibrationScreen \<equiv> 106"
abbreviation (input) InqAlarmThresholdScreen :: screen where "InqAlarmThresholdScreen \<equiv> 107"
abbreviation (input) InqCalibrationValScreen :: screen where "InqCalibrationValScreen \<equiv> 108"
abbreviation (input) InqExtDeviceTypeScreen :: screen where "InqExtDeviceTypeScreen \<equiv> 109"
abbreviation (input) InqZeroValScreen :: screen where "InqZeroValScreen \<equiv> 110"
abbreviation (input) InqDatumValScreen :: screen where "InqDatumValScreen \<equiv> 111"
abbreviation (input) AzeroCalibrationScreen :: screen where "AzeroCalibrationScreen \<equiv> 112"
abbreviation (input) BzeroCalibrationScreen :: screen where "BzeroCalibrationScreen \<equiv> 113"
abbreviation (input) AdatumCalibrationScreen :: screen where "AdatumCalibrationScreen \<equiv> 114"
abbreviation (input) BdatumCalibrationScreen :: screen where "BdatumCalibrationScreen \<equiv> 115"
abbreviation (input) NotAtValidRangeScreen :: screen where "NotAtValidRangeScreen \<equiv> 116"
abbreviation (input) CaliOverAareaZeroValScreen :: screen where "CaliOverAareaZeroValScreen \<equiv> 117"
abbreviation (input) CaliOverBareaZeroValScreen :: screen where "CaliOverBareaZeroValScreen \<equiv> 118"
abbreviation (input) CaliOverAareaDatumValScreen :: screen where "CaliOverAareaDatumValScreen \<equiv> 119"
abbreviation (input) CaliOverBareaDatumValScreen :: screen where "CaliOverBareaDatumValScreen \<equiv> 120"
abbreviation (input) InqAareaZeroValScreen :: screen where "InqAareaZeroValScreen \<equiv> 121"
abbreviation (input) InqBareaZeroValScreen :: screen where "InqBareaZeroValScreen \<equiv> 122"
abbreviation (input) InqAareaDatumValScreen :: screen where "InqAareaDatumValScreen \<equiv> 123"
abbreviation (input) InqBareaDatumValScreen :: screen where "InqBareaDatumValScreen \<equiv> 124"
abbreviation (input) SetFullScaleScreen :: screen where "SetFullScaleScreen \<equiv> 125"
abbreviation (input) InqFullScaleScreen :: screen where "InqFullScaleScreen \<equiv> 126"
abbreviation (input) SetBaseAutoCalibrateTimeScreen :: screen where "SetBaseAutoCalibrateTimeScreen \<equiv> 127"
abbreviation (input) InqBaseAutoCalibrateTimeScreen :: screen where "InqBaseAutoCalibrateTimeScreen \<equiv> 128"

text \<open>A drawing: a function of \<^verbatim>\<open>DisplayMenu.c\<close> by its name, or the arrow at a page of the left half.\<close>

datatype drawing = Draw string | Arrow int

record ui =
  current_screen :: screen
  no_key_num :: u32
  row_point :: u8
  row_fx_pos :: s8
  flag_PageState :: bool
  UserId :: u8
  inputPassword :: "u8 list"
  display_xinghao :: "u8 list"
  BU_FANG_A_FLAG_TEMP :: u8
  BU_FANG_B_FLAG_TEMP :: u8
  flag_fcgjsn_tmp :: u8
  alarm_threshold_up_dif_temp :: u16
  alarm_threshold_down_dif_temp :: u16
  rtcTempStr_temp_test :: "u8 list"
  field_num_temp :: "nat \<Rightarrow> u8"
  alarm_delay_temp :: "nat \<Rightarrow> u16"
  ten_val_range_temp :: "nat \<Rightarrow> nat \<Rightarrow> u16"
  alarm_sensitivity_temp :: "nat \<Rightarrow> u8"
  tension_max_range_temp :: "u8 list"
  base_auto_calibrate_time_tmp :: "u8 list"
  eth_mac_addr :: "u8 list"
  eth_ip_addr :: "u8 list"
  eth_subnet_mask :: "u8 list"
  eth_gateway :: "u8 list"
  alarm_rol :: s8
  alarm_key_adj :: s8
  alarm_type_cnt :: u8
  cur_Alarm_Type_Sum :: u16
  old_Alarm_Type_Sum :: u16
  alarm_sequence_buf :: "nat \<Rightarrow> u8"
  drawn :: "drawing list"
  clock_ops :: "bus_op list"
  device :: dev

abbreviation (input) NormalState :: bool where "NormalState \<equiv> True"
abbreviation (input) ModifyState :: bool where "ModifyState \<equiv> False"
abbreviation (input) SuperUser :: u8 where "SuperUser \<equiv> 0"
abbreviation (input) OrdinaryUser :: u8 where "OrdinaryUser \<equiv> 1"

abbreviation (input) KEY_NO_PRESS :: u32 where "KEY_NO_PRESS \<equiv> 0"
abbreviation (input) KEY_ESC_PRESS :: u32 where "KEY_ESC_PRESS \<equiv> 1"
abbreviation (input) KEY_ENTER_PRESS :: u32 where "KEY_ENTER_PRESS \<equiv> 2"
abbreviation (input) KEY_UP_PRESS :: u32 where "KEY_UP_PRESS \<equiv> 3"
abbreviation (input) KEY_DOWN_PRESS :: u32 where "KEY_DOWN_PRESS \<equiv> 4"
abbreviation (input) KEY_LEFT_PRESS :: u32 where "KEY_LEFT_PRESS \<equiv> 5"
abbreviation (input) KEY_RIGHT_PRESS :: u32 where "KEY_RIGHT_PRESS \<equiv> 6"

definition lcd_super_password :: "u8 list" where "lcd_super_password = ascii ''123456''"
definition lcd_ordinary_password :: "u8 list" where "lcd_ordinary_password = ascii ''000000''"

text \<open>The variables of the menu as the C start-up code leaves them, and the locals of \<^verbatim>\<open>main_task\<close> at its loop.\<close>

definition ui_init :: "dev \<Rightarrow> ui" where
  "ui_init d =
     \<lparr>current_screen = RunScreen, no_key_num = 0, row_point = 0, row_fx_pos = 0, flag_PageState = NormalState,
      UserId = OrdinaryUser, inputPassword = ascii ''0$$$$$'', display_xinghao = ascii '' $$$$$'',
      BU_FANG_A_FLAG_TEMP = 0, BU_FANG_B_FLAG_TEMP = 0, flag_fcgjsn_tmp = OFF,
      alarm_threshold_up_dif_temp = 0, alarm_threshold_down_dif_temp = 0,
      rtcTempStr_temp_test = replicate 19 0, field_num_temp = (\<lambda>i. 0), alarm_delay_temp = (\<lambda>i. 30),
      ten_val_range_temp = (\<lambda>i j. 0), alarm_sensitivity_temp = (\<lambda>i. 0),
      tension_max_range_temp = [], base_auto_calibrate_time_tmp = [],
      eth_mac_addr = replicate 18 0, eth_ip_addr = replicate 16 0, eth_subnet_mask = replicate 16 0,
      eth_gateway = replicate 16 0, alarm_rol = 0, alarm_key_adj = 0, alarm_type_cnt = 0,
      cur_Alarm_Type_Sum = 0, old_Alarm_Type_Sum = 0, alarm_sequence_buf = (\<lambda>i. 0),
      drawn = [], clock_ops = [], device = d\<rparr>"

definition on_device :: "(dev \<Rightarrow> dev) \<Rightarrow> ui \<Rightarrow> ui" where
  "on_device f u = u\<lparr>device := f (device u)\<rparr>"

text \<open>\<^verbatim>\<open>memcpy\<close> of an array with one element for each zone.\<close>

definition copy2 :: "(nat \<Rightarrow> 'a) \<Rightarrow> (nat \<Rightarrow> 'a) \<Rightarrow> nat \<Rightarrow> 'a" where
  "copy2 src dst = dst(0 := src 0, 1 := src 1)"

definition draw :: "string \<Rightarrow> ui \<Rightarrow> ui" where
  "draw name u = u\<lparr>drawn := drawn u @ [Draw name]\<rparr>"

text \<open>\<^verbatim>\<open>Display_8x16(LeftScreen,row_point * 2,4,arrows,DISPLAY_POSITIVE)\<close> and its variant that stays on the last page.\<close>

definition arrow :: "ui \<Rightarrow> ui" where
  "arrow u = u\<lparr>drawn := drawn u @ [Arrow (uint (row_point u) * 2)]\<rparr>"

definition arrow_capped :: "ui \<Rightarrow> ui" where
  "arrow_capped u = (if row_point u > 3 then u\<lparr>drawn := drawn u @ [Arrow 6]\<rparr> else arrow u)"

subsection \<open>Addresses as text\<close>

definition put_octet :: "nat \<Rightarrow> u8 \<Rightarrow> u8 list \<Rightarrow> u8 list" where
  "put_octet i b s = s[i * 4 := 0x30 + b div 100, i * 4 + 1 := 0x30 + b mod 100 div 10,
                       i * 4 + 2 := 0x30 + b mod 100 mod 10, i * 4 + 3 := 0x2E]"

definition get_octet :: "nat \<Rightarrow> u8 list \<Rightarrow> u8" where
  "get_octet i s = of_int ((uint (s ! (i * 4)) - 0x30) * 100 + (uint (s ! (i * 4 + 1)) - 0x30) * 10 +
                           (uint (s ! (i * 4 + 2)) - 0x30))"

definition put_octets :: "(nat \<Rightarrow> u8) \<Rightarrow> u8 list \<Rightarrow> u8 list" where
  "put_octets a s = fold (\<lambda>i. put_octet i (a i)) [0..<4] s"

definition get_octets :: "u8 list \<Rightarrow> (nat \<Rightarrow> u8) \<Rightarrow> nat \<Rightarrow> u8" where
  "get_octets s a = a(0 := get_octet 0 s, 1 := get_octet 1 s, 2 := get_octet 2 s, 3 := get_octet 3 s)"

definition GetIpAddr :: "ui \<Rightarrow> ui" where
  "GetIpAddr u = u\<lparr>eth_ip_addr := put_octets (lw_ip (device u)) (eth_ip_addr u)\<rparr>"

definition SetIpAddr :: "ui \<Rightarrow> ui" where
  "SetIpAddr u = on_device (\<lambda>d. d\<lparr>lw_ip := get_octets (eth_ip_addr u) (lw_ip d)\<rparr>) u"

definition GetSubNetMask :: "ui \<Rightarrow> ui" where
  "GetSubNetMask u = u\<lparr>eth_subnet_mask := put_octets (lw_netmask (device u)) (eth_subnet_mask u)\<rparr>"

definition SetSubNetMask :: "ui \<Rightarrow> ui" where
  "SetSubNetMask u = on_device (\<lambda>d. d\<lparr>lw_netmask := get_octets (eth_subnet_mask u) (lw_netmask d)\<rparr>) u"

definition GetGateWay :: "ui \<Rightarrow> ui" where
  "GetGateWay u = u\<lparr>eth_gateway := put_octets (lw_gateway (device u)) (eth_gateway u)\<rparr>"

definition SetGateWay :: "ui \<Rightarrow> ui" where
  "SetGateWay u = on_device (\<lambda>d. d\<lparr>lw_gateway := get_octets (eth_gateway u) (lw_gateway d)\<rparr>) u"

definition HEX2ASCII_2 :: "u8 \<Rightarrow> u8" where
  "HEX2ASCII_2 tn_data = (if tn_data > 9 then tn_data + 0x37 else tn_data + 0x30)"

definition HEX2ASCII :: "u8 \<Rightarrow> u8 \<times> u8" where
  "HEX2ASCII hex_data = (HEX2ASCII_2 (hex_data AND 0x0f), HEX2ASCII_2 (drop_bit 4 (hex_data AND 0xf0)))"

definition put_mac_byte :: "nat \<Rightarrow> u8 \<Rightarrow> u8 list \<Rightarrow> u8 list" where
  "put_mac_byte i b s = (let (lo, hi) = HEX2ASCII b in s[i * 3 + 2 := 0x3A, i * 3 + 1 := lo, i * 3 := hi])"

definition MacAddrInsertMaohao :: "ui \<Rightarrow> ui" where
  "MacAddrInsertMaohao u =
     u\<lparr>eth_mac_addr := fold (\<lambda>i. put_mac_byte i (lw_mac (device u) i)) [0..<6] (eth_mac_addr u)\<rparr>"

subsection \<open>Drawing functions that change variables\<close>

definition UpdateAlarmRecord :: "ui \<Rightarrow> ui" where
  "UpdateAlarmRecord u =
     draw ''UpdateAlarmRecord'' (on_device (\<lambda>d. d\<lparr>crtLCDPageLogData := (crtLCDPageLogData d)
       (0 := (crtLCDPageLogData d 0)[16 := 0], 1 := (crtLCDPageLogData d 1)[16 := 0],
        2 := (crtLCDPageLogData d 2)[16 := 0])\<rparr>) u)"

definition DiaplaySetFangQuPara :: "ui \<Rightarrow> ui" where
  "DiaplaySetFangQuPara u =
     draw ''DiaplaySetFangQuPara''
       (u\<lparr>field_num_temp := copy2 (field_num (device u)) (field_num_temp u),
          alarm_delay_temp := copy2 (alarm_delay (device u)) (alarm_delay_temp u)\<rparr>)"

definition DisplaySetMacAddr :: "ui \<Rightarrow> ui" where
  "DisplaySetMacAddr u = draw ''DisplaySetMacAddr'' (MacAddrInsertMaohao u)"

definition DisplayInqMacAddr :: "ui \<Rightarrow> ui" where
  "DisplayInqMacAddr u = draw ''DisplayInqMacAddr'' (MacAddrInsertMaohao u)"

text \<open>
  \<^verbatim>\<open>DisplayAlarmTypeList\<close>: a call that finds the alarms changed sorts them, the next one shows them.  \<open>None\<close>
  stands for reading outside the ten bytes of \<^verbatim>\<open>alarm_sequence_buf\<close>.
\<close>

definition shown_alarms :: "ui \<Rightarrow> u16" where
  "shown_alarms u =
     (if IS_SET_BIT (config_code (device u)) 2 then ALARM_STATE (device u) else ALARM_STATE_DELAY (device u))"

fun sort_alarms :: "nat list \<Rightarrow> ui \<Rightarrow> ui" where
  "sort_alarms [] u = u"
| "sort_alarms (i # is) u =
     sort_alarms is
       (if drop_bit i (cur_Alarm_Type_Sum u) AND 1 = 1
        then u\<lparr>alarm_sequence_buf := (alarm_sequence_buf u)(unat (alarm_type_cnt u) := of_nat i),
               alarm_type_cnt := alarm_type_cnt u + 1\<rparr>
        else u)"

definition list_alarm :: "int \<Rightarrow> ui \<Rightarrow> ui option" where
  "list_alarm i u =
     (if 0 \<le> i \<and> i < 10 then Some (draw (''alarm '' @ fmt_d (uint (alarm_sequence_buf u (nat i)))) u) else None)"

fun list_alarms :: "int list \<Rightarrow> ui \<Rightarrow> ui option" where
  "list_alarms [] u = Some u"
| "list_alarms (i # is) u = Option.bind (list_alarm i u) (list_alarms is)"

definition DisplayAlarmTypeList :: "ui \<Rightarrow> ui option" where
  "DisplayAlarmTypeList u =
     (let u = draw ''DisplayAlarmTypeList'' (u\<lparr>cur_Alarm_Type_Sum := shown_alarms u\<rparr>)
      in if old_Alarm_Type_Sum u \<noteq> cur_Alarm_Type_Sum u
         then let u = sort_alarms (rev [0..<10]) (u\<lparr>alarm_type_cnt := 0\<rparr>)
              in Some (u\<lparr>old_Alarm_Type_Sum := cur_Alarm_Type_Sum u\<rparr>)
         else let u = u\<lparr>alarm_rol := ucast (alarm_type_cnt u) - 1\<rparr>
              in if alarm_type_cnt u < 4
                 then list_alarms (rev [0..sint (alarm_rol u)]) u
                 else let top = sint (alarm_rol u) - sint (alarm_key_adj u)
                      in list_alarms [top, top - 1, top - 2] u)"

end
