(* ===== verification/MenuNav.thy ===== *)
theory MenuNav
  imports Ui
begin

text \<open>
  The screens of \<^verbatim>\<open>main_task\<close> that lead to other screens: the login, the menus, the inquiries, the records and
  the calibrations.  Each definition is the code of one \<^verbatim>\<open>case\<close> for a key that was pressed; keys a screen does
  not know leave everything as it is.
\<close>

subsection \<open>Moving in menus\<close>

definition row_up :: "u8 \<Rightarrow> ui \<Rightarrow> ui" where
  "row_up n u = (let u = u\<lparr>row_point := row_point u - 1\<rparr> in if row_point u < 1 then u\<lparr>row_point := n\<rparr> else u)"

definition row_down :: "u8 \<Rightarrow> ui \<Rightarrow> ui" where
  "row_down n u = (let u = u\<lparr>row_point := row_point u + 1\<rparr> in if row_point u > n then u\<lparr>row_point := 1\<rparr> else u)"

text \<open>A list with one entry for each zone has one entry on a device for a single zone.\<close>

definition zones_shown :: "ui \<Rightarrow> u8" where
  "zones_shown u = (if FIELD_FLAG_S0D1 (device u) then 1 else 2)"

definition goto_screen :: "screen \<Rightarrow> (ui \<Rightarrow> ui) \<Rightarrow> ui \<Rightarrow> ui" where
  "goto_screen s display u = (arrow (display (u\<lparr>row_point := 1\<rparr>)))\<lparr>current_screen := s\<rparr>"

text \<open>The same, drawn before the cursor moves.\<close>

definition goto_late :: "screen \<Rightarrow> (ui \<Rightarrow> ui) \<Rightarrow> ui \<Rightarrow> ui" where
  "goto_late s display u = (arrow ((display u)\<lparr>row_point := 1\<rparr>))\<lparr>current_screen := s\<rparr>"

text \<open>Without an arrow and without moving the cursor.\<close>

definition show_screen :: "screen \<Rightarrow> (ui \<Rightarrow> ui) \<Rightarrow> ui \<Rightarrow> ui" where
  "show_screen s display u = (display u)\<lparr>current_screen := s\<rparr>"

definition keys4 ::
    "(ui \<Rightarrow> ui) \<Rightarrow> (ui \<Rightarrow> ui) \<Rightarrow> (ui \<Rightarrow> ui) \<Rightarrow> (ui \<Rightarrow> ui) \<Rightarrow> u32 \<Rightarrow> ui \<Rightarrow> ui" where
  "keys4 esc enter up down key u =
     (if key = KEY_ESC_PRESS then esc u else if key = KEY_ENTER_PRESS then enter u
      else if key = KEY_UP_PRESS then up u else if key = KEY_DOWN_PRESS then down u else u)"

definition back_to_root :: "ui \<Rightarrow> ui" where
  "back_to_root u =
     (if UserId u = SuperUser then goto_screen SuperUserRootScreen (draw ''DisplaySuperUserRootMenu'') u
      else goto_screen OrdinaryUserRootScreen (draw ''DisplayOrdinaryUserRootMenu'') u)"

definition back_to_SetMenu :: "ui \<Rightarrow> ui" where
  "back_to_SetMenu = goto_screen SetScreen (draw ''DisplaySetMenu'')"

definition back_to_InqMenu :: "ui \<Rightarrow> ui" where
  "back_to_InqMenu = goto_screen InqScreen (draw ''DisplayInquireMenu'')"

subsection \<open>Running, login and roots\<close>

definition DisplayRunMenu :: "ui \<Rightarrow> ui" where
  "DisplayRunMenu = draw ''DisplayRunMenu''"

definition on_RunScreen :: "u32 \<Rightarrow> ui \<Rightarrow> ui" where
  "on_RunScreen key u =
     (let u = (if run_screen_refresh (device u) \<ge> 10
               then on_device (\<lambda>d. d\<lparr>run_screen_refresh := 0\<rparr>) (DisplayRunMenu u) else u)
      in if key = KEY_ENTER_PRESS then draw ''DisplayUserLogin'' (u\<lparr>current_screen := UserLoginScreen\<rparr>)
         else if key = KEY_LEFT_PRESS then on_device Remove_Alarm_RL_A u
         else if key = KEY_RIGHT_PRESS then on_device Remove_Alarm_RL_B u
         else u)"

definition toggle_user :: "ui \<Rightarrow> ui" where
  "toggle_user u =
     draw ''DisplayUserLogin'' (if UserId u \<noteq> 0 then u\<lparr>UserId := SuperUser\<rparr> else u\<lparr>UserId := OrdinaryUser\<rparr>)"

definition on_UserLoginScreen :: "u32 \<Rightarrow> ui \<Rightarrow> ui" where
  "on_UserLoginScreen =
     keys4
       (\<lambda>u. DisplayRunMenu (u\<lparr>current_screen := RunScreen, inputPassword := ascii ''      '',
              display_xinghao := ascii '' $$$$$''\<rparr>))
       (\<lambda>u. draw ''DisplayInputPassword'' (u\<lparr>current_screen := InputPasswordScreen,
              inputPassword := ascii ''0$$$$$'', row_fx_pos := 0\<rparr>))
       toggle_user toggle_user"

text \<open>The digit under the cursor.\<close>

definition set_digit :: "u8 \<Rightarrow> ui \<Rightarrow> ui" where
  "set_digit c u = u\<lparr>inputPassword := (inputPassword u)[nat (sint (row_fx_pos u)) := c]\<rparr>"

definition digit :: "ui \<Rightarrow> u8" where
  "digit u = inputPassword u ! nat (sint (row_fx_pos u))"

definition check_password :: "ui \<Rightarrow> ui" where
  "check_password u =
     (let refused = show_screen PasswordErrorScreen (draw ''DisplayPasswordError'')
      in if UserId u = SuperUser
         then if inputPassword u = lcd_super_password
              then goto_late SuperUserRootScreen (draw ''DisplaySuperUserRootMenu'') u else refused u
         else if UserId u = OrdinaryUser
         then if inputPassword u = lcd_ordinary_password
              then goto_late OrdinaryUserRootScreen (draw ''DisplayOrdinaryUserRootMenu'') u else refused u
         else u)"

definition on_InputPasswordScreen :: "u32 \<Rightarrow> ui \<Rightarrow> ui" where
  "on_InputPasswordScreen key u =
     (if key = KEY_ESC_PRESS
      then DisplayRunMenu (u\<lparr>current_screen := RunScreen, inputPassword := ascii ''0$$$$$'',
             display_xinghao := ascii '' $$$$$''\<rparr>)
      else if key = KEY_ENTER_PRESS then check_password u
      else if key = KEY_UP_PRESS
      then let u = set_digit (digit u + 1) u
           in draw ''DisplayInputPassword'' (if digit u > 0x39 then set_digit 0x30 u else u)
      else if key = KEY_DOWN_PRESS
      then let u = set_digit (digit u - 1) u
           in draw ''DisplayInputPassword'' (if digit u < 0x30 then set_digit 0x39 u else u)
      else if key = KEY_LEFT_PRESS
      then let u = u\<lparr>row_fx_pos := row_fx_pos u - 1\<rparr>;
               u = (if sint (row_fx_pos u) < 0 then u\<lparr>row_fx_pos := 5\<rparr> else u)
           in draw ''DisplayInputPassword'' (set_digit 0x30 u)
      else if key = KEY_RIGHT_PRESS
      then let u = u\<lparr>row_fx_pos := row_fx_pos u + 1\<rparr>;
               u = (if sint (row_fx_pos u) > 5 then u\<lparr>row_fx_pos := 0\<rparr> else u)
           in draw ''DisplayInputPassword'' (set_digit 0x30 u)
      else u)"

definition on_PasswordErrorScreen :: "u32 \<Rightarrow> ui \<Rightarrow> ui" where
  "on_PasswordErrorScreen key u =
     (if key = KEY_ESC_PRESS \<or> key = KEY_ENTER_PRESS
      then (draw ''DisplayInputPassword'' (u\<lparr>inputPassword := ascii ''0$$$$$'', display_xinghao := ascii '' $$$$$'',
              row_fx_pos := 0\<rparr>))\<lparr>current_screen := InputPasswordScreen\<rparr>
      else u)"

definition back_to_login :: "ui \<Rightarrow> ui" where
  "back_to_login u =
     (draw ''DisplayUserLogin'' u)\<lparr>current_screen := UserLoginScreen, inputPassword := ascii ''0$$$$$'',
        display_xinghao := ascii '' $$$$$''\<rparr>"

definition on_SuperUserRootScreen :: "u32 \<Rightarrow> ui \<Rightarrow> ui" where
  "on_SuperUserRootScreen =
     keys4 back_to_login
       (\<lambda>u. if row_point u = 1 then goto_late SetScreen (draw ''DisplaySetMenu'') u
            else if row_point u = 2 then goto_late InqScreen (draw ''DisplayInquireMenu'') u
            else if row_point u = 3 then goto_late TensionMonitorScreen (draw ''DisplayTensionMonitor'') u
            else if row_point u = 4 then show_screen VerScreen (draw ''DisplayVersionMenu'') u
            else u)
       (\<lambda>u. arrow_capped (draw ''DisplaySuperUserRootMenu'' (row_up 4 u)))
       (\<lambda>u. arrow_capped (draw ''DisplaySuperUserRootMenu'' (row_down 4 u)))"

definition on_OrdinaryUserRootScreen :: "u32 \<Rightarrow> ui \<Rightarrow> ui" where
  "on_OrdinaryUserRootScreen =
     keys4 back_to_login
       (\<lambda>u. if row_point u = 1 then goto_late InqScreen (draw ''DisplayInquireMenu'') u
            else if row_point u = 2 then goto_late TensionMonitorScreen (draw ''DisplayTensionMonitor'') u
            else if row_point u = 3 then show_screen VerScreen (draw ''DisplayVersionMenu'') u
            else u)
       (\<lambda>u. arrow (draw ''DisplayOrdinaryUserRootMenu'' (row_up 3 u)))
       (\<lambda>u. arrow (draw ''DisplayOrdinaryUserRootMenu'' (row_down 3 u)))"

subsection \<open>The two main menus\<close>

definition on_SetScreen :: "u32 \<Rightarrow> ui \<Rightarrow> ui" where
  "on_SetScreen =
     keys4 (goto_screen SuperUserRootScreen (draw ''DisplaySuperUserRootMenu''))
       (\<lambda>u. if row_point u = 1 then goto_screen SetSysScreen (draw ''DisplaySetSysPara'') u
            else if row_point u = 2 then goto_screen SetFangQuParaScreen DiaplaySetFangQuPara u
            else if row_point u = 3 then goto_screen CalibrationSetScreen (draw ''DiaplayCalibrationSet'') u
            else if row_point u = 4 then goto_screen SetBuFangParaScreen (draw ''DiaplaySetBuFangPara'') u
            else if row_point u = 5 then goto_screen SetAlarmThresholdScreen (draw ''DiaplaySetAlarmThreshold'') u
            else if row_point u = 6 then goto_screen SetClearRecordScreen (draw ''DisplaySetClearRecord'') u
            else if row_point u = 7
            then goto_screen SetExtDeviceTypeScreen
                   (\<lambda>u. draw ''DiaplaySetExtDeviceTypeScreen'' (u\<lparr>flag_PageState := NormalState\<rparr>)) u
            else if row_point u = 8
            then show_screen SetFullScaleScreen (draw ''DisplaySetFullScale'')
                   (u\<lparr>tension_max_range_temp := ascii (fmt_0d 3 (unat (tension_max_range (device u) div 10))),
                      row_fx_pos := 1\<rparr>)
            else if row_point u = 9
            then show_screen SetBaseAutoCalibrateTimeScreen (draw ''DisplaySetBaseAutoCalibrateTime'')
                   (u\<lparr>base_auto_calibrate_time_tmp := ascii (fmt_0d 5 (unat (base_auto_calibrate_time (device u)))),
                      row_fx_pos := 1\<rparr>)
            else u)
       (\<lambda>u. arrow_capped (draw ''DisplaySetMenu'' (row_up 9 u)))
       (\<lambda>u. arrow_capped (draw ''DisplaySetMenu'' (row_down 9 u)))"

definition on_InqScreen :: "u32 \<Rightarrow> ui \<Rightarrow> ui" where
  "on_InqScreen =
     keys4 back_to_root
       (\<lambda>u. if row_point u = 1 then goto_screen InqSysParaScreen (draw ''DisplayInqSysPara'') u
            else if row_point u = 2 then goto_screen InqFangQuParaScreen (draw ''DiaplayInqFangQuPara'') u
            else if row_point u = 3
            then show_screen InqBuFangParaScreen (draw ''DisplayInqBuFangPara'') (u\<lparr>row_point := 1\<rparr>)
            else if row_point u = 4 then goto_screen InqAlarmRecordScreen (draw ''DisplayInqAlarmRecord'') u
            else if row_point u = 5 then show_screen InqAlarmThresholdScreen (draw ''DisplayInqAlarmThreshold'') u
            else if row_point u = 6 then goto_screen InqCalibrationValScreen (draw ''DisplayInqCalibrationVal'') u
            else if row_point u = 7 then show_screen InqExtDeviceTypeScreen (draw ''DisplayInqExtDeviceType'') u
            else if row_point u = 8 then show_screen InqFullScaleScreen (draw ''DisplayInqFullScale'') u
            else if row_point u = 9
            then show_screen InqBaseAutoCalibrateTimeScreen (draw ''DisplayInqBaseAutoCalibrateTime'') u
            else u)
       (\<lambda>u. arrow_capped (draw ''DisplayInquireMenu'' (row_up 9 u)))
       (\<lambda>u. arrow_capped (draw ''DisplayInquireMenu'' (row_down 9 u)))"

definition on_TensionMonitorScreen :: "u32 \<Rightarrow> ui \<Rightarrow> ui" where
  "on_TensionMonitorScreen =
     keys4 back_to_root
       (\<lambda>u. if row_point u = 1 then show_screen AFangQuMonitorScreen (draw ''DiaplayAFangQuMonitor'') u
            else if row_point u = 2 then show_screen BFangQuMonitorScreen (draw ''DiaplayBFangQuMonitor'') u
            else u)
       (\<lambda>u. arrow (draw ''DisplayTensionMonitor'' (row_up (zones_shown u) u)))
       (\<lambda>u. arrow (draw ''DisplayTensionMonitor'' (row_down (zones_shown u) u)))"

definition on_VerScreen :: "u32 \<Rightarrow> ui \<Rightarrow> ui" where
  "on_VerScreen key u = (if key = KEY_ESC_PRESS then back_to_root u else u)"

subsection \<open>Menus below the settings\<close>

definition on_SetSysScreen :: "u32 \<Rightarrow> ui \<Rightarrow> ui" where
  "on_SetSysScreen =
     keys4 back_to_SetMenu
       (\<lambda>u. if row_point u = 1 then goto_screen SetDateTimeScreen (draw ''DisplaySetDateTime'') u
            else if row_point u = 2 then goto_screen SetEthParaScreen (draw ''DisplaySetEthPara'') u
            else u)
       (\<lambda>u. arrow (draw ''DisplaySetSysPara'' (row_up 2 u)))
       (\<lambda>u. arrow (draw ''DisplaySetSysPara'' (row_down 2 u)))"

definition on_SetFangQuParaScreen :: "u32 \<Rightarrow> ui \<Rightarrow> ui" where
  "on_SetFangQuParaScreen =
     keys4 back_to_SetMenu
       (\<lambda>u. if row_point u = 1 then goto_screen SetAFangQuParaScreen (draw ''DisplaySetAFangQuPara'') u
            else if row_point u = 2 then goto_screen SetBFangQuParaScreen (draw ''DisplaySetBFangQuPara'') u
            else u)
       (\<lambda>u. arrow (DiaplaySetFangQuPara (row_up (zones_shown u) u)))
       (\<lambda>u. arrow (DiaplaySetFangQuPara (row_down (zones_shown u) u)))"

definition on_CalibrationSetScreen :: "u32 \<Rightarrow> ui \<Rightarrow> ui" where
  "on_CalibrationSetScreen =
     keys4 back_to_SetMenu
       (\<lambda>u. if row_point u = 1 then goto_screen ZeroCalibrationScreen (draw ''DisplayZeroCalibration'') u
            else if row_point u = 2 then goto_screen DatumCalibrationScreen (draw ''DisplayDatumCalibration'') u
            else u)
       (\<lambda>u. arrow (draw ''DiaplayCalibrationSet'' (row_up 2 u)))
       (\<lambda>u. arrow (draw ''DiaplayCalibrationSet'' (row_down 2 u)))"

definition on_SetEthParaScreen :: "u32 \<Rightarrow> ui \<Rightarrow> ui" where
  "on_SetEthParaScreen =
     keys4 (goto_screen SetSysScreen (draw ''DisplaySetSysPara''))
       (\<lambda>u. if row_point u = 1
            then (MacAddrInsertMaohao (DisplaySetMacAddr (u\<lparr>row_point := 1\<rparr>)))\<lparr>current_screen := SetMacAddrScreen\<rparr>
            else if row_point u = 2
            then show_screen SetIpAddrScreen (draw ''DisplaySetIpAddr'')
                   ((GetIpAddr u)\<lparr>row_point := 1, row_fx_pos := 1\<rparr>)
            else if row_point u = 3
            then show_screen SetSubnetMaskScreen (draw ''DisplaySetSubnetMask'')
                   ((GetSubNetMask u)\<lparr>row_point := 1, row_fx_pos := 1\<rparr>)
            else if row_point u = 4
            then show_screen SetGateWayScreen (draw ''DisplaySetGateWay'')
                   ((GetGateWay u)\<lparr>row_point := 1, row_fx_pos := 1\<rparr>)
            else u)
       (\<lambda>u. arrow_capped (draw ''DisplaySetEthPara'' (row_up 4 u)))
       (\<lambda>u. arrow_capped (draw ''DisplaySetEthPara'' (row_down 4 u)))"

definition on_SetMacAddrScreen :: "u32 \<Rightarrow> ui \<Rightarrow> ui" where
  "on_SetMacAddrScreen key u =
     (if key = KEY_ESC_PRESS then goto_screen SetEthParaScreen (draw ''DisplaySetEthPara'') u else u)"

end
