(* ===== verification/MenuInq.thy ===== *)
theory MenuInq
  imports MenuNav
begin

text \<open>
  The screens of \<^verbatim>\<open>main_task\<close> that show parameters and records, run the calibrations, and list the alarms.
\<close>

subsection \<open>Parameters\<close>

definition on_InqSysParaScreen :: "u32 \<Rightarrow> ui \<Rightarrow> ui" where
  "on_InqSysParaScreen =
     keys4 back_to_InqMenu
       (\<lambda>u. if row_point u = 1 then goto_screen InqEthParaScreen (draw ''DisplayInqEthPara'') u else u)
       (\<lambda>u. arrow (draw ''DisplayInqSysPara'' (row_up 1 u)))
       (\<lambda>u. arrow (draw ''DisplayInqSysPara'' (row_down 1 u)))"

definition on_InqFangQuParaScreen :: "u32 \<Rightarrow> ui \<Rightarrow> ui" where
  "on_InqFangQuParaScreen =
     keys4 back_to_InqMenu
       (\<lambda>u. if row_point u = 1 then goto_screen InqAFangQuParaScreen (draw ''DiaplayInqAFangQuPara'') u
            else if row_point u = 2 then goto_screen InqBFangQuParaScreen (draw ''DiaplayInqBFangQuPara'') u
            else u)
       (\<lambda>u. arrow (draw ''DiaplayInqFangQuPara'' (row_up (zones_shown u) u)))
       (\<lambda>u. arrow (draw ''DiaplayInqFangQuPara'' (row_down (zones_shown u) u)))"

text \<open>Screens that only know the way back: \<^verbatim>\<open>InqBuFangParaScreen\<close>, the threshold, the switch types, the range and the time.\<close>

definition on_InqBuFangParaScreen :: "u32 \<Rightarrow> ui \<Rightarrow> ui" where
  "on_InqBuFangParaScreen key u = (if key = KEY_ESC_PRESS then back_to_InqMenu u else u)"

definition on_InqAlarmThresholdScreen :: "u32 \<Rightarrow> ui \<Rightarrow> ui" where
  "on_InqAlarmThresholdScreen key u = (if key = KEY_ESC_PRESS then back_to_InqMenu u else u)"

definition on_InqExtDeviceTypeScreen :: "u32 \<Rightarrow> ui \<Rightarrow> ui" where
  "on_InqExtDeviceTypeScreen key u = (if key = KEY_ESC_PRESS then back_to_InqMenu u else u)"

definition on_InqFullScaleScreen :: "u32 \<Rightarrow> ui \<Rightarrow> ui" where
  "on_InqFullScaleScreen key u = (if key = KEY_ESC_PRESS then back_to_InqMenu u else u)"

definition on_InqBaseAutoCalibrateTimeScreen :: "u32 \<Rightarrow> ui \<Rightarrow> ui" where
  "on_InqBaseAutoCalibrateTimeScreen key u = (if key = KEY_ESC_PRESS then back_to_InqMenu u else u)"

definition on_InqCalibrationValScreen :: "u32 \<Rightarrow> ui \<Rightarrow> ui" where
  "on_InqCalibrationValScreen =
     keys4 back_to_InqMenu
       (\<lambda>u. if row_point u = 1 then goto_late InqZeroValScreen (draw ''DisplayInqZeroVal'') u
            else if row_point u = 2 then goto_late InqDatumValScreen (draw ''DiaplayInqDatumVal'') u
            else u)
       (\<lambda>u. arrow (draw ''DisplayInqCalibrationVal'' (row_up 2 u)))
       (\<lambda>u. arrow (draw ''DisplayInqCalibrationVal'' (row_down 2 u)))"

definition on_InqZeroValScreen :: "u32 \<Rightarrow> ui \<Rightarrow> ui" where
  "on_InqZeroValScreen =
     keys4 (goto_screen InqCalibrationValScreen (draw ''DisplayInqCalibrationVal''))
       (\<lambda>u. if row_point u = 1 then show_screen InqAareaZeroValScreen (draw ''DisplayAareaZeroVal'') u
            else if row_point u = 2 then show_screen InqBareaZeroValScreen (draw ''DisplayBareaZeroVal'') u
            else u)
       (\<lambda>u. arrow (draw ''DisplayInqZeroVal'' (row_up 2 u)))
       (\<lambda>u. arrow (draw ''DisplayInqZeroVal'' (row_down 2 u)))"

definition on_InqDatumValScreen :: "u32 \<Rightarrow> ui \<Rightarrow> ui" where
  "on_InqDatumValScreen =
     keys4 (goto_screen InqCalibrationValScreen (draw ''DisplayInqCalibrationVal''))
       (\<lambda>u. if row_point u = 1 then show_screen InqAareaDatumValScreen (draw ''DisplayAareaDatumVal'') u
            else if row_point u = 2 then show_screen InqBareaDatumValScreen (draw ''DisplayBareaDatumVal'') u
            else u)
       (\<lambda>u. arrow (draw ''DiaplayInqDatumVal'' (row_up 2 u)))
       (\<lambda>u. arrow (draw ''DiaplayInqDatumVal'' (row_down 2 u)))"

definition on_InqAareaZeroValScreen :: "u32 \<Rightarrow> ui \<Rightarrow> ui" where
  "on_InqAareaZeroValScreen key u =
     (if key = KEY_ESC_PRESS \<or> key = KEY_ENTER_PRESS
      then goto_screen InqZeroValScreen (draw ''DisplayInqZeroVal'') u else u)"

definition on_InqAareaDatumValScreen :: "u32 \<Rightarrow> ui \<Rightarrow> ui" where
  "on_InqAareaDatumValScreen key u =
     (if key = KEY_ESC_PRESS \<or> key = KEY_ENTER_PRESS
      then goto_screen InqDatumValScreen (draw ''DiaplayInqDatumVal'') u else u)"

definition on_InqEthParaScreen :: "u32 \<Rightarrow> ui \<Rightarrow> ui" where
  "on_InqEthParaScreen =
     keys4 (goto_screen InqSysParaScreen (draw ''DisplayInqSysPara''))
       (\<lambda>u. if row_point u = 1 then show_screen InqMacAddrScreen DisplayInqMacAddr (u\<lparr>row_point := 1\<rparr>)
            else if row_point u = 2
            then show_screen InqIpAddrScreen (draw ''DisplayInqIpAddr'') (GetIpAddr (u\<lparr>row_point := 1\<rparr>))
            else if row_point u = 3
            then show_screen InqSubnetMaskScreen (draw ''DisplayInqSubnetMask'') (GetSubNetMask (u\<lparr>row_point := 1\<rparr>))
            else if row_point u = 4
            then show_screen InqGateWayScreen (draw ''DisplayInqGateWay'') (GetGateWay (u\<lparr>row_point := 1\<rparr>))
            else u)
       (\<lambda>u. arrow_capped (draw ''DisplayInqEthPara'' (row_up 4 u)))
       (\<lambda>u. arrow_capped (draw ''DisplayInqEthPara'' (row_down 4 u)))"

definition on_InqAddrScreen :: "u32 \<Rightarrow> ui \<Rightarrow> ui" where
  "on_InqAddrScreen key u =
     (if key = KEY_ESC_PRESS \<or> key = KEY_ENTER_PRESS
      then goto_screen InqEthParaScreen (draw ''DisplayInqEthPara'') u else u)"

definition on_InqAFangQuParaScreen :: "u32 \<Rightarrow> ui \<Rightarrow> ui" where
  "on_InqAFangQuParaScreen =
     keys4 (goto_screen InqFangQuParaScreen (draw ''DiaplayInqFangQuPara'')) (\<lambda>u. u)
       (\<lambda>u. arrow_capped (draw ''DiaplayInqAFangQuPara'' (row_up 4 u)))
       (\<lambda>u. arrow_capped (draw ''DiaplayInqAFangQuPara'' (row_down 4 u)))"

definition on_InqBFangQuParaScreen :: "u32 \<Rightarrow> ui \<Rightarrow> ui" where
  "on_InqBFangQuParaScreen =
     keys4 (goto_screen InqFangQuParaScreen (draw ''DiaplayInqFangQuPara'')) (\<lambda>u. u)
       (\<lambda>u. arrow_capped (draw ''DiaplayInqBFangQuPara'' (row_up 4 u)))
       (\<lambda>u. arrow_capped (draw ''DiaplayInqBFangQuPara'' (row_down 4 u)))"

subsection \<open>Monitors\<close>

text \<open>They are drawn in every round, also without a key.\<close>

definition on_AFangQuMonitorScreen :: "u32 \<Rightarrow> ui \<Rightarrow> ui" where
  "on_AFangQuMonitorScreen key u =
     (let u = draw ''DiaplayAFangQuMonitor'' u
      in if key = KEY_ESC_PRESS then goto_screen TensionMonitorScreen (draw ''DisplayTensionMonitor'') u else u)"

definition on_BFangQuMonitorScreen :: "u32 \<Rightarrow> ui \<Rightarrow> ui" where
  "on_BFangQuMonitorScreen key u =
     (let u = draw ''DiaplayBFangQuMonitor'' u
      in if key = KEY_ESC_PRESS then goto_screen TensionMonitorScreen (draw ''DisplayTensionMonitor'') u else u)"

subsection \<open>Records\<close>

definition show_records :: "string \<Rightarrow> ui \<Rightarrow> ui" where
  "show_records name u = UpdateAlarmRecord (draw name u)"

definition page_keys :: "nat \<Rightarrow> (ui \<Rightarrow> ui) \<Rightarrow> (ui \<Rightarrow> ui) \<Rightarrow> u32 \<Rightarrow> ui \<Rightarrow> ui" where
  "page_keys t display back key u =
     (if key = KEY_ESC_PRESS then back u
      else if key = KEY_UP_PRESS
      then display (if LCDLogPageFlag (device u) \<noteq> LOG_HEAD then on_device (ReadLCDPreviousPageLog t) u else u)
      else if key = KEY_DOWN_PRESS
      then display (if LCDLogPageFlag (device u) \<noteq> LOG_END then on_device (ReadLCDNextPageLog t) u else u)
      else u)"

definition open_records :: "nat \<Rightarrow> screen \<Rightarrow> (ui \<Rightarrow> ui) \<Rightarrow> ui \<Rightarrow> ui" where
  "open_records t s display u =
     show_screen s display (on_device (ReadLCDFirstPageLog t) (u\<lparr>row_point := 1\<rparr>))"

definition back_to_InqAlarmRecord :: "ui \<Rightarrow> ui" where
  "back_to_InqAlarmRecord = goto_screen InqAlarmRecordScreen (draw ''DisplayInqAlarmRecord'')"

definition on_InqAlarmRecordScreen :: "u32 \<Rightarrow> ui \<Rightarrow> ui" where
  "on_InqAlarmRecordScreen =
     keys4 back_to_InqMenu
       (\<lambda>u. if row_point u = 1 then goto_screen InqDuanLuAlarmScreen (draw ''DisplayInqRuQinAlarmRecord'') u
            else if row_point u = 2 then goto_screen InqDuanXianAlarmScreen (draw ''DisplayInqDuanXianAlarmRecord'') u
            else if row_point u = 3
            then open_records LOG_TYPE_FC InqFangChaiAlarmRecordScreen (show_records ''DisplayInqFangChaiAlarmRecord'') u
            else u)
       (\<lambda>u. arrow (draw ''DisplayInqAlarmRecord'' (row_up 3 u)))
       (\<lambda>u. arrow (draw ''DisplayInqAlarmRecord'' (row_down 3 u)))"

definition on_InqDuanLuAlarmScreen :: "u32 \<Rightarrow> ui \<Rightarrow> ui" where
  "on_InqDuanLuAlarmScreen =
     keys4 back_to_InqAlarmRecord
       (\<lambda>u. if row_point u = 1
            then open_records LOG_TYPE_AIVD InqAAreaDuanLuAlarmRecordScreen (show_records ''DisplayInqAAreaRuQinAlarmRecord'') u
            else if row_point u = 2
            then open_records LOG_TYPE_BIVD InqBAreaDuanLuAlarmRecordScreen (show_records ''DisplayInqBAreaRuQinAlarmRecord'') u
            else u)
       (\<lambda>u. arrow (draw ''DisplayInqRuQinAlarmRecord'' (row_up (zones_shown u) u)))
       (\<lambda>u. arrow (draw ''DisplayInqRuQinAlarmRecord'' (row_down (zones_shown u) u)))"

definition on_InqDuanXianAlarmScreen :: "u32 \<Rightarrow> ui \<Rightarrow> ui" where
  "on_InqDuanXianAlarmScreen =
     keys4 back_to_InqAlarmRecord
       (\<lambda>u. if row_point u = 1
            then open_records LOG_TYPE_AOPN InqAAreaDuanXianAlarmRecordScreen (show_records ''DisplayInqAAreaDuanXianAlarmRecord'') u
            else if row_point u = 2
            then open_records LOG_TYPE_BOPN InqBAreaDuanXianAlarmRecordScreen (show_records ''DisplayInqBAreaDuanXianAlarmRecord'') u
            else u)
       (\<lambda>u. arrow (draw ''DisplayInqDuanXianAlarmRecord'' (row_up (zones_shown u) u)))
       (\<lambda>u. arrow (draw ''DisplayInqDuanXianAlarmRecord'' (row_down (zones_shown u) u)))"

definition on_InqFangChaiAlarmRecordScreen :: "u32 \<Rightarrow> ui \<Rightarrow> ui" where
  "on_InqFangChaiAlarmRecordScreen =
     page_keys LOG_TYPE_FC (show_records ''DisplayInqFangChaiAlarmRecord'') back_to_InqAlarmRecord"

definition on_InqAAreaDuanLuAlarmRecordScreen :: "u32 \<Rightarrow> ui \<Rightarrow> ui" where
  "on_InqAAreaDuanLuAlarmRecordScreen =
     page_keys LOG_TYPE_AIVD (show_records ''DisplayInqAAreaRuQinAlarmRecord'')
       (goto_screen InqDuanLuAlarmScreen (draw ''DisplayInqRuQinAlarmRecord''))"

definition on_InqBAreaDuanLuAlarmRecordScreen :: "u32 \<Rightarrow> ui \<Rightarrow> ui" where
  "on_InqBAreaDuanLuAlarmRecordScreen =
     page_keys LOG_TYPE_BIVD (show_records ''DisplayInqBAreaRuQinAlarmRecord'')
       (goto_screen InqDuanLuAlarmScreen (draw ''DisplayInqRuQinAlarmRecord''))"

definition on_InqAAreaDuanXianAlarmRecordScreen :: "u32 \<Rightarrow> ui \<Rightarrow> ui" where
  "on_InqAAreaDuanXianAlarmRecordScreen =
     page_keys LOG_TYPE_AOPN (show_records ''DisplayInqAAreaDuanXianAlarmRecord'')
       (goto_screen InqDuanXianAlarmScreen (draw ''DisplayInqDuanXianAlarmRecord''))"

definition on_InqBAreaDuanXianAlarmRecordScreen :: "u32 \<Rightarrow> ui \<Rightarrow> ui" where
  "on_InqBAreaDuanXianAlarmRecordScreen =
     page_keys LOG_TYPE_BOPN (show_records ''DisplayInqBAreaDuanXianAlarmRecord'')
       (goto_screen InqDuanXianAlarmScreen (draw ''DisplayInqDuanXianAlarmRecord''))"

subsection \<open>Clearing records\<close>

text \<open>\<^verbatim>\<open>ClearLog\<close> has no result when its loop does not end; \<open>LogStore\<close> shows that it always has one.\<close>

definition clear_records :: "nat \<Rightarrow> screen \<Rightarrow> (ui \<Rightarrow> ui) \<Rightarrow> ui \<Rightarrow> ui option" where
  "clear_records t s display u =
     (let u = draw ''DisplayZhengZaiQingChu'' u
      in map_option (\<lambda>d. goto_screen s display (u\<lparr>device := d\<rparr>)) (ClearLog t (device u)))"

definition on_SetClearRecordScreen :: "u32 \<Rightarrow> ui \<Rightarrow> ui option" where
  "on_SetClearRecordScreen key u =
     (if key = KEY_ENTER_PRESS \<and> row_point u = 3
      then clear_records LOG_TYPE_FC SetClearRecordScreen (draw ''DisplaySetClearRecord'') u
      else Some (keys4 back_to_SetMenu
        (\<lambda>u. if row_point u = 1 then goto_screen ClearDuanLuAlarmRecordScreen (draw ''DisplayClearRuQinAlarmRecord'') u
             else if row_point u = 2
             then goto_screen ClearDuanXianAlarmRecordScreen (draw ''DisplayClearDuanXianAlarmRecord'') u
             else u)
        (\<lambda>u. arrow (draw ''DisplaySetClearRecord'' (row_up 3 u)))
        (\<lambda>u. arrow (draw ''DisplaySetClearRecord'' (row_down 3 u))) key u))"

definition clear_screen :: "screen \<Rightarrow> string \<Rightarrow> nat \<Rightarrow> nat \<Rightarrow> u32 \<Rightarrow> ui \<Rightarrow> ui option" where
  "clear_screen s name tA tB key u =
     (if key = KEY_ENTER_PRESS
      then if row_point u = 1 then clear_records tA s (draw name) u
           else if row_point u = 2 then clear_records tB s (draw name) u
           else Some u
      else Some (keys4 (goto_screen SetClearRecordScreen (draw ''DisplaySetClearRecord'')) (\<lambda>u. u)
        (\<lambda>u. arrow (draw name (row_up 2 u))) (\<lambda>u. arrow (draw name (row_down 2 u))) key u))"

definition on_ClearDuanLuAlarmRecordScreen :: "u32 \<Rightarrow> ui \<Rightarrow> ui option" where
  "on_ClearDuanLuAlarmRecordScreen =
     clear_screen ClearDuanLuAlarmRecordScreen ''DisplayClearRuQinAlarmRecord'' LOG_TYPE_AIVD LOG_TYPE_BIVD"

definition on_ClearDuanXianAlarmRecordScreen :: "u32 \<Rightarrow> ui \<Rightarrow> ui option" where
  "on_ClearDuanXianAlarmRecordScreen =
     clear_screen ClearDuanXianAlarmRecordScreen ''DisplayClearDuanXianAlarmRecord'' LOG_TYPE_AOPN LOG_TYPE_BOPN"

subsection \<open>Calibrations\<close>

definition on_ZeroCalibrationScreen :: "u32 \<Rightarrow> ui \<Rightarrow> ui" where
  "on_ZeroCalibrationScreen =
     keys4 (\<lambda>u. (goto_screen CalibrationSetScreen (draw ''DiaplayCalibrationSet'') u)\<lparr>row_fx_pos := 0\<rparr>)
       (\<lambda>u. if row_point u = 1
            then show_screen AzeroCalibrationScreen (draw ''Displayzhengzaijiaozhun'') (on_device (updateZeroVal 0) u)
            else if row_point u = 2
            then show_screen BzeroCalibrationScreen (draw ''Displayzhengzaijiaozhun'') (on_device (updateZeroVal 1) u)
            else u)
       (\<lambda>u. arrow (draw ''DisplayZeroCalibration'' (row_up 2 u)))
       (\<lambda>u. arrow (draw ''DisplayZeroCalibration'' (row_down 2 u)))"

definition start_datum :: "nat \<Rightarrow> screen \<Rightarrow> ui \<Rightarrow> ui" where
  "start_datum f s u =
     (if calibrate_en (device u) f = 0
      then show_screen NotAtValidRangeScreen (draw ''DisplayNotAtValidRange'') u
      else show_screen s (draw ''Displayzhengzaijiaozhun'') (on_device (updateBaseVal f) u))"

definition on_DatumCalibrationScreen :: "u32 \<Rightarrow> ui \<Rightarrow> ui" where
  "on_DatumCalibrationScreen =
     keys4 (\<lambda>u. (goto_screen CalibrationSetScreen (draw ''DiaplayCalibrationSet'') u)\<lparr>row_fx_pos := 0\<rparr>)
       (\<lambda>u. if row_point u = 1 then start_datum 0 AdatumCalibrationScreen u
            else if row_point u = 2 then start_datum 1 BdatumCalibrationScreen u
            else u)
       (\<lambda>u. arrow (draw ''DisplayDatumCalibration'' (row_up 2 u)))
       (\<lambda>u. arrow (draw ''DisplayDatumCalibration'' (row_down 2 u)))"

text \<open>A calibration that runs is watched in every round; no key is looked at.\<close>

definition await_calibration :: "screen \<Rightarrow> string \<Rightarrow> ui \<Rightarrow> ui" where
  "await_calibration s name u = (if calibrating_flag (device u) = 0xff then show_screen s (draw name) u else u)"

definition on_AzeroCalibrationScreen :: "ui \<Rightarrow> ui" where
  "on_AzeroCalibrationScreen = await_calibration CaliOverAareaZeroValScreen ''DisplayAareaZeroVal''"

definition on_BzeroCalibrationScreen :: "ui \<Rightarrow> ui" where
  "on_BzeroCalibrationScreen = await_calibration CaliOverBareaZeroValScreen ''DisplayBareaZeroVal''"

definition on_AdatumCalibrationScreen :: "ui \<Rightarrow> ui" where
  "on_AdatumCalibrationScreen = await_calibration CaliOverAareaDatumValScreen ''DisplayAareaDatumVal''"

definition on_BdatumCalibrationScreen :: "ui \<Rightarrow> ui" where
  "on_BdatumCalibrationScreen = await_calibration CaliOverBareaDatumValScreen ''DisplayBareaDatumVal''"

definition on_NotAtValidRangeScreen :: "u32 \<Rightarrow> ui \<Rightarrow> ui" where
  "on_NotAtValidRangeScreen key u =
     (if key = KEY_ESC_PRESS \<or> key = KEY_ENTER_PRESS
      then goto_screen DatumCalibrationScreen (draw ''DisplayDatumCalibration'') u else u)"

definition on_CaliOverZeroValScreen :: "u32 \<Rightarrow> ui \<Rightarrow> ui" where
  "on_CaliOverZeroValScreen key u =
     (if key = KEY_ESC_PRESS \<or> key = KEY_ENTER_PRESS
      then goto_screen ZeroCalibrationScreen (draw ''DisplayZeroCalibration'') u else u)"

definition on_CaliOverDatumValScreen :: "u32 \<Rightarrow> ui \<Rightarrow> ui" where
  "on_CaliOverDatumValScreen key u =
     (if key = KEY_ESC_PRESS \<or> key = KEY_ENTER_PRESS
      then goto_screen DatumCalibrationScreen (draw ''DisplayDatumCalibration'') u else u)"

subsection \<open>The list of alarms\<close>

definition alarm_list_keys :: "u32 \<Rightarrow> ui \<Rightarrow> ui option" where
  "alarm_list_keys key u =
     (if key = KEY_ESC_PRESS then Some (DisplayRunMenu (u\<lparr>current_screen := RunScreen\<rparr>))
      else if key = KEY_ENTER_PRESS then Some (back_to_InqAlarmRecord u)
      else if key = KEY_UP_PRESS
      then let u = u\<lparr>alarm_key_adj := alarm_key_adj u - 1\<rparr>
           in DisplayAlarmTypeList
                (if sint (alarm_key_adj u) < 0 then u\<lparr>alarm_key_adj := alarm_rol u - 2\<rparr> else u)
      else if key = KEY_DOWN_PRESS
      then let u = u\<lparr>alarm_key_adj := alarm_key_adj u + 1\<rparr>
           in DisplayAlarmTypeList
                (if sint (alarm_key_adj u) > sint (alarm_rol u) - 2 then u\<lparr>alarm_key_adj := 0\<rparr> else u)
      else if key = KEY_LEFT_PRESS then Some (on_device Remove_Alarm_RL_A u)
      else if key = KEY_RIGHT_PRESS then Some (on_device Remove_Alarm_RL_B u)
      else Some u)"

definition on_AlarmTypeListScreen :: "u32 \<Rightarrow> ui \<Rightarrow> ui option" where
  "on_AlarmTypeListScreen key u =
     (if shown_alarms u = 0
      then Some (DisplayRunMenu (u\<lparr>alarm_type_cnt := 0, old_Alarm_Type_Sum := 0, cur_Alarm_Type_Sum := 0,
                   alarm_key_adj := 0, current_screen := RunScreen\<rparr>))
      else Option.bind (DisplayAlarmTypeList u) (alarm_list_keys key))"

end
