(* ===== verification/MenuEdit.thy ===== *)
theory MenuEdit
  imports MenuNav
begin

text \<open>
  The screens of \<^verbatim>\<open>main_task\<close> that edit parameters.  Most of them have two states: in \<^verbatim>\<open>NormalState\<close> the keys choose
  a row, in \<^verbatim>\<open>ModifyState\<close> they change a copy of the parameter, which \<^verbatim>\<open>KEY_ENTER\<close> stores.
\<close>

definition keys6 ::
    "(ui \<Rightarrow> ui) \<Rightarrow> (ui \<Rightarrow> ui) \<Rightarrow> (ui \<Rightarrow> ui) \<Rightarrow> (ui \<Rightarrow> ui) \<Rightarrow> (ui \<Rightarrow> ui) \<Rightarrow> (ui \<Rightarrow> ui) \<Rightarrow> u32 \<Rightarrow> ui \<Rightarrow> ui" where
  "keys6 esc enter up down left right key u =
     (if key = KEY_LEFT_PRESS then left u else if key = KEY_RIGHT_PRESS then right u
      else keys4 esc enter up down key u)"

text \<open>The cursor within a row, from 1 to \<open>n\<close>.\<close>

definition fx_left :: "s8 \<Rightarrow> ui \<Rightarrow> ui" where
  "fx_left n u = (let u = u\<lparr>row_fx_pos := row_fx_pos u - 1\<rparr>
                  in if sint (row_fx_pos u) < 1 then u\<lparr>row_fx_pos := n\<rparr> else u)"

definition fx_right :: "s8 \<Rightarrow> ui \<Rightarrow> ui" where
  "fx_right n u = (let u = u\<lparr>row_fx_pos := row_fx_pos u + 1\<rparr>
                   in if sint (row_fx_pos u) > sint n then u\<lparr>row_fx_pos := 1\<rparr> else u)"

subsection \<open>Date and time\<close>

text \<open>
  Two digits counted up to \<open>t u\<close> and then set to \<open>t0 u0\<close>, or down to \<open>t u\<close> and then to \<open>t1 u1\<close>.
\<close>

definition pair_up :: "nat \<Rightarrow> u8 \<Rightarrow> u8 \<Rightarrow> u8 \<Rightarrow> u8 \<Rightarrow> u8 list \<Rightarrow> u8 list" where
  "pair_up i t v t0 v0 s =
     (if s ! i < t
      then if s ! (i + 1) < 0x39 then s[i + 1 := s ! (i + 1) + 1] else s[i := s ! i + 1, i + 1 := 0x30]
      else if s ! i = t
      then if s ! (i + 1) < v then s[i + 1 := s ! (i + 1) + 1] else s[i := t0, i + 1 := v0]
      else s)"

definition pair_down :: "nat \<Rightarrow> u8 \<Rightarrow> u8 \<Rightarrow> u8 \<Rightarrow> u8 \<Rightarrow> u8 list \<Rightarrow> u8 list" where
  "pair_down i t v t1 v1 s =
     (if s ! i > t
      then if s ! (i + 1) > 0x30 then s[i + 1 := s ! (i + 1) - 1] else s[i := s ! i - 1, i + 1 := 0x39]
      else if s ! i = t
      then if s ! (i + 1) > v then s[i + 1 := s ! (i + 1) - 1] else s[i := t1, i + 1 := v1]
      else s)"

definition date_up :: "s8 \<Rightarrow> u8 list \<Rightarrow> u8 list" where
  "date_up fx s =
     (if fx = 1 then pair_up 2 0x39 0x39 0x31 0x30 s
      else if fx = 2 then pair_up 5 0x31 0x32 0x30 0x31 s
      else if fx = 3 then pair_up 8 0x33 0x31 0x30 0x31 s else s)"

definition time_up :: "s8 \<Rightarrow> u8 list \<Rightarrow> u8 list" where
  "time_up fx s =
     (if fx = 1 then pair_up 11 0x32 0x33 0x30 0x30 s
      else if fx = 2 then pair_up 14 0x35 0x39 0x30 0x30 s
      else if fx = 3 then pair_up 17 0x35 0x39 0x30 0x30 s else s)"

definition date_down :: "s8 \<Rightarrow> u8 list \<Rightarrow> u8 list" where
  "date_down fx s =
     (if fx = 1 then pair_down 2 0x31 0x30 0x39 0x39 s
      else if fx = 2 then pair_down 5 0x30 0x31 0x31 0x32 s
      else if fx = 3 then pair_down 8 0x30 0x31 0x33 0x31 s else s)"

definition time_down :: "s8 \<Rightarrow> u8 list \<Rightarrow> u8 list" where
  "time_down fx s =
     (if fx = 1 then pair_down 11 0x30 0x30 0x32 0x33 s
      else if fx = 2 then pair_down 14 0x30 0x30 0x35 0x39 s
      else if fx = 3 then pair_down 17 0x30 0x30 0x35 0x39 s else s)"

definition edit_time :: "(s8 \<Rightarrow> u8 list \<Rightarrow> u8 list) \<Rightarrow> (s8 \<Rightarrow> u8 list \<Rightarrow> u8 list) \<Rightarrow> ui \<Rightarrow> ui" where
  "edit_time date time u =
     (let s = rtcTempStr_temp_test u
      in draw ''DisplaySetDateTime''
           (u\<lparr>rtcTempStr_temp_test :=
                (if row_point u = 1 then date (row_fx_pos u) s
                 else if row_point u = 2 then time (row_fx_pos u) s else s)\<rparr>))"

text \<open>
  Storing sets the clock; the text is cut at fixed places, and a text without three numbers on each side would be
  read past the end of the numbers, where the model has no result.
\<close>

definition store_time :: "(nat \<Rightarrow> bool) \<Rightarrow> ui \<Rightarrow> ui option" where
  "store_time nack u =
     (let u = on_device (\<lambda>d. d\<lparr>rtcTempStr := rtcTempStr_temp_test u\<rparr>) u
      in map_option (\<lambda>r. arrow (draw ''DisplaySetDateTime''
              (u\<lparr>clock_ops := clock_ops u @ fst r, flag_PageState := NormalState, row_fx_pos := 0\<rparr>)))
           (PCF8563_Set_Str nack (chars (rtcTempStr (device u)))))"

definition on_SetDateTime_normal :: "u32 \<Rightarrow> ui \<Rightarrow> ui" where
  "on_SetDateTime_normal =
     keys4 (\<lambda>u. (goto_screen SetSysScreen (draw ''DisplaySetSysPara'') u)\<lparr>row_fx_pos := 0\<rparr>)
       (\<lambda>u. draw ''DisplaySetDateTime''
              (if row_point u = 1 \<or> row_point u = 2
               then u\<lparr>rtcTempStr_temp_test := rtcTempStr (device u), flag_PageState := ModifyState, row_fx_pos := 1\<rparr>
               else u))
       (\<lambda>u. arrow (draw ''DisplaySetDateTime'' (row_up 2 u)))
       (\<lambda>u. arrow (draw ''DisplaySetDateTime'' (row_down 2 u)))"

definition on_SetDateTime_modify :: "(nat \<Rightarrow> bool) \<Rightarrow> u32 \<Rightarrow> ui \<Rightarrow> ui option" where
  "on_SetDateTime_modify nack key u =
     (if key = KEY_ENTER_PRESS then store_time nack u
      else Some (keys6
        (\<lambda>u. arrow (draw ''DisplaySetDateTime''
               (u\<lparr>flag_PageState := NormalState, rtcTempStr_temp_test := rtcTempStr (device u), row_fx_pos := 0\<rparr>)))
        (\<lambda>u. u) (edit_time date_up time_up) (edit_time date_down time_down)
        (\<lambda>u. draw ''DisplaySetDateTime'' (fx_left 3 u)) (\<lambda>u. draw ''DisplaySetDateTime'' (fx_right 3 u)) key u))"

definition on_SetDateTimeScreen :: "(nat \<Rightarrow> bool) \<Rightarrow> u32 \<Rightarrow> ui \<Rightarrow> ui option" where
  "on_SetDateTimeScreen nack key u =
     (if flag_PageState u then Some (on_SetDateTime_normal key u) else on_SetDateTime_modify nack key u)"

subsection \<open>Arming\<close>

definition toggle :: "u8 \<Rightarrow> u8" where
  "toggle x = (if x = ON then OFF else ON)"

definition toggle_back :: "u8 \<Rightarrow> u8" where
  "toggle_back x = (if x = OFF then ON else OFF)"

definition on_SetBuFang_normal :: "u32 \<Rightarrow> ui \<Rightarrow> ui" where
  "on_SetBuFang_normal =
     keys4 back_to_SetMenu
       (\<lambda>u. let u = u\<lparr>BU_FANG_A_FLAG_TEMP := BU_FANG_A_FLAG (device u), BU_FANG_B_FLAG_TEMP := BU_FANG_B_FLAG (device u),
                      flag_PageState := ModifyState\<rparr>
            in draw ''DiaplaySetBuFangPara''
                 (if row_point u = 1 \<or> row_point u = 2 then u\<lparr>row_fx_pos := 1\<rparr>
                  else if row_point u = 3 then u\<lparr>flag_fcgjsn_tmp := flag_fcgjsn (device u)\<rparr> else u))
       (\<lambda>u. let u = row_up 3 u
            in arrow (draw ''DiaplaySetBuFangPara''
                 (if FIELD_FLAG_S0D1 (device u) \<and> row_point u = 2 then u\<lparr>row_point := 1\<rparr> else u)))
       (\<lambda>u. let u = row_down 3 u
            in arrow (draw ''DiaplaySetBuFangPara''
                 (if FIELD_FLAG_S0D1 (device u) \<and> row_point u = 2 then u\<lparr>row_point := 3\<rparr> else u)))"

definition store_tamper :: "ui \<Rightarrow> ui" where
  "store_tamper u =
     (if flag_fcgjsn (device u) \<noteq> flag_fcgjsn_tmp u
      then on_device (\<lambda>d. (if flag_fcgjsn_tmp u \<noteq> 0 then FangChai_Start else FangChai_Stop)
             (d\<lparr>flag_fcgjsn := flag_fcgjsn_tmp u\<rparr>)) u else u)"

definition store_arm_A :: "ui \<Rightarrow> ui" where
  "store_arm_A u =
     (if BU_FANG_A_FLAG (device u) \<noteq> BU_FANG_A_FLAG_TEMP u
      then on_device (\<lambda>d. (if BU_FANG_A_FLAG_TEMP u \<noteq> 0 then Push_A_Start else Push_A_Stop)
             (d\<lparr>BU_FANG_A_FLAG := BU_FANG_A_FLAG_TEMP u\<rparr>)) u else u)"

definition store_arm_B :: "ui \<Rightarrow> ui" where
  "store_arm_B u =
     (if BU_FANG_B_FLAG (device u) \<noteq> BU_FANG_B_FLAG_TEMP u
      then on_device (\<lambda>d. (if BU_FANG_B_FLAG_TEMP u \<noteq> 0 then Push_B_Start else Push_B_Stop)
             (d\<lparr>BU_FANG_B_FLAG := BU_FANG_B_FLAG_TEMP u\<rparr>)) u else u)"

definition store_arming :: "ui \<Rightarrow> ui" where
  "store_arming u =
     (store_arm_B (store_arm_A (store_tamper u)))\<lparr>flag_PageState := NormalState, row_fx_pos := 0\<rparr>"

definition edit_arming :: "(u8 \<Rightarrow> u8) \<Rightarrow> ui \<Rightarrow> ui" where
  "edit_arming f u =
     draw ''DiaplaySetBuFangPara''
       (if row_point u = 1 then if row_fx_pos u = 1 then u\<lparr>BU_FANG_A_FLAG_TEMP := f (BU_FANG_A_FLAG_TEMP u)\<rparr> else u
        else if row_point u = 2 then if row_fx_pos u = 1 then u\<lparr>BU_FANG_B_FLAG_TEMP := f (BU_FANG_B_FLAG_TEMP u)\<rparr> else u
        else if row_point u = 3 then u\<lparr>flag_fcgjsn_tmp := f (flag_fcgjsn_tmp u)\<rparr>
        else u)"

definition on_SetBuFang_modify :: "u32 \<Rightarrow> ui \<Rightarrow> ui" where
  "on_SetBuFang_modify =
     keys6
       (\<lambda>u. arrow (draw ''DiaplaySetBuFangPara''
              (u\<lparr>flag_PageState := NormalState, flag_fcgjsn_tmp := flag_fcgjsn (device u),
                 BU_FANG_A_FLAG_TEMP := BU_FANG_A_FLAG (device u), BU_FANG_B_FLAG_TEMP := BU_FANG_B_FLAG (device u)\<rparr>)))
       store_arming (edit_arming toggle) (edit_arming toggle_back)
       (\<lambda>u. draw ''DiaplaySetBuFangPara'' (fx_left 2 u)) (\<lambda>u. draw ''DiaplaySetBuFangPara'' (fx_right 2 u))"

definition on_SetBuFangParaScreen :: "u32 \<Rightarrow> ui \<Rightarrow> ui" where
  "on_SetBuFangParaScreen key u =
     (if flag_PageState u then on_SetBuFang_normal key u else on_SetBuFang_modify key u)"

subsection \<open>Thresholds\<close>

definition thrd_up :: "s8 \<Rightarrow> u16 \<Rightarrow> u16" where
  "thrd_up fx x =
     (if fx = 1 then if x div 10 < 49 then x + 10 else x mod 10
      else if fx = 2 then if x mod 10 < 9 then x + 1 else (x div 10) * 10
      else x)"

definition thrd_down :: "s8 \<Rightarrow> u16 \<Rightarrow> u16" where
  "thrd_down fx x =
     (if fx = 1 then if x div 10 > 1 then x - 10 else 490 + x mod 10
      else if fx = 2 then if x mod 10 > 0 then x - 1 else x + 9
      else x)"

definition edit_thrd :: "(s8 \<Rightarrow> u16 \<Rightarrow> u16) \<Rightarrow> ui \<Rightarrow> ui" where
  "edit_thrd f u =
     draw ''DiaplaySetAlarmThreshold''
       (if row_point u = 1 then u\<lparr>alarm_threshold_up_dif_temp := f (row_fx_pos u) (alarm_threshold_up_dif_temp u)\<rparr>
        else if row_point u = 2
        then u\<lparr>alarm_threshold_down_dif_temp := f (row_fx_pos u) (alarm_threshold_down_dif_temp u)\<rparr>
        else u)"

definition store_thrd :: "ui \<Rightarrow> ui" where
  "store_thrd u =
     (let u = on_device (\<lambda>d. d\<lparr>alarm_threshold_up_dif := alarm_threshold_up_dif_temp u,
                               alarm_threshold_down_dif := alarm_threshold_down_dif_temp u\<rparr>) u;
          u = on_device (\<lambda>d. setAlmThrdUpDif (alarm_threshold_up_dif d) d) u;
          u = on_device (\<lambda>d. setAlmThrdDwDif (alarm_threshold_down_dif d) d) u
      in arrow (draw ''DiaplaySetAlarmThreshold'' (u\<lparr>flag_PageState := NormalState, row_fx_pos := 0\<rparr>)))"

definition on_SetAlarmThreshold_normal :: "u32 \<Rightarrow> ui \<Rightarrow> ui" where
  "on_SetAlarmThreshold_normal =
     keys4 back_to_SetMenu
       (\<lambda>u. let u = u\<lparr>flag_PageState := ModifyState\<rparr>
            in draw ''DiaplaySetAlarmThreshold''
                 (if row_point u = 1
                  then u\<lparr>alarm_threshold_up_dif_temp := alarm_threshold_up_dif (device u), row_fx_pos := 1\<rparr>
                  else if row_point u = 2
                  then u\<lparr>alarm_threshold_down_dif_temp := alarm_threshold_down_dif (device u), row_fx_pos := 1\<rparr>
                  else u))
       (\<lambda>u. arrow (draw ''DiaplaySetAlarmThreshold''
              (if row_point u > 1 then u\<lparr>row_point := row_point u - 1\<rparr> else u\<lparr>row_point := 2\<rparr>)))
       (\<lambda>u. arrow (draw ''DiaplaySetAlarmThreshold''
              (if row_point u < 2 then u\<lparr>row_point := row_point u + 1\<rparr> else u\<lparr>row_point := 1\<rparr>)))"

definition on_SetAlarmThreshold_modify :: "u32 \<Rightarrow> ui \<Rightarrow> ui" where
  "on_SetAlarmThreshold_modify =
     keys6
       (\<lambda>u. arrow (draw ''DiaplaySetAlarmThreshold''
              (u\<lparr>flag_PageState := NormalState, alarm_threshold_up_dif_temp := alarm_threshold_up_dif (device u),
                 alarm_threshold_down_dif_temp := alarm_threshold_down_dif (device u)\<rparr>)))
       store_thrd (edit_thrd thrd_up) (edit_thrd thrd_down)
       (\<lambda>u. draw ''DiaplaySetAlarmThreshold'' (fx_left 2 u)) (\<lambda>u. draw ''DiaplaySetAlarmThreshold'' (fx_right 2 u))"

definition on_SetAlarmThresholdScreen :: "u32 \<Rightarrow> ui \<Rightarrow> ui" where
  "on_SetAlarmThresholdScreen key u =
     (if flag_PageState u then on_SetAlarmThreshold_normal key u else on_SetAlarmThreshold_modify key u)"

subsection \<open>The parameters of a zone\<close>

definition count_up :: "'a::len word \<Rightarrow> 'a word \<Rightarrow> 'a word" where
  "count_up n x = (if x < n then x + 1 else 1)"

definition count_down :: "'a::len word \<Rightarrow> 'a word \<Rightarrow> 'a word" where
  "count_down n x = (if x > 1 then x - 1 else n)"

definition edit_zone ::
    "nat \<Rightarrow> (ui \<Rightarrow> ui) \<Rightarrow> (u8 \<Rightarrow> u8 \<Rightarrow> u8) \<Rightarrow> (u16 \<Rightarrow> u16 \<Rightarrow> u16) \<Rightarrow> ui \<Rightarrow> ui" where
  "edit_zone z display f g u =
     display
       (if row_fx_pos u = 1
        then if row_point u = 1 then u\<lparr>field_num_temp := (field_num_temp u)(z := f 80 (field_num_temp u z))\<rparr>
             else if row_point u = 2 then u\<lparr>alarm_delay_temp := (alarm_delay_temp u)(z := g 999 (alarm_delay_temp u z))\<rparr>
             else if row_point u = 3
             then u\<lparr>alarm_sensitivity_temp := (alarm_sensitivity_temp u)(z := f 10 (alarm_sensitivity_temp u z))\<rparr>
             else u
        else u)"

definition store_zone :: "(ui \<Rightarrow> ui) \<Rightarrow> ui \<Rightarrow> ui" where
  "store_zone display u =
     (let u = on_device (\<lambda>d. d\<lparr>field_num := copy2 (field_num_temp u) (field_num d),
                               alarm_delay := copy2 (alarm_delay_temp u) (alarm_delay d),
                               alarm_sensitivity := copy2 (alarm_sensitivity_temp u) (alarm_sensitivity d)\<rparr>) u;
          u = on_device (\<lambda>d. setFieldNum 0 (field_num d 0) d) u;
          u = on_device (\<lambda>d. setAlarmDelay 0 (alarm_delay d 0) d) u;
          u = on_device WriteFieldParaToEEProm u
      in arrow_capped (display (u\<lparr>flag_PageState := NormalState, row_fx_pos := 0\<rparr>)))"

definition zone_normal :: "(ui \<Rightarrow> ui) \<Rightarrow> (ui \<Rightarrow> ui) \<Rightarrow> u32 \<Rightarrow> ui \<Rightarrow> ui" where
  "zone_normal display load =
     keys4 (\<lambda>u. (goto_screen SetFangQuParaScreen DiaplaySetFangQuPara u)\<lparr>row_fx_pos := 0\<rparr>)
       (\<lambda>u. let u = load u
            in display
                 (if row_point u = 1
                  then u\<lparr>field_num_temp := copy2 (field_num (device u)) (field_num_temp u),
                         flag_PageState := ModifyState, row_fx_pos := 1\<rparr>
                  else if row_point u = 2
                  then u\<lparr>alarm_delay_temp := copy2 (alarm_delay (device u)) (alarm_delay_temp u),
                         flag_PageState := ModifyState, row_fx_pos := 1\<rparr>
                  else if row_point u = 3 then u\<lparr>flag_PageState := ModifyState, row_fx_pos := 1\<rparr>
                  else u))
       (\<lambda>u. arrow_capped (display (row_up 3 u))) (\<lambda>u. arrow_capped (display (row_down 3 u)))"

definition zone_modify :: "nat \<Rightarrow> (ui \<Rightarrow> ui) \<Rightarrow> u32 \<Rightarrow> ui \<Rightarrow> ui" where
  "zone_modify z display =
     keys6
       (\<lambda>u. arrow (display (u\<lparr>flag_PageState := NormalState, row_fx_pos := 0, row_point := 1\<rparr>)))
       (store_zone display) (edit_zone z display count_up count_up) (edit_zone z display count_down count_down)
       (\<lambda>u. display (fx_left 2 u)) (\<lambda>u. display (fx_right 2 u))"

definition on_SetAFangQuParaScreen :: "u32 \<Rightarrow> ui \<Rightarrow> ui" where
  "on_SetAFangQuParaScreen key u =
     (if flag_PageState u
      then zone_normal (draw ''DisplaySetAFangQuPara'')
             (\<lambda>u. u\<lparr>ten_val_range_temp := (\<lambda>i j. if i < 2 \<and> j < 2 then ten_val_range (device u) i j else ten_val_range_temp u i j),
                    alarm_sensitivity_temp := copy2 (alarm_sensitivity (device u)) (alarm_sensitivity_temp u)\<rparr>) key u
      else zone_modify 0 (draw ''DisplaySetAFangQuPara'') key u)"

definition on_SetBFangQuParaScreen :: "u32 \<Rightarrow> ui \<Rightarrow> ui" where
  "on_SetBFangQuParaScreen key u =
     (if flag_PageState u
      then zone_normal (draw ''DisplaySetBFangQuPara'')
             (\<lambda>u. u\<lparr>alarm_sensitivity_temp := copy2 (alarm_sensitivity (device u)) (alarm_sensitivity_temp u)\<rparr>) key u
      else zone_modify 1 (draw ''DisplaySetBFangQuPara'') key u)"

subsection \<open>Addresses\<close>

definition inc_char :: "nat \<Rightarrow> u8 \<Rightarrow> u8 list \<Rightarrow> u8 list" where
  "inc_char i hi s = (let s = s[i := s ! i + 1] in if s ! i > hi then s[i := 0x30] else s)"

definition dec_char :: "nat \<Rightarrow> u8 \<Rightarrow> u8 list \<Rightarrow> u8 list" where
  "dec_char i hi s = (let s = s[i := s ! i - 1] in if s ! i < 0x30 then s[i := hi] else s)"

text \<open>After a change of the hundreds: with a two in front the tens go no further than five.\<close>

definition cap_tens :: "nat \<Rightarrow> u8 list \<Rightarrow> u8 list" where
  "cap_tens i s = (if s ! i = 0x32 \<and> s ! (i + 1) > 0x35 then s[i + 1 := 0x30] else s)"

definition edit_octet :: "(nat \<Rightarrow> u8 \<Rightarrow> u8 list \<Rightarrow> u8 list) \<Rightarrow> s8 \<Rightarrow> u8 list \<Rightarrow> u8 list" where
  "edit_octet step fx s =
     (let k = nat (sint fx)
      in if k \<in> {1, 2, 3, 5, 6, 7, 9, 10, 11, 13, 14, 15}
         then if k mod 4 = 1 then cap_tens (k - 1) (step (k - 1) 0x32 s)
              else if k mod 4 = 2 then step (k - 1) (if s ! (k - 2) = 0x32 then 0x35 else 0x39) s
              else step (k - 1) 0x39 s
         else s)"

definition octet_left :: "ui \<Rightarrow> ui" where
  "octet_left u =
     (let u = (if row_fx_pos u = 5 \<or> row_fx_pos u = 9 \<or> row_fx_pos u = 13 then u\<lparr>row_fx_pos := row_fx_pos u - 1\<rparr> else u)
      in fx_left 15 u)"

definition octet_right :: "ui \<Rightarrow> ui" where
  "octet_right u =
     (let u = (if row_fx_pos u = 3 \<or> row_fx_pos u = 7 \<or> row_fx_pos u = 11 then u\<lparr>row_fx_pos := row_fx_pos u + 1\<rparr> else u)
      in fx_right 15 u)"

definition address_keys ::
    "string \<Rightarrow> (ui \<Rightarrow> ui) \<Rightarrow> ((u8 list \<Rightarrow> u8 list) \<Rightarrow> ui \<Rightarrow> ui) \<Rightarrow> u32 \<Rightarrow> ui \<Rightarrow> ui" where
  "address_keys name store upd =
     keys6 (goto_screen SetEthParaScreen (draw ''DisplaySetEthPara''))
       (\<lambda>u. (on_device lwip_reset_netif_ipaddr (store u))\<lparr>row_fx_pos := 1\<rparr>)
       (\<lambda>u. draw name (upd (edit_octet inc_char (row_fx_pos u)) u))
       (\<lambda>u. draw name (upd (edit_octet dec_char (row_fx_pos u)) u))
       (\<lambda>u. draw name (octet_left u)) (\<lambda>u. draw name (octet_right u))"

definition on_SetIpAddrScreen :: "u32 \<Rightarrow> ui \<Rightarrow> ui" where
  "on_SetIpAddrScreen =
     address_keys ''DisplaySetIpAddr'' SetIpAddr (\<lambda>f u. u\<lparr>eth_ip_addr := f (eth_ip_addr u)\<rparr>)"

definition on_SetSubnetMaskScreen :: "u32 \<Rightarrow> ui \<Rightarrow> ui" where
  "on_SetSubnetMaskScreen =
     address_keys ''DisplaySetSubnetMask'' SetSubNetMask (\<lambda>f u. u\<lparr>eth_subnet_mask := f (eth_subnet_mask u)\<rparr>)"

definition on_SetGateWayScreen :: "u32 \<Rightarrow> ui \<Rightarrow> ui" where
  "on_SetGateWayScreen =
     address_keys ''DisplaySetGateWay'' SetGateWay (\<lambda>f u. u\<lparr>eth_gateway := f (eth_gateway u)\<rparr>)"

subsection \<open>Types of the switches\<close>

text \<open>The types are changed in place, not in a copy.\<close>

definition type_up :: "u8 \<Rightarrow> u8" where
  "type_up t = (if sint (t + 1) > 8 then 0 else t + 1)"

definition type_down :: "u8 \<Rightarrow> u8" where
  "type_down t = (if sint (t - 1) < 0 then 8 else t - 1)"

definition edit_type :: "(u8 \<Rightarrow> u8) \<Rightarrow> ui \<Rightarrow> ui" where
  "edit_type f u =
     draw ''DiaplaySetExtDeviceTypeScreen''
       (if row_point u = 1 then on_device (\<lambda>d. d\<lparr>SW_Type := (SW_Type d)(0 := f (SW_Type d 0))\<rparr>) u
        else if row_point u = 2 then on_device (\<lambda>d. d\<lparr>SW_Type := (SW_Type d)(1 := f (SW_Type d 1))\<rparr>) u
        else u)"

definition on_SetExtDeviceType_normal :: "u32 \<Rightarrow> ui \<Rightarrow> ui" where
  "on_SetExtDeviceType_normal =
     keys4 back_to_SetMenu
       (\<lambda>u. draw ''DiaplaySetExtDeviceTypeScreen''
              (if row_point u = 1 \<or> row_point u = 2 then u\<lparr>flag_PageState := ModifyState\<rparr> else u))
       (\<lambda>u. arrow (draw ''DiaplaySetExtDeviceTypeScreen'' (row_up (zones_shown u) u)))
       (\<lambda>u. arrow (draw ''DiaplaySetExtDeviceTypeScreen'' (row_down (zones_shown u) u)))"

definition on_SetExtDeviceType_modify :: "u32 \<Rightarrow> ui \<Rightarrow> ui" where
  "on_SetExtDeviceType_modify =
     keys4
       (\<lambda>u. goto_screen SetExtDeviceTypeScreen
              (\<lambda>u. draw ''DiaplaySetExtDeviceTypeScreen'' (u\<lparr>flag_PageState := NormalState\<rparr>)) u)
       (\<lambda>u. arrow (draw ''DiaplaySetExtDeviceTypeScreen''
              ((on_device (\<lambda>d. setSWValue (of_int (or (push_bit 8 (sint (SW_Type d 1))) (sint (SW_Type d 0)))) d) u)
                 \<lparr>flag_PageState := NormalState\<rparr>)))
       (edit_type type_up) (edit_type type_down)"

definition on_SetExtDeviceTypeScreen :: "u32 \<Rightarrow> ui \<Rightarrow> ui" where
  "on_SetExtDeviceTypeScreen key u =
     (if flag_PageState u then on_SetExtDeviceType_normal key (arrow u) else on_SetExtDeviceType_modify key u)"

subsection \<open>Range and time of the calibration\<close>

definition number_left :: "s8 \<Rightarrow> ui \<Rightarrow> ui" where
  "number_left n u =
     (let u = u\<lparr>row_fx_pos := row_fx_pos u - 1\<rparr> in if row_fx_pos u = 0 then u\<lparr>row_fx_pos := n\<rparr> else u)"

text \<open>The first digit goes to \<open>hi\<close>, the others to nine.\<close>

definition edit_number :: "(nat \<Rightarrow> u8 \<Rightarrow> u8 list \<Rightarrow> u8 list) \<Rightarrow> u8 \<Rightarrow> s8 \<Rightarrow> s8 \<Rightarrow> u8 list \<Rightarrow> u8 list" where
  "edit_number step hi n fx s =
     (if fx = 1 then step 0 hi s
      else if 2 \<le> sint fx \<and> sint fx \<le> sint n then step (nat (sint fx) - 1) 0x39 s else s)"

definition on_SetFullScaleScreen :: "u32 \<Rightarrow> ui \<Rightarrow> ui" where
  "on_SetFullScaleScreen =
     (let edit = (\<lambda>step u. draw ''DisplaySetFullScale''
            (u\<lparr>tension_max_range_temp := edit_number step 0x31 3 (row_fx_pos u) (tension_max_range_temp u)\<rparr>))
      in keys6 back_to_SetMenu
           (\<lambda>u. draw ''DisplaySetFullScale''
              ((on_device (setTensionMaxRange (of_int (atoi (chars (tension_max_range_temp u)) * 10))) u)\<lparr>row_fx_pos := 1\<rparr>))
           (edit inc_char) (edit dec_char)
           (\<lambda>u. draw ''DisplaySetFullScale'' (number_left 3 u)) (\<lambda>u. draw ''DisplaySetFullScale'' (fx_right 3 u)))"

definition on_SetBaseAutoCalibrateTimeScreen :: "u32 \<Rightarrow> ui \<Rightarrow> ui" where
  "on_SetBaseAutoCalibrateTimeScreen =
     (let edit = (\<lambda>step u. draw ''DisplaySetBaseAutoCalibrateTime''
            (u\<lparr>base_auto_calibrate_time_tmp :=
                 edit_number step 0x35 5 (row_fx_pos u) (base_auto_calibrate_time_tmp u)\<rparr>))
      in keys6 back_to_SetMenu
           (\<lambda>u. draw ''DisplaySetBaseAutoCalibrateTime''
              ((on_device (setBaseAutoCalibrateTime (of_int (atoi (chars (base_auto_calibrate_time_tmp u))))) u)\<lparr>row_fx_pos := 1\<rparr>))
           (edit inc_char) (edit dec_char)
           (\<lambda>u. draw ''DisplaySetBaseAutoCalibrateTime'' (number_left 5 u))
           (\<lambda>u. draw ''DisplaySetBaseAutoCalibrateTime'' (fx_right 5 u)))"

end
