(* ===== verification/MainTask.thy ===== *)
theory MainTask
  imports MenuInq MenuEdit
begin

text \<open>
  \<^verbatim>\<open>main_task\<close> of \<^verbatim>\<open>USER/main.c\<close>: one round of its loop for the key the mailbox delivers, or none.  The screens that
  look at keys only are left alone without one.
\<close>

definition screen_keys :: "screen \<Rightarrow> u32 \<Rightarrow> ui \<Rightarrow> ui" where
  "screen_keys s =
     (if s = UserLoginScreen then on_UserLoginScreen
      else if s = InputPasswordScreen then on_InputPasswordScreen
      else if s = PasswordErrorScreen then on_PasswordErrorScreen
      else if s = SuperUserRootScreen then on_SuperUserRootScreen
      else if s = OrdinaryUserRootScreen then on_OrdinaryUserRootScreen
      else if s = SetScreen then on_SetScreen
      else if s = InqScreen then on_InqScreen
      else if s = TensionMonitorScreen then on_TensionMonitorScreen
      else if s = VerScreen then on_VerScreen
      else if s = SetSysScreen then on_SetSysScreen
      else if s = SetFangQuParaScreen then on_SetFangQuParaScreen
      else if s = CalibrationSetScreen then on_CalibrationSetScreen
      else if s = SetBuFangParaScreen then on_SetBuFangParaScreen
      else if s = SetAlarmThresholdScreen then on_SetAlarmThresholdScreen
      else if s = InqSysParaScreen then on_InqSysParaScreen
      else if s = InqFangQuParaScreen then on_InqFangQuParaScreen
      else if s = InqBuFangParaScreen then on_InqBuFangParaScreen
      else if s = InqAlarmRecordScreen then on_InqAlarmRecordScreen
      else if s = InqAlarmThresholdScreen then on_InqAlarmThresholdScreen
      else if s = InqCalibrationValScreen then on_InqCalibrationValScreen
      else if s = InqZeroValScreen then on_InqZeroValScreen
      else if s = InqDatumValScreen then on_InqDatumValScreen
      else if s = InqAareaZeroValScreen \<or> s = InqBareaZeroValScreen then on_InqAareaZeroValScreen
      else if s = InqAareaDatumValScreen \<or> s = InqBareaDatumValScreen then on_InqAareaDatumValScreen
      else if s = InqExtDeviceTypeScreen then on_InqExtDeviceTypeScreen
      else if s = InqFullScaleScreen then on_InqFullScaleScreen
      else if s = InqBaseAutoCalibrateTimeScreen then on_InqBaseAutoCalibrateTimeScreen
      else if s = SetEthParaScreen then on_SetEthParaScreen
      else if s = SetAFangQuParaScreen then on_SetAFangQuParaScreen
      else if s = SetBFangQuParaScreen then on_SetBFangQuParaScreen
      else if s = ZeroCalibrationScreen then on_ZeroCalibrationScreen
      else if s = DatumCalibrationScreen then on_DatumCalibrationScreen
      else if s = NotAtValidRangeScreen then on_NotAtValidRangeScreen
      else if s = CaliOverAareaZeroValScreen \<or> s = CaliOverBareaZeroValScreen then on_CaliOverZeroValScreen
      else if s = CaliOverAareaDatumValScreen \<or> s = CaliOverBareaDatumValScreen then on_CaliOverDatumValScreen
      else if s = InqEthParaScreen then on_InqEthParaScreen
      else if s = InqDuanLuAlarmScreen then on_InqDuanLuAlarmScreen
      else if s = InqDuanXianAlarmScreen then on_InqDuanXianAlarmScreen
      else if s = InqFangChaiAlarmRecordScreen then on_InqFangChaiAlarmRecordScreen
      else if s = SetMacAddrScreen then on_SetMacAddrScreen
      else if s = SetIpAddrScreen then on_SetIpAddrScreen
      else if s = SetSubnetMaskScreen then on_SetSubnetMaskScreen
      else if s = SetGateWayScreen then on_SetGateWayScreen
      else if s = InqMacAddrScreen \<or> s = InqIpAddrScreen \<or> s = InqSubnetMaskScreen \<or> s = InqGateWayScreen
      then on_InqAddrScreen
      else if s = InqAFangQuParaScreen then on_InqAFangQuParaScreen
      else if s = InqBFangQuParaScreen then on_InqBFangQuParaScreen
      else if s = InqAAreaDuanLuAlarmRecordScreen then on_InqAAreaDuanLuAlarmRecordScreen
      else if s = InqBAreaDuanLuAlarmRecordScreen then on_InqBAreaDuanLuAlarmRecordScreen
      else if s = InqAAreaDuanXianAlarmRecordScreen then on_InqAAreaDuanXianAlarmRecordScreen
      else if s = InqBAreaDuanXianAlarmRecordScreen then on_InqBAreaDuanXianAlarmRecordScreen
      else if s = SetExtDeviceTypeScreen then on_SetExtDeviceTypeScreen
      else if s = SetFullScaleScreen then on_SetFullScaleScreen
      else if s = SetBaseAutoCalibrateTimeScreen then on_SetBaseAutoCalibrateTimeScreen
      else (\<lambda>key u. u))"

text \<open>The whole \<^verbatim>\<open>switch\<close>; \<open>nack\<close> are the answers on the bus when the clock is set.\<close>

definition screen_round :: "(nat \<Rightarrow> bool) \<Rightarrow> u32 \<Rightarrow> ui \<Rightarrow> ui option" where
  "screen_round nack key u =
     (let s = current_screen u
      in if s = RunScreen then Some (on_RunScreen key u)
         else if s = AFangQuMonitorScreen then Some (on_AFangQuMonitorScreen key u)
         else if s = BFangQuMonitorScreen then Some (on_BFangQuMonitorScreen key u)
         else if s = AzeroCalibrationScreen then Some (on_AzeroCalibrationScreen u)
         else if s = BzeroCalibrationScreen then Some (on_BzeroCalibrationScreen u)
         else if s = AdatumCalibrationScreen then Some (on_AdatumCalibrationScreen u)
         else if s = BdatumCalibrationScreen then Some (on_BdatumCalibrationScreen u)
         else if s = AlarmTypeListScreen then on_AlarmTypeListScreen key u
         else if key = KEY_NO_PRESS then Some u
         else if s = SetDateTimeScreen then on_SetDateTimeScreen nack key u
         else if s = SetClearRecordScreen then on_SetClearRecordScreen key u
         else if s = ClearDuanLuAlarmRecordScreen then on_ClearDuanLuAlarmRecordScreen key u
         else if s = ClearDuanXianAlarmRecordScreen then on_ClearDuanXianAlarmRecordScreen key u
         else Some (screen_keys s key u))"

text \<open>Fifty rounds without a key on the running screen, and the alarms are listed.\<close>

definition count_idle :: "u32 \<Rightarrow> ui \<Rightarrow> ui" where
  "count_idle key u =
     (if key = KEY_NO_PRESS
      then if no_key_num u < 50 then u\<lparr>no_key_num := no_key_num u + 1\<rparr> else u
      else u\<lparr>no_key_num := 0\<rparr>)"

definition idle_alarms :: "ui \<Rightarrow> ui option" where
  "idle_alarms u =
     (if no_key_num u = 50 \<and> current_screen u = RunScreen \<and> shown_alarms u \<noteq> 0
      then DisplayAlarmTypeList (u\<lparr>current_screen := AlarmTypeListScreen, row_point := 1\<rparr>)
      else Some u)"

definition main_task_round :: "(nat \<Rightarrow> bool) \<Rightarrow> u32 \<Rightarrow> ui \<Rightarrow> ui option" where
  "main_task_round nack key u =
     (if sys_reset (device u) then Some u
      else Option.bind (idle_alarms (count_idle key u)) (screen_round nack key))"

end
