(* ===== verification/MenuEffect.thy ===== *)
theory MenuEffect
  imports MainTask
begin

text \<open>
  What the operator can do to the device: \<open>menu_effect\<close> lists the operations the menu performs on it, and every
  round of \<^verbatim>\<open>main_task\<close> is a sequence of them.  A condition on the state of the menu is not needed except for the
  text of the time.
\<close>

subsection \<open>Statements about every screen\<close>

definition every :: "(u32 \<Rightarrow> ui \<Rightarrow> ui \<Rightarrow> bool) \<Rightarrow> (u32 \<Rightarrow> ui \<Rightarrow> ui) \<Rightarrow> bool" where
  "every R f \<longleftrightarrow> (\<forall>key u. R key u (f key u))"

lemma every_if: "(b \<Longrightarrow> every R f) \<Longrightarrow> (\<not> b \<Longrightarrow> every R g) \<Longrightarrow> every R (if b then f else g)"
  by simp

lemmas move_defs = keys4_def keys6_def row_up_def row_down_def goto_screen_def goto_late_def show_screen_def
  back_to_root_def back_to_SetMenu_def back_to_InqMenu_def back_to_login_def back_to_InqAlarmRecord_def
  DisplayRunMenu_def draw_def arrow_def arrow_capped_def on_device_def Let_def fx_left_def fx_right_def

text \<open>The screens by what they do: those that only show, those with a list, those that store.\<close>

lemmas nav_defs = on_UserLoginScreen_def toggle_user_def on_InputPasswordScreen_def set_digit_def digit_def
  check_password_def on_PasswordErrorScreen_def on_SuperUserRootScreen_def on_OrdinaryUserRootScreen_def
  on_SetScreen_def on_InqScreen_def on_TensionMonitorScreen_def on_VerScreen_def on_SetSysScreen_def
  on_SetFangQuParaScreen_def on_CalibrationSetScreen_def on_SetEthParaScreen_def on_SetMacAddrScreen_def
  DiaplaySetFangQuPara_def DisplaySetMacAddr_def DisplayInqMacAddr_def MacAddrInsertMaohao_def
  GetIpAddr_def GetSubNetMask_def GetGateWay_def

lemmas inq_defs = on_InqSysParaScreen_def on_InqFangQuParaScreen_def on_InqBuFangParaScreen_def
  on_InqAlarmThresholdScreen_def on_InqExtDeviceTypeScreen_def on_InqFullScaleScreen_def
  on_InqBaseAutoCalibrateTimeScreen_def on_InqCalibrationValScreen_def on_InqZeroValScreen_def
  on_InqDatumValScreen_def on_InqAareaZeroValScreen_def on_InqAareaDatumValScreen_def on_InqEthParaScreen_def
  on_InqAddrScreen_def on_InqAFangQuParaScreen_def on_InqBFangQuParaScreen_def on_NotAtValidRangeScreen_def
  on_CaliOverZeroValScreen_def on_CaliOverDatumValScreen_def

lemmas record_defs = on_InqAlarmRecordScreen_def on_InqDuanLuAlarmScreen_def on_InqDuanXianAlarmScreen_def
  on_InqFangChaiAlarmRecordScreen_def on_InqAAreaDuanLuAlarmRecordScreen_def on_InqBAreaDuanLuAlarmRecordScreen_def
  on_InqAAreaDuanXianAlarmRecordScreen_def on_InqBAreaDuanXianAlarmRecordScreen_def page_keys_def open_records_def
  show_records_def UpdateAlarmRecord_def

lemmas edit_defs = on_SetBuFangParaScreen_def on_SetBuFang_normal_def on_SetBuFang_modify_def edit_arming_def
  store_arming_def on_SetAlarmThresholdScreen_def on_SetAlarmThreshold_normal_def on_SetAlarmThreshold_modify_def
  edit_thrd_def store_thrd_def on_SetAFangQuParaScreen_def on_SetBFangQuParaScreen_def zone_normal_def
  zone_modify_def edit_zone_def store_zone_def on_SetIpAddrScreen_def on_SetSubnetMaskScreen_def
  on_SetGateWayScreen_def address_keys_def SetIpAddr_def SetSubNetMask_def SetGateWay_def octet_left_def
  octet_right_def on_SetExtDeviceTypeScreen_def on_SetExtDeviceType_normal_def on_SetExtDeviceType_modify_def
  edit_type_def on_SetFullScaleScreen_def on_SetBaseAutoCalibrateTimeScreen_def number_left_def
  on_ZeroCalibrationScreen_def on_DatumCalibrationScreen_def start_datum_def

subsection \<open>Effects\<close>

inductive menu_effect :: "dev \<Rightarrow> dev \<Rightarrow> bool" where
  idle: "menu_effect d d"
| seq: "menu_effect d e \<Longrightarrow> menu_effect e f \<Longrightarrow> menu_effect d f"
| refreshed: "menu_effect d (d\<lparr>run_screen_refresh := 0\<rparr>)"
| silence_A: "menu_effect d (Remove_Alarm_RL_A d)"
| silence_B: "menu_effect d (Remove_Alarm_RL_B d)"
| first_page: "t < 5 \<Longrightarrow> menu_effect d (ReadLCDFirstPageLog t d)"
| next_page: "t < 5 \<Longrightarrow> menu_effect d (ReadLCDNextPageLog t d)"
| previous_page: "t < 5 \<Longrightarrow> menu_effect d (ReadLCDPreviousPageLog t d)"
| cut_page: "menu_effect d (d\<lparr>crtLCDPageLogData := p\<rparr>)"
| cleared: "t < 5 \<Longrightarrow> ClearLog t d = Some e \<Longrightarrow> menu_effect d e"
| zero: "f < 2 \<Longrightarrow> menu_effect d (updateZeroVal f d)"
| datum: "f < 2 \<Longrightarrow> menu_effect d (updateBaseVal f d)"
| time: "rtc_ok (d\<lparr>rtcTempStr := s\<rparr>) \<Longrightarrow> menu_effect d (d\<lparr>rtcTempStr := s\<rparr>)"
| tamper_on: "menu_effect d (FangChai_Start (d\<lparr>flag_fcgjsn := x\<rparr>))"
| tamper_off: "menu_effect d (FangChai_Stop (d\<lparr>flag_fcgjsn := x\<rparr>))"
| arm_A: "menu_effect d (Push_A_Start (d\<lparr>BU_FANG_A_FLAG := x\<rparr>))"
| disarm_A: "menu_effect d (Push_A_Stop (d\<lparr>BU_FANG_A_FLAG := x\<rparr>))"
| arm_B: "menu_effect d (Push_B_Start (d\<lparr>BU_FANG_B_FLAG := x\<rparr>))"
| disarm_B: "menu_effect d (Push_B_Stop (d\<lparr>BU_FANG_B_FLAG := x\<rparr>))"
| thresholds: "menu_effect d (setAlmThrdDwDif v (setAlmThrdUpDif w
    (d\<lparr>alarm_threshold_up_dif := x, alarm_threshold_down_dif := y\<rparr>)))"
| zones: "menu_effect d (WriteFieldParaToEEProm (setAlarmDelay 0 v (setFieldNum 0 w
    (d\<lparr>field_num := n, alarm_delay := l, alarm_sensitivity := s\<rparr>))))"
| address: "menu_effect d (lwip_reset_netif_ipaddr (d\<lparr>lw_ip := a\<rparr>))"
| netmask: "menu_effect d (lwip_reset_netif_ipaddr (d\<lparr>lw_netmask := a\<rparr>))"
| gateway: "menu_effect d (lwip_reset_netif_ipaddr (d\<lparr>lw_gateway := a\<rparr>))"
| switch_type: "menu_effect d (d\<lparr>SW_Type := y\<rparr>)"
| switches: "menu_effect d (setSWValue v d)"
| range: "menu_effect d (setTensionMaxRange v d)"
| auto_time: "menu_effect d (setBaseAutoCalibrateTime v d)"

definition affects :: "u32 \<Rightarrow> ui \<Rightarrow> ui \<Rightarrow> bool" where
  "affects key u u' \<longleftrightarrow> menu_effect (device u) (device u')"

lemma nav_affects:
  "every affects on_UserLoginScreen" "every affects on_InputPasswordScreen" "every affects on_PasswordErrorScreen"
  "every affects on_SuperUserRootScreen" "every affects on_OrdinaryUserRootScreen" "every affects on_SetScreen"
  "every affects on_InqScreen" "every affects on_TensionMonitorScreen" "every affects on_VerScreen"
  "every affects on_SetSysScreen" "every affects on_SetFangQuParaScreen" "every affects on_CalibrationSetScreen"
  "every affects on_SetEthParaScreen" "every affects on_SetMacAddrScreen"
  by (simp_all add: every_def affects_def nav_defs move_defs idle)

lemma inq_affects:
  "every affects on_InqSysParaScreen" "every affects on_InqFangQuParaScreen" "every affects on_InqBuFangParaScreen"
  "every affects on_InqAlarmThresholdScreen" "every affects on_InqExtDeviceTypeScreen"
  "every affects on_InqFullScaleScreen" "every affects on_InqBaseAutoCalibrateTimeScreen"
  "every affects on_InqCalibrationValScreen" "every affects on_InqZeroValScreen" "every affects on_InqDatumValScreen"
  "every affects on_InqAareaZeroValScreen" "every affects on_InqAareaDatumValScreen"
  "every affects on_InqEthParaScreen" "every affects on_InqAddrScreen" "every affects on_InqAFangQuParaScreen"
  "every affects on_InqBFangQuParaScreen" "every affects on_NotAtValidRangeScreen"
  "every affects on_CaliOverZeroValScreen" "every affects on_CaliOverDatumValScreen"
  by (simp_all add: every_def affects_def inq_defs nav_defs move_defs idle)

lemma pages_affect:
  "t < 5 \<Longrightarrow> menu_effect d (ReadLCDFirstPageLog t d\<lparr>crtLCDPageLogData := p\<rparr>)"
  "t < 5 \<Longrightarrow> menu_effect d (ReadLCDNextPageLog t d\<lparr>crtLCDPageLogData := p\<rparr>)"
  "t < 5 \<Longrightarrow> menu_effect d (ReadLCDPreviousPageLog t d\<lparr>crtLCDPageLogData := p\<rparr>)"
  by (auto intro: seq first_page next_page previous_page cut_page)

lemma record_affects:
  "every affects on_InqAlarmRecordScreen" "every affects on_InqDuanLuAlarmScreen"
  "every affects on_InqDuanXianAlarmScreen" "every affects on_InqFangChaiAlarmRecordScreen"
  "every affects on_InqAAreaDuanLuAlarmRecordScreen" "every affects on_InqBAreaDuanLuAlarmRecordScreen"
  "every affects on_InqAAreaDuanXianAlarmRecordScreen" "every affects on_InqBAreaDuanXianAlarmRecordScreen"
  by (simp_all add: every_def affects_def record_defs move_defs idle pages_affect cut_page)

lemma store_arming_affects: "menu_effect (device u) (device (store_arming u))"
proof -
  have "menu_effect (device u) (device (store_tamper u))" for u
    by (simp add: store_tamper_def on_device_def idle tamper_on tamper_off)
  moreover have "menu_effect (device u) (device (store_arm_A u))" for u
    by (simp add: store_arm_A_def on_device_def idle arm_A disarm_A)
  moreover have "menu_effect (device u) (device (store_arm_B u))" for u
    by (simp add: store_arm_B_def on_device_def idle arm_B disarm_B)
  ultimately show ?thesis unfolding store_arming_def by (simp, meson seq)
qed

lemma arming_affects: "every affects on_SetBuFangParaScreen"
  by (simp add: every_def affects_def on_SetBuFangParaScreen_def on_SetBuFang_normal_def on_SetBuFang_modify_def
      edit_arming_def move_defs idle store_arming_affects)

lemma zone_affects:
  "every affects on_SetAFangQuParaScreen" "every affects on_SetBFangQuParaScreen"
  by (simp_all add: every_def affects_def on_SetAFangQuParaScreen_def on_SetBFangQuParaScreen_def zone_normal_def
      zone_modify_def edit_zone_def store_zone_def DiaplaySetFangQuPara_def move_defs idle zones)

lemma edit_affects:
  "every affects on_SetAlarmThresholdScreen" "every affects on_SetIpAddrScreen" "every affects on_SetSubnetMaskScreen"
  "every affects on_SetGateWayScreen" "every affects on_SetExtDeviceTypeScreen" "every affects on_SetFullScaleScreen"
  "every affects on_SetBaseAutoCalibrateTimeScreen" "every affects on_ZeroCalibrationScreen"
  "every affects on_DatumCalibrationScreen"
  by (simp_all add: every_def affects_def edit_defs move_defs idle zero datum range auto_time switches switch_type
      address netmask gateway thresholds)

lemma screen_keys_affects: "affects key u (screen_keys s key u)"
proof -
  have same: "every affects (\<lambda>key u. u)" by (simp add: every_def affects_def idle)
  have "every affects (screen_keys s)"
    unfolding screen_keys_def
    by (intro every_if nav_affects inq_affects record_affects arming_affects zone_affects edit_affects same)
  then show ?thesis by (simp add: every_def)
qed

subsection \<open>Rounds\<close>

lemma list_alarms_device: "list_alarms is u = Some u' \<Longrightarrow> device u' = device u"
  by (induction "is" arbitrary: u) (auto simp: list_alarm_def draw_def bind_eq_Some_conv split: if_splits)

lemma sort_alarms_device [simp]: "device (sort_alarms is u) = device u"
  by (induction "is" arbitrary: u) simp_all

lemma DisplayAlarmTypeList_device: "DisplayAlarmTypeList u = Some u' \<Longrightarrow> device u' = device u"
  by (auto simp: DisplayAlarmTypeList_def Let_def draw_def simp del: list_alarms.simps split: if_splits
      dest!: list_alarms_device)

lemma idle_alarms_device: "idle_alarms u = Some u' \<Longrightarrow> device u' = device u"
  by (auto simp: idle_alarms_def split: if_splits dest!: DisplayAlarmTypeList_device)

lemma alarm_list_affects:
  assumes "on_AlarmTypeListScreen key u = Some u'"
  shows "menu_effect (device u) (device u')"
proof -
  have keys: "menu_effect (device v) (device u')" if "alarm_list_keys key v = Some u'" for v
    using that by (auto simp: alarm_list_keys_def move_defs idle silence_A silence_B split: if_splits
        dest!: DisplayAlarmTypeList_device)
  show ?thesis
    using assms by (auto simp: on_AlarmTypeListScreen_def move_defs idle bind_eq_Some_conv split: if_splits
        dest!: DisplayAlarmTypeList_device dest: keys)
qed

lemma clear_affects:
  assumes "clear_records t s display u = Some u'" "t < 5" "\<And>v. device (display v) = device v"
  shows "menu_effect (device u) (device u')"
  using assms by (auto simp: clear_records_def move_defs intro: cleared)

lemmas clear_defs = on_SetClearRecordScreen_def on_ClearDuanLuAlarmRecordScreen_def on_ClearDuanXianAlarmRecordScreen_def
  clear_screen_def

lemma clear_screens_affect:
  "on_SetClearRecordScreen key u = Some u' \<Longrightarrow> menu_effect (device u) (device u')"
  "on_ClearDuanLuAlarmRecordScreen key u = Some u' \<Longrightarrow> menu_effect (device u) (device u')"
  "on_ClearDuanXianAlarmRecordScreen key u = Some u' \<Longrightarrow> menu_effect (device u) (device u')"
  by (auto simp: clear_defs keys4_def row_up_def row_down_def goto_screen_def back_to_SetMenu_def
      draw_def arrow_def Let_def idle split: if_splits elim!: clear_affects)

definition time_pending :: "ui \<Rightarrow> bool" where
  "time_pending u \<longleftrightarrow> current_screen u = SetDateTimeScreen \<and> \<not> flag_PageState u"

lemma time_affects:
  assumes "on_SetDateTimeScreen nack key u = Some u'"
    and "\<not> flag_PageState u \<Longrightarrow> rtc_ok (device u\<lparr>rtcTempStr := rtcTempStr_temp_test u\<rparr>)"
  shows "menu_effect (device u) (device u')"
proof (cases "flag_PageState u")
  case True
  with assms(1) show ?thesis
    by (auto simp: on_SetDateTimeScreen_def on_SetDateTime_normal_def move_defs idle)
next
  case False
  with assms show ?thesis
    by (auto simp: on_SetDateTimeScreen_def on_SetDateTime_modify_def store_time_def edit_time_def move_defs idle
        intro: time split: if_splits)
qed

lemma screen_round_affects:
  assumes "screen_round nack key u = Some u'"
    and "time_pending u \<Longrightarrow> rtc_ok (device u\<lparr>rtcTempStr := rtcTempStr_temp_test u\<rparr>)"
  shows "menu_effect (device u) (device u')"
proof -
  have run: "menu_effect (device u) (device (on_RunScreen key u))"
  proof -
    have "menu_effect (device u) (Remove_Alarm_RL_A (device u\<lparr>run_screen_refresh := 0\<rparr>))"
      "menu_effect (device u) (Remove_Alarm_RL_B (device u\<lparr>run_screen_refresh := 0\<rparr>))"
      by (rule seq [OF refreshed silence_A], rule seq [OF refreshed silence_B])
    then show ?thesis by (simp add: on_RunScreen_def move_defs idle refreshed silence_A silence_B)
  qed
  have watch: "menu_effect (device u) (device (on_AFangQuMonitorScreen key u))"
    "menu_effect (device u) (device (on_BFangQuMonitorScreen key u))"
    "menu_effect (device u) (device (await_calibration s n u))" for s n
    by (simp_all add: on_AFangQuMonitorScreen_def on_BFangQuMonitorScreen_def await_calibration_def move_defs idle)
  show ?thesis
    using assms screen_keys_affects [unfolded affects_def] run watch clear_screens_affect [of key u u']
      alarm_list_affects [of key u u'] time_affects [of nack key u u']
    by (auto simp: screen_round_def Let_def time_pending_def on_AzeroCalibrationScreen_def idle
        on_BzeroCalibrationScreen_def on_AdatumCalibrationScreen_def on_BdatumCalibrationScreen_def split: if_splits)
qed

lemma count_idle_simps [simp]:
  "device (count_idle key u) = device u" "current_screen (count_idle key u) = current_screen u"
  "flag_PageState (count_idle key u) = flag_PageState u"
  "rtcTempStr_temp_test (count_idle key u) = rtcTempStr_temp_test u"
  by (simp_all add: count_idle_def)

end
