(* ===== verification/Durable.thy ===== *)
theory Durable
  imports LogStore
begin

text \<open>
  What a power failure must not lose.  \<open>inv_on G\<close> says that the five logs are well formed, that the
  time string is one a record can be written with (\<open>rtc_ok\<close>), and that the EEPROM holds the current value of every parameter group
  in \<open>G\<close>.  The lemmas say which writes keep it; an operation of the firmware that changes a
  parameter takes its group out of \<open>G\<close> and saving the group puts it back.
\<close>

definition inv_on :: "nv_group set \<Rightarrow> dev \<Rightarrow> bool" where
  "inv_on G d \<longleftrightarrow> (\<forall>t<5. log_wf t d) \<and> rtc_ok d \<and> (\<forall>g\<in>G. nv.stored g d = nv_image g d)"

text \<open>
  The groups every change of which is saved at once.  The network addresses are saved by the
  restart that applies them; the arming flags are changed by a remote shutdown without saving; the types
  of the switches are edited in place by the menu, which saves them only on \<^verbatim>\<open>KEY_ENTER\<close>.
\<close>

definition durable :: "nv_group set" where
  "durable = - {NvNet, NvControl, NvSw}"

lemma durable_iff [simp]: "g \<in> durable \<longleftrightarrow> g \<noteq> NvNet \<and> g \<noteq> NvControl \<and> g \<noteq> NvSw"
  by (simp add: durable_def)

abbreviation store_ok :: "dev \<Rightarrow> bool" where
  "store_ok \<equiv> inv_on durable"

lemma inv_on_mono: "inv_on G d \<Longrightarrow> H \<subseteq> G \<Longrightarrow> inv_on H d"
  by (auto simp: inv_on_def)

subsection \<open>Fields that play no part\<close>

lemma inv_on_cong:
  assumes "eemem d = eemem e" "nextWriteAddrVal d = nextWriteAddrVal e" "rtcTempStr d = rtcTempStr e"
    and "\<And>g. g \<in> G \<Longrightarrow> nv_image g d = nv_image g e"
  shows "inv_on G d = inv_on G e"
proof -
  have "nv.stored g d = nv.stored g e" for g
    using assms(1) unfolding nv.stored_def by (intro ee.rds_cong) simp
  with assms log_cong(3) [OF assms(1,2)] show ?thesis by (simp add: inv_on_def rtc_ok_def)
qed

lemma nv_image_frame [frame_simps]:
  assumes "g \<noteq> NvControl"
  shows "nv_image g (d\<lparr>FANG_CHAI := x_FANG_CHAI\<rparr>) = nv_image g d"
    "nv_image g (d\<lparr>SW1 := x_SW1\<rparr>) = nv_image g d"
    "nv_image g (d\<lparr>SW2 := x_SW2\<rparr>) = nv_image g d"
    "nv_image g (d\<lparr>FIELD_FLAG_S0D1 := x_FIELD_FLAG_S0D1\<rparr>) = nv_image g d"
    "nv_image g (d\<lparr>RL_A := x_RL_A\<rparr>) = nv_image g d"
    "nv_image g (d\<lparr>RL_B := x_RL_B\<rparr>) = nv_image g d"
    "nv_image g (d\<lparr>LED_FANG_CHAI := x_LED_FANG_CHAI\<rparr>) = nv_image g d"
    "nv_image g (d\<lparr>LED_OPEN := x_LED_OPEN\<rparr>) = nv_image g d"
    "nv_image g (d\<lparr>LED_INVD := x_LED_INVD\<rparr>) = nv_image g d"
    "nv_image g (d\<lparr>LED_BU_FANG := x_LED_BU_FANG\<rparr>) = nv_image g d"
    "nv_image g (d\<lparr>LED_RUN := x_LED_RUN\<rparr>) = nv_image g d"
    "nv_image g (d\<lparr>LCD_BLA := x_LCD_BLA\<rparr>) = nv_image g d"
    "nv_image g (d\<lparr>ADC_CTRL0 := x_ADC_CTRL0\<rparr>) = nv_image g d"
    "nv_image g (d\<lparr>ADC_CTRL1 := x_ADC_CTRL1\<rparr>) = nv_image g d"
    "nv_image g (d\<lparr>ADC_CTRL2 := x_ADC_CTRL2\<rparr>) = nv_image g d"
    "nv_image g (d\<lparr>ADC_CTRL3 := x_ADC_CTRL3\<rparr>) = nv_image g d"
    "nv_image g (d\<lparr>sys_reset := x_sys_reset\<rparr>) = nv_image g d"
    "nv_image g (d\<lparr>ALARM_STATE := x_ALARM_STATE\<rparr>) = nv_image g d"
    "nv_image g (d\<lparr>ALARM_STATE_DELAY := x_ALARM_STATE_DELAY\<rparr>) = nv_image g d"
    "nv_image g (d\<lparr>flag_fcgjsn := x_flag_fcgjsn\<rparr>) = nv_image g d"
    "nv_image g (d\<lparr>adc_invd_crt := x_adc_invd_crt\<rparr>) = nv_image g d"
    "nv_image g (d\<lparr>adc_open_crt := x_adc_open_crt\<rparr>) = nv_image g d"
    "nv_image g (d\<lparr>adc_relax_crt := x_adc_relax_crt\<rparr>) = nv_image g d"
    "nv_image g (d\<lparr>BU_FANG_A_FLAG := x_BU_FANG_A_FLAG\<rparr>) = nv_image g d"
    "nv_image g (d\<lparr>BU_FANG_B_FLAG := x_BU_FANG_B_FLAG\<rparr>) = nv_image g d"
    "nv_image g (d\<lparr>FCAlmVerifyCnt := x_FCAlmVerifyCnt\<rparr>) = nv_image g d"
    "nv_image g (d\<lparr>adcIvdAlmVerifyCnt := x_adcIvdAlmVerifyCnt\<rparr>) = nv_image g d"
    "nv_image g (d\<lparr>adcOpnAlmVerifyCnt := x_adcOpnAlmVerifyCnt\<rparr>) = nv_image g d"
    "nv_image g (d\<lparr>adcRlxAlmVerifyCnt := x_adcRlxAlmVerifyCnt\<rparr>) = nv_image g d"
    "nv_image g (d\<lparr>alarmingCnt := x_alarmingCnt\<rparr>) = nv_image g d"
    "nv_image g (d\<lparr>W4_W6 := x_W4_W6\<rparr>) = nv_image g d"
    "nv_image g (d\<lparr>SW_Alarm := x_SW_Alarm\<rparr>) = nv_image g d"
    "nv_image g (d\<lparr>remote_shutdown := x_remote_shutdown\<rparr>) = nv_image g d"
    "nv_image g (d\<lparr>crt_smp := x_crt_smp\<rparr>) = nv_image g d"
    "nv_image g (d\<lparr>crt_val := x_crt_val\<rparr>) = nv_image g d"
    "nv_image g (d\<lparr>calibrating_flag := x_calibrating_flag\<rparr>) = nv_image g d"
    "nv_image g (d\<lparr>calibrate_en := x_calibrate_en\<rparr>) = nv_image g d"
    "nv_image g (d\<lparr>calibrate_temp_val := x_calibrate_temp_val\<rparr>) = nv_image g d"
    "nv_image g (d\<lparr>calibrate_adc_cnt := x_calibrate_adc_cnt\<rparr>) = nv_image g d"
    "nv_image g (d\<lparr>init_done := x_init_done\<rparr>) = nv_image g d"
    "nv_image g (d\<lparr>adc_src := x_adc_src\<rparr>) = nv_image g d"
    "nv_image g (d\<lparr>adc_time := x_adc_time\<rparr>) = nv_image g d"
    "nv_image g (d\<lparr>crtReadAddrVal := x_crtReadAddrVal\<rparr>) = nv_image g d"
    "nv_image g (d\<lparr>crtWebLogPageNum := x_crtWebLogPageNum\<rparr>) = nv_image g d"
    "nv_image g (d\<lparr>lastWebPageLogNum := x_lastWebPageLogNum\<rparr>) = nv_image g d"
    "nv_image g (d\<lparr>lastLCDPageLogNum := x_lastLCDPageLogNum\<rparr>) = nv_image g d"
    "nv_image g (d\<lparr>webLogPageFlag := x_webLogPageFlag\<rparr>) = nv_image g d"
    "nv_image g (d\<lparr>LCDLogPageFlag := x_LCDLogPageFlag\<rparr>) = nv_image g d"
    "nv_image g (d\<lparr>logType := x_logType\<rparr>) = nv_image g d"
    "nv_image g (d\<lparr>lastWebPageReadDir := x_lastWebPageReadDir\<rparr>) = nv_image g d"
    "nv_image g (d\<lparr>lastLCDPageReadDir := x_lastLCDPageReadDir\<rparr>) = nv_image g d"
    "nv_image g (d\<lparr>crtWebPageLogData := x_crtWebPageLogData\<rparr>) = nv_image g d"
    "nv_image g (d\<lparr>web_page_overrun := x_web_page_overrun\<rparr>) = nv_image g d"
    "nv_image g (d\<lparr>crtLCDPageLogData := x_crtLCDPageLogData\<rparr>) = nv_image g d"
    "nv_image g (d\<lparr>lm75TempCnt := x_lm75TempCnt\<rparr>) = nv_image g d"
    "nv_image g (d\<lparr>rtcTimeCnt := x_rtcTimeCnt\<rparr>) = nv_image g d"
    "nv_image g (d\<lparr>alarmCheckCnt := x_alarmCheckCnt\<rparr>) = nv_image g d"
    "nv_image g (d\<lparr>adcCalibrateCnt := x_adcCalibrateCnt\<rparr>) = nv_image g d"
    "nv_image g (d\<lparr>baseAutoCalibrateCnt := x_baseAutoCalibrateCnt\<rparr>) = nv_image g d"
    "nv_image g (d\<lparr>timerHandlerFlag := x_timerHandlerFlag\<rparr>) = nv_image g d"
    "nv_image g (d\<lparr>run_screen_refresh := x_run_screen_refresh\<rparr>) = nv_image g d"
    "nv_image g (d\<lparr>lw_remoteip := x_lw_remoteip\<rparr>) = nv_image g d"
    "nv_image g (d\<lparr>lw_dhcpstatus := x_lw_dhcpstatus\<rparr>) = nv_image g d"
    "nv_image g (d\<lparr>ip_change_flag := x_ip_change_flag\<rparr>) = nv_image g d"
  using assms by (cases g; simp add: WriteFieldPara_body_def)+

lemma nv_image_other [frame_simps]:
  "g \<noteq> NvControl \<Longrightarrow> g \<noteq> NvConfig \<Longrightarrow> nv_image g (d\<lparr>config_code := y_config_code\<rparr>) = nv_image g d"
  "g \<noteq> NvControl \<Longrightarrow> g \<noteq> NvThrd \<Longrightarrow> nv_image g (d\<lparr>alarm_threshold_up_dif := y_alarm_threshold_up_dif\<rparr>) = nv_image g d"
  "g \<noteq> NvControl \<Longrightarrow> g \<noteq> NvThrd \<Longrightarrow> nv_image g (d\<lparr>alarm_threshold_down_dif := y_alarm_threshold_down_dif\<rparr>) = nv_image g d"
  "g \<noteq> NvControl \<Longrightarrow> g \<noteq> NvSw \<Longrightarrow> nv_image g (d\<lparr>SW_Type := y_SW_Type\<rparr>) = nv_image g d"
  "g \<noteq> NvControl \<Longrightarrow> g \<noteq> NvRange \<Longrightarrow> nv_image g (d\<lparr>tension_max_range := y_tension_max_range\<rparr>) = nv_image g d"
  "g \<noteq> NvControl \<Longrightarrow> g \<noteq> NvAuto \<Longrightarrow> nv_image g (d\<lparr>base_auto_calibrate_time := y_base_auto_calibrate_time\<rparr>) = nv_image g d"
  "g \<noteq> NvControl \<Longrightarrow> g \<noteq> NvField \<Longrightarrow> nv_image g (d\<lparr>field_num := y_field_num\<rparr>) = nv_image g d"
  "g \<noteq> NvControl \<Longrightarrow> g \<noteq> NvField \<Longrightarrow> nv_image g (d\<lparr>alarm_delay := y_alarm_delay\<rparr>) = nv_image g d"
  "g \<noteq> NvControl \<Longrightarrow> g \<noteq> NvField \<Longrightarrow> nv_image g (d\<lparr>alarm_sensitivity := y_alarm_sensitivity\<rparr>) = nv_image g d"
  "g \<noteq> NvControl \<Longrightarrow> g \<noteq> NvField \<Longrightarrow> nv_image g (d\<lparr>ten_val_range := y_ten_val_range\<rparr>) = nv_image g d"
  "g \<noteq> NvControl \<Longrightarrow> g \<noteq> NvNet \<Longrightarrow> nv_image g (d\<lparr>lw_mac := y_lw_mac\<rparr>) = nv_image g d"
  "g \<noteq> NvControl \<Longrightarrow> g \<noteq> NvNet \<Longrightarrow> nv_image g (d\<lparr>lw_ip := y_lw_ip\<rparr>) = nv_image g d"
  "g \<noteq> NvControl \<Longrightarrow> g \<noteq> NvNet \<Longrightarrow> nv_image g (d\<lparr>lw_netmask := y_lw_netmask\<rparr>) = nv_image g d"
  "g \<noteq> NvControl \<Longrightarrow> g \<noteq> NvNet \<Longrightarrow> nv_image g (d\<lparr>lw_gateway := y_lw_gateway\<rparr>) = nv_image g d"
  by (cases g; simp add: WriteFieldPara_body_def)+

lemma nv_image_zero [frame_simps]:
  "g \<noteq> NvControl \<Longrightarrow> g \<noteq> NvZeroA \<Longrightarrow> g \<noteq> NvZeroB \<Longrightarrow> nv_image g (d\<lparr>zero_val := z\<rparr>) = nv_image g d"
  "g \<noteq> NvControl \<Longrightarrow> g \<noteq> NvBaseA \<Longrightarrow> g \<noteq> NvBaseB \<Longrightarrow> nv_image g (d\<lparr>base_val := z\<rparr>) = nv_image g d"
  by (cases g; simp add: WriteFieldPara_body_def)+

lemma inv_on_frame [simp]:
  assumes "NvControl \<notin> G"
  shows "inv_on G (d\<lparr>FANG_CHAI := x_FANG_CHAI\<rparr>) = inv_on G d"
    "inv_on G (d\<lparr>SW1 := x_SW1\<rparr>) = inv_on G d"
    "inv_on G (d\<lparr>SW2 := x_SW2\<rparr>) = inv_on G d"
    "inv_on G (d\<lparr>FIELD_FLAG_S0D1 := x_FIELD_FLAG_S0D1\<rparr>) = inv_on G d"
    "inv_on G (d\<lparr>RL_A := x_RL_A\<rparr>) = inv_on G d"
    "inv_on G (d\<lparr>RL_B := x_RL_B\<rparr>) = inv_on G d"
    "inv_on G (d\<lparr>LED_FANG_CHAI := x_LED_FANG_CHAI\<rparr>) = inv_on G d"
    "inv_on G (d\<lparr>LED_OPEN := x_LED_OPEN\<rparr>) = inv_on G d"
    "inv_on G (d\<lparr>LED_INVD := x_LED_INVD\<rparr>) = inv_on G d"
    "inv_on G (d\<lparr>LED_BU_FANG := x_LED_BU_FANG\<rparr>) = inv_on G d"
    "inv_on G (d\<lparr>LED_RUN := x_LED_RUN\<rparr>) = inv_on G d"
    "inv_on G (d\<lparr>LCD_BLA := x_LCD_BLA\<rparr>) = inv_on G d"
    "inv_on G (d\<lparr>ADC_CTRL0 := x_ADC_CTRL0\<rparr>) = inv_on G d"
    "inv_on G (d\<lparr>ADC_CTRL1 := x_ADC_CTRL1\<rparr>) = inv_on G d"
    "inv_on G (d\<lparr>ADC_CTRL2 := x_ADC_CTRL2\<rparr>) = inv_on G d"
    "inv_on G (d\<lparr>ADC_CTRL3 := x_ADC_CTRL3\<rparr>) = inv_on G d"
    "inv_on G (d\<lparr>sys_reset := x_sys_reset\<rparr>) = inv_on G d"
    "inv_on G (d\<lparr>ALARM_STATE := x_ALARM_STATE\<rparr>) = inv_on G d"
    "inv_on G (d\<lparr>ALARM_STATE_DELAY := x_ALARM_STATE_DELAY\<rparr>) = inv_on G d"
    "inv_on G (d\<lparr>flag_fcgjsn := x_flag_fcgjsn\<rparr>) = inv_on G d"
    "inv_on G (d\<lparr>adc_invd_crt := x_adc_invd_crt\<rparr>) = inv_on G d"
    "inv_on G (d\<lparr>adc_open_crt := x_adc_open_crt\<rparr>) = inv_on G d"
    "inv_on G (d\<lparr>adc_relax_crt := x_adc_relax_crt\<rparr>) = inv_on G d"
    "inv_on G (d\<lparr>BU_FANG_A_FLAG := x_BU_FANG_A_FLAG\<rparr>) = inv_on G d"
    "inv_on G (d\<lparr>BU_FANG_B_FLAG := x_BU_FANG_B_FLAG\<rparr>) = inv_on G d"
    "inv_on G (d\<lparr>FCAlmVerifyCnt := x_FCAlmVerifyCnt\<rparr>) = inv_on G d"
    "inv_on G (d\<lparr>adcIvdAlmVerifyCnt := x_adcIvdAlmVerifyCnt\<rparr>) = inv_on G d"
    "inv_on G (d\<lparr>adcOpnAlmVerifyCnt := x_adcOpnAlmVerifyCnt\<rparr>) = inv_on G d"
    "inv_on G (d\<lparr>adcRlxAlmVerifyCnt := x_adcRlxAlmVerifyCnt\<rparr>) = inv_on G d"
    "inv_on G (d\<lparr>alarmingCnt := x_alarmingCnt\<rparr>) = inv_on G d"
    "inv_on G (d\<lparr>W4_W6 := x_W4_W6\<rparr>) = inv_on G d"
    "inv_on G (d\<lparr>SW_Alarm := x_SW_Alarm\<rparr>) = inv_on G d"
    "inv_on G (d\<lparr>remote_shutdown := x_remote_shutdown\<rparr>) = inv_on G d"
    "inv_on G (d\<lparr>crt_smp := x_crt_smp\<rparr>) = inv_on G d"
    "inv_on G (d\<lparr>crt_val := x_crt_val\<rparr>) = inv_on G d"
    "inv_on G (d\<lparr>calibrating_flag := x_calibrating_flag\<rparr>) = inv_on G d"
    "inv_on G (d\<lparr>calibrate_en := x_calibrate_en\<rparr>) = inv_on G d"
    "inv_on G (d\<lparr>calibrate_temp_val := x_calibrate_temp_val\<rparr>) = inv_on G d"
    "inv_on G (d\<lparr>calibrate_adc_cnt := x_calibrate_adc_cnt\<rparr>) = inv_on G d"
    "inv_on G (d\<lparr>init_done := x_init_done\<rparr>) = inv_on G d"
    "inv_on G (d\<lparr>adc_src := x_adc_src\<rparr>) = inv_on G d"
    "inv_on G (d\<lparr>adc_time := x_adc_time\<rparr>) = inv_on G d"
    "inv_on G (d\<lparr>crtReadAddrVal := x_crtReadAddrVal\<rparr>) = inv_on G d"
    "inv_on G (d\<lparr>crtWebLogPageNum := x_crtWebLogPageNum\<rparr>) = inv_on G d"
    "inv_on G (d\<lparr>lastWebPageLogNum := x_lastWebPageLogNum\<rparr>) = inv_on G d"
    "inv_on G (d\<lparr>lastLCDPageLogNum := x_lastLCDPageLogNum\<rparr>) = inv_on G d"
    "inv_on G (d\<lparr>webLogPageFlag := x_webLogPageFlag\<rparr>) = inv_on G d"
    "inv_on G (d\<lparr>LCDLogPageFlag := x_LCDLogPageFlag\<rparr>) = inv_on G d"
    "inv_on G (d\<lparr>logType := x_logType\<rparr>) = inv_on G d"
    "inv_on G (d\<lparr>lastWebPageReadDir := x_lastWebPageReadDir\<rparr>) = inv_on G d"
    "inv_on G (d\<lparr>lastLCDPageReadDir := x_lastLCDPageReadDir\<rparr>) = inv_on G d"
    "inv_on G (d\<lparr>crtWebPageLogData := x_crtWebPageLogData\<rparr>) = inv_on G d"
    "inv_on G (d\<lparr>web_page_overrun := x_web_page_overrun\<rparr>) = inv_on G d"
    "inv_on G (d\<lparr>crtLCDPageLogData := x_crtLCDPageLogData\<rparr>) = inv_on G d"
    "inv_on G (d\<lparr>lm75TempCnt := x_lm75TempCnt\<rparr>) = inv_on G d"
    "inv_on G (d\<lparr>rtcTimeCnt := x_rtcTimeCnt\<rparr>) = inv_on G d"
    "inv_on G (d\<lparr>alarmCheckCnt := x_alarmCheckCnt\<rparr>) = inv_on G d"
    "inv_on G (d\<lparr>adcCalibrateCnt := x_adcCalibrateCnt\<rparr>) = inv_on G d"
    "inv_on G (d\<lparr>baseAutoCalibrateCnt := x_baseAutoCalibrateCnt\<rparr>) = inv_on G d"
    "inv_on G (d\<lparr>timerHandlerFlag := x_timerHandlerFlag\<rparr>) = inv_on G d"
    "inv_on G (d\<lparr>run_screen_refresh := x_run_screen_refresh\<rparr>) = inv_on G d"
    "inv_on G (d\<lparr>lw_remoteip := x_lw_remoteip\<rparr>) = inv_on G d"
    "inv_on G (d\<lparr>lw_dhcpstatus := x_lw_dhcpstatus\<rparr>) = inv_on G d"
    "inv_on G (d\<lparr>ip_change_flag := x_ip_change_flag\<rparr>) = inv_on G d"
  using assms by - (rule inv_on_cong, simp, simp, simp, rule nv_image_frame, blast)+

lemma inv_on_other [simp]:
  assumes "NvControl \<notin> G"
  shows "NvConfig \<notin> G \<Longrightarrow> inv_on G (d\<lparr>config_code := y_config_code\<rparr>) = inv_on G d"
    "NvThrd \<notin> G \<Longrightarrow> inv_on G (d\<lparr>alarm_threshold_up_dif := y_alarm_threshold_up_dif\<rparr>) = inv_on G d"
    "NvThrd \<notin> G \<Longrightarrow> inv_on G (d\<lparr>alarm_threshold_down_dif := y_alarm_threshold_down_dif\<rparr>) = inv_on G d"
    "NvSw \<notin> G \<Longrightarrow> inv_on G (d\<lparr>SW_Type := y_SW_Type\<rparr>) = inv_on G d"
    "NvRange \<notin> G \<Longrightarrow> inv_on G (d\<lparr>tension_max_range := y_tension_max_range\<rparr>) = inv_on G d"
    "NvAuto \<notin> G \<Longrightarrow> inv_on G (d\<lparr>base_auto_calibrate_time := y_base_auto_calibrate_time\<rparr>) = inv_on G d"
    "NvField \<notin> G \<Longrightarrow> inv_on G (d\<lparr>field_num := y_field_num\<rparr>) = inv_on G d"
    "NvField \<notin> G \<Longrightarrow> inv_on G (d\<lparr>alarm_delay := y_alarm_delay\<rparr>) = inv_on G d"
    "NvField \<notin> G \<Longrightarrow> inv_on G (d\<lparr>alarm_sensitivity := y_alarm_sensitivity\<rparr>) = inv_on G d"
    "NvField \<notin> G \<Longrightarrow> inv_on G (d\<lparr>ten_val_range := y_ten_val_range\<rparr>) = inv_on G d"
    "NvNet \<notin> G \<Longrightarrow> inv_on G (d\<lparr>lw_mac := y_lw_mac\<rparr>) = inv_on G d"
    "NvNet \<notin> G \<Longrightarrow> inv_on G (d\<lparr>lw_ip := y_lw_ip\<rparr>) = inv_on G d"
    "NvNet \<notin> G \<Longrightarrow> inv_on G (d\<lparr>lw_netmask := y_lw_netmask\<rparr>) = inv_on G d"
    "NvNet \<notin> G \<Longrightarrow> inv_on G (d\<lparr>lw_gateway := y_lw_gateway\<rparr>) = inv_on G d"
    "NvZeroA \<notin> G \<Longrightarrow> NvZeroB \<notin> G \<Longrightarrow> inv_on G (d\<lparr>zero_val := z\<rparr>) = inv_on G d"
    "NvBaseA \<notin> G \<Longrightarrow> NvBaseB \<notin> G \<Longrightarrow> inv_on G (d\<lparr>base_val := z\<rparr>) = inv_on G d"
  using assms by - (rule inv_on_cong, simp, simp, simp, rule nv_image_other nv_image_zero; blast)+

subsection \<open>Saving a group\<close>

lemma high_cells:
  assumes "\<And>b. 224 \<le> unat b \<Longrightarrow> unat b < 32767 \<Longrightarrow> eemem e b = eemem d b" "t < 5"
  shows "k < 300 \<Longrightarrow> slot e t k = slot d t k" "stored_pos e t = stored_pos d t"
proof -
  show "slot e t k = slot d t k" if k: "k < 300"
    unfolding slot_def
  proof (rule ee.rds_cong)
    fix i :: nat assume i: "i < 20"
    have "unat (of_nat (slot_addr t k) + of_nat i :: u16) = slot_addr t k + i"
      using i k assms(2) slot_addr_bound [of t k] by (simp add: unat_word_ariths unat_of_nat)
    with slot_addr_low [of t k] slot_addr_bound [of t k] assms k i
    show "AT24CXX_ReadOneByte e (of_nat (slot_addr t k) + of_nat i) =
          AT24CXX_ReadOneByte d (of_nat (slot_addr t k) + of_nat i)" by simp
  qed
  show "stored_pos e t = stored_pos d t"
    using assms by (intro ReadLenByte_2_cong) simp_all
qed

lemma log_wf_high:
  assumes "\<And>b. 224 \<le> unat b \<Longrightarrow> unat b < 32767 \<Longrightarrow> eemem e b = eemem d b" "t < 5"
    and "nextWriteAddrVal e t = nextWriteAddrVal d t" "log_wf t d"
  shows "log_wf t e" "log_abs t e = log_abs t d"
  using log_transfer [OF assms(2) _ assms(3) _ assms(4), of] high_cells [OF assms(1,2)]
    log_wf_stored [OF assms(4)] by simp_all

lemma inv_on_nv_save: "inv_on G d \<Longrightarrow> inv_on (insert g G) (nv_save g d)"
proof -
  assume store_ok: "inv_on G d"
  have nxt: "nextWriteAddrVal (nv_save g d) = nextWriteAddrVal d" "rtcTempStr (nv_save g d) = rtcTempStr d"
    by (simp_all add: nv_save_writes)
  have "log_wf t (nv_save g d)" if "t < 5" for t
    using log_wf_high(1) [of "nv_save g d" d t] nv.save_leaves_high that store_ok nxt
    by (simp add: inv_on_def)
  moreover have "nv.stored g' (nv_save g d) = nv_image g' (nv_save g d)" if "g' \<in> insert g G" for g'
    using store_ok that by (auto simp: nv.stored_save inv_on_def)
  ultimately show ?thesis using store_ok nxt by (simp add: inv_on_def rtc_ok_def)
qed

lemma inv_nv_save: "inv_on (durable - {g}) d \<Longrightarrow> store_ok (nv_save g d)"
  using inv_on_nv_save [of "durable - {g}" d g] inv_on_mono [of _ _ durable] by blast

lemmas inv_save =
  inv_nv_save [of NvNet, simplified] inv_nv_save [of NvConfig, simplified]
  inv_nv_save [of NvZeroA, simplified] inv_nv_save [of NvZeroB, simplified]
  inv_nv_save [of NvBaseA, simplified] inv_nv_save [of NvBaseB, simplified]
  inv_nv_save [of NvThrd, simplified] inv_nv_save [of NvControl, simplified]
  inv_nv_save [of NvSw, simplified] inv_nv_save [of NvRange, simplified]
  inv_nv_save [of NvAuto, simplified] inv_nv_save [of NvField, simplified]

lemma durable_Diff [simp]: "durable - {NvNet} = durable" "durable - {NvControl} = durable" "durable - {NvSw} = durable"
  by (auto simp: durable_def)

lemma inv_Diff: "store_ok d \<Longrightarrow> inv_on (durable - {g}) d"
  by (rule inv_on_mono) auto

subsection \<open>The logs\<close>

lemma inv_log: "inv_on G d \<Longrightarrow> t < 5 \<Longrightarrow> log_wf t d" and inv_rtc: "inv_on G d \<Longrightarrow> rtc_ok d"
  by (simp_all add: inv_on_def)

lemma stored_other_writes:
  assumes "\<And>b. unat b < 224 \<Longrightarrow> eemem e b = eemem d b"
  shows "nv.stored g e = nv.stored g d"
  unfolding nv.stored_def
proof (rule ee.rds_cong)
  fix i assume i: "i < nv_len g"
  have "unat (nv_addr g + of_nat i) = unat (nv_addr g) + i"
    using i nv_fits [of g] by (simp add: unat_word_ariths unat_of_nat)
  then show "AT24CXX_ReadOneByte e (nv_addr g + of_nat i) = AT24CXX_ReadOneByte d (nv_addr g + of_nat i)"
    using assms i nv_fits [of g] by simp
qed

lemma eemem_Write_low:
  assumes "unat b < 224" "224 \<le> unat a" "unat a + length bs \<le> 65536"
  shows "eemem (AT24CXX_Write a bs d) b = eemem d b"
proof -
  have "length bs \<le> unat (b - a)"
    using assms unsigned_less [of a] by (simp add: unat_sub_if_size word_size)
  with assms show ?thesis by (simp add: eemem_Write)
qed

lemma WriteLog_low:
  assumes "t < 5" "log_wf t d" "rtc_ok d" "unat b < 224"
  shows "eemem (WriteLog t f d) b = eemem d b"
proof -
  have len: "length (rtcTempStr d) = 19" using assms(3) by (simp add: rtc_ok_def)
  have ne: "b \<noteq> LOG_NEXT_W_ADDR t" "b \<noteq> LOG_NEXT_W_ADDR t + 1"
    using assms(1,4) by (auto simp: word_unat_eq_iff)
  show ?thesis
    using assms len ne log_wf_pos [OF assms(2)] log_wf_next [OF assms(2)] slot_addr_bound [of t "log_pos t d"]
      slot_addr_low [of t "log_pos t d"]
    by (simp add: WriteLog_shape Let_def eemem_WriteLenByte_2 eemem_Write_low)
qed

lemma nv_image_Write [simp]: "nv_image g (AT24CXX_Write a bs d) = nv_image g d"
  by (subst AT24CXX_Write_only_mem) (rule nv_image_mem)

lemma nv_image_log_fields [simp]:
  "nv_image g (d\<lparr>nextWriteAddrVal := n\<rparr>) = nv_image g d" "nv_image g (d\<lparr>rtcTempStr := r\<rparr>) = nv_image g d"
  by (cases g; simp add: WriteFieldPara_body_def controlPara_def)+

lemma nv_image_WriteLog:
  assumes "t < 5" "log_wf t d" "g \<noteq> NvControl"
  shows "nv_image g (WriteLog t f d) = nv_image g d"
  using assms log_wf_pos [OF assms(2)] log_wf_next [OF assms(2)]
  by (simp add: WriteLog_shape Let_def WriteLenByte_2 nv_image_frame del: AT24CXX_Write.simps)

lemma rtcTempStr_WriteLog:
  "t < 5 \<Longrightarrow> log_wf t d \<Longrightarrow> rtcTempStr (WriteLog t f d) = rtcTempStr d"
  using log_wf_pos [of t d] log_wf_next [of t d] by (simp add: WriteLog_shape Let_def)

lemma inv_on_WriteLog:
  assumes "inv_on G d" "t < 5" "NvControl \<notin> G"
  shows "inv_on G (WriteLog t f d)"
proof -
  have wf: "log_wf t d" and rtc: "rtc_ok d" using assms by (simp_all add: inv_on_def)
  have "nv.stored g (WriteLog t f d) = nv.stored g d" for g
    by (rule stored_other_writes) (rule WriteLog_low [OF assms(2) wf rtc])
  moreover have "nv_image g (WriteLog t f d) = nv_image g d" if "g \<in> G" for g
    using that assms(3) by (intro nv_image_WriteLog [OF assms(2) wf]) blast
  ultimately show ?thesis
    using assms wf rtc
    by (auto simp: inv_on_def rtc_ok_def rtcTempStr_WriteLog log_wf_WriteLog_any)
qed

text \<open>Starting from the stored positions, and erasing, keep the parameters too.\<close>

lemma Log_Init_body_low: "t < 5 \<Longrightarrow> unat b < 224 \<Longrightarrow> eemem (Log_Init_body t d) b = eemem d b"
proof -
  assume t: "t < 5" "unat b < 224"
  have "b \<noteq> LOG_NEXT_W_ADDR t" "b \<noteq> LOG_NEXT_W_ADDR t + 1"
    using t by (auto simp: word_unat_eq_iff)
  then show ?thesis by (simp add: Log_Init_body_def Let_def eemem_WriteLenByte_2)
qed

lemma Log_Init_body_frame:
  "nv_image g (Log_Init_body t d) = nv_image g d" "rtcTempStr (Log_Init_body t d) = rtcTempStr d"
  by (simp_all add: Log_Init_body_def Let_def WriteLenByte_2 del: AT24CXX_Write.simps)

lemma Log_Init_frame:
  "unat b < 224 \<Longrightarrow> eemem (Log_Init d) b = eemem d b"
  "g \<noteq> NvControl \<Longrightarrow> nv_image g (Log_Init d) = nv_image g d"
  "rtcTempStr (Log_Init d) = rtcTempStr d"
proof -
  have *: "(\<forall>t\<in>set ts. t < 5) \<Longrightarrow>
      (unat b < 224 \<longrightarrow> eemem (fold Log_Init_body ts d) b = eemem d b) \<and>
      nv_image g (fold Log_Init_body ts d) = nv_image g d \<and>
      rtcTempStr (fold Log_Init_body ts d) = rtcTempStr d" for ts
    by (induction ts arbitrary: d) (simp_all add: Log_Init_body_frame Log_Init_body_low)
  show "unat b < 224 \<Longrightarrow> eemem (Log_Init d) b = eemem d b"
    "g \<noteq> NvControl \<Longrightarrow> nv_image g (Log_Init d) = nv_image g d"
    "rtcTempStr (Log_Init d) = rtcTempStr d"
    using * [of "[0..<5]"] by (simp_all add: Log_Init_def Let_def nv_image_frame)
qed

lemma erase_heads_low:
  "t < 5 \<Longrightarrow> K \<subseteq> {..<300} \<Longrightarrow> unat b < 224 \<Longrightarrow> eemem (erase_heads t K d) b = eemem d b"
proof -
  assume a: "t < 5" "K \<subseteq> {..<300}" "unat b < 224"
  have "b \<noteq> of_nat (slot_addr t k)" if "k \<in> K" for k
  proof
    assume b: "b = of_nat (slot_addr t k)"
    have "k < 300" using that a(2) by auto
    with b a(1) have "unat b = slot_addr t k" by simp
    with a(3) slot_addr_low [of t k] show False by simp
  qed
  then show ?thesis by (auto simp: erase_heads_def)
qed

lemma inv_on_FastClearLog:
  assumes "inv_on G d" "t < 5" "NvControl \<notin> G" "FastClearLog t d = Some d'"
  shows "inv_on G d'"
proof -
  have wf: "log_wf t d" using assms by (simp add: inv_on_def)
  define e where "e = EraseEEProm (LOG_NEXT_W_ADDR t) 2 d"
  obtain n where n: "n \<le> 300" and d': "d' = Log_Init ((erase_heads t {..<n} e)\<lparr>crtWebPageLogData := []\<rparr>)"
    using FastClearLog_erases [OF assms(2) wf] assms(4) by (auto simp: e_def)
  have low: "eemem d' b = eemem d b" if "unat b < 224" for b
  proof -
    have "b \<noteq> LOG_NEXT_W_ADDR t" "b \<noteq> LOG_NEXT_W_ADDR t + 1"
      using that assms(2) by (auto simp: word_unat_eq_iff)
    then have "eemem e b = eemem d b" by (simp add: e_def erase_pos_Write)
    then show ?thesis
      using that n assms(2) by (simp add: d' Log_Init_frame erase_heads_low)
  qed
  have img: "nv_image g d' = nv_image g d" if "g \<noteq> NvControl" for g
    using that by (simp add: d' Log_Init_frame nv_image_frame erase_heads_def nv_image_mem e_def erase_pos_Write
        del: AT24CXX_Write.simps)
  have rtc: "rtcTempStr d' = rtcTempStr d"
    by (simp add: d' Log_Init_frame erase_heads_def e_def erase_pos_Write del: AT24CXX_Write.simps)
  have st: "nv.stored g d' = nv.stored g d" for g by (rule stored_other_writes) (rule low)
  have "log_wf t' d'" if "t' < 5" for t'
  proof -
    obtain d'' where "FastClearLog t d = Some d''" "log_wf t d''"
      "\<forall>t'<5. t' \<noteq> t \<longrightarrow> log_wf t' d \<longrightarrow> log_wf t' d'' \<and> log_abs t' d'' = log_abs t' d"
      using FastClearLog_spec [OF assms(2) wf] by blast
    with assms(1,4) that show ?thesis by (cases "t' = t") (auto simp: inv_on_def)
  qed
  moreover have "nv_image g d' = nv_image g d" if "g \<in> G" for g
    using that assms(3) by (intro img) blast
  ultimately show ?thesis using assms(1) rtc st by (auto simp: inv_on_def rtc_ok_def)
qed

end
