(* ===== verification/Firmware.thy ===== *)
theory Firmware
  imports MenuEffect Durable
begin

text \<open>
  The firmware as a system of handlers: every interrupt, every test of the watch task, every
  message and request is a step that runs to completion, in any order; the menu acts on the same device.  \<open>handlers\<close> is the interface
  of such a system; its instance \<open>fw\<close> shows that no step loses what \<open>store_ok\<close> promises, so that in
  every state the device can reach without having asked for a restart the logs are well formed and
  the EEPROM holds the parameters.
\<close>

locale handlers =
  fixes step :: "'s \<Rightarrow> 's \<Rightarrow> bool"
    and safe :: "'s \<Rightarrow> bool"
  assumes keeps: "step s t \<Longrightarrow> safe s \<Longrightarrow> safe t"
begin

lemma reachable_safe: "step\<^sup>*\<^sup>* s t \<Longrightarrow> safe s \<Longrightarrow> safe t"
  by (induction rule: rtranclp_induct) (auto intro: keeps)

end

named_theorems keeps_inv \<open>operations that keep the invariant of the store\<close>

subsection \<open>Alarm words, lamps, switches\<close>

lemma inv_alarm_words [simp]:
  assumes "NvControl \<notin> G"
  shows
  "inv_on G (Alarm_RL_A d) = inv_on G d" "inv_on G (Remove_Alarm_RL_A d) = inv_on G d"
  "inv_on G (Alarm_RL_B d) = inv_on G d" "inv_on G (Remove_Alarm_RL_B d) = inv_on G d"
  "inv_on G (Set_Alarm_State_Util_Clear m d) = inv_on G d" "inv_on G (clear_state m d) = inv_on G d"
  "inv_on G (ALARM_Update d) = inv_on G d" "inv_on G (updateSWAlarmState n d) = inv_on G d"
  "inv_on G (set_flag n d) = inv_on G d" "inv_on G (take_flag n d) = inv_on G d" "inv_on G (SystemReset d) = inv_on G d"
  "inv_on G (Sys_Soft_Reset d) = inv_on G d" "inv_on G (remoteShutdown s d) = inv_on G d" "inv_on G (removeAlarmRL fld d) = inv_on G d"
  "inv_on G (updateZeroVal f d) = inv_on G d" "inv_on G (updateBaseVal f d) = inv_on G d" "inv_on G (set_crt t a d) = inv_on G d"
  "inv_on G (updateLogPageFlag t fl d) = inv_on G d" "inv_on G (put_row r bs d) = inv_on G d" "inv_on G (set_auto_cnt i v d) = inv_on G d"
  using assms by (simp_all add: Alarm_RL_A_def Remove_Alarm_RL_A_def Alarm_RL_B_def Remove_Alarm_RL_B_def
      Set_Alarm_State_Util_Clear_def clear_state_def ALARM_Update_def updateSWAlarmState_def set_flag_def
      take_flag_def SystemReset_def Sys_Soft_Reset_def remoteShutdown_def removeAlarmRL_def
      updateZeroVal_def updateBaseVal_def set_crt_def updateLogPageFlag_def put_row_def set_auto_cnt_def Let_def)

lemma FANG_CHAI_Check_inv [keeps_inv]: "store_ok d \<Longrightarrow> store_ok (fst (FANG_CHAI_Check d))"
  by (auto simp: FANG_CHAI_Check_def Let_def intro!: inv_on_WriteLog)

subsection \<open>Saving setters\<close>

lemma setters_inv [keeps_inv]:
  assumes "store_ok d"
  shows "store_ok (FangChai_Start d)" "store_ok (FangChai_Stop d)" "store_ok (Push_A_Start d)" "store_ok (Push_A_Stop d)"
    "store_ok (Push_B_Start d)" "store_ok (Push_B_Stop d)" "store_ok (setAlmThrdUpDif v d)" "store_ok (setAlmThrdDwDif v d)"
    "store_ok (setFieldNum i n d)" "store_ok (setAlarmDelay i v d)" "store_ok (setAlarmSensitivity i n d)"
    "store_ok (setTenValRange i h v d)" "store_ok (modifyFieldNum n m d)" "store_ok (modifyAlarmDelay n v d)"
    "store_ok (modifyBFFlag n v d)" "store_ok (setTensionMaxRange v d)" "store_ok (setBaseAutoCalibrateTime v d)"
    "store_ok (setSWValue v d)" "store_ok (setConfigCode n d)" "store_ok (lwip_reset_netif_ipaddr d)"
  using assms inv_Diff [OF assms]
  by (auto simp: FangChai_Start_def FangChai_Stop_def Push_A_Start_def Push_A_Stop_def Push_B_Start_def
      Push_B_Stop_def setAlmThrdUpDif_def setAlmThrdDwDif_def setFieldNum_def setAlarmDelay_def
      setAlarmSensitivity_def setTenValRange_def modifyFieldNum_def modifyAlarmDelay_def modifyBFFlag_def
      setTensionMaxRange_def setBaseAutoCalibrateTime_def setConfigCode_def setSWValue_def
      lwip_reset_netif_ipaddr_def Let_def intro!: inv_save)

subsection \<open>Measuring\<close>

lemma inv_ADC_CK_EN [simp]:
  "NvControl \<notin> G \<Longrightarrow> inv_on G (A_ADC_CK_EN i d) = inv_on G d"
  "NvControl \<notin> G \<Longrightarrow> inv_on G (B_ADC_CK_EN i d) = inv_on G d"
  by (simp_all add: A_ADC_CK_EN_def B_ADC_CK_EN_def)

lemma inv_Get_Adc [simp]: "NvControl \<notin> G \<Longrightarrow> inv_on G (fst (Get_Adc ch d)) = inv_on G d"
  by (simp add: Get_Adc_def)

lemma inv_sample_line [simp]:
  "NvControl \<notin> G \<Longrightarrow> inv_on G (snd (sample_line f i s)) = inv_on G (snd s)"
  by (cases s) (simp add: sample_line_def case_prod_beta Let_def)

lemma inv_sample_round [simp]:
  assumes "NvControl \<notin> G"
  shows "inv_on G (snd (sample_round f s)) = inv_on G (snd s)"
proof -
  have "inv_on G (snd (fold (sample_line f) is s)) = inv_on G (snd s)" for "is"
    using assms by (induction "is" arbitrary: s) simp_all
  then show ?thesis by (simp add: sample_round_def)
qed

lemma inv_sample_rounds [simp]:
  assumes "NvControl \<notin> G"
  shows "inv_on G (snd ((sample_round f ^^ n) s)) = inv_on G (snd s)"
  using assms by (induction n arbitrary: s) simp_all

lemma inv_sampleAdc_run [simp]:
  "NvControl \<notin> G \<Longrightarrow> inv_on G (sampleAdc_run f n d) = inv_on G d"
  by (simp add: sampleAdc_run_def case_prod_beta Let_def)

lemma inv_updateCrtSmp [simp]:
  "NvControl \<notin> G \<Longrightarrow> inv_on G (updateCrtSmp f d) = inv_on G d"
  by (simp add: updateCrtSmp_def Let_def)

lemma inv_ADC_Check [simp]: "NvControl \<notin> G \<Longrightarrow> inv_on G (ADC_Check f d) = inv_on G d"
  by (simp add: ADC_Check_def case_prod_beta Let_def)

lemma adc_steps_inv [keeps_inv]:
  assumes "store_ok d"
  shows "store_ok (ivd_step f p d)" "store_ok (opn_step f p d)" "store_ok (rlx_step f p d)"
  using assms by (auto simp: ivd_step_def opn_step_def rlx_step_def Let_def intro!: inv_on_WriteLog)

lemma ADC_Check_Handler_inv [keeps_inv]: "store_ok d \<Longrightarrow> store_ok (ADC_Check_Handler f d)"
  by (simp add: ADC_Check_Handler_def Let_def keeps_inv)

text \<open>A calibration changes one zone's group.\<close>

lemma inv_on_zone:
  assumes "NvControl \<notin> G"
  shows "NvZeroA \<notin> G \<Longrightarrow> inv_on G (d\<lparr>zero_val := (zero_val d)(0 := z)\<rparr>) = inv_on G d"
    and "NvZeroB \<notin> G \<Longrightarrow> inv_on G (d\<lparr>zero_val := (zero_val d)(1 := z)\<rparr>) = inv_on G d"
    and "NvBaseA \<notin> G \<Longrightarrow> inv_on G (d\<lparr>base_val := (base_val d)(0 := z)\<rparr>) = inv_on G d"
    and "NvBaseB \<notin> G \<Longrightarrow> inv_on G (d\<lparr>base_val := (base_val d)(1 := z)\<rparr>) = inv_on G d"
proof -
  have ne: "g \<noteq> NvControl" if "g \<in> G" for g using that assms by blast
  have "nv_image g (d\<lparr>zero_val := (zero_val d)(0 := z)\<rparr>) = nv_image g d" if "g \<noteq> NvControl" "g \<noteq> NvZeroA" for g
    using that by (cases g) (simp_all add: WriteFieldPara_body_def)
  with ne show "inv_on G (d\<lparr>zero_val := (zero_val d)(0 := z)\<rparr>) = inv_on G d" if "NvZeroA \<notin> G"
    using that by (intro inv_on_cong) (simp, simp, simp, metis)
  have "nv_image g (d\<lparr>zero_val := (zero_val d)(1 := z)\<rparr>) = nv_image g d" if "g \<noteq> NvControl" "g \<noteq> NvZeroB" for g
    using that by (cases g) (simp_all add: WriteFieldPara_body_def)
  with ne show "inv_on G (d\<lparr>zero_val := (zero_val d)(1 := z)\<rparr>) = inv_on G d" if "NvZeroB \<notin> G"
    using that by (intro inv_on_cong) (simp, simp, simp, metis)
  have "nv_image g (d\<lparr>base_val := (base_val d)(0 := z)\<rparr>) = nv_image g d" if "g \<noteq> NvControl" "g \<noteq> NvBaseA" for g
    using that by (cases g) (simp_all add: WriteFieldPara_body_def)
  with ne show "inv_on G (d\<lparr>base_val := (base_val d)(0 := z)\<rparr>) = inv_on G d" if "NvBaseA \<notin> G"
    using that by (intro inv_on_cong) (simp, simp, simp, metis)
  have "nv_image g (d\<lparr>base_val := (base_val d)(1 := z)\<rparr>) = nv_image g d" if "g \<noteq> NvControl" "g \<noteq> NvBaseB" for g
    using that by (cases g) (simp_all add: WriteFieldPara_body_def)
  with ne show "inv_on G (d\<lparr>base_val := (base_val d)(1 := z)\<rparr>) = inv_on G d" if "NvBaseB \<notin> G"
    using that by (intro inv_on_cong) (simp, simp, simp, metis)
qed

lemmas inv_on_zones = inv_on_zone inv_on_zone [unfolded One_nat_def]

lemma calibrate_inv [keeps_inv]:
  assumes "store_ok d" "f < 2"
  shows "store_ok (calibrate_zero f d)" "store_ok (calibrate_base f d)"
proof -
  have f: "f = 0 \<or> f = 1" using assms(2) by auto
  show "store_ok (calibrate_zero f d)"
    using f assms(1) inv_save(3) [of "d\<lparr>zero_val := (zero_val d)(0 := z)\<rparr>" for z]
      inv_save(4) [of "d\<lparr>zero_val := (zero_val d)(1 := z)\<rparr>" for z]
    by (elim disjE) (simp_all add: calibrate_zero_def inv_on_zones inv_Diff)
  show "store_ok (calibrate_base f d)"
    using f assms(1) inv_save(5) [of "d\<lparr>base_val := (base_val d)(0 := z)\<rparr>" for z]
      inv_save(6) [of "d\<lparr>base_val := (base_val d)(1 := z)\<rparr>" for z]
    by (elim disjE) (simp_all add: calibrate_base_def inv_on_zones inv_Diff)
qed

lemma low_bit_less: "unat (w AND 1 :: u8) < 2"
  by (simp add: and_one_eq mod2_eq_if)

lemma calibrating_inv [keeps_inv]: "store_ok d \<Longrightarrow> store_ok (calibrating d)"
  by (auto simp: calibrating_def Let_def intro!: calibrate_inv low_bit_less)

subsection \<open>Interrupts and the watch task\<close>

lemma TIM3_parts [simp]:
  "store_ok (TIM3_verify i d) = store_ok d" "store_ok (TIM3_relax i d) = store_ok d"
  by (simp_all add: TIM3_verify_def TIM3_relax_def)

lemma TIM3_auto_inv [simp]: "store_ok (TIM3_auto i d) = store_ok d"
  by (simp add: TIM3_auto_def Let_def)

lemma TIM3_second_inv [simp]: "store_ok (TIM3_second d) = store_ok d"
  by (simp add: TIM3_second_def Let_def)

lemma interrupts_inv [simp]:
  "store_ok (TIM3_IRQHandler d) = store_ok d" "store_ok (TIM4_IRQHandler d) = store_ok d" "store_ok (TIM5_A d) = store_ok d"
  "store_ok (TIM5_B d) = store_ok d" "store_ok (EXTI9_5_IRQHandler d) = store_ok d" "store_ok (EXTI15_10_IRQHandler d) = store_ok d"
  by (simp_all add: TIM3_IRQHandler_def TIM4_IRQHandler_def TIM4_calibrate_def TIM4_schedule_def TIM5_A_def
      TIM5_B_def EXTI9_5_IRQHandler_def EXTI15_10_IRQHandler_def Let_def)

lemma TIM5_inv [simp]: "store_ok (TIM5_IRQHandler d) = store_ok d"
  by (simp add: TIM5_IRQHandler_def)

lemma rtc_string_ok: "length (ascii (rtc_string b)) = 19 \<and> hd (ascii (rtc_string b)) = 50"
  by (simp add: ascii_def) (simp add: rtc_string_def)

lemma PCF8563_Get_Str_inv [keeps_inv]:
  assumes "store_ok d"
  shows "store_ok (PCF8563_Get_Str nack rx junk d)"
proof (cases "read_time nack rx junk")
  case (Some b)
  let ?e = "d\<lparr>rtcTempStr := ascii (rtc_string b)\<rparr>"
  have "nv.stored g ?e = nv.stored g d" for g by (rule stored_other_writes) simp
  moreover have "log_wf t ?e = log_wf t d" for t by (rule log_cong) simp_all
  ultimately show ?thesis
    using assms rtc_string_ok [of b] Some by (simp add: PCF8563_Get_Str_def inv_on_def rtc_ok_def)
qed (use assms in \<open>simp add: PCF8563_Get_Str_def\<close>)

lemma watch_inv [keeps_inv]:
  assumes "store_ok d"
  shows "store_ok (watch_temp d)" "store_ok (watch_rtc nack rx junk d)" "store_ok (watch_link d)"
    "store_ok (watch_calibrate d)" "store_ok (watch_adc f d)"
  using assms by (simp_all add: watch_temp_def watch_rtc_def watch_link_def watch_calibrate_def watch_adc_def
      keeps_inv)

lemma watch_round_inv [keeps_inv]: "store_ok d \<Longrightarrow> store_ok (watch_round nack rx junk d)"
  by (simp add: watch_round_def keeps_inv)

subsection \<open>Reading the logs\<close>

lemma ReadNextLog_inv [simp]: "NvControl \<notin> G \<Longrightarrow> inv_on G (fst (ReadNextLog t d)) = inv_on G d"
  by (simp add: ReadNextLog_def Let_def)

lemma ReadPreviousLog_inv [simp]: "NvControl \<notin> G \<Longrightarrow> inv_on G (fst (ReadPreviousLog t d)) = inv_on G d"
  by (simp add: ReadPreviousLog_def Let_def)

lemma web_loops_inv [simp]:
  "store_ok (fst (web_down_loop t n i d)) = store_ok d" "store_ok (fst (web_up_loop t n i d)) = store_ok d"
  by (induction n arbitrary: i d) (simp_all add: case_prod_beta Let_def)

lemma web_pages_inv [simp]:
  "store_ok (ReadWebFirstPageLog t d) = store_ok d" "store_ok (ReadWebNextPageLog t d) = store_ok d"
  "store_ok (ReadWebPreviousPageLog t d) = store_ok d"
  by (simp_all add: ReadWebFirstPageLog_def ReadWebNextPageLog_def ReadWebPreviousPageLog_def ReadFirstLog_def
      case_prod_beta Let_def)

lemma ClearLog_inv [keeps_inv]: "store_ok d \<Longrightarrow> t < 5 \<Longrightarrow> ClearLog t d = Some d' \<Longrightarrow> store_ok d'"
  unfolding ClearLog_def by (rule inv_on_FastClearLog) simp_all

subsection \<open>Messages and requests\<close>

lemma set_ip_byte_inv [simp]: "store_ok (set_ip_byte i v d) = store_ok d"
  by (simp add: set_ip_byte_def)

lemma set_bufang_inv [keeps_inv]: "store_ok d \<Longrightarrow> store_ok (set_bufang n s d)"
  by (simp add: set_bufang_def keeps_inv)

lemma set_paras_inv [keeps_inv]: "store_ok d \<Longrightarrow> store_ok (set_paras buf n d)"
  by (simp add: set_paras_def Let_def keeps_inv)

lemma parse_reply_data_inv [keeps_inv]: "store_ok d \<Longrightarrow> store_ok (fst (parse_reply_data wr buf d))"
  by (simp add: parse_reply_data_def Let_def keeps_inv)

lemma server_poll_inv [keeps_inv]: "store_ok d \<Longrightarrow> store_ok (server_poll d)"
  by (simp add: server_poll_def keeps_inv)

lemma inv_fold: "(\<And>p d. P d \<Longrightarrow> P (f p d)) \<Longrightarrow> P d \<Longrightarrow> P (fold f ps d)"
  by (induction ps arbitrary: d) auto

lemma Network_param_inv: "store_ok (fst s) \<Longrightarrow> store_ok (fst (Network_param p s))"
  by (cases p; cases s) (simp add: Network_param_def)

lemma Network_CGI_Handler_inv [keeps_inv]:
  assumes "store_ok d"
  shows "store_ok (fst (Network_CGI_Handler ps d))"
proof -
  have "store_ok (fst (fold Network_param ps (d, False)))"
    by (rule inv_fold [where P = "\<lambda>s. store_ok (fst s)"]) (simp_all add: Network_param_inv assms)
  with assms show ?thesis
    by (simp add: Network_CGI_Handler_def case_prod_beta Let_def keeps_inv)
qed

lemma Switch_Handler_inv [keeps_inv]:
  assumes "store_ok d"
  shows "store_ok (fst (Switch_Handler ps d))"
proof -
  have "store_ok (fold Switch_param ps d)"
    by (rule inv_fold) (simp_all add: Switch_param_def keeps_inv assms)
  with assms show ?thesis by (simp add: Switch_Handler_def)
qed

lemma Shutdown_Handler_inv [keeps_inv]:
  assumes "store_ok d"
  shows "store_ok (fst (Shutdown_Handler ps d))"
proof -
  have "store_ok (fst (fold Shutdown_param ps (d, 0)))"
    by (rule inv_fold [where P = "\<lambda>s. store_ok (fst s)"]) (simp_all add: Shutdown_param_def case_prod_beta assms)
  with assms show ?thesis by (simp add: Shutdown_Handler_def case_prod_beta)
qed

lemma Control_field_param_inv:
  "inv_on (durable - {NvField}) (Control_field_param p d) = inv_on (durable - {NvField}) d"
  by (simp add: Control_field_param_def Let_def)

lemma Control_params_inv [keeps_inv]:
  assumes "store_ok d"
  shows "store_ok (Control_reset_param p d)" "store_ok (Control_thrd_param p d)" "store_ok (Control_range_param p d)"
    "store_ok (Control_zero_param p d)" "store_ok (Control_base_param p d)" "store_ok (Control_ctr ps d)"
  using assms by (simp_all add: Control_reset_param_def Control_thrd_param_def Control_range_param_def
      Control_zero_param_def Control_base_param_def Control_ctr_def Let_def keeps_inv)

lemma Control_CGI_Handler_inv [keeps_inv]:
  assumes "store_ok d"
  shows "store_ok (fst (Control_CGI_Handler ps d))"
proof -
  have "inv_on (durable - {NvField}) (fold Control_field_param ps d)"
    by (rule inv_fold) (simp_all add: Control_field_param_inv inv_Diff assms)
  then have "store_ok (WriteFieldParaToEEProm (fold Control_field_param ps d))" by (intro inv_save)
  with assms show ?thesis
    by (auto simp: Control_CGI_Handler_def intro!: inv_fold [where P = store_ok] keeps_inv)
qed

text \<open>
  A device that waits for its restart has its logs, but restoring the factory settings has erased
  its parameters.
\<close>

definition safe :: "dev \<Rightarrow> bool" where
  "safe d \<longleftrightarrow> (\<forall>t<5. log_wf t d) \<and> (sys_reset d \<or> store_ok d)"

lemma safe_inv: "safe d \<Longrightarrow> \<not> sys_reset d \<Longrightarrow> store_ok d" and inv_safe: "store_ok d \<Longrightarrow> safe d"
  by (auto simp: safe_def intro: inv_log)

lemma EraseEEProm_Write: "EraseEEProm a n d = AT24CXX_Write a (replicate n 0xFF) d"
  by (induction n arbitrary: a d) simp_all

lemma Write_high:
  assumes "unat a + length bs \<le> 224" "224 \<le> unat b"
  shows "eemem (AT24CXX_Write a bs d) b = eemem d b"
proof -
  have "a \<le> b" using assms by (simp add: word_le_nat_alt)
  then have "length bs \<le> unat (b - a)" using assms by (simp add: unat_sub)
  with assms show ?thesis by (simp add: eemem_Write)
qed

lemma EraseEEPormParas_high: "224 \<le> unat b \<Longrightarrow> eemem (EraseEEPormParas d) b = eemem d b"
  by (simp add: EraseEEPormParas_def EraseEEProm_Write Write_high del: replicate.simps)

lemma EraseEEPormParas_frame: "nextWriteAddrVal (EraseEEPormParas d) = nextWriteAddrVal d"
  by (simp add: EraseEEPormParas_def EraseEEProm_Write del: replicate.simps)

lemma log_wf_sys_reset [simp]: "log_wf t (d\<lparr>sys_reset := r\<rparr>) = log_wf t d"
  by (rule log_cong) simp_all

lemma Default_param_safe: "safe d \<Longrightarrow> safe (Default_param p d)"
  using log_wf_high(1) [of "EraseEEPormParas d" d] EraseEEPormParas_high EraseEEPormParas_frame
  by (auto simp: Default_param_def unless_reset_def safe_def systemDefault_def SystemReset_def)

lemma Default_CGI_Handler_safe:
  assumes "store_ok d"
  shows "safe (fst (Default_CGI_Handler ps d))"
proof -
  define e where "e = (if FindCGIParameter ''DEFAULT'' ps then fold Default_param ps d else d)"
  have "safe (fold Default_param ps d)"
    by (rule inv_fold) (simp_all add: Default_param_safe inv_safe assms)
  then have "safe e" using inv_safe [OF assms] by (simp add: e_def)
  then show ?thesis
    by (auto simp: Default_CGI_Handler_def e_def [symmetric] Let_def setters_inv
        split: list.splits intro!: inv_safe dest: safe_inv)
qed

lemma fold_bind_None: "fold Log_clear_param ps None = None" "fold Log_get_param ps None = None"
  by (induction ps) (simp_all add: Log_clear_param_def Log_get_param_def)

lemma Log_clear_fold: "fold Log_clear_param ps (Some d) = Some d' \<Longrightarrow> store_ok d \<Longrightarrow> store_ok d'"
proof (induction ps arbitrary: d)
  case (Cons p ps)
  then obtain e where e: "Log_clear_param p (Some d) = Some e" "fold Log_clear_param ps (Some e) = Some d'"
    by (cases "Log_clear_param p (Some d)") (simp_all add: fold_bind_None)
  then have "store_ok e"
    using Cons.prems(2) ClearLog_inv [of d "unat (logType d)" e]
    by (auto simp: Log_clear_param_def split: if_splits)
  with Cons.IH e(2) show ?case by blast
qed simp

lemma Log_get_fold: "fold Log_get_param ps (Some d) = Some d' \<Longrightarrow> store_ok d \<Longrightarrow> store_ok d'"
proof (induction ps arbitrary: d)
  case (Cons p ps)
  then obtain e where e: "Log_get_param p (Some d) = Some e" "fold Log_get_param ps (Some e) = Some d'"
    by (cases "Log_get_param p (Some d)") (simp_all add: fold_bind_None)
  then have "store_ok e"
    using Cons.prems(2) by (auto simp: Log_get_param_def split: if_splits)
  with Cons.IH e(2) show ?case by blast
qed simp

lemma Log_Handler_inv [keeps_inv]: "Log_Handler ps d = Some (d', url) \<Longrightarrow> store_ok d \<Longrightarrow> store_ok d'"
  using Log_clear_fold Log_get_fold
  by (auto simp: Log_Handler_def split: list.splits if_splits)

lemma SSIHandler_inv [keeps_inv]: "SSIHandler temp i d = Some (d', txt) \<Longrightarrow> store_ok d \<Longrightarrow> store_ok d'"
  by (auto simp: SSIHandler_def SSI_log_page_def Let_def split: if_splits)

subsection \<open>The menu\<close>

lemma lcd_loops_inv [simp]:
  "store_ok (fst (lcd_down_loop t n i d)) = store_ok d" "store_ok (fst (lcd_up_loop t n i d)) = store_ok d"
  by (induction n arbitrary: i d) (simp_all add: case_prod_beta Let_def)

lemma lcd_pages_inv [simp]:
  "store_ok (ReadLCDFirstPageLog t d) = store_ok d" "store_ok (ReadLCDNextPageLog t d) = store_ok d"
  "store_ok (ReadLCDPreviousPageLog t d) = store_ok d"
  by (simp_all add: ReadLCDFirstPageLog_def ReadLCDNextPageLog_def ReadLCDPreviousPageLog_def ReadFirstLog_def
      case_prod_beta Let_def)

lemma rtc_inv: "store_ok d \<Longrightarrow> rtc_ok (d\<lparr>rtcTempStr := s\<rparr>) \<Longrightarrow> store_ok (d\<lparr>rtcTempStr := s\<rparr>)"
proof -
  assume ok: "store_ok d" "rtc_ok (d\<lparr>rtcTempStr := s\<rparr>)"
  have "nv.stored g (d\<lparr>rtcTempStr := s\<rparr>) = nv.stored g d" for g by (rule stored_other_writes) simp
  moreover have "log_wf t (d\<lparr>rtcTempStr := s\<rparr>) = log_wf t d" for t by (rule log_cong) simp_all
  ultimately show ?thesis using ok by (simp add: inv_on_def)
qed

lemma menu_effect_inv [keeps_inv]: "menu_effect d e \<Longrightarrow> store_ok d \<Longrightarrow> store_ok e"
proof (induction rule: menu_effect.induct)
  case (thresholds d v w y x)
  have "inv_on (durable - {NvThrd}) (d\<lparr>alarm_threshold_up_dif := x, alarm_threshold_down_dif := y\<rparr>)"
    using inv_Diff [OF thresholds] by simp
  then have "store_ok (setAlmThrdUpDif w (d\<lparr>alarm_threshold_up_dif := x, alarm_threshold_down_dif := y\<rparr>))"
    by (simp add: setAlmThrdUpDif_def inv_save)
  then show ?case by (rule setters_inv)
next
  case (zones d v w s l n)
  have "inv_on (durable - {NvField}) (d\<lparr>field_num := n, alarm_delay := l, alarm_sensitivity := s\<rparr>)"
    using inv_Diff [OF zones] by simp
  then have "store_ok (setFieldNum 0 w (d\<lparr>field_num := n, alarm_delay := l, alarm_sensitivity := s\<rparr>))"
    by (simp add: setFieldNum_def inv_save)
  then have "store_ok (setAlarmDelay 0 v (setFieldNum 0 w (d\<lparr>field_num := n, alarm_delay := l, alarm_sensitivity := s\<rparr>)))"
    by (rule setters_inv)
  then show ?case by (intro inv_save inv_Diff)
next
  case (cleared t d e)
  then show ?case using ClearLog_inv [of d t e] by simp
qed (simp_all add: setters_inv rtc_inv)

subsection \<open>The system\<close>

inductive fw_step :: "dev \<Rightarrow> dev \<Rightarrow> bool" where
  pins: "fw_step d (d\<lparr>FANG_CHAI := a, SW1 := b, SW2 := c\<rparr>)"
| tim3: "\<not> sys_reset d \<Longrightarrow> fw_step d (TIM3_IRQHandler d)"
| tim4: "\<not> sys_reset d \<Longrightarrow> fw_step d (TIM4_IRQHandler d)"
| tim5: "\<not> sys_reset d \<Longrightarrow> fw_step d (TIM5_IRQHandler d)"
| exti9: "\<not> sys_reset d \<Longrightarrow> fw_step d (EXTI9_5_IRQHandler d)"
| exti15: "\<not> sys_reset d \<Longrightarrow> fw_step d (EXTI15_10_IRQHandler d)"
| fang_chai: "\<not> sys_reset d \<Longrightarrow> fw_step d (fst (FANG_CHAI_Check d))"
| temp: "\<not> sys_reset d \<Longrightarrow> fw_step d (watch_temp d)"
| rtc: "\<not> sys_reset d \<Longrightarrow> fw_step d (watch_rtc nack rx junk d)"
| link: "\<not> sys_reset d \<Longrightarrow> fw_step d (watch_link d)"
| calibrate: "\<not> sys_reset d \<Longrightarrow> fw_step d (watch_calibrate d)"
| adc: "\<not> sys_reset d \<Longrightarrow> f < 2 \<Longrightarrow> fw_step d (watch_adc f d)"
| message: "\<not> sys_reset d \<Longrightarrow> fw_step d (fst (parse_reply_data wr buf d))"
| poll: "\<not> sys_reset d \<Longrightarrow> fw_step d (server_poll d)"
| network: "\<not> sys_reset d \<Longrightarrow> fw_step d (fst (Network_CGI_Handler ps d))"
| switch: "\<not> sys_reset d \<Longrightarrow> fw_step d (fst (Switch_Handler ps d))"
| shutdown: "\<not> sys_reset d \<Longrightarrow> fw_step d (fst (Shutdown_Handler ps d))"
| control: "\<not> sys_reset d \<Longrightarrow> fw_step d (fst (Control_CGI_Handler ps d))"
| factory: "\<not> sys_reset d \<Longrightarrow> fw_step d (fst (Default_CGI_Handler ps d))"
| log: "\<not> sys_reset d \<Longrightarrow> Log_Handler ps d = Some (d', url) \<Longrightarrow> fw_step d d'"
| page: "\<not> sys_reset d \<Longrightarrow> SSIHandler t i d = Some (d', txt) \<Longrightarrow> fw_step d d'"

lemmas step_facts = FANG_CHAI_Check_inv watch_inv parse_reply_data_inv server_poll_inv Network_CGI_Handler_inv
  Switch_Handler_inv Shutdown_Handler_inv Control_CGI_Handler_inv

lemma fw_step_running:
  assumes "fw_step d e" "store_ok d" "\<not> sys_reset d"
  shows "safe e"
  using assms(1)
proof cases
  case (factory ps)
  with assms(2) show ?thesis by (simp add: Default_CGI_Handler_safe)
next
  case (log ps url)
  from log(2) assms(2) show ?thesis by (intro inv_safe) (rule Log_Handler_inv)
next
  case (page t i str)
  from page(2) assms(2) show ?thesis by (intro inv_safe) (rule SSIHandler_inv)
qed (use assms(2) in \<open>simp_all add: inv_safe step_facts\<close>)

inductive_cases fw_stepE: "fw_step d e"

lemma log_wf_pins [simp]: "log_wf t (d\<lparr>FANG_CHAI := a, SW1 := b, SW2 := c\<rparr>) = log_wf t d"
  by (rule log_cong) simp_all

lemma fw_step_stopped: "fw_step d e \<Longrightarrow> sys_reset d \<Longrightarrow> safe d \<Longrightarrow> safe e"
  by (erule fw_stepE) (simp_all add: safe_def)

lemma fw_step_safe: "fw_step d e \<Longrightarrow> safe d \<Longrightarrow> safe e"
  using fw_step_running fw_step_stopped safe_inv by blast

interpretation fw: handlers fw_step safe
  by unfold_locales (rule fw_step_safe)

end
