(* ===== verification/Boot.thy ===== *)
theory Boot
  imports Firmware
begin

text \<open>
  The life of a device: it leaves the factory with a blank EEPROM, starts, runs, loses power
  between two steps or restarts itself, and starts again from what the EEPROM holds.
\<close>

subsection \<open>The globals before \<^verbatim>\<open>main\<close>\<close>

text \<open>
  What the start-up code of C leaves in the globals, on a board whose pins are low and whose
  EEPROM is blank.
\<close>

definition globals_init :: dev where
  "globals_init =
     \<lparr>eemem = (\<lambda>a. 0xFF), FANG_CHAI = False, SW1 = False, SW2 = False, FIELD_FLAG_S0D1 = False,
      RL_A = False, RL_B = False, LED_FANG_CHAI = False, LED_OPEN = False, LED_INVD = False,
      LED_BU_FANG = False, LED_RUN = False, LCD_BLA = False,
      ADC_CTRL0 = False, ADC_CTRL1 = False, ADC_CTRL2 = False, ADC_CTRL3 = False,
      config_code = 0, sys_reset = False,
      field_num = (\<lambda>i. 0), alarm_delay = (\<lambda>i. 30), ten_val_range = (\<lambda>i j. if j = 0 then 100 else 150),
      alarm_sensitivity = (\<lambda>i. 4), ALARM_STATE = 0, ALARM_STATE_DELAY = 0, flag_fcgjsn = OFF,
      adc_invd_crt = (\<lambda>i. 0), adc_open_crt = (\<lambda>i. 0), adc_relax_crt = (\<lambda>i. 0),
      BU_FANG_A_FLAG = 0, BU_FANG_B_FLAG = 0, alarm_threshold_up_dif = 0, alarm_threshold_down_dif = 0,
      FCAlmVerifyCnt = 0, adcIvdAlmVerifyCnt = (\<lambda>i. 0), adcOpnAlmVerifyCnt = (\<lambda>i. 0),
      adcRlxAlmVerifyCnt = (\<lambda>i. 0), alarmingCnt = (\<lambda>i. 0), W4_W6 = IS_W4, SW_Alarm = (\<lambda>i. 0),
      SW_Type = (\<lambda>i. 0), remote_shutdown = 0,
      tension_max_range = 0, zero_val = (\<lambda>i j. 0), base_val = (\<lambda>i j. 0), crt_smp = (\<lambda>i j. 0),
      crt_val = (\<lambda>i j. 0), calibrating_flag = 0xFF, calibrate_en = (\<lambda>i. 0), base_auto_calibrate_time = 30,
      calibrate_temp_val = (\<lambda>i. 0), calibrate_adc_cnt = 0, init_done = 0, adc_src = (\<lambda>n ch sel. 0), adc_time = 0,
      rtcTempStr = replicate 19 0, nextWriteAddrVal = (\<lambda>t. 0), crtReadAddrVal = (\<lambda>t. 0),
      crtWebLogPageNum = 0, lastWebPageLogNum = 0, lastLCDPageLogNum = 0, webLogPageFlag = LOG_HEAD,
      LCDLogPageFlag = LOG_HEAD, logType = of_nat LOG_TYPE_FC, lastWebPageReadDir = WEB_PAGE_READ_DOWN,
      lastLCDPageReadDir = LCD_PAGE_READ_DOWN, crtWebPageLogData = [], web_page_overrun = False, crtLCDPageLogData = (\<lambda>i. replicate 20 0),
      lm75TempCnt = 0, rtcTimeCnt = 0, alarmCheckCnt = 0, adcCalibrateCnt = 0,
      baseAutoCalibrateCnt = (\<lambda>i. 0)(1 := 60), timerHandlerFlag = 0, run_screen_refresh = 0,
      lw_mac = (\<lambda>i. 0), lw_remoteip = (\<lambda>i. 0), lw_ip = (\<lambda>i. 0), lw_netmask = (\<lambda>i. 0), lw_gateway = (\<lambda>i. 0),
      lw_dhcpstatus = 0, ip_change_flag = 0\<rparr>"

text \<open>A start of device \<open>d\<close>: the EEPROM, the input pins and the analogue inputs stay, the rest is lost.\<close>

definition power_on :: "dev \<Rightarrow> dev" where
  "power_on d = globals_init\<lparr>eemem := eemem d, FANG_CHAI := FANG_CHAI d, SW1 := SW1 d, SW2 := SW2 d,
     FIELD_FLAG_S0D1 := FIELD_FLAG_S0D1 d, adc_src := adc_src d, adc_time := adc_time d\<rparr>"

text \<open>\<^verbatim>\<open>main\<close> up to the start of the tasks: \<^verbatim>\<open>system_init\<close>, then the addresses in \<^verbatim>\<open>lwip_comm_init\<close>.\<close>

definition boot :: "(nat \<Rightarrow> bool) \<Rightarrow> (nat \<Rightarrow> u8) \<Rightarrow> (nat \<Rightarrow> u8) \<Rightarrow> u32 \<Rightarrow> dev \<Rightarrow> dev option" where
  "boot nack rx junk sn0 d = map_option (lwip_comm_ip_init sn0) (system_init nack rx junk (power_on d))"

inductive life :: "dev \<Rightarrow> bool" where
  factory: "(\<And>a. eemem d a = 0xFF) \<Longrightarrow> boot nack rx junk sn0 d = Some e \<Longrightarrow> life e"
| runs: "life d \<Longrightarrow> fw_step d e \<Longrightarrow> life e"
| menu: "life d \<Longrightarrow> \<not> sys_reset d \<Longrightarrow> menu_effect d e \<Longrightarrow> life e"
| restarts: "life d \<Longrightarrow> boot nack rx junk sn0 d = Some e \<Longrightarrow> life e"

subsection \<open>Loading a group\<close>

text \<open>Loading a group makes the device agree with the EEPROM, whatever the EEPROM holds.\<close>

lemma nv_load_stored: "g \<noteq> NvControl \<Longrightarrow> nv_image g (nv_load g d) = nv.stored g d"
  by (cases g)
     (simp_all add: nv.stored_def ReadNetParasFromEEProm_def ReadConfigCodeToEEProm_def ReadAdcZeroFromEEProm_def
       ReadAdcBaseFromEEProm_def ReadAlmThrdFromEEProm_def ReadSWValToEEProm_def ReadTensionMaxRangeFromEEProm_def
       s16_bytes_fill ReadBaseAutoCalibrateTimeFromEEProm_def ReadFieldParaFromEEProm_def ReadFieldPara_body_def
       WriteFieldPara_body_def Let_def Read_numeral upt_4 upt_6 fill_def)

lemma nv_load_frame [simp]:
  "eemem (nv_load g d) = eemem d" "nextWriteAddrVal (nv_load g d) = nextWriteAddrVal d"
  "rtcTempStr (nv_load g d) = rtcTempStr d"
  by (cases g; simp add: ReadNetParasFromEEProm_def ReadConfigCodeToEEProm_def ReadAdcZeroFromEEProm_def
       ReadAdcBaseFromEEProm_def ReadAlmThrdFromEEProm_def ReadSWValToEEProm_def ReadTensionMaxRangeFromEEProm_def
       ReadBaseAutoCalibrateTimeFromEEProm_def ReadFieldParaFromEEProm_def ReadFieldPara_body_def
       ReadControlParaFromEEProm_def Let_def)+

lemma nv_load_other [simp]:
  "g' \<noteq> g \<Longrightarrow> g' \<noteq> NvControl \<Longrightarrow> nv_image g' (nv_load g d) = nv_image g' d"
proof -
  assume ne: "g' \<noteq> g" "g' \<noteq> NvControl"
  have z: "nv_image g' (d\<lparr>zero_val := (zero_val d)(i := z)\<rparr>) = nv_image g' d"
    if "i = 0 \<and> g' \<noteq> NvZeroA \<or> i = 1 \<and> g' \<noteq> NvZeroB" for i z
    using that ne(2) by (cases g') (auto simp: WriteFieldPara_body_def)
  have b: "nv_image g' (d\<lparr>base_val := (base_val d)(i := z)\<rparr>) = nv_image g' d"
    if "i = 0 \<and> g' \<noteq> NvBaseA \<or> i = 1 \<and> g' \<noteq> NvBaseB" for i z
    using that ne(2) by (cases g') (auto simp: WriteFieldPara_body_def)
  show ?thesis
    using ne
    by (cases g)
       (simp_all add: ReadNetParasFromEEProm_def ReadConfigCodeToEEProm_def ReadAdcZeroFromEEProm_def
         ReadAdcBaseFromEEProm_def ReadAlmThrdFromEEProm_def ReadSWValToEEProm_def ReadTensionMaxRangeFromEEProm_def
         ReadBaseAutoCalibrateTimeFromEEProm_def ReadFieldParaFromEEProm_def ReadFieldPara_body_def
         ReadControlParaFromEEProm_def Let_def nv_image_other nv_image_frame z b)
qed

lemma stored_eemem: "eemem e = eemem d \<Longrightarrow> nv.stored g e = nv.stored g d"
  by (rule stored_other_writes) simp

lemma inv_on_load:
  assumes "inv_on G d" "NvControl \<notin> G" "g \<noteq> NvControl"
  shows "inv_on (insert g G) (nv_load g d)"
proof -
  have "log_wf t (nv_load g d) = log_wf t d" for t by (rule log_cong) simp_all
  moreover have "nv.stored g' (nv_load g d) = nv_image g' (nv_load g d)" if "g' \<in> insert g G" for g'
  proof (cases "g' = g")
    case True
    then show ?thesis using assms(3) stored_eemem [of "nv_load g d" d g] by (simp add: nv_load_stored)
  next
    case False
    moreover have "g' \<noteq> NvControl" using that assms(2,3) by auto
    ultimately show ?thesis using that assms(1) stored_eemem [of "nv_load g d" d g'] by (simp add: inv_on_def)
  qed
  ultimately show ?thesis using assms(1) by (simp add: inv_on_def rtc_ok_def)
qed

lemma inv_on_load_default:
  assumes "inv_on G d" "NvControl \<notin> G" "g \<noteq> NvControl"
    and "\<And>d. inv_on (G - {g}) (u d) = inv_on (G - {g}) d"
  shows "inv_on (insert g G) (if c then nv_save g (u (nv_load g d)) else nv_load g d)"
proof -
  note l = inv_on_load [OF assms(1-3)]
  have "inv_on (G - {g}) (u (nv_load g d))" using inv_on_mono [OF l] assms(4) by blast
  from inv_on_nv_save [OF this, of g] have "inv_on (insert g G) (nv_save g (u (nv_load g d)))" by simp
  with l show ?thesis by simp
qed

subsection \<open>Starting\<close>

text \<open>
  The device after \<^verbatim>\<open>Log_Init\<close>: the configuration code agrees with the EEPROM, the time string is a
  time, whatever the clock answered, and the logs are those the EEPROM held.
\<close>

lemma read_time_Some: "\<exists>b. read_time nack rx junk = Some b"
  by (auto simp: read_time_def IICRead_def Let_def)

definition start :: "(nat \<Rightarrow> bool) \<Rightarrow> (nat \<Rightarrow> u8) \<Rightarrow> (nat \<Rightarrow> u8) \<Rightarrow> dev \<Rightarrow> dev" where
  "start nack rx junk d = PCF8563_Get_Str nack rx junk (readConfigCode (d\<lparr>LED_RUN := False\<rparr>))"

lemma start_rtc: "rtc_ok (start nack rx junk d)"
proof -
  obtain b where "read_time nack rx junk = Some b" using read_time_Some by blast
  then show ?thesis using rtc_string_ok [of b] by (simp add: start_def PCF8563_Get_Str_def rtc_ok_def)
qed

lemma readConfigCode_high: "224 \<le> unat b \<Longrightarrow> eemem (readConfigCode d) b = eemem d b"
  by (auto simp: readConfigCode_def Let_def WriteConfigCodeToEEProm_def ReadConfigCodeToEEProm_def)

lemma readConfigCode_stored: "nv.stored NvConfig (readConfigCode d) = nv_image NvConfig (readConfigCode d)"
  by (simp add: nv.stored_def readConfigCode_def Let_def WriteConfigCodeToEEProm_def ReadConfigCodeToEEProm_def)

lemma start_high: "224 \<le> unat b \<Longrightarrow> eemem (start nack rx junk d) b = eemem d b"
  by (simp add: start_def PCF8563_Get_Str_def readConfigCode_high split: option.split)

lemma start_stored: "nv.stored NvConfig (start nack rx junk d) = nv_image NvConfig (start nack rx junk d)"
proof -
  have "nv.stored NvConfig (d\<lparr>rtcTempStr := r\<rparr>) = nv.stored NvConfig d" for d r
    by (rule stored_eemem) simp
  then show ?thesis
    by (simp add: start_def PCF8563_Get_Str_def readConfigCode_stored del: nv_image.simps split: option.split)
qed

lemma inv_Log_Init_start:
  assumes "\<And>t. t < 5 \<Longrightarrow> log_wf t (Log_Init (start nack rx junk d))"
  shows "inv_on {NvConfig} (Log_Init (start nack rx junk d))"
proof -
  let ?s = "start nack rx junk d"
  have "nv.stored NvConfig (Log_Init ?s) = nv.stored NvConfig ?s"
    by (rule stored_other_writes) (simp add: Log_Init_frame)
  then show ?thesis
    using assms start_rtc [of nack rx junk d] start_stored [of nack rx junk d]
    by (simp add: inv_on_def rtc_ok_def Log_Init_frame del: nv_image.simps)
qed

text \<open>The rest of \<^verbatim>\<open>system_init\<close>, group by group.\<close>

lemma inv_calibrate_en: "NvControl \<notin> G \<Longrightarrow> inv_on G d \<Longrightarrow> inv_on G (d\<lparr>calibrate_en := c\<rparr>)"
  by simp

lemma inv_Adc_Init_field:
  assumes "inv_on G d" "NvControl \<notin> G"
  shows "inv_on (insert NvBaseA (insert NvZeroA G)) (Adc_Init_field 0 d)"
    and "inv_on (insert NvBaseB (insert NvZeroB G)) (Adc_Init_field 1 d)"
proof -
  have G: "NvControl \<notin> insert NvZeroA G" "NvControl \<notin> insert NvZeroB G"
    "NvControl \<notin> insert NvBaseA (insert NvZeroA G)" "NvControl \<notin> insert NvBaseB (insert NvZeroB G)"
    using assms(2) by simp_all
  note zA = inv_on_load_default [OF assms, of NvZeroA "\<lambda>d. d\<lparr>zero_val := (zero_val d)(0 := zero6 (zero_val d 0))\<rparr>"]
    and zB = inv_on_load_default [OF assms, of NvZeroB "\<lambda>d. d\<lparr>zero_val := (zero_val d)(1 := zero6 (zero_val d 1))\<rparr>"]
  note bA = inv_on_load_default [OF zA G(1), of NvBaseA "\<lambda>d. d\<lparr>base_val := (base_val d)(0 := zero6 (base_val d 0))\<rparr>"]
    and bB = inv_on_load_default [OF zB G(2), of NvBaseB "\<lambda>d. d\<lparr>base_val := (base_val d)(1 := zero6 (base_val d 1))\<rparr>"]
  show "inv_on (insert NvBaseA (insert NvZeroA G)) (Adc_Init_field 0 d)"
    unfolding Adc_Init_field_def Let_def
    using G by (intro inv_calibrate_en bA [unfolded nv_save.simps nv_load.simps] inv_on_zone) simp_all
  show "inv_on (insert NvBaseB (insert NvZeroB G)) (Adc_Init_field 1 d)"
    unfolding Adc_Init_field_def Let_def
    using G by (intro inv_calibrate_en bB [unfolded nv_save.simps nv_load.simps] inv_on_zone) simp_all
qed

lemma inv_Adc_Init:
  assumes "inv_on G d" "NvControl \<notin> G"
  shows "inv_on ({NvZeroA, NvZeroB, NvBaseA, NvBaseB, NvRange, NvAuto} \<union> G) (Adc_Init d)"
proof -
  define H where "H = insert NvBaseB (insert NvZeroB (insert NvBaseA (insert NvZeroA G)))"
  define e where "e = Adc_Init_field 1 (Adc_Init_field 0 d)"
  have e: "inv_on H e" and H: "NvControl \<notin> H" "NvControl \<notin> insert NvRange H"
    "NvControl \<notin> insert NvAuto (insert NvRange H)"
    using inv_Adc_Init_field(2) [OF inv_Adc_Init_field(1) [OF assms]] assms(2) by (simp_all add: H_def e_def)
  note r = inv_on_load_default [OF e H(1), of NvRange "\<lambda>d. d\<lparr>tension_max_range := 200\<rparr>"]
  note a = inv_on_load_default [OF r H(2), of NvAuto "\<lambda>d. d\<lparr>base_auto_calibrate_time := 30\<rparr>"]
  have fin: "inv_on G (d\<lparr>init_done := 1\<rparr>)" if "inv_on G d" "NvControl \<notin> G" for G d using that by simp
  have "inv_on (insert NvAuto (insert NvRange H)) (Adc_Init d)"
    unfolding Adc_Init_def Let_def e_def [symmetric]
    using H by (intro fin a [unfolded nv_save.simps nv_load.simps]) simp_all
  then show ?thesis by (rule inv_on_mono) (auto simp: H_def)
qed

lemma inv_ALARM_Init_fields:
  "inv_on G d \<Longrightarrow> NvControl \<notin> G \<Longrightarrow> inv_on (insert NvField G) (ALARM_Init_fields d)"
proof -
  assume d: "inv_on G d" "NvControl \<notin> G"
  let ?u = "d\<lparr>field_num := (field_num d)(0 := 0, 1 := 0), alarm_delay := (alarm_delay d)(0 := 30, 1 := 30)\<rparr>"
  have "inv_on (G - {NvField}) ?u" using d inv_on_mono [OF d(1)] by simp
  from inv_on_nv_save [OF this, of NvField] have "inv_on (insert NvField G) (nv_save NvField ?u)" by simp
  moreover from inv_on_load [OF d, of NvField] have "inv_on (insert NvField G) (nv_load NvField d)" by simp
  ultimately show ?thesis by (simp add: ALARM_Init_fields_def)
qed

lemma inv_ALARM_Init_control:
  "inv_on G d \<Longrightarrow> NvControl \<notin> G \<Longrightarrow> inv_on G (ALARM_Init_control d)"
proof -
  assume d: "inv_on G d" "NvControl \<notin> G"
  let ?u = "d\<lparr>flag_fcgjsn := ON, BU_FANG_A_FLAG := ON, BU_FANG_B_FLAG := (if \<not> FIELD_FLAG_S0D1 d then ON else OFF)\<rparr>"
  have "inv_on G ?u" using d by simp
  then have "inv_on G (nv_save NvControl ?u)"
    using inv_on_mono [OF inv_on_nv_save, of G ?u G NvControl] by blast
  moreover have "inv_on G (ReadControlParaFromEEProm d)"
    using d by (simp add: ReadControlParaFromEEProm_def Let_def)
  ultimately show ?thesis
    using d(2) by (simp add: ALARM_Init_control_def Let_def)
qed

lemma inv_ALARM_Init_switches:
  "inv_on G d \<Longrightarrow> NvControl \<notin> G \<Longrightarrow> inv_on (insert NvSw G) (ALARM_Init_switches d)"
proof -
  assume d: "inv_on G d" "NvControl \<notin> G"
  have "inv_on (insert NvSw G) (WriteSWValToEEProm d)" "inv_on (insert NvSw G) (ReadSWValToEEProm d)"
    using inv_on_nv_save [OF d(1), of NvSw] inv_on_load [OF d, of NvSw] by simp_all
  then show ?thesis using d(2) by (simp add: ALARM_Init_switches_def Let_def)
qed

lemma inv_ALARM_Init_thresholds:
  assumes "inv_on G d" "NvControl \<notin> G"
  shows "inv_on (insert NvThrd G) (ALARM_Init_thresholds d)"
proof -
  have G: "NvControl \<notin> insert NvThrd G" using assms(2) by simp
  have save: "inv_on (insert NvThrd G) (if c then nv_save NvThrd (d\<lparr>alarm_threshold_down_dif := v\<rparr>) else d)"
    if "inv_on (insert NvThrd G) d" for c d v
  proof -
    have "inv_on (G - {NvThrd}) (d\<lparr>alarm_threshold_down_dif := v\<rparr>)"
      using inv_on_mono [OF that, of "G - {NvThrd}"] assms(2) by auto
    from inv_on_nv_save [OF this, of NvThrd] that show ?thesis by simp
  qed
  note l = inv_on_load_default [OF assms, of NvThrd "\<lambda>d. d\<lparr>alarm_threshold_up_dif := 50\<rparr>"]
  show ?thesis
    unfolding ALARM_Init_thresholds_def Let_def
    using assms(2) by (intro save [unfolded nv_save.simps] l [unfolded nv_save.simps nv_load.simps]) simp_all
qed

lemma inv_ALARM_Init:
  assumes "inv_on G d" "NvControl \<notin> G"
  shows "inv_on ({NvField, NvSw, NvThrd} \<union> G) (ALARM_Init d)"
proof -
  have "inv_on G (d\<lparr>RL_A := False, RL_B := False\<rparr>)" using assms by simp
  from inv_ALARM_Init_fields [OF this assms(2)]
  have "inv_on (insert NvField G) (ALARM_Init_control (ALARM_Init_fields (d\<lparr>RL_A := False, RL_B := False\<rparr>)))"
    using assms(2) by (simp add: inv_ALARM_Init_control)
  from inv_ALARM_Init_switches [OF this] assms(2) show ?thesis
    using inv_ALARM_Init_thresholds [of "insert NvSw (insert NvField G)"]
    by (simp add: ALARM_Init_def Let_def insert_commute)
qed

lemma inv_lwip_comm_ip_init:
  assumes "inv_on (insert NvSw durable) d"
  shows "inv_on (insert NvSw durable) (lwip_comm_ip_init sn0 d)"
proof -
  have save: "inv_on (insert NvSw durable) (WriteNetParasToEEProm e)" if "inv_on (insert NvSw durable) e" for e
    using inv_on_mono [OF inv_on_nv_save [OF that, of NvNet], of "insert NvSw durable"] by auto
  have "inv_on (insert NvSw durable) (ReadNetParasFromEEProm d)"
    using inv_on_mono [OF inv_on_load [OF assms, of NvNet], of "insert NvSw durable"] by auto
  then show ?thesis
    by (auto simp: lwip_comm_ip_init_def lwip_comm_default_ip_set_def Let_def intro!: save)
qed

lemma inv_system_init:
  assumes "\<And>t. t < 5 \<Longrightarrow> log_wf t (Log_Init (start nack rx junk d))"
  shows "inv_on (insert NvSw durable) (system_init_paras nack rx junk d)"
proof -
  have "inv_on {NvConfig} (Log_Init (start nack rx junk d))" using assms by (rule inv_Log_Init_start)
  from inv_Adc_Init [OF this]
  have "inv_on ({NvZeroA, NvZeroB, NvBaseA, NvBaseB, NvRange, NvAuto} \<union> {NvConfig})
          (Adc_Init (Log_Init (start nack rx junk d)))" by simp
  from inv_ALARM_Init [OF this]
  have "inv_on ({NvField, NvSw, NvThrd} \<union> ({NvZeroA, NvZeroB, NvBaseA, NvBaseB, NvRange, NvAuto} \<union> {NvConfig}))
          (system_init_paras nack rx junk d)" by (simp add: system_init_paras_def start_def)
  then show ?thesis
  proof (rule inv_on_mono, intro subsetI)
    show "g \<in> {NvField, NvSw, NvThrd} \<union> ({NvZeroA, NvZeroB, NvBaseA, NvBaseB, NvRange, NvAuto} \<union> {NvConfig})"
      if "g \<in> insert NvSw durable" for g
      using that by (cases g) simp_all
  qed
qed

subsection \<open>The invariant of the life of a device\<close>

text \<open>The device \<^verbatim>\<open>system_init\<close> works on, after the check of the EEPROM.\<close>

definition checked :: "dev \<Rightarrow> dev" where
  "checked d = (power_on d)\<lparr>eemem := (eemem (power_on d))(EE_ADDR_MAX := 0x55)\<rparr>"

lemma boot_eq:
  "boot nack rx junk sn0 d = Some (lwip_comm_ip_init sn0 (system_init_paras nack rx junk (checked d)))"
  by (simp add: boot_def system_init_def wait_eeprom_ok checked_def)

lemma checked_high: "224 \<le> unat b \<Longrightarrow> unat b < 32767 \<Longrightarrow> eemem (start nack rx junk (checked d)) b = eemem d b"
  by (auto simp: start_high checked_def power_on_def)

lemma boot_logs:
  assumes "log_wf t d" "t < 5"
  shows "log_wf t (Log_Init (start nack rx junk (checked d)))"
    and "log_abs t (Log_Init (start nack rx junk (checked d))) = log_abs t d"
proof -
  let ?s = "start nack rx junk (checked d)"
  let ?d = "d\<lparr>eemem := eemem ?s\<rparr>"
  have h: "log_wf t ?d" "log_abs t ?d = log_abs t d"
    using log_wf_high [of ?d d t, OF _ assms(2) _ assms(1)] checked_high by simp_all
  with Log_Init_keeps [OF assms(2) h(1), of ?s] show
    "log_wf t (Log_Init ?s)" "log_abs t (Log_Init ?s) = log_abs t d" by simp_all
qed

lemma boot_saved:
  assumes "\<forall>t<5. log_wf t d" "boot nack rx junk sn0 d = Some e"
  shows "inv_on (insert NvSw durable) e"
proof -
  have "e = lwip_comm_ip_init sn0 (system_init_paras nack rx junk (checked d))"
    using assms(2) by (simp only: boot_eq option.inject)
  then show ?thesis
    using assms(1) boot_logs(1) [of _ d nack rx junk] by (simp only: inv_lwip_comm_ip_init inv_system_init)
qed

lemma boot_ok:
  assumes "\<forall>t<5. log_wf t d" "boot nack rx junk sn0 d = Some e"
  shows "store_ok e"
  by (rule inv_on_mono [OF boot_saved [OF assms]]) auto

lemma boot_blank:
  assumes "\<And>a. eemem d a = 0xFF" "boot nack rx junk sn0 d = Some e"
  shows "store_ok e"
proof -
  have e: "e = lwip_comm_ip_init sn0 (system_init_paras nack rx junk (checked d))"
    using assms(2) by (simp only: boot_eq option.inject)
  have "log_wf t (Log_Init (start nack rx junk (checked d)))" if "t < 5" for t
    using Log_Init_blank [of "start nack rx junk (checked d)" t] that by (simp add: checked_high assms(1))
  then have "inv_on (insert NvSw durable) e" by (simp only: e inv_lwip_comm_ip_init inv_system_init)
  then show ?thesis by (rule inv_on_mono) auto
qed

lemma life_safe: "life d \<Longrightarrow> safe d"
proof (induction rule: life.induct)
  case (factory d nack rx junk sn0 e)
  then show ?case by (intro inv_safe boot_blank)
next
  case (runs d e)
  then show ?case using fw_step_safe by blast
next
  case (menu d e)
  then show ?case using menu_effect_inv safe_inv inv_safe by blast
next
  case (restarts d nack rx junk sn0 e)
  then have "store_ok e" using boot_ok [of d] by (simp add: safe_def)
  then show ?case by (rule inv_safe)
qed

subsection \<open>What a restart recovers\<close>

text \<open>
  The values a start does not leave as they are.  For most groups this is the mark by which the start-up
  code recognises a group that was never saved: a saved group that happens to carry it is taken for unsaved and
  gets its factory value.  An all-ones IP address resets the addresses, and a MAC address with the manufacturer
  code of older devices gets the new one.  A device for a single zone switches zone B off, so there
  an armed zone B does not stay; the control byte uses three bits and never looks blank.
\<close>

fun marked :: "nv_group \<Rightarrow> dev \<Rightarrow> bool" where
  "marked NvConfig d = (config_code d = 0xFF)"
| "marked NvZeroA d = (zero_val d 0 0 = 0xffff)"
| "marked NvZeroB d = (zero_val d 1 0 = 0xffff)"
| "marked NvBaseA d = (base_val d 0 0 = 0xffff)"
| "marked NvBaseB d = (base_val d 1 0 = 0xffff)"
| "marked NvThrd d = (alarm_threshold_up_dif d = 0xffff \<or> alarm_threshold_down_dif d = 0xffff)"
| "marked NvSw d = (SW_Type d 0 = 0xFF)"
| "marked NvRange d = (tension_max_range d = 0xffff)"
| "marked NvAuto d = (base_auto_calibrate_time d = 0xffff)"
| "marked NvField d = (hi8 (alarm_delay d 0) = 0xFF \<or> lo8 (alarm_delay d 0) = 0xFF)"
| "marked NvNet d = (lw_mac d 0 = 0x55 \<and> lw_mac d 1 = 0x39 \<and> lw_mac d 2 = 0x72 \<or>
     lw_ip d 0 = 0xFF \<and> lw_ip d 1 = 0xFF \<and> lw_ip d 2 = 0xFF \<and> lw_ip d 3 = 0xFF)"
| "marked NvControl d = (FIELD_FLAG_S0D1 d \<and> bit (BU_FANG_B_FLAG d) 0)"

text \<open>What a restart can recover: the values the EEPROM holds and that do not carry the mark.\<close>

definition kept :: "nv_group \<Rightarrow> dev \<Rightarrow> bool" where
  "kept g d \<longleftrightarrow> \<not> marked g d \<and> AT24CXX_Read d (nv_addr g) (nv_len g) = nv_image g d"

lemma kept_mark: "kept g d \<Longrightarrow> \<not> marked g d"
  by (simp add: kept_def)

definition stores :: "dev \<Rightarrow> dev \<Rightarrow> bool" where
  "stores d e \<longleftrightarrow> (\<forall>g. kept g d \<longrightarrow> nv.stored g e = nv_image g d)"

lemma stores_eemem: "stores d e \<Longrightarrow> eemem e' = eemem e \<Longrightarrow> stores d e'"
  using stored_eemem [of e' e] by (auto simp: stores_def)

lemma stores_save: "stores d e \<Longrightarrow> eemem e' = eemem e \<Longrightarrow> \<not> kept g d \<Longrightarrow> stores d (nv_save g e')"
  using stored_eemem [of e' e] by (auto simp: stores_def nv.stored_save)

lemma stores_image: "stores d e \<Longrightarrow> kept g d \<Longrightarrow> eemem e' = eemem e \<Longrightarrow> nv_image g (nv_load g e') = nv_image g d"
  using stored_eemem [of e' e g] by (auto simp: stores_def nv.stored_def intro!: nv_image_load)

lemma s16_bytes_0: "s16_bytes f = s16_bytes h \<Longrightarrow> f 0 = h 0"
  by (simp add: s16_bytes_def upt_6) (metis be16_hi8_lo8)

lemma stores_marked:
  assumes "stores d e" "eemem e' = eemem e"
  shows "marked NvZeroA (nv_load NvZeroA e') \<Longrightarrow> \<not> kept NvZeroA d"
    "marked NvZeroB (nv_load NvZeroB e') \<Longrightarrow> \<not> kept NvZeroB d"
    "marked NvBaseA (nv_load NvBaseA e') \<Longrightarrow> \<not> kept NvBaseA d"
    "marked NvBaseB (nv_load NvBaseB e') \<Longrightarrow> \<not> kept NvBaseB d"
    "marked NvRange (nv_load NvRange e') \<Longrightarrow> \<not> kept NvRange d"
    "marked NvAuto (nv_load NvAuto e') \<Longrightarrow> \<not> kept NvAuto d"
    "marked NvThrd (nv_load NvThrd e') \<Longrightarrow> \<not> kept NvThrd d"
    "marked NvConfig (nv_load NvConfig e') \<Longrightarrow> \<not> kept NvConfig d"
    "marked NvSw (nv_load NvSw e') \<Longrightarrow> \<not> kept NvSw d"
    "marked NvField (nv_load NvField e') \<Longrightarrow> \<not> kept NvField d"
    "marked NvNet (nv_load NvNet e') \<Longrightarrow> \<not> kept NvNet d"
proof -
  have eq: "nv_image g (nv_load g e') = nv_image g d" if "kept g d" for g
    using stores_image [OF assms(1) that assms(2)] .
  show "marked NvZeroA (nv_load NvZeroA e') \<Longrightarrow> \<not> kept NvZeroA d"
    using eq [of NvZeroA] kept_mark [of NvZeroA d] by simp (metis s16_bytes_0)
  show "marked NvZeroB (nv_load NvZeroB e') \<Longrightarrow> \<not> kept NvZeroB d"
    using eq [of NvZeroB] kept_mark [of NvZeroB d] by simp (metis s16_bytes_0)
  show "marked NvBaseA (nv_load NvBaseA e') \<Longrightarrow> \<not> kept NvBaseA d"
    using eq [of NvBaseA] kept_mark [of NvBaseA d] by simp (metis s16_bytes_0)
  show "marked NvBaseB (nv_load NvBaseB e') \<Longrightarrow> \<not> kept NvBaseB d"
    using eq [of NvBaseB] kept_mark [of NvBaseB d] by simp (metis s16_bytes_0)
  show "marked NvRange (nv_load NvRange e') \<Longrightarrow> \<not> kept NvRange d"
    using eq [of NvRange] kept_mark [of NvRange d] by simp (metis be16_hi8_lo8)
  show "marked NvAuto (nv_load NvAuto e') \<Longrightarrow> \<not> kept NvAuto d"
    using eq [of NvAuto] kept_mark [of NvAuto d] by simp (metis be16_hi8_lo8)
  show "marked NvThrd (nv_load NvThrd e') \<Longrightarrow> \<not> kept NvThrd d"
    using eq [of NvThrd] kept_mark [of NvThrd d] by simp (metis be16_hi8_lo8)
  show "marked NvConfig (nv_load NvConfig e') \<Longrightarrow> \<not> kept NvConfig d" using eq [of NvConfig] kept_mark [of NvConfig d] by auto
  show "marked NvSw (nv_load NvSw e') \<Longrightarrow> \<not> kept NvSw d" using eq [of NvSw] kept_mark [of NvSw d] by auto
  show "marked NvField (nv_load NvField e') \<Longrightarrow> \<not> kept NvField d"
    by (rule notI) (use eq [of NvField] kept_mark [of NvField d] in \<open>simp add: WriteFieldPara_body_def\<close>)
  show "marked NvNet (nv_load NvNet e') \<Longrightarrow> \<not> kept NvNet d"
    by (rule notI) (use eq [of NvNet] kept_mark [of NvNet d] in \<open>auto simp: upt_4 upt_6\<close>)
qed

lemma controlPara_not_blank: "controlPara d \<noteq> 0xFF"
proof
  assume "controlPara d = 0xFF"
  then have "bit (controlPara d) 3 = bit (0xFF :: u8) 3" by simp
  then show False by (simp add: bit_controlPara)
qed

lemma loads_eemem [simp]:
  "eemem (ReadAdcZeroFromEEProm i d) = eemem d" "eemem (ReadAdcBaseFromEEProm i d) = eemem d"
  "eemem (ReadTensionMaxRangeFromEEProm d) = eemem d" "eemem (ReadBaseAutoCalibrateTimeFromEEProm d) = eemem d"
  "eemem (ReadFieldParaFromEEProm d) = eemem d" "eemem (ReadControlParaFromEEProm d) = eemem d"
  "eemem (ReadSWValToEEProm d) = eemem d" "eemem (ReadAlmThrdFromEEProm d) = eemem d"
  "eemem (ReadConfigCodeToEEProm d) = eemem d" "eemem (ReadNetParasFromEEProm d) = eemem d"
  using nv_load_frame(1) [of NvRange d] nv_load_frame(1) [of NvAuto d] nv_load_frame(1) [of NvField d]
    nv_load_frame(1) [of NvControl d] nv_load_frame(1) [of NvSw d] nv_load_frame(1) [of NvThrd d]
    nv_load_frame(1) [of NvConfig d] nv_load_frame(1) [of NvNet d]
  by (simp_all add: ReadAdcZeroFromEEProm_def ReadAdcBaseFromEEProm_def)

lemma stores_load_default:
  assumes "stores d e" "c \<Longrightarrow> \<not> kept g d" "\<And>e. eemem (u e) = eemem e"
  shows "stores d (if c then nv_save g (u (nv_load g e)) else nv_load g e)"
  using assms stores_save [of d e "u (nv_load g e)" g] stores_eemem [of d e "nv_load g e"] by simp

lemma stores_Adc_Init_field:
  assumes "stores d e"
  shows "stores d (Adc_Init_field 0 e)" "stores d (Adc_Init_field 1 e)"
proof -
  have fin: "stores d (e\<lparr>calibrate_en := c\<rparr>)" if "stores d e" for e c
    using that by (rule stores_eemem) simp
  have z: "stores d (if zero_val (nv_load NvZeroA e) 0 0 = 0xffff
        then nv_save NvZeroA ((nv_load NvZeroA e)\<lparr>zero_val := z\<rparr>) else nv_load NvZeroA e)"
    "stores d (if zero_val (nv_load NvZeroB e) 1 0 = 0xffff
        then nv_save NvZeroB ((nv_load NvZeroB e)\<lparr>zero_val := z\<rparr>) else nv_load NvZeroB e)" if "stores d e" for e z
    using stores_marked(1,2) [OF that refl]
      stores_load_default [OF that, of _ NvZeroA "\<lambda>e. e\<lparr>zero_val := z\<rparr>"]
      stores_load_default [OF that, of _ NvZeroB "\<lambda>e. e\<lparr>zero_val := z\<rparr>"] by simp_all
  have b: "stores d (if base_val (nv_load NvBaseA e) 0 0 = 0xffff
        then nv_save NvBaseA ((nv_load NvBaseA e)\<lparr>base_val := z\<rparr>) else nv_load NvBaseA e)"
    "stores d (if base_val (nv_load NvBaseB e) 1 0 = 0xffff
        then nv_save NvBaseB ((nv_load NvBaseB e)\<lparr>base_val := z\<rparr>) else nv_load NvBaseB e)" if "stores d e" for e z
    using stores_marked(3,4) [OF that refl]
      stores_load_default [OF that, of _ NvBaseA "\<lambda>e. e\<lparr>base_val := z\<rparr>"]
      stores_load_default [OF that, of _ NvBaseB "\<lambda>e. e\<lparr>base_val := z\<rparr>"] by simp_all
  show "stores d (Adc_Init_field 0 e)"
    unfolding Adc_Init_field_def Let_def
    by (intro fin b(1) [unfolded nv_save.simps nv_load.simps] z(1) [unfolded nv_save.simps nv_load.simps] assms)
  show "stores d (Adc_Init_field 1 e)"
    unfolding Adc_Init_field_def Let_def
    by (intro fin b(2) [unfolded nv_save.simps nv_load.simps] z(2) [unfolded nv_save.simps nv_load.simps] assms)
qed

lemma stores_Adc_Init:
  assumes "stores d e"
  shows "stores d (Adc_Init e)"
proof -
  have r: "stores d (if tension_max_range (nv_load NvRange e) = 0xffff
        then nv_save NvRange ((nv_load NvRange e)\<lparr>tension_max_range := z\<rparr>) else nv_load NvRange e)"
    and a: "stores d (if base_auto_calibrate_time (nv_load NvAuto e) = 0xffff
        then nv_save NvAuto ((nv_load NvAuto e)\<lparr>base_auto_calibrate_time := z\<rparr>) else nv_load NvAuto e)"
    if "stores d e" for e z
    using stores_marked(5,6) [OF that refl]
      stores_load_default [OF that, of _ NvRange "\<lambda>e. e\<lparr>tension_max_range := z\<rparr>"]
      stores_load_default [OF that, of _ NvAuto "\<lambda>e. e\<lparr>base_auto_calibrate_time := z\<rparr>"] by simp_all
  have fin: "stores d (e\<lparr>init_done := 1\<rparr>)" if "stores d e" for e
    using that by (rule stores_eemem) simp
  show ?thesis
    unfolding Adc_Init_def Let_def
    by (intro fin a [unfolded nv_save.simps nv_load.simps] r [unfolded nv_save.simps nv_load.simps]
        stores_Adc_Init_field assms)
qed

lemma stores_ALARM_Init_fields:
  assumes "stores d e"
  shows "stores d (ALARM_Init_fields e)"
proof -
  have "hi8 (alarm_delay (nv_load NvField e) 0) = eemem e 0x61" "lo8 (alarm_delay (nv_load NvField e) 0) = eemem e 0x62"
    by (simp_all add: ReadFieldParaFromEEProm_def ReadFieldPara_body_def Let_def)
  then have "\<not> kept NvField d" if "eemem e 0x61 = 0xFF \<or> eemem e 0x62 = 0xFF"
    using that stores_marked(10) [OF assms refl] by simp
  then show ?thesis
    using stores_save [OF assms, of "e\<lparr>field_num := (field_num e)(0 := 0, 1 := 0), alarm_delay := (alarm_delay e)(0 := 30, 1 := 30)\<rparr>" NvField]
      stores_eemem [OF assms, of "nv_load NvField e"]
    by (auto simp: ALARM_Init_fields_def)
qed

lemma stores_ALARM_Init_control:
  assumes "stores d e"
  shows "stores d (ALARM_Init_control e)"
proof -
  have fin: "stores d (e\<lparr>LED_BU_FANG := l\<rparr>)" if "stores d e" for e l
    using that by (rule stores_eemem) simp
  have "\<not> kept NvControl d" if "eemem e ControlParaAddr = 0xFF"
    using that assms controlPara_not_blank [of d] by (auto simp: stores_def nv.stored_def)
  then have s: "stores d (WriteControlParaToEEProm (e\<lparr>flag_fcgjsn := a, BU_FANG_A_FLAG := b, BU_FANG_B_FLAG := c\<rparr>))"
    if "eemem e ControlParaAddr = 0xFF" for a b c
    using that stores_save [OF assms, of "e\<lparr>flag_fcgjsn := a, BU_FANG_A_FLAG := b, BU_FANG_B_FLAG := c\<rparr>" NvControl]
    by simp
  have l: "stores d ((ReadControlParaFromEEProm e)\<lparr>BU_FANG_B_FLAG := c\<rparr>)" "stores d (ReadControlParaFromEEProm e)" for c
    using assms by (auto intro: stores_eemem)
  show ?thesis unfolding ALARM_Init_control_def Let_def using s l by (auto intro!: fin)
qed

lemma stores_ALARM_Init_switches:
  assumes "stores d e"
  shows "stores d (ALARM_Init_switches e)"
proof -
  have u: "stores d (updateSWAlarmState n e)" if "stores d e" for e n
    using that by (rule stores_eemem) (simp add: updateSWAlarmState_def Set_Alarm_State_Util_Clear_def clear_state_def Let_def)
  have "SW_Type (nv_load NvSw e) 0 = eemem e SWValAddr" by (simp add: ReadSWValToEEProm_def)
  then have "\<not> kept NvSw d" if "eemem e SWValAddr = 0xFF"
    using that stores_marked(9) [OF assms refl] by simp
  then show ?thesis
    using stores_save [OF assms refl, of NvSw] stores_eemem [OF assms, of "ReadSWValToEEProm e"]
    by (simp add: ALARM_Init_switches_def Let_def u)
qed

lemma stores_ALARM_Init_thresholds:
  assumes "stores d e"
  shows "stores d (ALARM_Init_thresholds e)"
proof -
  let ?l = "nv_load NvThrd e"
  let ?u = "if alarm_threshold_up_dif ?l = 0xffff then nv_save NvThrd (?l\<lparr>alarm_threshold_up_dif := 50\<rparr>) else ?l"
  have l: "marked NvThrd ?l \<Longrightarrow> \<not> kept NvThrd d" by (rule stores_marked(7) [OF assms refl])
  have u: "stores d ?u"
    using l stores_save [OF assms, of "?l\<lparr>alarm_threshold_up_dif := 50\<rparr>" NvThrd] stores_eemem [OF assms, of ?l] by simp
  have "alarm_threshold_down_dif (WriteAlmThrdToEEProm e) = alarm_threshold_down_dif e" for e
    by (simp add: WriteAlmThrdToEEProm_def Let_def)
  then have "\<not> kept NvThrd d" if "alarm_threshold_down_dif ?u = 0xffff"
    using that l by (simp split: if_splits)
  then have "stores d (if alarm_threshold_down_dif ?u = 0xffff then nv_save NvThrd (?u\<lparr>alarm_threshold_down_dif := 50\<rparr>) else ?u)"
    using u stores_save [OF u, of "?u\<lparr>alarm_threshold_down_dif := 50\<rparr>" NvThrd] by simp
  then show ?thesis unfolding ALARM_Init_thresholds_def Let_def nv_save.simps nv_load.simps .
qed

lemma stores_ALARM_Init: "stores d e \<Longrightarrow> stores d (ALARM_Init e)"
proof -
  have f: "stores d (e\<lparr>RL_A := a, RL_B := b\<rparr>)" "stores d (e\<lparr>W4_W6 := w\<rparr>)" if "stores d e" for e a b w
    using that by (auto intro: stores_eemem)
  assume "stores d e"
  then show ?thesis
    unfolding ALARM_Init_def Let_def
    by (intro stores_ALARM_Init_thresholds f stores_ALARM_Init_switches stores_ALARM_Init_control stores_ALARM_Init_fields)
qed

lemma stores_net:
  assumes "stores d e"
  shows "stores d (lwip_comm_ip_init sn0 e)"
proof -
  let ?l = "ReadNetParasFromEEProm e"
  have l: "stores d ?l" using assms by (rule stores_eemem) simp
  show ?thesis
  proof (cases "marked NvNet ?l")
    case True
    then have "\<not> kept NvNet d" using stores_marked(11) [OF assms refl] by simp
    then have s: "stores d (WriteNetParasToEEProm e')" if "stores d e" "eemem e' = eemem e" for e e'
      using stores_save [OF that, of NvNet] by simp
    have m: "stores d (if c then WriteNetParasToEEProm (e\<lparr>lw_mac := m\<rparr>) else e)" if "stores d e" for c m e
      using that s [OF that, of "e\<lparr>lw_mac := m\<rparr>"] by simp
    have f: "stores d (if c then lwip_comm_default_ip_set sn0 e else e)" if "stores d e" for c e
    proof -
      have "stores d (lwip_comm_default_ip_set sn0 e)"
        unfolding lwip_comm_default_ip_set_def Let_def by (rule s [OF that]) simp
      with that show ?thesis by simp
    qed
    show ?thesis unfolding lwip_comm_ip_init_def Let_def by (intro f m l)
  next
    case False
    then have "lwip_comm_ip_init sn0 e = ?l" by (auto simp: lwip_comm_ip_init_def Let_def)
    with l show ?thesis by simp
  qed
qed

text \<open>All groups.\<close>

lemma stores_start:
  assumes "stores d d"
  shows "stores d (start nack rx junk (checked d))"
proof -
  have c: "stores d (checked d)"
  proof -
    have "nv.stored g (checked d) = nv.stored g d" for g
      by (rule stored_other_writes) (auto simp: checked_def power_on_def)
    with assms show ?thesis by (simp add: stores_def)
  qed
  have "stores d (readConfigCode e)" if "stores d e" for e
  proof -
    have "\<not> kept NvConfig d" if "config_code (nv_load NvConfig e) = 0xFF"
      using that stores_marked(8) [OF \<open>stores d e\<close> refl] by simp
    then show ?thesis
      using stores_load_default [OF that, of "config_code (nv_load NvConfig e) = 0xFF" NvConfig
          "\<lambda>e. e\<lparr>config_code := 0x01\<rparr>"]
      by (cases "config_code (nv_load NvConfig e) = 0xFF") (simp_all add: readConfigCode_def Let_def)
  qed
  from this [OF stores_eemem [OF c, of "(checked d)\<lparr>LED_RUN := False\<rparr>"]]
  have "stores d (readConfigCode ((checked d)\<lparr>LED_RUN := False\<rparr>))" by simp
  then show ?thesis
    unfolding start_def by (rule stores_eemem) (simp add: PCF8563_Get_Str_def split: option.split)
qed

text \<open>The addresses and the arming flags are taken over by the last two stages of the start.\<close>

lemma lwip_comm_ip_init_saved: "nv.stored NvNet (lwip_comm_ip_init sn0 e) = nv_image NvNet (lwip_comm_ip_init sn0 e)"
proof -
  have s: "nv.stored NvNet (WriteNetParasToEEProm e) = nv_image NvNet (WriteNetParasToEEProm e)" for e
    using nv.stored_save [of NvNet NvNet e] nv_image_Write [of NvNet] nv_save_writes [of NvNet e] by simp
  have l: "nv.stored NvNet (ReadNetParasFromEEProm e) = nv_image NvNet (ReadNetParasFromEEProm e)" for e
    using nv_load_stored [of NvNet e] stored_eemem [of "nv_load NvNet e" e NvNet] by simp
  show ?thesis
    unfolding lwip_comm_ip_init_def lwip_comm_default_ip_set_def Let_def
    by (simp only: s l split: if_split) simp
qed

lemma ALARM_Init_control_takes:
  assumes "stores d e" "kept NvControl d" "FIELD_FLAG_S0D1 e = FIELD_FLAG_S0D1 d"
  shows "controlPara (ALARM_Init_control e) = controlPara d"
proof -
  let ?l = "ReadControlParaFromEEProm e"
  have "nv.stored NvControl e = nv_image NvControl d" using assms(1,2) by (simp only: stores_def)
  then have st: "eemem e ControlParaAddr = controlPara d" by (simp add: nv.stored_def)
  have l: "controlPara ?l = controlPara d" using st by (rule controlPara_load)
  have pin: "FIELD_FLAG_S0D1 ?l = FIELD_FLAG_S0D1 d"
    using assms(3) by (simp add: ReadControlParaFromEEProm_def Let_def)
  have off: "controlPara (?l\<lparr>BU_FANG_B_FLAG := OFF\<rparr>) = controlPara d" if "FIELD_FLAG_S0D1 d"
  proof -
    have "\<not> bit (BU_FANG_B_FLAG d) 0" using kept_mark [OF assms(2)] that by simp
    then have "\<not> bit (controlPara ?l) 1" by (simp add: l bit_controlPara)
    then have "\<not> bit (BU_FANG_B_FLAG ?l) 0" by (simp add: bit_controlPara)
    then have "controlPara (?l\<lparr>BU_FANG_B_FLAG := OFF\<rparr>) = controlPara ?l"
      by (intro bit_word_eqI) (simp add: bit_controlPara)
    with l show ?thesis by simp
  qed
  have led: "controlPara (x\<lparr>LED_BU_FANG := b\<rparr>) = controlPara x" for x b by (simp add: controlPara_def)
  show ?thesis
    using st controlPara_not_blank [of d] l off pin by (simp add: ALARM_Init_control_def Let_def led)
qed

lemma controlPara_stages:
  "controlPara (nv_save g e) = controlPara e"
  "g \<noteq> NvControl \<Longrightarrow> controlPara (nv_load g e) = controlPara e"
  "controlPara (updateSWAlarmState n e) = controlPara e"
proof -
  show "controlPara (nv_save g e) = controlPara e"
    by (simp only: nv_save_writes) (subst AT24CXX_Write_only_mem, simp add: controlPara_def)
  show "g \<noteq> NvControl \<Longrightarrow> controlPara (nv_load g e) = controlPara e"
    by (cases g) (simp_all add: controlPara_def ReadNetParasFromEEProm_def ReadConfigCodeToEEProm_def
      ReadAdcZeroFromEEProm_def ReadAdcBaseFromEEProm_def ReadAlmThrdFromEEProm_def ReadSWValToEEProm_def
      ReadTensionMaxRangeFromEEProm_def ReadBaseAutoCalibrateTimeFromEEProm_def ReadFieldParaFromEEProm_def
      ReadFieldPara_body_def Let_def)
qed (simp add: controlPara_def updateSWAlarmState_def Set_Alarm_State_Util_Clear_def clear_state_def Let_def)

lemma controlPara_last:
  "controlPara (ALARM_Init_switches e) = controlPara e" "controlPara (ALARM_Init_thresholds e) = controlPara e"
  "controlPara (lwip_comm_ip_init sn0 e) = controlPara e"
proof -
  note c = controlPara_stages(1) [of NvSw] controlPara_stages(1) [of NvThrd] controlPara_stages(1) [of NvNet]
    controlPara_stages(2) [of NvSw] controlPara_stages(2) [of NvThrd] controlPara_stages(2) [of NvNet]
  note c = c [simplified] controlPara_stages(3)
  have f: "controlPara (e\<lparr>alarm_threshold_up_dif := t1\<rparr>) = controlPara e"
    "controlPara (e\<lparr>alarm_threshold_down_dif := t2\<rparr>) = controlPara e" "controlPara (e\<lparr>lw_mac := t3\<rparr>) = controlPara e"
    "controlPara (e\<lparr>lw_remoteip := t4\<rparr>) = controlPara e" "controlPara (e\<lparr>lw_ip := t5\<rparr>) = controlPara e"
    "controlPara (e\<lparr>lw_netmask := t6\<rparr>) = controlPara e" "controlPara (e\<lparr>lw_gateway := t7\<rparr>) = controlPara e"
    "controlPara (e\<lparr>lw_dhcpstatus := t8\<rparr>) = controlPara e" for e t1 t2 t3 t4 t5 t6 t7 t8
    by (simp_all add: controlPara_def)
  show "controlPara (ALARM_Init_switches e) = controlPara e" "controlPara (ALARM_Init_thresholds e) = controlPara e"
    "controlPara (lwip_comm_ip_init sn0 e) = controlPara e"
    by (simp_all add: ALARM_Init_switches_def ALARM_Init_thresholds_def lwip_comm_ip_init_def
        lwip_comm_default_ip_set_def Let_def c f)
qed

text \<open>After the configuration code is read, the start leaves it, the input pin and the request for a restart.\<close>

definition start_fields :: "dev \<Rightarrow> bool \<times> bool \<times> u8" where
  "start_fields d = (sys_reset d, FIELD_FLAG_S0D1 d, config_code d)"

lemma start_fields_stages:
  "start_fields (Log_Init d) = start_fields d" "start_fields (Adc_Init d) = start_fields d"
  "start_fields (ALARM_Init_fields d) = start_fields d" "start_fields (ALARM_Init d) = start_fields d"
  "start_fields (lwip_comm_ip_init sn0 d) = start_fields d"
  "sys_reset (start nack rx junk d) = sys_reset d" "FIELD_FLAG_S0D1 (start nack rx junk d) = FIELD_FLAG_S0D1 d"
proof -
  have w: "start_fields (AT24CXX_Write a bs d) = start_fields d" for a bs d
    by (subst AT24CXX_Write_only_mem) (simp add: start_fields_def)
  then have s: "start_fields (nv_save g d) = start_fields d" for g d by (simp only: nv_save_writes)
  have l: "start_fields (nv_load g d) = start_fields d" if "g \<noteq> NvConfig" for g d
    using that by (cases g) (simp_all add: start_fields_def ReadNetParasFromEEProm_def ReadConfigCodeToEEProm_def
       ReadAdcZeroFromEEProm_def ReadAdcBaseFromEEProm_def ReadAlmThrdFromEEProm_def ReadSWValToEEProm_def
       ReadTensionMaxRangeFromEEProm_def ReadBaseAutoCalibrateTimeFromEEProm_def ReadFieldParaFromEEProm_def
       ReadFieldPara_body_def ReadControlParaFromEEProm_def Let_def)
  note sl = s [of NvNet] s [of NvConfig] s [of NvZeroA] s [of NvZeroB] s [of NvBaseA] s [of NvBaseB] s [of NvThrd]
    s [of NvControl] s [of NvSw] s [of NvRange] s [of NvAuto] s [of NvField]
    l [of NvNet] l [of NvZeroA] l [of NvZeroB] l [of NvBaseA] l [of NvBaseB] l [of NvThrd]
    l [of NvControl] l [of NvSw] l [of NvRange] l [of NvAuto] l [of NvField]
  note sl = sl [simplified]
  have u: "start_fields (e\<lparr>calibrate_en := v1\<rparr>) = start_fields e" "start_fields (e\<lparr>init_done := v2\<rparr>) = start_fields e"
    "start_fields (e\<lparr>zero_val := v3\<rparr>) = start_fields e" "start_fields (e\<lparr>base_val := v4\<rparr>) = start_fields e"
    "start_fields (e\<lparr>tension_max_range := v5\<rparr>) = start_fields e"
    "start_fields (e\<lparr>base_auto_calibrate_time := v6\<rparr>) = start_fields e" "start_fields (e\<lparr>RL_B := v7\<rparr>) = start_fields e"
    "start_fields (e\<lparr>RL_A := v8\<rparr>) = start_fields e" "start_fields (e\<lparr>W4_W6 := v9\<rparr>) = start_fields e"
    "start_fields (e\<lparr>LED_BU_FANG := v10\<rparr>) = start_fields e" "start_fields (e\<lparr>BU_FANG_B_FLAG := v11\<rparr>) = start_fields e"
    "start_fields (e\<lparr>BU_FANG_A_FLAG := v12\<rparr>) = start_fields e" "start_fields (e\<lparr>flag_fcgjsn := v13\<rparr>) = start_fields e"
    "start_fields (e\<lparr>field_num := v14\<rparr>) = start_fields e" "start_fields (e\<lparr>alarm_delay := v15\<rparr>) = start_fields e"
    "start_fields (e\<lparr>alarm_threshold_up_dif := v16\<rparr>) = start_fields e" "start_fields (e\<lparr>lw_mac := v17\<rparr>) = start_fields e"
    "start_fields (e\<lparr>alarm_threshold_down_dif := v18\<rparr>) = start_fields e" "start_fields (e\<lparr>lw_ip := v19\<rparr>) = start_fields e"
    "start_fields (e\<lparr>lw_netmask := v20\<rparr>) = start_fields e" "start_fields (e\<lparr>lw_gateway := v21\<rparr>) = start_fields e"
    "start_fields (e\<lparr>lw_remoteip := v22\<rparr>) = start_fields e" "start_fields (e\<lparr>lw_dhcpstatus := v23\<rparr>) = start_fields e"
    "start_fields (e\<lparr>nextWriteAddrVal := v24\<rparr>) = start_fields e" "start_fields (e\<lparr>rtcTempStr := v25\<rparr>) = start_fields e"
    "start_fields (e\<lparr>LED_RUN := v26\<rparr>) = start_fields e"
    "start_fields (e\<lparr>lastWebPageReadDir := v28\<rparr>) = start_fields e" "start_fields (e\<lparr>lastLCDPageReadDir := v29\<rparr>) = start_fields e"
    "start_fields (updateSWAlarmState n e) = start_fields e"
    for e v1 v2 v3 v4 v5 v6 v7 v8 v9 v10 v11 v12 v13 v14 v15 v16 v17 v18 v19 v20 v21 v22 v23 v24 v25 v26 v28 v29 n
    by (simp_all add: start_fields_def updateSWAlarmState_def Set_Alarm_State_Util_Clear_def clear_state_def Let_def)
  have f: "start_fields (fold Log_Init_body ts d) = start_fields d" for ts d
    by (induction ts arbitrary: d) (simp_all add: Log_Init_body_def WriteLenByte_2 Let_def w u del: AT24CXX_Write.simps)
  show fields: "start_fields (ALARM_Init_fields d) = start_fields d" for d
    by (simp add: ALARM_Init_fields_def sl u)
  show "start_fields (Log_Init d) = start_fields d" "start_fields (Adc_Init d) = start_fields d"
    "start_fields (ALARM_Init d) = start_fields d" "start_fields (lwip_comm_ip_init sn0 d) = start_fields d"
    by (simp_all add: Log_Init_def f Adc_Init_def Adc_Init_field_def ALARM_Init_def ALARM_Init_control_def
        ALARM_Init_switches_def ALARM_Init_thresholds_def lwip_comm_ip_init_def lwip_comm_default_ip_set_def
        fields Let_def sl u)
  have c: "sys_reset (ReadConfigCodeToEEProm d) = sys_reset d" "FIELD_FLAG_S0D1 (ReadConfigCodeToEEProm d) = FIELD_FLAG_S0D1 d"
    "sys_reset (WriteConfigCodeToEEProm d) = sys_reset d" "FIELD_FLAG_S0D1 (WriteConfigCodeToEEProm d) = FIELD_FLAG_S0D1 d" for d
    using sl(2) [of d] by (simp_all add: start_fields_def ReadConfigCodeToEEProm_def)
  show "sys_reset (start nack rx junk d) = sys_reset d" "FIELD_FLAG_S0D1 (start nack rx junk d) = FIELD_FLAG_S0D1 d"
    by (simp_all add: start_def PCF8563_Get_Str_def readConfigCode_def Let_def c split: option.split)
qed

lemma boot_recovers_group:
  assumes "\<forall>t<5. log_wf t d" "boot nack rx junk sn0 d = Some e" "kept g d"
  shows "nv_image g e = nv_image g d"
proof -
  let ?s = "start nack rx junk (checked d)"
  let ?a = "ALARM_Init_fields ((Adc_Init (Log_Init ?s))\<lparr>RL_A := False, RL_B := False\<rparr>)"
  have e: "e = lwip_comm_ip_init sn0 (ALARM_Init (Adc_Init (Log_Init ?s)))"
    using assms(2) by (simp only: boot_eq option.inject system_init_paras_def start_def)
  have "stores d d" by (simp add: stores_def kept_def nv.stored_def)
  then have "stores d ?s" by (rule stores_start)
  moreover have "nv.stored g' (Log_Init s) = nv.stored g' s" for g' s
    by (rule stored_other_writes) (simp add: Log_Init_frame)
  ultimately have "stores d (Adc_Init (Log_Init ?s))" by (intro stores_Adc_Init) (simp add: stores_def)
  then have "stores d e" and a: "stores d ?a"
    unfolding e by (auto intro!: stores_net stores_ALARM_Init stores_ALARM_Init_fields elim: stores_eemem)
  then have st: "nv.stored g e = nv_image g d" using assms(3) by (simp only: stores_def)
  consider "g \<in> insert NvSw durable" | "g = NvNet" | "g = NvControl" by (cases g) simp_all
  then show ?thesis
  proof cases
    case 1
    then have "nv.stored g e = nv_image g e"
      using boot_saved [OF assms(1,2)] unfolding inv_on_def by blast
    with st show ?thesis by simp
  next
    case 2
    with st show ?thesis using lwip_comm_ip_init_saved by (simp only: e)
  next
    case 3
    have "start_fields ((Adc_Init (Log_Init ?s))\<lparr>RL_A := False, RL_B := False\<rparr>) = start_fields (Adc_Init (Log_Init ?s))"
      by (simp add: start_fields_def)
    then have "start_fields ?a = start_fields ?s" by (simp only: start_fields_stages)
    then have "FIELD_FLAG_S0D1 ?a = FIELD_FLAG_S0D1 ?s" by (simp add: start_fields_def)
    then have "FIELD_FLAG_S0D1 ?a = FIELD_FLAG_S0D1 d"
      by (simp add: start_fields_stages checked_def power_on_def)
    then have "controlPara (ALARM_Init_control ?a) = controlPara d"
      using ALARM_Init_control_takes [OF a] assms(3) 3 by simp
    moreover have "controlPara (x\<lparr>W4_W6 := w\<rparr>) = controlPara x" for x w by (simp add: controlPara_def)
    ultimately show ?thesis by (simp add: 3 e ALARM_Init_def Let_def controlPara_last)
  qed
qed

text \<open>The logs: nothing after \<^verbatim>\<open>Log_Init\<close> touches them.\<close>

definition same_logs :: "dev \<Rightarrow> dev \<Rightarrow> bool" where
  "same_logs d e \<longleftrightarrow> nextWriteAddrVal e = nextWriteAddrVal d \<and> (\<forall>b. 224 \<le> unat b \<longrightarrow> eemem e b = eemem d b)"

lemma same_logs_nv:
  "same_logs d (nv_save g e) = same_logs d e" "same_logs d (nv_load g e) = same_logs d e"
proof -
  have "nextWriteAddrVal (nv_save g e) = nextWriteAddrVal e" by (simp add: nv_save_writes)
  then show "same_logs d (nv_save g e) = same_logs d e" by (simp add: same_logs_def nv.save_leaves_high)
qed (simp add: same_logs_def)

lemmas same_logs_ops [simp] =
  same_logs_nv [of _ NvNet, simplified] same_logs_nv [of _ NvConfig, simplified]
  same_logs_nv [of _ NvZeroA, simplified] same_logs_nv [of _ NvZeroB, simplified]
  same_logs_nv [of _ NvBaseA, simplified] same_logs_nv [of _ NvBaseB, simplified]
  same_logs_nv [of _ NvThrd, simplified] same_logs_nv [of _ NvControl, simplified]
  same_logs_nv [of _ NvSw, simplified] same_logs_nv [of _ NvRange, simplified]
  same_logs_nv [of _ NvAuto, simplified] same_logs_nv [of _ NvField, simplified]

lemma same_logs_cong: "eemem e = eemem e' \<Longrightarrow> nextWriteAddrVal e = nextWriteAddrVal e' \<Longrightarrow> same_logs d e = same_logs d e'"
  by (simp add: same_logs_def)

lemma same_logs_frame [simp]:
  "same_logs d (e\<lparr>calibrate_en := x1\<rparr>) = same_logs d e" "same_logs d (e\<lparr>init_done := x2\<rparr>) = same_logs d e"
  "same_logs d (e\<lparr>zero_val := x3\<rparr>) = same_logs d e" "same_logs d (e\<lparr>base_val := x4\<rparr>) = same_logs d e"
  "same_logs d (e\<lparr>tension_max_range := x5\<rparr>) = same_logs d e"
  "same_logs d (e\<lparr>base_auto_calibrate_time := x6\<rparr>) = same_logs d e"
  "same_logs d (e\<lparr>RL_B := x7\<rparr>) = same_logs d e" "same_logs d (e\<lparr>RL_A := x8\<rparr>) = same_logs d e"
  "same_logs d (e\<lparr>W4_W6 := x9\<rparr>) = same_logs d e" "same_logs d (e\<lparr>LED_BU_FANG := x10\<rparr>) = same_logs d e"
  "same_logs d (e\<lparr>BU_FANG_B_FLAG := x11\<rparr>) = same_logs d e" "same_logs d (e\<lparr>BU_FANG_A_FLAG := x12\<rparr>) = same_logs d e"
  "same_logs d (e\<lparr>flag_fcgjsn := x13\<rparr>) = same_logs d e" "same_logs d (e\<lparr>field_num := x14\<rparr>) = same_logs d e"
  "same_logs d (e\<lparr>alarm_delay := x15\<rparr>) = same_logs d e" "same_logs d (updateSWAlarmState n e) = same_logs d e"
  "same_logs d (e\<lparr>alarm_threshold_up_dif := x16\<rparr>) = same_logs d e"
  "same_logs d (e\<lparr>alarm_threshold_down_dif := x17\<rparr>) = same_logs d e"
  "same_logs d (e\<lparr>lw_mac := y1\<rparr>) = same_logs d e" "same_logs d (e\<lparr>lw_ip := y2\<rparr>) = same_logs d e"
  "same_logs d (e\<lparr>lw_netmask := y3\<rparr>) = same_logs d e" "same_logs d (e\<lparr>lw_gateway := y4\<rparr>) = same_logs d e"
  "same_logs d (e\<lparr>lw_remoteip := y5\<rparr>) = same_logs d e" "same_logs d (e\<lparr>lw_dhcpstatus := y6\<rparr>) = same_logs d e"
  by (rule same_logs_cong;
      simp add: updateSWAlarmState_def Set_Alarm_State_Util_Clear_def clear_state_def Let_def)+

lemma same_logs_loads [simp]:
  "same_logs d (ReadAdcZeroFromEEProm i e) = same_logs d e" "same_logs d (ReadAdcBaseFromEEProm i e) = same_logs d e"
  by (simp_all add: ReadAdcZeroFromEEProm_def ReadAdcBaseFromEEProm_def)

lemma same_logs_inits:
  "same_logs d (Adc_Init e) = same_logs d e" "same_logs d (ALARM_Init e) = same_logs d e"
  "same_logs d (lwip_comm_ip_init sn0 e) = same_logs d e"
  by (simp_all add: Adc_Init_def Adc_Init_field_def ALARM_Init_def ALARM_Init_fields_def ALARM_Init_control_def
      ALARM_Init_switches_def ALARM_Init_thresholds_def lwip_comm_ip_init_def lwip_comm_default_ip_set_def Let_def)

lemma boot_recovers_logs:
  assumes "\<forall>t<5. log_wf t d" "t < 5" "boot nack rx junk sn0 d = Some e"
  shows "log_abs t e = log_abs t d"
proof -
  let ?l = "Log_Init (start nack rx junk (checked d))"
  have "same_logs ?l e"
    using assms(3) by (auto simp: boot_eq system_init_paras_def start_def same_logs_inits, simp add: same_logs_def)
  then have "log_abs t e = log_abs t ?l"
    using boot_logs(1) [of t d] assms(1,2) by (intro log_wf_high(2)) (auto simp: same_logs_def)
  then show ?thesis using boot_logs(2) [of t d] assms(1,2) by simp
qed

text \<open>A device at the end of its first start, on which the properties are tried out.\<close>

definition new_device :: dev where
  "new_device = lwip_comm_ip_init 0 (system_init_paras (\<lambda>n. False) (\<lambda>n. 0) (\<lambda>n. 0) (checked globals_init))"

lemma boot_new_device: "boot (\<lambda>n. False) (\<lambda>n. 0) (\<lambda>n. 0) 0 globals_init = Some new_device"
  by (simp only: boot_eq new_device_def)

lemma life_new_device: "life new_device"
  by (rule life.factory [OF _ boot_new_device]) (simp add: globals_init_def)

lemma new_device_ok: "store_ok new_device"
  by (rule boot_blank [OF _ boot_new_device]) (simp add: globals_init_def)

lemma new_device_log: "t < 5 \<Longrightarrow> log_wf t new_device" "rtc_ok new_device"
  using new_device_ok by (auto intro: inv_log inv_rtc)

lemma new_device_start: "start_fields new_device = start_fields (start (\<lambda>n. False) (\<lambda>n. 0) (\<lambda>n. 0) (checked globals_init))"
  by (simp only: new_device_def system_init_paras_def start_fields_stages start_def [symmetric])

lemma new_device_running: "\<not> sys_reset new_device"
  using new_device_start
  by (simp add: start_fields_def start_fields_stages checked_def power_on_def globals_init_def)

lemma new_device_kept: "kept NvConfig new_device"
proof -
  let ?d = "(checked globals_init)\<lparr>LED_RUN := False\<rparr>"
  have "eemem ?d ConfigCodeAddr = 0xFF" by (simp add: checked_def power_on_def globals_init_def)
  then have "config_code (readConfigCode ?d) = 0x01"
    by (simp add: readConfigCode_def ReadConfigCodeToEEProm_def WriteConfigCodeToEEProm_def Let_def)
  then have "config_code new_device = 0x01"
    using new_device_start by (simp add: start_fields_def start_def PCF8563_Get_Str_def split: option.splits)
  moreover have "nv.stored NvConfig new_device = nv_image NvConfig new_device"
    using new_device_ok unfolding inv_on_def by simp
  ultimately show ?thesis by (simp add: kept_def nv.stored_def)
qed

end
