(* ===== verification/LogSpec.thy ===== *)
theory LogSpec
  imports Boot
begin

text \<open>
  The contract of \<^verbatim>\<open>log.c\<close> as its users rely on it: what writing, clearing, formatting, paging and
  counting pages mean on the list of records.
\<close>

subsection \<open>Writing and clearing\<close>

text \<open>
  C3: Writing a record to a log puts it in front of the log's records, drops the oldest when there
  were 300, and leaves the records of the four other logs as they were; all logs stay well formed.
\<close>

theorem WriteLog_refines:
  assumes "t < 5" "\<forall>t<5. log_wf t d" "rtc_ok d"
  shows "log_abs t (WriteLog t alarmFlag d) = take 300 ((rtcTempStr d @ [alarmFlag]) # log_abs t d) \<and>
     (\<forall>t'<5. log_wf t' (WriteLog t alarmFlag d) \<and>
        (t' \<noteq> t \<longrightarrow> log_abs t' (WriteLog t alarmFlag d) = log_abs t' d))"
  using assms log_abs_WriteLog_same [of t d alarmFlag] log_abs_WriteLog_other [of t _ d alarmFlag]
    log_wf_WriteLog_any [of t _ d alarmFlag] by simp

theorem WriteLog_refines_witness:
  "log_abs 4 (WriteLog 4 1 new_device) = take 300 ((rtcTempStr new_device @ [1]) # log_abs 4 new_device)"
  using WriteLog_refines [of 4 new_device 1] new_device_log by simp

text \<open>
  C4: Clearing a log returns (its loop over 16-bit lengths ends), the log is empty and well formed
  afterwards, and the other logs keep their records.
\<close>

theorem ClearLog_refines:
  assumes "t < 5" "\<forall>t<5. log_wf t d"
  shows "\<exists>d'. ClearLog t d = Some d' \<and> log_abs t d' = [] \<and>
     (\<forall>t'<5. log_wf t' d' \<and> (t' \<noteq> t \<longrightarrow> log_abs t' d' = log_abs t' d))"
proof -
  obtain d' where "FastClearLog t d = Some d'" "log_wf t d'" "log_abs t d' = []"
    "\<forall>t'<5. t' \<noteq> t \<longrightarrow> log_wf t' d \<longrightarrow> log_wf t' d' \<and> log_abs t' d' = log_abs t' d"
    using FastClearLog_spec [OF assms(1), of d] assms by blast
  with assms(2) show ?thesis unfolding ClearLog_def by metis
qed

theorem ClearLog_refines_witness: "\<exists>d'. ClearLog 2 new_device = Some d' \<and> log_abs 2 d' = []"
  using ClearLog_refines [of 2 new_device] new_device_log by auto

lemma FastClearLog_all:
  assumes "t < 5" "\<forall>t<5. log_wf t d" "\<forall>t'\<in>S. t' < 5 \<longrightarrow> log_abs t' d = []"
  obtains d' where "FastClearLog t d = Some d'" "\<forall>t<5. log_wf t d'"
    "\<forall>t'\<in>insert t S. t' < 5 \<longrightarrow> log_abs t' d' = []"
proof -
  obtain d' where "FastClearLog t d = Some d'" "log_wf t d'" "log_abs t d' = []"
    "\<forall>t'<5. t' \<noteq> t \<longrightarrow> log_wf t' d \<longrightarrow> log_wf t' d' \<and> log_abs t' d' = log_abs t' d"
    using FastClearLog_spec [OF assms(1), of d] assms by blast
  moreover from this assms have "\<forall>t<5. log_wf t d'" by metis
  moreover have "log_abs t' d' = []" if "t' \<in> insert t S" "t' < 5" for t'
    using calculation(2-4) assms that by (cases "t' = t") simp_all
  ultimately show ?thesis using that \<open>FastClearLog t d = Some d'\<close> by blast
qed

text \<open>C5: Formatting the log area returns and leaves five empty, well formed logs.\<close>

theorem FormatLogEEprom_empties:
  assumes "\<forall>t<5. log_wf t d"
  shows "\<exists>d'. FormatLogEEprom d = Some d' \<and> (\<forall>t<5. log_wf t d' \<and> log_abs t d' = [])"
proof -
  obtain d0 where 0: "FastClearLog 0 d = Some d0" "\<forall>t<5. log_wf t d0" "\<forall>t\<in>{0}. t < 5 \<longrightarrow> log_abs t d0 = []"
    using FastClearLog_all [of 0 d "{}"] assms by auto
  obtain d1 where 1: "FastClearLog 1 d0 = Some d1" "\<forall>t<5. log_wf t d1" "\<forall>t\<in>{1, 0}. t < 5 \<longrightarrow> log_abs t d1 = []"
    using FastClearLog_all [of 1 d0 "{0}"] 0 by auto
  obtain d2 where 2: "FastClearLog 2 d1 = Some d2" "\<forall>t<5. log_wf t d2" "\<forall>t\<in>{2, 1, 0}. t < 5 \<longrightarrow> log_abs t d2 = []"
    using FastClearLog_all [of 2 d1 "{1, 0}"] 1 by auto
  obtain d3 where 3: "FastClearLog 3 d2 = Some d3" "\<forall>t<5. log_wf t d3" "\<forall>t\<in>{3, 2, 1, 0}. t < 5 \<longrightarrow> log_abs t d3 = []"
    using FastClearLog_all [of 3 d2 "{2, 1, 0}"] 2 by auto
  obtain d4 where 4: "FastClearLog 4 d3 = Some d4" "\<forall>t<5. log_wf t d4" "\<forall>t\<in>{4, 3, 2, 1, 0}. t < 5 \<longrightarrow> log_abs t d4 = []"
    using FastClearLog_all [of 4 d3 "{3, 2, 1, 0}"] 3 by auto
  have "t \<in> {4, 3, 2, 1, 0}" if "t < 5" for t :: nat using that by auto
  with 4 have "\<forall>t<5. log_wf t d4 \<and> log_abs t d4 = []" by blast
  with 0(1) 1(1) 2(1) 3(1) 4(1) show ?thesis by (simp add: FormatLogEEprom_def)
qed

theorem FormatLogEEprom_empties_witness: "\<exists>d'. FormatLogEEprom new_device = Some d' \<and> log_abs 3 d' = []"
  using FormatLogEEprom_empties [of new_device] new_device_log by fastforce

subsection \<open>Pages\<close>

text \<open>
  C6: Paging forward through the web log shows the records newest first, ten to a page, each as the
  text of its time followed by \<^verbatim>\<open>#\<close>, and changes nothing in the EEPROM.  A page has at most 200 characters, and the
  terminator of its text falls behind the 200 bytes of the array exactly when a page of 200 characters was shown:
  with the times of the clock, of 19 characters, every full page.
\<close>

theorem web_pages_show_log:
  assumes "t < 5" "log_wf t d" "p < 30"
  shows "crtWebPageLogData ((ReadWebNextPageLog t ^^ p) (ReadWebFirstPageLog t d)) =
       concat (map (\<lambda>r. cstr (r[19 := 0]) @ [35]) (take 10 (drop (10 * p) (log_abs t d)))) \<and>
     eemem ((ReadWebNextPageLog t ^^ p) (ReadWebFirstPageLog t d)) = eemem d \<and>
     length (web_page (log_abs t d) p) \<le> 200 \<and>
     (web_page_overrun ((ReadWebNextPageLog t ^^ p) (ReadWebFirstPageLog t d)) \<longleftrightarrow>
        web_page_overrun d \<or> (\<exists>q\<le>p. length (web_page (log_abs t d) q) = 200))"
proof -
  have "shown = (\<lambda>r. cstr (r[19 := 0]) @ [35])" by (rule ext) (rule shown_def)
  moreover have "200 \<le> length (web_page L q) \<longleftrightarrow> length (web_page L q) = 200" for L q
    using length_web_page [of L q] by linarith
  ultimately show ?thesis
    using web_page_walk [OF assms] length_web_page [of "log_abs t d" p] by (simp add: web_page_def)
qed

theorem web_pages_show_log_witness:
  "crtWebPageLogData (ReadWebFirstPageLog 4 (WriteLog 4 1 new_device)) =
     concat (map (\<lambda>r. cstr (r[19 := 0]) @ [35]) (take 10 (log_abs 4 (WriteLog 4 1 new_device))))"
  using web_pages_show_log [of 4 "WriteLog 4 1 new_device" 0] log_wf_WriteLog_same [of 4 new_device 1]
    new_device_log by simp

lemma slot_addr_diff:
  assumes "t < 5" "0 < k" "k \<le> 300"
  shows "(of_nat (slot_addr t k) - 20 - of_nat (slot_addr t 0) :: u32) = of_nat (20 * (k - 1))"
proof -
  obtain j where j: "k = Suc j" using assms(2) by (cases k) auto
  have "(of_nat (slot_addr t k) :: u32) - 20 = of_nat (slot_addr t j)" by (simp only: j slot_prev_addr)
  moreover have "slot_addr t j = slot_addr t 0 + 20 * j" by (simp add: slot_addr_def)
  ultimately show ?thesis by (simp add: j)
qed

text \<open>
  The number of pages offered to the web user is the number needed for the records, ten to a
  page, and at least one.
\<close>

theorem getWebLogPageTotal_correct:
  assumes "t < 5" "log_wf t d"
  shows "unat (getWebLogPageTotal t d) = max 1 ((length (log_abs t d) + 9) div 10)"
proof (cases "isLogFull t d")
  case True
  then show ?thesis using assms length_log_abs [OF assms(2)] by (simp add: getWebLogPageTotal_def)
next
  case False
  define k where "k = log_pos t d"
  have k: "k < 300" "nextWriteAddrVal d t = of_nat (slot_addr t k)" "length (log_abs t d) = k"
    using log_wf_pos [OF assms(2)] log_wf_next [OF assms(2)] length_log_abs [OF assms(2)] False
    by (simp_all add: k_def)
  show ?thesis
  proof (cases "k = 0")
    case True
    with False k assms(1) show ?thesis by (simp add: getWebLogPageTotal_def BASED_slot)
  next
    case ne: False
    define w :: u32 where "w = of_nat (20 * (k - 1))"
    have w: "unat w = 20 * (k - 1)" using k(1) by (simp only: w_def unat_of_nat) simp
    define q where "q = w div 20 div 10"
    have d10: "unat q = (k - 1) div 10" by (simp only: q_def unat_div w) simp
    have "(k - 1) div 10 < 30" using k(1) by simp
    then have "unat (ucast (q + 1) :: u8) = (k - 1) div 10 + 1"
      by (simp add: unsigned_ucast_eq take_bit_eq_mod unat_word_ariths d10)
    moreover have "getWebLogPageTotal t d = ucast (q + 1)"
    proof -
      have "nextWriteAddrVal d t - 20 - EACH_TYPE_LOG_BASED_ADDR t = w"
        using slot_addr_diff [of t k] assms(1) k(1) ne unfolding k(2) BASED_slot w_def by simp
      moreover have "nextWriteAddrVal d t \<noteq> EACH_TYPE_LOG_BASED_ADDR t"
        using assms(1) k(1) ne by (simp add: k(2) BASED_slot)
      ultimately show ?thesis using False by (simp add: getWebLogPageTotal_def q_def)
    qed
    moreover have "max 1 ((k + 9) div 10) = (k - 1) div 10 + 1" using ne by (cases k) simp_all
    ultimately show ?thesis using k(3) by simp
  qed
qed

theorem getWebLogPageTotal_correct_witness:
  "unat (getWebLogPageTotal 0 new_device) = max 1 ((length (log_abs 0 new_device) + 9) div 10)"
  using getWebLogPageTotal_correct [of 0 new_device] new_device_log by simp

end
