(* ===== verification/WriteFrame.thy ===== *)
theory WriteFrame
  imports ParamStore
begin

text \<open>
  Writes to the EEPROM leave the variables of the program alone: the frame of \<^verbatim>\<open>AT24CXX_Write\<close>, field by
  field, for the theories that follow a parameter through its storing.
\<close>

lemma Write_fields [simp]:
  "tension_max_range (AT24CXX_Write a bs d) = tension_max_range d"
  "base_auto_calibrate_time (AT24CXX_Write a bs d) = base_auto_calibrate_time d"
  "alarm_threshold_up_dif (AT24CXX_Write a bs d) = alarm_threshold_up_dif d"
  "alarm_threshold_down_dif (AT24CXX_Write a bs d) = alarm_threshold_down_dif d"
  "field_num (AT24CXX_Write a bs d) = field_num d" "alarm_delay (AT24CXX_Write a bs d) = alarm_delay d"
  "alarm_sensitivity (AT24CXX_Write a bs d) = alarm_sensitivity d"
  "FIELD_FLAG_S0D1 (AT24CXX_Write a bs d) = FIELD_FLAG_S0D1 d"
  "BU_FANG_A_FLAG (AT24CXX_Write a bs d) = BU_FANG_A_FLAG d" "BU_FANG_B_FLAG (AT24CXX_Write a bs d) = BU_FANG_B_FLAG d"
  "flag_fcgjsn (AT24CXX_Write a bs d) = flag_fcgjsn d" "sys_reset (AT24CXX_Write a bs d) = sys_reset d"
  "lw_mac (AT24CXX_Write a bs d) = lw_mac d" "lw_ip (AT24CXX_Write a bs d) = lw_ip d"
  "lw_netmask (AT24CXX_Write a bs d) = lw_netmask d" "lw_gateway (AT24CXX_Write a bs d) = lw_gateway d"
  by (subst AT24CXX_Write_only_mem, simp)+

end
