(* ===== verification/ParamSpec.thy ===== *)
theory ParamSpec
  imports Boot WriteFrame
begin

text \<open>
  The contract of \<^verbatim>\<open>24cxx.c\<close>: bytes, numbers and parameter groups that were written are read back,
  and restoring the factory settings gives every parameter its factory value at the next start
  while the logs stay.
\<close>

subsection \<open>Bytes and numbers\<close>

text \<open>
  Through the bus protocol of the 24C256, a run of bytes is read back as it was written, every
  byte outside the run keeps its value, and each transfer takes and returns the bus mutex.
\<close>

theorem AT24CXX_run_roundtrip:
  assumes "length bs \<le> 65535"
  shows "AT24CXX_Read (AT24CXX_Write a bs d) a (length bs) = bs \<and>
     (unat (b - a) \<ge> length bs \<longrightarrow>
        AT24CXX_ReadOneByte (AT24CXX_Write a bs d) b = AT24CXX_ReadOneByte d b) \<and>
     mutex_disciplined (AT24CXX_ReadOneByte_ops a) \<and> mutex_disciplined (AT24CXX_WriteOneByte_ops a v)"
  using assms ee.rds_wrs [of bs a d] ee.rd_wrs_outside [of bs b a d] AT24CXX_transfers_disciplined by simp

theorem AT24CXX_run_roundtrip_witness:
  "AT24CXX_Read (AT24CXX_Write 0xFFFF [1, 2, 3] globals_init) 0xFFFF 3 = [1, 2, 3]"
  using AT24CXX_run_roundtrip [of "[1, 2, 3]" "0xFFFF" globals_init 0 0]
  by (simp add: numeral_3_eq_3 del: AT24CXX_Write.simps AT24CXX_Read.simps)

lemma bit_ReadLenByte_loop:
  "bit (AT24CXX_ReadLenByte_loop d a n w) k \<longleftrightarrow> k < 32 \<and>
     (if k < 8 * n then bit (AT24CXX_ReadOneByte d (a + of_nat (k div 8))) (k mod 8) else bit w (k - 8 * n))"
proof (induction n arbitrary: w)
  case 0
  then show ?case by (auto dest: bit_imp_le_length)
next
  case (Suc n)
  let ?b = "AT24CXX_ReadOneByte d (a + of_nat n)"
  have "push_bit 8 w + ucast ?b = push_bit 8 w OR ucast ?b"
    by (rule disjunctive_add) (auto simp: bit_simps dest: bit_imp_le_length)
  moreover have "k - 8 * n = k mod 8 \<and> k div 8 = n" if "8 * n \<le> k" "k < 8 * n + 8"
  proof -
    have "k div 8 = n" using that by (intro div_nat_eqI) simp_all
    then show ?thesis using that by (metis minus_mult_div_eq_mod mult.commute)
  qed
  ultimately show ?case
    by (auto simp: Suc.IH bit_simps add.commute [of 8] dest: bit_imp_le_length)
qed

lemma eemem_WriteLenByte_loop:
  assumes "t + n \<le> 65536" "j < 65536"
  shows "eemem (AT24CXX_WriteLenByte_loop a v t n d) (a + of_nat j) =
    (if t \<le> j \<and> j < t + n then ucast (drop_bit (8 * j) v AND 0xff) else eemem d (a + of_nat j))"
  using assms
proof (induction n arbitrary: t d)
  case (Suc n)
  have "(of_nat j :: u16) = of_nat t \<longleftrightarrow> j = t"
    using Suc.prems by (simp add: word_unat_eq_iff unat_of_nat)
  with Suc show ?case by auto
qed auto

text \<open>
  A number written little-endian with up to four bytes is read back modulo \<open>2 ^ (8 * Len)\<close>.
\<close>

theorem LenByte_roundtrip:
  assumes "Len \<le> 4"
  shows "AT24CXX_ReadLenByte (AT24CXX_WriteLenByte a v Len d) a Len = take_bit (8 * Len) v"
proof (rule bit_word_eqI)
  fix k
  have "bit (eemem (AT24CXX_WriteLenByte a v Len d) (a + of_nat (k div 8))) (k mod 8) = bit v k"
    if "k < 8 * Len" "k < 32"
  proof -
    have len: "k div 8 < Len" using that by (simp add: less_mult_imp_div_less mult.commute)
    have "eemem (AT24CXX_WriteLenByte a v Len d) (a + of_nat (k div 8)) = ucast (drop_bit (8 * (k div 8)) v AND mask 8)"
      using assms len eemem_WriteLenByte_loop [of 0 Len "k div 8" a v d]
      by (simp add: AT24CXX_WriteLenByte_def mask_byte)
    moreover have "k mod 8 < 8" "8 * (k div 8) + k mod 8 = k" by simp_all
    ultimately show ?thesis
      using bit_imp_le_length [of v k] by (auto simp: bit_ucast_iff bit_and_iff bit_drop_bit_eq bit_mask_iff)
  qed
  then show "bit (AT24CXX_ReadLenByte (AT24CXX_WriteLenByte a v Len d) a Len) k \<longleftrightarrow> bit (take_bit (8 * Len) v) k"
    using bit_imp_le_length [of v k] assms
    by (cases "k < 8 * Len") (auto simp: AT24CXX_ReadLenByte_def bit_ReadLenByte_loop bit_take_bit_iff)
qed

theorem LenByte_roundtrip_witness:
  "AT24CXX_ReadLenByte (AT24CXX_WriteLenByte 0x40 0x12345678 3 globals_init) 0x40 3 = 0x345678"
  using LenByte_roundtrip [of 3 "0x40" "0x12345678" globals_init] by (simp add: take_bit_eq_mod)

subsection \<open>Groups\<close>

text \<open>
  C7: Whatever groups were saved, in whatever order and however often, a device that starts from
  that EEPROM and loads one of them has the saved values: groups do not overlap, and every load
  routine inverts its save routine.
\<close>

theorem groups_roundtrip:
  assumes "g \<in> set gs" "eemem e = eemem (fold nv_save gs d)"
  shows "nv_image g (nv_load g e) = nv_image g d"
proof (rule nv_image_load)
  have "nv.stored g e = nv.stored g (fold nv_save gs d)" by (rule stored_eemem) (rule assms(2))
  then show "AT24CXX_Read e (nv_addr g) (nv_len g) = nv_image g d"
    using assms(1) by (simp add: nv.stored_fold_save nv.stored_def [symmetric])
qed

theorem groups_roundtrip_witness:
  "nv_image NvRange (nv_load NvRange (globals_init\<lparr>eemem := eemem (fold nv_save [NvField, NvRange, NvThrd]
     (globals_init\<lparr>tension_max_range := 300\<rparr>))\<rparr>)) = [1, 44]"
  using groups_roundtrip [of NvRange "[NvField, NvRange, NvThrd]"
      "globals_init\<lparr>eemem := eemem (fold nv_save [NvField, NvRange, NvThrd] (globals_init\<lparr>tension_max_range := 300\<rparr>))\<rparr>"
      "globals_init\<lparr>tension_max_range := 300\<rparr>"]
  by (simp add: hi8_def lo8_def drop_bit_eq_div take_bit_eq_mod del: nv_save.simps nv_load.simps fold_simps)

subsection \<open>Factory settings\<close>

text \<open>Start-up code writes only its own cells.\<close>

lemma save_fields [simp]:
  "FIELD_FLAG_S0D1 (nv_save g d) = FIELD_FLAG_S0D1 d" "flag_fcgjsn (nv_save g d) = flag_fcgjsn d"
  "alarm_sensitivity (nv_save g d) = alarm_sensitivity d" "lw_ip (nv_save g d) = lw_ip d"
  by (simp_all add: nv_save_writes del: nv_save.simps)

text \<open>A cell outside a group keeps its value when the group is saved.\<close>

lemma save_cell:
  assumes "unat b < unat (nv_addr g) \<or> unat (nv_addr g) + nv_len g \<le> unat b"
  shows "eemem (nv_save g d) b = eemem d b"
proof -
  have len: "length (nv_image g d) = nv_len g" and fit: "unat (nv_addr g) + nv_len g \<le> 224"
    by (rule length_nv_image, rule nv_fits)
  have "nv_len g \<le> unat (b - nv_addr g)"
  proof (cases "unat b < unat (nv_addr g)")
    case True
    then have "unat (b - nv_addr g) = unat b + 65536 - unat (nv_addr g)"
      by (simp add: unat_sub_if_size word_size not_le)
    with fit show ?thesis by linarith
  next
    case False
    with assms have "nv_addr g \<le> b" by (simp add: word_le_nat_alt)
    with False assms show ?thesis by (simp add: unat_sub)
  qed
  with len fit show ?thesis by (simp add: nv_save_writes eemem_Write del: nv_save.simps)
qed

lemma Adc_Init_field_cell:
  assumes "80 \<le> unat b \<or> unat b < 32"
  shows "eemem (Adc_Init_field 0 d) b = eemem d b" "eemem (Adc_Init_field 1 d) b = eemem d b"
  using assms save_cell [of b NvZeroA] save_cell [of b NvZeroB] save_cell [of b NvBaseA] save_cell [of b NvBaseB]
  by (auto simp: Adc_Init_field_def Let_def)

lemma Adc_Init_cell:
  assumes "94 \<le> unat b \<or> 80 \<le> unat b \<and> unat b < 90 \<or> unat b < 32"
  shows "eemem (Adc_Init d) b = eemem d b"
  using assms save_cell [of b NvRange] save_cell [of b NvAuto] Adc_Init_field_cell [of b]
  by (auto simp: Adc_Init_def Let_def)

lemma Adc_Init_values:
  "tension_max_range (Adc_Init d) = (let v = be16 (eemem d 0x5A) (eemem d 0x5B) in if v = 0xffff then 200 else v)"
  "base_auto_calibrate_time (Adc_Init d) = (let v = be16 (eemem d 0x5C) (eemem d 0x5D) in if v = 0xffff then 30 else v)"
  by (simp_all add: Adc_Init_def Let_def ReadTensionMaxRangeFromEEProm_def ReadBaseAutoCalibrateTimeFromEEProm_def
      WriteTensionMaxRangeToEEProm_def WriteBaseAutoCalibrateTimeToEEProm_def Adc_Init_field_cell [unfolded One_nat_def])

lemma be16_blank [simp]: "be16 255 255 = 65535"
  by (simp add: be16_def)

lemma switch_fields [simp]:
  "alarm_threshold_up_dif (updateSWAlarmState n d) = alarm_threshold_up_dif d" "eemem (updateSWAlarmState n d) = eemem d"
  "alarm_threshold_down_dif (updateSWAlarmState n d) = alarm_threshold_down_dif d"
  "tension_max_range (updateSWAlarmState n d) = tension_max_range d"
  "base_auto_calibrate_time (updateSWAlarmState n d) = base_auto_calibrate_time d"
  "field_num (updateSWAlarmState n d) = field_num d" "alarm_delay (updateSWAlarmState n d) = alarm_delay d"
  "flag_fcgjsn (updateSWAlarmState n d) = flag_fcgjsn d" "BU_FANG_A_FLAG (updateSWAlarmState n d) = BU_FANG_A_FLAG d"
  "BU_FANG_B_FLAG (updateSWAlarmState n d) = BU_FANG_B_FLAG d"
  by (simp_all add: updateSWAlarmState_def Set_Alarm_State_Util_Clear_def clear_state_def Let_def)

lemmas switch_stages = ALARM_Init_switches_def Let_def WriteSWValToEEProm_def ReadSWValToEEProm_def

lemmas control_stages = ALARM_Init_control_def Let_def WriteControlParaToEEProm_def ReadControlParaFromEEProm_def

lemmas field_stages = ALARM_Init_fields_def WriteFieldParaToEEProm_def ReadFieldParaFromEEProm_def
  ReadFieldPara_body_def WriteFieldPara_body_def Let_def

lemma ALARM_Init_stage_cells:
  "100 \<le> unat b \<or> unat b < 84 \<Longrightarrow> eemem (ALARM_Init_control d) b = eemem d b"
  "112 \<le> unat b \<or> unat b < 96 \<Longrightarrow> eemem (ALARM_Init_fields d) b = eemem d b"
  "88 \<le> unat b \<or> unat b < 86 \<Longrightarrow> eemem (ALARM_Init_switches d) b = eemem d b"
  using save_cell [of b NvControl] save_cell [of b NvField] save_cell [of b NvSw]
  by (auto simp: ALARM_Init_control_def ALARM_Init_fields_def ALARM_Init_switches_def Let_def)

lemma ALARM_Init_factory:
  assumes "\<forall>b. unat b \<in> {80..<85} \<union> {96..<100} \<longrightarrow> eemem d b = 0xFF"
  shows "field_num (ALARM_Init d) 0 = 0" "field_num (ALARM_Init d) 1 = 0"
    "alarm_delay (ALARM_Init d) 0 = 30" "alarm_delay (ALARM_Init d) 1 = 30"
    "alarm_threshold_up_dif (ALARM_Init d) = 50" "alarm_threshold_down_dif (ALARM_Init d) = 50"
    "flag_fcgjsn (ALARM_Init d) = 1" "BU_FANG_A_FLAG (ALARM_Init d) = 1"
    "BU_FANG_B_FLAG (ALARM_Init d) = (if FIELD_FLAG_S0D1 d then OFF else ON)"
    "tension_max_range (ALARM_Init d) = tension_max_range d"
    "base_auto_calibrate_time (ALARM_Init d) = base_auto_calibrate_time d"
proof -
  let ?f = "ALARM_Init_fields (d\<lparr>RL_A := False, RL_B := False\<rparr>)"
  let ?c = "ALARM_Init_control ?f"
  let ?s = "ALARM_Init_switches ?c"
  have c: "eemem d 0x61 = 0xFF" "eemem d 0x50 = 0xFF" "eemem d 0x51 = 0xFF" "eemem d 0x52 = 0xFF" "eemem d 0x53 = 0xFF"
    "eemem d 0x54 = 0xFF"
    using assms by simp_all
  have cells: "eemem ?s 0x50 = 0xFF" "eemem ?s 0x51 = 0xFF" "eemem ?s 0x52 = 0xFF" "eemem ?s 0x53 = 0xFF"
    "eemem ?f 0x54 = 0xFF" by (simp_all add: ALARM_Init_stage_cells c)
  have thr: "alarm_threshold_up_dif (ALARM_Init_thresholds e) = 50" "alarm_threshold_down_dif (ALARM_Init_thresholds e) = 50"
    if "eemem e 0x50 = 0xFF" "eemem e 0x51 = 0xFF" "eemem e 0x52 = 0xFF" "eemem e 0x53 = 0xFF" for e
    using that by (simp_all add: ALARM_Init_thresholds_def Let_def ReadAlmThrdFromEEProm_def WriteAlmThrdToEEProm_def
        be16_blank)
  show "alarm_threshold_up_dif (ALARM_Init d) = 50" "alarm_threshold_down_dif (ALARM_Init d) = 50"
    using thr [of "?s\<lparr>W4_W6 := w\<rparr>" for w] cells by (simp_all add: ALARM_Init_def Let_def)
  have tf: "field_num (ALARM_Init_thresholds e) = field_num e" "alarm_delay (ALARM_Init_thresholds e) = alarm_delay e"
    "flag_fcgjsn (ALARM_Init_thresholds e) = flag_fcgjsn e" "BU_FANG_A_FLAG (ALARM_Init_thresholds e) = BU_FANG_A_FLAG e"
    "BU_FANG_B_FLAG (ALARM_Init_thresholds e) = BU_FANG_B_FLAG e"
    "tension_max_range (ALARM_Init_thresholds e) = tension_max_range e"
    "base_auto_calibrate_time (ALARM_Init_thresholds e) = base_auto_calibrate_time e" for e
    by (simp_all add: ALARM_Init_thresholds_def Let_def ReadAlmThrdFromEEProm_def WriteAlmThrdToEEProm_def)
  have sf: "field_num (ALARM_Init_switches e) = field_num e" "alarm_delay (ALARM_Init_switches e) = alarm_delay e"
    "flag_fcgjsn (ALARM_Init_switches e) = flag_fcgjsn e" "BU_FANG_A_FLAG (ALARM_Init_switches e) = BU_FANG_A_FLAG e"
    "BU_FANG_B_FLAG (ALARM_Init_switches e) = BU_FANG_B_FLAG e"
    "tension_max_range (ALARM_Init_switches e) = tension_max_range e"
    "base_auto_calibrate_time (ALARM_Init_switches e) = base_auto_calibrate_time e" for e
    by (simp_all add: switch_stages)
  have cf: "field_num (ALARM_Init_control e) = field_num e" "alarm_delay (ALARM_Init_control e) = alarm_delay e"
    "tension_max_range (ALARM_Init_control e) = tension_max_range e"
    "base_auto_calibrate_time (ALARM_Init_control e) = base_auto_calibrate_time e" for e
    by (simp_all add: control_stages)
  have ff: "tension_max_range (ALARM_Init_fields e) = tension_max_range e"
    "base_auto_calibrate_time (ALARM_Init_fields e) = base_auto_calibrate_time e" for e
    by (simp_all add: field_stages)
  have f: "field_num ?f 0 = 0" "field_num ?f 1 = 0" "alarm_delay ?f 0 = 30" "alarm_delay ?f 1 = 30"
    by (simp_all add: field_stages c)
  have con: "flag_fcgjsn (ALARM_Init_control e) = 1" "BU_FANG_A_FLAG (ALARM_Init_control e) = 1"
    "BU_FANG_B_FLAG (ALARM_Init_control e) = (if FIELD_FLAG_S0D1 e then OFF else ON)" if "eemem e 0x54 = 0xFF" for e
    using that by (simp_all add: control_stages)
  have "start_fields (d\<lparr>RL_A := False, RL_B := False\<rparr>) = start_fields d" by (simp add: start_fields_def)
  then have "start_fields ?f = start_fields d" by (simp only: start_fields_stages)
  then have pin: "FIELD_FLAG_S0D1 ?f = FIELD_FLAG_S0D1 d" by (simp add: start_fields_def)
  show "field_num (ALARM_Init d) 0 = 0" "field_num (ALARM_Init d) 1 = 0" "alarm_delay (ALARM_Init d) 0 = 30"
    "alarm_delay (ALARM_Init d) 1 = 30" "flag_fcgjsn (ALARM_Init d) = 1" "BU_FANG_A_FLAG (ALARM_Init d) = 1"
    "BU_FANG_B_FLAG (ALARM_Init d) = (if FIELD_FLAG_S0D1 d then OFF else ON)"
    "tension_max_range (ALARM_Init d) = tension_max_range d"
    "base_auto_calibrate_time (ALARM_Init d) = base_auto_calibrate_time d"
    using f con [OF cells(5)] pin by (simp_all add: ALARM_Init_def Let_def tf sf cf ff)
qed

lemma net_fields [simp]:
  "field_num (WriteNetParasToEEProm d) = field_num d"
  "alarm_delay (WriteNetParasToEEProm d) = alarm_delay d"
  "alarm_threshold_up_dif (WriteNetParasToEEProm d) = alarm_threshold_up_dif d"
  "alarm_threshold_down_dif (WriteNetParasToEEProm d) = alarm_threshold_down_dif d"
  "flag_fcgjsn (WriteNetParasToEEProm d) = flag_fcgjsn d"
  "BU_FANG_A_FLAG (WriteNetParasToEEProm d) = BU_FANG_A_FLAG d"
  "BU_FANG_B_FLAG (WriteNetParasToEEProm d) = BU_FANG_B_FLAG d"
  "tension_max_range (WriteNetParasToEEProm d) = tension_max_range d"
  "base_auto_calibrate_time (WriteNetParasToEEProm d) = base_auto_calibrate_time d"
  by (simp_all add: nv_save_writes [of NvNet, simplified nv_save.simps])

lemma net_load_fields [simp]:
  "field_num (ReadNetParasFromEEProm d) = field_num d"
  "alarm_delay (ReadNetParasFromEEProm d) = alarm_delay d"
  "alarm_threshold_up_dif (ReadNetParasFromEEProm d) = alarm_threshold_up_dif d"
  "alarm_threshold_down_dif (ReadNetParasFromEEProm d) = alarm_threshold_down_dif d"
  "flag_fcgjsn (ReadNetParasFromEEProm d) = flag_fcgjsn d"
  "BU_FANG_A_FLAG (ReadNetParasFromEEProm d) = BU_FANG_A_FLAG d"
  "BU_FANG_B_FLAG (ReadNetParasFromEEProm d) = BU_FANG_B_FLAG d"
  "tension_max_range (ReadNetParasFromEEProm d) = tension_max_range d"
  "base_auto_calibrate_time (ReadNetParasFromEEProm d) = base_auto_calibrate_time d"
  by (simp_all add: ReadNetParasFromEEProm_def Let_def)

lemma default_ip_fields [simp]:
  "field_num (lwip_comm_default_ip_set sn0 d) = field_num d"
  "alarm_delay (lwip_comm_default_ip_set sn0 d) = alarm_delay d"
  "alarm_threshold_up_dif (lwip_comm_default_ip_set sn0 d) = alarm_threshold_up_dif d"
  "alarm_threshold_down_dif (lwip_comm_default_ip_set sn0 d) = alarm_threshold_down_dif d"
  "flag_fcgjsn (lwip_comm_default_ip_set sn0 d) = flag_fcgjsn d"
  "BU_FANG_A_FLAG (lwip_comm_default_ip_set sn0 d) = BU_FANG_A_FLAG d"
  "BU_FANG_B_FLAG (lwip_comm_default_ip_set sn0 d) = BU_FANG_B_FLAG d"
  "tension_max_range (lwip_comm_default_ip_set sn0 d) = tension_max_range d"
  "base_auto_calibrate_time (lwip_comm_default_ip_set sn0 d) = base_auto_calibrate_time d"
  by (simp_all add: lwip_comm_default_ip_set_def Let_def)

lemma lwip_init_fields [simp]:
  "field_num (lwip_comm_ip_init sn0 d) = field_num d"
  "alarm_delay (lwip_comm_ip_init sn0 d) = alarm_delay d"
  "alarm_threshold_up_dif (lwip_comm_ip_init sn0 d) = alarm_threshold_up_dif d"
  "alarm_threshold_down_dif (lwip_comm_ip_init sn0 d) = alarm_threshold_down_dif d"
  "flag_fcgjsn (lwip_comm_ip_init sn0 d) = flag_fcgjsn d"
  "BU_FANG_A_FLAG (lwip_comm_ip_init sn0 d) = BU_FANG_A_FLAG d"
  "BU_FANG_B_FLAG (lwip_comm_ip_init sn0 d) = BU_FANG_B_FLAG d"
  "tension_max_range (lwip_comm_ip_init sn0 d) = tension_max_range d"
  "base_auto_calibrate_time (lwip_comm_ip_init sn0 d) = base_auto_calibrate_time d"
  by (simp_all add: lwip_comm_ip_init_def Let_def)

text \<open>Zero and base values: set by the first stage of the start, left alone by the others.\<close>

definition adc_part :: "dev \<Rightarrow> (nat \<Rightarrow> nat \<Rightarrow> s16) \<times> (nat \<Rightarrow> nat \<Rightarrow> s16)" where
  "adc_part d = (zero_val d, base_val d)"

text \<open>The types of the switches and the settings of a zone that a start without them leaves at their initial values.\<close>

definition initial_part :: "dev \<Rightarrow> (nat \<Rightarrow> u8) \<times> (nat \<Rightarrow> u8) \<times> (nat \<Rightarrow> nat \<Rightarrow> u16)" where
  "initial_part d = (SW_Type d, alarm_sensitivity d, ten_val_range d)"

lemma write_parts [simp]:
  "zero_val (AT24CXX_Write a bs d) = zero_val d" "base_val (AT24CXX_Write a bs d) = base_val d"
  "SW_Type (AT24CXX_Write a bs d) = SW_Type d" "ten_val_range (AT24CXX_Write a bs d) = ten_val_range d"
  by (subst AT24CXX_Write_only_mem, simp)+

lemma AT24CXX_Write_addresses:
  "lw_ip (AT24CXX_Write a bs d) = lw_ip d" "lw_netmask (AT24CXX_Write a bs d) = lw_netmask d"
  "lw_gateway (AT24CXX_Write a bs d) = lw_gateway d"
  by (subst AT24CXX_Write_only_mem, simp)+

lemma AT24CXX_Write_pin: "FIELD_FLAG_S0D1 (AT24CXX_Write a bs d) = FIELD_FLAG_S0D1 d"
  by (subst AT24CXX_Write_only_mem, simp)

lemma save_parts:
  "adc_part (nv_save g d) = adc_part d" "initial_part (nv_save g d) = initial_part d"
  by (simp_all add: nv_save_writes adc_part_def initial_part_def del: nv_save.simps)

lemma load_parts:
  "g \<notin> {NvZeroA, NvZeroB, NvBaseA, NvBaseB} \<Longrightarrow> adc_part (nv_load g d) = adc_part d"
  "g \<notin> {NvSw, NvField} \<Longrightarrow> initial_part (nv_load g d) = initial_part d"
  by (cases g; simp add: adc_part_def initial_part_def ReadNetParasFromEEProm_def ReadConfigCodeToEEProm_def
       ReadAdcZeroFromEEProm_def ReadAdcBaseFromEEProm_def ReadAlmThrdFromEEProm_def ReadSWValToEEProm_def
       ReadTensionMaxRangeFromEEProm_def ReadBaseAutoCalibrateTimeFromEEProm_def ReadFieldParaFromEEProm_def
       ReadFieldPara_body_def ReadControlParaFromEEProm_def Let_def)+

lemmas part_stages =
  save_parts [of NvNet, simplified nv_save.simps] save_parts [of NvConfig, simplified nv_save.simps]
  save_parts [of NvThrd, simplified nv_save.simps] save_parts [of NvControl, simplified nv_save.simps]
  save_parts [of NvSw, simplified nv_save.simps] save_parts [of NvRange, simplified nv_save.simps]
  save_parts [of NvAuto, simplified nv_save.simps] save_parts [of NvField, simplified nv_save.simps]
  save_parts [of NvZeroA, simplified nv_save.simps] save_parts [of NvZeroB, simplified]
  save_parts [of NvBaseA, simplified nv_save.simps] save_parts [of NvBaseB, simplified]
  load_parts [of NvNet, simplified] load_parts [of NvConfig, simplified] load_parts [of NvThrd, simplified]
  load_parts [of NvControl, simplified] load_parts [of NvRange, simplified] load_parts [of NvAuto, simplified]
  load_parts(1) [of NvSw, simplified] load_parts(1) [of NvField, simplified]
  load_parts(2) [of NvZeroA, simplified] load_parts(2) [of NvZeroB, simplified]
  load_parts(2) [of NvBaseA, simplified] load_parts(2) [of NvBaseB, simplified]

lemma part_fields [simp]:
  "adc_part (d\<lparr>RL_A := v0\<rparr>) = adc_part d" "initial_part (d\<lparr>RL_A := v0\<rparr>) = initial_part d"
  "adc_part (d\<lparr>RL_B := v1\<rparr>) = adc_part d" "initial_part (d\<lparr>RL_B := v1\<rparr>) = initial_part d"
  "adc_part (d\<lparr>W4_W6 := v2\<rparr>) = adc_part d" "initial_part (d\<lparr>W4_W6 := v2\<rparr>) = initial_part d"
  "adc_part (d\<lparr>LED_BU_FANG := v3\<rparr>) = adc_part d" "initial_part (d\<lparr>LED_BU_FANG := v3\<rparr>) = initial_part d"
  "adc_part (d\<lparr>BU_FANG_A_FLAG := v4\<rparr>) = adc_part d" "initial_part (d\<lparr>BU_FANG_A_FLAG := v4\<rparr>) = initial_part d"
  "adc_part (d\<lparr>BU_FANG_B_FLAG := v5\<rparr>) = adc_part d" "initial_part (d\<lparr>BU_FANG_B_FLAG := v5\<rparr>) = initial_part d"
  "adc_part (d\<lparr>flag_fcgjsn := v6\<rparr>) = adc_part d" "initial_part (d\<lparr>flag_fcgjsn := v6\<rparr>) = initial_part d"
  "adc_part (d\<lparr>field_num := v7\<rparr>) = adc_part d" "initial_part (d\<lparr>field_num := v7\<rparr>) = initial_part d"
  "adc_part (d\<lparr>alarm_delay := v8\<rparr>) = adc_part d" "initial_part (d\<lparr>alarm_delay := v8\<rparr>) = initial_part d"
  "adc_part (d\<lparr>alarm_threshold_up_dif := v9\<rparr>) = adc_part d" "initial_part (d\<lparr>alarm_threshold_up_dif := v9\<rparr>) = initial_part d"
  "adc_part (d\<lparr>alarm_threshold_down_dif := v10\<rparr>) = adc_part d" "initial_part (d\<lparr>alarm_threshold_down_dif := v10\<rparr>) = initial_part d"
  "adc_part (d\<lparr>lw_mac := v11\<rparr>) = adc_part d" "initial_part (d\<lparr>lw_mac := v11\<rparr>) = initial_part d"
  "adc_part (d\<lparr>lw_remoteip := v12\<rparr>) = adc_part d" "initial_part (d\<lparr>lw_remoteip := v12\<rparr>) = initial_part d"
  "adc_part (d\<lparr>lw_ip := v13\<rparr>) = adc_part d" "initial_part (d\<lparr>lw_ip := v13\<rparr>) = initial_part d"
  "adc_part (d\<lparr>lw_netmask := v14\<rparr>) = adc_part d" "initial_part (d\<lparr>lw_netmask := v14\<rparr>) = initial_part d"
  "adc_part (d\<lparr>lw_gateway := v15\<rparr>) = adc_part d" "initial_part (d\<lparr>lw_gateway := v15\<rparr>) = initial_part d"
  "adc_part (d\<lparr>lw_dhcpstatus := v16\<rparr>) = adc_part d" "initial_part (d\<lparr>lw_dhcpstatus := v16\<rparr>) = initial_part d"
  "adc_part (d\<lparr>tension_max_range := v17\<rparr>) = adc_part d" "initial_part (d\<lparr>tension_max_range := v17\<rparr>) = initial_part d"
  "adc_part (d\<lparr>base_auto_calibrate_time := v18\<rparr>) = adc_part d" "initial_part (d\<lparr>base_auto_calibrate_time := v18\<rparr>) = initial_part d"
  "adc_part (d\<lparr>init_done := v19\<rparr>) = adc_part d" "initial_part (d\<lparr>init_done := v19\<rparr>) = initial_part d"
  "initial_part (d\<lparr>calibrate_en := w0\<rparr>) = initial_part d"
  "initial_part (d\<lparr>zero_val := w1\<rparr>) = initial_part d"
  "initial_part (d\<lparr>base_val := w2\<rparr>) = initial_part d"
  "initial_part (d\<lparr>config_code := w3\<rparr>) = initial_part d"
  "initial_part (d\<lparr>LED_RUN := w4\<rparr>) = initial_part d"
  "initial_part (d\<lparr>rtcTempStr := w5\<rparr>) = initial_part d"
  "initial_part (d\<lparr>nextWriteAddrVal := w6\<rparr>) = initial_part d"
  "initial_part (d\<lparr>lastWebPageReadDir := w7\<rparr>) = initial_part d"
  "initial_part (d\<lparr>lastLCDPageReadDir := w8\<rparr>) = initial_part d"
  "adc_part (updateSWAlarmState n d) = adc_part d" "initial_part (updateSWAlarmState n d) = initial_part d"
  by (simp_all add: adc_part_def initial_part_def updateSWAlarmState_def Set_Alarm_State_Util_Clear_def clear_state_def Let_def)

lemma adc_part_last: "adc_part (ALARM_Init d) = adc_part d" "adc_part (lwip_comm_ip_init sn0 d) = adc_part d"
  by (simp_all add: ALARM_Init_def ALARM_Init_fields_def ALARM_Init_control_def ALARM_Init_switches_def
      ALARM_Init_thresholds_def lwip_comm_ip_init_def lwip_comm_default_ip_set_def Let_def part_stages)

lemma initial_part_Log_Init: "initial_part (Log_Init d) = initial_part d"
proof -
  have f: "initial_part (AT24CXX_Write a bs d) = initial_part d" for d a bs
    by (simp add: initial_part_def del: AT24CXX_Write.simps)
  have "initial_part (fold Log_Init_body ts d) = initial_part d" for ts d
    by (induction ts arbitrary: d) (simp_all add: Log_Init_body_def WriteLenByte_2 Let_def f del: AT24CXX_Write.simps)
  then show ?thesis by (simp add: Log_Init_def f)
qed

lemma initial_part_start: "initial_part (start nack rx junk d) = initial_part d"
  by (simp add: start_def PCF8563_Get_Str_def readConfigCode_def Let_def part_stages split: option.split)

lemma initial_part_Adc_Init: "initial_part (Adc_Init d) = initial_part d"
proof -
  have "initial_part (Adc_Init_field 0 d) = initial_part d" "initial_part (Adc_Init_field 1 d) = initial_part d" for d
    by (simp_all add: Adc_Init_field_def Let_def part_stages)
  then show ?thesis by (simp add: Adc_Init_def Let_def part_stages)
qed

lemma initial_part_last:
  "initial_part (lwip_comm_ip_init sn0 d) = initial_part d"
  "eemem d 0x61 = 0xFF \<Longrightarrow> eemem d 0x56 = 0xFF \<Longrightarrow> initial_part (ALARM_Init d) = initial_part d"
proof -
  show "initial_part (lwip_comm_ip_init sn0 d) = initial_part d"
    by (simp add: lwip_comm_ip_init_def lwip_comm_default_ip_set_def Let_def part_stages)
  assume c: "eemem d 0x61 = 0xFF" "eemem d 0x56 = 0xFF"
  have fields: "initial_part (ALARM_Init_fields e) = initial_part e" if "eemem e 0x61 = 0xFF" for e
    using that by (simp add: ALARM_Init_fields_def part_stages)
  have control: "initial_part (ALARM_Init_control e) = initial_part e" for e
    by (simp add: ALARM_Init_control_def Let_def part_stages)
  have switches: "initial_part (ALARM_Init_switches e) = initial_part e" if "eemem e 0x56 = 0xFF" for e
    using that by (simp add: ALARM_Init_switches_def Let_def part_stages)
  have thresholds: "initial_part (ALARM_Init_thresholds e) = initial_part e" for e
    by (simp add: ALARM_Init_thresholds_def Let_def part_stages)
  have "eemem (ALARM_Init_control e) 0x56 = eemem e 0x56" for e
    using save_cell [of "0x56" NvControl] by (simp add: ALARM_Init_control_def Let_def)
  then show "initial_part (ALARM_Init d) = initial_part d"
    using c by (simp add: ALARM_Init_def Let_def fields control switches thresholds ALARM_Init_stage_cells)
qed

text \<open>A zone whose cells are blank starts with zeros.\<close>

lemma s16_fill_blank: "s16_fill f (AT24CXX_Read d a 12) 0 = 0xffff" if "eemem d a = 0xFF" "eemem d (a + 1) = 0xFF"
  using that by (simp add: s16_fill_def Read_numeral be16_def)

lemma Adc_Init_field_blank:
  assumes "i < 6"
  shows "eemem d 0x20 = 0xFF \<Longrightarrow> eemem d 0x21 = 0xFF \<Longrightarrow> zero_val (Adc_Init_field 0 d) 0 i = 0"
    "eemem d 0x38 = 0xFF \<Longrightarrow> eemem d 0x39 = 0xFF \<Longrightarrow> base_val (Adc_Init_field 0 d) 0 i = 0"
    "eemem d 0x2C = 0xFF \<Longrightarrow> eemem d 0x2D = 0xFF \<Longrightarrow> zero_val (Adc_Init_field 1 d) 1 i = 0"
    "eemem d 0x44 = 0xFF \<Longrightarrow> eemem d 0x45 = 0xFF \<Longrightarrow> base_val (Adc_Init_field 1 d) 1 i = 0"
proof -
  have z: "zero_val (WriteAdcZeroToEEProm n e) = zero_val e" "base_val (WriteAdcZeroToEEProm n e) = base_val e"
    "zero_val (WriteAdcBaseToEEProm n e) = zero_val e" "base_val (WriteAdcBaseToEEProm n e) = base_val e" for n e
    by (simp_all add: WriteAdcZeroToEEProm_def WriteAdcBaseToEEProm_def del: AT24CXX_Write.simps)
  have c: "eemem (WriteAdcZeroToEEProm 0 e) 0x38 = eemem e 0x38" "eemem (WriteAdcZeroToEEProm 0 e) 0x39 = eemem e 0x39"
    "eemem (WriteAdcZeroToEEProm 1 e) 0x44 = eemem e 0x44" "eemem (WriteAdcZeroToEEProm 1 e) 0x45 = eemem e 0x45" for e
    using save_cell [of _ NvZeroA e] save_cell [of _ NvZeroB e] by simp_all
  note defs = Adc_Init_field_def Let_def ReadAdcZeroFromEEProm_def ReadAdcBaseFromEEProm_def s16_fill_blank z
    c [unfolded One_nat_def] zero6_def
  show "eemem d 0x20 = 0xFF \<Longrightarrow> eemem d 0x21 = 0xFF \<Longrightarrow> zero_val (Adc_Init_field 0 d) 0 i = 0"
    "eemem d 0x38 = 0xFF \<Longrightarrow> eemem d 0x39 = 0xFF \<Longrightarrow> base_val (Adc_Init_field 0 d) 0 i = 0"
    "eemem d 0x2C = 0xFF \<Longrightarrow> eemem d 0x2D = 0xFF \<Longrightarrow> zero_val (Adc_Init_field 1 d) 1 i = 0"
    "eemem d 0x44 = 0xFF \<Longrightarrow> eemem d 0x45 = 0xFF \<Longrightarrow> base_val (Adc_Init_field 1 d) 1 i = 0"
    using assms by (simp_all add: defs)
qed

lemma Adc_Init_field_other:
  "zero_val (Adc_Init_field 1 d) 0 = zero_val d 0" "base_val (Adc_Init_field 1 d) 0 = base_val d 0"
  by (simp_all add: Adc_Init_field_def Let_def ReadAdcZeroFromEEProm_def ReadAdcBaseFromEEProm_def
      WriteAdcZeroToEEProm_def WriteAdcBaseToEEProm_def del: AT24CXX_Write.simps)

lemma Adc_Init_blank:
  assumes "\<forall>b. 32 \<le> unat b \<and> unat b < 80 \<longrightarrow> eemem d b = 0xFF" "z < 2" "i < 6"
  shows "zero_val (Adc_Init d) z i = 0" "base_val (Adc_Init d) z i = 0"
proof -
  let ?e = "Adc_Init_field 0 d"
  have "adc_part (Adc_Init d) = adc_part (Adc_Init_field 1 ?e)"
    by (simp add: Adc_Init_def Let_def part_stages)
  then have k: "zero_val (Adc_Init d) = zero_val (Adc_Init_field 1 ?e)" "base_val (Adc_Init d) = base_val (Adc_Init_field 1 ?e)"
    by (simp_all add: adc_part_def)
  have "eemem (nv_save g x) b = eemem x b" if "g = NvZeroA \<or> g = NvBaseA" "b \<in> {0x2C, 0x2D, 0x44, 0x45}" for g x b
    using that by (intro save_cell) auto
  note s = this [of NvZeroA, simplified] this [of NvBaseA, simplified]
  have B: "eemem ?e 0x2C = 0xFF" "eemem ?e 0x2D = 0xFF" "eemem ?e 0x44 = 0xFF" "eemem ?e 0x45 = 0xFF"
    using assms(1) by (simp_all add: Adc_Init_field_def Let_def s)
  have A: "eemem d 0x20 = 0xFF" "eemem d 0x21 = 0xFF" "eemem d 0x38 = 0xFF" "eemem d 0x39 = 0xFF"
    using assms(1) by simp_all
  consider "z = 0" | "z = 1" using assms(2) by linarith
  then show "zero_val (Adc_Init d) z i = 0" "base_val (Adc_Init d) z i = 0"
    by (cases; simp only: k Adc_Init_field_other Adc_Init_field_blank(1) [OF assms(3) A(1,2)]
        Adc_Init_field_blank(2) [OF assms(3) A(3,4)] Adc_Init_field_blank(3) [OF assms(3) B(1,2)]
        Adc_Init_field_blank(4) [OF assms(3) B(3,4)])+
qed

lemma erase_cell:
  assumes "unat a + n \<le> 224"
  shows "eemem (EraseEEProm a n d) b = (if unat a \<le> unat b \<and> unat b < unat a + n then 0xFF else eemem d b)"
proof (cases "a \<le> b")
  case True
  then have "unat (b - a) = unat b - unat a" "unat a \<le> unat b" by (simp_all add: unat_sub word_le_nat_alt)
  then show ?thesis using assms by (auto simp: EraseEEProm_Write eemem_Write simp del: replicate.simps)
next
  case False
  then have "unat (b - a) = unat b + 65536 - unat a" "unat b < unat a"
    by (simp_all add: unat_sub_if_size word_size word_le_nat_alt)
  moreover from this have "\<not> unat (b - a) < n" using assms by linarith
  ultimately show ?thesis using assms by (simp add: EraseEEProm_Write eemem_Write del: replicate.simps)
qed

text \<open>The cells the restoring erases: all groups but the configuration code, and of the addresses all but the MAC.\<close>

abbreviation erased_cells :: "nat set" where
  "erased_cells \<equiv> {6..<18} \<union> {32..<85} \<union> {86..<88} \<union> {90..<94} \<union> {96..<100}"

lemma EraseEEPormParas_cells:
  assumes "unat b \<in> erased_cells"
  shows "eemem (EraseEEPormParas d) b = 0xFF"
proof -
  have "6 \<le> unat b \<and> unat b < 18 \<or> 32 \<le> unat b \<and> unat b < 80 \<or> 80 \<le> unat b \<and> unat b < 84 \<or> b = 84
    \<or> 86 \<le> unat b \<and> unat b < 88 \<or> 90 \<le> unat b \<and> unat b < 92
    \<or> 92 \<le> unat b \<and> unat b < 94 \<or> 96 \<le> unat b \<and> unat b < 100"
    using assms by (auto simp: word_unat_eq_iff)
  then show ?thesis by (auto simp: EraseEEPormParas_def erase_cell)
qed

text \<open>Without an address the device takes its factory addresses.\<close>

lemma lwip_comm_ip_init_blank:
  assumes "\<forall>b. unat b \<in> {6..<10} \<longrightarrow> eemem d b = 0xFF"
  shows "map (lw_ip (lwip_comm_ip_init sn0 d)) [0..<4] = [192, 168, 0, 30]"
    "map (lw_netmask (lwip_comm_ip_init sn0 d)) [0..<4] = [255, 255, 255, 0]"
    "map (lw_gateway (lwip_comm_ip_init sn0 d)) [0..<4] = [192, 168, 0, 1]"
proof -
  let ?l = "ReadNetParasFromEEProm d"
  have w: "lw_ip (WriteNetParasToEEProm e) = lw_ip e" "lw_netmask (WriteNetParasToEEProm e) = lw_netmask e"
    "lw_gateway (WriteNetParasToEEProm e) = lw_gateway e" for e
    using nv_save_writes [of NvNet e] by (simp_all add: AT24CXX_Write_addresses)
  have "lw_ip ?l 0 = 0xFF" "lw_ip ?l 1 = 0xFF" "lw_ip ?l 2 = 0xFF" "lw_ip ?l 3 = 0xFF"
    using assms by (simp_all add: ReadNetParasFromEEProm_def Let_def fill_def Read_numeral)
  then have "lwip_comm_ip_init sn0 d = lwip_comm_default_ip_set sn0
      (if lw_mac ?l 0 = 0x55 \<and> lw_mac ?l 1 = 0x39 \<and> lw_mac ?l 2 = 0x72
       then WriteNetParasToEEProm (?l\<lparr>lw_mac := set_mac_oui (lw_mac ?l)\<rparr>) else ?l)"
    unfolding lwip_comm_ip_init_def Let_def by (split if_split, simp add: w)
  then show "map (lw_ip (lwip_comm_ip_init sn0 d)) [0..<4] = [192, 168, 0, 30]"
    "map (lw_netmask (lwip_comm_ip_init sn0 d)) [0..<4] = [255, 255, 255, 0]"
    "map (lw_gateway (lwip_comm_ip_init sn0 d)) [0..<4] = [192, 168, 0, 1]"
    by (simp_all add: lwip_comm_default_ip_set_def Let_def w set4_def upt_4)
qed

lemma factory_cells:
  assumes "unat b \<in> erased_cells"
  shows "eemem (Log_Init (start nack rx junk (checked (systemDefault d)))) b = 0xFF"
proof -
  have "b \<noteq> ConfigCodeAddr" "unat b < 224" "b \<noteq> EE_ADDR_MAX" using assms by auto
  moreover have "eemem (systemDefault d) b = 0xFF"
    using EraseEEPormParas_cells [OF assms] by (simp add: systemDefault_def SystemReset_def)
  ultimately show ?thesis
    by (simp add: Log_Init_frame start_def PCF8563_Get_Str_def readConfigCode_def Let_def WriteConfigCodeToEEProm_def
        ReadConfigCodeToEEProm_def checked_def power_on_def split: option.split)
qed

lemma factory_pin:
  "FIELD_FLAG_S0D1 (Adc_Init (Log_Init (start nack rx junk (checked (systemDefault d))))) = FIELD_FLAG_S0D1 d"
proof -
  have "FIELD_FLAG_S0D1 (EraseEEProm a n d) = FIELD_FLAG_S0D1 d" for a n d
    by (simp add: EraseEEProm_Write AT24CXX_Write_pin del: replicate.simps)
  then have "FIELD_FLAG_S0D1 (systemDefault d) = FIELD_FLAG_S0D1 d"
    by (simp add: systemDefault_def SystemReset_def EraseEEPormParas_def)
  moreover have "start_fields (Adc_Init (Log_Init s)) = start_fields s" for s by (simp only: start_fields_stages)
  then have "FIELD_FLAG_S0D1 (Adc_Init (Log_Init s)) = FIELD_FLAG_S0D1 s" for s by (simp add: start_fields_def)
  ultimately show ?thesis by (simp add: start_fields_stages checked_def power_on_def)
qed

lemma ALARM_Init_low:
  assumes "unat b < 80"
  shows "eemem (ALARM_Init d) b = eemem d b"
  using assms save_cell [of b NvThrd] by (simp add: ALARM_Init_def ALARM_Init_thresholds_def Let_def ALARM_Init_stage_cells)

text \<open>
  C8: Restoring the factory settings restarts the device, and after the restart the thresholds, the
  ranges, the zones with their sensitivities and monitor ranges, the zero and base values, the types of the switches,
  the arming and the IP address, mask and gateway have their factory values, while every log keeps its records.
  (The MAC address and the configuration code are no settings in this sense: the code does not erase them.)
\<close>

theorem factory_settings:
  assumes "\<forall>t<5. log_wf t d" "boot nack rx junk sn0 (systemDefault d) = Some e"
  shows "sys_reset (systemDefault d) \<and> (\<forall>t<5. log_abs t e = log_abs t d) \<and>
    alarm_threshold_up_dif e = 50 \<and> alarm_threshold_down_dif e = 50 \<and>
    tension_max_range e = 200 \<and> base_auto_calibrate_time e = 30 \<and>
    field_num e 0 = 0 \<and> field_num e 1 = 0 \<and> alarm_delay e 0 = 30 \<and> alarm_delay e 1 = 30 \<and>
    flag_fcgjsn e = 1 \<and> BU_FANG_A_FLAG e = 1 \<and> BU_FANG_B_FLAG e = (if FIELD_FLAG_S0D1 d then 0 else 1) \<and>
    (\<forall>z. alarm_sensitivity e z = 4 \<and> ten_val_range e z 0 = 100 \<and> ten_val_range e z 1 = 150 \<and> SW_Type e z = 0) \<and>
    (\<forall>z<2. \<forall>i<6. zero_val e z i = 0 \<and> base_val e z i = 0) \<and>
    map (lw_ip e) [0..<4] = [192, 168, 0, 30] \<and> map (lw_netmask e) [0..<4] = [255, 255, 255, 0] \<and>
    map (lw_gateway e) [0..<4] = [192, 168, 0, 1]"
proof -
  let ?r = "systemDefault d"
  let ?s = "start nack rx junk (checked ?r)"
  let ?l = "Log_Init ?s"
  let ?a = "ALARM_Init (Adc_Init ?l)"
  have high: "eemem ?r b = eemem d b" if "224 \<le> unat b" for b
    using that by (simp add: systemDefault_def SystemReset_def EraseEEPormParas_high)
  have nxt: "nextWriteAddrVal ?r = nextWriteAddrVal d"
    by (simp add: systemDefault_def SystemReset_def EraseEEPormParas_frame)
  have wf: "\<forall>t<5. log_wf t ?r" "\<forall>t<5. log_abs t ?r = log_abs t d"
    using assms(1) high nxt log_wf_high [of ?r d] by simp_all
  have low: "eemem ?l b = 0xFF" if "unat b \<in> erased_cells" for b
    by (rule factory_cells [OF that])
  have e: "e = lwip_comm_ip_init sn0 ?a"
    using assms(2) by (simp only: boot_eq system_init_paras_def start_def option.inject)
  have pin: "FIELD_FLAG_S0D1 (Adc_Init ?l) = FIELD_FLAG_S0D1 d" by (rule factory_pin)
  have blank: "eemem (Adc_Init ?l) b = 0xFF" if "unat b \<in> {6..<18} \<union> {80..<85} \<union> {86..<88} \<union> {96..<100}" for b
    using low [of b] that by (auto simp: Adc_Init_cell)
  have net: "eemem ?a b = 0xFF" if "unat b \<in> {6..<10}" for b
    using blank [of b] that ALARM_Init_low [of b "Adc_Init ?l"] by auto
  have parts: "initial_part e = initial_part (checked ?r)" "adc_part e = adc_part (Adc_Init ?l)"
    using blank by (simp_all add: e initial_part_last adc_part_last initial_part_Adc_Init initial_part_Log_Init initial_part_start)
  have ini: "alarm_sensitivity e z = 4 \<and> ten_val_range e z 0 = 100 \<and> ten_val_range e z 1 = 150 \<and> SW_Type e z = 0" for z
    using parts(1) by (simp add: initial_part_def checked_def power_on_def globals_init_def)
  have adc: "zero_val e z i = 0 \<and> base_val e z i = 0" if "z < 2" "i < 6" for z i
    using parts(2) Adc_Init_blank [OF _ that, of ?l] low by (simp add: adc_part_def)
  have "\<forall>b. unat b \<in> {80..<85} \<union> {96..<100} \<longrightarrow> eemem (Adc_Init ?l) b = 0xFF"
    using blank by blast
  from ALARM_Init_factory [OF this] Adc_Init_values [of ?l] ini adc
  show ?thesis
    using boot_recovers_logs [OF wf(1) _ assms(2)] wf(2) low lwip_comm_ip_init_blank [of ?a sn0] net pin
    by (simp add: e systemDefault_def SystemReset_def)
qed

theorem factory_settings_witness:
  "\<exists>e. boot (\<lambda>n. False) (\<lambda>n. 0) (\<lambda>n. 0) 7 (systemDefault new_device) = Some e \<and> tension_max_range e = 200 \<and>
     SW_Type e 1 = 0 \<and> lw_ip e 3 = 30"
proof -
  obtain e where "boot (\<lambda>n. False) (\<lambda>n. 0) (\<lambda>n. 0) 7 (systemDefault new_device) = Some e"
    by (simp only: boot_eq)
  moreover from factory_settings [OF _ this] have "tension_max_range e = 200" "SW_Type e 1 = 0" "lw_ip e 3 = 30"
    using new_device_log(1) by (simp_all add: upt_4)
  ultimately show ?thesis by blast
qed

end
