(* ===== verification/Frames.thy ===== *)
theory Frames
  imports Boot
begin

text \<open>
  What the building blocks of the alarm logic leave alone.  A block is compared with the device it
  starts from after the fields it may write are blanked out: \<open>unmeasured\<close> blanks what a measurement
  writes, \<open>unlogged\<close> what a log record writes, \<open>unlit\<close> the lamps.  Every other field is then a
  function of the blanked device.
\<close>

subsection \<open>Measurements\<close>

definition unmeasured :: "dev \<Rightarrow> dev" where
  "unmeasured d = d\<lparr>ADC_CTRL0 := False, ADC_CTRL1 := False, ADC_CTRL2 := False, ADC_CTRL3 := False, adc_time := 0,
     crt_smp := \<lambda>f i. 0, crt_val := \<lambda>f i. 0, calibrate_en := \<lambda>f. 0, adc_invd_crt := \<lambda>f. 0,
     adc_open_crt := \<lambda>f. 0, adc_relax_crt := \<lambda>f. 0\<rparr>"

lemma unmeasured_lines:
  "unmeasured (d\<lparr>ADC_CTRL1 := a, ADC_CTRL0 := b\<rparr>) = unmeasured d" "unmeasured (d\<lparr>ADC_CTRL3 := a, ADC_CTRL2 := b\<rparr>) = unmeasured d"
  "unmeasured (d\<lparr>adc_time := n\<rparr>) = unmeasured d"
  by (simp_all add: unmeasured_def)

lemma unmeasured_converter:
  "unmeasured (A_ADC_CK_EN i d) = unmeasured d" "unmeasured (B_ADC_CK_EN i d) = unmeasured d"
  "unmeasured (fst (Get_Adc ch d)) = unmeasured d"
  by (simp_all add: A_ADC_CK_EN_def B_ADC_CK_EN_def Get_Adc_def unmeasured_lines)

lemma unmeasured_sample_line: "unmeasured (snd (sample_line f i s)) = unmeasured (snd s)"
  by (cases s) (simp add: sample_line_def case_prod_beta unmeasured_converter Let_def)

lemma unmeasured_sample_round: "unmeasured (snd (sample_round f s)) = unmeasured (snd s)"
proof -
  have "unmeasured (snd (fold (sample_line f) xs s)) = unmeasured (snd s)" for xs s
    by (induction xs arbitrary: s) (simp_all add: unmeasured_sample_line)
  then show ?thesis by (simp add: sample_round_def)
qed

lemma unmeasured_sampleAdc_run: "unmeasured (sampleAdc_run f n d) = unmeasured d"
proof -
  have "unmeasured (snd ((sample_round f ^^ n) s)) = unmeasured (snd s)" for s
    by (induction n) (simp_all add: unmeasured_sample_round)
  from this [of "(\<lambda>i. 0, d)"] show ?thesis
    by (cases "(sample_round f ^^ n) (\<lambda>i. 0, d)") (simp add: sampleAdc_run_def unmeasured_def)
qed

lemma unmeasured_updateCrtSmp: "unmeasured (updateCrtSmp f d) = unmeasured d"
proof -
  have "unmeasured (d\<lparr>crt_val := v\<rparr>) = unmeasured d" "unmeasured (d\<lparr>calibrate_en := c\<rparr>) = unmeasured d" for d v c
    by (simp_all add: unmeasured_def)
  then show ?thesis by (simp add: updateCrtSmp_def unmeasured_sampleAdc_run Let_def)
qed

lemma unmeasured_ADC_Check: "unmeasured (ADC_Check f d) = unmeasured d"
proof -
  have flags: "unmeasured (d\<lparr>adc_invd_crt := i, adc_open_crt := k, adc_relax_crt := l\<rparr>) = unmeasured d" for d i k l
    by (simp add: unmeasured_def)
  show ?thesis
    by (simp add: ADC_Check_def Let_def case_prod_beta flags unmeasured_updateCrtSmp)
qed

lemma unmeasured_keeps:
  "eemem (unmeasured d) = eemem d" "nextWriteAddrVal (unmeasured d) = nextWriteAddrVal d"
  "rtcTempStr (unmeasured d) = rtcTempStr d" "ALARM_STATE (unmeasured d) = ALARM_STATE d"
  "ALARM_STATE_DELAY (unmeasured d) = ALARM_STATE_DELAY d" "config_code (unmeasured d) = config_code d"
  "alarm_sensitivity (unmeasured d) = alarm_sensitivity d" "BU_FANG_A_FLAG (unmeasured d) = BU_FANG_A_FLAG d"
  "BU_FANG_B_FLAG (unmeasured d) = BU_FANG_B_FLAG d" "adcIvdAlmVerifyCnt (unmeasured d) = adcIvdAlmVerifyCnt d"
  "adcOpnAlmVerifyCnt (unmeasured d) = adcOpnAlmVerifyCnt d"
  "adcRlxAlmVerifyCnt (unmeasured d) = adcRlxAlmVerifyCnt d" "FCAlmVerifyCnt (unmeasured d) = FCAlmVerifyCnt d"
  "W4_W6 (unmeasured d) = W4_W6 d" "zero_val (unmeasured d) = zero_val d" "base_val (unmeasured d) = base_val d"
  "alarm_threshold_up_dif (unmeasured d) = alarm_threshold_up_dif d"
  "alarm_threshold_down_dif (unmeasured d) = alarm_threshold_down_dif d"
  "calibrating_flag (unmeasured d) = calibrating_flag d"
  "calibrate_adc_cnt (unmeasured d) = calibrate_adc_cnt d"
  "calibrate_temp_val (unmeasured d) = calibrate_temp_val d" "alarmingCnt (unmeasured d) = alarmingCnt d"
  "RL_A (unmeasured d) = RL_A d" "RL_B (unmeasured d) = RL_B d" "init_done (unmeasured d) = init_done d"
  "adc_src (unmeasured d) = adc_src d" "tension_max_range (unmeasured d) = tension_max_range d"
  "rtcTimeCnt (unmeasured d) = rtcTimeCnt d"
  "base_auto_calibrate_time (unmeasured d) = base_auto_calibrate_time d"
  by (simp_all add: unmeasured_def)

lemma unmeasured_fields:
  assumes "unmeasured e = unmeasured d"
  shows "eemem e = eemem d" "nextWriteAddrVal e = nextWriteAddrVal d" "rtcTempStr e = rtcTempStr d"
    "ALARM_STATE e = ALARM_STATE d" "ALARM_STATE_DELAY e = ALARM_STATE_DELAY d" "config_code e = config_code d"
    "alarm_sensitivity e = alarm_sensitivity d" "BU_FANG_A_FLAG e = BU_FANG_A_FLAG d"
    "BU_FANG_B_FLAG e = BU_FANG_B_FLAG d" "adcIvdAlmVerifyCnt e = adcIvdAlmVerifyCnt d"
    "adcOpnAlmVerifyCnt e = adcOpnAlmVerifyCnt d" "adcRlxAlmVerifyCnt e = adcRlxAlmVerifyCnt d"
    "FCAlmVerifyCnt e = FCAlmVerifyCnt d" "W4_W6 e = W4_W6 d" "zero_val e = zero_val d" "base_val e = base_val d"
    "alarm_threshold_up_dif e = alarm_threshold_up_dif d" "alarm_threshold_down_dif e = alarm_threshold_down_dif d"
    "calibrating_flag e = calibrating_flag d" "calibrate_adc_cnt e = calibrate_adc_cnt d"
    "calibrate_temp_val e = calibrate_temp_val d" "alarmingCnt e = alarmingCnt d" "RL_A e = RL_A d" "RL_B e = RL_B d"
    "init_done e = init_done d" "adc_src e = adc_src d" "tension_max_range e = tension_max_range d"
    "rtcTimeCnt e = rtcTimeCnt d" "base_auto_calibrate_time e = base_auto_calibrate_time d"
  by (subst unmeasured_keeps [symmetric, of e], subst unmeasured_keeps [symmetric, of d], simp only: assms)+

lemmas sampleAdc_run_frame [simp] = unmeasured_fields [OF unmeasured_sampleAdc_run]
lemmas updateCrtSmp_frame [simp] = unmeasured_fields [OF unmeasured_updateCrtSmp]
lemmas ADC_Check_frame [simp] = unmeasured_fields [OF unmeasured_ADC_Check]

text \<open>Only the zone that is measured changes its flags and readings.\<close>

lemma ADC_Check_other_zone:
  assumes "g \<noteq> f"
  shows "adc_invd_crt (ADC_Check f d) g = adc_invd_crt d g" "adc_open_crt (ADC_Check f d) g = adc_open_crt d g"
    "adc_relax_crt (ADC_Check f d) g = adc_relax_crt d g"
proof -
  let ?k = "\<lambda>d. (adc_invd_crt d, adc_open_crt d, adc_relax_crt d)"
  have "?k (snd (sample_line f i s)) = ?k (snd s)" for i s
    by (cases s) (simp add: sample_line_def A_ADC_CK_EN_def B_ADC_CK_EN_def Get_Adc_def Let_def)
  then have "?k (snd (fold (sample_line f) xs s)) = ?k (snd s)" for xs s
    by (induction xs arbitrary: s) (simp_all only: fold_simps id_apply comp_apply)
  then have r: "?k (snd (sample_round f s)) = ?k (snd s)" for s by (simp only: sample_round_def)
  have "?k (snd ((sample_round f ^^ n) s)) = ?k (snd s)" for n s
    by (induction n) (simp_all only: funpow.simps comp_apply id_apply r)
  from this [of _ "(\<lambda>i. 0, d)" for d] have "?k (sampleAdc_run f n d) = ?k d" for n d
    by (simp add: sampleAdc_run_def case_prod_beta Let_def)
  then have "?k (updateCrtSmp f d) = ?k d" for d by (simp add: updateCrtSmp_def Let_def)
  with assms show "adc_invd_crt (ADC_Check f d) g = adc_invd_crt d g"
    "adc_open_crt (ADC_Check f d) g = adc_open_crt d g" "adc_relax_crt (ADC_Check f d) g = adc_relax_crt d g"
    by (simp_all add: ADC_Check_def case_prod_beta Let_def)
qed

subsection \<open>Log records\<close>

definition unlogged :: "dev \<Rightarrow> dev" where
  "unlogged d = d\<lparr>eemem := \<lambda>a. 0, nextWriteAddrVal := \<lambda>t. 0, crtWebPageLogData := [], lastWebPageReadDir := 0,
     crtLCDPageLogData := \<lambda>i. [], lastLCDPageReadDir := 0\<rparr>"

lemma unlogged_Write: "unlogged (AT24CXX_Write a bs d) = unlogged d"
proof -
  have "unlogged (d\<lparr>eemem := m\<rparr>) = unlogged d" for m by (simp add: unlogged_def)
  then show ?thesis by (metis AT24CXX_Write_only_mem)
qed

lemma unlogged_WriteLog: "unlogged (WriteLog t a d) = unlogged d"
proof -
  have fields: "unlogged (d\<lparr>nextWriteAddrVal := n\<rparr>) = unlogged d"
    "unlogged (d\<lparr>crtWebPageLogData := w, lastWebPageReadDir := x, crtLCDPageLogData := y,
       lastLCDPageReadDir := z\<rparr>) = unlogged d" for d n w x y z
    by (simp_all add: unlogged_def)
  show ?thesis
    by (simp add: WriteLog_def Let_def WriteLenByte_2 unlogged_Write fields if_distrib [of unlogged] del: AT24CXX_Write.simps)
qed

lemma unlogged_keeps:
  "rtcTempStr (unlogged d) = rtcTempStr d" "ALARM_STATE (unlogged d) = ALARM_STATE d"
  "ALARM_STATE_DELAY (unlogged d) = ALARM_STATE_DELAY d" "config_code (unlogged d) = config_code d"
  "alarm_sensitivity (unlogged d) = alarm_sensitivity d" "BU_FANG_A_FLAG (unlogged d) = BU_FANG_A_FLAG d"
  "BU_FANG_B_FLAG (unlogged d) = BU_FANG_B_FLAG d" "adcIvdAlmVerifyCnt (unlogged d) = adcIvdAlmVerifyCnt d"
  "adcOpnAlmVerifyCnt (unlogged d) = adcOpnAlmVerifyCnt d"
  "adcRlxAlmVerifyCnt (unlogged d) = adcRlxAlmVerifyCnt d" "FCAlmVerifyCnt (unlogged d) = FCAlmVerifyCnt d"
  "adc_invd_crt (unlogged d) = adc_invd_crt d" "adc_open_crt (unlogged d) = adc_open_crt d"
  "adc_relax_crt (unlogged d) = adc_relax_crt d" "flag_fcgjsn (unlogged d) = flag_fcgjsn d"
  "FANG_CHAI (unlogged d) = FANG_CHAI d" "rtcTimeCnt (unlogged d) = rtcTimeCnt d"
  "base_auto_calibrate_time (unlogged d) = base_auto_calibrate_time d"
  "calibrating_flag (unlogged d) = calibrating_flag d" "crt_val (unlogged d) = crt_val d"
  "base_val (unlogged d) = base_val d" "zero_val (unlogged d) = zero_val d"
  "alarm_threshold_up_dif (unlogged d) = alarm_threshold_up_dif d"
  "alarm_threshold_down_dif (unlogged d) = alarm_threshold_down_dif d" "W4_W6 (unlogged d) = W4_W6 d"
  "adc_src (unlogged d) = adc_src d" "adc_time (unlogged d) = adc_time d" "init_done (unlogged d) = init_done d"
  "tension_max_range (unlogged d) = tension_max_range d"
  by (simp_all add: unlogged_def)

lemma unlogged_fields:
  assumes "unlogged e = unlogged d"
  shows "rtcTempStr e = rtcTempStr d"
    "ALARM_STATE e = ALARM_STATE d" "ALARM_STATE_DELAY e = ALARM_STATE_DELAY d" "config_code e = config_code d"
    "alarm_sensitivity e = alarm_sensitivity d" "BU_FANG_A_FLAG e = BU_FANG_A_FLAG d"
    "BU_FANG_B_FLAG e = BU_FANG_B_FLAG d" "adcIvdAlmVerifyCnt e = adcIvdAlmVerifyCnt d"
    "adcOpnAlmVerifyCnt e = adcOpnAlmVerifyCnt d" "adcRlxAlmVerifyCnt e = adcRlxAlmVerifyCnt d"
    "FCAlmVerifyCnt e = FCAlmVerifyCnt d" "adc_invd_crt e = adc_invd_crt d" "adc_open_crt e = adc_open_crt d"
    "adc_relax_crt e = adc_relax_crt d" "flag_fcgjsn e = flag_fcgjsn d" "FANG_CHAI e = FANG_CHAI d"
    "rtcTimeCnt e = rtcTimeCnt d" "base_auto_calibrate_time e = base_auto_calibrate_time d" "calibrating_flag e = calibrating_flag d" "crt_val e = crt_val d"
    "base_val e = base_val d" "zero_val e = zero_val d" "alarm_threshold_up_dif e = alarm_threshold_up_dif d"
    "alarm_threshold_down_dif e = alarm_threshold_down_dif d" "W4_W6 e = W4_W6 d" "adc_src e = adc_src d"
    "adc_time e = adc_time d" "init_done e = init_done d" "tension_max_range e = tension_max_range d"
  by (subst unlogged_keeps [symmetric, of e], subst unlogged_keeps [symmetric, of d], simp only: assms)+

lemmas WriteLog_frame [simp] = unlogged_fields [OF unlogged_WriteLog]

subsection \<open>The half-second interrupt\<close>

definition unticked :: "dev \<Rightarrow> dev" where
  "unticked d = d\<lparr>LED_RUN := False, run_screen_refresh := 0, lm75TempCnt := 0, timerHandlerFlag := 0, rtcTimeCnt := 0,
     adcIvdAlmVerifyCnt := \<lambda>f. 0, adcOpnAlmVerifyCnt := \<lambda>f. 0, adcRlxAlmVerifyCnt := \<lambda>f. 0, FCAlmVerifyCnt := 0,
     baseAutoCalibrateCnt := \<lambda>f. 0, calibrating_flag := 0\<rparr>"

lemma unticked_parts:
  "unticked (set_flag n d) = unticked d" "unticked (TIM3_verify i d) = unticked d" "unticked (TIM3_relax i d) = unticked d"
  "unticked (set_auto_cnt i v d) = unticked d" "unticked (updateBaseVal i d) = unticked d"
  "unticked (d\<lparr>rtcTimeCnt := a\<rparr>) = unticked d" "unticked (d\<lparr>FCAlmVerifyCnt := a\<rparr>) = unticked d"
  "unticked (d\<lparr>lm75TempCnt := a\<rparr>) = unticked d" "unticked (d\<lparr>LED_RUN := l, run_screen_refresh := r\<rparr>) = unticked d"
  by (simp_all add: unticked_def set_flag_def TIM3_verify_def TIM3_relax_def set_auto_cnt_def updateBaseVal_def)

lemma unticked_TIM3: "unticked (TIM3_IRQHandler d) = unticked d"
proof -
  have a: "unticked (TIM3_auto i d) = unticked d" for i d
    by (simp add: TIM3_auto_def Let_def unticked_parts)
  then have "unticked (TIM3_second d) = unticked d" for d
    by (simp add: TIM3_second_def Let_def unticked_parts)
  then show ?thesis
    by (simp add: TIM3_IRQHandler_def Let_def unticked_parts)
qed

lemma unticked_keeps:
  "eemem (unticked d) = eemem d" "nextWriteAddrVal (unticked d) = nextWriteAddrVal d"
  "rtcTempStr (unticked d) = rtcTempStr d" "ALARM_STATE (unticked d) = ALARM_STATE d"
  "ALARM_STATE_DELAY (unticked d) = ALARM_STATE_DELAY d" "config_code (unticked d) = config_code d"
  "alarm_sensitivity (unticked d) = alarm_sensitivity d" "BU_FANG_A_FLAG (unticked d) = BU_FANG_A_FLAG d"
  "BU_FANG_B_FLAG (unticked d) = BU_FANG_B_FLAG d" "flag_fcgjsn (unticked d) = flag_fcgjsn d"
  "FANG_CHAI (unticked d) = FANG_CHAI d" "W4_W6 (unticked d) = W4_W6 d" "zero_val (unticked d) = zero_val d"
  "base_val (unticked d) = base_val d" "alarm_threshold_up_dif (unticked d) = alarm_threshold_up_dif d"
  "alarm_threshold_down_dif (unticked d) = alarm_threshold_down_dif d" "crt_val (unticked d) = crt_val d"
  "init_done (unticked d) = init_done d" "adc_src (unticked d) = adc_src d" "adc_time (unticked d) = adc_time d"
  "tension_max_range (unticked d) = tension_max_range d"
  "base_auto_calibrate_time (unticked d) = base_auto_calibrate_time d"
  "alarmingCnt (unticked d) = alarmingCnt d" "RL_A (unticked d) = RL_A d" "RL_B (unticked d) = RL_B d"
  by (simp_all add: unticked_def)

lemma unticked_fields:
  assumes "unticked e = unticked d"
  shows "eemem e = eemem d" "nextWriteAddrVal e = nextWriteAddrVal d" "rtcTempStr e = rtcTempStr d"
    "ALARM_STATE e = ALARM_STATE d" "ALARM_STATE_DELAY e = ALARM_STATE_DELAY d" "config_code e = config_code d"
    "alarm_sensitivity e = alarm_sensitivity d" "BU_FANG_A_FLAG e = BU_FANG_A_FLAG d"
    "BU_FANG_B_FLAG e = BU_FANG_B_FLAG d" "flag_fcgjsn e = flag_fcgjsn d" "FANG_CHAI e = FANG_CHAI d"
    "W4_W6 e = W4_W6 d" "zero_val e = zero_val d" "base_val e = base_val d"
    "alarm_threshold_up_dif e = alarm_threshold_up_dif d" "alarm_threshold_down_dif e = alarm_threshold_down_dif d"
    "crt_val e = crt_val d" "init_done e = init_done d" "adc_src e = adc_src d" "adc_time e = adc_time d"
    "tension_max_range e = tension_max_range d" "base_auto_calibrate_time e = base_auto_calibrate_time d"
    "alarmingCnt e = alarmingCnt d" "RL_A e = RL_A d" "RL_B e = RL_B d"
  by (subst unticked_keeps [symmetric, of e], subst unticked_keeps [symmetric, of d], simp only: assms)+

lemmas TIM3_only_counts [simp] = unticked_fields [OF unticked_TIM3]

lemma TIM3_calibrating_flag: "base_auto_calibrate_time d = 0 \<Longrightarrow> calibrating_flag (TIM3_IRQHandler d) = calibrating_flag d"
  by (simp add: TIM3_IRQHandler_def TIM3_second_def TIM3_verify_def TIM3_relax_def set_flag_def set_auto_cnt_def Let_def)

end
