(* ===== verification/MeasureSpec.thy ===== *)
theory MeasureSpec
  imports Frames
begin

text \<open>
  The contract of \<^verbatim>\<open>adc.c\<close> and of the comparison in \<^verbatim>\<open>alarm.c\<close>: which input each wire is read from,
  what a sample is worth, and which of the three conditions a set of readings raises.
\<close>

subsection \<open>The multiplexers\<close>

text \<open>
  The input a wire is on: the converter's channel, and the two select lines of the multiplexer in
  front of that channel.
\<close>

definition wire_input :: "nat \<Rightarrow> nat \<Rightarrow> u8 \<times> bool \<times> bool" where
  "wire_input f i =
     (if f = 0
      then [(ADC_A_Chn, False, True), (ADC_A_Chn, True, False), (ADC_A_Chn, False, False), (ADC_A_Chn, True, True),
            (ADC_AB_Chn, False, True), (ADC_AB_Chn, False, False)] ! i
      else [(ADC_B_Chn, True, False), (ADC_B_Chn, True, True), (ADC_B_Chn, False, True), (ADC_B_Chn, False, False),
            (ADC_AB_Chn, True, True), (ADC_AB_Chn, True, False)] ! i)"

text \<open>
  A board whose inputs hold still at the values \<open>v\<close>, as twelve-bit answers, for the next \<open>k\<close>
  conversions: a channel sees only its own multiplexer.
\<close>

definition steady :: "(u8 \<times> bool \<times> bool \<Rightarrow> u16) \<Rightarrow> nat \<Rightarrow> dev \<Rightarrow> bool" where
  "steady v k d \<longleftrightarrow> init_done d \<noteq> 0 \<and> (\<forall>x. unat (v x) < 4096) \<and>
     (\<forall>n<k. \<forall>ch c0 c1 c2 c3. adc_src d (adc_time d + n) ch (c0, c1, c2, c3) =
        v (ch, if ch = ADC_AB_Chn then (c2, c3) else (c0, c1)))"

lemma steady_mono: "steady v k d \<Longrightarrow> l \<le> k \<Longrightarrow> steady v l d"
  by (simp add: steady_def)

lemma steady_next:
  assumes "steady v (Suc k) d" "init_done e = init_done d" "adc_src e = adc_src d" "adc_time e = Suc (adc_time d)"
  shows "steady v k e"
  using assms unfolding steady_def by (metis Suc_less_eq add_Suc add_Suc_right)

lemma sdiv_nonneg: "0 \<le> a \<Longrightarrow> 0 < b \<Longrightarrow> a sdiv b = a div (b :: int)"
  by (cases "a = 0") (simp_all add: signed_divide_int_def)

lemma zones: "f < 2 \<Longrightarrow> f = 0 \<or> f = (1 :: nat)" by auto

lemma lines: "i < 6 \<Longrightarrow> i = 0 \<or> i = 1 \<or> i = 2 \<or> i = 3 \<or> i = 4 \<or> i = (5 :: nat)" by auto

lemma line_count_le: "line_count d \<le> 6" by (simp add: line_count_def)

lemma sample_line_value:
  assumes "steady v (Suc k) d" "f < 2" "i < 6"
  obtains d' where "sample_line f i (temp, d) = (temp(i := temp i + ucast (v (wire_input f i))), d')"
    "steady v k d'" "unmeasured d' = unmeasured d"
proof -
  have src: "adc_src d (adc_time d) ch (c0, c1, c2, c3) = v (ch, if ch = ADC_AB_Chn then (c2, c3) else (c0, c1))"
    for ch c0 c1 c2 c3
    using assms(1) unfolding steady_def by (metis add.right_neutral zero_less_Suc)
  have init: "init_done d \<noteq> 0" using assms(1) by (simp add: steady_def)
  have "sample_line f i (temp, d) = (temp(i := temp i + ucast (v (wire_input f i))), snd (sample_line f i (temp, d)))"
    using src init zones [OF assms(2)] lines [OF assms(3)]
    by (elim disjE) (simp_all add: wire_input_def sample_line_def A_ADC_CK_EN_def B_ADC_CK_EN_def Get_Adc_def)
  moreover have "steady v k (snd (sample_line f i (temp, d)))"
    using init zones [OF assms(2)]
    by (intro steady_next [OF assms(1)])
      (elim disjE, simp_all add: sample_line_def A_ADC_CK_EN_def B_ADC_CK_EN_def Get_Adc_def Let_def)+
  ultimately show ?thesis using that unmeasured_sample_line [of f i "(temp, d)"] by simp
qed

lemma sample_lines_value:
  assumes "steady v (n + k) d" "f < 2" "n \<le> 6"
  shows "\<exists>d'. fold (sample_line f) [0..<n] (temp, d) =
      (\<lambda>i. if i < n then temp i + ucast (v (wire_input f i)) else temp i, d') \<and>
    steady v k d' \<and> unmeasured d' = unmeasured d"
  using assms(1,3)
proof (induction n arbitrary: k)
  case 0
  then show ?case by auto
next
  case (Suc n)
  from Suc.IH [of "Suc k"] Suc.prems obtain d1 where d1: "fold (sample_line f) [0..<n] (temp, d) =
      (\<lambda>i. if i < n then temp i + ucast (v (wire_input f i)) else temp i, d1)"
    "steady v (Suc k) d1" "unmeasured d1 = unmeasured d" by auto
  let ?t = "\<lambda>i. if i < n then temp i + ucast (v (wire_input f i)) else temp i"
  have "n < 6" using Suc.prems by simp
  obtain d2 where d2: "sample_line f n (?t, d1) = (?t(n := ?t n + ucast (v (wire_input f n))), d2)"
    "steady v k d2" "unmeasured d2 = unmeasured d1"
    by (rule sample_line_value [OF d1(2) assms(2) \<open>n < 6\<close>])
  have "?t(n := ?t n + ucast (v (wire_input f n)))
      = (\<lambda>i. if i < Suc n then temp i + ucast (v (wire_input f i)) else temp i)"
    by (auto simp: less_Suc_eq)
  with d1 d2 show ?case by auto
qed

lemma sample_rounds_value:
  assumes "steady v (n * line_count d + k) d" "f < 2"
  shows "\<exists>d'. (sample_round f ^^ n) (\<lambda>i. 0, d) =
      (\<lambda>i. if i < line_count d then of_nat n * ucast (v (wire_input f i)) else 0, d') \<and>
    steady v k d' \<and> unmeasured d' = unmeasured d"
  using assms(1)
proof (induction n arbitrary: k)
  case 0
  then show ?case by auto
next
  case (Suc n)
  from Suc.IH [of "line_count d + k"] Suc.prems obtain d1 where d1: "(sample_round f ^^ n) (\<lambda>i. 0, d) =
      (\<lambda>i. if i < line_count d then of_nat n * ucast (v (wire_input f i)) else 0, d1)"
    "steady v (line_count d + k) d1" "unmeasured d1 = unmeasured d" by (auto simp: ac_simps)
  have lc: "line_count d1 = line_count d" using unmeasured_fields [OF d1(3)] by (simp add: line_count_def)
  define temp :: "nat \<Rightarrow> s32" where "temp = (\<lambda>i. if i < line_count d then of_nat n * ucast (v (wire_input f i)) else 0)"
  have sum: "(\<lambda>i. if i < line_count d then temp i + ucast (v (wire_input f i)) else temp i) =
    (\<lambda>i. if i < line_count d then of_nat (Suc n) * ucast (v (wire_input f i)) else 0)"
    by (auto simp: temp_def algebra_simps)
  obtain d2 where "fold (sample_line f) [0..<line_count d] (temp, d1) =
      (\<lambda>i. if i < line_count d then temp i + ucast (v (wire_input f i)) else temp i, d2)"
    "steady v k d2" "unmeasured d2 = unmeasured d1"
    using sample_lines_value [OF d1(2) assms(2) line_count_le [of d], of temp] by blast
  moreover have "(sample_round f ^^ Suc n) (\<lambda>i. 0, d) = fold (sample_line f) [0..<line_count d] (temp, d1)"
    using d1(1) lc by (simp add: temp_def sample_round_def [of f "(_, d1)"])
  ultimately show ?case using d1(3) by (simp add: sum)
qed

text \<open>A sample of a wire at rest.\<close>

definition level :: "(u8 \<times> bool \<times> bool \<Rightarrow> u16) \<Rightarrow> nat \<Rightarrow> dev \<Rightarrow> nat \<Rightarrow> int" where
  "level v f d i = uint (v (wire_input f i)) * uint (tension_max_range d) div 4096"

lemma sampleAdc_run_steady:
  assumes "steady v (20 * line_count d + k) d" "f < 2"
  shows "i < line_count d \<Longrightarrow> crt_smp (sampleAdc_run f 20 d) f i = of_int (level v f d i)"
    "steady v k (sampleAdc_run f 20 d)"
proof -
  obtain d' where d': "(sample_round f ^^ 20) (\<lambda>i. 0, d) =
      (\<lambda>i. if i < line_count d then of_nat 20 * ucast (v (wire_input f i)) else 0, d')"
    "steady v k d'" "unmeasured d' = unmeasured d"
    using sample_rounds_value [OF assms] by blast
  have lc: "line_count d' = line_count d" "tension_max_range d' = tension_max_range d"
    using unmeasured_fields [OF d'(3)] by (simp_all add: line_count_def)
  show "steady v k (sampleAdc_run f 20 d)"
    using d' by (simp add: sampleAdc_run_def steady_def)
  assume i: "i < line_count d"
  have "unat (v (wire_input f i)) < 4096" using assms(1) by (simp only: steady_def)
  then have "int (unat (v (wire_input f i))) < int 4096" by (simp only: of_nat_less_iff)
  then have v: "uint (v (wire_input f i)) < 4096" by simp
  have ge: "0 \<le> 5 * uint (v (wire_input f i))" by simp
  have "sint (20 * ucast (v (wire_input f i)) :: s32) = 20 * uint (v (wire_input f i))"
    using v by (simp add: sint_uint uint_word_ariths unsigned_ucast_eq take_bit_eq_mod signed_take_bit_int_eq_self_iff)
      (rule order_trans [OF _ ge], simp)
  then show "crt_smp (sampleAdc_run f 20 d) f i = of_int (level v f d i)"
    using d' lc i by (simp add: sampleAdc_run_def sdiv_nonneg level_def)
qed

text \<open>A measurement takes as many conversions as rounds times wires.\<close>

lemma sampleAdc_run_time:
  assumes "f < 2" "init_done d \<noteq> 0"
  shows "adc_time (sampleAdc_run f n d) = adc_time d + n * line_count d"
proof -
  have l: "adc_time (snd (sample_line f i s)) = Suc (adc_time (snd s))" if "init_done (snd s) \<noteq> 0" for i s
    using that zones [OF assms(1)] by (cases s; elim disjE)
      (simp_all add: sample_line_def A_ADC_CK_EN_def B_ADC_CK_EN_def Get_Adc_def Let_def)
  have i: "init_done (snd (sample_line f i s)) = init_done (snd s)" for i s
    using unmeasured_fields(25) [OF unmeasured_sample_line] .
  have "adc_time (snd (fold (sample_line f) xs s)) = adc_time (snd s) + length xs" if "init_done (snd s) \<noteq> 0" for xs s
    using that by (induction xs arbitrary: s) (simp_all add: l i)
  then have r: "adc_time (snd (sample_round f s)) = adc_time (snd s) + line_count (snd s)" if "init_done (snd s) \<noteq> 0" for s
    using that by (simp add: sample_round_def)
  let ?s = "\<lambda>n. (sample_round f ^^ n) (\<lambda>i. 0, d)"
  have u: "unmeasured (snd (?s n)) = unmeasured d" for n
    by (induction n) (simp_all add: unmeasured_sample_round)
  have k: "init_done (snd (?s n)) = init_done d" "line_count (snd (?s n)) = line_count d" for n
    using unmeasured_fields [OF u] by (simp_all add: line_count_def)
  have "adc_time (snd (?s n)) = adc_time d + n * line_count d"
    by (induction n) (simp_all add: r k assms(2))
  then show ?thesis by (simp add: sampleAdc_run_def case_prod_beta Let_def)
qed

lemma steady_cong:
  "init_done e = init_done d \<Longrightarrow> adc_src e = adc_src d \<Longrightarrow> adc_time e = adc_time d \<Longrightarrow> steady v k e = steady v k d"
  by (simp add: steady_def)

lemma rounds_0 [simp]: "sample_rounds 0 = 20"
  by (simp add: sample_rounds_def)

text \<open>
  C9: With the inputs at rest while it lasts, a measurement gives each wire of the zone the value on its own input,
  scaled to the measuring range; the twelve wires are on twelve different inputs.
\<close>

theorem sampleAdc_reads_wires:
  assumes "steady v (20 * line_count d) d" "f < 2"
  shows "\<exists>e. sampleAdc f 0 d = Some e \<and>
     (\<forall>i<line_count d. crt_smp e f i = of_int (uint (v (wire_input f i)) * uint (tension_max_range d) div 4096)) \<and>
     distinct (map (\<lambda>(f, i). wire_input f i) (List.product [0..<2] [0..<6]))"
proof (intro exI conjI)
  show "sampleAdc f 0 d = Some (sampleAdc_run f 20 d)" by (simp add: sampleAdc_def)
  show "\<forall>i<line_count d. crt_smp (sampleAdc_run f 20 d) f i =
      of_int (uint (v (wire_input f i)) * uint (tension_max_range d) div 4096)"
    using sampleAdc_run_steady(1) [of v d 0 f] assms by (simp add: level_def)
  show "distinct (map (\<lambda>(f, i). wire_input f i) (List.product [0..<2] [0..<6]))"
    by (simp add: wire_input_def upt_rec)
qed

theorem sampleAdc_reads_wires_witness:
  "\<exists>e. sampleAdc 1 0 (globals_init\<lparr>init_done := 1, tension_max_range := 200, adc_src := (\<lambda>n ch c. 2048)\<rparr>) = Some e \<and>
     crt_smp e 1 3 = 100"
  using sampleAdc_reads_wires [of "\<lambda>x. 2048"
      "globals_init\<lparr>init_done := 1, tension_max_range := 200, adc_src := (\<lambda>n ch c. 2048)\<rparr>" 1]
  by (auto simp: steady_def line_count_def globals_init_def)

subsection \<open>Readings\<close>

text \<open>
  A measurement outside a calibration leaves every reading of the zone at zero or above, equal to the
  sample less the zero value where that is positive and within the width of the reading; during a
  calibration it changes nothing.
\<close>

theorem updateCrtSmp_readings:
  "if calibrating_flag d = 0xff
   then \<forall>i<line_count d. 0 \<le> sint (crt_val (updateCrtSmp f d) f i) \<and>
       (\<bar>sint (crt_smp (updateCrtSmp f d) f i) - sint (zero_val d f i)\<bar> < 32768 \<longrightarrow>
          sint (crt_val (updateCrtSmp f d) f i) =
          max 0 (sint (crt_smp (updateCrtSmp f d) f i) - sint (zero_val d f i)))
   else updateCrtSmp f d = d"
proof -
  have clip: "0 \<le> sint (clip0 w)" for w by (simp add: clip0_def)
  have clip_max: "sint (clip0 (a - b)) = max 0 (sint a - sint b)" if "\<bar>sint a - sint b\<bar> < 32768" for a b :: s16
  proof -
    have "sint (of_int (sint a - sint b) :: s16) = sint a - sint b"
      using that by (simp only: sint_sbintrunc') (simp add: signed_take_bit_int_eq_self_iff, linarith)
    then have "sint (a - b) = sint a - sint b" by simp
    then show ?thesis by (simp add: clip0_def)
  qed
  have lc: "line_count (sampleAdc_run f n d) = line_count d" for n
    by (simp add: line_count_def)
  show ?thesis
    using clip clip_max lc by (auto simp: updateCrtSmp_def Let_def line_count_def)
qed

theorem updateCrtSmp_readings_witness:
  "0 \<le> sint (crt_val (updateCrtSmp 0 (globals_init\<lparr>calibrating_flag := 0xff\<rparr>)) 0 3)"
  using updateCrtSmp_readings [of "globals_init\<lparr>calibrating_flag := 0xff\<rparr>" 0]
  by (simp add: line_count_def globals_init_def)

lemma reading_steady:
  assumes "steady v (20 * line_count d + k) d" "f < 2" "calibrating_flag d = 0xFF"
  shows "i < line_count d \<Longrightarrow> crt_val (updateCrtSmp f d) f i = clip0 (of_int (level v f d i) - zero_val d f i)"
    "steady v k (updateCrtSmp f d)"
proof -
  have "line_count (sampleAdc_run f 20 d) = line_count d" by (simp add: line_count_def)
  then show "i < line_count d \<Longrightarrow> crt_val (updateCrtSmp f d) f i = clip0 (of_int (level v f d i) - zero_val d f i)"
    using assms sampleAdc_run_steady(1) [OF assms(1,2), of i] by (simp add: updateCrtSmp_def Let_def line_count_def)
  have "steady v k (updateCrtSmp f d) = steady v k (sampleAdc_run f 20 d)"
    using assms(3) by (intro steady_cong) (simp_all add: updateCrtSmp_def Let_def)
  then show "steady v k (updateCrtSmp f d)" using sampleAdc_run_steady(2) [OF assms(1,2)] by simp
qed

subsection \<open>The three conditions\<close>

lemma ADC_Check_line_step:
  "ADC_Check_line d f i (of_bool a, of_bool b, of_bool c) =
    (of_bool (a \<or> sint (crt_val d f i) - sint (base_val d f i) > uint (alarm_threshold_up_dif d)),
     of_bool (b \<or> sint (crt_val d f i) < OPEN_VAL_MAX_KG),
     of_bool (c \<or> (\<not> b \<and> \<not> sint (crt_val d f i) < OPEN_VAL_MAX_KG) \<and>
       sint (base_val d f i) - sint (crt_val d f i) > uint (alarm_threshold_down_dif d)))"
  by (cases a; cases b; cases c) (simp_all add: ADC_Check_line_def)

lemma ADC_Check_line_fold:
  "fold (ADC_Check_line d f) [0..<n] (NO_ALARM, NO_ALARM, NO_ALARM) =
    (of_bool (\<exists>i<n. sint (crt_val d f i) - sint (base_val d f i) > uint (alarm_threshold_up_dif d)),
     of_bool (\<exists>i<n. sint (crt_val d f i) < OPEN_VAL_MAX_KG),
     of_bool (\<exists>i<n. (\<forall>j\<le>i. \<not> sint (crt_val d f j) < OPEN_VAL_MAX_KG) \<and>
                 sint (base_val d f i) - sint (crt_val d f i) > uint (alarm_threshold_down_dif d)))"
  (is "_ = (of_bool (\<exists>i<n. ?I i), of_bool (\<exists>i<n. ?O i), of_bool (\<exists>i<n. (\<forall>j\<le>i. \<not> ?O j) \<and> ?R i))")
proof (induction n)
  case (Suc n)
  have ex: "(\<exists>i<Suc n. P i) \<longleftrightarrow> (\<exists>i<n. P i) \<or> P n" for P by (auto simp: less_Suc_eq)
  have all: "(\<forall>j\<le>n. \<not> ?O j) \<longleftrightarrow> \<not> (\<exists>i<n. ?O i) \<and> \<not> ?O n" by (auto simp: le_less)
  have "fold (ADC_Check_line d f) [0..<Suc n] (NO_ALARM, NO_ALARM, NO_ALARM) =
    ADC_Check_line d f n (fold (ADC_Check_line d f) [0..<n] (NO_ALARM, NO_ALARM, NO_ALARM))" by simp
  also have "\<dots> = (of_bool ((\<exists>i<n. ?I i) \<or> ?I n), of_bool ((\<exists>i<n. ?O i) \<or> ?O n),
      of_bool ((\<exists>i<n. (\<forall>j\<le>i. \<not> ?O j) \<and> ?R i) \<or> (\<not> (\<exists>i<n. ?O i) \<and> \<not> ?O n) \<and> ?R n))"
    unfolding Suc.IH ADC_Check_line_step ..
  finally show ?case unfolding ex all .
qed simp

text \<open>
  C10: One measurement of a zone flags an intrusion exactly when some wire is tighter than its base
  value by more than the upper threshold, a broken wire exactly when some wire reads below 10 (1 kg, in units of 0.1 kg), and
  a slack wire exactly when some wire is looser than its base value by more than the lower threshold
  while neither it nor a wire before it is broken.
\<close>

theorem ADC_Check_flags:
  fixes d f
  defines "e \<equiv> ADC_Check f d"
  shows "adc_invd_crt e f =
      of_bool (\<exists>i<line_count d. sint (crt_val e f i) - sint (base_val d f i) > uint (alarm_threshold_up_dif d)) \<and>
    adc_open_crt e f = of_bool (\<exists>i<line_count d. sint (crt_val e f i) < 10) \<and>
    adc_relax_crt e f = of_bool (\<exists>i<line_count d. (\<forall>j\<le>i. \<not> sint (crt_val e f j) < 10) \<and>
      sint (base_val d f i) - sint (crt_val e f i) > uint (alarm_threshold_down_dif d))"
  unfolding e_def ADC_Check_def Let_def ADC_Check_line_fold case_prod_conv by simp

lemma frozen_readings: "calibrating_flag d \<noteq> 0xFF \<Longrightarrow> crt_val (ADC_Check f d) = crt_val d"
  by (simp add: ADC_Check_def Let_def case_prod_beta updateCrtSmp_def)

theorem ADC_Check_flags_witness:
  fixes d
  defines "d \<equiv> globals_init\<lparr>calibrating_flag := 0, crt_val := (\<lambda>f i. if i = 2 then 5 else 100)\<rparr>"
  shows "adc_invd_crt (ADC_Check 0 d) 0 = 1 \<and> adc_open_crt (ADC_Check 0 d) 0 = 1 \<and> adc_relax_crt (ADC_Check 0 d) 0 = 0"
proof -
  have e: "crt_val (ADC_Check 0 d) = crt_val d" by (rule frozen_readings) (simp add: d_def)
  have "(\<exists>i<4. i \<noteq> (2 :: nat))" "(\<exists>i<4. i = (2 :: nat))" by (auto intro: exI [of _ 0])
  then show ?thesis
    using ADC_Check_flags [of 0 d, unfolded e] by (auto simp: d_def globals_init_def line_count_def)
qed

end
