(* ===== verification/AlarmSteps.thy ===== *)
theory AlarmSteps
  imports MeasureSpec
begin

text \<open>
  The contract of the alarm confirmation: a condition raises its alarm when it has lasted for the
  configured number of timer ticks.  The three conditions of a zone and the tamper switch share the
  contract, which is the locale \<open>confirmation\<close>; the code's tests and interrupts keep it.  Then what
  a test writes to the logs, and what it sees of inputs at rest.
\<close>

subsection \<open>The contract\<close>

text \<open>
  \<open>step\<close> is a test of the condition \<open>cond\<close>, \<open>tick\<close> the passing of one unit of time; \<open>ok\<close> says when
  the contract applies.
\<close>

locale confirmation =
  fixes step tick :: "'s \<Rightarrow> 's" and cond alarm ok :: "'s \<Rightarrow> bool" and cnt limit :: "'s \<Rightarrow> nat"
  assumes step_ok: "ok s \<Longrightarrow> ok (step s) \<and> limit (step s) = limit s"
    and tick_ok: "ok s \<Longrightarrow> ok (tick s) \<and> limit (tick s) = limit s \<and> alarm (tick s) = alarm s"
    and tick_cnt: "ok s \<Longrightarrow> 0 < cnt s \<Longrightarrow> cnt s < limit s \<Longrightarrow> cnt (tick s) = Suc (cnt s)"
    and step_raise: "ok s \<Longrightarrow> cond s \<Longrightarrow> \<not> alarm s \<Longrightarrow>
      alarm (step s) = (limit s \<le> max 1 (cnt s)) \<and> cnt (step s) = max 1 (cnt s)"
    and step_hold: "ok s \<Longrightarrow> cond s \<Longrightarrow> alarm s \<Longrightarrow> alarm (step s)"
    and step_clear: "ok s \<Longrightarrow> \<not> cond s \<Longrightarrow> alarm s \<Longrightarrow> \<not> alarm (step s) \<and> cnt (step s) = 0"
    and step_idle: "ok s \<Longrightarrow> \<not> cond s \<Longrightarrow> \<not> alarm s \<Longrightarrow> \<not> alarm (step s) \<and> cnt (step s) = cnt s"
begin

definition run :: "nat \<Rightarrow> 's \<Rightarrow> 's" where
  "run n s = ((\<lambda>s. step (tick s)) ^^ n) (step s)"

lemma run_0: "run 0 s = step s" and run_Suc: "run (Suc n) s = step (tick (run n s))"
  by (simp_all add: run_def)

lemma run_ok: "ok s \<Longrightarrow> ok (run n s) \<and> limit (run n s) = limit s"
  by (induction n) (simp_all add: run_0 run_Suc step_ok tick_ok)

lemma confirmed_state:
  assumes "ok s" "\<not> alarm s" "cnt s = 0" "cond s" "\<forall>k<n. cond (tick (run k s))"
  shows "if limit s \<le> Suc n then alarm (run n s) else \<not> alarm (run n s) \<and> cnt (run n s) = Suc n"
  using assms(5)
proof (induction n)
  case 0
  then show ?case using step_raise [OF assms(1,4,2)] assms(3) by (simp add: run_0)
next
  case (Suc n)
  have IH: "if limit s \<le> Suc n then alarm (run n s) else \<not> alarm (run n s) \<and> cnt (run n s) = Suc n"
    using Suc by simp
  have c: "cond (tick (run n s))" using Suc.prems by simp
  note ok = run_ok [OF assms(1), of n]
  with tick_ok have t: "ok (tick (run n s))" "limit (tick (run n s)) = limit s" "alarm (tick (run n s)) = alarm (run n s)"
    by simp_all
  show ?case
  proof (cases "limit s \<le> Suc n")
    case True
    then show ?thesis using IH step_hold [OF t(1) c] t by (simp add: run_Suc)
  next
    case False
    then have "cnt (tick (run n s)) = Suc (Suc n)" using IH ok tick_cnt [of "run n s"] by simp
    then show ?thesis using False IH step_raise [OF t(1) c] t by (simp add: run_Suc)
  qed
qed

lemma confirmed:
  assumes "ok s" "\<not> alarm s" "cnt s = 0" "cond s" "\<forall>k<n. cond (tick (run k s))"
  shows "alarm (run n s) \<longleftrightarrow> limit s \<le> Suc n"
  using confirmed_state [OF assms] by (simp split: if_splits)

text \<open>A condition that is gone does not stop the count: the count goes on until the limit.\<close>

lemma counted:
  assumes "ok s" "\<not> alarm s" "cnt s = 0" "cond s" "\<forall>k<n. \<not> cond (tick (run k s))" "n + 2 \<le> limit s"
  shows "\<not> alarm (run n s) \<and> cnt (run n s) = Suc n"
  using assms(5,6)
proof (induction n)
  case 0
  then show ?case using step_raise [OF assms(1,4,2)] assms(3) by (simp add: run_0)
next
  case (Suc n)
  then have IH: "\<not> alarm (run n s)" "cnt (run n s) = Suc n" by simp_all
  note ok = run_ok [OF assms(1), of n]
  with IH Suc.prems(2) tick_cnt [of "run n s"] have "cnt (tick (run n s)) = Suc (Suc n)" by simp
  with IH ok Suc.prems(1) tick_ok [of "run n s"] step_idle [of "tick (run n s)"] show ?case by (simp add: run_Suc)
qed

lemma two_blips:
  assumes "ok s" "\<not> alarm s" "cnt s = 0" "cond s" "n + 2 = limit s"
    "\<forall>k<n. \<not> cond (tick (run k s))" "cond (tick (run n s))"
  shows "alarm (run (Suc n) s)"
proof -
  have c: "\<not> alarm (run n s)" "cnt (run n s) = Suc n" using counted [OF assms(1-4,6)] assms(5) by simp_all
  note ok = run_ok [OF assms(1), of n]
  with c assms(5) tick_cnt [of "run n s"] have "cnt (tick (run n s)) = Suc (Suc n)" by simp
  with c ok assms(5,7) tick_ok [of "run n s"] step_raise [of "tick (run n s)"] show ?thesis by (simp add: run_Suc)
qed

end

subsection \<open>What the timer tick does\<close>

definition armed :: "nat \<Rightarrow> dev \<Rightarrow> bool" where
  "armed f d \<longleftrightarrow> (f = 0 \<and> BU_FANG_A_FLAG d = ON) \<or> (f = 1 \<and> BU_FANG_B_FLAG d = ON)"

lemma TIM3_auto_frame [simp]:
  "adcIvdAlmVerifyCnt (TIM3_auto i d) = adcIvdAlmVerifyCnt d" "adcOpnAlmVerifyCnt (TIM3_auto i d) = adcOpnAlmVerifyCnt d"
  "adcRlxAlmVerifyCnt (TIM3_auto i d) = adcRlxAlmVerifyCnt d" "rtcTimeCnt (TIM3_auto i d) = rtcTimeCnt d"
  "FCAlmVerifyCnt (TIM3_auto i d) = FCAlmVerifyCnt d"
  by (simp_all add: TIM3_auto_def set_auto_cnt_def updateBaseVal_def Let_def)

lemma TIM3_second_frame [simp]:
  "adcIvdAlmVerifyCnt (TIM3_second d) = adcIvdAlmVerifyCnt d" "adcOpnAlmVerifyCnt (TIM3_second d) = adcOpnAlmVerifyCnt d"
  "rtcTimeCnt (TIM3_second d) = 0" "FCAlmVerifyCnt (TIM3_second d) = count_to 4 (FCAlmVerifyCnt d)"
  "f < 2 \<Longrightarrow> adcRlxAlmVerifyCnt (TIM3_second d) f = count_to 3 (adcRlxAlmVerifyCnt d f)"
  by (auto simp: TIM3_second_def TIM3_relax_def set_flag_def set_auto_cnt_def Let_def less_2_cases_iff)

lemma TIM3_frame [simp]:
  "f < 2 \<Longrightarrow> adcIvdAlmVerifyCnt (TIM3_IRQHandler d) f = count_to (uint (alarm_sensitivity d f) + 1) (adcIvdAlmVerifyCnt d f)"
  "f < 2 \<Longrightarrow> adcOpnAlmVerifyCnt (TIM3_IRQHandler d) f = count_to (uint (alarm_sensitivity d f) + 1) (adcOpnAlmVerifyCnt d f)"
  by (auto simp: TIM3_IRQHandler_def TIM3_verify_def set_flag_def Let_def less_2_cases_iff)

text \<open>Two interrupts of TIM3 are a second; the first of the two only counts.\<close>

definition second :: "dev \<Rightarrow> dev" where
  "second d = TIM3_IRQHandler (TIM3_IRQHandler d)"

lemma TIM3_half:
  "rtcTimeCnt d = 0 \<Longrightarrow> rtcTimeCnt (TIM3_IRQHandler d) = 1"
  "rtcTimeCnt d = 0 \<Longrightarrow> FCAlmVerifyCnt (TIM3_IRQHandler d) = FCAlmVerifyCnt d"
  "rtcTimeCnt d = 0 \<Longrightarrow> adcRlxAlmVerifyCnt (TIM3_IRQHandler d) = adcRlxAlmVerifyCnt d"
  "rtcTimeCnt d = 1 \<Longrightarrow> rtcTimeCnt (TIM3_IRQHandler d) = 0"
  "rtcTimeCnt d = 1 \<Longrightarrow> FCAlmVerifyCnt (TIM3_IRQHandler d) = count_to 4 (FCAlmVerifyCnt d)"
  "rtcTimeCnt d = 1 \<Longrightarrow> f < 2 \<Longrightarrow> adcRlxAlmVerifyCnt (TIM3_IRQHandler d) f = count_to 3 (adcRlxAlmVerifyCnt d f)"
  by (auto simp: TIM3_IRQHandler_def TIM3_verify_def set_flag_def Let_def)

lemma second_frame [simp]:
  "ALARM_STATE (second d) = ALARM_STATE d" "BU_FANG_A_FLAG (second d) = BU_FANG_A_FLAG d"
  "BU_FANG_B_FLAG (second d) = BU_FANG_B_FLAG d" "flag_fcgjsn (second d) = flag_fcgjsn d" "FANG_CHAI (second d) = FANG_CHAI d"
  "rtcTimeCnt d = 0 \<Longrightarrow> rtcTimeCnt (second d) = 0"
  "rtcTimeCnt d = 0 \<Longrightarrow> FCAlmVerifyCnt (second d) = count_to 4 (FCAlmVerifyCnt d)"
  "rtcTimeCnt d = 0 \<Longrightarrow> f < 2 \<Longrightarrow> adcRlxAlmVerifyCnt (second d) f = count_to 3 (adcRlxAlmVerifyCnt d f)"
  by (simp_all add: second_def TIM3_half)

lemma unat_count_to:
  assumes "0 < unat c" "unat c < n" "n < 257"
  shows "unat (count_to (int n) c) = (unat c + 1) mod 256"
proof -
  have "0 < uint c" "uint c < int n" using assms by (simp_all only: uint_nat of_nat_0_less_iff of_nat_less_iff)
  then show ?thesis by (simp add: count_to_def unat_word_ariths)
qed

subsection \<open>What the three steps of a test do\<close>

lemmas alarm_ops = ALARM_Update_def clear_state_def Set_Alarm_State_Util_Clear_def Let_def

text \<open>The fields of which the steps change at most one.\<close>

lemma ivd_step_frame [simp]:
  "adcOpnAlmVerifyCnt (ivd_step f p d) = adcOpnAlmVerifyCnt d" "adcRlxAlmVerifyCnt (ivd_step f p d) = adcRlxAlmVerifyCnt d"
  "adc_open_crt (ivd_step f p d) = adc_open_crt d" "adc_relax_crt (ivd_step f p d) = adc_relax_crt d"
  "alarm_sensitivity (ivd_step f p d) = alarm_sensitivity d" "BU_FANG_A_FLAG (ivd_step f p d) = BU_FANG_A_FLAG d"
  "BU_FANG_B_FLAG (ivd_step f p d) = BU_FANG_B_FLAG d" "rtcTempStr (ivd_step f p d) = rtcTempStr d" "rtcTimeCnt (ivd_step f p d) = rtcTimeCnt d"
  "k \<noteq> INVD_MASK f \<Longrightarrow> bit (ALARM_STATE (ivd_step f p d)) k = bit (ALARM_STATE d) k"
  "g \<noteq> f \<Longrightarrow> adcIvdAlmVerifyCnt (ivd_step f p d) g = adcIvdAlmVerifyCnt d g"
  by (simp_all add: ivd_step_def alarm_ops)

lemma opn_step_frame [simp]:
  "adcIvdAlmVerifyCnt (opn_step f p d) = adcIvdAlmVerifyCnt d" "adcRlxAlmVerifyCnt (opn_step f p d) = adcRlxAlmVerifyCnt d"
  "adc_invd_crt (opn_step f p d) = adc_invd_crt d" "adc_relax_crt (opn_step f p d) = adc_relax_crt d"
  "alarm_sensitivity (opn_step f p d) = alarm_sensitivity d" "BU_FANG_A_FLAG (opn_step f p d) = BU_FANG_A_FLAG d"
  "BU_FANG_B_FLAG (opn_step f p d) = BU_FANG_B_FLAG d" "rtcTempStr (opn_step f p d) = rtcTempStr d" "rtcTimeCnt (opn_step f p d) = rtcTimeCnt d"
  "k \<noteq> OPN_MASK f \<Longrightarrow> bit (ALARM_STATE (opn_step f p d)) k = bit (ALARM_STATE d) k"
  "g \<noteq> f \<Longrightarrow> adcOpnAlmVerifyCnt (opn_step f p d) g = adcOpnAlmVerifyCnt d g"
  by (simp_all add: opn_step_def alarm_ops)

lemma rlx_step_frame [simp]:
  "adcIvdAlmVerifyCnt (rlx_step f p d) = adcIvdAlmVerifyCnt d" "adcOpnAlmVerifyCnt (rlx_step f p d) = adcOpnAlmVerifyCnt d"
  "alarm_sensitivity (rlx_step f p d) = alarm_sensitivity d" "BU_FANG_A_FLAG (rlx_step f p d) = BU_FANG_A_FLAG d"
  "BU_FANG_B_FLAG (rlx_step f p d) = BU_FANG_B_FLAG d" "rtcTempStr (rlx_step f p d) = rtcTempStr d" "rtcTimeCnt (rlx_step f p d) = rtcTimeCnt d"
  "eemem (rlx_step f p d) = eemem d" "nextWriteAddrVal (rlx_step f p d) = nextWriteAddrVal d"
  "k \<noteq> RLX_MASK f \<Longrightarrow> bit (ALARM_STATE (rlx_step f p d)) k = bit (ALARM_STATE d) k"
  "g \<noteq> f \<Longrightarrow> adcRlxAlmVerifyCnt (rlx_step f p d) g = adcRlxAlmVerifyCnt d g"
  by (simp_all add: rlx_step_def alarm_ops)

text \<open>
  The confirmation of one condition: \<open>c\<close> is the condition now, the state is the alarm bit and the counter.
\<close>

definition confirm :: "u8 \<Rightarrow> bool \<Rightarrow> bool \<times> u8 \<Rightarrow> bool \<times> u8" where
  "confirm lim c = (\<lambda>(a, n).
     if c = a then (a, n)
     else if c then let n = (if n = 0 then 1 else n) in (lim \<le> n, n)
     else (False, 0))"

lemma masks [simp]:
  "f < 2 \<Longrightarrow> INVD_MASK f < 16" "f < 2 \<Longrightarrow> OPN_MASK f < 16" "f < 2 \<Longrightarrow> RLX_MASK f < 16"
  "INVD_MASK f \<noteq> OPN_MASK g" "OPN_MASK g \<noteq> INVD_MASK f" "INVD_MASK f \<noteq> RLX_MASK g" "RLX_MASK g \<noteq> INVD_MASK f"
  "OPN_MASK f \<noteq> RLX_MASK g" "RLX_MASK g \<noteq> OPN_MASK f"
  by (simp_all add: INVD_MASK_def OPN_MASK_def RLX_MASK_def)

lemma ivd_step_confirm:
  assumes "f < 2" "adc_invd_crt d f = of_bool c" "p = of_bool (bit (ALARM_STATE d) (INVD_MASK f))"
  shows "(bit (ALARM_STATE (ivd_step f p d)) (INVD_MASK f), adcIvdAlmVerifyCnt (ivd_step f p d) f) =
    confirm (alarm_sensitivity d f) c (bit (ALARM_STATE d) (INVD_MASK f), adcIvdAlmVerifyCnt d f)"
  using assms by (cases c; cases "bit (ALARM_STATE d) (INVD_MASK f)")
    (simp_all add: ivd_step_def confirm_def alarm_ops)

lemma opn_step_confirm:
  assumes "f < 2" "adc_open_crt d f = of_bool c" "p = of_bool (bit (ALARM_STATE d) (OPN_MASK f))"
  shows "(bit (ALARM_STATE (opn_step f p d)) (OPN_MASK f), adcOpnAlmVerifyCnt (opn_step f p d) f) =
    confirm (alarm_sensitivity d f) c (bit (ALARM_STATE d) (OPN_MASK f), adcOpnAlmVerifyCnt d f)"
  using assms by (cases c; cases "bit (ALARM_STATE d) (OPN_MASK f)")
    (simp_all add: opn_step_def confirm_def alarm_ops)

lemma rlx_step_confirm:
  assumes "f < 2" "adc_relax_crt d f = of_bool c" "p = of_bool (bit (ALARM_STATE d) (RLX_MASK f))"
  shows "(bit (ALARM_STATE (rlx_step f p d)) (RLX_MASK f), adcRlxAlmVerifyCnt (rlx_step f p d) f) =
    confirm RELAX_VERIFIED_TIME_S c (bit (ALARM_STATE d) (RLX_MASK f), adcRlxAlmVerifyCnt d f)"
  using assms by (cases c; cases "bit (ALARM_STATE d) (RLX_MASK f)")
    (simp_all add: rlx_step_def confirm_def alarm_ops)

subsection \<open>A test of a zone\<close>

definition sees_ivd :: "nat \<Rightarrow> dev \<Rightarrow> bool" where "sees_ivd f d \<longleftrightarrow> adc_invd_crt (ADC_Check f d) f = ALARM"
definition sees_opn :: "nat \<Rightarrow> dev \<Rightarrow> bool" where "sees_opn f d \<longleftrightarrow> adc_open_crt (ADC_Check f d) f = ALARM"
definition sees_rlx :: "nat \<Rightarrow> dev \<Rightarrow> bool" where "sees_rlx f d \<longleftrightarrow> adc_relax_crt (ADC_Check f d) f = ALARM"

lemma ADC_Check_sees:
  "adc_invd_crt (ADC_Check f d) f = of_bool (sees_ivd f d)" "adc_open_crt (ADC_Check f d) f = of_bool (sees_opn f d)"
  "adc_relax_crt (ADC_Check f d) f = of_bool (sees_rlx f d)"
  by (simp_all add: sees_ivd_def sees_opn_def sees_rlx_def ADC_Check_def ADC_Check_line_fold Let_def)

text \<open>The state of the confirmation of each condition.\<close>

definition ivd_state :: "nat \<Rightarrow> dev \<Rightarrow> bool \<times> u8" where
  "ivd_state f d = (bit (ALARM_STATE d) (INVD_MASK f), adcIvdAlmVerifyCnt d f)"
definition opn_state :: "nat \<Rightarrow> dev \<Rightarrow> bool \<times> u8" where
  "opn_state f d = (bit (ALARM_STATE d) (OPN_MASK f), adcOpnAlmVerifyCnt d f)"
definition rlx_state :: "nat \<Rightarrow> dev \<Rightarrow> bool \<times> u8" where
  "rlx_state f d = (bit (ALARM_STATE d) (RLX_MASK f), adcRlxAlmVerifyCnt d f)"

lemmas zone_state_defs = ivd_state_def opn_state_def rlx_state_def

definition zone_steps :: "nat \<Rightarrow> dev \<Rightarrow> dev" where
  "zone_steps f d = (let e = ADC_Check f d in
     rlx_step f (of_bool (bit (ALARM_STATE d) (RLX_MASK f)))
       (opn_step f (of_bool (bit (ALARM_STATE d) (OPN_MASK f)))
          (ivd_step f (of_bool (bit (ALARM_STATE d) (INVD_MASK f))) e)))"

lemma ADC_Check_Handler_armed: "armed f d \<Longrightarrow> ADC_Check_Handler f d = zone_steps f d"
  by (auto simp: ADC_Check_Handler_def zone_steps_def armed_def Let_def GET_ALARM_STATE_of_bool)

lemma zone_steps_confirm:
  assumes "f < 2"
  shows "ivd_state f (zone_steps f d) = confirm (alarm_sensitivity d f) (sees_ivd f d) (ivd_state f d)"
    "opn_state f (zone_steps f d) = confirm (alarm_sensitivity d f) (sees_opn f d) (opn_state f d)"
    "rlx_state f (zone_steps f d) = confirm RELAX_VERIFIED_TIME_S (sees_rlx f d) (rlx_state f d)"
proof -
  let ?e = "ADC_Check f d"
  let ?i = "ivd_step f (of_bool (bit (ALARM_STATE d) (INVD_MASK f))) ?e"
  let ?o = "opn_step f (of_bool (bit (ALARM_STATE d) (OPN_MASK f))) ?i"
  show "ivd_state f (zone_steps f d) = confirm (alarm_sensitivity d f) (sees_ivd f d) (ivd_state f d)"
    using ivd_step_confirm [OF assms ADC_Check_sees(1), where p = "of_bool (bit (ALARM_STATE d) (INVD_MASK f))"]
    by (simp add: zone_steps_def ivd_state_def Let_def)
  show "opn_state f (zone_steps f d) = confirm (alarm_sensitivity d f) (sees_opn f d) (opn_state f d)"
    using opn_step_confirm [OF assms, of ?i "sees_opn f d" "of_bool (bit (ALARM_STATE d) (OPN_MASK f))"]
    by (simp add: zone_steps_def opn_state_def Let_def ADC_Check_sees)
  show "rlx_state f (zone_steps f d) = confirm RELAX_VERIFIED_TIME_S (sees_rlx f d) (rlx_state f d)"
    using rlx_step_confirm [OF assms, of ?o "sees_rlx f d" "of_bool (bit (ALARM_STATE d) (RLX_MASK f))"]
    by (simp add: zone_steps_def rlx_state_def Let_def ADC_Check_sees)
qed

lemma zone_steps_frame [simp]:
  "alarm_sensitivity (zone_steps f d) = alarm_sensitivity d" "BU_FANG_A_FLAG (zone_steps f d) = BU_FANG_A_FLAG d"
  "BU_FANG_B_FLAG (zone_steps f d) = BU_FANG_B_FLAG d" "rtcTempStr (zone_steps f d) = rtcTempStr d" "rtcTimeCnt (zone_steps f d) = rtcTimeCnt d"
  "armed g (zone_steps f d) = armed g d"
  by (simp_all add: zone_steps_def armed_def Let_def)

subsection \<open>The three conditions of a zone keep the contract\<close>

lemma confirm_laws:
  "confirm lim True (False, n) = (lim \<le> (if n = 0 then 1 else n), if n = 0 then 1 else n)"
  "confirm lim True (True, n) = (True, n)"
  "confirm lim False (True, n) = (False, 0)"
  "confirm lim False (False, n) = (False, n)"
  by (simp_all add: confirm_def)

lemma confirm_raise:
  assumes "c" "\<not> fst s"
  shows "fst (confirm lim c s) = (unat lim \<le> max 1 (unat (snd s))) \<and> unat (snd (confirm lim c s)) = max 1 (unat (snd s))"
proof -
  have "max 1 (unat n) = unat (if n = 0 then 1 else n)" for n :: u8
  proof (cases "n = 0")
    case False
    then have "0 < unat n" by (simp add: unat_gt_0)
    with False show ?thesis by simp
  qed simp
  with assms show ?thesis by (cases s) (simp add: confirm_laws word_le_nat_alt)
qed

lemma confirm_rest:
  "c \<Longrightarrow> fst s \<Longrightarrow> fst (confirm lim c s)"
  "\<not> c \<Longrightarrow> fst s \<Longrightarrow> \<not> fst (confirm lim c s) \<and> unat (snd (confirm lim c s)) = 0"
  "\<not> c \<Longrightarrow> \<not> fst s \<Longrightarrow> \<not> fst (confirm lim c s) \<and> unat (snd (confirm lim c s)) = unat (snd s)"
  by (cases s; simp add: confirm_laws)+

lemma armed_TIM3 [simp]: "armed f (TIM3_IRQHandler d) = armed f d" "armed f (second d) = armed f d"
  by (simp_all add: armed_def)

lemma tick_sensitivity:
  assumes "0 < unat c" "unat c < unat (s :: u8)"
  shows "unat (count_to (uint s + 1) c) = Suc (unat c)"
proof -
  have "unat s < 256" using unsigned_less [of s] by simp
  moreover have "int (unat s + 1) = uint s + 1" by simp
  ultimately show ?thesis using unat_count_to [of c "unat s + 1"] assms by (simp add: add.commute)
qed

lemma zone_state_tick [simp]:
  "f < 2 \<Longrightarrow> ivd_state f (TIM3_IRQHandler d) =
     (fst (ivd_state f d), count_to (uint (alarm_sensitivity d f) + 1) (snd (ivd_state f d)))"
  "f < 2 \<Longrightarrow> opn_state f (TIM3_IRQHandler d) =
     (fst (opn_state f d), count_to (uint (alarm_sensitivity d f) + 1) (snd (opn_state f d)))"
  "f < 2 \<Longrightarrow> rtcTimeCnt d = 0 \<Longrightarrow> rlx_state f (second d) = (fst (rlx_state f d), count_to 3 (snd (rlx_state f d)))"
  by (simp_all add: zone_state_defs)

lemma confirmation_ivd:
  assumes "f < 2"
  shows "confirmation (ADC_Check_Handler f) TIM3_IRQHandler (sees_ivd f) (\<lambda>d. fst (ivd_state f d)) (armed f)
    (\<lambda>d. unat (snd (ivd_state f d))) (\<lambda>d. unat (alarm_sensitivity d f))"
  by unfold_locales (simp_all add: ADC_Check_Handler_armed zone_steps_confirm assms confirm_raise confirm_rest
      tick_sensitivity)

lemma confirmation_opn:
  assumes "f < 2"
  shows "confirmation (ADC_Check_Handler f) TIM3_IRQHandler (sees_opn f) (\<lambda>d. fst (opn_state f d)) (armed f)
    (\<lambda>d. unat (snd (opn_state f d))) (\<lambda>d. unat (alarm_sensitivity d f))"
  by unfold_locales (simp_all add: ADC_Check_Handler_armed zone_steps_confirm assms confirm_raise confirm_rest
      tick_sensitivity)

lemma confirmation_rlx:
  assumes "f < 2"
  shows "confirmation (ADC_Check_Handler f) second (sees_rlx f) (\<lambda>d. fst (rlx_state f d))
    (\<lambda>d. armed f d \<and> rtcTimeCnt d = 0) (\<lambda>d. unat (snd (rlx_state f d))) (\<lambda>d. 2)"
proof unfold_locales
  fix d :: dev
  assume "armed f d \<and> rtcTimeCnt d = 0" "0 < unat (snd (rlx_state f d))" "unat (snd (rlx_state f d)) < 2"
  then show "unat (snd (rlx_state f (second d))) = Suc (unat (snd (rlx_state f d)))"
    using assms unat_count_to [of "snd (rlx_state f d)" 3] by simp
qed (simp_all add: ADC_Check_Handler_armed zone_steps_confirm assms confirm_raise confirm_rest)

interpretation ivd_A: confirmation "ADC_Check_Handler 0" TIM3_IRQHandler "sees_ivd 0" "\<lambda>d. fst (ivd_state 0 d)" "armed 0"
    "\<lambda>d. unat (snd (ivd_state 0 d))" "\<lambda>d. unat (alarm_sensitivity d 0)"
  by (rule confirmation_ivd) simp
interpretation ivd_B: confirmation "ADC_Check_Handler 1" TIM3_IRQHandler "sees_ivd 1" "\<lambda>d. fst (ivd_state 1 d)" "armed 1"
    "\<lambda>d. unat (snd (ivd_state 1 d))" "\<lambda>d. unat (alarm_sensitivity d 1)"
  by (rule confirmation_ivd) simp
interpretation opn_A: confirmation "ADC_Check_Handler 0" TIM3_IRQHandler "sees_opn 0" "\<lambda>d. fst (opn_state 0 d)" "armed 0"
    "\<lambda>d. unat (snd (opn_state 0 d))" "\<lambda>d. unat (alarm_sensitivity d 0)"
  by (rule confirmation_opn) simp
interpretation opn_B: confirmation "ADC_Check_Handler 1" TIM3_IRQHandler "sees_opn 1" "\<lambda>d. fst (opn_state 1 d)" "armed 1"
    "\<lambda>d. unat (snd (opn_state 1 d))" "\<lambda>d. unat (alarm_sensitivity d 1)"
  by (rule confirmation_opn) simp
interpretation rlx_A: confirmation "ADC_Check_Handler 0" second "sees_rlx 0" "\<lambda>d. fst (rlx_state 0 d)"
    "\<lambda>d. armed 0 d \<and> rtcTimeCnt d = 0" "\<lambda>d. unat (snd (rlx_state 0 d))" "\<lambda>d. 2"
  by (rule confirmation_rlx) simp
interpretation rlx_B: confirmation "ADC_Check_Handler 1" second "sees_rlx 1" "\<lambda>d. fst (rlx_state 1 d)"
    "\<lambda>d. armed 1 d \<and> rtcTimeCnt d = 0" "\<lambda>d. unat (snd (rlx_state 1 d))" "\<lambda>d. 2"
  by (rule confirmation_rlx) simp

subsection \<open>The tamper switch keeps the contract\<close>

definition fc_state :: "dev \<Rightarrow> bool \<times> u8" where
  "fc_state d = (bit (ALARM_STATE d) AB_FCH_MASK, FCAlmVerifyCnt d)"

definition fc_check :: "dev \<Rightarrow> dev" where
  "fc_check d = fst (FANG_CHAI_Check d)"

lemma fc_check_frame [simp]:
  "flag_fcgjsn (fc_check d) = flag_fcgjsn d" "FANG_CHAI (fc_check d) = FANG_CHAI d" "rtcTimeCnt (fc_check d) = rtcTimeCnt d"
  by (simp_all add: fc_check_def FANG_CHAI_Check_def alarm_ops)

lemma fc_check_confirm:
  assumes "flag_fcgjsn d = ON" "unat (FCAlmVerifyCnt d) \<le> 4"
  shows "fc_state (fc_check d) = confirm 4 (FANG_CHAI d) (fc_state d)"
proof -
  have "FCAlmVerifyCnt d = 4 \<longleftrightarrow> 4 \<le> FCAlmVerifyCnt d"
    using assms(2) by (simp add: word_le_nat_alt word_unat_eq_iff)
  with assms(1) show ?thesis
    by (cases "FANG_CHAI d"; cases "bit (ALARM_STATE d) 4")
      (simp_all add: fc_check_def fc_state_def FANG_CHAI_Check_def confirm_laws alarm_ops GET_ALARM_STATE_of_bool word_le_nat_alt)
qed

lemma confirm_count: "unat (snd s) \<le> 4 \<Longrightarrow> unat (snd (confirm lim c s)) \<le> 4"
  by (cases s; cases c; cases "fst s") (simp_all add: confirm_laws)

interpretation fc: confirmation fc_check second FANG_CHAI "\<lambda>d. fst (fc_state d)"
    "\<lambda>d. flag_fcgjsn d = ON \<and> rtcTimeCnt d = 0 \<and> unat (snd (fc_state d)) \<le> 4" "\<lambda>d. unat (snd (fc_state d))" "\<lambda>d. 4"
proof -
  have tick: "fc_state (second d) = (fst (fc_state d), count_to 4 (snd (fc_state d)))" if "rtcTimeCnt d = 0" for d
    using that by (simp add: fc_state_def)
  have "unat (count_to 4 c) \<le> 4" if "unat c \<le> 4" for c
  proof (cases "0 < unat c \<and> unat c < 4")
    case True
    then show ?thesis using unat_count_to [of c 4] by simp
  next
    case False
    then have "\<not> (0 < uint c \<and> uint c < 4)" by (simp only: uint_nat) presburger
    then have "count_to 4 c = c" by (simp only: count_to_def if_False)
    with that show ?thesis by simp
  qed
  with tick have "unat (snd (fc_state (second d))) \<le> 4" if "rtcTimeCnt d = 0" "unat (snd (fc_state d)) \<le> 4" for d
    using that by simp
  moreover have "unat (snd (fc_state (second d))) = Suc (unat (snd (fc_state d)))"
    if "rtcTimeCnt d = 0" "0 < unat (snd (fc_state d))" "unat (snd (fc_state d)) < 4" for d
    using that tick unat_count_to [of "snd (fc_state d)" 4] by simp
  moreover have "fc_state (fc_check d) = confirm 4 (FANG_CHAI d) (fc_state d)"
    if "flag_fcgjsn d = ON" "unat (snd (fc_state d)) \<le> 4" for d
    using fc_check_confirm that by (simp add: fc_state_def)
  ultimately show "confirmation fc_check second FANG_CHAI (\<lambda>d. fst (fc_state d))
    (\<lambda>d. flag_fcgjsn d = ON \<and> rtcTimeCnt d = 0 \<and> unat (snd (fc_state d)) \<le> 4) (\<lambda>d. unat (snd (fc_state d))) (\<lambda>d. 4)"
    by unfold_locales (simp_all add: tick confirm_raise confirm_rest confirm_count)
qed

subsection \<open>Records\<close>

definition IVD_LOG :: "nat \<Rightarrow> nat" where "IVD_LOG f = (if f = 0 then LOG_TYPE_AIVD else LOG_TYPE_BIVD)"
definition OPN_LOG :: "nat \<Rightarrow> nat" where "OPN_LOG f = (if f = 0 then LOG_TYPE_AOPN else LOG_TYPE_BOPN)"

text \<open>The log with the record of an alarm raised at the present time in front.\<close>

definition logged :: "nat \<Rightarrow> dev \<Rightarrow> u8 list list" where
  "logged t d = take 300 ((rtcTempStr d @ [ALARM]) # log_abs t d)"

lemma logs_alarm_ops [simp]:
  "log_abs t (ALARM_Update d) = log_abs t d" "log_abs t (clear_state m d) = log_abs t d"
  "log_abs t (Set_Alarm_State_Util_Clear m d) = log_abs t d" "log_abs t (ADC_Check f d) = log_abs t d"
  "log_abs t (d\<lparr>adcIvdAlmVerifyCnt := c\<rparr>) = log_abs t d" "log_abs t (d\<lparr>adcOpnAlmVerifyCnt := c\<rparr>) = log_abs t d"
  "log_abs t (rlx_step f p d) = log_abs t d"
  by (rule log_cong(4); simp add: alarm_ops)+

lemma rtcTempStr_alarm_ops [simp]:
  "rtcTempStr (Set_Alarm_State_Util_Clear m d) = rtcTempStr d"
  by (simp add: alarm_ops)

lemma log_types [simp]: "IVD_LOG f < 5" "OPN_LOG f < 5" "IVD_LOG f \<noteq> OPN_LOG g" "OPN_LOG g \<noteq> IVD_LOG f"
  by (simp_all add: IVD_LOG_def OPN_LOG_def)

lemma WriteLog_logged:
  assumes "inv_on {} d" "t < 5" "t' < 5"
  shows "log_abs t' (WriteLog t ALARM d) = (if t' = t then logged t d else log_abs t' d)"
  using assms log_abs_WriteLog_same [of t d ALARM] log_abs_WriteLog_other [of t t' d ALARM]
  by (simp add: inv_on_def logged_def)

lemma inv_steps:
  assumes "inv_on {} d"
  shows "inv_on {} (ivd_step f p d)" "inv_on {} (opn_step f p d)"
  using assms by (auto simp: ivd_step_def opn_step_def Let_def intro!: inv_on_WriteLog)

lemma raise_logs:
  assumes "inv_on {} d" "t < 5" "t' < 5"
  shows "log_abs t' (WriteLog t ALARM (Set_Alarm_State_Util_Clear m d)) = (if t' = t then logged t d else log_abs t' d)"
  using assms by (simp add: WriteLog_logged logged_def)

lemma logged_counters [simp]:
  "logged t (d\<lparr>adcIvdAlmVerifyCnt := c\<rparr>) = logged t d" "logged t (d\<lparr>adcOpnAlmVerifyCnt := c\<rparr>) = logged t d"
  by (simp_all add: logged_def)

lemma alarm_bits:
  "\<not> bit (ALARM_STATE (clear_state m d)) m" "m < 16 \<Longrightarrow> bit (ALARM_STATE (Set_Alarm_State_Util_Clear m d)) m"
  "ALARM_STATE (ALARM_Update d) = ALARM_STATE d"
  by (simp_all add: alarm_ops)

lemma ivd_step_logs:
  assumes "inv_on {} d" "t < 5" "f < 2" "p = of_bool (bit (ALARM_STATE d) (INVD_MASK f))" "adc_invd_crt d f = of_bool c"
  shows "log_abs t (ivd_step f p d) =
    (if t = IVD_LOG f \<and> \<not> bit (ALARM_STATE d) (INVD_MASK f) \<and> bit (ALARM_STATE (ivd_step f p d)) (INVD_MASK f)
     then logged t d else log_abs t d)"
proof -
  have "(if f = 0 then LOG_TYPE_AIVD else LOG_TYPE_BIVD) = IVD_LOG f" by (simp add: IVD_LOG_def)
  with assms show ?thesis
    by (cases c; cases "bit (ALARM_STATE d) (INVD_MASK f)")
      (simp_all add: ivd_step_def raise_logs alarm_bits Let_def)
qed

lemma opn_step_logs:
  assumes "inv_on {} d" "t < 5" "f < 2" "p = of_bool (bit (ALARM_STATE d) (OPN_MASK f))" "adc_open_crt d f = of_bool c"
  shows "log_abs t (opn_step f p d) =
    (if t = OPN_LOG f \<and> \<not> bit (ALARM_STATE d) (OPN_MASK f) \<and> bit (ALARM_STATE (opn_step f p d)) (OPN_MASK f)
     then logged t d else log_abs t d)"
proof -
  have "(if f = 0 then LOG_TYPE_AOPN else LOG_TYPE_BOPN) = OPN_LOG f" by (simp add: OPN_LOG_def)
  with assms show ?thesis
    by (cases c; cases "bit (ALARM_STATE d) (OPN_MASK f)")
      (simp_all add: opn_step_def raise_logs alarm_bits Let_def)
qed

lemma zone_steps_logs:
  assumes "inv_on {} d" "t < 5" "f < 2"
  shows "log_abs t (zone_steps f d) =
    (if (t = IVD_LOG f \<and> \<not> fst (ivd_state f d) \<and> fst (ivd_state f (zone_steps f d)))
        \<or> (t = OPN_LOG f \<and> \<not> fst (opn_state f d) \<and> fst (opn_state f (zone_steps f d)))
     then logged t d else log_abs t d)"
proof -
  let ?e = "ADC_Check f d"
  let ?i = "ivd_step f (of_bool (bit (ALARM_STATE d) (INVD_MASK f))) ?e"
  let ?o = "opn_step f (of_bool (bit (ALARM_STATE d) (OPN_MASK f))) ?i"
  have i: "inv_on {} ?i" using assms(1) by (simp add: inv_steps)
  have fields: "logged t ?e = logged t d" by (simp add: logged_def)
  have logged_i: "logged t ?i = logged t d" if "t = OPN_LOG f"
    using that assms ivd_step_logs [of ?e t f "of_bool (bit (ALARM_STATE d) (INVD_MASK f))" "sees_ivd f d"]
    by (simp add: ADC_Check_sees logged_def)
  show ?thesis
    using assms i logged_i fields
      ivd_step_logs [of ?e t f "of_bool (bit (ALARM_STATE d) (INVD_MASK f))" "sees_ivd f d"]
      opn_step_logs [of ?i t f "of_bool (bit (ALARM_STATE d) (OPN_MASK f))" "sees_opn f d"]
    by (auto simp: zone_steps_def Let_def ADC_Check_sees ivd_state_def opn_state_def)
qed

subsection \<open>Sequences of tests\<close>

text \<open>A test of zone \<open>f\<close>, then \<open>n\<close> more of them, each after an interrupt of TIM3 (after a second, for the others).\<close>

definition tests :: "nat \<Rightarrow> nat \<Rightarrow> dev \<Rightarrow> dev" where
  "tests f n d = ((\<lambda>d. ADC_Check_Handler f (TIM3_IRQHandler d)) ^^ n) (ADC_Check_Handler f d)"

definition slow_tests :: "nat \<Rightarrow> nat \<Rightarrow> dev \<Rightarrow> dev" where
  "slow_tests f n d = ((\<lambda>d. ADC_Check_Handler f (second d)) ^^ n) (ADC_Check_Handler f d)"

definition fc_tests :: "nat \<Rightarrow> dev \<Rightarrow> dev" where
  "fc_tests n d = ((\<lambda>d. fst (FANG_CHAI_Check (second d))) ^^ n) (fst (FANG_CHAI_Check d))"

lemma run_is_tests:
  "ivd_A.run n d = tests 0 n d" "ivd_B.run n d = tests 1 n d" "opn_A.run n d = tests 0 n d" "opn_B.run n d = tests 1 n d"
  "rlx_A.run n d = slow_tests 0 n d" "rlx_B.run n d = slow_tests 1 n d" "fc.run n d = fc_tests n d"
  by (simp_all only: ivd_A.run_def ivd_B.run_def opn_A.run_def opn_B.run_def rlx_A.run_def rlx_B.run_def fc.run_def
      tests_def slow_tests_def fc_tests_def fc_check_def)

lemmas runs = run_is_tests run_is_tests [unfolded One_nat_def]

lemma tests_0: "tests f 0 d = ADC_Check_Handler f d"
  and tests_Suc: "tests f (Suc n) d = ADC_Check_Handler f (TIM3_IRQHandler (tests f n d))"
  by (simp_all add: tests_def)

text \<open>
  What the readings depend on, besides the inputs and the time.  Neither a test of an armed zone nor an
  interrupt of TIM3 changes it when the automatic calibration is switched off.
\<close>

definition same_gauge :: "dev \<Rightarrow> dev \<Rightarrow> bool" where
  "same_gauge d e \<longleftrightarrow> calibrating_flag e = calibrating_flag d \<and> base_auto_calibrate_time e = base_auto_calibrate_time d \<and>
     W4_W6 e = W4_W6 d \<and> tension_max_range e = tension_max_range d \<and> zero_val e = zero_val d \<and> base_val e = base_val d \<and>
     alarm_threshold_up_dif e = alarm_threshold_up_dif d \<and> alarm_threshold_down_dif e = alarm_threshold_down_dif d"

lemma same_gauge_steps:
  "same_gauge d (ADC_Check f d)" "same_gauge d (ivd_step f p d)" "same_gauge d (opn_step f p d)" "same_gauge d (rlx_step f p d)"
  by (simp_all add: same_gauge_def ivd_step_def opn_step_def rlx_step_def alarm_ops)

lemma clock_steps [simp]:
  "adc_src (ivd_step f p d) = adc_src d" "adc_src (opn_step f p d) = adc_src d" "adc_src (rlx_step f p d) = adc_src d"
  "adc_time (ivd_step f p d) = adc_time d" "adc_time (opn_step f p d) = adc_time d" "adc_time (rlx_step f p d) = adc_time d"
  "init_done (ivd_step f p d) = init_done d" "init_done (opn_step f p d) = init_done d" "init_done (rlx_step f p d) = init_done d"
  by (simp_all add: ivd_step_def opn_step_def rlx_step_def alarm_ops)

lemma same_gauge_handler: "armed f d \<Longrightarrow> same_gauge d (ADC_Check_Handler f d)"
  using same_gauge_steps unfolding ADC_Check_Handler_armed zone_steps_def Let_def same_gauge_def by metis

lemma steady_handler: "armed f d \<Longrightarrow> steady v k (ADC_Check_Handler f d) = steady v k (ADC_Check f d)"
  by (rule steady_cong) (simp_all add: ADC_Check_Handler_armed zone_steps_def Let_def)

lemma same_gauge_TIM3: "base_auto_calibrate_time d = 0 \<Longrightarrow> same_gauge d (TIM3_IRQHandler d)"
  by (simp add: same_gauge_def TIM3_calibrating_flag)

lemma same_gauge_trans: "same_gauge d e \<Longrightarrow> same_gauge e g \<Longrightarrow> same_gauge d g"
  by (simp add: same_gauge_def)

lemma reading_ADC_Check:
  assumes "steady v (20 * line_count d + k) d" "f < 2" "calibrating_flag d = 0xFF"
  shows "i < line_count d \<Longrightarrow> crt_val (ADC_Check f d) f i = clip0 (of_int (level v f d i) - zero_val d f i)"
    "steady v k (ADC_Check f d)"
proof -
  let ?d = "d\<lparr>adc_invd_crt := (adc_invd_crt d)(f := NO_ALARM), adc_open_crt := (adc_open_crt d)(f := NO_ALARM),
    adc_relax_crt := (adc_relax_crt d)(f := NO_ALARM)\<rparr>"
  have lc: "line_count ?d = line_count d" "level v f ?d i = level v f d i" for i
    by (simp_all add: line_count_def level_def)
  have s: "steady v (20 * line_count ?d + k) ?d" using assms(1) by (simp add: steady_def lc)
  have crt: "crt_val (ADC_Check f d) = crt_val (updateCrtSmp f ?d)"
    by (simp add: ADC_Check_def Let_def case_prod_beta)
  show "i < line_count d \<Longrightarrow> crt_val (ADC_Check f d) f i = clip0 (of_int (level v f d i) - zero_val d f i)"
    using reading_steady(1) [OF s assms(2), of i] assms(3) by (simp add: crt lc)
  have "steady v k (ADC_Check f d) = steady v k (updateCrtSmp f ?d)"
    by (rule steady_cong) (simp_all add: ADC_Check_def Let_def case_prod_beta)
  then show "steady v k (ADC_Check f d)" using reading_steady(2) [OF s assms(2)] assms(3) by simp
qed

text \<open>What the inputs at rest at \<open>v\<close> mean for zone \<open>f\<close>.\<close>

definition rest_reading :: "(u8 \<times> bool \<times> bool \<Rightarrow> u16) \<Rightarrow> nat \<Rightarrow> dev \<Rightarrow> nat \<Rightarrow> s16" where
  "rest_reading v f d i = clip0 (of_int (level v f d i) - zero_val d f i)"

definition too_tight :: "(u8 \<times> bool \<times> bool \<Rightarrow> u16) \<Rightarrow> nat \<Rightarrow> dev \<Rightarrow> bool" where
  "too_tight v f d \<longleftrightarrow> (\<exists>i<line_count d.
     sint (rest_reading v f d i) - sint (base_val d f i) > uint (alarm_threshold_up_dif d))"

definition broken :: "(u8 \<times> bool \<times> bool \<Rightarrow> u16) \<Rightarrow> nat \<Rightarrow> dev \<Rightarrow> bool" where
  "broken v f d \<longleftrightarrow> (\<exists>i<line_count d. sint (rest_reading v f d i) < 10)"

definition too_slack :: "(u8 \<times> bool \<times> bool \<Rightarrow> u16) \<Rightarrow> nat \<Rightarrow> dev \<Rightarrow> bool" where
  "too_slack v f d \<longleftrightarrow> (\<exists>i<line_count d. (\<forall>j\<le>i. \<not> sint (rest_reading v f d j) < 10) \<and>
     sint (base_val d f i) - sint (rest_reading v f d i) > uint (alarm_threshold_down_dif d))"

lemma same_gauge_view:
  "same_gauge d e \<Longrightarrow> line_count e = line_count d"
  by (simp add: same_gauge_def line_count_def)

lemma tests_rest:
  assumes "armed f d" "base_auto_calibrate_time d = 0"
  shows "same_gauge d (tests f n d) \<and> armed f (tests f n d)"
proof (induction n)
  case 0
  show ?case using assms same_gauge_handler by (simp add: tests_0 ADC_Check_Handler_armed)
next
  case (Suc n)
  let ?e = "TIM3_IRQHandler (tests f n d)"
  have "base_auto_calibrate_time (tests f n d) = 0" using Suc assms(2) by (simp add: same_gauge_def)
  then have "same_gauge (tests f n d) ?e" by (rule same_gauge_TIM3)
  moreover have "same_gauge ?e (ADC_Check_Handler f ?e)" using Suc by (intro same_gauge_handler) simp
  ultimately show ?case using Suc same_gauge_trans by (simp add: tests_Suc ADC_Check_Handler_armed) blast
qed

text \<open>Where the converter's time stands after a number of tests.\<close>

definition later :: "nat \<Rightarrow> dev \<Rightarrow> dev" where
  "later n d = d\<lparr>adc_time := adc_time d + n * (20 * line_count d)\<rparr>"

lemma ADC_Check_time:
  assumes "f < 2" "init_done d \<noteq> 0" "calibrating_flag d = 0xFF"
  shows "adc_time (ADC_Check f d) = adc_time d + 20 * line_count d"
  using assms sampleAdc_run_time [OF assms(1), of "d\<lparr>adc_invd_crt := a, adc_open_crt := b, adc_relax_crt := c\<rparr>" 20 for a b c]
  by (simp add: ADC_Check_def Let_def case_prod_beta updateCrtSmp_def line_count_def)

lemma handler_clock:
  assumes "armed f d" "f < 2" "init_done d \<noteq> 0" "calibrating_flag d = 0xFF"
  shows "steady v k (ADC_Check_Handler f d) = steady v k (later 1 d)"
proof -
  have "adc_time (ADC_Check_Handler f d) = adc_time (later 1 d)" "adc_src (ADC_Check_Handler f d) = adc_src (later 1 d)"
    "init_done (ADC_Check_Handler f d) = init_done (later 1 d)"
    using assms ADC_Check_time [OF assms(2-4)] by (simp_all add: ADC_Check_Handler_armed zone_steps_def Let_def later_def)
  then show ?thesis by (intro steady_cong)
qed

lemma clock_handler [simp]:
  "armed f d \<Longrightarrow> init_done (ADC_Check_Handler f d) = init_done d"
  by (simp add: ADC_Check_Handler_armed zone_steps_def Let_def)

lemma TIM3_clock [simp]:
  "line_count (TIM3_IRQHandler d) = line_count d" "steady v k (TIM3_IRQHandler d) = steady v k d"
  by (simp_all add: line_count_def steady_def)

lemma steady_later:
  "init_done e = init_done d \<Longrightarrow> adc_src e = adc_src d \<Longrightarrow> adc_time e = adc_time d \<Longrightarrow> line_count e = line_count d \<Longrightarrow>
   steady v k (later n e) = steady v k (later n d)"
  by (intro steady_cong) (simp_all add: later_def)

lemma tests_clock:
  assumes "armed f d" "f < 2" "init_done d \<noteq> 0" "calibrating_flag d = 0xFF" "base_auto_calibrate_time d = 0"
  shows "init_done (tests f n d) = init_done d \<and> adc_src (tests f n d) = adc_src d \<and>
    adc_time (tests f n d) = adc_time d + Suc n * (20 * line_count d)"
proof (induction n)
  case 0
  show ?case using assms ADC_Check_time [OF assms(2-4)]
    by (simp add: tests_0 ADC_Check_Handler_armed zone_steps_def Let_def)
next
  case (Suc n)
  let ?e = "TIM3_IRQHandler (tests f n d)"
  have r: "same_gauge d (tests f n d)" "armed f (tests f n d)" using tests_rest [OF assms(1,5)] by simp_all
  then have "same_gauge (tests f n d) ?e" using assms(5) by (intro same_gauge_TIM3) (simp add: same_gauge_def)
  with r have "same_gauge d ?e" by (rule_tac same_gauge_trans)
  then have "calibrating_flag ?e = 0xFF" "line_count ?e = line_count d" using assms(4) by (simp_all add: same_gauge_def line_count_def)
  then have "adc_time (ADC_Check f ?e) = adc_time ?e + 20 * line_count d"
    using Suc assms(3) ADC_Check_time [OF assms(2), of ?e] by simp
  with Suc r(2) show ?case by (simp add: tests_Suc ADC_Check_Handler_armed zone_steps_def Let_def)
qed

text \<open>The device that the test after \<open>n + 1\<close> others finds, from the inputs at its time.\<close>

definition settled :: "(u8 \<times> bool \<times> bool \<Rightarrow> u16) \<Rightarrow> dev \<Rightarrow> dev \<Rightarrow> bool" where
  "settled v d e \<longleftrightarrow> same_gauge d e \<and> steady v (20 * line_count e + 0) e \<and> calibrating_flag e = 0xFF"

lemma tests_settled:
  assumes "armed f d" "f < 2" "init_done d \<noteq> 0" "calibrating_flag d = 0xFF" "base_auto_calibrate_time d = 0"
    "steady v (20 * line_count d) (later (Suc n) d)"
  shows "settled v d (TIM3_IRQHandler (tests f n d))"
proof -
  let ?e = "TIM3_IRQHandler (tests f n d)"
  have r: "same_gauge d (tests f n d)" "armed f (tests f n d)" using tests_rest [OF assms(1,5)] by simp_all
  then have "same_gauge (tests f n d) ?e" using assms(5) by (intro same_gauge_TIM3) (simp add: same_gauge_def)
  with r have g: "same_gauge d ?e" by (rule_tac same_gauge_trans)
  have "steady v (20 * line_count d) ?e = steady v (20 * line_count d) (later (Suc n) d)"
    using tests_clock [OF assms(1-5)] by (intro steady_cong) (simp_all add: later_def)
  then have st: "steady v (20 * line_count ?e + 0) ?e"
    using assms(6) same_gauge_view [OF r(1)] by simp
  have "calibrating_flag ?e = 0xFF" using g assms(4) by (simp add: same_gauge_def)
  with g st show ?thesis by (simp add: settled_def)
qed

lemma settled_TIM3: "base_auto_calibrate_time d = 0 \<Longrightarrow> settled v d e \<Longrightarrow> settled v d (TIM3_IRQHandler e)"
  using same_gauge_TIM3 [of e] same_gauge_trans [of d e "TIM3_IRQHandler e"]
  by (auto simp: settled_def same_gauge_def)

lemma settled_now:
  "calibrating_flag d = 0xFF \<Longrightarrow> steady v (20 * line_count d) d \<Longrightarrow> settled v d d"
  by (simp add: settled_def same_gauge_def)

lemma settled_sees:
  assumes "settled v d e" "f < 2"
  shows "sees_ivd f e = too_tight v f d" "sees_opn f e = broken v f d" "sees_rlx f e = too_slack v f d"
proof -
  note st = assms(1) [unfolded settled_def]
  note r = reading_ADC_Check(1) [OF st [THEN conjunct2, THEN conjunct1] assms(2) st [THEN conjunct2, THEN conjunct2]]
  have g: "same_gauge d e" using st by simp
  then have lc: "line_count e = line_count d" by (simp add: same_gauge_def line_count_def)
  have n: "sint (crt_val (ADC_Check f e) f i) = sint (rest_reading v f d i)" if "i < line_count d" for i
    using r [of i] that g lc by (simp add: rest_reading_def level_def same_gauge_def)
  have "sees_ivd f e \<longleftrightarrow> (\<exists>i<line_count e.
      sint (crt_val (ADC_Check f e) f i) - sint (base_val e f i) > uint (alarm_threshold_up_dif e))"
    by (simp add: sees_ivd_def ADC_Check_def ADC_Check_line_fold Let_def case_prod_beta)
  then show "sees_ivd f e = too_tight v f d" using n g lc by (auto simp: too_tight_def same_gauge_def)
  have "sees_opn f e \<longleftrightarrow> (\<exists>i<line_count e. sint (crt_val (ADC_Check f e) f i) < 10)"
    by (simp add: sees_opn_def ADC_Check_def ADC_Check_line_fold Let_def case_prod_beta)
  then show "sees_opn f e = broken v f d" using n g lc by (auto simp: broken_def same_gauge_def)
  have "sees_rlx f e \<longleftrightarrow> (\<exists>i<line_count e. (\<forall>j\<le>i. \<not> sint (crt_val (ADC_Check f e) f j) < 10) \<and>
      sint (base_val e f i) - sint (crt_val (ADC_Check f e) f i) > uint (alarm_threshold_down_dif e))"
    by (simp add: sees_rlx_def ADC_Check_def ADC_Check_line_fold Let_def case_prod_beta)
  also have "\<dots> \<longleftrightarrow> (\<exists>i<line_count d. (\<forall>j\<le>i. \<not> sint (rest_reading v f d j) < 10) \<and>
      sint (base_val d f i) - sint (rest_reading v f d i) > uint (alarm_threshold_down_dif d))"
  proof -
    have "(\<forall>j\<le>i. \<not> sint (crt_val (ADC_Check f e) f j) < 10) \<longleftrightarrow> (\<forall>j\<le>i. \<not> sint (rest_reading v f d j) < 10)"
      if "i < line_count d" for i using that n by auto
    then show ?thesis using n g unfolding lc same_gauge_def by (metis (no_types, lifting))
  qed
  finally show "sees_rlx f e = too_slack v f d" by (simp add: too_slack_def)
qed

end
