(* ===== verification/AlarmSpec.thy ===== *)
theory AlarmSpec
  imports AlarmSteps
begin

text \<open>
  The contract of \<^verbatim>\<open>alarm.c\<close>: when a condition of a zone or the tamper switch raises its alarm, what is
  written to the logs, and what a test leaves alone.
\<close>

text \<open>
  A zone of four wires for the witnesses, armed, with thresholds of 50 kg, whose converter answers \<open>src\<close>
  on all inputs at its \<open>n\<close>-th conversion; a test takes 80 conversions.
\<close>

definition bench :: "(nat \<Rightarrow> u16) \<Rightarrow> s16 \<Rightarrow> u8 \<Rightarrow> dev" where
  "bench src b s = globals_init\<lparr>init_done := 1, BU_FANG_A_FLAG := ON, alarm_sensitivity := (\<lambda>f. s),
     tension_max_range := 200, alarm_threshold_up_dif := 50, alarm_threshold_down_dif := 50,
     base_auto_calibrate_time := 0, base_val := (\<lambda>f i. b), adc_src := (\<lambda>n ch sel. src n)\<rparr>"

lemma bench_facts:
  "armed 0 (bench src b s)" "ALARM_STATE (bench src b s) = 0" "adcIvdAlmVerifyCnt (bench src b s) = (\<lambda>f. 0)"
  "adcOpnAlmVerifyCnt (bench src b s) = (\<lambda>f. 0)" "adcRlxAlmVerifyCnt (bench src b s) = (\<lambda>f. 0)"
  "rtcTimeCnt (bench src b s) = 0" "alarm_sensitivity (bench src b s) f = s" "init_done (bench src b s) \<noteq> 0"
  "calibrating_flag (bench src b s) = 0xFF" "base_auto_calibrate_time (bench src b s) = 0" "line_count (bench src b s) = 4"
  by (simp_all add: bench_def armed_def globals_init_def line_count_def)

lemma bench_steady:
  assumes "\<And>n. n < 80 \<Longrightarrow> src (80 * m + n) = x" "unat x < 4096"
  shows "steady (\<lambda>i. x) (20 * line_count (bench src b s)) (later m (bench src b s))"
  using assms by (simp add: steady_def later_def bench_def globals_init_def line_count_def ac_simps)

lemma bench_reading:
  "rest_reading (\<lambda>i. x) f (bench src b s) i = clip0 (of_int (uint x * 200 div 4096))"
  by (simp add: rest_reading_def level_def bench_def globals_init_def)

lemma bench_sees:
  assumes "\<And>n. n < 80 \<Longrightarrow> src (80 * Suc n' + n) = x" "unat x < 4096"
  shows "settled (\<lambda>i. x) (bench src b s) (TIM3_IRQHandler (tests 0 n' (bench src b s)))"
proof -
  have "steady (\<lambda>i. x) (20 * line_count (bench src b s)) (later (Suc n') (bench src b s))"
    by (rule bench_steady) (use assms in auto)
  then show ?thesis by (intro tests_settled) (simp_all add: bench_facts)
qed

lemma bench_sees_first:
  assumes "\<And>n. n < 80 \<Longrightarrow> src n = x" "unat x < 4096"
  shows "settled (\<lambda>i. x) (bench src b s) (bench src b s)"
  using bench_steady [of src 0 x] assms by (intro settled_now) (simp_all add: bench_facts later_def steady_def)

lemma bench_judges:
  "too_tight (\<lambda>i. x) f (bench src b s) \<longleftrightarrow> sint (clip0 (of_int (uint x * 200 div 4096))) - sint b > 50"
  "broken (\<lambda>i. x) f (bench src b s) \<longleftrightarrow> sint (clip0 (of_int (uint x * 200 div 4096))) < 10"
  "too_slack (\<lambda>i. x) f (bench src b s) \<longleftrightarrow> \<not> sint (clip0 (of_int (uint x * 200 div 4096))) < 10 \<and>
     sint b - sint (clip0 (of_int (uint x * 200 div 4096))) > 50"
  by (auto simp: too_tight_def broken_def too_slack_def bench_reading bench_facts)
     (auto simp: bench_def globals_init_def intro: exI [of _ 0])

text \<open>
  C11: An intrusion seen by every test of an armed zone raises the zone's intrusion alarm with the test that
  follows as many interrupts of TIM3 as the sensitivity of the zone, less one, and not before.
\<close>

theorem intrusion_confirmed:
  assumes "f < 2" "armed f d" "\<not> bit (ALARM_STATE d) (INVD_MASK f)" "adcIvdAlmVerifyCnt d f = 0"
    "sees_ivd f d" "\<forall>k<n. sees_ivd f (TIM3_IRQHandler (tests f k d))"
  shows "bit (ALARM_STATE (tests f n d)) (INVD_MASK f) \<longleftrightarrow> unat (alarm_sensitivity d f) \<le> Suc n"
  using zones [OF assms(1)] assms ivd_A.confirmed [of d n] ivd_B.confirmed [of d n]
  by (elim disjE) (simp_all add: runs ivd_state_def)

theorem intrusion_confirmed_witness:
  "bit (ALARM_STATE (tests 0 2 (bench (\<lambda>n. 4095) 0 3))) (INVD_MASK 0)"
proof -
  let ?d = "bench (\<lambda>n. 4095) 0 3"
  have see: "sees_ivd 0 (TIM3_IRQHandler (tests 0 k ?d))" for k
    using settled_sees(1) [OF bench_sees [of "\<lambda>n. 4095" k 4095 0 3], of 0] by (simp add: bench_judges clip0_def)
  have "sees_ivd 0 ?d"
    using settled_sees(1) [OF bench_sees_first [of "\<lambda>n. 4095" 4095 0 3], of 0] by (simp add: bench_judges clip0_def)
  with see show ?thesis using intrusion_confirmed [of 0 ?d 2] by (simp add: bench_facts)
qed

text \<open>The same for a broken wire.\<close>

theorem broken_wire_confirmed:
  assumes "f < 2" "armed f d" "\<not> bit (ALARM_STATE d) (OPN_MASK f)" "adcOpnAlmVerifyCnt d f = 0"
    "sees_opn f d" "\<forall>k<n. sees_opn f (TIM3_IRQHandler (tests f k d))"
  shows "bit (ALARM_STATE (tests f n d)) (OPN_MASK f) \<longleftrightarrow> unat (alarm_sensitivity d f) \<le> Suc n"
  using zones [OF assms(1)] assms opn_A.confirmed [of d n] opn_B.confirmed [of d n]
  by (elim disjE) (simp_all add: runs opn_state_def)

theorem broken_wire_confirmed_witness:
  "bit (ALARM_STATE (tests 0 2 (bench (\<lambda>n. 100) 0 3))) (OPN_MASK 0)"
proof -
  let ?d = "bench (\<lambda>n. 100) 0 3"
  have see: "sees_opn 0 (TIM3_IRQHandler (tests 0 k ?d))" for k
    using settled_sees(2) [OF bench_sees [of "\<lambda>n. 100" k 100 0 3], of 0] by (simp add: bench_judges clip0_def)
  have "sees_opn 0 ?d"
    using settled_sees(2) [OF bench_sees_first [of "\<lambda>n. 100" 100 0 3], of 0] by (simp add: bench_judges clip0_def)
  with see show ?thesis using broken_wire_confirmed [of 0 ?d 2] by (simp add: bench_facts)
qed

text \<open>A slack wire is confirmed after one second, whatever the sensitivity.\<close>

theorem slack_wire_confirmed:
  assumes "f < 2" "armed f d" "rtcTimeCnt d = 0" "\<not> bit (ALARM_STATE d) (RLX_MASK f)" "adcRlxAlmVerifyCnt d f = 0"
    "sees_rlx f d" "\<forall>k<n. sees_rlx f (second (slow_tests f k d))"
  shows "bit (ALARM_STATE (slow_tests f n d)) (RLX_MASK f) \<longleftrightarrow> 1 \<le> n"
  using zones [OF assms(1)] assms rlx_A.confirmed [of d n] rlx_B.confirmed [of d n]
  by (elim disjE) (auto simp: runs rlx_state_def)

theorem slack_wire_confirmed_witness:
  "bit (ALARM_STATE (slow_tests 0 1 (bench (\<lambda>n. 400) 100 9))) (RLX_MASK 0)"
proof -
  let ?d = "bench (\<lambda>n. 400) 100 9"
  have "settled (\<lambda>i. 400) ?d (second (tests 0 0 ?d))"
    unfolding second_def by (rule settled_TIM3) (simp_all add: bench_facts bench_sees)
  then have "sees_rlx 0 (second (slow_tests 0 0 ?d))"
    using settled_sees(3) [of "\<lambda>i. 400" ?d _ 0] by (simp add: tests_0 slow_tests_def bench_judges clip0_def)
  moreover have "sees_rlx 0 ?d"
    using settled_sees(3) [OF bench_sees_first [of "\<lambda>n. 400" 400 100 9], of 0] by (simp add: bench_judges clip0_def)
  ultimately show ?thesis using slack_wire_confirmed [of 0 ?d 1] by (simp add: bench_facts)
qed

text \<open>The tamper switch is confirmed after three seconds.\<close>

theorem tamper_confirmed:
  assumes "flag_fcgjsn d = ON" "rtcTimeCnt d = 0" "\<not> bit (ALARM_STATE d) AB_FCH_MASK" "FCAlmVerifyCnt d = 0" "FANG_CHAI d"
  shows "bit (ALARM_STATE (fc_tests n d)) AB_FCH_MASK \<longleftrightarrow> 3 \<le> n"
proof -
  have "FANG_CHAI (fc_tests k d)" for k
    using assms(5) fc_check_frame(2) by (induction k) (simp_all add: fc_tests_def fc_check_def)
  then show ?thesis
    using assms fc.confirmed [of d n] by (auto simp: runs fc_state_def)
qed

theorem tamper_confirmed_witness:
  "bit (ALARM_STATE (fc_tests 3 (globals_init\<lparr>flag_fcgjsn := ON, FANG_CHAI := True\<rparr>))) AB_FCH_MASK"
  using tamper_confirmed [of "globals_init\<lparr>flag_fcgjsn := ON, FANG_CHAI := True\<rparr>" 3] by (simp add: globals_init_def)

text \<open>
  C12: The count of a confirmation is not stopped when its condition goes away: two single tests that see an
  intrusion raise the alarm although every test between them sees none, when they are as far apart
  as the confirmation is long.
\<close>

theorem two_blips_alarm:
  assumes "f < 2" "armed f d" "\<not> bit (ALARM_STATE d) (INVD_MASK f)" "adcIvdAlmVerifyCnt d f = 0"
    "unat (alarm_sensitivity d f) = n + 2" "sees_ivd f d" "\<forall>k<n. \<not> sees_ivd f (TIM3_IRQHandler (tests f k d))"
    "sees_ivd f (TIM3_IRQHandler (tests f n d))"
  shows "bit (ALARM_STATE (tests f (Suc n) d)) (INVD_MASK f)"
  using zones [OF assms(1)] assms ivd_A.two_blips [of d n] ivd_B.two_blips [of d n]
  by (elim disjE) (simp_all add: runs ivd_state_def)

theorem two_blips_alarm_witness:
  "bit (ALARM_STATE (tests 0 2 (bench (\<lambda>n. if 80 \<le> n \<and> n < 160 then 400 else 4095) 0 3))) (INVD_MASK 0)"
proof -
  let ?s = "\<lambda>n. if 80 \<le> n \<and> n < 160 then 400 else (4095 :: u16)"
  let ?d = "bench ?s 0 3"
  have "sees_ivd 0 ?d"
    using settled_sees(1) [OF bench_sees_first [of ?s 4095 0 3], of 0] by (simp add: bench_judges clip0_def)
  moreover have "\<not> sees_ivd 0 (TIM3_IRQHandler (tests 0 0 ?d))"
    using settled_sees(1) [OF bench_sees [of ?s 0 400 0 3], of 0] by (simp add: bench_judges clip0_def)
  moreover have "sees_ivd 0 (TIM3_IRQHandler (tests 0 1 ?d))"
    using settled_sees(1) [OF bench_sees [of ?s 1 4095 0 3], of 0] by (simp add: bench_judges clip0_def)
  ultimately have "bit (ALARM_STATE (tests 0 (Suc 1) ?d)) (INVD_MASK 0)"
    by (intro two_blips_alarm) (simp_all add: bench_facts)
  then show ?thesis by (simp only: Suc_1)
qed

text \<open>
  C13: A test of an armed zone writes one record of the present time to the log of each of the two
  alarms, intrusion and broken wire, that it newly raises, and no other record; a slack alarm is raised without one.
\<close>

theorem zone_test_logs:
  assumes "inv_on {} d" "t < 5" "f < 2" "armed f d"
  shows "log_abs t (ADC_Check_Handler f d) =
    (if (t = IVD_LOG f \<and> \<not> bit (ALARM_STATE d) (INVD_MASK f) \<and> bit (ALARM_STATE (ADC_Check_Handler f d)) (INVD_MASK f))
        \<or> (t = OPN_LOG f \<and> \<not> bit (ALARM_STATE d) (OPN_MASK f) \<and> bit (ALARM_STATE (ADC_Check_Handler f d)) (OPN_MASK f))
     then take 300 ((rtcTempStr d @ [ALARM]) # log_abs t d) else log_abs t d)"
  using zone_steps_logs [OF assms(1-3)] assms(4)
  by (simp add: ADC_Check_Handler_armed ivd_state_def opn_state_def logged_def)

lemma frozen_sees_ivd:
  "calibrating_flag d \<noteq> 0xFF \<Longrightarrow> sees_ivd f d \<longleftrightarrow>
   (\<exists>i<line_count d. sint (crt_val d f i) - sint (base_val d f i) > uint (alarm_threshold_up_dif d))"
  by (simp add: sees_ivd_def ADC_Check_def ADC_Check_line_fold Let_def updateCrtSmp_def case_prod_beta)

theorem zone_test_logs_witness:
  fixes d
  defines "d \<equiv> new_device\<lparr>BU_FANG_A_FLAG := ON, calibrating_flag := 0, crt_val := (\<lambda>f i. 100), base_val := (\<lambda>f i. 0),
    alarm_threshold_up_dif := 50, alarm_sensitivity := (\<lambda>f. 1), ALARM_STATE := 0\<rparr>"
  shows "log_abs 3 (ADC_Check_Handler 0 d) = take 300 ((rtcTempStr d @ [1]) # log_abs 3 d)"
proof -
  have "log_wf t d" if "t < 5" for t
    using that new_device_log log_cong(3) [of d new_device t] by (simp add: d_def)
  moreover have "rtc_ok d" using new_device_log by (simp add: d_def rtc_ok_def)
  ultimately have i: "inv_on {} d" by (simp add: inv_on_def)
  have a: "armed 0 d" "\<not> fst (ivd_state 0 d)" by (simp_all add: d_def armed_def ivd_state_def)
  have "0 < line_count d" by (simp add: line_count_def)
  then have "sees_ivd 0 d" by (subst frozen_sees_ivd) (auto simp: d_def intro: exI [of _ 0])
  with a zone_steps_confirm(1) [of 0 d] have "fst (ivd_state 0 (ADC_Check_Handler 0 d))"
    using confirm_raise [of True "ivd_state 0 d" 1] by (simp add: ADC_Check_Handler_armed) (simp add: d_def)
  with a zone_test_logs [OF i, of 3 0] show ?thesis by (simp add: ivd_state_def IVD_LOG_def)
qed

text \<open>
  A test of a zone that is not armed clears the alarms and the counts of the zone and writes nothing to
  the EEPROM.
\<close>

theorem disarmed_zone_is_silent:
  assumes "f < 2" "\<not> armed f d"
  shows "ivd_state f (ADC_Check_Handler f d) = (False, 0) \<and> opn_state f (ADC_Check_Handler f d) = (False, 0) \<and>
    rlx_state f (ADC_Check_Handler f d) = (False, 0) \<and> eemem (ADC_Check_Handler f d) = eemem d"
  using assms by (auto simp: ADC_Check_Handler_def armed_def zone_state_defs alarm_ops)

theorem disarmed_zone_is_silent_witness:
  "eemem (ADC_Check_Handler 1 (bench (\<lambda>n. 4095) 0 3)) 0 = 0xFF"
  using disarmed_zone_is_silent [of 1 "bench (\<lambda>n. 4095) 0 3"] by (simp add: armed_def bench_def globals_init_def)

text \<open>
  A test of a zone touches neither the alarm bits nor the counts nor the delayed bits of the other
  zone, nor the tamper and switch bits.
\<close>

theorem zone_test_local:
  assumes "f < 2" "k \<noteq> INVD_MASK f" "k \<noteq> OPN_MASK f" "k \<noteq> RLX_MASK f"
  shows "bit (ALARM_STATE (ADC_Check_Handler f d)) k = bit (ALARM_STATE d) k \<and>
    bit (ALARM_STATE_DELAY (ADC_Check_Handler f d)) k = bit (ALARM_STATE_DELAY d) k \<and>
    (g \<noteq> f \<longrightarrow> snd (ivd_state g (ADC_Check_Handler f d)) = snd (ivd_state g d) \<and>
       snd (opn_state g (ADC_Check_Handler f d)) = snd (opn_state g d) \<and>
       snd (rlx_state g (ADC_Check_Handler f d)) = snd (rlx_state g d))"
proof -
  have delay: "bit (ALARM_STATE_DELAY (ivd_step f p e)) k = bit (ALARM_STATE_DELAY e) k"
    "bit (ALARM_STATE_DELAY (opn_step f p e)) k = bit (ALARM_STATE_DELAY e) k"
    "bit (ALARM_STATE_DELAY (rlx_step f p e)) k = bit (ALARM_STATE_DELAY e) k" for p e
    using assms by (simp_all add: ivd_step_def opn_step_def rlx_step_def alarm_ops)
  show ?thesis
  proof (cases "armed f d")
    case True
    with assms delay show ?thesis by (simp add: ADC_Check_Handler_armed zone_steps_def zone_state_defs Let_def)
  next
    case False
    with assms show ?thesis by (auto simp: ADC_Check_Handler_def armed_def zone_state_defs alarm_ops)
  qed
qed

theorem zone_test_local_witness:
  "bit (ALARM_STATE (ADC_Check_Handler 0 (bench (\<lambda>n. 4095) 0 1\<lparr>ALARM_STATE := 0x3FC\<rparr>))) (INVD_MASK 1)"
  using zone_test_local [of 0 "INVD_MASK 1" "bench (\<lambda>n. 4095) 0 1\<lparr>ALARM_STATE := 0x3FC\<rparr>"]
  by (simp add: INVD_MASK_def OPN_MASK_def RLX_MASK_def)

text \<open>
  C14: From the wires to the alarm: with the automatic calibration off and inputs at rest at which some wire of
  an armed zone is tighter than its base value by more than the threshold, the intrusion alarm is
  raised after as many interrupts of TIM3 as the sensitivity, less one; with inputs at rest at which
  none is, it is never raised.
\<close>

theorem wires_to_alarm:
  assumes "f < 2" "armed f d" "\<not> bit (ALARM_STATE d) (INVD_MASK f)" "adcIvdAlmVerifyCnt d f = 0"
    "calibrating_flag d = 0xFF" "base_auto_calibrate_time d = 0" "\<forall>k. steady v k d"
  shows "bit (ALARM_STATE (tests f n d)) (INVD_MASK f) \<longleftrightarrow> too_tight v f d \<and> unat (alarm_sensitivity d f) \<le> Suc n"
proof -
  have init: "init_done d \<noteq> 0" using assms(7) by (simp add: steady_def)
  have "steady v k (later m d)" for k m
  proof -
    have "steady v (m * (20 * line_count d) + k) d" using assms(7) by blast
    then show ?thesis unfolding steady_def later_def
      by (simp add: add.assoc)
  qed
  then have "settled v d (TIM3_IRQHandler (tests f k d))" for k
    using assms init by (intro tests_settled) simp_all
  then have later: "sees_ivd f (TIM3_IRQHandler (tests f k d)) = too_tight v f d" for k
    by (rule settled_sees(1)) (rule assms(1))
  have "settled v d d" using assms by (intro settled_now) simp_all
  then have now: "sees_ivd f d = too_tight v f d" by (rule settled_sees(1)) (rule assms(1))
  show ?thesis
  proof (cases "too_tight v f d")
    case True
    with now later zones [OF assms(1)] assms ivd_A.confirmed [of d n] ivd_B.confirmed [of d n] show ?thesis
      by (elim disjE) (simp_all add: runs ivd_state_def)
  next
    case False
    then have idle: "\<not> sees_ivd f d" "\<not> sees_ivd f (TIM3_IRQHandler (tests f k d))" for k using now later by simp_all
    have "\<not> fst (ivd_state f (tests f n d))"
    proof (induction n)
      case 0
      then show ?case using assms idle zone_steps_confirm(1) [OF assms(1), of d]
        by (simp add: tests_0 ADC_Check_Handler_armed ivd_state_def confirm_def)
    next
      case (Suc n)
      let ?e = "TIM3_IRQHandler (tests f n d)"
      have "armed f ?e" using tests_rest [OF assms(2,6)] by simp
      with Suc idle(2) [of n] zone_steps_confirm(1) [OF assms(1), of ?e] show ?case
        using assms(1) by (simp add: tests_Suc ADC_Check_Handler_armed confirm_def)
    qed
    with False show ?thesis by (simp add: ivd_state_def)
  qed
qed

theorem wires_to_alarm_witness:
  "bit (ALARM_STATE (tests 0 2 (bench (\<lambda>n. 4095) 0 3))) (INVD_MASK 0) \<and>
   \<not> bit (ALARM_STATE (tests 0 1 (bench (\<lambda>n. 4095) 0 3))) (INVD_MASK 0) \<and>
   \<not> bit (ALARM_STATE (tests 0 99 (bench (\<lambda>n. 400) 0 3))) (INVD_MASK 0)"
proof -
  have "steady (\<lambda>i. x) k (bench (\<lambda>n. x) 0 3)" if "unat x < 4096" for x k
    using that by (simp add: steady_def bench_def globals_init_def)
  then show ?thesis
    using wires_to_alarm [of 0 "bench (\<lambda>n. 4095) 0 3" "\<lambda>i. 4095"] wires_to_alarm [of 0 "bench (\<lambda>n. 400) 0 3" "\<lambda>i. 400"]
    by (simp add: bench_facts bench_judges clip0_def)
qed

end
