(* ===== verification/TimerSpec.thy ===== *)
theory TimerSpec
  imports AlarmSteps
begin

text \<open>
  The contract of \<^verbatim>\<open>timer.c\<close>: how long a siren sounds, when the tests of the zones are requested, how
  long a calibration lasts and what it does, and when one is started automatically.
\<close>

subsection \<open>Sirens\<close>

definition siren_on :: "nat \<Rightarrow> dev \<Rightarrow> bool" where
  "siren_on f d = (if f = 0 then RL_A d else RL_B d)"

text \<open>The alarms of zone \<open>f\<close> that sound its siren.\<close>

definition sounding :: "nat \<Rightarrow> dev \<Rightarrow> bool" where
  "sounding f d \<longleftrightarrow> ALARM_STATE d AND siren_mask d f \<noteq> 0"

text \<open>One tick of a siren: the relay and its counter.\<close>

definition siren :: "bool \<Rightarrow> nat \<Rightarrow> bool \<times> s32 \<Rightarrow> bool \<times> s32" where
  "siren al delay = (\<lambda>(r, c).
     if sint c = -1 then if al then (True, 1) else (r, c)
     else if sint c = int (delay * 10) then if al then (True, 1) else (False, -1)
     else (r, c + 1))"

lemma TIM5_siren:
  assumes "f < 2"
  shows "(siren_on f (TIM5_IRQHandler d), alarmingCnt (TIM5_IRQHandler d) f) =
      siren (sounding f d) (unat (alarm_delay d f)) (siren_on f d, alarmingCnt d f)"
    "sounding f (TIM5_IRQHandler d) = sounding f d" "alarm_delay (TIM5_IRQHandler d) = alarm_delay d"
proof -
  have A: "ALARM_STATE (TIM5_A d) = ALARM_STATE d" "config_code (TIM5_A d) = config_code d" "alarm_delay (TIM5_A d) = alarm_delay d"
    "RL_B (TIM5_A d) = RL_B d" "alarmingCnt (TIM5_A d) (Suc 0) = alarmingCnt d (Suc 0)" for d
    by (simp_all add: TIM5_A_def Alarm_RL_A_def Remove_Alarm_RL_A_def)
  have B: "ALARM_STATE (TIM5_B d) = ALARM_STATE d" "config_code (TIM5_B d) = config_code d" "alarm_delay (TIM5_B d) = alarm_delay d"
    "RL_A (TIM5_B d) = RL_A d" "alarmingCnt (TIM5_B d) 0 = alarmingCnt d 0" for d
    by (simp_all add: TIM5_B_def Alarm_RL_B_def Remove_Alarm_RL_B_def)
  show "sounding f (TIM5_IRQHandler d) = sounding f d" "alarm_delay (TIM5_IRQHandler d) = alarm_delay d"
    by (simp_all add: TIM5_IRQHandler_def sounding_def siren_mask_def A B)
  have a: "(RL_A (TIM5_A d), alarmingCnt (TIM5_A d) 0) =
      siren (sounding 0 d) (unat (alarm_delay d 0)) (RL_A d, alarmingCnt d 0)"
    by (simp add: TIM5_A_def Alarm_RL_A_def Remove_Alarm_RL_A_def siren_def sounding_def)
  have b: "(RL_B (TIM5_B e), alarmingCnt (TIM5_B e) 1) =
      siren (sounding 1 e) (unat (alarm_delay e 1)) (RL_B e, alarmingCnt e 1)" for e
    by (simp add: TIM5_B_def Alarm_RL_B_def Remove_Alarm_RL_B_def siren_def sounding_def)
  show "(siren_on f (TIM5_IRQHandler d), alarmingCnt (TIM5_IRQHandler d) f) =
      siren (sounding f d) (unat (alarm_delay d f)) (siren_on f d, alarmingCnt d f)"
    using a b [of "TIM5_A d"] zones [OF assms]
    by (elim disjE) (simp_all add: TIM5_IRQHandler_def siren_on_def sounding_def siren_mask_def A B)
qed

lemma siren_run:
  assumes "f < 2"
  shows "(siren_on f ((TIM5_IRQHandler ^^ n) d), alarmingCnt ((TIM5_IRQHandler ^^ n) d) f) =
    (siren (sounding f d) (unat (alarm_delay d f)) ^^ n) (siren_on f d, alarmingCnt d f)"
proof -
  have "sounding f ((TIM5_IRQHandler ^^ n) d) = sounding f d" "alarm_delay ((TIM5_IRQHandler ^^ n) d) = alarm_delay d" for n
    by (induction n) (simp_all add: TIM5_siren(2,3) [OF assms])
  then show ?thesis by (induction n) (simp_all add: TIM5_siren(1) [OF assms])
qed

lemma sint_of_nat_small: "n < 2 ^ 31 \<Longrightarrow> sint (of_nat n :: s32) = int n"
  by (simp add: sint_uint unsigned_of_nat take_bit_nat_eq_self signed_take_bit_int_eq_self_iff)

text \<open>The counter below its limit.\<close>

lemma siren_counts:
  assumes "k + n \<le> delay * 10" "delay < 65536"
  shows "(siren al delay ^^ n) (r, of_nat k) = (r, of_nat (k + n))"
  using assms(1)
proof (induction n)
  case (Suc n)
  then have "k + n < delay * 10" "k + n < 2 ^ 31" using assms(2) by simp_all
  with sint_of_nat_small [of "k + n"] have "sint (of_nat (k + n) :: s32) \<noteq> -1" "sint (of_nat (k + n) :: s32) \<noteq> int (delay * 10)"
    by linarith+
  then have "siren al delay (r, of_nat (k + n)) = (r, of_nat (k + n) + 1)" by (simp only: siren_def case_prod_conv if_False)
  with Suc show ?case by (simp add: ac_simps)
qed simp

lemma siren_limit:
  assumes "delay < 65536"
  shows "siren al delay (r, of_nat (delay * 10)) = (if al then (True, 1) else (False, -1))"
proof -
  have "delay * 10 < 2 ^ 31" using assms by simp
  then have "sint (of_nat (delay * 10) :: s32) = int (delay * 10)" by (rule sint_of_nat_small)
  then show ?thesis unfolding siren_def case_prod_conv by simp
qed

lemma siren_off: "(siren False delay ^^ n) (r, -1) = (r, -1)"
  by (induction n) (simp_all add: siren_def)

lemma delay_less: "unat (alarm_delay d f) < 65536"
  using unsigned_less [of "alarm_delay d f"] by simp

text \<open>
  C15: The siren of a zone whose delay is not zero sounds for as many tenths of a second as ten times that delay after
  it was switched on for the last time, and is silent afterwards, when the alarms are gone.  (With a delay of zero,
  which the zone may have, it does not stop: \<open>siren_never_stops\<close>.)
\<close>

theorem siren_period:
  assumes "f < 2" "siren_on f d" "alarmingCnt d f = 1" "\<not> sounding f d" "alarm_delay d f \<noteq> 0"
  shows "siren_on f ((TIM5_IRQHandler ^^ n) d) \<longleftrightarrow> n < 10 * unat (alarm_delay d f)"
proof -
  define D where "D = unat (alarm_delay d f)"
  have D: "0 < D" "D < 65536" using assms(5) delay_less [of d f] by (simp_all add: D_def unat_gt_0)
  have run: "(siren_on f ((TIM5_IRQHandler ^^ n) d), alarmingCnt ((TIM5_IRQHandler ^^ n) d) f) = (siren False D ^^ n) (True, 1)" for n
    using siren_run [OF assms(1), of n d] assms by (simp add: D_def)
  show ?thesis
  proof (cases "n < 10 * D")
    case True
    then show ?thesis using run [of n] siren_counts [of 1 n D False True] D by (simp add: D_def [symmetric])
  next
    case False
    then obtain m where m: "n = m + Suc (D * 10 - 1)" using D by (metis Suc_pred' add.commute le_add_diff_inverse2
      linorder_not_less mult.commute mult_pos_pos zero_less_numeral)
    have "(siren False D ^^ (D * 10 - 1)) (True, 1) = (True, of_nat (D * 10))"
      using siren_counts [of 1 "D * 10 - 1" D False True] D by simp
    then have "(siren False D ^^ Suc (D * 10 - 1)) (True, 1) = (False, -1)"
      by (simp only: funpow.simps comp_apply siren_limit [OF D(2)] if_False)
    then have "(siren False D ^^ n) (True, 1) = (False, -1)"
      by (simp only: m funpow_add comp_apply siren_off)
    with run [of n] False show ?thesis by (simp add: D_def [symmetric])
  qed
qed

theorem siren_period_witness:
  "siren_on 0 ((TIM5_IRQHandler ^^ 299) (globals_init\<lparr>RL_A := True, alarmingCnt := (\<lambda>f. 1)\<rparr>)) \<and>
   \<not> siren_on 0 ((TIM5_IRQHandler ^^ 300) (globals_init\<lparr>RL_A := True, alarmingCnt := (\<lambda>f. 1)\<rparr>))"
  using siren_period [of 0 "globals_init\<lparr>RL_A := True, alarmingCnt := (\<lambda>f. 1)\<rparr>"]
  by (simp add: siren_on_def sounding_def globals_init_def)

text \<open>
  After a start the counter of a siren stands at zero, and an alarm does not sound before the counter
  has reached its limit: a device that alarms at once is silent for the whole delay.
\<close>

theorem siren_late_after_start:
  assumes "f < 2" "\<not> siren_on f d" "alarmingCnt d f = 0" "n \<le> 10 * unat (alarm_delay d f)"
  shows "\<not> siren_on f ((TIM5_IRQHandler ^^ n) d)"
  using siren_run [OF assms(1), of n d] siren_counts [of 0 n "unat (alarm_delay d f)" "sounding f d" False] assms delay_less [of d f]
  by simp

theorem siren_late_after_start_witness:
  "sounding 1 (globals_init\<lparr>ALARM_STATE := 4\<rparr>) \<and>
   \<not> siren_on 1 ((TIM5_IRQHandler ^^ 300) (globals_init\<lparr>ALARM_STATE := 4\<rparr>))"
  using siren_late_after_start [of 1 "globals_init\<lparr>ALARM_STATE := 4\<rparr>" 300]
  by (simp add: siren_on_def sounding_def siren_mask_def globals_init_def)

text \<open>
  With a delay of zero a siren that was switched on does not stop (for the more than six years until its
  counter overflows): the counter is compared for equality with a limit it has already passed.
\<close>

theorem siren_never_stops:
  assumes "f < 2" "siren_on f d" "alarmingCnt d f = 1" "alarm_delay d f = 0" "n < 2 ^ 31 - 1"
  shows "siren_on f ((TIM5_IRQHandler ^^ n) d)"
proof -
  have "(siren al 0 ^^ n) (True, of_nat 1) = (True, of_nat (1 + n))" if "n < 2 ^ 31 - 1" for al n
    using that
  proof (induction n)
    case (Suc n)
    then have "1 + n < 2 ^ 31" by simp
    then have s: "sint (of_nat (1 + n) :: s32) = int (1 + n)" by (rule sint_of_nat_small)
    have "siren al 0 (True, of_nat (1 + n)) = (True, of_nat (1 + n) + 1)"
      unfolding siren_def case_prod_conv s by simp
    moreover have "(siren al 0 ^^ n) (True, of_nat 1) = (True, of_nat (1 + n))" using Suc by simp
    ultimately show ?case by (simp add: ac_simps)
  qed simp
  from this [OF assms(5)] show ?thesis using siren_run [OF assms(1), of n d] assms(2-4) by simp
qed

theorem siren_never_stops_witness:
  "siren_on 0 ((TIM5_IRQHandler ^^ 1000000) (globals_init\<lparr>RL_A := True, alarmingCnt := (\<lambda>f. 1), alarm_delay := (\<lambda>f. 0)\<rparr>))"
  by (rule siren_never_stops) (simp_all add: siren_on_def globals_init_def)

subsection \<open>Requests for tests\<close>

lemma TIM4_calibrate_keeps [simp]:
  "alarmCheckCnt (TIM4_calibrate d) = alarmCheckCnt d"
  "k < 2 \<Longrightarrow> bit (timerHandlerFlag (TIM4_calibrate d)) k = bit (timerHandlerFlag d) k"
  by (simp_all add: TIM4_calibrate_def set_flag_def Let_def)

lemma TIM4_schedule_keeps [simp]:
  "calibrating_flag (TIM4_schedule d) = calibrating_flag d" "adcCalibrateCnt (TIM4_schedule d) = adcCalibrateCnt d"
  "bit (timerHandlerFlag (TIM4_schedule d)) 2 = bit (timerHandlerFlag d) 2"
  by (simp_all add: TIM4_schedule_def set_flag_def Let_def)

lemma of_nat_eq_numeral_s32:
  assumes "n < 2 ^ 31"
  shows "(of_nat n :: s32) = numeral m \<longleftrightarrow> n = unat (numeral m :: s32)" "(of_nat n :: s32) = 0 \<longleftrightarrow> n = 0"
  using assms by (simp_all add: word_unat_eq_iff unat_of_nat)

lemma TIM4_count:
  assumes "alarmCheckCnt d = of_nat c" "c < 50000"
  shows "alarmCheckCnt (TIM4_IRQHandler d) = of_nat (Suc c mod 50000)"
    "bit (timerHandlerFlag (TIM4_IRQHandler d)) 0 = (bit (timerHandlerFlag d) 0 \<or> c = 0)"
    "bit (timerHandlerFlag (TIM4_IRQHandler d)) 1 = (bit (timerHandlerFlag d) 1 \<or> c = 25000)"
proof -
  have c: "(of_nat c :: s32) = 0 \<longleftrightarrow> c = 0" "(of_nat c :: s32) = 25000 \<longleftrightarrow> c = 25000" "(of_nat c :: s32) = 49999 \<longleftrightarrow> c = 49999"
    using assms(2) by (simp_all add: of_nat_eq_numeral_s32)
  show "alarmCheckCnt (TIM4_IRQHandler d) = of_nat (Suc c mod 50000)"
    using assms c by (cases "c = 49999") (simp_all add: TIM4_IRQHandler_def TIM4_schedule_def set_flag_def Let_def)
  show "bit (timerHandlerFlag (TIM4_IRQHandler d)) 0 = (bit (timerHandlerFlag d) 0 \<or> c = 0)"
    "bit (timerHandlerFlag (TIM4_IRQHandler d)) 1 = (bit (timerHandlerFlag d) 1 \<or> c = 25000)"
    using assms c TIM4_calibrate_keeps(2) [of 0 d] TIM4_calibrate_keeps(2) [of 1 d]
    by (auto simp: TIM4_IRQHandler_def TIM4_schedule_def set_flag_def Let_def)
qed

text \<open>
  Each zone is tested once every 50000 interrupts of TIM4, half a second, and the two zones half
  way apart.
\<close>

theorem zone_test_schedule:
  assumes "alarmCheckCnt d = 0"
  shows "alarmCheckCnt ((TIM4_IRQHandler ^^ n) d) = of_nat (n mod 50000) \<and>
    (bit (timerHandlerFlag ((TIM4_IRQHandler ^^ Suc n) d)) 0 =
       (bit (timerHandlerFlag ((TIM4_IRQHandler ^^ n) d)) 0 \<or> n mod 50000 = 0)) \<and>
    (bit (timerHandlerFlag ((TIM4_IRQHandler ^^ Suc n) d)) 1 =
       (bit (timerHandlerFlag ((TIM4_IRQHandler ^^ n) d)) 1 \<or> n mod 50000 = 25000))"
proof -
  have cnt: "alarmCheckCnt ((TIM4_IRQHandler ^^ n) d) = of_nat (n mod 50000)"
  proof (induction n)
    case 0
    show ?case using assms by simp
  next
    case (Suc n)
    have "Suc (n mod 50000) mod 50000 = Suc n mod 50000" by (simp add: mod_Suc_eq)
    then show ?case using TIM4_count(1) [OF Suc] by simp
  qed
  show ?thesis using cnt TIM4_count(2,3) [OF cnt] by simp
qed

theorem zone_test_schedule_witness:
  "bit (timerHandlerFlag ((TIM4_IRQHandler ^^ Suc 25000) globals_init)) 1"
  using zone_test_schedule [of globals_init 25000] by (simp add: globals_init_def)

subsection \<open>Calibration\<close>

text \<open>The mask 80 of the code is decimal, so the test it stands in never fails.\<close>

lemma mask_80: "c AND 80 \<noteq> (0x80 :: u8)"
proof
  assume "c AND 80 = 0x80"
  then have "bit (c AND 80) 7 = bit (0x80 :: u8) 7" by simp
  then show False by (simp add: bit_and_iff)
qed

lemma TIM4_calibration:
  assumes "adcCalibrateCnt d = of_nat c" "c \<le> 500000" "calibrating_flag d \<noteq> 0xFF"
  shows "c < 500000 \<Longrightarrow> calibrating_flag (TIM4_IRQHandler d) = calibrating_flag d"
    "c < 500000 \<Longrightarrow> adcCalibrateCnt (TIM4_IRQHandler d) = of_nat (Suc c)"
    "c < 500000 \<Longrightarrow> bit (timerHandlerFlag (TIM4_IRQHandler d)) 2 = (bit (timerHandlerFlag d) 2 \<or> c mod 500 = 0)"
    "c = 500000 \<Longrightarrow> calibrating_flag (TIM4_IRQHandler d) = calibrating_flag d OR 0x80"
proof -
  have s: "sint (adcCalibrateCnt d) = int c" using assms(1,2) by (simp add: sint_of_nat_small)
  have m: "int c smod 500 = 0 \<longleftrightarrow> c mod 500 = 0"
  proof -
    have "int c smod 500 = int (c mod 500)"
      by (cases "c = 0") (simp_all add: signed_modulo_int_def zmod_int)
    then show ?thesis by (simp only: of_nat_eq_0_iff)
  qed
  have below: "TIM4_calibrate d = (if c mod 500 = 0 then set_flag 2 d else d)\<lparr>adcCalibrateCnt := adcCalibrateCnt d + 1\<rparr>"
    if "c < 500000"
    using that assms(3) mask_80 m unfolding TIM4_calibrate_def Let_def s by (simp add: set_flag_def)
  have at: "calibrating_flag (TIM4_calibrate d) = calibrating_flag d OR 0x80" if "c = 500000"
    using that assms(3) mask_80 unfolding TIM4_calibrate_def Let_def s by simp
  show "c < 500000 \<Longrightarrow> calibrating_flag (TIM4_IRQHandler d) = calibrating_flag d"
    "c < 500000 \<Longrightarrow> adcCalibrateCnt (TIM4_IRQHandler d) = of_nat (Suc c)"
    "c < 500000 \<Longrightarrow> bit (timerHandlerFlag (TIM4_IRQHandler d)) 2 = (bit (timerHandlerFlag d) 2 \<or> c mod 500 = 0)"
    using assms(1) by (auto simp: TIM4_IRQHandler_def below set_flag_def)
  show "c = 500000 \<Longrightarrow> calibrating_flag (TIM4_IRQHandler d) = calibrating_flag d OR 0x80"
    by (simp add: TIM4_IRQHandler_def at)
qed

text \<open>
  A calibration ends after 500001 interrupts of TIM4, five seconds; until then it requests a
  measurement every 500 interrupts, five milliseconds, and is not disturbed.
\<close>

theorem calibration_schedule:
  assumes "adcCalibrateCnt d = 0" "calibrating_flag d \<noteq> 0xFF" "n \<le> 500000"
  shows "calibrating_flag ((TIM4_IRQHandler ^^ n) d) = calibrating_flag d \<and>
    (n < 500000 \<longrightarrow> bit (timerHandlerFlag ((TIM4_IRQHandler ^^ Suc n) d)) 2 =
       (bit (timerHandlerFlag ((TIM4_IRQHandler ^^ n) d)) 2 \<or> n mod 500 = 0)) \<and>
    calibrating_flag ((TIM4_IRQHandler ^^ 500001) d) = calibrating_flag d OR 0x80"
proof -
  have run: "calibrating_flag ((TIM4_IRQHandler ^^ n) d) = calibrating_flag d \<and>
      adcCalibrateCnt ((TIM4_IRQHandler ^^ n) d) = of_nat n" if "n \<le> 500000" for n
    using that
  proof (induction n)
    case 0
    show ?case using assms(1) by simp
  next
    case (Suc n)
    then have IH: "calibrating_flag ((TIM4_IRQHandler ^^ n) d) = calibrating_flag d"
      "adcCalibrateCnt ((TIM4_IRQHandler ^^ n) d) = of_nat n" by simp_all
    with Suc.prems TIM4_calibration(1,2) [OF IH(2)] assms(2) show ?case by simp
  qed
  have "(500001 :: nat) = Suc 500000" by simp
  then have "(TIM4_IRQHandler ^^ 500001) d = TIM4_IRQHandler ((TIM4_IRQHandler ^^ 500000) d)"
    by (simp only: funpow.simps comp_apply)
  then have "calibrating_flag ((TIM4_IRQHandler ^^ 500001) d) = calibrating_flag d OR 0x80"
    using run [of 500000] TIM4_calibration(4) [of "(TIM4_IRQHandler ^^ 500000) d" 500000] assms(2) by simp
  moreover note run [OF assms(3)]
  moreover have "n < 500000 \<longrightarrow> bit (timerHandlerFlag ((TIM4_IRQHandler ^^ Suc n) d)) 2 =
       (bit (timerHandlerFlag ((TIM4_IRQHandler ^^ n) d)) 2 \<or> n mod 500 = 0)"
    using run [OF assms(3)] TIM4_calibration(3) [of "(TIM4_IRQHandler ^^ n) d" n] assms(2,3) by simp
  ultimately show ?thesis by blast
qed

theorem calibration_schedule_witness:
  "calibrating_flag ((TIM4_IRQHandler ^^ 500001) (updateBaseVal 1 globals_init)) = 0x91"
  using calibration_schedule [of "updateBaseVal 1 globals_init" 0] by (simp add: updateBaseVal_def globals_init_def)

end
