(* ===== verification/CalibSpec.thy ===== *)
theory CalibSpec
  imports AlarmSteps
begin

text \<open>
  What a calibration of \<^verbatim>\<open>adc.c\<close> does, and when \<^verbatim>\<open>timer.c\<close> starts one by itself.
\<close>

subsection \<open>Collecting samples\<close>

definition base_calibration :: "nat \<Rightarrow> dev \<Rightarrow> bool" where
  "base_calibration f d \<longleftrightarrow> calibrating_flag d = 0x10 OR of_nat f"

lemma calibration_field:
  assumes "f < 2" "base_calibration f d"
  shows "calibrating_flag d \<noteq> 0xFF" "unat (calibrating_flag d AND 1) = f" "calibrating_flag d AND 0x80 \<noteq> 0x80"
    "unat ((calibrating_flag d OR 0x80) AND 1) = f" "(calibrating_flag d OR 0x80) AND 0x80 = 0x80"
    "(calibrating_flag d OR 0x80) AND 0x10 = 0x10" "calibrating_flag d OR 0x80 \<noteq> 0xFF"
  using assms zones [OF assms(1)] by (auto simp: base_calibration_def)

text \<open>The state of a calibration after \<open>n\<close> samples of inputs at rest.\<close>

definition sampled :: "(u8 \<times> bool \<times> bool \<Rightarrow> u16) \<Rightarrow> nat \<Rightarrow> dev \<Rightarrow> nat \<Rightarrow> dev \<Rightarrow> bool" where
  "sampled v f d n e \<longleftrightarrow> same_gauge d e \<and> calibrate_adc_cnt e = of_nat n \<and>
     (\<forall>i<line_count d. calibrate_temp_val e i = of_nat n * scast (of_int (level v f d i) :: s16))"

lemma calibrating_sample:
  assumes "f < 2" "base_calibration f d" "sampled v f d n e" "steady v (20 * line_count d + k) e"
  shows "sampled v f d (Suc n) (calibrating e)" "steady v k (calibrating e)"
proof -
  let ?s = "sampleAdc_run f 20 e"
  have g: "same_gauge d e" using assms(3) by (simp add: sampled_def)
  then have e: "base_calibration f e" "line_count e = line_count d" "level v f e = level v f d"
    using assms(2) by (auto simp: base_calibration_def same_gauge_def line_count_def level_def)
  have c: "calibrating e = ?s\<lparr>calibrate_temp_val := (\<lambda>i. if i < line_count ?s
       then calibrate_temp_val ?s i + scast (crt_smp ?s f i) else calibrate_temp_val ?s i),
     calibrate_adc_cnt := calibrate_adc_cnt ?s + 1\<rparr>"
    using calibration_field(1-3) [OF assms(1) e(1)] by (simp add: calibrating_def Let_def)
  have st: "steady v (20 * line_count e + k) e" using assms(4) e(2) by simp
  note smp = sampleAdc_run_steady [OF st assms(1)]
  have lc: "line_count ?s = line_count d" using e(2) by (simp add: line_count_def)
  have "steady v k (calibrating e) = steady v k ?s" unfolding c by (rule steady_cong) simp_all
  then show "steady v k (calibrating e)" using smp(2) by simp
  have "same_gauge d (calibrating e)" using g by (simp add: same_gauge_def c)
  moreover have "calibrate_adc_cnt (calibrating e) = of_nat (Suc n)" using assms(3) by (simp add: c sampled_def)
  moreover have "calibrate_temp_val (calibrating e) i = of_nat (Suc n) * scast (of_int (level v f d i) :: s16)"
    if "i < line_count d" for i
    using assms(3) that smp(1) [of i] lc e by (simp add: c sampled_def algebra_simps)
  ultimately show "sampled v f d (Suc n) (calibrating e)" by (simp add: sampled_def)
qed

lemma calibrating_samples:
  assumes "f < 2" "base_calibration f d" "sampled v f d 0 d" "steady v (n * (20 * line_count d) + k) d"
  shows "sampled v f d n ((calibrating ^^ n) d) \<and> steady v k ((calibrating ^^ n) d)"
  using assms(4)
proof (induction n arbitrary: k)
  case 0
  then show ?case using assms(3) by simp
next
  case (Suc n)
  from Suc.IH [of "20 * line_count d + k"] Suc.prems
  have "sampled v f d n ((calibrating ^^ n) d)" "steady v (20 * line_count d + k) ((calibrating ^^ n) d)"
    by (simp_all add: algebra_simps)
  then show ?case using calibrating_sample [OF assms(1,2)] by simp
qed

subsection \<open>The mean\<close>

lemma mean_of_equal:
  fixes w :: s16
  assumes "0 < n" "n < 65536" "calibrate_temp_val e i = of_nat n * scast w" "calibrate_adc_cnt e = of_nat n"
  shows "mean_of e i = sint w"
proof -
  have w: "- 32768 \<le> sint w" "sint w < 32768"
    using sint_ge [of w] sint_lt [of w] by simp_all
  have n: "uint (of_nat n :: u16) = int n" using assms(2) by (simp add: unsigned_of_nat take_bit_nat_eq_self)
  have lo: "- (2 ^ 31) \<le> int n * sint w"
  proof -
    have "int n * (- 32768) \<le> int n * sint w" using w(1) by (intro mult_left_mono) simp_all
    moreover have "- (2 ^ 31) \<le> int n * (- 32768)" using assms(2) by simp
    ultimately show ?thesis by linarith
  qed
  have hi: "int n * sint w < 2 ^ 31"
  proof -
    have "int n * sint w \<le> int n * 32767" using w(2) by (intro mult_left_mono) simp_all
    moreover have "int n * 32767 < 2 ^ 31" using assms(2) by simp
    ultimately show ?thesis by linarith
  qed
  have "sint (of_int (int n * sint w) :: s32) = int n * sint w"
    using lo hi by (simp only: sint_sbintrunc') (simp add: signed_take_bit_int_eq_self_iff)
  moreover have "(of_nat n * scast w :: s32) = of_int (int n * sint w)" by simp
  ultimately have "sint (of_nat n * scast w :: s32) = int n * sint w" by (simp only:)
  then have "mean_of e i = int n * sint w sdiv int n" using assms(3,4) n by (simp add: mean_of_def)
  also have "\<dots> = sint w" using assms(1) by (simp add: signed_divide_int_def abs_mult sgn_mult mult_sgn_abs)
  finally show ?thesis .
qed

subsection \<open>The end of a calibration\<close>

definition finish :: "dev \<Rightarrow> dev" where
  "finish e = calibrating (e\<lparr>calibrating_flag := calibrating_flag e OR 0x80\<rparr>)"

lemma finish_base:
  assumes "f < 2" "base_calibration f e"
  shows "finish e = (calibrate_base f (e\<lparr>calibrating_flag := calibrating_flag e OR 0x80\<rparr>))
     \<lparr>calibrate_adc_cnt := 0, calibrate_temp_val := (\<lambda>i. if i < 6 then 0 else calibrate_temp_val
        (calibrate_base f (e\<lparr>calibrating_flag := calibrating_flag e OR 0x80\<rparr>)) i), calibrating_flag := 0xFF\<rparr>"
  using calibration_field [OF assms] by (simp add: finish_def calibrating_def Let_def)

text \<open>The group of zone \<open>f\<close>'s base values in the EEPROM.\<close>

definition base_group :: "nat \<Rightarrow> nv_group" where
  "base_group f = (if f = 0 then NvBaseA else NvBaseB)"

lemma calibrate_base_saves:
  assumes "f < 2"
  shows "calibrate_base f d = nv_save (base_group f) (d\<lparr>base_val := (base_val d)(f := (\<lambda>i.
    if i < line_count d then clip0 (of_int (mean_of d i - sint (zero_val d f i))) else base_val d f i))\<rparr>)"
  using zones [OF assms] by (elim disjE; hypsubst) (simp_all add: calibrate_base_def base_group_def cong: if_cong)

lemma nv_save_only_mem: "nv_save g d = d\<lparr>eemem := eemem (nv_save g d)\<rparr>"
  by (rule nv.save_only_mem)

lemma finish_values:
  assumes "f < 2" "base_calibration f e"
  shows "base_val (finish e) f i = (if i < line_count e then clip0 (of_int (mean_of e i - sint (zero_val e f i))) else base_val e f i)"
    "calibrating_flag (finish e) = 0xFF" "W4_W6 (finish e) = W4_W6 e" "zero_val (finish e) = zero_val e"
    "tension_max_range (finish e) = tension_max_range e" "alarm_threshold_up_dif (finish e) = alarm_threshold_up_dif e"
    "alarm_threshold_down_dif (finish e) = alarm_threshold_down_dif e"
    "nv.stored (base_group f) (finish e) = nv_image (base_group f) (finish e)"
proof -
  let ?e = "e\<lparr>calibrating_flag := calibrating_flag e OR 0x80\<rparr>"
  have m: "mean_of ?e i = mean_of e i" for i by (simp add: mean_of_def)
  let ?b = "?e\<lparr>base_val := (base_val e)(f := (\<lambda>i.
    if i < line_count e then clip0 (of_int (mean_of e i - sint (zero_val e f i))) else base_val e f i))\<rparr>"
  have b: "calibrate_base f ?e = nv_save (base_group f) ?b"
    unfolding calibrate_base_saves [OF assms(1)] m by (simp add: line_count_def cong: if_cong)
  have only: "\<exists>mem. calibrate_base f ?e = ?b\<lparr>eemem := mem\<rparr>" unfolding b by (rule exI, rule nv_save_only_mem)
  then show "base_val (finish e) f i = (if i < line_count e then clip0 (of_int (mean_of e i - sint (zero_val e f i))) else base_val e f i)"
    "calibrating_flag (finish e) = 0xFF" "W4_W6 (finish e) = W4_W6 e" "zero_val (finish e) = zero_val e"
    "tension_max_range (finish e) = tension_max_range e" "alarm_threshold_up_dif (finish e) = alarm_threshold_up_dif e"
    "alarm_threshold_down_dif (finish e) = alarm_threshold_down_dif e"
    unfolding finish_base [OF assms] by auto
  have i: "nv_image (base_group f) (d\<lparr>calibrate_adc_cnt := x, calibrate_temp_val := y, calibrating_flag := z\<rparr>) =
      nv_image (base_group f) d" for d x y z
    by (simp add: base_group_def)
  have "nv.stored (base_group f) (finish e) = nv.stored (base_group f) (nv_save (base_group f) ?b)"
    unfolding finish_base [OF assms] b by (rule stored_eemem) simp
  also have "\<dots> = nv_image (base_group f) (finish e)"
    unfolding finish_base [OF assms] b i by (simp add: nv.stored_save_same nv.image_save)
  finally show "nv.stored (base_group f) (finish e) = nv_image (base_group f) (finish e)" .
qed

text \<open>
  C16: A calibration of a zone's base values from any number of samples of inputs at rest sets the base value of
  each wire to its reading, saves it, and ends; with the inputs where they were the zone is then neither too
  tight nor too slack.
\<close>

theorem calibration_makes_quiet:
  assumes "f < 2" "calibrating_flag d = 0x10 OR of_nat f" "calibrate_adc_cnt d = 0" "calibrate_temp_val d = (\<lambda>i. 0)"
    "0 < n" "n < 65536" "steady v (n * (20 * line_count d)) d"
  shows "(\<forall>i<line_count d. base_val (finish ((calibrating ^^ n) d)) f i = clip0 (of_int (level v f d i) - zero_val d f i)) \<and>
    nv.stored (base_group f) (finish ((calibrating ^^ n) d)) = nv_image (base_group f) (finish ((calibrating ^^ n) d)) \<and>
    calibrating_flag (finish ((calibrating ^^ n) d)) = 0xFF \<and>
    \<not> too_tight v f (finish ((calibrating ^^ n) d)) \<and> \<not> too_slack v f (finish ((calibrating ^^ n) d))"
proof -
  let ?e = "(calibrating ^^ n) d" and ?f = "finish ((calibrating ^^ n) d)"
  have b: "base_calibration f d" using assms(2) by (simp add: base_calibration_def)
  have "sampled v f d 0 d" using assms(3,4) by (simp add: sampled_def same_gauge_def)
  then have s: "sampled v f d n ?e"
    using calibrating_samples [OF assms(1) b, of v n 0] assms(7) by simp
  then have g: "same_gauge d ?e" by (simp add: sampled_def)
  then have be: "base_calibration f ?e" using assms(2) by (simp add: base_calibration_def same_gauge_def)
  note fin = finish_values [OF assms(1) be]
  have lc: "line_count ?e = line_count d" "line_count ?f = line_count d" "level v f ?f = level v f d"
    using g fin(3,5) by (auto simp: same_gauge_def line_count_def level_def)
  have mean: "mean_of ?e i = sint (of_int (level v f d i) :: s16)" if "i < line_count d" for i
    using that s assms(5,6) by (intro mean_of_equal) (simp_all add: sampled_def)
  have base: "base_val ?f f i = clip0 (of_int (level v f d i) - zero_val d f i)" if "i < line_count d" for i
    using that fin(1) [of i] lc mean [OF that] g by (simp add: same_gauge_def)
  have "rest_reading v f ?f i = base_val ?f f i" if "i < line_count d" for i
    using base [OF that] fin(4) g lc by (simp add: rest_reading_def same_gauge_def)
  then have "\<not> too_tight v f ?f \<and> \<not> too_slack v f ?f"
    using lc by (auto simp: too_tight_def too_slack_def)
  with base fin(2,8) show ?thesis by blast
qed

theorem calibration_makes_quiet_witness:
  fixes d
  defines "d \<equiv> globals_init\<lparr>init_done := 1, tension_max_range := 200, calibrating_flag := 0x11, adc_src := (\<lambda>n ch c. 2048)\<rparr>"
  shows "base_val (finish ((calibrating ^^ 1000) d)) 1 3 = 100"
proof -
  have "steady (\<lambda>x. 2048) (1000 * (20 * line_count d)) d" by (simp add: steady_def d_def globals_init_def)
  then have "\<forall>i<line_count d. base_val (finish ((calibrating ^^ 1000) d)) 1 i =
      clip0 (of_int (level (\<lambda>x. 2048) 1 d i) - zero_val d 1 i)"
    using calibration_makes_quiet [of 1 d 1000 "\<lambda>x. 2048"] by (simp add: d_def globals_init_def)
  then show ?thesis by (simp add: d_def line_count_def level_def globals_init_def clip0_def)
qed

subsection \<open>Automatic calibration\<close>

lemma zone_alarm_bits:
  "st AND 0x0103 = 0 \<longleftrightarrow> \<not> bit st (INVD_MASK 0) \<and> \<not> bit st (OPN_MASK 0) \<and> \<not> bit (st :: u16) (RLX_MASK 0)"
  "st AND 0x020C = 0 \<longleftrightarrow> \<not> bit st (INVD_MASK 1) \<and> \<not> bit st (OPN_MASK 1) \<and> \<not> bit st (RLX_MASK 1)"
proof -
  have and0: "st AND m = 0 \<longleftrightarrow> (\<forall>n<16. bit m n \<longrightarrow> \<not> bit st n)" for m :: u16
  proof
    assume "st AND m = 0"
    then have "bit (st AND m) n = bit 0 n" for n by simp
    then show "\<forall>n<16. bit m n \<longrightarrow> \<not> bit st n" by (auto simp: bit_and_iff)
  next
    assume "\<forall>n<16. bit m n \<longrightarrow> \<not> bit st n"
    then show "st AND m = 0" by (intro bit_word_eqI) (auto simp: bit_and_iff)
  qed
  have a: "bit (0x0103 :: u16) n \<longleftrightarrow> n = 0 \<or> n = 1 \<or> n = 8" if "n < 16" for n
    using that by (auto simp: eval_nat_numeral less_Suc_eq)
  have b: "bit (0x020C :: u16) n \<longleftrightarrow> n = 2 \<or> n = 3 \<or> n = 9" if "n < 16" for n
    using that by (auto simp: eval_nat_numeral less_Suc_eq)
  have lt: "(0 :: nat) < 16" "(1 :: nat) < 16" "(2 :: nat) < 16" "(3 :: nat) < 16" "(8 :: nat) < 16" "(9 :: nat) < 16" by simp_all
  have a': "(\<forall>n<16. bit (0x0103 :: u16) n \<longrightarrow> \<not> bit st n) \<longleftrightarrow> \<not> bit st 0 \<and> \<not> bit st 1 \<and> \<not> bit st 8" using a lt by blast
  have b': "(\<forall>n<16. bit (0x020C :: u16) n \<longrightarrow> \<not> bit st n) \<longleftrightarrow> \<not> bit st 2 \<and> \<not> bit st 3 \<and> \<not> bit st 9" using b lt by blast
  show "st AND 0x0103 = 0 \<longleftrightarrow> \<not> bit st (INVD_MASK 0) \<and> \<not> bit st (OPN_MASK 0) \<and> \<not> bit st (RLX_MASK 0)"
    unfolding and0 a' by (simp add: INVD_MASK_def OPN_MASK_def RLX_MASK_def)
  show "st AND 0x020C = 0 \<longleftrightarrow> \<not> bit st (INVD_MASK 1) \<and> \<not> bit st (OPN_MASK 1) \<and> \<not> bit st (RLX_MASK 1)"
    unfolding and0 b' by (simp add: INVD_MASK_def OPN_MASK_def RLX_MASK_def)
qed

definition quiet :: "nat \<Rightarrow> dev \<Rightarrow> bool" where
  "quiet f d \<longleftrightarrow> \<not> bit (ALARM_STATE d) (INVD_MASK f) \<and> \<not> bit (ALARM_STATE d) (OPN_MASK f) \<and> \<not> bit (ALARM_STATE d) (RLX_MASK f)"

lemma TIM3_auto_starts:
  assumes "i < 2" "calibrating_flag (TIM3_auto i d) \<noteq> calibrating_flag d"
  shows "calibrating_flag d = 0xFF \<and> calibrating_flag (TIM3_auto i d) = 0x10 OR of_nat i \<and> armed i d \<and> quiet i d"
  using assms zones [OF assms(1)] zone_alarm_bits [of "ALARM_STATE d"]
  by (auto simp: TIM3_auto_def set_auto_cnt_def updateBaseVal_def armed_def quiet_def Let_def split: if_splits)

lemma TIM3_auto_alarm [simp]:
  "ALARM_STATE (TIM3_auto i d) = ALARM_STATE d" "BU_FANG_A_FLAG (TIM3_auto i d) = BU_FANG_A_FLAG d"
  "BU_FANG_B_FLAG (TIM3_auto i d) = BU_FANG_B_FLAG d"
  by (simp_all add: TIM3_auto_def set_auto_cnt_def updateBaseVal_def Let_def)

lemma TIM3_second_shape:
  "\<exists>q. unticked q = unticked p \<and> calibrating_flag q = calibrating_flag p \<and>
    calibrating_flag (TIM3_second p) =
      (if base_auto_calibrate_time p > 0 then calibrating_flag (TIM3_auto 1 (TIM3_auto 0 q)) else calibrating_flag p)"
proof -
  define f where "f = set_flag 5 (set_flag 6 (p\<lparr>rtcTimeCnt := 0\<rparr>))"
  define q where "q = TIM3_relax 1 (TIM3_relax 0 (f\<lparr>FCAlmVerifyCnt := count_to (3 + 1) (FCAlmVerifyCnt f)\<rparr>))"
  have u: "unticked q = unticked p" by (simp add: q_def f_def unticked_parts)
  have c: "calibrating_flag q = calibrating_flag p" by (simp add: q_def f_def TIM3_relax_def set_flag_def)
  have "calibrating_flag (TIM3_second p) =
      (if base_auto_calibrate_time q > 0 then calibrating_flag (TIM3_auto 1 (TIM3_auto 0 q)) else calibrating_flag q)"
    unfolding TIM3_second_def Let_def f_def [symmetric] q_def [symmetric] by (simp add: set_auto_cnt_def)
  then show ?thesis using u c unticked_fields [OF u] by (intro exI [of _ q]) simp
qed

lemma TIM3_shape:
  "\<exists>p. unticked p = unticked d \<and> calibrating_flag p = calibrating_flag d \<and>
    (TIM3_IRQHandler d = p \<or> TIM3_IRQHandler d = TIM3_second p)"
proof -
  define a where "a = d\<lparr>LED_RUN := (if remote_shutdown d \<noteq> 0 then False else \<not> LED_RUN d),
    run_screen_refresh := run_screen_refresh d + 1, lm75TempCnt := lm75TempCnt d + 1\<rparr>"
  define b where "b = (if lm75TempCnt a = 10 then set_flag 7 (a\<lparr>lm75TempCnt := 0\<rparr>) else a)"
  define c where "c = TIM3_verify 1 (TIM3_verify 0 b)"
  define p where "p = c\<lparr>rtcTimeCnt := rtcTimeCnt c + 1\<rparr>"
  have "unticked p = unticked d" by (simp add: p_def c_def b_def a_def unticked_parts)
  moreover have "calibrating_flag p = calibrating_flag d"
    by (simp add: p_def c_def b_def a_def TIM3_verify_def set_flag_def)
  moreover have "TIM3_IRQHandler d = (if rtcTimeCnt p = 2 then TIM3_second p else p)"
    unfolding TIM3_IRQHandler_def Let_def p_def c_def b_def a_def ..
  ultimately show ?thesis by (cases "rtcTimeCnt p = 2") auto
qed

text \<open>
  C17: The timer starts a calibration only when none is running, and only of a zone that is armed and has no
  alarm; it never starts one when the automatic calibration is switched off.
\<close>

theorem auto_calibration_safe:
  assumes "calibrating_flag (TIM3_IRQHandler d) \<noteq> calibrating_flag d"
  shows "calibrating_flag d = 0xFF \<and> base_auto_calibrate_time d \<noteq> 0 \<and>
    (\<exists>f<2. calibrating_flag (TIM3_IRQHandler d) = 0x10 OR of_nat f \<and> armed f d \<and> quiet f d)"
proof -
  from TIM3_shape [of d] obtain p where p: "unticked p = unticked d" "calibrating_flag p = calibrating_flag d"
    "TIM3_IRQHandler d = p \<or> TIM3_IRQHandler d = TIM3_second p" by blast
  then have s: "calibrating_flag (TIM3_second p) \<noteq> calibrating_flag p" "TIM3_IRQHandler d = TIM3_second p"
    using assms by auto
  from TIM3_second_shape [of p] obtain q where q: "unticked q = unticked p" "calibrating_flag q = calibrating_flag p"
    "calibrating_flag (TIM3_second p) =
       (if base_auto_calibrate_time p > 0 then calibrating_flag (TIM3_auto 1 (TIM3_auto 0 q)) else calibrating_flag p)" by blast
  have z: "armed f q = armed f d" "quiet f q = quiet f d" for f
    using unticked_fields [OF q(1)] unticked_fields [OF p(1)] by (simp_all add: armed_def quiet_def)
  have t: "base_auto_calibrate_time p = base_auto_calibrate_time d" using unticked_fields [OF p(1)] by simp
  have z0: "armed f (TIM3_auto 0 q) = armed f q" "quiet f (TIM3_auto 0 q) = quiet f q" for f
    by (simp_all add: armed_def quiet_def)
  have auto: "base_auto_calibrate_time p > 0" "calibrating_flag (TIM3_auto 1 (TIM3_auto 0 q)) \<noteq> calibrating_flag q"
    using s(1) q(2,3) by (auto split: if_splits)
  show ?thesis
  proof (cases "calibrating_flag (TIM3_auto 0 q) = calibrating_flag q")
    case True
    with auto(2) TIM3_auto_starts [of 1 "TIM3_auto 0 q"] have "calibrating_flag q = 0xFF"
      "calibrating_flag (TIM3_auto 1 (TIM3_auto 0 q)) = 0x10 OR of_nat 1" "armed 1 q" "quiet 1 q" by (simp_all add: z0)
    with auto(1) s q p t z show ?thesis by (auto intro!: exI [of _ 1])
  next
    case False
    with TIM3_auto_starts [of 0 q] have c: "calibrating_flag q = 0xFF"
      "calibrating_flag (TIM3_auto 0 q) = 0x10 OR of_nat 0" "armed 0 q" "quiet 0 q" by simp_all
    then have "calibrating_flag (TIM3_auto 0 q) \<noteq> 0xFF" by simp
    then have "calibrating_flag (TIM3_auto 1 (TIM3_auto 0 q)) = calibrating_flag (TIM3_auto 0 q)"
      using TIM3_auto_starts [of 1 "TIM3_auto 0 q"] by auto
    with c auto(1) s q p t z show ?thesis by (auto intro!: exI [of _ 0])
  qed
qed

theorem auto_calibration_safe_witness:
  "calibrating_flag (TIM3_IRQHandler (globals_init\<lparr>rtcTimeCnt := 1, base_auto_calibrate_time := 1, BU_FANG_B_FLAG := ON\<rparr>)) = 0x11"
proof -
  let ?d = "globals_init\<lparr>rtcTimeCnt := 1, base_auto_calibrate_time := 1, BU_FANG_B_FLAG := ON\<rparr>"
  have "calibrating_flag (TIM3_IRQHandler ?d) \<noteq> calibrating_flag ?d"
    by (simp add: TIM3_IRQHandler_def TIM3_verify_def TIM3_second_def TIM3_relax_def TIM3_auto_def set_flag_def
        set_auto_cnt_def updateBaseVal_def globals_init_def Let_def)
  from auto_calibration_safe [OF this] show ?thesis by (auto simp: armed_def globals_init_def)
qed

end
