(* ===== verification/ServerSpec.thy ===== *)
theory ServerSpec
  imports Frames WriteFrame
begin

text \<open>
  The contract of the control protocol of \<^verbatim>\<open>tcp_server.c\<close>: which messages are accepted, the form of the
  replies, what a message can change, and how parameters that were set are reported.
\<close>

subsection \<open>Accepting a message\<close>

text \<open>A message is accepted in whole; the buffer is the message and zeros.\<close>

definition padded :: "u8 list \<Rightarrow> u8 list" where
  "padded msg = msg @ replicate (RX_BUFSIZE - length msg) 0"

lemma overlay_padded:
  assumes "length msg + length q \<le> RX_BUFSIZE"
  shows "overlay (length msg) q (padded msg) = padded (msg @ q)"
  using assms by (simp add: overlay_def padded_def)

lemma copy_pbufs_fits:
  assumes "length msg + length (concat chain) \<le> RX_BUFSIZE"
  shows "copy_pbufs chain (length msg) (padded msg) = (padded (msg @ concat chain), length msg + length (concat chain))"
  using assms
proof (induction chain arbitrary: msg)
  case (Cons q chain)
  have "\<not> length q > RX_BUFSIZE - length msg" using Cons.prems by simp
  moreover have "overlay (length msg) q (padded msg) = padded (msg @ q)"
    using Cons.prems by (intro overlay_padded) simp
  moreover have "copy_pbufs chain (length (msg @ q)) (padded (msg @ q)) =
      (padded ((msg @ q) @ concat chain), length (msg @ q) + length (concat chain))"
    using Cons.prems by (intro Cons.IH) simp
  ultimately show ?case using Cons.prems by (simp add: Let_def)
qed simp

lemma copy_pbufs_overflow:
  assumes "n + length (concat chain) > RX_BUFSIZE" "n \<le> RX_BUFSIZE" "\<forall>q\<in>set chain. length q < 65536"
  shows "RX_BUFSIZE < snd (copy_pbufs chain n buf) \<and> snd (copy_pbufs chain n buf) < 2 ^ 17"
  using assms
proof (induction chain arbitrary: n buf)
  case (Cons q chain)
  show ?case
  proof (cases "n + length q > RX_BUFSIZE")
    case True
    moreover have "n + length q < 2 ^ 17" using Cons.prems(2,3) by simp
    ultimately show ?thesis by (simp add: Let_def)
  next
    case False
    with Cons.prems have "RX_BUFSIZE < snd (copy_pbufs chain (n + length q) b) \<and>
        snd (copy_pbufs chain (n + length q) b) < 2 ^ 17" for b
      by (intro Cons.IH) simp_all
    with False show ?thesis by (simp add: Let_def)
  qed
qed simp

definition accepted :: "u8 list \<Rightarrow> bool" where
  "accepted msg \<longleftrightarrow> 2 \<le> length msg \<and> msg ! 0 = MSG_HEAD \<and> length msg = unat (msg ! 1) + 2 \<and>
     (padded msg ! 4 = MSG_TYPE_SEARCH_DEVICE \<or> padded msg ! 3 = DEVICE_TYPE_TENSION)"

lemma length_byte:
  assumes "n < 2 ^ 17"
  shows "(ucast (b :: u8) :: u32) = of_nat n - 2 \<longleftrightarrow> n = unat b + 2"
proof
  assume "(ucast b :: u32) = of_nat n - 2"
  then have e: "(of_nat n :: u32) = ucast b + 2" by simp
  have "unat b < 256" using unsigned_less [of b] by simp
  then have "unat (ucast b + 2 :: u32) = unat b + 2" by (simp add: unat_word_ariths unsigned_ucast_eq take_bit_nat_eq_self)
  moreover have "unat (of_nat n :: u32) = n" using assms by (simp add: unsigned_of_nat take_bit_nat_eq_self)
  ultimately show "n = unat b + 2" using e by simp
qed (simp add: unat_of_nat)

text \<open>
  C18: A message is accepted exactly when its first byte is the head, its second byte is its length less two, and it
  is a search or for this type of device; whatever pieces it arrives in, the buffer then holds it in whole,
  and anything else, longer than the buffer or shorter than two bytes included, is answered by one error frame.
\<close>

theorem message_accepted:
  assumes "\<forall>q\<in>set chain. length q < 65536"
  shows "if accepted (concat chain) then tcp_recv_data ERR_OK chain buf0 = (padded (concat chain), [], ERR_OK)
     else \<exists>buf. tcp_recv_data ERR_OK chain buf0 = (buf, [tcp_send_err (buf ! 2) (buf ! 4)], RESULT_ERROR)"
proof -
  have start: "replicate RX_BUFSIZE 0 = padded []" by (simp add: padded_def)
  obtain b n where c: "copy_pbufs chain 0 (replicate RX_BUFSIZE 0) = (b, n)" by fastforce
  show ?thesis
  proof (cases "length (concat chain) \<le> RX_BUFSIZE")
    case True
    then have bn: "b = padded (concat chain)" "n = length (concat chain)"
      using c copy_pbufs_fits [of "[]" chain] by (simp_all add: padded_def)
    have "n < 2 ^ 17" using bn True by simp
    note len = length_byte [OF this]
    define msg where "msg = concat chain"
    have "padded msg ! 0 = MSG_HEAD \<and> length msg = unat (padded msg ! 1) + 2 \<and>
          (padded msg ! 4 = MSG_TYPE_SEARCH_DEVICE \<or> padded msg ! 3 = DEVICE_TYPE_TENSION) \<longleftrightarrow> accepted msg"
    proof (cases "2 \<le> length msg")
      case True
      then have "padded msg ! 0 = msg ! 0" "padded msg ! 1 = msg ! 1" by (auto simp: padded_def nth_append)
      with True show ?thesis by (simp add: accepted_def)
    next
      case False
      then consider "msg = []" | x where "msg = [x]" by (cases msg; cases "tl msg") auto
      then show ?thesis by cases (auto simp: padded_def accepted_def)
    qed
    then have "b ! 0 = MSG_HEAD \<and> (ucast (b ! 1) :: u32) = of_nat n - 2 \<and> (b ! 4 = MSG_TYPE_SEARCH_DEVICE \<or> b ! 3 = DEVICE_TYPE_TENSION)
        \<longleftrightarrow> accepted (concat chain)"
      unfolding len by (simp only: bn msg_def)
    then show ?thesis using c bn by (auto simp: tcp_recv_data_def)
  next
    case False
    then have n: "RX_BUFSIZE < n" "n < 2 ^ 17" using copy_pbufs_overflow [of 0 chain "replicate RX_BUFSIZE 0"] assms c by auto
    have "unat w < 256" for w :: u8 using unsigned_less [of w] by simp
    from this [of "b ! 1"] n(1) have "n \<noteq> unat (b ! 1) + 2" by linarith
    then have "(ucast (b ! 1) :: u32) \<noteq> of_nat n - 2" using length_byte [OF n(2)] by blast
    moreover have "\<not> accepted (concat chain)"
    proof
      assume "accepted (concat chain)"
      then have "length (concat chain) = unat (concat chain ! 1) + 2" by (simp add: accepted_def)
      with \<open>unat (concat chain ! 1) < 256\<close> False show False by simp
    qed
    ultimately show ?thesis using c by (simp add: tcp_recv_data_def)
  qed
qed

theorem message_accepted_witness:
  "tcp_recv_data ERR_OK [[0x94, 3], [7, 1, 6]] [] = (padded [0x94, 3, 7, 1, 6], [], ERR_OK)"
  using message_accepted [of "[[0x94, 3], [7, 1, 6]]" "[]"] by (simp add: accepted_def padded_def)

subsection \<open>Replies\<close>

definition frame_ok :: "u8 list \<Rightarrow> bool" where
  "frame_ok f \<longleftrightarrow> 6 \<le> length f \<and> length f \<le> 22 \<and> f ! 0 = MSG_HEAD \<and> unat (f ! 1) + 2 = length f \<and> f ! 3 = DEVICE_TYPE_TENSION"

lemma frame_ok_frame: "length payload \<le> 16 \<Longrightarrow> frame_ok (frame fld t r payload)"
  by (simp add: frame_ok_def frame_def Let_def unat_word_ariths unat_of_nat)

lemma reply_frames_ok: "frame_ok (tcp_send_err fld t)" "frame_ok (tcp_send_data d fld t)"
  by (simp_all add: tcp_send_err_def tcp_send_data_def frame_ok_frame status_payload_def)

text \<open>
  C19: Every message is answered by at most one frame, and every frame has the head, the type of the device, at most
  22 bytes and the right length byte; a message for an unknown zone is answered by an error frame that repeats its
  zone and its type, and, like a search and both queries, changes nothing in the device.
\<close>

theorem replies_well_formed:
  "(\<forall>f\<in>set (fst (snd (parse_reply_data wr buf d))). frame_ok f) \<and> length (fst (snd (parse_reply_data wr buf d))) \<le> 1 \<and>
   (\<forall>f\<in>set (fst (snd (tcp_recv_data recv_err chain buf0))). frame_ok f) \<and>
   (buf ! 0 = MSG_HEAD \<and> buf ! 4 \<noteq> MSG_TYPE_SEARCH_DEVICE \<and> buf ! 2 \<noteq> field_num d 0 \<and> buf ! 2 \<noteq> field_num d 1 \<longrightarrow>
      fst (parse_reply_data wr buf d) = d \<and>
      fst (snd (parse_reply_data wr buf d)) = [[MSG_HEAD, 4, buf ! 2, DEVICE_TYPE_TENSION, buf ! 4, RESULT_ERROR]]) \<and>
   (buf ! 4 \<notin> {MSG_TYPE_SET_BUFANG, MSG_TYPE_ALARM_RESET, MSG_TYPE_SET_PARAS} \<longrightarrow> fst (parse_reply_data wr buf d) = d)"
  by (auto simp: parse_reply_data_def tcp_recv_data_def Let_def reply_frames_ok case_prod_beta)
     (simp_all add: tcp_send_err_def frame_def)

theorem replies_well_formed_witness:
  "fst (parse_reply_data (\<lambda>f. 0) (padded [0x94, 3, 7, 1, 6]) globals_init) = globals_init"
  using replies_well_formed [of "\<lambda>f. 0" "padded [0x94, 3, 7, 1, 6]" globals_init 0 "[]" "[]"] by (simp add: padded_def)

subsection \<open>Parameters\<close>

text \<open>The fields the parameter message sets, after each of its steps.\<close>

lemma set_ip_byte_fields [simp]:
  "field_num (set_ip_byte i v d) = field_num d" "alarm_delay (set_ip_byte i v d) = alarm_delay d"
  "alarm_sensitivity (set_ip_byte i v d) = alarm_sensitivity d"
  "alarm_threshold_up_dif (set_ip_byte i v d) = alarm_threshold_up_dif d"
  "alarm_threshold_down_dif (set_ip_byte i v d) = alarm_threshold_down_dif d"
  "tension_max_range (set_ip_byte i v d) = tension_max_range d"
  "base_auto_calibrate_time (set_ip_byte i v d) = base_auto_calibrate_time d"
  "sys_reset (set_ip_byte i v d) = sys_reset d" "lw_ip (set_ip_byte i v d) = (lw_ip d)(i := v)"
  by (auto simp: set_ip_byte_def fun_upd_idem)

lemma saves_write:
  "WriteFieldParaToEEProm d = AT24CXX_Write (nv_addr NvField) (nv_image NvField d) d"
  "WriteAlmThrdToEEProm d = AT24CXX_Write (nv_addr NvThrd) (nv_image NvThrd d) d"
  "WriteTensionMaxRangeToEEProm d = AT24CXX_Write (nv_addr NvRange) (nv_image NvRange d) d"
  "WriteBaseAutoCalibrateTimeToEEProm d = AT24CXX_Write (nv_addr NvAuto) (nv_image NvAuto d) d"
  using nv_save_writes [of NvField d] nv_save_writes [of NvThrd d] nv_save_writes [of NvRange d] nv_save_writes [of NvAuto d]
  by (simp_all only: nv_save.simps)

lemmas setters = modifyFieldNum_def modifyAlarmDelay_def setAlarmSensitivity_def setAlmThrdUpDif_def setAlmThrdDwDif_def
  setTensionMaxRange_def setBaseAutoCalibrateTime_def saves_write

text \<open>The zone a message is for.\<close>

definition zone_of :: "dev \<Rightarrow> u8 \<Rightarrow> nat \<Rightarrow> bool" where
  "zone_of d fld i \<longleftrightarrow> (i = 0 \<and> field_num d 0 = fld) \<or> (i = 1 \<and> field_num d 1 = fld \<and> field_num d 0 \<noteq> fld)"

lemma set_paras_fields:
  fixes d buf
  assumes "zone_of d fld i" "buf ! 5 \<noteq> field_num d (1 - i)"
  defines "e \<equiv> set_paras buf fld d"
  shows "field_num e = (field_num d)(i := buf ! 5)" "alarm_delay e = (alarm_delay d)(i := be16 (buf ! 10) (buf ! 11))"
    "alarm_sensitivity e = (alarm_sensitivity d)(i := buf ! 12)" "alarm_threshold_up_dif e = be16 (buf ! 13) (buf ! 14)"
    "alarm_threshold_down_dif e = be16 (buf ! 15) (buf ! 16)" "tension_max_range e = be16 (buf ! 17) (buf ! 18)"
    "base_auto_calibrate_time e = be16 (buf ! 19) (buf ! 20)"
    "lw_ip e = (lw_ip d)(0 := buf ! 6, 1 := buf ! 7, 2 := buf ! 8, 3 := buf ! 9)"
  using assms(1,2) unfolding e_def zone_of_def
  by (elim disjE conjE; simp add: set_paras_def Let_def setters getFieldIndex_def del: AT24CXX_Write.simps)+

text \<open>
  C20: A message that sets the parameters of a zone, and gives it a number the other zone does not have, is
  reported back by both status queries under the new number: delay, sensitivity, thresholds, range and
  calibration time are the bytes of the message; the address is stored and a restart requested when it
  changes, and the other zone keeps its number, delay and sensitivity.
\<close>

theorem parameters_reported:
  assumes "zone_of d fld i" "buf ! 5 \<noteq> field_num d (1 - i)"
  shows "take 11 (drop 2 (status_payload (set_paras buf fld d) (buf ! 5) st)) = map (\<lambda>k. buf ! k) [10..<21] \<and>
    getPeerFieldNum (set_paras buf fld d) (buf ! 5) = field_num d (1 - i) \<and>
    alarm_delay (set_paras buf fld d) (1 - i) = alarm_delay d (1 - i) \<and>
    alarm_sensitivity (set_paras buf fld d) (1 - i) = alarm_sensitivity d (1 - i) \<and>
    map (lw_ip (set_paras buf fld d)) [0..<4] = map (\<lambda>k. buf ! (6 + k)) [0..<4]"
  using set_paras_fields [OF assms] assms
  by (auto simp: status_payload_def getAlarmDelay_def getFieldIndex_def getPeerFieldNum_def zone_of_def upt_rec)

theorem parameters_reported_witness:
  fixes buf d
  defines "buf \<equiv> padded [0x94, 19, 2, 1, 4, 9, 192, 168, 0, 7, 0x12, 0x34, 5, 0, 60, 0, 70, 0, 200, 0, 15]"
    and "d \<equiv> globals_init\<lparr>field_num := (\<lambda>i. if i = 0 then 1 else 2)\<rparr>"
  shows "take 11 (drop 2 (status_payload (set_paras buf 2 d) 9 0)) = [0x12, 0x34, 5, 0, 60, 0, 70, 0, 200, 0, 15]"
  using parameters_reported [of d 2 1 buf 0] by (simp add: buf_def d_def zone_of_def padded_def upt_rec)

subsection \<open>The loop over a connection\<close>

text \<open>
  When the reply to an accepted message cannot be written the server disconnects and goes on receiving on
  the connection it has deleted.
\<close>

theorem used_after_disconnect:
  assumes "tcp_recv_data recv_err chain buf = (buf', out, ERR_OK)" "parse_reply_data wr buf' d = (d', out', err)"
    "err \<noteq> ERR_OK" "\<not> sys_reset d'"
  shows "\<exists>now rest. fst (conn_loop wr ((recv_err, chain) # r # rs) buf d) = now @ [Disconnect, Recv_call] @ rest"
proof -
  obtain e ch where r: "r = (e, ch)" by (cases r)
  have "\<exists>rest. fst (conn_loop wr (r # rs) buf' d') = Recv_call # rest"
    by (simp add: r Let_def split: prod.split)
  then obtain rest where "fst (conn_loop wr (r # rs) buf' d') = Recv_call # rest" by blast
  with assms have "fst (conn_loop wr ((recv_err, chain) # r # rs) buf d) =
      (Recv_call # map Write_call (out @ out')) @ [Disconnect, Recv_call] @ rest"
    by (simp add: Let_def case_prod_beta)
  then show ?thesis by blast
qed

theorem used_after_disconnect_witness:
  "\<exists>now rest. fst (conn_loop (\<lambda>f. 0xF1) [(ERR_OK, [[0x94, 3, 0, 1, 6]]), (0xFD, [])] [] globals_init) =
     now @ [Disconnect, Recv_call] @ rest"
proof -
  have "tcp_recv_data ERR_OK [[0x94, 3, 0, 1, 6]] [] = (padded [0x94, 3, 0, 1, 6], [], ERR_OK)"
    by (simp add: tcp_recv_data_def overlay_def padded_def Let_def)
  moreover have "parse_reply_data (\<lambda>f. 0xF1) (padded [0x94, 3, 0, 1, 6]) globals_init =
      (globals_init, [tcp_send_data globals_init 0 6], 0xF1)"
    by (simp add: parse_reply_data_def padded_def Let_def globals_init_def)
  ultimately show ?thesis by (rule used_after_disconnect) (simp_all add: globals_init_def)
qed

end
