(* ===== verification/Malloc.thy ===== *)
theory Malloc
  imports Prelude
begin

text \<open>
  \<^verbatim>\<open>MALLOC/malloc.c\<close>: the block allocator of the two memory pools.  A pool is its map of blocks
  (an allocated block of \<open>n\<close> cells holds \<open>n\<close> in each of them), its bytes and its ready flag; a
  pointer is an offset into the pool, \<open>None\<close> for \<^verbatim>\<open>NULL\<close>.  The critical sections make every call
  atomic.

  \<open>pool_wf N A p\<close> ties the map of a pool of \<open>N\<close> cells to the set \<open>A\<close> of allocated blocks; the
  interface of the theory \<open>LwipMem\<close> states what a client may rely on, and the pool is its instance.
\<close>

record pool =
  memmap :: "nat \<Rightarrow> u16"
  membase :: "nat \<Rightarrow> u8"
  memrdy :: bool

definition memblksize :: nat where "memblksize = 32"

text \<open>The tables of both pools: 100 KB and 60 KB in blocks of 32 bytes.\<close>

definition memtblsize :: "nat \<Rightarrow> nat" where
  "memtblsize memx = (if memx = 0 then 100 * 1024 div 32 else 60 * 1024 div 32)"

definition memsize :: "nat \<Rightarrow> nat" where
  "memsize memx = (if memx = 0 then 100 * 1024 else 60 * 1024)"

definition mymemset :: "nat \<Rightarrow> 'a \<Rightarrow> nat \<Rightarrow> (nat \<Rightarrow> 'a) \<Rightarrow> nat \<Rightarrow> 'a" where
  "mymemset s c count f = (\<lambda>i. if s \<le> i \<and> i < s + count then c else f i)"

text \<open>A copy from low to high addresses within one memory; the areas may overlap.\<close>

fun mymemcpy :: "nat \<Rightarrow> nat \<Rightarrow> nat \<Rightarrow> (nat \<Rightarrow> 'a) \<Rightarrow> nat \<Rightarrow> 'a" where
  "mymemcpy des src 0 f = f"
| "mymemcpy des src (Suc n) f = mymemcpy (Suc des) (Suc src) n (f(des := f src))"

definition my_mem_init :: "nat \<Rightarrow> pool \<Rightarrow> pool" where
  "my_mem_init memx p =
     p\<lparr>memmap := mymemset 0 0 (memtblsize memx) (memmap p), membase := mymemset 0 0 (memsize memx) (membase p),
       memrdy := True\<rparr>"

definition my_mem_perused :: "nat \<Rightarrow> pool \<Rightarrow> u8" where
  "my_mem_perused memx p =
     of_nat (length (filter (\<lambda>i. memmap p i \<noteq> 0) [0..<memtblsize memx]) * 100 div memtblsize memx)"

text \<open>The search from the top of the table down: \<open>o\<close> cells are left below, \<open>cmemb\<close> are free in a row.\<close>

fun mem_search :: "(nat \<Rightarrow> u16) \<Rightarrow> nat \<Rightarrow> nat \<Rightarrow> nat \<Rightarrow> nat option" where
  "mem_search mp nmemb 0 cmemb = None"
| "mem_search mp nmemb (Suc off) cmemb =
     (let cmemb = (if mp off = 0 then Suc cmemb else 0)
      in if cmemb = nmemb then Some off else mem_search mp nmemb off cmemb)"

definition mem_blocks :: "u32 \<Rightarrow> nat" where
  "mem_blocks sz = (if unat sz mod memblksize \<noteq> 0 then Suc (unat sz div memblksize)
                      else unat sz div memblksize)"

text \<open>\<^verbatim>\<open>0XFFFFFFFF\<close> is \<open>None\<close>; the map entry is cut to 16 bits.\<close>

definition my_mem_malloc :: "nat \<Rightarrow> u32 \<Rightarrow> pool \<Rightarrow> pool \<times> nat option" where
  "my_mem_malloc memx sz p =
     (let p = (if \<not> memrdy p then my_mem_init memx p else p)
      in if sz = 0 then (p, None)
         else case mem_search (memmap p) (mem_blocks sz) (memtblsize memx) 0 of
                None \<Rightarrow> (p, None)
              | Some off \<Rightarrow>
                  (p\<lparr>memmap := mymemset off (of_nat (mem_blocks sz)) (mem_blocks sz) (memmap p)\<rparr>,
                   Some (off * memblksize)))"

definition my_mem_free :: "nat \<Rightarrow> nat \<Rightarrow> pool \<Rightarrow> pool \<times> u8" where
  "my_mem_free memx offset p =
     (if \<not> memrdy p then (my_mem_init memx p, 1)
      else if offset < memsize memx
      then (p\<lparr>memmap := mymemset (offset div memblksize) 0 (unat (memmap p (offset div memblksize))) (memmap p)\<rparr>, 0)
      else (p, 2))"

definition mymalloc :: "nat \<Rightarrow> u32 \<Rightarrow> pool \<Rightarrow> pool \<times> nat option" where
  "mymalloc memx sz p = my_mem_malloc memx sz p"

definition myfree :: "nat \<Rightarrow> nat option \<Rightarrow> pool \<Rightarrow> pool" where
  "myfree memx ptr p = (case ptr of None \<Rightarrow> p | Some offset \<Rightarrow> fst (my_mem_free memx offset p))"

text \<open>The old block is a pointer into the same pool.\<close>

definition myrealloc :: "nat \<Rightarrow> nat option \<Rightarrow> u32 \<Rightarrow> pool \<Rightarrow> pool \<times> nat option" where
  "myrealloc memx ptr sz p =
     (case my_mem_malloc memx sz p of
        (p, None) \<Rightarrow> (p, None)
      | (p, Some off) \<Rightarrow>
          (myfree memx ptr (case ptr of None \<Rightarrow> p
                            | Some old \<Rightarrow> p\<lparr>membase := mymemcpy off old (unat sz) (membase p)\<rparr>),
           Some off))"

subsection \<open>Blocks\<close>

definition block :: "nat \<times> nat \<Rightarrow> nat set" where
  "block b = {fst b..<fst b + snd b}"

definition pool_wf :: "nat \<Rightarrow> (nat \<times> nat) set \<Rightarrow> pool \<Rightarrow> bool" where
  "pool_wf memx A p \<longleftrightarrow> memrdy p \<and>
     (\<forall>b\<in>A. 0 < snd b \<and> fst b + snd b \<le> memtblsize memx) \<and>
     (\<forall>b\<in>A. \<forall>c\<in>A. b \<noteq> c \<longrightarrow> block b \<inter> block c = {}) \<and>
     (\<forall>b\<in>A. \<forall>i\<in>block b. memmap p i = of_nat (snd b)) \<and>
     (\<forall>i<memtblsize memx. i \<notin> (\<Union>b\<in>A. block b) \<longrightarrow> memmap p i = 0)"

lemma memtblsize_bound: "memtblsize memx \<le> 3200"
  by (simp add: memtblsize_def)

lemma pool_wf_nonzero: "pool_wf memx A p \<Longrightarrow> b \<in> A \<Longrightarrow> i \<in> block b \<Longrightarrow> memmap p i \<noteq> 0"
proof -
  assume a: "pool_wf memx A p" "b \<in> A" "i \<in> block b"
  then have n: "0 < snd b" "snd b \<le> 3200"
    using memtblsize_bound [of memx] by (force simp: pool_wf_def)+
  have m: "memmap p i = of_nat (snd b)" using a by (auto simp: pool_wf_def)
  have "unat (of_nat (snd b) :: u16) = snd b"
    using n by (simp add: unat_of_nat)
  with n m show ?thesis by (metis less_numeral_extra(3) unat_0)
qed

lemma free_cell_iff:
  assumes "pool_wf memx A p" "i < memtblsize memx"
  shows "memmap p i = 0 \<longleftrightarrow> i \<notin> (\<Union>b\<in>A. block b)"
proof
  assume z: "memmap p i = 0"
  show "i \<notin> (\<Union>b\<in>A. block b)"
  proof
    assume "i \<in> (\<Union>b\<in>A. block b)"
    then obtain b where "b \<in> A" "i \<in> block b" by blast
    with pool_wf_nonzero [OF assms(1)] z show False by blast
  qed
next
  assume "i \<notin> (\<Union>b\<in>A. block b)"
  with assms show "memmap p i = 0" unfolding pool_wf_def by blast
qed

text \<open>What the search finds: the highest run of \<open>nmemb\<close> free cells below the cells already seen.\<close>

lemma mem_search_Some:
  assumes "mem_search mp nmemb off c = Some r" "\<forall>i<c. mp (off + i) = 0" "c < nmemb"
  shows "r < off \<and> (\<forall>i<nmemb. mp (r + i) = 0) \<and> r + nmemb \<le> off + c"
  using assms
proof (induction off arbitrary: c)
  case (Suc off)
  define c' where "c' = (if mp off = 0 then Suc c else 0)"
  have z: "\<forall>i<c'. mp (off + i) = 0"
    using Suc.prems(2) by (auto simp: c'_def less_Suc_eq_0_disj)
  show ?case
  proof (cases "c' = nmemb")
    case True
    then have "r = off" "mp off = 0" "nmemb = Suc c"
      using Suc.prems by (auto simp: c'_def split: if_splits)
    with z True show ?thesis by simp
  next
    case False
    then have "mem_search mp nmemb off c' = Some r" "c' < nmemb"
      using Suc.prems by (auto simp: c'_def split: if_splits)
    then have "r < off \<and> (\<forall>i<nmemb. mp (r + i) = 0) \<and> r + nmemb \<le> off + c'"
      using Suc.IH [of c'] z by blast
    moreover have "c' \<le> Suc c" by (simp add: c'_def)
    ultimately show ?thesis by simp
  qed
qed simp

lemma mem_search_None:
  assumes "mem_search mp nmemb off c = None" "c < nmemb" "r + nmemb \<le> off + c" "r < off"
    and "\<forall>i<c. mp (off + i) = 0"
  shows "\<exists>i<nmemb. mp (r + i) \<noteq> 0"
  using assms
proof (induction off arbitrary: c)
  case (Suc off)
  define c' where "c' = (if mp off = 0 then Suc c else 0)"
  have ne: "c' \<noteq> nmemb" and s: "mem_search mp nmemb off c' = None"
    using Suc.prems(1) by (auto simp: c'_def Let_def split: if_splits)
  have lt: "c' < nmemb" using ne Suc.prems(2) by (auto simp: c'_def)
  have z: "\<forall>i<c'. mp (off + i) = 0"
    using Suc.prems(5) by (auto simp: c'_def less_Suc_eq_0_disj)
  show ?case
  proof (cases "mp off = 0")
    case True
    then have c': "c' = Suc c" by (simp add: c'_def)
    show ?thesis
    proof (cases "r = off")
      case True
      with Suc.prems(3) lt c' show ?thesis by simp
    next
      case False
      with Suc.IH [OF s lt _ _ z] Suc.prems c' show ?thesis by simp
    qed
  next
    case False
    then have c': "c' = 0" by (simp add: c'_def)
    show ?thesis
    proof (cases "r + nmemb \<le> off")
      case True
      then have "r < off" using lt c' by simp
      with Suc.IH [OF s lt _ _ z] True c' show ?thesis by simp
    next
      case False
      then have "off - r < nmemb" "r + (off - r) = off" using Suc.prems(4) by auto
      with \<open>mp off \<noteq> 0\<close> show ?thesis by metis
    qed
  qed
qed simp

lemma mem_blocks_bounds:
  "sz \<noteq> 0 \<Longrightarrow> 0 < mem_blocks sz" "unat sz \<le> mem_blocks sz * memblksize"
proof -
  have d: "unat sz = unat sz div memblksize * memblksize + unat sz mod memblksize" by simp
  have l: "unat sz mod memblksize < memblksize" by (simp add: memblksize_def)
  show "0 < mem_blocks sz" if "sz \<noteq> 0"
  proof (cases "unat sz mod memblksize = 0")
    case True
    have "unat sz \<noteq> 0" using that by (simp add: unat_eq_zero)
    with True d have "unat sz div memblksize \<noteq> 0" by (metis add_0_right mult_0)
    with True show ?thesis by (simp add: mem_blocks_def)
  qed (simp add: mem_blocks_def)
  show "unat sz \<le> mem_blocks sz * memblksize"
  proof (cases "unat sz mod memblksize = 0")
    case True
    then have "unat sz \<le> unat sz div memblksize * memblksize" using d by linarith
    with True show ?thesis by (simp add: mem_blocks_def)
  next
    case False
    have "unat sz \<le> Suc (unat sz div memblksize) * memblksize" using d l by (simp only: mult_Suc)
    with False show ?thesis by (simp add: mem_blocks_def)
  qed
qed

lemma memsize_cells: "memsize memx = memtblsize memx * memblksize"
  by (simp add: memsize_def memtblsize_def memblksize_def)

subsection \<open>Allocation and release\<close>

lemma pool_wf_insert:
  assumes wf: "pool_wf memx A p" and n: "0 < n" "s + n \<le> memtblsize memx"
    and free: "\<forall>i<n. memmap p (s + i) = 0"
  shows "block (s, n) \<inter> (\<Union>b\<in>A. block b) = {}"
    and "pool_wf memx (insert (s, n) A) (p\<lparr>memmap := mymemset s (of_nat n) n (memmap p)\<rparr>)"
proof -
  show dis: "block (s, n) \<inter> (\<Union>b\<in>A. block b) = {}"
  proof (rule ccontr)
    assume "block (s, n) \<inter> (\<Union>b\<in>A. block b) \<noteq> {}"
    then obtain i b where i: "i \<in> block (s, n)" and b: "b \<in> A" "i \<in> block b" by blast
    then have "memmap p i \<noteq> 0" using pool_wf_nonzero [OF wf] by blast
    moreover have "memmap p i = 0"
      using i free [rule_format, of "i - s"] by (auto simp: block_def)
    ultimately show False by simp
  qed
  let ?m = "mymemset s (of_nat n) n (memmap p)"
  have inside: "?m i = of_nat n" if "i \<in> block (s, n)" for i
    using that by (auto simp: mymemset_def block_def)
  have outside: "?m i = memmap p i" if "i \<notin> block (s, n)" for i
    using that by (auto simp: mymemset_def block_def)
  have keep: "?m i = memmap p i" if "b \<in> A" "i \<in> block b" for b i
    using that dis by (intro outside) blast
  show "pool_wf memx (insert (s, n) A) (p\<lparr>memmap := ?m\<rparr>)"
    unfolding pool_wf_def
  proof (intro conjI)
    show "memrdy (p\<lparr>memmap := ?m\<rparr>)" using wf by (simp add: pool_wf_def)
    show "\<forall>b\<in>insert (s, n) A. 0 < snd b \<and> fst b + snd b \<le> memtblsize memx"
      using wf n by (simp add: pool_wf_def)
    show "\<forall>b\<in>insert (s, n) A. \<forall>c\<in>insert (s, n) A. b \<noteq> c \<longrightarrow> block b \<inter> block c = {}"
      using wf dis unfolding pool_wf_def by blast
    show "\<forall>b\<in>insert (s, n) A. \<forall>i\<in>block b. memmap (p\<lparr>memmap := ?m\<rparr>) i = of_nat (snd b)"
    proof (intro ballI)
      fix b i assume "b \<in> insert (s, n) A" "i \<in> block b"
      then show "memmap (p\<lparr>memmap := ?m\<rparr>) i = of_nat (snd b)"
      proof (cases "b = (s, n)")
        case False
        with \<open>b \<in> insert (s, n) A\<close> have "b \<in> A" by simp
        with keep [OF this \<open>i \<in> block b\<close>] wf \<open>i \<in> block b\<close> show ?thesis by (simp add: pool_wf_def)
      qed (simp add: inside)
    qed
    show "\<forall>i<memtblsize memx. i \<notin> (\<Union>b\<in>insert (s, n) A. block b) \<longrightarrow> memmap (p\<lparr>memmap := ?m\<rparr>) i = 0"
      using outside wf unfolding pool_wf_def by auto
  qed
qed

lemma my_mem_malloc_Some:
  assumes wf: "pool_wf memx A p" and r: "my_mem_malloc memx sz p = (p', Some off)"
  obtains s where "off = s * memblksize" "block (s, mem_blocks sz) \<inter> (\<Union>b\<in>A. block b) = {}"
    "pool_wf memx (insert (s, mem_blocks sz) A) p'" "off + unat sz \<le> memsize memx" "membase p' = membase p"
proof -
  have rdy: "memrdy p" using wf by (simp add: pool_wf_def)
  have sz: "sz \<noteq> 0" and "\<exists>s. mem_search (memmap p) (mem_blocks sz) (memtblsize memx) 0 = Some s"
    using r rdy by (auto simp: my_mem_malloc_def split: if_splits option.splits)
  then obtain s where s: "mem_search (memmap p) (mem_blocks sz) (memtblsize memx) 0 = Some s" by blast
  have p': "p' = p\<lparr>memmap := mymemset s (of_nat (mem_blocks sz)) (mem_blocks sz) (memmap p)\<rparr>"
    and off: "off = s * memblksize"
    using r rdy sz s by (auto simp: my_mem_malloc_def)
  have found: "\<forall>i<mem_blocks sz. memmap p (s + i) = 0" "s + mem_blocks sz \<le> memtblsize memx"
    using mem_search_Some [OF s] mem_blocks_bounds(1) [OF sz] by auto
  note ins = pool_wf_insert [OF wf mem_blocks_bounds(1) [OF sz] found(2) found(1)]
  have "off + unat sz \<le> (s + mem_blocks sz) * memblksize"
    using mem_blocks_bounds(2) [of sz] by (simp add: off add_mult_distrib)
  also have "\<dots> \<le> memsize memx" using found(2) by (simp add: memsize_cells)
  finally show ?thesis
    using that [OF off ins(1)] ins(2) p' by simp
qed

lemma my_mem_malloc_None:
  assumes wf: "pool_wf memx A p" and r: "my_mem_malloc memx sz p = (p', None)"
  shows "p' = p \<and> (sz = 0 \<or> (\<forall>s. s + mem_blocks sz \<le> memtblsize memx \<longrightarrow>
           block (s, mem_blocks sz) \<inter> (\<Union>b\<in>A. block b) \<noteq> {}))"
proof (cases "sz = 0")
  case True
  with r wf show ?thesis by (auto simp: my_mem_malloc_def pool_wf_def)
next
  case False
  have rdy: "memrdy p" using wf by (simp add: pool_wf_def)
  have s: "mem_search (memmap p) (mem_blocks sz) (memtblsize memx) 0 = None" and p': "p' = p"
    using r rdy False by (auto simp: my_mem_malloc_def split: option.splits)
  have "block (s, mem_blocks sz) \<inter> (\<Union>b\<in>A. block b) \<noteq> {}"
    if fits: "s + mem_blocks sz \<le> memtblsize memx" for s
  proof -
    have "s < memtblsize memx" using fits mem_blocks_bounds(1) [OF False] by simp
    then obtain i where i: "i < mem_blocks sz" "memmap p (s + i) \<noteq> 0"
      using mem_search_None [OF s mem_blocks_bounds(1) [OF False], of s] fits by auto
    then have "s + i < memtblsize memx" using fits by linarith
    then have "s + i \<in> (\<Union>b\<in>A. block b)" using free_cell_iff [OF wf] i(2) by blast
    moreover have "s + i \<in> block (s, mem_blocks sz)" using i by (simp add: block_def)
    ultimately show ?thesis by blast
  qed
  with p' show ?thesis by simp
qed

lemma my_mem_free_block:
  assumes wf: "pool_wf memx A p" and b: "(s, n) \<in> A"
  shows "\<exists>p'. my_mem_free memx (s * memblksize) p = (p', 0) \<and> pool_wf memx (A - {(s, n)}) p' \<and>
           membase p' = membase p"
proof -
  have n: "0 < n" "s + n \<le> memtblsize memx" and rdy: "memrdy p" using wf b by (auto simp: pool_wf_def)
  have mem: "memmap p s = of_nat n" using wf b n by (force simp: pool_wf_def block_def)
  have un: "unat (of_nat n :: u16) = n" using n memtblsize_bound [of memx] by (simp add: unat_of_nat)
  let ?m = "mymemset s 0 n (memmap p)"
  have lt: "s * memblksize < memsize memx" using n by (simp add: memsize_cells memblksize_def)
  have div: "s * memblksize div memblksize = s" by (simp add: memblksize_def)
  have r: "my_mem_free memx (s * memblksize) p = (p\<lparr>memmap := ?m\<rparr>, 0)"
    using lt rdy by (simp add: my_mem_free_def div mem un)
  have dis: "block c \<inter> block (s, n) = {}" if "c \<in> A" "c \<noteq> (s, n)" for c
    using wf b that unfolding pool_wf_def by blast
  have inside: "?m i = 0" if "i \<in> block (s, n)" for i
    using that by (auto simp: mymemset_def block_def)
  have outside: "?m i = memmap p i" if "i \<notin> block (s, n)" for i
    using that by (auto simp: mymemset_def block_def)
  have "pool_wf memx (A - {(s, n)}) (p\<lparr>memmap := ?m\<rparr>)"
    unfolding pool_wf_def
  proof (intro conjI)
    show "\<forall>c\<in>A - {(s, n)}. \<forall>i\<in>block c. memmap (p\<lparr>memmap := ?m\<rparr>) i = of_nat (snd c)"
    proof (intro ballI)
      fix c i assume c: "c \<in> A - {(s, n)}" "i \<in> block c"
      then have "i \<notin> block (s, n)" using dis by blast
      with c outside wf show "memmap (p\<lparr>memmap := ?m\<rparr>) i = of_nat (snd c)" by (auto simp: pool_wf_def)
    qed
    show "\<forall>i<memtblsize memx. i \<notin> (\<Union>c\<in>A - {(s, n)}. block c) \<longrightarrow> memmap (p\<lparr>memmap := ?m\<rparr>) i = 0"
    proof (intro allI impI)
      fix i assume i: "i < memtblsize memx" "i \<notin> (\<Union>c\<in>A - {(s, n)}. block c)"
      show "memmap (p\<lparr>memmap := ?m\<rparr>) i = 0"
      proof (cases "i \<in> block (s, n)")
        case False
        with i have "i \<notin> (\<Union>c\<in>A. block c)" by blast
        with i(1) wf have "memmap p i = 0" unfolding pool_wf_def by blast
        with outside [OF False] show ?thesis by simp
      qed (simp add: inside)
    qed
  qed (use wf in \<open>auto simp: pool_wf_def\<close>)
  with r show ?thesis by simp
qed

end
