(* ===== verification/LwipMem.thy ===== *)
theory LwipMem
  imports Malloc
begin

text \<open>
  The interface of the allocator, the memory lwIP is given by \<^verbatim>\<open>lwip_comm_mem_malloc\<close> of
  \<^verbatim>\<open>lwip_comm.c\<close>, and the pool of \<^verbatim>\<open>malloc.c\<close> as the interface's instance \<open>al\<close>.
\<close>

text \<open>
  \<open>holds A s\<close>: exactly the blocks \<open>A\<close> are allocated in the state \<open>s\<close>, none of them overlapping.
\<close>

locale allocator =
  fixes alloc :: "u32 \<Rightarrow> 's \<Rightarrow> 's \<times> nat option"
    and dealloc :: "nat option \<Rightarrow> 's \<Rightarrow> 's"
    and holds :: "'b set \<Rightarrow> 's \<Rightarrow> bool"
    and ptr :: "'b \<Rightarrow> nat"
  assumes alloc_None: "holds A s \<Longrightarrow> alloc n s = (s', None) \<Longrightarrow> holds A s'"
    and alloc_Some: "holds A s \<Longrightarrow> alloc n s = (s', Some p) \<Longrightarrow>
      \<exists>b. ptr b = p \<and> b \<notin> A \<and> holds (insert b A) s'"
    and dealloc_NULL: "dealloc None s = s"
    and dealloc_block: "holds A s \<Longrightarrow> b \<in> A \<Longrightarrow> holds (A - {b}) (dealloc (Some (ptr b)) s)"
begin

text \<open>A run of requests, each made whether or not the ones before it succeeded.\<close>

fun alloc_all :: "u32 list \<Rightarrow> 's \<Rightarrow> 's \<times> nat option list" where
  "alloc_all [] s = (s, [])"
| "alloc_all (n # ns) s = (let (s, r) = alloc n s; (s, rs) = alloc_all ns s in (s, r # rs))"

lemma alloc_all_holds:
  "holds A s \<Longrightarrow> alloc_all ns s = (s', rs) \<Longrightarrow>
   \<exists>B. finite B \<and> B \<inter> A = {} \<and> holds (B \<union> A) s' \<and> length rs = length ns \<and>
       (\<exists>bs. distinct bs \<and> set bs = B \<and> map (\<lambda>b. Some (ptr b)) bs = filter (\<lambda>r. r \<noteq> None) rs)"
proof (induction ns arbitrary: A s rs)
  case (Cons n ns)
  obtain s1 r where 1: "alloc n s = (s1, r)" by (cases "alloc n s")
  obtain rs' where 2: "alloc_all ns s1 = (s', rs')" "rs = r # rs'"
    using Cons.prems(2) 1 by (auto split: prod.splits)
  show ?case
  proof (cases r)
    case None
    then have "holds A s1" using alloc_None [OF Cons.prems(1)] 1 by simp
    from Cons.IH [OF this 2(1)] show ?thesis using None 2(2) by auto
  next
    case (Some p)
    then obtain b where b: "ptr b = p" "b \<notin> A" "holds (insert b A) s1"
      using alloc_Some [OF Cons.prems(1)] 1 by blast
    from Cons.IH [OF b(3) 2(1)] obtain B bs where
      B: "finite B" "B \<inter> insert b A = {}" "holds (B \<union> insert b A) s'" "length rs' = length ns"
        "distinct bs" "set bs = B" "map (\<lambda>b. Some (ptr b)) bs = filter (\<lambda>r. r \<noteq> None) rs'" by blast
    show ?thesis
    proof (intro exI conjI)
      show "finite (insert b B)" "insert b B \<inter> A = {}" "holds (insert b B \<union> A) s'"
        using B b by (auto simp: Un_insert_left)
      show "length rs = length (n # ns)" using B 2 by simp
      show "distinct (b # bs)" "set (b # bs) = insert b B" using B by auto
      show "map (\<lambda>b. Some (ptr b)) (b # bs) = filter (\<lambda>r. r \<noteq> None) rs" using B b Some 2 by simp
    qed
  qed
qed simp

lemma dealloc_all_holds:
  "distinct bs \<Longrightarrow> set bs \<inter> A = {} \<Longrightarrow> holds (set bs \<union> A) s \<Longrightarrow>
   map (\<lambda>b. Some (ptr b)) bs = filter (\<lambda>r. r \<noteq> None) rs \<Longrightarrow> holds A (fold dealloc rs s)"
proof (induction rs arbitrary: bs s)
  case (Cons r rs)
  show ?case
  proof (cases r)
    case None
    with Cons show ?thesis by (simp add: dealloc_NULL)
  next
    case (Some p)
    with Cons.prems obtain b bs' where b: "bs = b # bs'" "ptr b = p"
      "map (\<lambda>b. Some (ptr b)) bs' = filter (\<lambda>r. r \<noteq> None) rs" by (cases bs) auto
    have "holds (set bs \<union> A - {b}) (dealloc r s)"
      using dealloc_block [OF Cons.prems(3), of b] b Some by simp
    moreover have "set bs \<union> A - {b} = set bs' \<union> A" using Cons.prems b by auto
    ultimately show ?thesis using Cons.IH [of bs' "dealloc r s"] Cons.prems b by simp
  qed
qed simp

end

subsection \<open>The memory of lwIP\<close>

text \<open>
  \<open>sizes\<close> are the four sizes the code computes: the memory pools, the heap and two stacks.  The
  pointers are the ones left in the four globals.
\<close>

fun malloc_all :: "u32 list \<Rightarrow> pool \<Rightarrow> pool \<times> nat option list" where
  "malloc_all [] p = (p, [])"
| "malloc_all (n # ns) p = (let (p, r) = mymalloc 0 n p; (p, rs) = malloc_all ns p in (p, r # rs))"

definition lwip_comm_mem_free :: "nat option list \<Rightarrow> pool \<Rightarrow> pool" where
  "lwip_comm_mem_free rs p = fold (myfree 0) rs p"

definition lwip_comm_mem_malloc :: "u32 list \<Rightarrow> pool \<Rightarrow> pool \<times> nat option list \<times> u8" where
  "lwip_comm_mem_malloc sizes p =
     (let (p, rs) = malloc_all sizes p
      in if None \<in> set rs then (lwip_comm_mem_free rs p, rs, 1) else (p, rs, 0))"

interpretation al: allocator "mymalloc memx" "myfree memx" "pool_wf memx" "\<lambda>b. fst b * memblksize"
  for memx
proof (unfold_locales)
  show "pool_wf memx A s'" if "pool_wf memx A s" "mymalloc memx n s = (s', None)" for A s n s'
    using my_mem_malloc_None [of memx A s n s'] that by (simp add: mymalloc_def)
  show "\<exists>b. fst b * memblksize = p \<and> b \<notin> A \<and> pool_wf memx (insert b A) s'"
    if h: "pool_wf memx A s" "mymalloc memx n s = (s', Some p)" for A s n s' p
  proof -
    obtain a where a: "p = a * memblksize" "block (a, mem_blocks n) \<inter> (\<Union>b\<in>A. block b) = {}"
      "pool_wf memx (insert (a, mem_blocks n) A) s'"
      using my_mem_malloc_Some [OF h(1), of n s' p] h(2) by (auto simp: mymalloc_def)
    have "a \<in> block (a, mem_blocks n)" using a(3) by (auto simp: pool_wf_def block_def)
    with a(2) have "(a, mem_blocks n) \<notin> A" by blast
    with a show ?thesis by (intro exI [of _ "(a, mem_blocks n)"]) simp
  qed
  show "myfree memx None s = s" for s by (simp add: myfree_def)
  show "pool_wf memx (A - {b}) (myfree memx (Some (fst b * memblksize)) s)"
    if "pool_wf memx A s" "b \<in> A" for A b s
    using my_mem_free_block [of memx A s "fst b" "snd b"] that by (auto simp: myfree_def)
qed

lemma malloc_all_eq: "malloc_all ns p = al.alloc_all 0 ns p"
  by (induction ns arbitrary: p) (simp_all add: case_prod_beta)

lemma lwip_comm_mem_malloc_holds:
  assumes "pool_wf 0 A p" "lwip_comm_mem_malloc sizes p = (p', rs, res)"
  shows "if res = 0
         then \<exists>bs. distinct bs \<and> set bs \<inter> A = {} \<and> pool_wf 0 (set bs \<union> A) p' \<and>
                rs = map (\<lambda>b. Some (fst b * memblksize)) bs \<and> length bs = length sizes
         else pool_wf 0 A p'"
proof -
  obtain q where q: "al.alloc_all 0 sizes p = (q, rs)"
    using assms(2) by (auto simp: lwip_comm_mem_malloc_def malloc_all_eq split: prod.splits if_splits)
  from al.alloc_all_holds [OF assms(1) q] obtain bs where
    B: "set bs \<inter> A = {}" "pool_wf 0 (set bs \<union> A) q" "length rs = length sizes" "distinct bs"
      "map (\<lambda>b. Some (fst b * memblksize)) bs = filter (\<lambda>r. r \<noteq> None) rs" by auto
  show ?thesis
  proof (cases "None \<in> set rs")
    case True
    then have "res = 1" "p' = fold (myfree 0) rs q"
      using assms(2) q by (auto simp: lwip_comm_mem_malloc_def malloc_all_eq lwip_comm_mem_free_def)
    with al.dealloc_all_holds [OF B(4,1,2,5)] show ?thesis by simp
  next
    case False
    then have r: "res = 0" "p' = q"
      using assms(2) q by (auto simp: lwip_comm_mem_malloc_def malloc_all_eq)
    have "\<forall>r\<in>set rs. r \<noteq> None" using False by metis
    then have "filter (\<lambda>r. r \<noteq> None) rs = rs" by (rule filter_True)
    then have "rs = map (\<lambda>b. Some (fst b * memblksize)) bs" using B(5) by simp
    with r B show ?thesis by (metis length_map)
  qed
qed

end
