(* ===== verification/MemSpec.thy ===== *)
theory MemSpec
  imports LwipMem
begin

text \<open>
  The contract of \<^verbatim>\<open>malloc.c\<close> and of the memory lwIP gets from it.
\<close>

subsection \<open>The map is determined by the blocks\<close>

lemma pool_wf_map:
  assumes "pool_wf memx A p" "pool_wf memx A q" "i < memtblsize memx"
  shows "memmap p i = memmap q i"
proof (cases "i \<in> (\<Union>b\<in>A. block b)")
  case True
  then obtain b where "b \<in> A" "i \<in> block b" by blast
  with assms(1,2) show ?thesis by (auto simp: pool_wf_def)
next
  case False
  with assms show ?thesis unfolding pool_wf_def by metis
qed

text \<open>
  C21: An allocation from a well formed pool either returns the offset of a run of cells none of which was in use, large
  enough and inside the pool, and marks exactly that run, or it changes nothing, and then the size was zero or no
  run of free cells is large enough; the bytes of the pool are not touched.
\<close>

theorem mymalloc_correct:
  assumes "pool_wf memx A p"
  shows "case mymalloc memx sz p of
      (p', Some off) \<Rightarrow> sz \<noteq> 0 \<and> off + unat sz \<le> memsize memx \<and> membase p' = membase p \<and>
        (\<exists>s. off = 32 * s \<and> block (s, mem_blocks sz) \<inter> (\<Union>b\<in>A. block b) = {} \<and>
             pool_wf memx (insert (s, mem_blocks sz) A) p')
    | (p', None) \<Rightarrow> p' = p \<and> (sz = 0 \<or> (\<forall>s. s + mem_blocks sz \<le> memtblsize memx \<longrightarrow>
        block (s, mem_blocks sz) \<inter> (\<Union>b\<in>A. block b) \<noteq> {}))"
proof -
  obtain p' r where r: "my_mem_malloc memx sz p = (p', r)" by (cases "my_mem_malloc memx sz p")
  show ?thesis
  proof (cases r)
    case None
    then show ?thesis using my_mem_malloc_None [OF assms, of sz p'] r by (simp add: mymalloc_def)
  next
    case (Some off)
    with r obtain s where s: "off = s * memblksize" "block (s, mem_blocks sz) \<inter> (\<Union>b\<in>A. block b) = {}"
      "pool_wf memx (insert (s, mem_blocks sz) A) p'" "off + unat sz \<le> memsize memx" "membase p' = membase p"
      using my_mem_malloc_Some [OF assms, of sz p' off] by blast
    have "sz \<noteq> 0" using r Some assms by (auto simp: my_mem_malloc_def pool_wf_def)
    with s r Some show ?thesis by (auto simp: mymalloc_def memblksize_def)
  qed
qed

lemma pool_wf_init: "pool_wf memx {} (my_mem_init memx p)"
  by (simp add: pool_wf_def my_mem_init_def mymemset_def)

definition fresh_pool :: pool where
  "fresh_pool = my_mem_init 1 \<lparr>memmap = (\<lambda>i. 7), membase = (\<lambda>i. 7), memrdy = False\<rparr>"

theorem mymalloc_correct_witness:
  "mymalloc 1 70000 fresh_pool = (fresh_pool, None)"
proof -
  have wf: "pool_wf 1 {} fresh_pool" by (simp add: fresh_pool_def pool_wf_init)
  obtain p' r where r: "mymalloc 1 70000 fresh_pool = (p', r)" by (cases "mymalloc 1 70000 fresh_pool")
  with mymalloc_correct [OF wf, of 70000] show ?thesis
    by (cases r) (auto simp: memsize_def)
qed

text \<open>
  Freeing what was just allocated gives back the pool: the same map, the same bytes.
\<close>

theorem mymalloc_myfree_roundtrip:
  assumes "pool_wf memx A p" "mymalloc memx sz p = (p', Some off)"
  shows "pool_wf memx A (myfree memx (Some off) p') \<and> membase (myfree memx (Some off) p') = membase p \<and>
     (\<forall>i<memtblsize memx. memmap (myfree memx (Some off) p') i = memmap p i)"
proof -
  obtain s where s: "off = s * memblksize" "block (s, mem_blocks sz) \<inter> (\<Union>b\<in>A. block b) = {}"
    "pool_wf memx (insert (s, mem_blocks sz) A) p'" "membase p' = membase p"
    using my_mem_malloc_Some [OF assms(1), of sz p' off] assms(2) by (auto simp: mymalloc_def)
  have "s \<in> block (s, mem_blocks sz)" using s(3) by (auto simp: pool_wf_def block_def)
  then have new: "(s, mem_blocks sz) \<notin> A" using s(2) by blast
  obtain q where q: "my_mem_free memx (s * memblksize) p' = (q, 0)"
    "pool_wf memx (insert (s, mem_blocks sz) A - {(s, mem_blocks sz)}) q" "membase q = membase p'"
    using my_mem_free_block [OF s(3), of s "mem_blocks sz"] by blast
  have "myfree memx (Some off) p' = q" using q(1) s(1) by (simp add: myfree_def)
  moreover have wf: "pool_wf memx A q" using q(2) new by simp
  ultimately show ?thesis using q(3) s(4) pool_wf_map [OF wf assms(1)] by simp
qed

lemma blocks_40: "mem_blocks 40 = 2"
  by (simp add: mem_blocks_def memblksize_def)

lemma fresh_malloc: "\<exists>p'. mymalloc 1 40 fresh_pool = (p', Some (1918 * 32))"
proof -
  have "memmap fresh_pool i = 0" if "i < 1920" for i using that by (simp add: fresh_pool_def my_mem_init_def mymemset_def memtblsize_def)
  then have "mem_search (memmap fresh_pool) 2 1920 0 = Some 1918"
    using mem_search.simps(2) [of "memmap fresh_pool" 2 1919 0] mem_search.simps(2) [of "memmap fresh_pool" 2 1918 1]
    by (simp add: Let_def)
  then show ?thesis
    by (simp add: mymalloc_def my_mem_malloc_def blocks_40 memblksize_def memtblsize_def fresh_pool_def my_mem_init_def Let_def)
qed

theorem mymalloc_myfree_roundtrip_witness:
  "membase (myfree 1 (Some (1918 * 32)) (fst (mymalloc 1 40 fresh_pool))) 100 = 0"
proof -
  have wf: "pool_wf 1 {} fresh_pool" by (simp add: fresh_pool_def pool_wf_init)
  obtain p' where "mymalloc 1 40 fresh_pool = (p', Some (1918 * 32))" using fresh_malloc by blast
  with mymalloc_myfree_roundtrip [OF wf this] show ?thesis
    by (simp add: fresh_pool_def my_mem_init_def mymemset_def memsize_def)
qed

subsection \<open>Reallocation\<close>

lemma mymemcpy_below: "i < des \<Longrightarrow> mymemcpy des src n f i = f i"
  by (induction n arbitrary: des src f) simp_all

lemma mymemcpy_outside: "i < des \<or> des + n \<le> i \<Longrightarrow> mymemcpy des src n f i = f i"
  by (induction n arbitrary: des src f) auto

text \<open>A byte of the source that the destination does not cover is copied as it was.\<close>

lemma mymemcpy_copies:
  assumes "i < n" "src + i < des \<or> des + n \<le> src + i"
  shows "mymemcpy des src n f (des + i) = f (src + i)"
  using assms
proof (induction n arbitrary: des src f i)
  case (Suc n)
  show ?case
  proof (cases i)
    case 0
    then show ?thesis by (simp add: mymemcpy_below)
  next
    case (Suc j)
    then have "mymemcpy (Suc des) (Suc src) n (f(des := f src)) (Suc des + j) = (f(des := f src)) (Suc src + j)"
      using Suc.prems by (intro Suc.IH) auto
    then show ?thesis using Suc Suc.prems by auto
  qed
qed simp

text \<open>
  C22: Reallocating a block moves it: the old block is released, the new one is a run of cells of its own, the
  bytes of the old block up to the new size are at the start of the new one, and no other block's bytes
  change; when there is no room nothing changes.
\<close>

theorem myrealloc_correct:
  assumes "pool_wf memx A p" "(s, n) \<in> A"
  shows "case myrealloc memx (Some (s * 32)) sz p of
      (p', None) \<Rightarrow> p' = p
    | (p', Some off) \<Rightarrow> \<exists>s'. off = s' * 32 \<and> block (s', mem_blocks sz) \<inter> (\<Union>b\<in>A. block b) = {} \<and>
        pool_wf memx (insert (s', mem_blocks sz) (A - {(s, n)})) p' \<and>
        (\<forall>i<unat sz. i < n * 32 \<longrightarrow> membase p' (off + i) = membase p (s * 32 + i)) \<and>
        (\<forall>i. i div 32 \<notin> block (s', mem_blocks sz) \<longrightarrow> membase p' i = membase p i)"
proof -
  obtain p1 r where r: "my_mem_malloc memx sz p = (p1, r)" by (cases "my_mem_malloc memx sz p")
  show ?thesis
  proof (cases r)
    case None
    with r my_mem_malloc_None [OF assms(1)] show ?thesis by (simp add: myrealloc_def)
  next
    case (Some off)
    with r obtain s' where s': "off = s' * memblksize" "block (s', mem_blocks sz) \<inter> (\<Union>b\<in>A. block b) = {}"
      "pool_wf memx (insert (s', mem_blocks sz) A) p1" "off + unat sz \<le> memsize memx" "membase p1 = membase p"
      using my_mem_malloc_Some [OF assms(1), of sz p1 off] by blast
    let ?m = "mymemcpy off (s * 32) (unat sz) (membase p1)"
    let ?q = "p1\<lparr>membase := ?m\<rparr>"
    have "pool_wf memx (insert (s', mem_blocks sz) A) ?q" using s'(3) by (simp add: pool_wf_def)
    then obtain q where q: "my_mem_free memx (s * memblksize) ?q = (q, 0)"
      "pool_wf memx (insert (s', mem_blocks sz) A - {(s, n)}) q" "membase q = ?m"
      using my_mem_free_block [of memx _ ?q s n] assms(2) by auto
    have res: "myrealloc memx (Some (s * 32)) sz p = (q, Some off)"
      using r Some q(1) by (simp add: myrealloc_def myfree_def memblksize_def)
    have "s' \<in> block (s', mem_blocks sz)" using s'(3) by (auto simp: pool_wf_def block_def)
    then have ne: "(s', mem_blocks sz) \<noteq> (s, n)" using s'(2) assms(2) by blast
    have size: "unat sz \<le> mem_blocks sz * 32" using mem_blocks_bounds(2) [of sz] by (simp add: memblksize_def)
    have dis: "s' + mem_blocks sz \<le> s \<or> s + n \<le> s'"
    proof (rule ccontr)
      assume "\<not> (s' + mem_blocks sz \<le> s \<or> s + n \<le> s')"
      moreover have "0 < n" "0 < mem_blocks sz" using assms s'(3) by (auto simp: pool_wf_def)
      ultimately have "max s s' \<in> block (s', mem_blocks sz)" "max s s' \<in> block (s, n)" by (auto simp: block_def)
      with s'(2) assms(2) show False by blast
    qed
    have copied: "?m (off + i) = membase p (s * 32 + i)" if "i < unat sz" "i < n * 32" for i
    proof -
      have "s * 32 + i < off \<or> off + unat sz \<le> s * 32 + i"
        using dis that size s'(1) by (auto simp: memblksize_def)
      with that(1) show ?thesis by (simp add: mymemcpy_copies s'(5))
    qed
    have others: "?m i = membase p i" if "i div 32 \<notin> block (s', mem_blocks sz)" for i
    proof -
      have "i < off \<or> off + unat sz \<le> i" using that size s'(1) by (auto simp: block_def memblksize_def)
      then show ?thesis by (simp add: mymemcpy_outside s'(5))
    qed
    show ?thesis
      using res s' q ne copied others by (auto simp: memblksize_def insert_Diff_if)
  qed
qed

theorem myrealloc_correct_witness:
  "case myrealloc 1 (Some (1918 * 32)) 100 (fst (mymalloc 1 40 fresh_pool)) of
     (p', Some off) \<Rightarrow> membase p' off = 0 | (p', None) \<Rightarrow> p' = fst (mymalloc 1 40 fresh_pool)"
proof -
  have wf: "pool_wf 1 {} fresh_pool" by (simp add: fresh_pool_def pool_wf_init)
  obtain p' where p': "mymalloc 1 40 fresh_pool = (p', Some (1918 * 32))" using fresh_malloc by blast
  with mymalloc_correct [OF wf, of 40] have w: "pool_wf 1 {(1918, 2)} p'" "membase p' = membase fresh_pool"
    by (auto simp: blocks_40)
  have z: "membase p' 61376 = 0" using w(2) by (simp add: fresh_pool_def my_mem_init_def mymemset_def memsize_def)
  from myrealloc_correct [OF w(1), of 1918 2 100] z p' show ?thesis
    by (auto split: prod.splits option.splits dest: spec [of _ 0])
qed

subsection \<open>The memory of lwIP\<close>

text \<open>
  The memory for the network stack is all or nothing: either every request got a block of its own next to the
  blocks already in use, or the pool holds exactly the blocks it held before.
\<close>

theorem lwip_memory_all_or_nothing:
  assumes "pool_wf 0 A p" "lwip_comm_mem_malloc sizes p = (p', rs, res)"
  shows "if res = 0
     then \<exists>bs. distinct bs \<and> set bs \<inter> A = {} \<and> pool_wf 0 (set bs \<union> A) p' \<and>
            rs = map (\<lambda>b. Some (fst b * 32)) bs \<and> length bs = length sizes
     else pool_wf 0 A p' \<and> (\<forall>i<memtblsize 0. memmap p' i = memmap p i)"
  using lwip_comm_mem_malloc_holds [OF assms] pool_wf_map [OF _ assms(1), of p']
  by (auto simp: memblksize_def split: if_splits)

theorem lwip_memory_all_or_nothing_witness:
  "memmap (fst (lwip_comm_mem_malloc [200000, 40] (my_mem_init 0 fresh_pool))) 3199 = 0"
proof -
  let ?p = "my_mem_init 0 fresh_pool"
  have wf: "pool_wf 0 {} ?p" by (rule pool_wf_init)
  obtain p' rs res where r: "lwip_comm_mem_malloc [200000, 40] ?p = (p', rs, res)"
    by (cases "lwip_comm_mem_malloc [200000, 40] ?p")
  obtain p1 x where m: "my_mem_malloc 0 200000 ?p = (p1, x)" by (cases "my_mem_malloc 0 200000 ?p")
  have "x = None"
  proof (cases x)
    case (Some off)
    with m show ?thesis using my_mem_malloc_Some [OF wf, of 200000 p1 off] by (auto simp: memsize_def)
  qed
  with m r have "res = 1"
    by (auto simp: lwip_comm_mem_malloc_def mymalloc_def Let_def split: prod.splits if_splits)
  with lwip_memory_all_or_nothing [OF wf r] r show ?thesis
    by (simp add: memtblsize_def my_mem_init_def mymemset_def)
qed

end
