(* ===== verification/BusSpec.thy ===== *)
theory BusSpec
  imports Clock Eeprom
begin

text \<open>
  The contract of the bus of \<^verbatim>\<open>myiic.c\<close> and \<^verbatim>\<open>iicrw.c\<close>, and of the clock behind it.
\<close>

subsection \<open>Bytes on the lines\<close>

text \<open>
  C23: A byte sent over the bus is what a receiver that samples the data line at each rising clock reads, the data line
  does not change while the clock is high, and waiting for an acknowledge succeeds exactly when one of the first 251
  polls finds the line low, and ends otherwise.
\<close>

theorem byte_on_the_bus:
  "data_stable scl s (IIC_Send_Byte b) \<and> length (clocked s (IIC_Send_Byte b)) = 8 \<and>
   snd (IIC_Read_Byte (\<lambda>i. clocked s (IIC_Send_Byte b) ! i) ack) = b \<and>
   (snd (IIC_Wait_Ack high) = 0 \<longleftrightarrow> (\<exists>k\<le>250. \<not> high k))"
proof (intro conjI)
  show "data_stable scl s (IIC_Send_Byte b)" by (simp add: IIC_Send_Byte_def data_stable_Send_Byte_loop)
  show "length (clocked s (IIC_Send_Byte b)) = 8" by (simp add: clocked_Send_Byte)
  show "snd (IIC_Read_Byte (\<lambda>i. clocked s (IIC_Send_Byte b) ! i) ack) = b"
  proof (rule bit_word_eqI)
    fix k :: nat assume "k < LENGTH(8)"
    then have k: "k < 8" by simp
    have "bit (snd (IIC_Read_Byte (\<lambda>i. clocked s (IIC_Send_Byte b) ! i) ack)) k = clocked s (IIC_Send_Byte b) ! (7 - k)"
      using k by (simp add: IIC_Read_Byte_def split_beta Let_def bit_Read_Byte_loop)
    also have "\<dots> = bit b k" using k nth_upt [of 0 "7 - k" 8] by (simp add: clocked_Send_Byte)
    finally show "bit (snd (IIC_Read_Byte (\<lambda>i. clocked s (IIC_Send_Byte b) ! i) ack)) k = bit b k" .
  qed
  show "snd (IIC_Wait_Ack high) = 0 \<longleftrightarrow> (\<exists>k\<le>250. \<not> high k)"
    using IIC_Wait_Ack_loop_result [of 0 high 0] by (simp add: IIC_Wait_Ack_def split_beta Let_def)
qed

subsection \<open>The mutex of the bus\<close>

text \<open>
  C24: Every transfer - the reads and writes of a run of registers, of a byte of the EEPROM, and of the pointer and the
  temperature of the sensor, all the code that uses the mutex - takes the mutex of the bus before it touches the bus
  and gives it back, whatever is acknowledged, except the reading of the temperature: when its address is not
  acknowledged it keeps the mutex, and the next transfer waits for ever.
\<close>

theorem bus_mutex:
  "mutex_disciplined (fst (IICRead nack rx sa ra n)) \<and> mutex_disciplined (fst (IICWrite nack sa wa bs)) \<and>
   mutex_disciplined (AT24CXX_ReadOneByte_ops a) \<and> mutex_disciplined (AT24CXX_WriteOneByte_ops a v) \<and>
   mutex_disciplined (fst (LM75_SetPointer nack p)) \<and>
   (mutex_disciplined (fst (LM75_ReadTemp nack rx)) \<longleftrightarrow> \<not> nack 0) \<and>
   (nack 0 \<longrightarrow> mutex_run False (fst (LM75_ReadTemp nack rx) @ fst (IICRead nack' rx' sa ra n)) = None)"
proof -
  have "mutex_disciplined (fst (LM75_ReadTemp nack rx)) \<longleftrightarrow> \<not> nack 0"
    by (simp add: LM75_ReadTemp_def mutex_disciplined_def Let_def)
  moreover have "mutex_run False (fst (LM75_ReadTemp nack rx) @ fst (IICRead nack' rx' sa ra n)) = None" if "nack 0"
    using that by (simp add: LM75_ReadTemp_def IICRead_def Let_def)
  ultimately show ?thesis
    by (simp add: IICRead_disciplined IICWrite_disciplined LM75_SetPointer_disciplined AT24CXX_transfers_disciplined)
qed

theorem bus_mutex_witness:
  "mutex_run False (fst (LM75_ReadTemp (\<lambda>n. True) (\<lambda>n. 0)) @ fst (IICRead (\<lambda>n. False) (\<lambda>n. 0) 0xA2 0 11)) = None"
  using bus_mutex [of "\<lambda>n. True"] by simp

subsection \<open>The clock\<close>

definition valid_time :: "rtc_td \<Rightarrow> bool" where
  "valid_time td \<longleftrightarrow> tm_year td < 100 \<and> 1 \<le> tm_mon td \<and> tm_mon td \<le> 12 \<and> 1 \<le> tm_mday td \<and> tm_mday td \<le> 31 \<and>
     tm_hour td < 24 \<and> tm_min td < 60 \<and> tm_sec td < 60"

text \<open>The day of the week by counting days from 2000-01-01, a Saturday; Sunday is 0, the year counts from 2000.\<close>

definition days_before_month :: "int \<Rightarrow> nat \<Rightarrow> int" where
  "days_before_month y m =
     [0, 31, 59, 90, 120, 151, 181, 212, 243, 273, 304, 334] ! (m - 1) + (if 2 < m \<and> y mod 4 = 0 then 1 else 0)"

definition day_of_week :: "int \<Rightarrow> nat \<Rightarrow> int \<Rightarrow> int" where
  "day_of_week y m d = (6 + 365 * y + (y + 3) div 4 + days_before_month y m + (d - 1)) mod 7"

lemma unat_Hex2BCD:
  assumes "x < (100 :: u8)"
  shows "unat (Hex2BCD x) = 16 * (unat x div 10) + unat x mod 10"
proof -
  have n: "unat x < 100" using assms by (simp add: word_less_nat_alt)
  have "\<not> 99 < x" using n by (simp add: word_less_nat_alt)
  then have h: "Hex2BCD x = push_bit 4 (x div 10) + (x - x div 10 * 10)" by (simp add: Hex2BCD_def)
  have q: "unat (x div 10) = unat x div 10" by (simp add: unat_div)
  have m: "unat x div 10 * 10 \<le> unat x" by simp
  have t: "unat (x div 10 * 10) = unat x div 10 * 10"
    using n m by (simp add: unat_word_ariths q)
  then have "x div 10 * 10 \<le> x" using m by (simp add: word_le_nat_alt)
  then have r: "unat (x - x div 10 * 10) = unat x mod 10"
    by (simp add: unat_sub t) (simp add: minus_div_mult_eq_mod)
  have p: "unat (push_bit 4 (x div 10)) = 16 * (unat x div 10)"
    using n by (simp add: push_bit_eq_mult unat_word_ariths q)
  have "16 * (unat x div 10) + unat x mod 10 < 256" using n by simp
  then show ?thesis unfolding h by (simp add: unat_word_ariths p r)
qed

lemma bcd_round_trip:
  assumes "x < (100 :: u8)"
  shows "of_bcd (Hex2BCD x) = x"
proof -
  have n: "unat x < 100" using assms by (simp add: word_less_nat_alt)
  let ?b = "Hex2BCD x"
  have "unat (drop_bit 4 ?b) = unat x div 10"
    by (simp add: drop_bit_eq_div unat_div unat_Hex2BCD [OF assms])
  moreover have "unat (?b AND 0x0F) = unat x mod 10"
  proof -
    have "?b AND 0x0F = take_bit 4 ?b" by (simp add: take_bit_eq_mask mask_eq_exp_minus_1)
    then show ?thesis by (simp add: take_bit_eq_mod unat_mod unat_Hex2BCD [OF assms])
  qed
  ultimately have "unat (of_bcd ?b) = (unat x div 10 * 10 + unat x mod 10) mod 256"
    using n by (simp add: of_bcd_def unat_word_ariths mod_simps)
  also have "\<dots> = unat x" using n by simp
  finally show ?thesis by (simp add: word_unat_eq_iff)
qed

text \<open>Masking the unused bits of a register keeps a value in range.\<close>

lemma bcd_masks:
  "x < 60 \<Longrightarrow> Hex2BCD x AND 0x7f = Hex2BCD x" "x < 24 \<Longrightarrow> Hex2BCD x AND 0x3f = Hex2BCD x"
  "x \<le> 31 \<Longrightarrow> Hex2BCD x AND 0x3f = Hex2BCD x" "x \<le> 12 \<Longrightarrow> Hex2BCD x AND 0x1f = Hex2BCD x"
  "Hex2BCD x AND 0xff = Hex2BCD x"
proof -
  have g: "w AND mask n = w" if "unat w < 2 ^ n" for w :: u8 and n
    using that by (simp add: take_bit_eq_mask [symmetric] word_unat_eq_iff unsigned_take_bit_eq take_bit_nat_eq_self)
  have mask: "unat w < 128 \<Longrightarrow> w AND 0x7f = w" "unat w < 64 \<Longrightarrow> w AND 0x3f = w" "unat w < 32 \<Longrightarrow> w AND 0x1f = w"
    "unat w < 256 \<Longrightarrow> w AND 0xff = w" for w :: u8
    using g [of w 7] g [of w 6] g [of w 5] g [of w 8] by (simp_all add: mask_eq_exp_minus_1)
  have u: "unat (Hex2BCD x) = 16 * (unat x div 10) + unat x mod 10" if "unat x < 100"
    using that by (intro unat_Hex2BCD) (simp add: word_less_nat_alt)
  show "x < 60 \<Longrightarrow> Hex2BCD x AND 0x7f = Hex2BCD x"
    by (intro mask) (simp add: word_less_nat_alt u)
  show "x < 24 \<Longrightarrow> Hex2BCD x AND 0x3f = Hex2BCD x"
    by (intro mask) (simp add: word_less_nat_alt u)
  show "x \<le> 31 \<Longrightarrow> Hex2BCD x AND 0x3f = Hex2BCD x"
    by (intro mask) (simp add: word_le_nat_alt u)
  show "x \<le> 12 \<Longrightarrow> Hex2BCD x AND 0x1f = Hex2BCD x"
    by (intro mask) (simp add: word_le_nat_alt u)
  show "Hex2BCD x AND 0xff = Hex2BCD x" by (intro mask) (use unsigned_less [of "Hex2BCD x"] in simp)
qed

text \<open>The formula of the code on unbounded numbers.\<close>

definition weekday_sum :: "int \<Rightarrow> int \<Rightarrow> int \<Rightarrow> int" where
  "weekday_sum y m d = d + 2 * m + 3 * (m + 1) div 5 + y + y div 4"

lemma weekday_sum_correct:
  assumes "0 \<le> y" "1 \<le> m" "m \<le> 12"
  shows "(weekday_sum (if m < 3 then y - 1 else y) (int (if m < 3 then m + 12 else m)) d + 1) mod 7 = day_of_week y m d"
proof -
  define k r where "k = y div 4" and "r = y mod 4"
  have y: "y = 4 * k + r" by (simp add: k_def r_def)
  have r: "r = 0 \<or> r = 1 \<or> r = 2 \<or> r = 3" unfolding r_def by presburger
  have m: "m = 1 \<or> m = 2 \<or> m = 3 \<or> m = 4 \<or> m = 5 \<or> m = 6 \<or> m = 7 \<or> m = 8 \<or> m = 9 \<or> m = 10 \<or> m = 11 \<or> m = 12"
    using assms(2,3) by presburger
  have q: "(4 * k + c) div 4 = k + c div 4" "(4 * k + c) mod 4 = c mod 4" for c by presburger+
  have p: "(4 * k - 1) div 4 = k - 1" "(4 * k) div 4 = k" "(4 * k) mod 4 = 0" by presburger+
  show ?thesis
    unfolding y weekday_sum_def day_of_week_def days_before_month_def using r m
    by (elim disjE) (simp_all add: p q mod_eq_dvd_iff)
qed

lemma uint_of_int_mod7: "uint (of_int (z mod 7) :: u8) = z mod 7"
  by (simp add: unsigned_of_int take_bit_int_eq_self)

lemma weekday_reg_sum:
  assumes "uint (tm_year td) < 100"
  shows "uint (weekday_reg td) = (weekday_sum (uint (tm_year td)) (uint (tm_mon td)) (uint (tm_mday td)) + 1) mod 7"
proof -
  let ?z = "weekday_sum (uint (tm_year td)) (uint (tm_mon td)) (uint (tm_mday td))"
  have "uint (tm_year td) div 100 = 0" "uint (tm_year td) div 400 = 0" using assms by simp_all
  then have raw: "weekday_raw td = of_int (?z mod 7)" by (simp add: weekday_raw_def weekday_sum_def)
  have u: "uint (weekday_raw td) = ?z mod 7" unfolding raw by (rule uint_of_int_mod7)
  have "weekday_raw td = 6 \<longleftrightarrow> uint (weekday_raw td) = 6" by (simp add: word_uint_eq_iff)
  moreover have "uint (weekday_raw td + 1) = ?z mod 7 + 1"
  proof -
    have "uint (weekday_raw td) < 7" "0 \<le> uint (weekday_raw td)" by (simp_all add: u)
    then show ?thesis by (simp add: uint_word_ariths u)
  qed
  ultimately have "uint (weekday_reg td) = (if ?z mod 7 = 6 then 0 else ?z mod 7 + 1)"
    by (simp add: weekday_reg_def u)
  also have "\<dots> = (?z + 1) mod 7" by presburger
  finally show ?thesis .
qed

lemma weekday_reg_value:
  assumes "valid_time td" "2 < tm_mon td \<or> 0 < tm_year td"
  shows "uint (weekday_reg (shift_month td)) = day_of_week (uint (tm_year td)) (unat (tm_mon td)) (uint (tm_mday td))"
proof -
  have v: "unat (tm_year td) < 100" "1 \<le> unat (tm_mon td)" "unat (tm_mon td) \<le> 12"
    using assms(1) by (simp_all add: valid_time_def word_less_nat_alt word_le_nat_alt)
  have ref: "(weekday_sum (if unat (tm_mon td) < 3 then uint (tm_year td) - 1 else uint (tm_year td))
      (int (if unat (tm_mon td) < 3 then unat (tm_mon td) + 12 else unat (tm_mon td))) (uint (tm_mday td)) + 1) mod 7
      = day_of_week (uint (tm_year td)) (unat (tm_mon td)) (uint (tm_mday td))"
    using v by (intro weekday_sum_correct) simp_all
  have early: "tm_mon td = 1 \<or> tm_mon td = 2 \<longleftrightarrow> unat (tm_mon td) < 3"
    using v(2) by (auto simp: word_unat_eq_iff)
  show ?thesis
  proof (cases "unat (tm_mon td) < 3")
    case True
    then have "0 < tm_year td" using assms(2) by (auto simp: word_less_nat_alt)
    then have y: "uint (tm_year td - 1) = uint (tm_year td) - 1"
      by (simp add: uint_sub_if' word_less_def)
    have "uint (tm_mon td) \<le> 12" using v(3) by (metis of_nat_le_iff of_nat_numeral uint_nat)
    then have m: "uint (tm_mon td + 12) = int (unat (tm_mon td) + 12)"
      by (simp add: uint_word_ariths)
    have "uint (tm_year td) < 100" using v(1) by (metis of_nat_less_iff of_nat_numeral uint_nat)
    with True early ref y m show ?thesis
      by (subst weekday_reg_sum) (simp_all add: shift_month_def)
  next
    case False
    have "uint (tm_year td) < 100" using v(1) by (metis of_nat_less_iff of_nat_numeral uint_nat)
    with False early ref show ?thesis
      by (subst weekday_reg_sum) (simp_all add: shift_month_def)
  qed
qed

text \<open>
  C25: What is written to the clock is what is read back from it, for every valid time of the century; and the
  register of the weekday is right except in the first two months of the year 2000.
\<close>

theorem clock_roundtrip:
  assumes "valid_time td"
  shows "PCF8563_Get (\<lambda>n. False) (\<lambda>i. fst (PCF8563_Set_regs td) ! i) junk td0 = td \<and>
    (2 < tm_mon td \<or> 0 < tm_year td \<longrightarrow> uint (fst (PCF8563_Set_regs td) ! 6) =
       day_of_week (uint (tm_year td)) (unat (tm_mon td)) (uint (tm_mday td)))"
proof (intro conjI impI)
  let ?r = "\<lambda>i. fst (PCF8563_Set_regs td) ! i"
  have lt: "tm_year td < 100" "tm_mon td < 100" "tm_mday td < 100" "tm_hour td < 100" "tm_min td < 100" "tm_sec td < 100"
    using assms by (simp_all add: valid_time_def word_less_nat_alt word_le_nat_alt)
  have b: "read_time (\<lambda>n. False) ?r junk = Some (\<lambda>i. if i = 2 then Hex2BCD (tm_sec td) else if i = 3 then Hex2BCD (tm_min td)
      else if i = 4 then Hex2BCD (tm_hour td) else if i = 5 then Hex2BCD (tm_mday td) else if i = 7 then Hex2BCD (tm_mon td)
      else if i = 8 then Hex2BCD (tm_year td) else (if i < 11 then ?r i else junk i))"
    using bcd_masks assms
    by (auto simp: read_time_def IICRead_def Let_def PCF8563_Set_regs_def valid_time_def fun_eq_iff nth_append)
  show "PCF8563_Get (\<lambda>n. False) ?r junk td0 = td"
    by (simp add: PCF8563_Get_def b bcd_round_trip lt)
  show "uint (?r 6) = day_of_week (uint (tm_year td)) (unat (tm_mon td)) (uint (tm_mday td))"
    if "2 < tm_mon td \<or> 0 < tm_year td"
    using weekday_reg_value [OF assms that] by (simp add: PCF8563_Set_regs_def Let_def)
qed

theorem clock_roundtrip_witness:
  fixes td
  defines "td \<equiv> \<lparr>tm_year = 20, tm_mon = 2, tm_mday = 29, tm_hour = 23, tm_min = 59, tm_sec = 58\<rparr>"
  shows "PCF8563_Get (\<lambda>n. False) (\<lambda>i. fst (PCF8563_Set_regs td) ! i) (\<lambda>i. 0) td = td \<and>
    uint (fst (PCF8563_Set_regs td) ! 6) = 6"
  using clock_roundtrip [of td "\<lambda>i. 0" td]
  by (simp add: td_def valid_time_def day_of_week_def days_before_month_def)

end
