(* ===== verification/TextSpec.thy ===== *)
theory TextSpec
  imports WebCgi WriteFrame
begin

text \<open>
  The texts of the configuration pages: an address as the page shows it is read back as the same address, and a
  network page sent back as it was shown gives the device those parameters.
\<close>

subsection \<open>Addresses\<close>

lemma ipStrToInt_digits:
  assumes "\<forall>c\<in>set ds. is_digit c"
  shows "ipStrToInt_loop (ds @ rest) (of_nat v) dot a = ipStrToInt_loop rest (of_nat (dec_value v ds)) dot a"
  using assms
proof (induction ds arbitrary: v)
  case (Cons c ds)
  then have c: "is_digit c" "c \<noteq> CHR ''.''" by (auto simp: is_digit_def)
  then have "48 \<le> (of_char c :: nat)" by (simp add: is_digit_def)
  then have "of_nat v * 10 + of_nat (of_char c) - (48 :: s32) = of_nat (v * 10 + (of_char c - 48))"
    by (simp add: algebra_simps)
  with Cons.IH [of "v * 10 + (of_char c - 48)"] Cons.prems c show ?case by (simp del: of_nat_diff of_nat_add of_nat_mult)
qed simp

lemma ipStrToInt_fmt:
  "ipStrToInt_loop (fmt_d (uint (b :: u8)) @ rest) 0 dot a = ipStrToInt_loop rest (ucast b) dot a"
  using ipStrToInt_digits [OF fmt_nat_digits, of "unat b" rest 0 dot a]
  by (simp add: fmt_d_def)

lemma small_word [simp]: "0 \<le> sint (ucast (b :: u8) :: s32)" "sint (ucast (b :: u8) :: s32) \<le> 255"
proof -
  have u: "uint (ucast b :: s32) = uint b" by (simp add: uint_up_ucast is_up)
  have lt: "uint b < 256" using uint_lt2p [of b] by simp
  have "sint (ucast b :: s32) = uint b"
    using lt u by (simp add: sint_uint signed_take_bit_int_eq_self uint_nonnegative order_trans [of _ 0])
  then show "0 \<le> sint (ucast b :: s32)" "sint (ucast b :: s32) \<le> 255" using lt by simp_all
qed

lemma fmt_d_not_dot [simp]:
  "hd (fmt_d (uint (b :: u8))) \<noteq> CHR ''.''" "fmt_d (uint (b :: u8)) \<noteq> []" "hd (fmt_d (uint (b :: u8)) @ rest) \<noteq> CHR ''.''"
proof -
  show n: "fmt_d (uint b) \<noteq> []" by (simp add: fmt_d_def)
  have "is_digit (hd (fmt_d (uint b)))"
    using fmt_nat_digits [of "unat b"] fmt_nat_ne [of "unat b"] by (simp add: fmt_d_def)
  then show h: "hd (fmt_d (uint b)) \<noteq> CHR ''.''" by (auto simp: is_digit_def)
  with n show "hd (fmt_d (uint b) @ rest) \<noteq> CHR ''.''" by simp
qed

lemma down_up [simp]: "ucast (ucast (b :: u8) :: s32) = b"
  by (rule bit_word_eqI) (auto simp: bit_simps dest: bit_imp_le_length)

lemma ipStrToInt_fmt_ip:
  "ipStrToInt a (fmt_ip b) = (a(0 := b 0, 1 := b 1, 2 := b 2, 3 := b 3), 0)"
  using ipStrToInt_fmt [of "b 3" "[]" 3]
  by (simp add: eval_nat_numeral ipStrToInt_def fmt_ip_def ipStrToInt_fmt)

lemma nibble [simp]: "unat (b :: u8) div 16 < 16"
  using unsigned_less [of b, where ?'a = nat] by simp

lemma hex_digit_upper:
  assumes "n < 16"
  shows "hex_digit (hex_upper n) = Some (of_nat n)" "hex_upper n \<noteq> CHR '':''"
proof -
  have h: "hex_digit (hex_upper n) = Some (of_nat n)"
    
    using assms by (cases "n < 10") (simp_all add: hex_digit_def hex_upper_def)
  then show "hex_upper n \<noteq> CHR '':''" by (auto simp: hex_digit_def)
  show "hex_digit (hex_upper n) = Some (of_nat n)" by (rule h)
qed

lemma macStrToInt_fmt:
  "macStrToInt_loop (fmt_02X b @ rest) 0 dot a = macStrToInt_loop rest (ucast b) dot a"
proof -
  have n: "unat b div 16 < 16" "unat b mod 16 < 16" by simp_all
  have "of_nat (unat b div 16) * 16 + of_nat (unat b mod 16) = (of_nat (unat b div 16 * 16 + unat b mod 16) :: s32)"
    by (simp only: of_nat_add of_nat_mult of_nat_numeral)
  also have "\<dots> = ucast b" by (simp only: div_mult_mod_eq) simp
  finally show ?thesis using n by (simp add: fmt_02X_def hex_digit_upper)
qed

lemma hd_fmt_02X [simp]: "hd (fmt_02X b) \<noteq> CHR '':''" "hd (fmt_02X b @ rest) \<noteq> CHR '':''" "fmt_02X b \<noteq> []"
  using hex_digit_upper(2) [of "unat b div 16"] by (simp_all add: fmt_02X_def)

lemma macStrToInt_fmt_mac:
  "macStrToInt a (fmt_mac b) = (a(0 := b 0, 1 := b 1, 2 := b 2, 3 := b 3, 4 := b 4, 5 := b 5), 0)"
  using macStrToInt_fmt [of "b 5" "[]" 5]
  by (simp add: eval_nat_numeral macStrToInt_def fmt_mac_def macStrToInt_fmt)

subsection \<open>The network page\<close>

definition network_form :: "(nat \<Rightarrow> u8) \<Rightarrow> (nat \<Rightarrow> u8) \<Rightarrow> (nat \<Rightarrow> u8) \<Rightarrow> (nat \<Rightarrow> u8) \<Rightarrow> params" where
  "network_form mac ip msk gw =
     [(''LAN'', ''1''), (''MAC'', fmt_mac mac), (''IP'', fmt_ip ip), (''SUBMASK'', fmt_ip msk), (''GATEWEY'', fmt_ip gw)]"

text \<open>
  C26: A network page filled in with the four texts a device shows gives the device that reads it exactly those
  addresses: they are stored in the EEPROM, the device is reset, and they are what its own page shows.
\<close>

theorem network_page_roundtrip:
  fixes d mac ip msk gw
  defines "d' \<equiv> fst (Network_CGI_Handler (network_form mac ip msk gw) d)"
  shows "d' = Sys_Soft_Reset (WriteNetParasToEEProm (d\<lparr>
      lw_mac := (lw_mac d)(0 := mac 0, 1 := mac 1, 2 := mac 2, 3 := mac 3, 4 := mac 4, 5 := mac 5),
      lw_ip := set4 (ip 0) (ip 1) (ip 2) (ip 3) (lw_ip d),
      lw_netmask := set4 (msk 0) (msk 1) (msk 2) (msk 3) (lw_netmask d),
      lw_gateway := set4 (gw 0) (gw 1) (gw 2) (gw 3) (lw_gateway d)\<rparr>)) \<and>
    SSIHandler t 0 d' = Some (d', fmt_mac mac) \<and> SSIHandler t 1 d' = Some (d', fmt_ip ip) \<and>
    SSIHandler t 2 d' = Some (d', fmt_ip msk) \<and> SSIHandler t 3 d' = Some (d', fmt_ip gw)"
proof -
  have find: "FindCGIParameter ''LAN'' (network_form mac ip msk gw)"
    by (simp add: FindCGIParameter_def network_form_def)
  have d': "d' = Sys_Soft_Reset (WriteNetParasToEEProm (d\<lparr>
      lw_mac := (lw_mac d)(0 := mac 0, 1 := mac 1, 2 := mac 2, 3 := mac 3, 4 := mac 4, 5 := mac 5),
      lw_ip := set4 (ip 0) (ip 1) (ip 2) (ip 3) (lw_ip d),
      lw_netmask := set4 (msk 0) (msk 1) (msk 2) (msk 3) (lw_netmask d),
      lw_gateway := set4 (gw 0) (gw 1) (gw 2) (gw 3) (lw_gateway d)\<rparr>))"
    using find unfolding d'_def
    by (simp add: Network_CGI_Handler_def lwip_reset_netif_ipaddr_def network_form_def Network_param_def
        ipStrToInt_fmt_ip macStrToInt_fmt_mac set4_def)
  have "lw_mac d' = (lw_mac d)(0 := mac 0, 1 := mac 1, 2 := mac 2, 3 := mac 3, 4 := mac 4, 5 := mac 5)"
    "lw_ip d' = set4 (ip 0) (ip 1) (ip 2) (ip 3) (lw_ip d)"
    "lw_netmask d' = set4 (msk 0) (msk 1) (msk 2) (msk 3) (lw_netmask d)"
    "lw_gateway d' = set4 (gw 0) (gw 1) (gw 2) (gw 3) (lw_gateway d)"
    unfolding d' by (simp_all add: Sys_Soft_Reset_def WriteNetParasToEEProm_def Let_def)
  then have "fmt_mac (lw_mac d') = fmt_mac mac" "fmt_ip (lw_ip d') = fmt_ip ip"
    "fmt_ip (lw_netmask d') = fmt_ip msk" "fmt_ip (lw_gateway d') = fmt_ip gw"
    by (simp_all add: fmt_mac_def fmt_ip_def set4_def)
  with d' show ?thesis by (simp add: SSIHandler_def)
qed

end
