(* ===== verification/MenuWf.thy ===== *)
theory MenuWf
  imports MenuEffect
begin

text \<open>
  The invariant of the menu: the row cursor names an entry of the screen's list, the cursor within a row an
  editable place, and the edited texts have their lengths.
\<close>

subsection \<open>Texts of the time\<close>

definition digit_at :: "u8 list \<Rightarrow> nat \<Rightarrow> bool" where
  "digit_at s i \<longleftrightarrow> 0x30 \<le> s ! i \<and> s ! i \<le> 0x39"

definition num2 :: "u8 list \<Rightarrow> nat \<Rightarrow> nat" where
  "num2 s i = 10 * (unat (s ! i) - 48) + (unat (s ! (i + 1)) - 48)"

text \<open>A time as the clock gives it: a date and a time of this century, with every number in its range.\<close>

definition time_text :: "u8 list \<Rightarrow> bool" where
  "time_text s \<longleftrightarrow>
     length s = 19 \<and> s ! 0 = 0x32 \<and> s ! 1 = 0x30 \<and> s ! 4 = 0x2D \<and> s ! 7 = 0x2D \<and> s ! 13 = 0x3A \<and> s ! 16 = 0x3A \<and>
     digit_at s 2 \<and> digit_at s 3 \<and> digit_at s 5 \<and> digit_at s 6 \<and> digit_at s 8 \<and> digit_at s 9 \<and>
     digit_at s 11 \<and> digit_at s 12 \<and> digit_at s 14 \<and> digit_at s 15 \<and> digit_at s 17 \<and> digit_at s 18 \<and>
     1 \<le> num2 s 5 \<and> num2 s 5 \<le> 12 \<and> 1 \<le> num2 s 8 \<and> num2 s 8 \<le> 31 \<and>
     num2 s 11 < 24 \<and> num2 s 14 < 60 \<and> num2 s 17 < 60"

lemma pair_length [simp]:
  "length (pair_up i t v t0 v0 s) = length s" "length (pair_down i t v t0 v0 s) = length s"
  by (simp_all add: pair_up_def pair_down_def)

lemma pair_other [simp]:
  "j \<noteq> i \<Longrightarrow> j \<noteq> Suc i \<Longrightarrow> pair_up i t v t0 v0 s ! j = s ! j"
  "j \<noteq> i \<Longrightarrow> j \<noteq> Suc i \<Longrightarrow> pair_down i t v t0 v0 s ! j = s ! j"
  by (simp_all add: pair_up_def pair_down_def)

lemma unat_pred: "0 < unat (w :: u8) \<Longrightarrow> unat (w - 1) = unat w - 1"
  by (metis Suc_leI One_nat_def unat_1 unat_sub word_le_nat_alt)

lemmas pair_arith = unat_pred num2_def digit_at_def word_le_nat_alt word_less_nat_alt unat_word_ariths word_unat_eq_iff

lemma pair_up_digits:
  assumes "i + 1 < length s" "digit_at s i" "digit_at s (i + 1)" "t \<le> 0x39" "v \<le> 0x39"
    "0x30 \<le> t0" "t0 \<le> 0x39" "0x30 \<le> v0" "v0 \<le> 0x39"
  shows "digit_at (pair_up i t v t0 v0 s) i" "digit_at (pair_up i t v t0 v0 s) (Suc i)"
  using assms by (auto simp: pair_up_def pair_arith split: if_splits)

lemma pair_down_digits:
  assumes "i + 1 < length s" "digit_at s i" "digit_at s (i + 1)" "0x30 \<le> t" "0x30 \<le> v"
    "0x30 \<le> t0" "t0 \<le> 0x39" "0x30 \<le> v0" "v0 \<le> 0x39"
  shows "digit_at (pair_down i t v t0 v0 s) i" "digit_at (pair_down i t v t0 v0 s) (Suc i)"
  using assms by (auto simp: pair_down_def pair_arith split: if_splits)

lemma pair_up_num:
  assumes "i + 1 < length s" "digit_at s i" "digit_at s (i + 1)"
  shows "1 \<le> num2 s i \<Longrightarrow> num2 s i \<le> 12 \<Longrightarrow>
      1 \<le> num2 (pair_up i 0x31 0x32 0x30 0x31 s) i \<and> num2 (pair_up i 0x31 0x32 0x30 0x31 s) i \<le> 12"
    "1 \<le> num2 s i \<Longrightarrow> num2 s i \<le> 31 \<Longrightarrow>
      1 \<le> num2 (pair_up i 0x33 0x31 0x30 0x31 s) i \<and> num2 (pair_up i 0x33 0x31 0x30 0x31 s) i \<le> 31"
    "num2 s i < 24 \<Longrightarrow> num2 (pair_up i 0x32 0x33 0x30 0x30 s) i < 24"
    "num2 s i < 60 \<Longrightarrow> num2 (pair_up i 0x35 0x39 0x30 0x30 s) i < 60"
  using assms by (auto simp: pair_up_def pair_arith split: if_splits)

lemma pair_down_num:
  assumes "i + 1 < length s" "digit_at s i" "digit_at s (i + 1)"
  shows "1 \<le> num2 s i \<Longrightarrow> num2 s i \<le> 12 \<Longrightarrow>
      1 \<le> num2 (pair_down i 0x30 0x31 0x31 0x32 s) i \<and> num2 (pair_down i 0x30 0x31 0x31 0x32 s) i \<le> 12"
    "1 \<le> num2 s i \<Longrightarrow> num2 s i \<le> 31 \<Longrightarrow>
      1 \<le> num2 (pair_down i 0x30 0x31 0x33 0x31 s) i \<and> num2 (pair_down i 0x30 0x31 0x33 0x31 s) i \<le> 31"
    "num2 s i < 24 \<Longrightarrow> num2 (pair_down i 0x30 0x30 0x32 0x33 s) i < 24"
    "num2 s i < 60 \<Longrightarrow> num2 (pair_down i 0x30 0x30 0x35 0x39 s) i < 60"
  using assms by (auto simp: pair_down_def pair_arith split: if_splits)

lemma pair_elsewhere [simp]:
  "j \<noteq> i \<Longrightarrow> j \<noteq> Suc i \<Longrightarrow> digit_at (pair_up i t v t0 v0 s) j = digit_at s j"
  "j \<noteq> i \<Longrightarrow> j \<noteq> Suc i \<Longrightarrow> digit_at (pair_down i t v t0 v0 s) j = digit_at s j"
  "j \<noteq> i \<Longrightarrow> j \<noteq> Suc i \<Longrightarrow> Suc j \<noteq> i \<Longrightarrow> num2 (pair_up i t v t0 v0 s) j = num2 s j"
  "j \<noteq> i \<Longrightarrow> j \<noteq> Suc i \<Longrightarrow> Suc j \<noteq> i \<Longrightarrow> num2 (pair_down i t v t0 v0 s) j = num2 s j"
  by (simp_all add: digit_at_def num2_def)

lemma time_text_edited:
  assumes "time_text s"
  shows "time_text (date_up fx s)" "time_text (time_up fx s)" "time_text (date_down fx s)" "time_text (time_down fx s)"
proof -
  note up = pair_up_digits [where s = s] pair_up_num [where s = s]
    and down = pair_down_digits [where s = s] pair_down_num [where s = s]
  show "time_text (date_up fx s)"
    using assms up [where i = 2] up [where i = 5] up [where i = 8] unfolding time_text_def date_up_def by simp
  show "time_text (time_up fx s)"
    using assms up [where i = 11] up [where i = 14] up [where i = 17] unfolding time_text_def time_up_def by simp
  show "time_text (date_down fx s)"
    using assms down [where i = 2] down [where i = 5] down [where i = 8] unfolding time_text_def date_down_def by simp
  show "time_text (time_down fx s)"
    using assms down [where i = 11] down [where i = 14] down [where i = 17] unfolding time_text_def time_down_def by simp
qed

subsection \<open>Setting the clock\<close>

lemma strtol_number:
  assumes "ds \<noteq> []" "\<forall>c\<in>set ds. is_digit c"
  shows "fst (strtol ds) = clamp_long (int (dec_value 0 ds))"
  using strtol_digits [OF assms, of "[]"] by simp

lemma char_digit: "digit_at s i \<Longrightarrow> is_digit (char_of (unat (s ! i)))"
proof -
  assume "digit_at s i"
  then have "unat (s ! i) < 256" "48 \<le> unat (s ! i)" "unat (s ! i) \<le> 57" by (simp_all add: digit_at_def word_le_nat_alt)
  then show ?thesis by (simp add: is_digit_def)
qed

lemma digit_no_delim: "is_digit c \<Longrightarrow> c \<noteq> CHR ''-''" "is_digit c \<Longrightarrow> c \<noteq> CHR '':''"
  by (auto simp: is_digit_def)

lemma digit_value: "is_digit c \<Longrightarrow> (of_char c :: nat) - 48 \<le> 9"
  by (auto simp: is_digit_def)

lemma split_date:
  assumes "is_digit a" "is_digit b" "is_digit c" "is_digit d" "is_digit e" "is_digit f" "is_digit g" "is_digit h"
  shows "splitStrToInt {CHR ''-''} [a, b, c, d, CHR ''-'', e, f, CHR ''-'', g, h] =
    Some [int (dec_value 0 [a, b, c, d]), int (dec_value 0 [e, f]), int (dec_value 0 [g, h])]"
proof -
  note ne = assms [THEN digit_no_delim(1)]
  have two: "is_digit x \<Longrightarrow> is_digit y \<Longrightarrow> fst (strtol [x, y]) = int (dec_value 0 [x, y])" for x y
    using strtol_number [of "[x, y]"] digit_value [of x] digit_value [of y] by (simp add: clamp_long_def)
  have four: "fst (strtol [a, b, c, d]) = int (dec_value 0 [a, b, c, d])"
    using strtol_number [of "[a, b, c, d]"] assms digit_value [of a] digit_value [of b] digit_value [of c]
      digit_value [of d] by (simp add: clamp_long_def)
  show ?thesis
    by (simp add: splitStrToInt_def strtok_def ne two assms eval_nat_numeral four del: dec_value.simps)
qed

lemma split_time:
  assumes "is_digit e" "is_digit f" "is_digit g" "is_digit h" "is_digit i" "is_digit j"
  shows "splitStrToInt {CHR '':''} [e, f, CHR '':'', g, h, CHR '':'', i, j] =
    Some [int (dec_value 0 [e, f]), int (dec_value 0 [g, h]), int (dec_value 0 [i, j])]"
proof -
  note ne = assms [THEN digit_no_delim(2)]
  have two: "is_digit x \<Longrightarrow> is_digit y \<Longrightarrow> fst (strtol [x, y]) = int (dec_value 0 [x, y])" for x y
    using strtol_number [of "[x, y]"] digit_value [of x] digit_value [of y] by (simp add: clamp_long_def)
  show ?thesis
    by (simp add: splitStrToInt_def strtok_def ne two assms eval_nat_numeral del: dec_value.simps)
qed

definition text_time :: "u8 list \<Rightarrow> rtc_td" where
  "text_time s = \<lparr>tm_year = of_nat (num2 s 2), tm_mon = of_nat (num2 s 5), tm_mday = of_nat (num2 s 8),
     tm_hour = of_nat (num2 s 11), tm_min = of_nat (num2 s 14), tm_sec = of_nat (num2 s 17)\<rparr>"

lemma digit_byte: "digit_at s i \<Longrightarrow> 48 \<le> unat (s ! i) \<and> unat (s ! i) \<le> 57"
  by (simp add: digit_at_def word_le_nat_alt)

lemma parse_time_text:
  assumes "time_text s"
  shows "parse_rtc (chars s) = Some (text_time s)"
proof -
  let ?c = "\<lambda>i. char_of (unat (s ! i)) :: char"
  have len: "length s = 19" using assms by (simp add: time_text_def)
  have c: "chars s = map ?c [0..<19]"
    by (rule nth_equalityI) (simp_all add: chars_def len)
  have fixed: "?c 4 = CHR ''-''" "?c 7 = CHR ''-''" "?c 13 = CHR '':''" "?c 16 = CHR '':''" "?c 0 = CHR ''2''" "?c 1 = CHR ''0''"
    using assms by (simp_all add: time_text_def char_of_eq_iff)
  have dig: "is_digit (?c 2)" "is_digit (?c 3)" "is_digit (?c 5)" "is_digit (?c 6)" "is_digit (?c 8)" "is_digit (?c 9)"
    "is_digit (?c 11)" "is_digit (?c 12)" "is_digit (?c 14)" "is_digit (?c 15)" "is_digit (?c 17)" "is_digit (?c 18)"
    using assms by (simp_all add: time_text_def char_digit)
  have lead: "is_digit (CHR ''2'')" "is_digit (CHR ''0'')" by (simp_all add: is_digit_def)
  have date: "take 10 (chars s) = [CHR ''2'', CHR ''0'', ?c 2, ?c 3, CHR ''-'', ?c 5, ?c 6, CHR ''-'', ?c 8, ?c 9]"
  proof -
    have "take 10 (chars s) = [?c 0, ?c 1, ?c 2, ?c 3, ?c 4, ?c 5, ?c 6, ?c 7, ?c 8, ?c 9]"
      unfolding c by (simp add: take_map) (simp add: eval_nat_numeral)
    then show ?thesis by (simp only: fixed)
  qed
  have clock: "take 8 (drop 11 (chars s)) = [?c 11, ?c 12, CHR '':'', ?c 14, ?c 15, CHR '':'', ?c 17, ?c 18]"
    unfolding c by (simp add: drop_map upt_rec_numeral fixed)
  have val: "unat w mod 256 = unat w" for w :: u8 using unsigned_less [of w, where ?'a = nat] by simp
  have pair: "dec_value 0 [?c i, ?c j] = num2 s i" if "j = i + 1" for i j
    using that by (simp add: val num2_def)
  have year: "int (dec_value 0 [CHR ''2'', CHR ''0'', ?c 2, ?c 3]) - 2000 = int (num2 s 2)"
    using assms digit_byte [of s 2] digit_byte [of s 3] by (simp add: val num2_def time_text_def)
  have "length (chars s) = 19" by (simp add: chars_def len)
  then show ?thesis
    by (simp add: parse_rtc_def date clock split_date split_time dig lead pair text_time_def year
        del: dec_value.simps of_int_diff)
qed

lemma num2_bound: "digit_at s i \<Longrightarrow> digit_at s (i + 1) \<Longrightarrow> num2 s i < 100"
  using digit_byte [of s i] digit_byte [of s "i + 1"] by (auto simp: num2_def)

subsection \<open>Cursors\<close>

text \<open>The row cursor counts from 1 to the number of entries.\<close>

definition row_in :: "u8 \<Rightarrow> u8 \<Rightarrow> bool" where
  "row_in r n \<longleftrightarrow> 1 \<le> r \<and> r \<le> n"

definition row_before :: "u8 \<Rightarrow> u8 \<Rightarrow> u8" where
  "row_before n r = (if r - 1 < 1 then n else r - 1)"

definition row_after :: "u8 \<Rightarrow> u8 \<Rightarrow> u8" where
  "row_after n r = (if r + 1 > n then 1 else r + 1)"

lemma row_up_eq: "row_up n u = u\<lparr>row_point := row_before n (row_point u)\<rparr>"
  and row_down_eq: "row_down n u = u\<lparr>row_point := row_after n (row_point u)\<rparr>"
  by (simp_all add: row_up_def row_down_def row_before_def row_after_def Let_def)

lemma row_before_in:
  assumes "row_in r m" "1 \<le> n" "n \<le> m"
  shows "row_in (row_before n r) m"
  using assms unat_pred [of r] by (auto simp: row_in_def row_before_def word_le_nat_alt word_less_nat_alt)

lemma row_after_in:
  assumes "row_in r m" "1 \<le> n" "n \<le> m" "m < 0xFF"
  shows "row_in (row_after n r) m"
proof (cases "r + 1 > n")
  case True
  then show ?thesis using assms by (auto simp: row_in_def row_after_def)
next
  case False
  have "unat r < 255" using assms by (simp add: row_in_def word_le_nat_alt word_less_nat_alt)
  then have "unat (r + 1) = unat r + 1" by (simp add: unat_word_ariths)
  moreover have "unat (r + 1) \<le> unat n" using False by (simp only: word_less_nat_alt not_less)
  ultimately show ?thesis using False assms by (auto simp: row_in_def row_after_def word_le_nat_alt)
qed

definition fx_in :: "int \<Rightarrow> s8 \<Rightarrow> int \<Rightarrow> bool" where
  "fx_in lo x hi \<longleftrightarrow> lo \<le> sint x \<and> sint x \<le> hi"

definition fx_before :: "s8 \<Rightarrow> s8 \<Rightarrow> s8" where
  "fx_before n x = (if sint (x - 1) < 1 then n else x - 1)"

definition fx_after :: "s8 \<Rightarrow> s8 \<Rightarrow> s8" where
  "fx_after n x = (if sint (x + 1) > sint n then 1 else x + 1)"

lemma fx_left_eq: "fx_left n u = u\<lparr>row_fx_pos := fx_before n (row_fx_pos u)\<rparr>"
  and fx_right_eq: "fx_right n u = u\<lparr>row_fx_pos := fx_after n (row_fx_pos u)\<rparr>"
  by (simp_all add: fx_left_def fx_right_def fx_before_def fx_after_def Let_def)

lemma s8_step:
  "- 128 < sint (x :: s8) \<Longrightarrow> sint (x - 1) = sint x - 1" "sint (x :: s8) < 127 \<Longrightarrow> sint (x + 1) = sint x + 1"
proof -
  have r: "- 128 \<le> sint x" "sint x < 128" using sint_greater_eq [of x] sint_less [of x] by simp_all
  show "- 128 < sint x \<Longrightarrow> sint (x - 1) = sint x - 1"
    using r by (simp add: sint_word_ariths) (subst signed_take_bit_int_eq_self, simp_all)
  show "sint x < 127 \<Longrightarrow> sint (x + 1) = sint x + 1"
    using r by (simp add: sint_word_ariths) (subst signed_take_bit_int_eq_self, simp_all)
qed

lemma fx_before_in: "fx_in 1 x m \<Longrightarrow> 1 \<le> sint n \<Longrightarrow> sint n \<le> m \<Longrightarrow> fx_in 1 (fx_before n x) m"
  using s8_step(1) [of x] by (auto simp: fx_in_def fx_before_def)

lemma fx_after_in: "fx_in 1 x m \<Longrightarrow> 1 \<le> sint n \<Longrightarrow> sint n \<le> m \<Longrightarrow> m < 127 \<Longrightarrow> fx_in 1 (fx_after n x) m"
  using s8_step(2) [of x] by (auto simp: fx_in_def fx_after_def)

end
