(* ===== verification/MenuInv.thy ===== *)
theory MenuInv
  imports MenuWf
begin

text \<open>
  The invariant of the menu, \<open>menu_wf\<close>: the screen is one that \<^verbatim>\<open>main_task\<close> handles, the row cursor names an entry
  of its list, the cursor within a row an editable place of the text, and the texts have their lengths.  It is
  what keeps every indexed access of the menu inside its array.
\<close>

definition menu_screens :: "screen set" where
  "menu_screens = {1, 3, 4, 5, 6, 7, 8, 9, 10, 11, 12, 13, 14, 15, 16, 17, 18, 19, 25, 26, 27, 28} \<union>
     {30..50} \<union> {100..128}"

text \<open>The entries of a screen's list; 0 for a screen without one.\<close>

definition row_limit :: "screen \<Rightarrow> u8" where
  "row_limit s =
     (if s = SetScreen \<or> s = InqScreen then 9
      else if s \<in> {SuperUserRootScreen, SetEthParaScreen, InqEthParaScreen, InqAFangQuParaScreen, InqBFangQuParaScreen}
      then 4
      else if s \<in> {OrdinaryUserRootScreen, SetBuFangParaScreen, SetClearRecordScreen, InqAlarmRecordScreen,
                   SetAFangQuParaScreen, SetBFangQuParaScreen} then 3
      else if s = InqSysParaScreen then 1
      else if s \<in> {TensionMonitorScreen, SetSysScreen, SetFangQuParaScreen, CalibrationSetScreen,
                   SetAlarmThresholdScreen, InqFangQuParaScreen, InqCalibrationValScreen, InqZeroValScreen,
                   InqDatumValScreen, SetDateTimeScreen, ZeroCalibrationScreen, DatumCalibrationScreen,
                   InqDuanLuAlarmScreen, InqDuanXianAlarmScreen, ClearDuanLuAlarmRecordScreen,
                   ClearDuanXianAlarmRecordScreen, SetExtDeviceTypeScreen} then 2
      else 0)"

text \<open>The last editable place of the row under the cursor, and whether the places count from 0 or 1.\<close>

definition fx_limit :: "screen \<Rightarrow> int" where
  "fx_limit s =
     (if s = InputPasswordScreen then 5
      else if s \<in> {SetIpAddrScreen, SetSubnetMaskScreen, SetGateWayScreen} then 15
      else if s = SetFullScaleScreen then 3
      else if s = SetBaseAutoCalibrateTimeScreen then 5
      else 0)"

definition cursor_ok :: "ui \<Rightarrow> bool" where
  "cursor_ok u \<longleftrightarrow>
     (row_limit (current_screen u) \<noteq> 0 \<longrightarrow> row_in (row_point u) (row_limit (current_screen u))) \<and>
     (fx_limit (current_screen u) \<noteq> 0 \<longrightarrow>
        fx_in (if current_screen u = InputPasswordScreen then 0 else 1) (row_fx_pos u) (fx_limit (current_screen u)))"

definition texts_ok :: "ui \<Rightarrow> bool" where
  "texts_ok u \<longleftrightarrow>
     length (inputPassword u) = 6 \<and> length (eth_ip_addr u) = 16 \<and> length (eth_subnet_mask u) = 16 \<and>
     length (eth_gateway u) = 16 \<and> length (eth_mac_addr u) = 18 \<and>
     (current_screen u = SetFullScaleScreen \<longrightarrow> 3 \<le> length (tension_max_range_temp u)) \<and>
     (current_screen u = SetBaseAutoCalibrateTimeScreen \<longrightarrow> length (base_auto_calibrate_time_tmp u) = 5)"

definition mode_ok :: "ui \<Rightarrow> bool" where
  "mode_ok u \<longleftrightarrow>
     (flag_PageState u \<or> current_screen u \<in> {SetDateTimeScreen, SetBuFangParaScreen, SetAlarmThresholdScreen,
        SetAFangQuParaScreen, SetBFangQuParaScreen, SetExtDeviceTypeScreen}) \<and>
     (time_pending u \<longrightarrow> rtc_ok (device u\<lparr>rtcTempStr := rtcTempStr_temp_test u\<rparr>))"

definition menu_wf :: "ui \<Rightarrow> bool" where
  "menu_wf u \<longleftrightarrow>
     current_screen u \<in> menu_screens \<and> (UserId u = SuperUser \<or> UserId u = OrdinaryUser) \<and>
     cursor_ok u \<and> texts_ok u \<and> mode_ok u"

lemmas wf_defs = menu_wf_def cursor_ok_def texts_ok_def mode_ok_def

lemma ui_init_wf: "menu_wf (ui_init d)"
  by (simp add: wf_defs ui_init_def menu_screens_def row_limit_def fx_limit_def time_pending_def ascii_def)

subsection \<open>One screen after the other\<close>

definition keeps_wf :: "screen \<Rightarrow> u32 \<Rightarrow> ui \<Rightarrow> ui \<Rightarrow> bool" where
  "keeps_wf s key u u' \<longleftrightarrow> (current_screen u = s \<longrightarrow> menu_wf u \<longrightarrow> rtc_ok (device u) \<longrightarrow> menu_wf u')"

lemma keeps_wfI:
  "(\<And>key u. current_screen u = s \<Longrightarrow> menu_wf u \<Longrightarrow> rtc_ok (device u) \<Longrightarrow> menu_wf (f key u)) \<Longrightarrow> every (keeps_wf s) f"
  by (simp add: every_def keeps_wf_def)

lemma row_in_ends [simp]: "1 \<le> n \<Longrightarrow> row_in 1 n" "1 \<le> n \<Longrightarrow> row_in n n"
  by (simp_all add: row_in_def)

lemma row_in_2: "row_in r 2 \<longleftrightarrow> r = 1 \<or> r = 2"
  by (auto simp: row_in_def word_le_nat_alt word_unat_eq_iff)

lemma zones_shown_bound [simp]: "1 \<le> zones_shown u" "zones_shown u \<le> 2"
  by (simp_all add: zones_shown_def)

lemma drawn_fields [simp]:
  "menu_wf (draw n u) = menu_wf u" "menu_wf (arrow u) = menu_wf u" "menu_wf (arrow_capped u) = menu_wf u"
  "menu_wf (DisplayRunMenu u) = menu_wf u" "menu_wf (u\<lparr>no_key_num := k\<rparr>) = menu_wf u"
  "menu_wf (u\<lparr>display_xinghao := x\<rparr>) = menu_wf u"
  by (simp_all add: DisplayRunMenu_def draw_def arrow_def arrow_capped_def wf_defs time_pending_def)

lemma draw_arrow_fields [simp]:
  "device (draw n u) = device u" "device (arrow u) = device u" "device (arrow_capped u) = device u"
  "current_screen (draw n u) = current_screen u" "current_screen (arrow u) = current_screen u"
  "current_screen (arrow_capped u) = current_screen u" "flag_PageState (draw n u) = flag_PageState u"
  "flag_PageState (arrow u) = flag_PageState u" "flag_PageState (arrow_capped u) = flag_PageState u"
  "flag_PageState (DisplayRunMenu u) = flag_PageState u" "current_screen (DisplayRunMenu u) = current_screen u"
  "row_point (draw n u) = row_point u" "row_point (arrow u) = row_point u" "row_point (arrow_capped u) = row_point u"
  by (simp_all add: DisplayRunMenu_def draw_def arrow_def arrow_capped_def)

lemma menu_wf_move:
  assumes "menu_wf u" "flag_PageState u" "s \<in> menu_screens" "fx_limit s = 0"
  shows "menu_wf (u\<lparr>row_point := 1, current_screen := s\<rparr>)"
    "row_limit s = 0 \<Longrightarrow> menu_wf (u\<lparr>current_screen := s\<rparr>)"
proof -
  have "s \<noteq> SetFullScaleScreen" "s \<noteq> SetBaseAutoCalibrateTimeScreen" using assms(4) by (auto simp: fx_limit_def)
  moreover have "row_in 1 n" if "n \<noteq> 0" for n
    using that by (simp add: row_in_def word_le_nat_alt unat_gt_0 Suc_le_eq)
  ultimately show "menu_wf (u\<lparr>row_point := 1, current_screen := s\<rparr>)"
    "row_limit s = 0 \<Longrightarrow> menu_wf (u\<lparr>current_screen := s\<rparr>)"
    using assms by (simp_all add: wf_defs time_pending_def)
qed

lemma wf_flag: "menu_wf u \<Longrightarrow> current_screen u \<notin> {18, 10, 103, 8, 9, 47} \<Longrightarrow> flag_PageState u"
  by (auto simp: menu_wf_def mode_ok_def)

lemma menu_wf_device [simp]: "menu_wf (u\<lparr>device := d\<rparr>) = menu_wf u" "menu_wf (on_device f u) = menu_wf u"
  by (simp_all add: on_device_def wf_defs time_pending_def rtc_ok_def)

lemma on_device_fields [simp]:
  "current_screen (on_device f u) = current_screen u" "flag_PageState (on_device f u) = flag_PageState u"
  "row_point (on_device f u) = row_point u" "row_fx_pos (on_device f u) = row_fx_pos u"
  by (simp_all add: on_device_def)

text \<open>The three ways to another screen, and the moves in a list.\<close>

lemma move_wf [simp]:
  assumes "menu_wf u" "flag_PageState u" "s \<in> menu_screens" "fx_limit s = 0"
  shows "menu_wf (goto_screen s (draw n) u)" "menu_wf (goto_late s (draw n) u)"
    "row_limit s = 0 \<Longrightarrow> menu_wf (show_screen s (draw n) u)" "menu_wf (show_screen s (draw n) (u\<lparr>row_point := 1\<rparr>))"
  using menu_wf_move [OF assms]
  by (simp_all add: goto_screen_def goto_late_def show_screen_def draw_def arrow_def wf_defs time_pending_def)

lemma back_wf [simp]:
  assumes "menu_wf u" "flag_PageState u"
  shows "menu_wf (back_to_root u)" "menu_wf (back_to_SetMenu u)" "menu_wf (back_to_InqMenu u)"
    "menu_wf (back_to_InqAlarmRecord u)"
  using assms by (simp_all add: back_to_root_def back_to_SetMenu_def back_to_InqMenu_def back_to_InqAlarmRecord_def
      menu_screens_def fx_limit_def)

lemma login_wf [simp]:
  assumes "menu_wf u" "flag_PageState u"
  shows "menu_wf (back_to_login u)"
  using assms by (simp add: back_to_login_def draw_def wf_defs time_pending_def menu_screens_def row_limit_def
      fx_limit_def ascii_def)

lemma row_wf [simp]:
  assumes "menu_wf u" "1 \<le> n" "n \<le> row_limit (current_screen u)"
  shows "menu_wf (row_up n u)" "menu_wf (row_down n u)"
proof -
  have "row_limit s < 0xFF" for s by (simp add: row_limit_def)
  moreover have "row_limit (current_screen u) \<noteq> 0" using assms by (auto simp: word_le_nat_alt)
  ultimately show "menu_wf (row_up n u)" "menu_wf (row_down n u)"
    using assms row_before_in [of "row_point u" "row_limit (current_screen u)" n]
      row_after_in [of "row_point u" "row_limit (current_screen u)" n]
    by (simp_all add: row_up_eq row_down_eq wf_defs time_pending_def)
qed

lemma keys4_wf [simp]:
  assumes "menu_wf (esc u)" "menu_wf (enter u)" "menu_wf (up u)" "menu_wf (down u)" "menu_wf u"
  shows "menu_wf (keys4 esc enter up down key u)"
  using assms by (simp add: keys4_def)

lemma keys6_wf [simp]:
  assumes "menu_wf (esc u)" "menu_wf (enter u)" "menu_wf (up u)" "menu_wf (down u)" "menu_wf (left u)"
    "menu_wf (right u)" "menu_wf u"
  shows "menu_wf (keys6 esc enter up down left right key u)"
  using assms by (simp add: keys6_def)

lemmas limit_defs = menu_screens_def row_limit_def fx_limit_def

lemma goto_zone_wf [simp]:
  assumes "menu_wf u" "flag_PageState u"
  shows "menu_wf (goto_screen SetFangQuParaScreen DiaplaySetFangQuPara u)"
  using menu_wf_move(1) [OF assms, of SetFangQuParaScreen]
  by (simp add: goto_screen_def DiaplaySetFangQuPara_def draw_def arrow_def wf_defs time_pending_def menu_screens_def
      row_limit_def fx_limit_def)

lemma draw_zone_wf [simp]: "menu_wf (DiaplaySetFangQuPara u) = menu_wf u"
  by (simp add: DiaplaySetFangQuPara_def draw_def wf_defs time_pending_def)

lemma root_wf:
  "every (keeps_wf SuperUserRootScreen) on_SuperUserRootScreen"
  "every (keeps_wf OrdinaryUserRootScreen) on_OrdinaryUserRootScreen"
  "every (keeps_wf InqScreen) on_InqScreen" "every (keeps_wf TensionMonitorScreen) on_TensionMonitorScreen"
  "every (keeps_wf VerScreen) on_VerScreen" "every (keeps_wf SetSysScreen) on_SetSysScreen"
  "every (keeps_wf CalibrationSetScreen) on_CalibrationSetScreen"
  "every (keeps_wf SetFangQuParaScreen) on_SetFangQuParaScreen" "every (keeps_wf SetMacAddrScreen) on_SetMacAddrScreen"
  by (rule keeps_wfI; frule wf_flag;
      simp add: on_SuperUserRootScreen_def on_OrdinaryUserRootScreen_def on_InqScreen_def on_TensionMonitorScreen_def
        on_VerScreen_def on_SetSysScreen_def on_CalibrationSetScreen_def on_SetFangQuParaScreen_def
        on_SetMacAddrScreen_def limit_defs)+

lemma inq_wf:
  "every (keeps_wf InqSysParaScreen) on_InqSysParaScreen" "every (keeps_wf InqFangQuParaScreen) on_InqFangQuParaScreen"
  "every (keeps_wf InqBuFangParaScreen) on_InqBuFangParaScreen"
  "every (keeps_wf InqAlarmThresholdScreen) on_InqAlarmThresholdScreen"
  "every (keeps_wf InqExtDeviceTypeScreen) on_InqExtDeviceTypeScreen"
  "every (keeps_wf InqFullScaleScreen) on_InqFullScaleScreen"
  "every (keeps_wf InqBaseAutoCalibrateTimeScreen) on_InqBaseAutoCalibrateTimeScreen"
  "every (keeps_wf InqCalibrationValScreen) on_InqCalibrationValScreen"
  "every (keeps_wf InqZeroValScreen) on_InqZeroValScreen" "every (keeps_wf InqDatumValScreen) on_InqDatumValScreen"
  "every (keeps_wf InqAFangQuParaScreen) on_InqAFangQuParaScreen"
  "every (keeps_wf InqBFangQuParaScreen) on_InqBFangQuParaScreen"
  "every (keeps_wf NotAtValidRangeScreen) on_NotAtValidRangeScreen"
  by (rule keeps_wfI; frule wf_flag;
      simp add: on_InqSysParaScreen_def on_InqFangQuParaScreen_def on_InqBuFangParaScreen_def
        on_InqAlarmThresholdScreen_def on_InqExtDeviceTypeScreen_def on_InqFullScaleScreen_def
        on_InqBaseAutoCalibrateTimeScreen_def on_InqCalibrationValScreen_def on_InqZeroValScreen_def
        on_InqDatumValScreen_def on_InqAFangQuParaScreen_def on_InqBFangQuParaScreen_def
        on_NotAtValidRangeScreen_def limit_defs)+

text \<open>Screens that share their code.\<close>

definition plain :: "screen \<Rightarrow> bool" where
  "plain s \<longleftrightarrow> s \<notin> {18, 10, 103, 8, 9, 47}"

lemma wf_plain: "menu_wf u \<Longrightarrow> plain (current_screen u) \<Longrightarrow> flag_PageState u"
  by (rule wf_flag) (simp_all add: plain_def)

lemma shared_wf:
  assumes "plain s"
  shows "every (keeps_wf s) on_InqAareaZeroValScreen" "every (keeps_wf s) on_InqAareaDatumValScreen"
    "every (keeps_wf s) on_CaliOverZeroValScreen" "every (keeps_wf s) on_CaliOverDatumValScreen"
    "every (keeps_wf s) on_InqAddrScreen"
  using assms
  by (rule_tac keeps_wfI; frule_tac wf_plain;
      simp add: on_InqAareaZeroValScreen_def on_InqAareaDatumValScreen_def on_CaliOverZeroValScreen_def
        on_CaliOverDatumValScreen_def on_InqAddrScreen_def limit_defs)+

subsection \<open>Login and texts\<close>

lemma login_screens_wf:
  "every (keeps_wf UserLoginScreen) on_UserLoginScreen" "every (keeps_wf PasswordErrorScreen) on_PasswordErrorScreen"
  by (rule keeps_wfI; frule wf_flag;
      simp add: on_UserLoginScreen_def on_PasswordErrorScreen_def toggle_user_def keys4_def;
      auto simp: wf_defs time_pending_def draw_def limit_defs ascii_def fx_in_def)+

lemma set_digit_wf [simp]: "menu_wf (set_digit c u) = menu_wf u"
  by (simp add: set_digit_def wf_defs time_pending_def)

lemma set_digit_fields [simp]:
  "current_screen (set_digit c u) = current_screen u" "row_fx_pos (set_digit c u) = row_fx_pos u"
  by (simp_all add: set_digit_def)

lemma password_wf: "every (keeps_wf InputPasswordScreen) on_InputPasswordScreen"
proof (rule keeps_wfI)
  fix key u
  assume u: "current_screen u = InputPasswordScreen" "menu_wf u"
  have flag: "flag_PageState u" using wf_flag [OF u(2)] u(1) by simp
  have fx: "0 \<le> sint (row_fx_pos u)" "sint (row_fx_pos u) \<le> 5"
    using u by (simp_all add: menu_wf_def cursor_ok_def fx_limit_def fx_in_def)
  have move: "menu_wf (u\<lparr>row_fx_pos := x\<rparr>)" if "0 \<le> sint x" "sint x \<le> 5" for x
    using u that by (simp add: wf_defs time_pending_def fx_in_def fx_limit_def row_limit_def)
  have out: "menu_wf (u\<lparr>current_screen := RunScreen, inputPassword := ascii ''0$$$$$'', display_xinghao := x\<rparr>)" for x
    using u flag by (simp add: wf_defs time_pending_def limit_defs ascii_def)
  have check: "menu_wf (check_password u)"
    using u flag by (simp add: check_password_def limit_defs Let_def)
  show "menu_wf (on_InputPasswordScreen key u)"
    using u out check move s8_step [of "row_fx_pos u"] fx
    by (simp add: on_InputPasswordScreen_def Let_def)
qed

lemma put_octets_length [simp]: "length (put_octets a t) = length t"
  by (simp add: put_octets_def put_octet_def upt_rec)

lemma put_mac_length [simp]: "length (put_mac_byte i b t) = length t"
  by (simp add: put_mac_byte_def HEX2ASCII_def)

lemma mac_wf [simp]: "menu_wf (MacAddrInsertMaohao u) = menu_wf u"
proof -
  have "length (fold (\<lambda>i. put_mac_byte i (f i)) is t) = length t" for f "is" t
    by (induction "is" arbitrary: t) simp_all
  then show ?thesis by (simp add: MacAddrInsertMaohao_def wf_defs time_pending_def)
qed

lemma get_wf [simp]: "menu_wf (GetIpAddr u) = menu_wf u" "menu_wf (GetSubNetMask u) = menu_wf u"
  "menu_wf (GetGateWay u) = menu_wf u"
  by (simp_all add: GetIpAddr_def GetSubNetMask_def GetGateWay_def wf_defs time_pending_def)

lemma get_fields [simp]:
  "flag_PageState (GetIpAddr u) = flag_PageState u" "flag_PageState (GetSubNetMask u) = flag_PageState u"
  "flag_PageState (GetGateWay u) = flag_PageState u" "flag_PageState (MacAddrInsertMaohao u) = flag_PageState u"
  by (simp_all add: GetIpAddr_def GetSubNetMask_def GetGateWay_def MacAddrInsertMaohao_def)

lemma open_address_wf [simp]:
  assumes "menu_wf u" "flag_PageState u"
  shows "menu_wf (show_screen SetIpAddrScreen (draw n) (u\<lparr>row_point := 1, row_fx_pos := 1\<rparr>))"
    "menu_wf (show_screen SetSubnetMaskScreen (draw n) (u\<lparr>row_point := 1, row_fx_pos := 1\<rparr>))"
    "menu_wf (show_screen SetGateWayScreen (draw n) (u\<lparr>row_point := 1, row_fx_pos := 1\<rparr>))"
  using assms by (simp_all add: show_screen_def draw_def wf_defs time_pending_def limit_defs fx_in_def)

lemma move_wf_plain [simp]:
  assumes "menu_wf u" "flag_PageState u" "s \<in> menu_screens" "fx_limit s = 0" "row_limit s = 0"
  shows "menu_wf (u\<lparr>current_screen := s\<rparr>)" "menu_wf (u\<lparr>row_point := 1, current_screen := s\<rparr>)"
  using menu_wf_move [OF assms(1-4)] assms(5) by simp_all

lemma commute_get:
  "GetIpAddr (u\<lparr>row_point := r\<rparr>) = (GetIpAddr u)\<lparr>row_point := r\<rparr>"
  "GetSubNetMask (u\<lparr>row_point := r\<rparr>) = (GetSubNetMask u)\<lparr>row_point := r\<rparr>"
  "GetGateWay (u\<lparr>row_point := r\<rparr>) = (GetGateWay u)\<lparr>row_point := r\<rparr>"
  "MacAddrInsertMaohao (u\<lparr>row_point := r\<rparr>) = (MacAddrInsertMaohao u)\<lparr>row_point := r\<rparr>"
  "(MacAddrInsertMaohao (draw n u)) = draw n (MacAddrInsertMaohao u)"
  "(draw n u)\<lparr>current_screen := s\<rparr> = draw n (u\<lparr>current_screen := s\<rparr>)"
  by (simp_all add: GetIpAddr_def GetSubNetMask_def GetGateWay_def MacAddrInsertMaohao_def draw_def)

lemma addresses_wf:
  "every (keeps_wf SetEthParaScreen) on_SetEthParaScreen" "every (keeps_wf InqEthParaScreen) on_InqEthParaScreen"
  by (rule keeps_wfI; frule wf_flag;
      simp add: on_SetEthParaScreen_def on_InqEthParaScreen_def limit_defs commute_get DisplaySetMacAddr_def
        DisplayInqMacAddr_def show_screen_def [where display = DisplayInqMacAddr])+

subsection \<open>The settings menu\<close>

lemma fmt_nat_length: "0 < length (fmt_nat n)" "n < 10 ^ k \<Longrightarrow> 0 < k \<Longrightarrow> length (fmt_nat n) \<le> k"
proof -
  show "0 < length (fmt_nat n)" by simp
  show "n < 10 ^ k \<Longrightarrow> 0 < k \<Longrightarrow> length (fmt_nat n) \<le> k"
  proof (induction n arbitrary: k rule: fmt_nat.induct)
    case (1 n)
    show ?case
    proof (cases "n < 10")
      case True
      then show ?thesis using 1(3) by (simp add: fmt_nat.simps)
    next
      case False
      with 1(2) obtain k' where k': "k = Suc k'" "0 < k'"
        by (cases k; cases "k - 1") auto
      then have "n div 10 < 10 ^ k'" using 1(2) by (simp add: less_mult_imp_div_less mult.commute)
      from 1(1) [OF False this k'(2)] show ?thesis using k' False by (simp add: fmt_nat.simps [of n])
    qed
  qed
qed

lemma fmt_0d_length: "n < 10 ^ k \<Longrightarrow> 0 < k \<Longrightarrow> length (fmt_0d k n) = k" "k \<le> length (fmt_0d k n)"
  using fmt_nat_length(2) [of n k] by (simp_all add: fmt_0d_def pad_left_def)

lemma full_scale_wf [simp]:
  assumes "menu_wf u" "flag_PageState u" "3 \<le> length t"
  shows "menu_wf (show_screen SetFullScaleScreen (draw n) (u\<lparr>tension_max_range_temp := t, row_fx_pos := 1\<rparr>))"
  using assms by (simp add: show_screen_def draw_def wf_defs time_pending_def limit_defs fx_in_def)

lemma auto_time_wf [simp]:
  assumes "menu_wf u" "flag_PageState u" "length t = 5"
  shows "menu_wf (show_screen SetBaseAutoCalibrateTimeScreen (draw n)
    (u\<lparr>base_auto_calibrate_time_tmp := t, row_fx_pos := 1\<rparr>))"
  using assms by (simp add: show_screen_def draw_def wf_defs time_pending_def limit_defs fx_in_def)

lemma ext_device_wf [simp]:
  assumes "menu_wf u"
  shows "menu_wf (goto_screen SetExtDeviceTypeScreen (\<lambda>u. draw n (u\<lparr>flag_PageState := NormalState\<rparr>)) u)"
  using assms by (simp add: goto_screen_def draw_def arrow_def wf_defs time_pending_def limit_defs row_in_def)

lemma set_wf: "every (keeps_wf SetScreen) on_SetScreen"
proof (rule keeps_wfI; frule wf_flag)
  fix key u
  assume u: "current_screen u = SetScreen" "menu_wf u" "flag_PageState u"
  have "length (ascii (fmt_0d 3 n)) \<ge> 3" for n using fmt_0d_length(2) [of 3 n] by (simp add: ascii_def)
  moreover have "length (ascii (fmt_0d 5 (unat (w :: u16)))) = 5" for w
    using unsigned_less [of w, where ?'a = nat] fmt_0d_length(1) [of "unat w" 5] by (simp add: ascii_def)
  ultimately show "menu_wf (on_SetScreen key u)"
    using u by (simp add: on_SetScreen_def limit_defs)
qed simp_all

subsection \<open>Records and calibrations\<close>

lemma show_records_wf [simp]:
  "menu_wf (show_records n u) = menu_wf u" "menu_wf (UpdateAlarmRecord u) = menu_wf u"
  by (simp_all add: show_records_def UpdateAlarmRecord_def)

lemma open_records_wf [simp]:
  assumes "menu_wf u" "flag_PageState u" "s \<in> menu_screens" "fx_limit s = 0" "row_limit s = 0"
  shows "menu_wf (open_records t s (show_records n) u)"
  using assms by (auto simp: open_records_def show_screen_def show_records_def UpdateAlarmRecord_def draw_def
      on_device_def wf_defs time_pending_def rtc_ok_def fx_limit_def)

lemma page_keys_wf [simp]: "menu_wf u \<Longrightarrow> menu_wf (back u) \<Longrightarrow> menu_wf (page_keys t (show_records n) back key u)"
  by (simp add: page_keys_def)

lemma records_wf:
  "every (keeps_wf InqAlarmRecordScreen) on_InqAlarmRecordScreen"
  "every (keeps_wf InqDuanLuAlarmScreen) on_InqDuanLuAlarmScreen"
  "every (keeps_wf InqDuanXianAlarmScreen) on_InqDuanXianAlarmScreen"
  "every (keeps_wf InqFangChaiAlarmRecordScreen) on_InqFangChaiAlarmRecordScreen"
  "every (keeps_wf InqAAreaDuanLuAlarmRecordScreen) on_InqAAreaDuanLuAlarmRecordScreen"
  "every (keeps_wf InqBAreaDuanLuAlarmRecordScreen) on_InqBAreaDuanLuAlarmRecordScreen"
  "every (keeps_wf InqAAreaDuanXianAlarmRecordScreen) on_InqAAreaDuanXianAlarmRecordScreen"
  "every (keeps_wf InqBAreaDuanXianAlarmRecordScreen) on_InqBAreaDuanXianAlarmRecordScreen"
  by (rule keeps_wfI; frule wf_flag;
      simp add: on_InqAlarmRecordScreen_def on_InqDuanLuAlarmScreen_def on_InqDuanXianAlarmScreen_def
        on_InqFangChaiAlarmRecordScreen_def on_InqAAreaDuanLuAlarmRecordScreen_def
        on_InqBAreaDuanLuAlarmRecordScreen_def on_InqAAreaDuanXianAlarmRecordScreen_def
        on_InqBAreaDuanXianAlarmRecordScreen_def limit_defs)+

lemma calibration_wf:
  "every (keeps_wf ZeroCalibrationScreen) on_ZeroCalibrationScreen"
  "every (keeps_wf DatumCalibrationScreen) on_DatumCalibrationScreen"
proof -
  have fx: "menu_wf ((goto_screen CalibrationSetScreen (draw n) u)\<lparr>row_fx_pos := 0\<rparr>)"
    if "menu_wf u" "flag_PageState u" for n u
    using that by (simp add: goto_screen_def draw_def arrow_def wf_defs time_pending_def limit_defs row_in_def)
  show "every (keeps_wf ZeroCalibrationScreen) on_ZeroCalibrationScreen"
    "every (keeps_wf DatumCalibrationScreen) on_DatumCalibrationScreen"
    by (rule keeps_wfI; frule wf_flag;
        simp add: fx on_ZeroCalibrationScreen_def on_DatumCalibrationScreen_def start_datum_def limit_defs)+
qed

subsection \<open>Editing\<close>

text \<open>Copies that the invariant does not speak of.\<close>

lemma copies_wf [simp]:
  "menu_wf (u\<lparr>BU_FANG_A_FLAG_TEMP := x1\<rparr>) = menu_wf u" "menu_wf (u\<lparr>BU_FANG_B_FLAG_TEMP := x2\<rparr>) = menu_wf u"
  "menu_wf (u\<lparr>flag_fcgjsn_tmp := x3\<rparr>) = menu_wf u" "menu_wf (u\<lparr>alarm_threshold_up_dif_temp := x4\<rparr>) = menu_wf u"
  "menu_wf (u\<lparr>alarm_threshold_down_dif_temp := x5\<rparr>) = menu_wf u" "menu_wf (u\<lparr>field_num_temp := x6\<rparr>) = menu_wf u"
  "menu_wf (u\<lparr>alarm_delay_temp := x7\<rparr>) = menu_wf u" "menu_wf (u\<lparr>ten_val_range_temp := x8\<rparr>) = menu_wf u"
  "menu_wf (u\<lparr>alarm_sensitivity_temp := x9\<rparr>) = menu_wf u"
  by (simp_all add: wf_defs time_pending_def)

lemma flag_wf [simp]:
  "menu_wf u \<Longrightarrow> menu_wf (u\<lparr>flag_PageState := NormalState\<rparr>)"
  "menu_wf u \<Longrightarrow> \<not> plain (current_screen u) \<Longrightarrow> current_screen u \<noteq> SetDateTimeScreen \<Longrightarrow>
     menu_wf (u\<lparr>flag_PageState := ModifyState\<rparr>)"
  by (simp_all add: wf_defs time_pending_def plain_def)

lemma place_wf [simp]: "fx_limit (current_screen u) = 0 \<Longrightarrow> menu_wf (u\<lparr>row_fx_pos := x\<rparr>) = menu_wf u"
  by (simp add: wf_defs time_pending_def)

lemma fx_wf [simp]:
  "fx_limit (current_screen u) = 0 \<Longrightarrow> menu_wf (fx_left n u) = menu_wf u"
  "fx_limit (current_screen u) = 0 \<Longrightarrow> menu_wf (fx_right n u) = menu_wf u"
  by (simp_all add: fx_left_eq fx_right_eq)

lemma row_set_wf [simp]: "menu_wf u \<Longrightarrow> row_in r (row_limit (current_screen u)) \<Longrightarrow> menu_wf (u\<lparr>row_point := r\<rparr>)"
  by (auto simp: wf_defs time_pending_def)

lemma row_fields [simp]:
  "current_screen (row_up n u) = current_screen u" "current_screen (row_down n u) = current_screen u"
  "device (row_up n u) = device u" "device (row_down n u) = device u"
  by (simp_all add: row_up_eq row_down_eq)

lemma store_arming_wf [simp]:
  assumes "menu_wf u" "fx_limit (current_screen u) = 0"
  shows "menu_wf (store_arming u)"
  using assms by (simp add: store_arming_def store_tamper_def store_arm_A_def store_arm_B_def)

lemma row_within:
  assumes "menu_wf u" "row_limit (current_screen u) \<noteq> 0"
  shows "1 \<le> row_point u" "row_point u \<le> row_limit (current_screen u)"
  using assms by (simp_all add: wf_defs row_in_def)

lemma arming_wf: "every (keeps_wf SetBuFangParaScreen) on_SetBuFangParaScreen"
  by (rule keeps_wfI)
    (simp add: on_SetBuFangParaScreen_def on_SetBuFang_normal_def on_SetBuFang_modify_def edit_arming_def Let_def
      limit_defs plain_def)

lemma threshold_wf: "every (keeps_wf SetAlarmThresholdScreen) on_SetAlarmThresholdScreen"
proof (rule keeps_wfI)
  fix key u
  assume u: "current_screen u = SetAlarmThresholdScreen" "menu_wf u"
  have "row_point u = 1 \<or> row_point u = 2" using u by (simp add: wf_defs row_limit_def row_in_2)
  then show "menu_wf (on_SetAlarmThresholdScreen key u)"
    using u by (auto simp: on_SetAlarmThresholdScreen_def on_SetAlarmThreshold_normal_def
        on_SetAlarmThreshold_modify_def edit_thrd_def store_thrd_def Let_def limit_defs plain_def row_in_def)
qed

lemma goto_fields [simp]: "current_screen (goto_screen s display u) = s"
  by (simp add: goto_screen_def)

lemma zone_keys_wf [simp]:
  assumes "menu_wf u" "current_screen u = SetAFangQuParaScreen \<or> current_screen u = SetBFangQuParaScreen"
    and "\<And>v. menu_wf (load v) = menu_wf v" "\<And>v. current_screen (load v) = current_screen v"
  shows "flag_PageState u \<Longrightarrow> menu_wf (zone_normal (draw n) load key u)" "menu_wf (zone_modify z (draw n) key u)"
  using assms by (auto simp: zone_normal_def zone_modify_def edit_zone_def store_zone_def Let_def limit_defs plain_def)

lemma zone_wf:
  "every (keeps_wf SetAFangQuParaScreen) on_SetAFangQuParaScreen"
  "every (keeps_wf SetBFangQuParaScreen) on_SetBFangQuParaScreen"
  by (rule keeps_wfI; simp add: on_SetAFangQuParaScreen_def on_SetBFangQuParaScreen_def)+

lemma step_length [simp]: "length (inc_char i hi t) = length t" "length (dec_char i hi t) = length t"
  "length (cap_tens i t) = length t"
  by (simp_all add: inc_char_def dec_char_def cap_tens_def Let_def)

lemma edit_octet_length [simp]: "(\<And>i hi t. length (step i hi t) = length t) \<Longrightarrow> length (edit_octet step fx t) = length t"
  by (simp add: edit_octet_def Let_def)

lemma edit_number_length [simp]:
  "(\<And>i hi t. length (step i hi t) = length t) \<Longrightarrow> length (edit_number step hi n fx t) = length t"
  by (simp add: edit_number_def)

lemma octet_moves_wf:
  assumes "menu_wf u" "fx_limit (current_screen u) = 15" "current_screen u \<noteq> InputPasswordScreen"
  shows "menu_wf (octet_left u)" "menu_wf (octet_right u)"
proof -
  have fx: "fx_in 1 (row_fx_pos u) 15" using assms by (simp add: wf_defs)
  define a where "a = (if row_fx_pos u = 5 \<or> row_fx_pos u = 9 \<or> row_fx_pos u = 13 then row_fx_pos u - 1 else row_fx_pos u)"
  define b where "b = (if row_fx_pos u = 3 \<or> row_fx_pos u = 7 \<or> row_fx_pos u = 11 then row_fx_pos u + 1 else row_fx_pos u)"
  have "octet_left u = u\<lparr>row_fx_pos := fx_before 15 a\<rparr>" "octet_right u = u\<lparr>row_fx_pos := fx_after 15 b\<rparr>"
    by (simp_all add: octet_left_def octet_right_def fx_left_eq fx_right_eq a_def b_def Let_def)
  moreover have "fx_in 1 a 15" "fx_in 1 b 15" using fx by (auto simp: a_def b_def fx_in_def)
  then have "fx_in 1 (fx_before 15 a) 15" "fx_in 1 (fx_after 15 b) 15" by (auto intro: fx_before_in fx_after_in)
  ultimately show "menu_wf (octet_left u)" "menu_wf (octet_right u)"
    using assms by (simp_all add: wf_defs time_pending_def)
qed

lemma address_keys_wf:
  assumes "menu_wf u" "flag_PageState u" "fx_limit (current_screen u) = 15" "current_screen u \<noteq> InputPasswordScreen"
    and "row_limit (current_screen u) = 0"
    and "\<And>f. (\<And>t. length (f t) = length t) \<Longrightarrow> menu_wf (upd f u) = menu_wf u" "menu_wf (store u)" "current_screen (store u) = current_screen u"
  shows "menu_wf (address_keys n store upd key u)"
proof -
  have "menu_wf ((on_device lwip_reset_netif_ipaddr (store u))\<lparr>row_fx_pos := 1\<rparr>)"
    using assms by (auto simp: on_device_def wf_defs time_pending_def fx_in_def rtc_ok_def)
  then show ?thesis using assms octet_moves_wf [OF assms(1,3,4)] by (simp add: address_keys_def limit_defs)
qed

lemma edit_address_wf:
  "every (keeps_wf SetIpAddrScreen) on_SetIpAddrScreen" "every (keeps_wf SetSubnetMaskScreen) on_SetSubnetMaskScreen"
  "every (keeps_wf SetGateWayScreen) on_SetGateWayScreen"
proof -
  have wf: "menu_wf (u\<lparr>eth_ip_addr := f (eth_ip_addr u)\<rparr>) = menu_wf u"
    "menu_wf (u\<lparr>eth_subnet_mask := f (eth_subnet_mask u)\<rparr>) = menu_wf u"
    "menu_wf (u\<lparr>eth_gateway := f (eth_gateway u)\<rparr>) = menu_wf u" if "\<And>t. length (f t) = length t" for f u
    using that by (simp_all add: wf_defs time_pending_def)
  show "every (keeps_wf SetIpAddrScreen) on_SetIpAddrScreen" "every (keeps_wf SetSubnetMaskScreen) on_SetSubnetMaskScreen"
    "every (keeps_wf SetGateWayScreen) on_SetGateWayScreen"
    by (rule keeps_wfI; frule wf_flag;
        simp add: on_SetIpAddrScreen_def on_SetSubnetMaskScreen_def on_SetGateWayScreen_def address_keys_wf wf
          SetIpAddr_def SetSubNetMask_def SetGateWay_def row_limit_def fx_limit_def)+
qed

lemma ext_type_wf: "every (keeps_wf SetExtDeviceTypeScreen) on_SetExtDeviceTypeScreen"
  by (rule keeps_wfI)
    (simp add: on_SetExtDeviceTypeScreen_def on_SetExtDeviceType_normal_def on_SetExtDeviceType_modify_def
      edit_type_def limit_defs plain_def)

lemma number_left_in:
  assumes "fx_in 1 x m" "1 \<le> sint n" "sint n \<le> m"
  shows "fx_in 1 (if x = 1 then n else x - 1) m"
proof (cases "x = 1")
  case False
  have "sint (x - 1) = sint x - 1" using s8_step(1) [of x] assms by (simp add: fx_in_def)
  moreover have "sint (x - 1) \<noteq> 0" using False by (simp add: signed_eq_0_iff)
  ultimately show ?thesis using assms False by (simp add: fx_in_def)
qed (use assms in \<open>simp add: fx_in_def\<close>)

lemma number_left_eq: "number_left n u = u\<lparr>row_fx_pos := (if row_fx_pos u = 1 then n else row_fx_pos u - 1)\<rparr>"
  by (simp add: number_left_def Let_def)

lemma numbers_wf:
  "every (keeps_wf SetFullScaleScreen) on_SetFullScaleScreen"
  "every (keeps_wf SetBaseAutoCalibrateTimeScreen) on_SetBaseAutoCalibrateTimeScreen"
proof -
  have place: "menu_wf (u\<lparr>row_fx_pos := x\<rparr>)"
    if "menu_wf u" "current_screen u \<noteq> InputPasswordScreen" "fx_in 1 x (fx_limit (current_screen u))" for u x
    using that by (auto simp: wf_defs time_pending_def)
  have texts: "menu_wf (u\<lparr>tension_max_range_temp := f (tension_max_range_temp u)\<rparr>) = menu_wf u"
    "menu_wf (u\<lparr>base_auto_calibrate_time_tmp := f (base_auto_calibrate_time_tmp u)\<rparr>) = menu_wf u"
    if "\<And>t. length (f t) = length t" for f u
    using that by (simp_all add: wf_defs time_pending_def)
  have fx: "menu_wf u \<Longrightarrow> current_screen u = SetFullScaleScreen \<Longrightarrow> fx_in 1 (row_fx_pos u) 3"
    "menu_wf u \<Longrightarrow> current_screen u = SetBaseAutoCalibrateTimeScreen \<Longrightarrow> fx_in 1 (row_fx_pos u) 5" for u
    by (simp_all add: wf_defs fx_limit_def)
  have one: "fx_in 1 1 3" "fx_in 1 1 5" by (simp_all add: fx_in_def)
  show "every (keeps_wf SetFullScaleScreen) on_SetFullScaleScreen"
    "every (keeps_wf SetBaseAutoCalibrateTimeScreen) on_SetBaseAutoCalibrateTimeScreen"
    by (rule keeps_wfI; frule wf_flag;
        simp add: on_SetFullScaleScreen_def on_SetBaseAutoCalibrateTimeScreen_def place texts fx one number_left_eq
          number_left_in fx_right_eq fx_after_in row_limit_def fx_limit_def)+
qed

lemma every_keepsD:
  "every (keeps_wf s) f \<Longrightarrow> current_screen u = s \<Longrightarrow> menu_wf u \<Longrightarrow> rtc_ok (device u) \<Longrightarrow> menu_wf (f key u)"
  by (simp add: every_def keeps_wf_def)

lemma keys_wf: "every (keeps_wf s) (screen_keys s)"
proof -
  have same: "every (keeps_wf s) (\<lambda>key u. u)" for s by (simp add: every_def keeps_wf_def)
  show ?thesis
    unfolding screen_keys_def
    by (intro every_if; (elim disjE)?; hypsubst?;
        (rule login_screens_wf password_wf root_wf set_wf inq_wf records_wf calibration_wf addresses_wf arming_wf
          threshold_wf zone_wf edit_address_wf ext_type_wf numbers_wf same
        | rule shared_wf, simp add: plain_def))
qed

subsection \<open>Rounds\<close>

lemma edited_length [simp]: "length (date_up fx t) = length t" "length (time_up fx t) = length t"
  "length (date_down fx t) = length t" "length (time_down fx t) = length t"
  by (simp_all add: date_up_def time_up_def date_down_def time_down_def)

lemma edited_head [simp]: "date_up fx t ! 0 = t ! 0" "time_up fx t ! 0 = t ! 0" "date_down fx t ! 0 = t ! 0"
  "time_down fx t ! 0 = t ! 0"
  by (simp_all add: date_up_def time_up_def date_down_def time_down_def)

lemma rtc_text: "rtc_ok (d\<lparr>rtcTempStr := t\<rparr>) \<longleftrightarrow> length t = 19 \<and> t ! 0 \<noteq> 0xFF \<and> t ! 0 \<noteq> 0"
  by (cases t) (auto simp: rtc_ok_def)

lemma rtc_text_device: "rtc_ok d \<longleftrightarrow> length (rtcTempStr d) = 19 \<and> rtcTempStr d ! 0 \<noteq> 0xFF \<and> rtcTempStr d ! 0 \<noteq> 0"
  using rtc_text [where d = d and t = "rtcTempStr d"] by simp

lemma time_modify_wf [simp]:
  assumes "menu_wf u" "rtc_ok (device u)" "current_screen u = SetDateTimeScreen"
  shows "menu_wf (u\<lparr>rtcTempStr_temp_test := rtcTempStr (device u), flag_PageState := b\<rparr>)"
    "menu_wf (u\<lparr>flag_PageState := NormalState, rtcTempStr_temp_test := t\<rparr>)"
  using assms by (simp_all add: wf_defs time_pending_def rtc_text rtc_text_device fx_limit_def)

lemma edit_time_wf [simp]:
  assumes "menu_wf u"
  shows "menu_wf (edit_time date_up time_up u)" "menu_wf (edit_time date_down time_down u)"
  using assms by (auto simp: edit_time_def Let_def wf_defs time_pending_def rtc_text draw_def)

lemma store_time_wf:
  assumes "store_time nack u = Some u'" "menu_wf u" "current_screen u = SetDateTimeScreen"
  shows "menu_wf u'"
proof -
  have "menu_wf (v\<lparr>clock_ops := c, flag_PageState := NormalState, row_fx_pos := 0\<rparr>)"
    if "menu_wf v" "current_screen v = SetDateTimeScreen" for v c
    using that by (simp add: wf_defs time_pending_def fx_limit_def)
  then show ?thesis using assms by (auto simp: store_time_def Let_def)
qed

lemma date_time_wf:
  assumes "on_SetDateTimeScreen nack key u = Some u'" "menu_wf u" "rtc_ok (device u)" "current_screen u = SetDateTimeScreen"
  shows "menu_wf u'"
proof (cases "flag_PageState u")
  case True
  have move: "menu_wf ((goto_screen SetSysScreen (draw n) u)\<lparr>row_fx_pos := 0\<rparr>)" for n
    using assms True by (simp add: limit_defs)
  with True assms show ?thesis
    by (auto simp: on_SetDateTimeScreen_def on_SetDateTime_normal_def limit_defs)
next
  case False
  with assms show ?thesis
    by (auto simp: on_SetDateTimeScreen_def on_SetDateTime_modify_def limit_defs store_time_wf split: if_splits)
qed

lemma clear_records_wf:
  assumes "clear_records t s (draw n) u = Some u'" "menu_wf u" "flag_PageState u" "s \<in> menu_screens" "fx_limit s = 0"
  shows "menu_wf u'"
  using assms by (auto simp: clear_records_def)

lemma clear_screens_wf:
  assumes "menu_wf u" "flag_PageState u"
  shows "on_SetClearRecordScreen key u = Some u' \<Longrightarrow> current_screen u = SetClearRecordScreen \<Longrightarrow> menu_wf u'"
    "on_ClearDuanLuAlarmRecordScreen key u = Some u' \<Longrightarrow> current_screen u = ClearDuanLuAlarmRecordScreen \<Longrightarrow> menu_wf u'"
    "on_ClearDuanXianAlarmRecordScreen key u = Some u' \<Longrightarrow> current_screen u = ClearDuanXianAlarmRecordScreen \<Longrightarrow> menu_wf u'"
  using assms by (auto simp: clear_defs limit_defs split: if_splits elim!: clear_records_wf)

text \<open>Listing the alarms changes nothing but what it lists.\<close>

definition same_menu :: "ui \<Rightarrow> ui \<Rightarrow> bool" where
  "same_menu u u' \<longleftrightarrow> current_screen u' = current_screen u \<and> row_point u' = row_point u \<and>
     row_fx_pos u' = row_fx_pos u \<and> flag_PageState u' = flag_PageState u \<and> UserId u' = UserId u \<and>
     inputPassword u' = inputPassword u \<and> eth_ip_addr u' = eth_ip_addr u \<and> eth_subnet_mask u' = eth_subnet_mask u \<and>
     eth_gateway u' = eth_gateway u \<and> eth_mac_addr u' = eth_mac_addr u \<and>
     tension_max_range_temp u' = tension_max_range_temp u \<and>
     base_auto_calibrate_time_tmp u' = base_auto_calibrate_time_tmp u \<and>
     rtcTempStr_temp_test u' = rtcTempStr_temp_test u \<and> no_key_num u' = no_key_num u \<and> device u' = device u"

lemma same_menu_refl [simp]: "same_menu u u"
  and same_menu_trans [trans]: "same_menu u v \<Longrightarrow> same_menu v w \<Longrightarrow> same_menu u w"
  and same_menu_draw [simp]: "same_menu u (draw n u)"
  by (simp_all add: same_menu_def draw_def)

lemma same_menu_wf: "same_menu u u' \<Longrightarrow> menu_wf u' = menu_wf u"
  by (simp add: same_menu_def wf_defs time_pending_def)

lemma list_alarms_same: "list_alarms is u = Some u' \<Longrightarrow> same_menu u u'"
proof (induction "is" arbitrary: u)
  case (Cons i "is")
  then obtain v where "list_alarm i u = Some v" "list_alarms is v = Some u'" by (auto simp: bind_eq_Some_conv)
  moreover from this have "same_menu u v" by (auto simp: list_alarm_def split: if_splits)
  ultimately show ?case using Cons.IH same_menu_trans by blast
qed simp

lemma sort_alarms_same: "same_menu u (sort_alarms is u)"
proof (induction "is" arbitrary: u)
  case (Cons i "is")
  have "same_menu u (u\<lparr>alarm_sequence_buf := b, alarm_type_cnt := c\<rparr>)" for b c by (simp add: same_menu_def)
  then show ?case using Cons.IH same_menu_trans by (fastforce split: if_splits)
qed simp

lemma DisplayAlarmTypeList_same:
  assumes "DisplayAlarmTypeList u = Some u'"
  shows "same_menu u u'"
proof -
  have upd: "same_menu u (draw n (u\<lparr>cur_Alarm_Type_Sum := c\<rparr>))" "same_menu v (v\<lparr>alarm_type_cnt := k\<rparr>)"
    "same_menu v (v\<lparr>alarm_rol := r\<rparr>)" "same_menu v (v\<lparr>old_Alarm_Type_Sum := c\<rparr>)" for v n c k r
    by (simp_all add: same_menu_def draw_def)
  have sorted: "same_menu v (sort_alarms (rev [0..<10]) (v\<lparr>alarm_type_cnt := 0\<rparr>)\<lparr>old_Alarm_Type_Sum := c\<rparr>)" for v c
    using upd(2,4) sort_alarms_same same_menu_trans by blast
  have listed: "same_menu v u'" if "list_alarms is (v\<lparr>alarm_rol := r\<rparr>) = Some u'" for v "is" r
    using upd(3) list_alarms_same [OF that] same_menu_trans by blast
  show ?thesis
    using assms by (auto simp: DisplayAlarmTypeList_def Let_def simp del: list_alarms.simps upt_rec_numeral
        split: if_splits intro: same_menu_trans [OF upd(1)] sorted listed)
qed

lemma alarm_list_wf:
  assumes "on_AlarmTypeListScreen key u = Some u'" "menu_wf u" "current_screen u = AlarmTypeListScreen"
  shows "menu_wf u'"
proof -
  have flag: "flag_PageState u" using wf_flag [OF assms(2)] assms(3) by simp
  have list: "menu_wf w" if "DisplayAlarmTypeList v = Some w" "menu_wf v" for v w
    using DisplayAlarmTypeList_same [OF that(1)] that(2) same_menu_wf by blast
  have other: "menu_wf (v\<lparr>alarm_key_adj := k\<rparr>) = menu_wf v" "menu_wf (v\<lparr>alarm_type_cnt := a\<rparr>) = menu_wf v"
    "menu_wf (v\<lparr>old_Alarm_Type_Sum := b\<rparr>) = menu_wf v" "menu_wf (v\<lparr>cur_Alarm_Type_Sum := c\<rparr>) = menu_wf v" for v k a b c
    by (simp_all add: wf_defs time_pending_def)
  have keys: "menu_wf u'" if "alarm_list_keys key v = Some u'" "menu_wf v" "flag_PageState v" for v
    using that by (auto simp: alarm_list_keys_def Let_def limit_defs other split: if_splits elim!: list)
  show ?thesis
  proof (cases "shown_alarms u = 0")
    case True
    then show ?thesis using assms flag
      by (auto simp: on_AlarmTypeListScreen_def other limit_defs)
  next
    case False
    then obtain v where v: "DisplayAlarmTypeList u = Some v" "alarm_list_keys key v = Some u'"
      using assms(1) by (auto simp: on_AlarmTypeListScreen_def bind_eq_Some_conv)
    have "flag_PageState v" using DisplayAlarmTypeList_same [OF v(1)] flag by (simp add: same_menu_def)
    then show ?thesis using keys [OF v(2) list [OF v(1) assms(2)]] by blast
  qed
qed

lemma watched_wf:
  assumes "menu_wf u" "flag_PageState u"
  shows "menu_wf (on_RunScreen key u)" "menu_wf (on_AFangQuMonitorScreen key u)" "menu_wf (on_BFangQuMonitorScreen key u)"
    "s \<in> menu_screens \<Longrightarrow> fx_limit s = 0 \<Longrightarrow> row_limit s = 0 \<Longrightarrow> menu_wf (await_calibration s n u)"
  using assms by (simp_all add: on_RunScreen_def on_AFangQuMonitorScreen_def on_BFangQuMonitorScreen_def
      await_calibration_def Let_def limit_defs)

lemmas await_defs = on_AzeroCalibrationScreen_def on_BzeroCalibrationScreen_def on_AdatumCalibrationScreen_def
  on_BdatumCalibrationScreen_def

text \<open>What a round is, screen by screen.\<close>

definition apart :: "screen \<Rightarrow> bool" where
  "apart s \<longleftrightarrow> s \<in> {RunScreen, AFangQuMonitorScreen, BFangQuMonitorScreen, AzeroCalibrationScreen, BzeroCalibrationScreen,
     AdatumCalibrationScreen, BdatumCalibrationScreen, AlarmTypeListScreen, SetDateTimeScreen, SetClearRecordScreen,
     ClearDuanLuAlarmRecordScreen, ClearDuanXianAlarmRecordScreen}"

lemma screen_round_cases:
  assumes "screen_round nack key u = Some u'"
  obtains (run) "current_screen u = RunScreen" "u' = on_RunScreen key u"
  | (monitor_A) "current_screen u = AFangQuMonitorScreen" "u' = on_AFangQuMonitorScreen key u"
  | (monitor_B) "current_screen u = BFangQuMonitorScreen" "u' = on_BFangQuMonitorScreen key u"
  | (await) s n where "u' = await_calibration s n u" "current_screen u \<in> {112..115}" "s \<in> {117..120}"
  | (alarms) "current_screen u = AlarmTypeListScreen" "on_AlarmTypeListScreen key u = Some u'"
  | (idle) "key = KEY_NO_PRESS" "u' = u"
  | (time) "current_screen u = SetDateTimeScreen" "on_SetDateTimeScreen nack key u = Some u'"
  | (clear) "current_screen u = SetClearRecordScreen" "on_SetClearRecordScreen key u = Some u'"
  | (clear_A) "current_screen u = ClearDuanLuAlarmRecordScreen" "on_ClearDuanLuAlarmRecordScreen key u = Some u'"
  | (clear_B) "current_screen u = ClearDuanXianAlarmRecordScreen" "on_ClearDuanXianAlarmRecordScreen key u = Some u'"
  | (keys) "u' = screen_keys (current_screen u) key u" "key \<noteq> KEY_NO_PRESS" "\<not> apart (current_screen u)"
proof -
  have "u' = await_calibration s n u \<Longrightarrow> current_screen u \<in> {112..115} \<Longrightarrow> s \<in> {117..120} \<Longrightarrow> thesis" for s n
    by (rule await)
  from this [of 117 "''DisplayAareaZeroVal''"] this [of 118 "''DisplayBareaZeroVal''"]
    this [of 119 "''DisplayAareaDatumVal''"] this [of 120 "''DisplayBareaDatumVal''"]
  have watch: "u' = on_AzeroCalibrationScreen u \<Longrightarrow> current_screen u = 112 \<Longrightarrow> thesis"
    "u' = on_BzeroCalibrationScreen u \<Longrightarrow> current_screen u = 113 \<Longrightarrow> thesis"
    "u' = on_AdatumCalibrationScreen u \<Longrightarrow> current_screen u = 114 \<Longrightarrow> thesis"
    "u' = on_BdatumCalibrationScreen u \<Longrightarrow> current_screen u = 115 \<Longrightarrow> thesis"
    by (simp_all add: await_defs)
  note rules = run [unfolded One_nat_def, OF _ sym] monitor_A [OF _ sym] monitor_B [OF _ sym] watch [OF sym] alarms
    idle [OF _ sym] time clear clear_A clear_B keys [OF sym]
  show thesis
    using assms unfolding screen_round_def Let_def
    by (simp split: if_split_asm)
      (rule rules, assumption+, simp add: apart_def | rule rules, assumption+)+
qed

lemma screen_round_wf:
  assumes "screen_round nack key u = Some u'" "menu_wf u" "rtc_ok (device u)"
  shows "menu_wf u'"
  using assms(1)
proof (cases rule: screen_round_cases)
  case (await s n)
  have "plain (current_screen u)" using await(2) by (auto simp: plain_def)
  then have "flag_PageState u" using wf_plain assms(2) by blast
  moreover have "s \<in> menu_screens" "fx_limit s = 0" "row_limit s = 0" using await(3) by (auto simp: limit_defs)
  ultimately show ?thesis using watched_wf(4) [OF assms(2)] await(1) by blast
next
  case time
  then show ?thesis using date_time_wf assms by blast
next
  case alarms
  then show ?thesis using alarm_list_wf assms by blast
next
  case keys
  then show ?thesis using every_keepsD [OF keys_wf refl assms(2,3)] by simp
qed (use assms watched_wf [OF assms(2)] clear_screens_wf [OF assms(2)] wf_flag [OF assms(2)] in simp_all)

lemma count_idle_wf [simp]: "menu_wf (count_idle key u) = menu_wf u"
  by (simp add: count_idle_def)

lemma idle_alarms_wf:
  assumes "idle_alarms u = Some u'" "menu_wf u"
  shows "menu_wf u'"
proof (cases "u' = u")
  case False
  then have l: "DisplayAlarmTypeList (u\<lparr>current_screen := AlarmTypeListScreen, row_point := 1\<rparr>) = Some u'"
      "current_screen u = RunScreen"
    using assms(1) by (auto simp: idle_alarms_def split: if_splits)
  have "menu_wf (u\<lparr>current_screen := AlarmTypeListScreen, row_point := 1\<rparr>)"
    using assms(2) l(2) by (simp add: wf_defs time_pending_def limit_defs)
  then show ?thesis using DisplayAlarmTypeList_same [OF l(1)] same_menu_wf by blast
qed (use assms in simp)

theorem main_task_round_wf:
  assumes "main_task_round nack key u = Some u'" "menu_wf u" "rtc_ok (device u)"
  shows "menu_wf u'"
proof (cases "sys_reset (device u)")
  case False
  then obtain v where v: "idle_alarms (count_idle key u) = Some v" "screen_round nack key v = Some u'"
    using assms(1) by (auto simp: main_task_round_def bind_eq_Some_conv)
  have "device v = device u" using idle_alarms_device [OF v(1)] by simp
  then show ?thesis using screen_round_wf [OF v(2)] idle_alarms_wf [OF v(1)] assms(2,3) by simp
qed (use assms in \<open>simp add: main_task_round_def\<close>)

theorem main_task_round_effect:
  assumes "main_task_round nack key u = Some u'" "menu_wf u"
  shows "menu_effect (device u) (device u')"
proof (cases "sys_reset (device u)")
  case False
  then obtain v where v: "idle_alarms (count_idle key u) = Some v" "screen_round nack key v = Some u'"
    using assms(1) by (auto simp: main_task_round_def bind_eq_Some_conv)
  have "device v = device u" using idle_alarms_device [OF v(1)] by simp
  moreover have "menu_wf v" using idle_alarms_wf [OF v(1)] assms(2) by simp
  then have "time_pending v \<Longrightarrow> rtc_ok (device v\<lparr>rtcTempStr := rtcTempStr_temp_test v\<rparr>)"
    unfolding menu_wf_def mode_ok_def by blast
  ultimately show ?thesis using screen_round_affects [OF v(2)] by metis
qed (use assms in \<open>simp add: main_task_round_def menu_effect.idle\<close>)

end
