(* ===== verification/Machine.thy ===== *)
theory Machine
  imports Boot MenuInv
begin

text \<open>
  The whole device: its variables with the menu in front of them.  Between two rounds of \<^verbatim>\<open>main_task\<close> any handler of
  the firmware may run; \<open>alive\<close> are the states of a device's life, from the first start on, over restarts.
\<close>

inductive device_step :: "ui \<Rightarrow> ui \<Rightarrow> bool" where
  background: "fw_step (device u) e \<Longrightarrow> device_step u (u\<lparr>device := e\<rparr>)"
| round: "main_task_round nack key u = Some u' \<Longrightarrow> device_step u u'"

definition device_safe :: "ui \<Rightarrow> bool" where
  "device_safe u \<longleftrightarrow> life (device u) \<and> menu_wf u"

lemma round_stopped: "sys_reset (device u) \<Longrightarrow> main_task_round nack key u = Some u' \<Longrightarrow> u' = u"
  by (simp add: main_task_round_def)

lemma device_step_safe:
  assumes "device_step u u'" "device_safe u"
  shows "device_safe u'"
  using assms(1)
proof cases
  case (background e)
  then show ?thesis using assms(2) life.runs [of "device u" e] by (simp add: device_safe_def)
next
  case (round nack key)
  have wf: "menu_wf u" and li: "life (device u)" using assms(2) by (simp_all add: device_safe_def)
  show ?thesis
  proof (cases "sys_reset (device u)")
    case True
    then show ?thesis using round_stopped round assms(2) by blast
  next
    case False
    then have "rtc_ok (device u)" using life_safe [OF li] inv_rtc safe_inv by blast
    then have "menu_wf u'" using main_task_round_wf [OF round wf] by blast
    moreover have "life (device u')" using main_task_round_effect [OF round wf] False li by (blast intro: life.menu)
    ultimately show ?thesis by (simp add: device_safe_def)
  qed
qed

interpretation whole: handlers device_step device_safe
  by unfold_locales (rule device_step_safe)

inductive alive :: "ui \<Rightarrow> bool" where
  factory: "(\<And>a. eemem d a = 0xFF) \<Longrightarrow> boot nack rx junk sn0 d = Some e \<Longrightarrow> alive (ui_init e)"
| runs: "alive u \<Longrightarrow> device_step u u' \<Longrightarrow> alive u'"
| restarts: "alive u \<Longrightarrow> boot nack rx junk sn0 (device u) = Some e \<Longrightarrow> alive (ui_init e)"

lemma ui_init_device [simp]: "device (ui_init e) = e"
  by (simp add: ui_init_def)

lemma alive_safe: "alive u \<Longrightarrow> device_safe u"
proof (induction rule: alive.induct)
  case (factory d nack rx junk sn0 e)
  then have "life e" by (rule life.factory)
  then show ?case using ui_init_wf by (simp add: device_safe_def)
next
  case (runs u u')
  then show ?case using device_step_safe by blast
next
  case (restarts u nack rx junk sn0 e)
  then have "life e" using life.restarts by (auto simp: device_safe_def)
  then show ?case using ui_init_wf by (simp add: device_safe_def)
qed

lemma alive_life: "alive u \<Longrightarrow> life (device u)" and alive_wf: "alive u \<Longrightarrow> menu_wf u"
  using alive_safe by (simp_all add: device_safe_def)

lemma alive_new_device: "alive (ui_init new_device)"
  by (rule alive.factory [OF _ boot_new_device]) (simp add: globals_init_def)

lemma alive_rtc: "alive u \<Longrightarrow> \<not> sys_reset (device u) \<Longrightarrow> rtc_ok (device u)"
  using life_safe [OF alive_life, of u] inv_rtc safe_inv by blast

end
