(* ===== verification/MenuGuard.thy ===== *)
theory MenuGuard
  imports Machine
begin

text \<open>
  What the menu may change and who may change it: the settings of the device are changed only on the screens of the
  super user, by \<^verbatim>\<open>KEY_ENTER\<close>, and these screens are reached from the others only through the password or as the
  super user.
\<close>

subsection \<open>Settings\<close>

text \<open>The EEPROM, the values of all parameter groups, the time, a running calibration and a pending restart.\<close>

definition settings :: "dev \<Rightarrow> (u16 \<Rightarrow> u8) \<times> (nv_group \<Rightarrow> u8 list) \<times> u8 list \<times> u8 \<times> bool" where
  "settings d = (eemem d, \<lambda>g. nv_image g d, rtcTempStr d, calibrating_flag d, sys_reset d)"

lemma nv_image_kept [simp]:
  "nv_image g (d\<lparr>LCDLogPageFlag := x1\<rparr>) = nv_image g d" "nv_image g (d\<lparr>crtLCDPageLogData := x2\<rparr>) = nv_image g d"
  "nv_image g (d\<lparr>lastLCDPageReadDir := x3\<rparr>) = nv_image g d" "nv_image g (d\<lparr>crtReadAddrVal := x4\<rparr>) = nv_image g d"
  "nv_image g (d\<lparr>lastLCDPageLogNum := x5\<rparr>) = nv_image g d" "nv_image g (d\<lparr>webLogPageFlag := x6\<rparr>) = nv_image g d"
  "nv_image g (d\<lparr>run_screen_refresh := x7\<rparr>) = nv_image g d" "nv_image g (d\<lparr>RL_A := x8\<rparr>) = nv_image g d"
  "nv_image g (d\<lparr>RL_B := x9\<rparr>) = nv_image g d" "nv_image g (d\<lparr>alarmingCnt := x10\<rparr>) = nv_image g d"
  "nv_image g (d\<lparr>ALARM_STATE_DELAY := x11\<rparr>) = nv_image g d"
  by (cases g; simp add: controlPara_def WriteFieldPara_body_def)+

lemma settings_other [simp]:
  "settings (d\<lparr>LCDLogPageFlag := x1\<rparr>) = settings d" "settings (d\<lparr>crtLCDPageLogData := x2\<rparr>) = settings d"
  "settings (d\<lparr>lastLCDPageReadDir := x3\<rparr>) = settings d" "settings (d\<lparr>crtReadAddrVal := x4\<rparr>) = settings d"
  "settings (d\<lparr>lastLCDPageLogNum := x5\<rparr>) = settings d" "settings (d\<lparr>webLogPageFlag := x6\<rparr>) = settings d"
  "settings (d\<lparr>run_screen_refresh := x7\<rparr>) = settings d" "settings (d\<lparr>RL_A := x8\<rparr>) = settings d"
  "settings (d\<lparr>RL_B := x9\<rparr>) = settings d" "settings (d\<lparr>alarmingCnt := x10\<rparr>) = settings d"
  "settings (d\<lparr>ALARM_STATE_DELAY := x11\<rparr>) = settings d"
  by (simp_all add: settings_def)

lemma settings_reading [simp]:
  "settings (set_crt t a d) = settings d" "settings (put_row r bs d) = settings d"
  "settings (updateLogPageFlag t fl d) = settings d"
  "settings (fst (ReadNextLog t d)) = settings d" "settings (fst (ReadPreviousLog t d)) = settings d"
  "settings (Remove_Alarm_RL_A d) = settings d" "settings (Remove_Alarm_RL_B d) = settings d"
  by (simp_all add: set_crt_def put_row_def updateLogPageFlag_def ReadNextLog_def ReadPreviousLog_def Let_def
      Remove_Alarm_RL_A_def Remove_Alarm_RL_B_def)

lemma settings_loops [simp]:
  "settings (fst (lcd_down_loop t n i d)) = settings d" "settings (fst (lcd_up_loop t n i d)) = settings d"
  by (induction n arbitrary: i d) (simp_all add: case_prod_beta Let_def)

lemma settings_pages [simp]:
  "settings (ReadLCDFirstPageLog t d) = settings d" "settings (ReadLCDNextPageLog t d) = settings d"
  "settings (ReadLCDPreviousPageLog t d) = settings d"
  by (simp_all add: ReadLCDFirstPageLog_def ReadLCDNextPageLog_def ReadLCDPreviousPageLog_def ReadFirstLog_def
      case_prod_beta Let_def)

subsection \<open>Keys that store\<close>

definition storing :: "screen set" where
  "storing = {SetDateTimeScreen, SetBuFangParaScreen, SetAlarmThresholdScreen, SetAFangQuParaScreen, SetBFangQuParaScreen,
     SetIpAddrScreen, SetSubnetMaskScreen, SetGateWayScreen, SetExtDeviceTypeScreen, SetFullScaleScreen,
     SetBaseAutoCalibrateTimeScreen, SetClearRecordScreen, ClearDuanLuAlarmRecordScreen, ClearDuanXianAlarmRecordScreen,
     ZeroCalibrationScreen, DatumCalibrationScreen}"

definition may_store :: "screen \<Rightarrow> u32 \<Rightarrow> bool" where
  "may_store s key \<longleftrightarrow> s \<in> storing \<and> key = KEY_ENTER_PRESS \<or>
     s = SetExtDeviceTypeScreen \<and> (key = KEY_UP_PRESS \<or> key = KEY_DOWN_PRESS)"

definition calm :: "screen \<Rightarrow> u32 \<Rightarrow> ui \<Rightarrow> ui \<Rightarrow> bool" where
  "calm s key u u' \<longleftrightarrow> may_store s key \<or> settings (device u') = settings (device u)"

lemma calmI: "(\<And>key u. settings (device (f key u)) = settings (device u)) \<Longrightarrow> every (calm s) f"
  and calm_storing: "s \<in> storing \<Longrightarrow> (\<And>key u. key \<noteq> KEY_ENTER_PRESS \<Longrightarrow> settings (device (f key u)) = settings (device u)) \<Longrightarrow>
    every (calm s) f"
  by (auto simp: every_def calm_def may_store_def)

lemma keys4_calm [simp]:
  assumes "settings (device (esc u)) = settings (device u)" "settings (device (up u)) = settings (device u)"
    "settings (device (down u)) = settings (device u)" "key \<noteq> KEY_ENTER_PRESS \<or> settings (device (enter u)) = settings (device u)"
  shows "settings (device (keys4 esc enter up down key u)) = settings (device u)"
  using assms by (auto simp: keys4_def)

lemma keys6_calm [simp]:
  assumes "settings (device (keys4 esc enter up down key u)) = settings (device u)"
    "settings (device (left u)) = settings (device u)" "settings (device (right u)) = settings (device u)"
  shows "settings (device (keys6 esc enter up down left right key u)) = settings (device u)"
  using assms by (auto simp: keys6_def)

lemma move_device [simp]:
  "(\<And>v. device (display v) = device v) \<Longrightarrow> device (goto_screen s display u) = device u"
  "(\<And>v. device (display v) = device v) \<Longrightarrow> device (goto_late s display u) = device u"
  "(\<And>v. device (display v) = device v) \<Longrightarrow> device (show_screen s display u) = device u"
  "device (back_to_root u) = device u" "device (back_to_SetMenu u) = device u" "device (back_to_InqMenu u) = device u"
  "device (back_to_InqAlarmRecord u) = device u" "device (back_to_login u) = device u"
  "device (DisplayRunMenu u) = device u" "device (DiaplaySetFangQuPara u) = device u"
  "device (fx_left n u) = device u" "device (fx_right n u) = device u"
  by (simp_all add: goto_screen_def goto_late_def show_screen_def back_to_root_def back_to_SetMenu_def
      back_to_InqMenu_def back_to_InqAlarmRecord_def back_to_login_def DisplayRunMenu_def DiaplaySetFangQuPara_def
      fx_left_eq fx_right_eq)

lemma get_device [simp]:
  "device (GetIpAddr u) = device u" "device (GetSubNetMask u) = device u" "device (GetGateWay u) = device u"
  "device (MacAddrInsertMaohao u) = device u" "device (DisplaySetMacAddr u) = device u"
  "device (DisplayInqMacAddr u) = device u" "device (set_digit c u) = device u"
  by (simp_all add: GetIpAddr_def GetSubNetMask_def GetGateWay_def MacAddrInsertMaohao_def DisplaySetMacAddr_def
      DisplayInqMacAddr_def set_digit_def)

lemma on_device_device [simp]: "device (on_device f u) = f (device u)"
  by (simp add: on_device_def)

lemma nav_calm:
  "every (calm s) on_UserLoginScreen" "every (calm s) on_InputPasswordScreen" "every (calm s) on_PasswordErrorScreen"
  "every (calm s) on_SuperUserRootScreen" "every (calm s) on_OrdinaryUserRootScreen" "every (calm s) on_SetScreen"
  "every (calm s) on_InqScreen" "every (calm s) on_TensionMonitorScreen" "every (calm s) on_VerScreen"
  "every (calm s) on_SetSysScreen" "every (calm s) on_SetFangQuParaScreen" "every (calm s) on_CalibrationSetScreen"
  "every (calm s) on_SetEthParaScreen" "every (calm s) on_SetMacAddrScreen"
  by (rule calmI; simp add: on_UserLoginScreen_def on_InputPasswordScreen_def on_PasswordErrorScreen_def
        on_SuperUserRootScreen_def on_OrdinaryUserRootScreen_def on_SetScreen_def on_InqScreen_def
        on_TensionMonitorScreen_def on_VerScreen_def on_SetSysScreen_def on_SetFangQuParaScreen_def
        on_CalibrationSetScreen_def on_SetEthParaScreen_def on_SetMacAddrScreen_def toggle_user_def check_password_def
        Let_def)+

lemma inq_calm:
  "every (calm s) on_InqSysParaScreen" "every (calm s) on_InqFangQuParaScreen" "every (calm s) on_InqBuFangParaScreen"
  "every (calm s) on_InqAlarmThresholdScreen" "every (calm s) on_InqExtDeviceTypeScreen"
  "every (calm s) on_InqFullScaleScreen" "every (calm s) on_InqBaseAutoCalibrateTimeScreen"
  "every (calm s) on_InqCalibrationValScreen" "every (calm s) on_InqZeroValScreen" "every (calm s) on_InqDatumValScreen"
  "every (calm s) on_InqAareaZeroValScreen" "every (calm s) on_InqAareaDatumValScreen"
  "every (calm s) on_InqEthParaScreen" "every (calm s) on_InqAddrScreen" "every (calm s) on_InqAFangQuParaScreen"
  "every (calm s) on_InqBFangQuParaScreen" "every (calm s) on_NotAtValidRangeScreen"
  "every (calm s) on_CaliOverZeroValScreen" "every (calm s) on_CaliOverDatumValScreen"
  by (rule calmI; simp add: inq_defs DisplayInqMacAddr_def)+

lemma records_device [simp]:
  "settings (device (UpdateAlarmRecord u)) = settings (device u)"
  "settings (device (show_records n u)) = settings (device u)"
  "settings (device (open_records t sc (show_records n) u)) = settings (device u)"
  by (simp_all add: UpdateAlarmRecord_def show_records_def open_records_def show_screen_def)

lemma page_keys_calm [simp]:
  "settings (device (back u)) = settings (device u) \<Longrightarrow>
    settings (device (page_keys t (show_records n) back key u)) = settings (device u)"
  by (simp add: page_keys_def)

lemma record_calm:
  "every (calm s) on_InqAlarmRecordScreen" "every (calm s) on_InqDuanLuAlarmScreen"
  "every (calm s) on_InqDuanXianAlarmScreen" "every (calm s) on_InqFangChaiAlarmRecordScreen"
  "every (calm s) on_InqAAreaDuanLuAlarmRecordScreen" "every (calm s) on_InqBAreaDuanLuAlarmRecordScreen"
  "every (calm s) on_InqAAreaDuanXianAlarmRecordScreen" "every (calm s) on_InqBAreaDuanXianAlarmRecordScreen"
  by (rule calmI; simp add: on_InqAlarmRecordScreen_def on_InqDuanLuAlarmScreen_def on_InqDuanXianAlarmScreen_def
        on_InqFangChaiAlarmRecordScreen_def on_InqAAreaDuanLuAlarmRecordScreen_def
        on_InqBAreaDuanLuAlarmRecordScreen_def on_InqAAreaDuanXianAlarmRecordScreen_def
        on_InqBAreaDuanXianAlarmRecordScreen_def)+

lemma octet_device [simp]: "device (octet_left u) = device u" "device (octet_right u) = device u"
  "device (number_left n u) = device u"
  by (simp_all add: octet_left_def octet_right_def number_left_eq Let_def)

lemma edit_calm:
  "every (calm SetBuFangParaScreen) on_SetBuFangParaScreen"
  "every (calm SetAlarmThresholdScreen) on_SetAlarmThresholdScreen"
  "every (calm SetAFangQuParaScreen) on_SetAFangQuParaScreen" "every (calm SetBFangQuParaScreen) on_SetBFangQuParaScreen"
  "every (calm SetIpAddrScreen) on_SetIpAddrScreen" "every (calm SetSubnetMaskScreen) on_SetSubnetMaskScreen"
  "every (calm SetGateWayScreen) on_SetGateWayScreen" "every (calm SetFullScaleScreen) on_SetFullScaleScreen"
  "every (calm SetBaseAutoCalibrateTimeScreen) on_SetBaseAutoCalibrateTimeScreen"
  "every (calm ZeroCalibrationScreen) on_ZeroCalibrationScreen"
  "every (calm DatumCalibrationScreen) on_DatumCalibrationScreen"
  by (rule calm_storing, simp add: storing_def,
      simp add: on_SetBuFangParaScreen_def on_SetBuFang_normal_def on_SetBuFang_modify_def edit_arming_def
        on_SetAlarmThresholdScreen_def on_SetAlarmThreshold_normal_def on_SetAlarmThreshold_modify_def edit_thrd_def
        on_SetAFangQuParaScreen_def on_SetBFangQuParaScreen_def zone_normal_def zone_modify_def edit_zone_def
        on_SetIpAddrScreen_def on_SetSubnetMaskScreen_def on_SetGateWayScreen_def address_keys_def
        on_SetFullScaleScreen_def on_SetBaseAutoCalibrateTimeScreen_def on_ZeroCalibrationScreen_def
        on_DatumCalibrationScreen_def Let_def)+

lemma type_calm: "every (calm SetExtDeviceTypeScreen) on_SetExtDeviceTypeScreen"
  by (auto simp: every_def calm_def may_store_def storing_def on_SetExtDeviceTypeScreen_def
      on_SetExtDeviceType_normal_def on_SetExtDeviceType_modify_def keys4_def)

lemma keys_calm: "every (calm s) (screen_keys s)"
proof -
  have same: "every (calm s) (\<lambda>key u. u)" for s by (rule calmI) simp
  show ?thesis
    unfolding screen_keys_def
    by (intro every_if; (elim disjE)?; hypsubst?; rule nav_calm inq_calm record_calm edit_calm type_calm same)
qed

lemma option_calm:
  "on_SetDateTimeScreen nack key u = Some u' \<Longrightarrow> key \<noteq> KEY_ENTER_PRESS \<Longrightarrow> settings (device u') = settings (device u)"
  "on_SetClearRecordScreen key u = Some u' \<Longrightarrow> key \<noteq> KEY_ENTER_PRESS \<Longrightarrow> settings (device u') = settings (device u)"
  "on_ClearDuanLuAlarmRecordScreen key u = Some u' \<Longrightarrow> key \<noteq> KEY_ENTER_PRESS \<Longrightarrow> settings (device u') = settings (device u)"
  "on_ClearDuanXianAlarmRecordScreen key u = Some u' \<Longrightarrow> key \<noteq> KEY_ENTER_PRESS \<Longrightarrow> settings (device u') = settings (device u)"
  by (auto simp: on_SetDateTimeScreen_def on_SetDateTime_normal_def on_SetDateTime_modify_def edit_time_def clear_defs
      Let_def split: if_splits)

lemma alarm_list_calm: "on_AlarmTypeListScreen key u = Some u' \<Longrightarrow> settings (device u') = settings (device u)"
proof -
  have keys: "settings (device u') = settings (device v)" if "alarm_list_keys key v = Some u'" for v
    using that by (auto simp: alarm_list_keys_def Let_def split: if_splits dest!: DisplayAlarmTypeList_device)
  show "on_AlarmTypeListScreen key u = Some u' \<Longrightarrow> settings (device u') = settings (device u)"
    by (auto simp: on_AlarmTypeListScreen_def bind_eq_Some_conv split: if_splits dest!: DisplayAlarmTypeList_device dest: keys)
qed

lemma screen_round_calm:
  assumes "screen_round nack key u = Some u'"
  shows "may_store (current_screen u) key \<or> settings (device u') = settings (device u)"
  using assms
proof (cases rule: screen_round_cases)
  case keys
  then show ?thesis using keys_calm [of "current_screen u"] unfolding every_def calm_def by blast
next
  case clear
  then show ?thesis using option_calm(2) [of key u u'] by (cases "key = KEY_ENTER_PRESS") (simp_all add: may_store_def storing_def)
next
  case clear_A
  then show ?thesis using option_calm(3) [of key u u'] by (cases "key = KEY_ENTER_PRESS") (simp_all add: may_store_def storing_def)
next
  case clear_B
  then show ?thesis using option_calm(4) [of key u u'] by (cases "key = KEY_ENTER_PRESS") (simp_all add: may_store_def storing_def)
next
  case time
  then show ?thesis using option_calm(1) [of nack key u u'] by (cases "key = KEY_ENTER_PRESS") (simp_all add: may_store_def storing_def)
qed (use alarm_list_calm [of key u u'] in \<open>auto simp: may_store_def storing_def on_RunScreen_def
      on_AFangQuMonitorScreen_def on_BFangQuMonitorScreen_def await_calibration_def Let_def\<close>)

lemma idle_alarms_screen:
  assumes "idle_alarms (count_idle key u) = Some v"
  shows "current_screen v = current_screen u \<or> key = KEY_NO_PRESS \<and> current_screen u = RunScreen \<and> current_screen v = AlarmTypeListScreen"
    and "UserId v = UserId u" "inputPassword v = inputPassword u" "flag_PageState v = flag_PageState u"
proof -
  show "current_screen v = current_screen u \<or> key = KEY_NO_PRESS \<and> current_screen u = RunScreen \<and> current_screen v = AlarmTypeListScreen"
    "UserId v = UserId u" "inputPassword v = inputPassword u" "flag_PageState v = flag_PageState u"
    using assms by (auto simp: idle_alarms_def count_idle_def same_menu_def split: if_splits dest!: DisplayAlarmTypeList_same)
qed

lemma round_calm:
  assumes "main_task_round nack key u = Some u'"
  shows "may_store (current_screen u) key \<or> settings (device u') = settings (device u)"
proof (cases "sys_reset (device u)")
  case False
  then obtain v where v: "idle_alarms (count_idle key u) = Some v" "screen_round nack key v = Some u'"
    using assms(1) by (auto simp: main_task_round_def bind_eq_Some_conv)
  have "device v = device u" using idle_alarms_device [OF v(1)] by simp
  moreover have "\<not> may_store AlarmTypeListScreen key" by (simp add: may_store_def storing_def)
  ultimately show ?thesis using screen_round_calm [OF v(2)] idle_alarms_screen(1) [OF v(1)] by metis
qed (use assms in \<open>simp add: main_task_round_def\<close>)

text \<open>On the screen of the switch types the other keys change the type of one switch, and nothing else of the device.\<close>

definition one_type :: "(u8 \<Rightarrow> u8) \<Rightarrow> dev \<Rightarrow> dev \<Rightarrow> bool" where
  "one_type f d e \<longleftrightarrow> (\<exists>z<2. e = d\<lparr>SW_Type := (SW_Type d)(z := f (SW_Type d z))\<rparr>)"

lemma edit_type_device: "device (edit_type f u) = device u \<or> one_type f (device u) (device (edit_type f u))"
proof -
  consider "row_point u = 1" | "row_point u = 2" | "row_point u \<noteq> 1" "row_point u \<noteq> 2" by blast
  then show ?thesis
  proof cases
    case 1
    then have "device (edit_type f u) = (device u)\<lparr>SW_Type := (SW_Type (device u))(0 := f (SW_Type (device u) 0))\<rparr>"
      by (simp add: edit_type_def)
    then show ?thesis unfolding one_type_def by (intro disjI2 exI [of _ 0]) simp
  next
    case 2
    then have "device (edit_type f u) = (device u)\<lparr>SW_Type := (SW_Type (device u))(1 := f (SW_Type (device u) 1))\<rparr>"
      by (simp add: edit_type_def)
    then show ?thesis unfolding one_type_def by (intro disjI2 exI [of _ 1]) simp
  qed (simp add: edit_type_def)
qed

lemma type_keys_device:
  assumes "key \<noteq> KEY_ENTER_PRESS"
  shows "device (on_SetExtDeviceTypeScreen key u) = device u \<or>
    key = KEY_UP_PRESS \<and> one_type type_up (device u) (device (on_SetExtDeviceTypeScreen key u)) \<or>
    key = KEY_DOWN_PRESS \<and> one_type type_down (device u) (device (on_SetExtDeviceTypeScreen key u))"
  using assms edit_type_device [of type_up u] edit_type_device [of type_down u]
  by (auto simp: on_SetExtDeviceTypeScreen_def on_SetExtDeviceType_normal_def on_SetExtDeviceType_modify_def keys4_def)

lemma round_type:
  assumes "main_task_round nack key u = Some u'" "current_screen u = SetExtDeviceTypeScreen" "key \<noteq> KEY_ENTER_PRESS"
  shows "device u' = device u \<or> key = KEY_UP_PRESS \<and> one_type type_up (device u) (device u') \<or>
    key = KEY_DOWN_PRESS \<and> one_type type_down (device u) (device u')"
proof (cases "sys_reset (device u)")
  case False
  then obtain v where v: "idle_alarms (count_idle key u) = Some v" "screen_round nack key v = Some u'"
    using assms(1) by (auto simp: main_task_round_def bind_eq_Some_conv)
  have dev: "device v = device u" using idle_alarms_device [OF v(1)] by simp
  have scr: "current_screen v = SetExtDeviceTypeScreen" using idle_alarms_screen(1) [OF v(1)] assms(2) by simp
  have "u' = v \<or> u' = on_SetExtDeviceTypeScreen key v"
    using v(2) by (cases rule: screen_round_cases) (simp_all add: scr screen_keys_def)
  then show ?thesis using type_keys_device [OF assms(3), of v] dev by auto
qed (use assms in \<open>simp add: main_task_round_def\<close>)

subsection \<open>The screens of the super user\<close>

definition super_screens :: "screen set" where
  "super_screens = {SuperUserRootScreen, SetScreen, SetSysScreen, SetFangQuParaScreen, CalibrationSetScreen, SetEthParaScreen,
     SetMacAddrScreen, NotAtValidRangeScreen} \<union> {112..115} \<union> {117..120} \<union> storing"

text \<open>The way in: the password, or \<^verbatim>\<open>KEY_ESC\<close> from a screen both users share.\<close>

definition way_in :: "u32 \<Rightarrow> ui \<Rightarrow> bool" where
  "way_in key u \<longleftrightarrow> UserId u = SuperUser \<and>
     (current_screen u = InputPasswordScreen \<and> key = KEY_ENTER_PRESS \<and> inputPassword u = lcd_super_password \<or>
      current_screen u \<in> {InqScreen, TensionMonitorScreen, VerScreen} \<and> key = KEY_ESC_PRESS)"

definition guarded :: "screen \<Rightarrow> u32 \<Rightarrow> ui \<Rightarrow> ui \<Rightarrow> bool" where
  "guarded s key u u' \<longleftrightarrow> (current_screen u = s \<longrightarrow> s \<notin> super_screens \<longrightarrow>
     current_screen u' \<notin> super_screens \<or> way_in key u \<and> current_screen u' = SuperUserRootScreen)"

lemma guardedI: "(\<And>key u. current_screen u = s \<Longrightarrow> s \<notin> super_screens \<Longrightarrow>
    current_screen (f key u) \<notin> super_screens \<or> way_in key u \<and> current_screen (f key u) = SuperUserRootScreen) \<Longrightarrow> every (guarded s) f"
  and guarded_super: "s \<in> super_screens \<Longrightarrow> every (guarded s) f"
  by (auto simp: every_def guarded_def)

lemma move_screen [simp]:
  "current_screen (goto_late s display u) = s" "current_screen (show_screen s display u) = s"
  "current_screen (back_to_SetMenu u) = SetScreen" "current_screen (back_to_InqMenu u) = InqScreen"
  "current_screen (back_to_InqAlarmRecord u) = InqAlarmRecordScreen" "current_screen (back_to_login u) = UserLoginScreen"
  "current_screen (back_to_root u) = (if UserId u = SuperUser then SuperUserRootScreen else OrdinaryUserRootScreen)"
  "current_screen (show_records n u) = current_screen u" "current_screen (open_records t s display u) = s"
  by (simp_all add: goto_late_def show_screen_def back_to_SetMenu_def back_to_InqMenu_def back_to_InqAlarmRecord_def
      back_to_login_def back_to_root_def show_records_def UpdateAlarmRecord_def open_records_def)

lemma toggle_screen [simp]: "current_screen (toggle_user u) = current_screen u"
  by (simp add: toggle_user_def)

lemma keys4_screen:
  assumes "current_screen (esc u) \<notin> S" "current_screen (enter u) \<notin> S" "current_screen (up u) \<notin> S"
    "current_screen (down u) \<notin> S" "current_screen u \<notin> S"
  shows "current_screen (keys4 esc enter up down key u) \<notin> S"
  using assms by (simp add: keys4_def)

lemma page_keys_screen:
  assumes "current_screen (back u) \<notin> S" "current_screen u \<notin> S"
  shows "current_screen (page_keys t (show_records n) back key u) \<notin> S"
  using assms by (simp add: page_keys_def)

lemma not_super [simp]:
  "Suc 0 \<notin> super_screens" "1 \<notin> super_screens" "4 \<notin> super_screens" "5 \<notin> super_screens" "12 \<notin> super_screens"
  "13 \<notin> super_screens" "14 \<notin> super_screens" "15 \<notin> super_screens" "16 \<notin> super_screens"
  "17 \<notin> super_screens" "25 \<notin> super_screens" "26 \<notin> super_screens" "27 \<notin> super_screens"
  "28 \<notin> super_screens" "34 \<notin> super_screens" "35 \<notin> super_screens" "36 \<notin> super_screens"
  "37 \<notin> super_screens" "38 \<notin> super_screens" "39 \<notin> super_screens" "40 \<notin> super_screens"
  "41 \<notin> super_screens" "44 \<notin> super_screens" "45 \<notin> super_screens" "46 \<notin> super_screens"
  "48 \<notin> super_screens" "50 \<notin> super_screens" "100 \<notin> super_screens" "101 \<notin> super_screens"
  "102 \<notin> super_screens" "107 \<notin> super_screens" "108 \<notin> super_screens" "109 \<notin> super_screens"
  "110 \<notin> super_screens" "111 \<notin> super_screens" "121 \<notin> super_screens" "122 \<notin> super_screens"
  "123 \<notin> super_screens" "124 \<notin> super_screens" "126 \<notin> super_screens" "128 \<notin> super_screens"
  by (simp_all add: super_screens_def storing_def)

lemma free_guarded:
  "every (guarded UserLoginScreen) on_UserLoginScreen" "every (guarded PasswordErrorScreen) on_PasswordErrorScreen"
  "every (guarded OrdinaryUserRootScreen) on_OrdinaryUserRootScreen" "every (guarded InqSysParaScreen) on_InqSysParaScreen"
  "every (guarded InqFangQuParaScreen) on_InqFangQuParaScreen" "every (guarded InqBuFangParaScreen) on_InqBuFangParaScreen"
  "every (guarded InqAlarmRecordScreen) on_InqAlarmRecordScreen"
  "every (guarded InqAlarmThresholdScreen) on_InqAlarmThresholdScreen"
  "every (guarded InqCalibrationValScreen) on_InqCalibrationValScreen" "every (guarded InqZeroValScreen) on_InqZeroValScreen"
  "every (guarded InqDatumValScreen) on_InqDatumValScreen" "every (guarded InqExtDeviceTypeScreen) on_InqExtDeviceTypeScreen"
  "every (guarded InqFullScaleScreen) on_InqFullScaleScreen"
  "every (guarded InqBaseAutoCalibrateTimeScreen) on_InqBaseAutoCalibrateTimeScreen"
  "every (guarded InqEthParaScreen) on_InqEthParaScreen" "every (guarded InqDuanLuAlarmScreen) on_InqDuanLuAlarmScreen"
  "every (guarded InqDuanXianAlarmScreen) on_InqDuanXianAlarmScreen"
  "every (guarded InqAFangQuParaScreen) on_InqAFangQuParaScreen" "every (guarded InqBFangQuParaScreen) on_InqBFangQuParaScreen"
  "every (guarded InqFangChaiAlarmRecordScreen) on_InqFangChaiAlarmRecordScreen"
  "every (guarded InqAAreaDuanLuAlarmRecordScreen) on_InqAAreaDuanLuAlarmRecordScreen"
  "every (guarded InqBAreaDuanLuAlarmRecordScreen) on_InqBAreaDuanLuAlarmRecordScreen"
  "every (guarded InqAAreaDuanXianAlarmRecordScreen) on_InqAAreaDuanXianAlarmRecordScreen"
  "every (guarded InqBAreaDuanXianAlarmRecordScreen) on_InqBAreaDuanXianAlarmRecordScreen"
  by (rule guardedI, rule disjI1, simp only: on_UserLoginScreen_def on_PasswordErrorScreen_def on_OrdinaryUserRootScreen_def
      inq_defs record_defs toggle_user_def; (rule keys4_screen page_keys_screen)?; simp)+

lemma shared_guarded:
  "every (guarded s) on_InqAareaZeroValScreen" "every (guarded s) on_InqAareaDatumValScreen"
  "every (guarded s) on_InqAddrScreen"
  by (rule guardedI, rule disjI1, simp add: on_InqAareaZeroValScreen_def on_InqAareaDatumValScreen_def on_InqAddrScreen_def)+

lemma root_guarded:
  "every (guarded InqScreen) on_InqScreen" "every (guarded TensionMonitorScreen) on_TensionMonitorScreen"
  "every (guarded VerScreen) on_VerScreen"
proof -
  have esc: "current_screen (keys4 back_to_root enter up down key u) \<notin> super_screens \<or>
      way_in key u \<and> current_screen (keys4 back_to_root enter up down key u) = SuperUserRootScreen"
    if "current_screen u \<in> {InqScreen, TensionMonitorScreen, VerScreen}" "current_screen (enter u) \<notin> super_screens"
      "current_screen (up u) \<notin> super_screens" "current_screen (down u) \<notin> super_screens" for enter up down key u
  proof (cases "key = KEY_ESC_PRESS")
    case True
    then show ?thesis using that(1) by (cases "UserId u = SuperUser") (simp_all add: keys4_def way_in_def)
  next
    case False
    have "current_screen u \<notin> super_screens" using that(1) by auto
    with False that show ?thesis by (simp add: keys4_def)
  qed
  show "every (guarded InqScreen) on_InqScreen" "every (guarded TensionMonitorScreen) on_TensionMonitorScreen"
    by (rule guardedI, simp only: on_InqScreen_def on_TensionMonitorScreen_def, rule esc; simp)+
  show "every (guarded VerScreen) on_VerScreen"
    by (rule guardedI) (simp add: on_VerScreen_def way_in_def)
qed

lemma password_guarded: "every (guarded InputPasswordScreen) on_InputPasswordScreen"
  by (rule guardedI) (simp add: on_InputPasswordScreen_def check_password_def way_in_def Let_def)

lemma keys_guarded: "every (guarded s) (screen_keys s)"
proof (cases "s \<in> super_screens")
  case True
  then show ?thesis by (rule guarded_super)
next
  case False
  have same: "every (guarded s) (\<lambda>key u. u)" for s by (simp add: every_def guarded_def)
  have shut: "every (guarded s) f" if "s \<in> super_screens" for f using that by (rule guarded_super)
  show ?thesis
    unfolding screen_keys_def
    by (intro every_if; (elim disjE)?; hypsubst?;
        (rule free_guarded shared_guarded root_guarded password_guarded same
         | rule guarded_super, simp add: super_screens_def storing_def))
qed

lemma alarm_list_screen:
  assumes "on_AlarmTypeListScreen key u = Some u'"
  shows "current_screen u' \<in> {current_screen u, RunScreen, InqAlarmRecordScreen}"
proof -
  have keys: "current_screen u' \<in> {current_screen v, RunScreen, InqAlarmRecordScreen}" if "alarm_list_keys key v = Some u'" for v
    using that by (auto simp: alarm_list_keys_def Let_def same_menu_def split: if_splits dest!: DisplayAlarmTypeList_same)
  show ?thesis
  proof (cases "shown_alarms u = 0")
    case False
    then obtain v where v: "DisplayAlarmTypeList u = Some v" "alarm_list_keys key v = Some u'"
      using assms by (auto simp: on_AlarmTypeListScreen_def bind_eq_Some_conv)
    then show ?thesis using keys [OF v(2)] DisplayAlarmTypeList_same [OF v(1)] by (simp add: same_menu_def)
  qed (use assms in \<open>auto simp: on_AlarmTypeListScreen_def\<close>)
qed

lemma screen_round_guarded:
  assumes "screen_round nack key u = Some u'" "current_screen u \<notin> super_screens"
  shows "current_screen u' \<notin> super_screens \<or> way_in key u \<and> current_screen u' = SuperUserRootScreen"
  using assms(1)
proof (cases rule: screen_round_cases)
  case (await s n)
  then show ?thesis using assms(2) by (auto simp: super_screens_def)
next
  case keys
  then show ?thesis using keys_guarded [of "current_screen u"] assms(2) unfolding every_def guarded_def by blast
next
  case alarms
  then show ?thesis using alarm_list_screen [OF alarms(2)] by auto
qed (use assms(2) in \<open>simp_all add: on_RunScreen_def on_AFangQuMonitorScreen_def on_BFangQuMonitorScreen_def Let_def
      super_screens_def storing_def\<close>)

lemma round_guarded:
  assumes "main_task_round nack key u = Some u'" "current_screen u \<notin> super_screens"
  shows "current_screen u' \<notin> super_screens \<or> way_in key u \<and> current_screen u' = SuperUserRootScreen"
proof (cases "sys_reset (device u)")
  case False
  then obtain v where v: "idle_alarms (count_idle key u) = Some v" "screen_round nack key v = Some u'"
    using assms(1) by (auto simp: main_task_round_def bind_eq_Some_conv)
  have "current_screen v \<notin> super_screens" using idle_alarms_screen(1) [OF v(1)] assms(2) by auto
  with screen_round_guarded [OF v(2)] idle_alarms_screen [OF v(1)] show ?thesis
    by (auto simp: way_in_def)
qed (use assms in \<open>simp add: main_task_round_def\<close>)

end
