(* ===== verification/MenuHome.thy ===== *)
theory MenuHome
  imports MenuGuard
begin

text \<open>
  The way home: from every screen but those that wait, each press of \<^verbatim>\<open>KEY_ESC\<close> brings the menu closer to the running
  screen.
\<close>

text \<open>A sequence of rounds, one key each (0 for a round without a key).\<close>

fun run_keys :: "(nat \<Rightarrow> bool) \<Rightarrow> u32 list \<Rightarrow> ui \<Rightarrow> ui option" where
  "run_keys nack [] u = Some u"
| "run_keys nack (k # ks) u = Option.bind (main_task_round nack k u) (run_keys nack ks)"

lemma run_keys_append: "run_keys nack (ks @ ls) u = Option.bind (run_keys nack ks u) (run_keys nack ls)"
proof (induction ks arbitrary: u)
  case (Cons k ks)
  then show ?case by (cases "main_task_round nack k u") simp_all
qed simp

lemma round_running:
  assumes "\<not> sys_reset (device u)" "key \<noteq> KEY_NO_PRESS"
  shows "main_task_round nack key u = screen_round nack key (u\<lparr>no_key_num := 0\<rparr>)"
  using assms by (simp add: main_task_round_def count_idle_def idle_alarms_def)

subsection \<open>The way home\<close>

text \<open>How many times \<^verbatim>\<open>KEY_ESC\<close> has to be pressed until the device shows the running screen.\<close>

definition home_distance :: "screen \<Rightarrow> nat" where
  "home_distance s =
     (if s = RunScreen then 0
      else if s \<in> {UserLoginScreen, InputPasswordScreen} then 1
      else if s \<in> {PasswordErrorScreen, SuperUserRootScreen, OrdinaryUserRootScreen} then 2
      else if s \<in> {SetScreen, InqScreen, TensionMonitorScreen, VerScreen} then 3
      else if s \<in> {SetSysScreen, SetFangQuParaScreen, SetBuFangParaScreen, SetClearRecordScreen, InqSysParaScreen,
                   InqFangQuParaScreen, InqBuFangParaScreen, InqAlarmRecordScreen, SetExtDeviceTypeScreen,
                   AFangQuMonitorScreen, BFangQuMonitorScreen, SetAlarmThresholdScreen, CalibrationSetScreen,
                   InqAlarmThresholdScreen, InqCalibrationValScreen, InqExtDeviceTypeScreen, SetFullScaleScreen,
                   InqFullScaleScreen, SetBaseAutoCalibrateTimeScreen, InqBaseAutoCalibrateTimeScreen} then 4
      else if s \<in> {SetDateTimeScreen, SetEthParaScreen, SetAFangQuParaScreen, SetBFangQuParaScreen,
                   InqAFangQuParaScreen, InqBFangQuParaScreen, InqDuanLuAlarmScreen, InqDuanXianAlarmScreen,
                   InqFangChaiAlarmRecordScreen, InqEthParaScreen, ClearDuanLuAlarmRecordScreen,
                   ClearDuanXianAlarmRecordScreen, ZeroCalibrationScreen, DatumCalibrationScreen, InqZeroValScreen,
                   InqDatumValScreen} then 5
      else if s \<in> {112..115} \<union> {AlarmTypeListScreen} then 99
      else 6)"

definition distance :: "ui \<Rightarrow> nat" where
  "distance u = home_distance (current_screen u) + (if flag_PageState u then 0 else 1)"

definition closer :: "screen \<Rightarrow> u32 \<Rightarrow> ui \<Rightarrow> ui \<Rightarrow> bool" where
  "closer s key u u' \<longleftrightarrow> (current_screen u = s \<longrightarrow> key = KEY_ESC_PRESS \<longrightarrow> menu_wf u \<longrightarrow> distance u' < distance u)"

lemma closerI:
  "(\<And>u. current_screen u = s \<Longrightarrow> menu_wf u \<Longrightarrow> distance (f KEY_ESC_PRESS u) < distance u) \<Longrightarrow> every (closer s) f"
  by (simp add: every_def closer_def)

lemma keys4_esc [simp]: "keys4 esc enter up down KEY_ESC_PRESS u = esc u"
  and keys6_esc [simp]: "keys6 esc enter up down left right KEY_ESC_PRESS u = esc u"
  and page_keys_esc [simp]: "page_keys t display back KEY_ESC_PRESS u = back u"
  by (simp_all add: keys4_def keys6_def page_keys_def)

lemmas esc_defs = distance_def home_distance_def goto_screen_def back_to_root_def back_to_SetMenu_def
  back_to_InqMenu_def back_to_InqAlarmRecord_def back_to_login_def DisplayRunMenu_def DiaplaySetFangQuPara_def

lemma nav_closer:
  "every (closer UserLoginScreen) on_UserLoginScreen" "every (closer InputPasswordScreen) on_InputPasswordScreen"
  "every (closer PasswordErrorScreen) on_PasswordErrorScreen" "every (closer SuperUserRootScreen) on_SuperUserRootScreen"
  "every (closer OrdinaryUserRootScreen) on_OrdinaryUserRootScreen" "every (closer SetScreen) on_SetScreen"
  "every (closer InqScreen) on_InqScreen" "every (closer TensionMonitorScreen) on_TensionMonitorScreen"
  "every (closer VerScreen) on_VerScreen" "every (closer SetSysScreen) on_SetSysScreen"
  "every (closer SetFangQuParaScreen) on_SetFangQuParaScreen" "every (closer CalibrationSetScreen) on_CalibrationSetScreen"
  "every (closer SetEthParaScreen) on_SetEthParaScreen" "every (closer SetMacAddrScreen) on_SetMacAddrScreen"
  by (rule closerI; frule wf_flag;
      simp add: esc_defs on_UserLoginScreen_def on_InputPasswordScreen_def on_PasswordErrorScreen_def
        on_SuperUserRootScreen_def on_OrdinaryUserRootScreen_def on_SetScreen_def on_InqScreen_def
        on_TensionMonitorScreen_def on_VerScreen_def on_SetSysScreen_def on_SetFangQuParaScreen_def
        on_CalibrationSetScreen_def on_SetEthParaScreen_def on_SetMacAddrScreen_def)+

lemma inq_closer:
  "every (closer InqSysParaScreen) on_InqSysParaScreen" "every (closer InqFangQuParaScreen) on_InqFangQuParaScreen"
  "every (closer InqBuFangParaScreen) on_InqBuFangParaScreen" "every (closer InqAlarmThresholdScreen) on_InqAlarmThresholdScreen"
  "every (closer InqExtDeviceTypeScreen) on_InqExtDeviceTypeScreen" "every (closer InqFullScaleScreen) on_InqFullScaleScreen"
  "every (closer InqBaseAutoCalibrateTimeScreen) on_InqBaseAutoCalibrateTimeScreen"
  "every (closer InqCalibrationValScreen) on_InqCalibrationValScreen" "every (closer InqZeroValScreen) on_InqZeroValScreen"
  "every (closer InqDatumValScreen) on_InqDatumValScreen" "every (closer InqAFangQuParaScreen) on_InqAFangQuParaScreen"
  "every (closer InqBFangQuParaScreen) on_InqBFangQuParaScreen" "every (closer NotAtValidRangeScreen) on_NotAtValidRangeScreen"
  "every (closer InqEthParaScreen) on_InqEthParaScreen" "every (closer InqAlarmRecordScreen) on_InqAlarmRecordScreen"
  "every (closer InqDuanLuAlarmScreen) on_InqDuanLuAlarmScreen" "every (closer InqDuanXianAlarmScreen) on_InqDuanXianAlarmScreen"
  "every (closer InqFangChaiAlarmRecordScreen) on_InqFangChaiAlarmRecordScreen"
  "every (closer InqAAreaDuanLuAlarmRecordScreen) on_InqAAreaDuanLuAlarmRecordScreen"
  "every (closer InqBAreaDuanLuAlarmRecordScreen) on_InqBAreaDuanLuAlarmRecordScreen"
  "every (closer InqAAreaDuanXianAlarmRecordScreen) on_InqAAreaDuanXianAlarmRecordScreen"
  "every (closer InqBAreaDuanXianAlarmRecordScreen) on_InqBAreaDuanXianAlarmRecordScreen"
  by (rule closerI; frule wf_flag; (simp only: inq_defs record_defs keys4_esc page_keys_esc)?; simp add: esc_defs)+

lemma shared_closer:
  assumes "home_distance s = 6" "plain s"
  shows "every (closer s) on_InqAareaZeroValScreen" "every (closer s) on_InqAareaDatumValScreen"
    "every (closer s) on_CaliOverZeroValScreen" "every (closer s) on_CaliOverDatumValScreen"
    "every (closer s) on_InqAddrScreen"
proof -
  have dist: "distance (goto_screen t (draw n) u) < distance u"
    if "home_distance t = 5" "current_screen u = s" "menu_wf u" for t n u
    using that assms wf_plain [of u] by (simp add: distance_def goto_screen_def)
  have five: "home_distance InqZeroValScreen = 5" "home_distance InqDatumValScreen = 5"
    "home_distance ZeroCalibrationScreen = 5" "home_distance DatumCalibrationScreen = 5"
    "home_distance InqEthParaScreen = 5"
    by (simp_all add: home_distance_def)
  show "every (closer s) on_InqAareaZeroValScreen" "every (closer s) on_InqAareaDatumValScreen"
    "every (closer s) on_CaliOverZeroValScreen" "every (closer s) on_CaliOverDatumValScreen"
    "every (closer s) on_InqAddrScreen"
    by (rule closerI, simp add: on_InqAareaZeroValScreen_def on_InqAareaDatumValScreen_def
        on_CaliOverZeroValScreen_def on_CaliOverDatumValScreen_def on_InqAddrScreen_def dist five)+
qed

lemma edit_closer:
  "every (closer SetBuFangParaScreen) on_SetBuFangParaScreen" "every (closer SetAlarmThresholdScreen) on_SetAlarmThresholdScreen"
  "every (closer SetAFangQuParaScreen) on_SetAFangQuParaScreen" "every (closer SetBFangQuParaScreen) on_SetBFangQuParaScreen"
  "every (closer SetIpAddrScreen) on_SetIpAddrScreen" "every (closer SetSubnetMaskScreen) on_SetSubnetMaskScreen"
  "every (closer SetGateWayScreen) on_SetGateWayScreen" "every (closer SetExtDeviceTypeScreen) on_SetExtDeviceTypeScreen"
  "every (closer SetFullScaleScreen) on_SetFullScaleScreen"
  "every (closer SetBaseAutoCalibrateTimeScreen) on_SetBaseAutoCalibrateTimeScreen"
  "every (closer ZeroCalibrationScreen) on_ZeroCalibrationScreen" "every (closer DatumCalibrationScreen) on_DatumCalibrationScreen"
  by (rule closerI;
      simp only: on_SetBuFangParaScreen_def on_SetBuFang_normal_def on_SetBuFang_modify_def on_SetAlarmThresholdScreen_def
        on_SetAlarmThreshold_normal_def on_SetAlarmThreshold_modify_def on_SetAFangQuParaScreen_def
        on_SetBFangQuParaScreen_def zone_normal_def zone_modify_def on_SetIpAddrScreen_def on_SetSubnetMaskScreen_def
        on_SetGateWayScreen_def address_keys_def on_SetExtDeviceTypeScreen_def on_SetExtDeviceType_normal_def
        on_SetExtDeviceType_modify_def on_SetFullScaleScreen_def on_SetBaseAutoCalibrateTimeScreen_def Let_def
        on_ZeroCalibrationScreen_def on_DatumCalibrationScreen_def keys4_esc keys6_esc;
      simp add: esc_defs)+

lemma menu_screens_list:
  "menu_screens = {1, 3, 4, 5, 6, 7, 8, 9, 10, 11, 12, 13, 14, 15, 16, 17, 18, 19, 25, 26, 27, 28} \<union>
     (set [30..<51] \<union> set [100..<129])"
  unfolding menu_screens_def atLeastLessThan_upt [symmetric] by (simp add: atLeastLessThanSuc_atLeastAtMost [symmetric])

lemma keys_closer: "s \<in> menu_screens \<Longrightarrow> \<not> apart s \<Longrightarrow> every (closer s) (screen_keys s)"
  unfolding screen_keys_def
  by (intro every_if; (elim disjE)?; hypsubst?;
      (rule nav_closer inq_closer edit_closer
        | rule shared_closer, simp add: home_distance_def, simp add: plain_def)?)
    (rule FalseE, simp add: menu_screens_list apart_def upt_rec_numeral)

lemma clear_esc:
  "on_SetClearRecordScreen KEY_ESC_PRESS u = Some (back_to_SetMenu u)"
  "on_ClearDuanLuAlarmRecordScreen KEY_ESC_PRESS u = Some (goto_screen SetClearRecordScreen (draw ''DisplaySetClearRecord'') u)"
  "on_ClearDuanXianAlarmRecordScreen KEY_ESC_PRESS u = Some (goto_screen SetClearRecordScreen (draw ''DisplaySetClearRecord'') u)"
  by (simp_all only: clear_defs keys4_esc) simp_all

lemma time_esc:
  "on_SetDateTimeScreen nack KEY_ESC_PRESS u =
     Some (if flag_PageState u then (goto_screen SetSysScreen (draw ''DisplaySetSysPara'') u)\<lparr>row_fx_pos := 0\<rparr>
       else arrow (draw ''DisplaySetDateTime''
              (u\<lparr>flag_PageState := NormalState, rtcTempStr_temp_test := rtcTempStr (device u), row_fx_pos := 0\<rparr>)))"
  by (simp only: on_SetDateTimeScreen_def on_SetDateTime_normal_def on_SetDateTime_modify_def keys4_esc keys6_esc) simp

lemma option_closer:
  "current_screen u = SetDateTimeScreen \<Longrightarrow> on_SetDateTimeScreen nack KEY_ESC_PRESS u = Some u' \<Longrightarrow> distance u' < distance u"
    "current_screen u = SetClearRecordScreen \<Longrightarrow> on_SetClearRecordScreen KEY_ESC_PRESS u = Some u' \<Longrightarrow> distance u' < distance u"
    "current_screen u = ClearDuanLuAlarmRecordScreen \<Longrightarrow> on_ClearDuanLuAlarmRecordScreen KEY_ESC_PRESS u = Some u' \<Longrightarrow>
       distance u' < distance u"
    "current_screen u = ClearDuanXianAlarmRecordScreen \<Longrightarrow> on_ClearDuanXianAlarmRecordScreen KEY_ESC_PRESS u = Some u' \<Longrightarrow>
       distance u' < distance u"
proof -
  have set: "distance (goto_screen s display u) < distance u"
    if "home_distance s < home_distance (current_screen u)" "\<And>v. flag_PageState (display v) = flag_PageState v" for s display
    using that by (simp add: distance_def goto_screen_def)
  have low: "home_distance SetScreen = 3" "home_distance SetSysScreen = 4" "home_distance SetClearRecordScreen = 4"
    "home_distance SetDateTimeScreen = 5" "home_distance ClearDuanLuAlarmRecordScreen = 5"
    "home_distance ClearDuanXianAlarmRecordScreen = 5"
    by (simp_all add: home_distance_def)
  show "current_screen u = SetClearRecordScreen \<Longrightarrow> on_SetClearRecordScreen KEY_ESC_PRESS u = Some u' \<Longrightarrow> distance u' < distance u"
    "current_screen u = ClearDuanLuAlarmRecordScreen \<Longrightarrow> on_ClearDuanLuAlarmRecordScreen KEY_ESC_PRESS u = Some u' \<Longrightarrow>
       distance u' < distance u"
    "current_screen u = ClearDuanXianAlarmRecordScreen \<Longrightarrow> on_ClearDuanXianAlarmRecordScreen KEY_ESC_PRESS u = Some u' \<Longrightarrow>
       distance u' < distance u"
    using set by (auto simp: clear_esc back_to_SetMenu_def low)
  have "distance ((goto_screen SetSysScreen (draw n) u)\<lparr>row_fx_pos := x\<rparr>) = distance (goto_screen SetSysScreen (draw n) u)" for n x
    by (simp add: distance_def)
  moreover have "distance (arrow (draw n (u\<lparr>flag_PageState := NormalState, rtcTempStr_temp_test := t, row_fx_pos := x\<rparr>))) < distance u"
    if "\<not> flag_PageState u" for n t x
    using that by (simp add: distance_def)
  ultimately show "current_screen u = SetDateTimeScreen \<Longrightarrow> on_SetDateTimeScreen nack KEY_ESC_PRESS u = Some u' \<Longrightarrow>
      distance u' < distance u"
    using set by (auto simp: time_esc low split: if_splits)
qed

text \<open>The screens from which \<^verbatim>\<open>KEY_ESC\<close> leads back: not those that wait for a calibration or list the alarms.\<close>

definition escapable :: "screen \<Rightarrow> bool" where
  "escapable s \<longleftrightarrow> s \<notin> {112..115} \<and> s \<noteq> AlarmTypeListScreen"

lemma esc_total: "escapable (current_screen u) \<Longrightarrow> \<exists>u'. screen_round nack KEY_ESC_PRESS u = Some u'"
  by (simp add: escapable_def screen_round_def Let_def on_SetDateTimeScreen_def on_SetDateTime_modify_def clear_defs)

lemma esc_round:
  assumes "screen_round nack KEY_ESC_PRESS u = Some u'" "menu_wf u" "escapable (current_screen u)"
  shows "distance u' < distance u \<or> current_screen u = RunScreen \<and> current_screen u' = RunScreen"
  using assms(1)
proof (cases rule: screen_round_cases)
  case (await s n)
  then show ?thesis using assms(3) by (simp add: escapable_def)
next
  case keys
  have "current_screen u \<in> menu_screens" using assms(2) by (simp add: menu_wf_def)
  from keys_closer [OF this keys(3)] show ?thesis
    using keys(1) assms(2) by (auto simp: every_def closer_def)
qed (use assms option_closer [of u] wf_flag [OF assms(2)] in
  \<open>simp_all add: escapable_def on_RunScreen_def on_AFangQuMonitorScreen_def on_BFangQuMonitorScreen_def esc_defs Let_def\<close>)

end
