(* ===== verification/MenuSpec.thy ===== *)
theory MenuSpec
  imports MenuHome
begin

text \<open>
  The properties of the menu: where \<^verbatim>\<open>KEY_ESC\<close> leads, who reaches the settings and what changes them, what is stored
  after an edit, and what the list of alarms shows.
\<close>

subsection \<open>The way home\<close>

lemma settings_running: "settings d = settings e \<Longrightarrow> sys_reset d = sys_reset e"
  and settings_rtc: "settings d = settings e \<Longrightarrow> rtc_ok d = rtc_ok e"
  and settings_nv: "settings d = settings e \<Longrightarrow> nv_image g d = nv_image g e"
  by (simp_all add: settings_def rtc_ok_def fun_eq_iff)

lemma esc_one:
  assumes "menu_wf u" "rtc_ok (device u)" "\<not> sys_reset (device u)" "escapable (current_screen u)"
  obtains u' where "main_task_round nack KEY_ESC_PRESS u = Some u'" "menu_wf u'" "settings (device u') = settings (device u)"
    "distance u' < distance u \<or> current_screen u = RunScreen \<and> current_screen u' = RunScreen"
proof -
  let ?v = "u\<lparr>no_key_num := 0\<rparr>"
  obtain u' where u': "screen_round nack KEY_ESC_PRESS ?v = Some u'" using esc_total [of ?v] assms(4) by auto
  have round: "main_task_round nack KEY_ESC_PRESS u = Some u'" using u' assms(3) by (simp add: round_running)
  have "distance ?v = distance u" by (simp add: distance_def)
  then have "distance u' < distance u \<or> current_screen u = RunScreen \<and> current_screen u' = RunScreen"
    using esc_round [OF u'] assms(1,4) by simp
  moreover have "settings (device u') = settings (device u)" using round_calm [OF round] by (simp add: may_store_def)
  ultimately show thesis using round main_task_round_wf [OF round assms(1,2)] that by blast
qed

lemma escapable_near: "distance u \<le> 7 \<Longrightarrow> escapable (current_screen u)"
  by (auto simp: distance_def home_distance_def escapable_def split: if_splits)

lemma distance_bound: "menu_wf u \<Longrightarrow> escapable (current_screen u) \<Longrightarrow> distance u \<le> 6"
proof -
  assume wf: "menu_wf u" and esc: "escapable (current_screen u)"
  have near: "home_distance s \<le> 6" if "escapable s" for s
    using that by (auto simp: home_distance_def escapable_def)
  show ?thesis
  proof (cases "flag_PageState u")
    case True
    then show ?thesis using near [OF esc] by (simp add: distance_def)
  next
    case False
    with wf_flag [OF wf] have "current_screen u \<in> {18, 10, 103, 8, 9, 47}" by blast
    then have "home_distance (current_screen u) \<le> 5" by (auto simp: home_distance_def)
    then show ?thesis using False by (simp add: distance_def)
  qed
qed

lemma esc_many:
  assumes "menu_wf u" "rtc_ok (device u)" "\<not> sys_reset (device u)" "distance u \<le> n" "n \<le> 7"
  shows "\<exists>u'. run_keys nack (replicate n KEY_ESC_PRESS) u = Some u' \<and> current_screen u' = RunScreen \<and>
    settings (device u') = settings (device u)"
  using assms
proof (induction n arbitrary: u)
  case 0
  then show ?case by (auto simp: distance_def home_distance_def split: if_splits)
next
  case (Suc n)
  have esc: "escapable (current_screen u)" using Suc.prems by (intro escapable_near) simp
  obtain v where v: "main_task_round nack KEY_ESC_PRESS u = Some v" "menu_wf v" "settings (device v) = settings (device u)"
    "distance v < distance u \<or> current_screen u = RunScreen \<and> current_screen v = RunScreen"
    using esc_one [OF Suc.prems(1-3) esc] by blast
  have run: "distance v = 0" if "current_screen v = RunScreen"
    using wf_flag [OF v(2)] that by (simp add: distance_def home_distance_def)
  have "distance v \<le> n" using v(4) run Suc.prems(4) by auto
  then show ?case
    using Suc.IH [OF v(2)] Suc.prems v settings_running [OF v(3)] settings_rtc [OF v(3)] by auto
qed

text \<open>
  C27: From every screen but the list of alarms and those that wait for a calibration, six presses of \<^verbatim>\<open>KEY_ESC\<close>
  lead to the running screen, whatever was being edited, and change no setting: not the EEPROM, not a parameter,
  not the time.
\<close>

theorem esc_leads_home:
  assumes "alive u" "\<not> sys_reset (device u)" "escapable (current_screen u)"
  shows "\<exists>u'. run_keys nack (replicate 6 KEY_ESC_PRESS) u = Some u' \<and> current_screen u' = RunScreen \<and>
    settings (device u') = settings (device u)"
  using esc_many [OF alive_wf [OF assms(1)] alive_rtc [OF assms(1,2)] assms(2)
      distance_bound [OF alive_wf [OF assms(1)] assms(3)]] by simp

lemma alive_run_keys: "alive u \<Longrightarrow> run_keys nack ks u = Some u' \<Longrightarrow> alive u'"
proof (induction ks arbitrary: u)
  case (Cons k ks)
  then obtain v where "main_task_round nack k u = Some v" "run_keys nack ks v = Some u'"
    by (cases "main_task_round nack k u") auto
  then show ?case using Cons.IH alive.runs [OF Cons.prems(1) device_step.round] by blast
qed simp

lemma round_on:
  assumes "\<not> sys_reset (device u)" "key \<noteq> KEY_NO_PRESS" "\<not> apart (current_screen u)"
  shows "main_task_round nack key u = Some (screen_keys (current_screen u) key (u\<lparr>no_key_num := 0\<rparr>))"
  using assms by (simp add: round_running screen_round_def apart_def)

lemma round_run_screen:
  assumes "\<not> sys_reset (device u)" "key \<noteq> KEY_NO_PRESS" "current_screen u = RunScreen"
  shows "main_task_round nack key u = Some (on_RunScreen key (u\<lparr>no_key_num := 0\<rparr>))"
  using assms by (simp add: round_running screen_round_def)

theorem esc_leads_home_witness:
  "\<exists>u u'. run_keys (\<lambda>n. False) [KEY_ENTER_PRESS, KEY_ENTER_PRESS] (ui_init new_device) = Some u \<and>
     current_screen u = InputPasswordScreen \<and>
     run_keys (\<lambda>n. False) (replicate 6 KEY_ESC_PRESS) u = Some u' \<and> current_screen u' = RunScreen"
proof -
  obtain u where u: "run_keys (\<lambda>n. False) [KEY_ENTER_PRESS, KEY_ENTER_PRESS] (ui_init new_device) = Some u"
    "current_screen u = InputPasswordScreen" "\<not> sys_reset (device u)"
    using new_device_running
    by (simp add: round_run_screen round_on ui_init_def on_RunScreen_def on_UserLoginScreen_def keys4_def apart_def
        screen_keys_def draw_def on_device_def DisplayRunMenu_def Let_def)
  have "escapable (current_screen u)" by (simp add: u(2) escapable_def)
  from esc_leads_home [OF alive_run_keys [OF alive_new_device u(1)] u(3) this] show ?thesis using u by blast
qed

subsection \<open>Who reaches the settings\<close>

text \<open>
  C28: The screens of the super user, among them every screen that changes settings, are entered from the others
  only as the super user, by typing the password or by \<^verbatim>\<open>KEY_ESC\<close> from a menu both users share, and only at their
  root.
\<close>

theorem super_screens_guarded:
  assumes "main_task_round nack key u = Some u'" "current_screen u \<notin> super_screens" "current_screen u' \<in> super_screens"
  shows "current_screen u' = SuperUserRootScreen \<and> UserId u = SuperUser \<and>
    (current_screen u = InputPasswordScreen \<and> key = KEY_ENTER_PRESS \<and> inputPassword u = lcd_super_password \<or>
     current_screen u \<in> {InqScreen, TensionMonitorScreen, VerScreen} \<and> key = KEY_ESC_PRESS)"
  using round_guarded [OF assms(1,2)] assms(3) by (auto simp: way_in_def)

theorem super_screens_guarded_witness:
  fixes u
  defines "u \<equiv> (ui_init new_device)\<lparr>current_screen := InputPasswordScreen, UserId := SuperUser, inputPassword := ascii ''123456''\<rparr>"
  shows "\<exists>u'. main_task_round (\<lambda>n. False) KEY_ENTER_PRESS u = Some u' \<and> current_screen u' = SuperUserRootScreen \<and>
    inputPassword u = lcd_super_password"
proof -
  have run: "\<not> sys_reset (device u)" using new_device_running by (simp add: u_def)
  obtain u' where u': "main_task_round (\<lambda>n. False) KEY_ENTER_PRESS u = Some u'" "current_screen u' \<in> super_screens"
    using run by (simp add: round_on apart_def screen_keys_def on_InputPasswordScreen_def check_password_def
        lcd_super_password_def super_screens_def u_def)
  moreover have "current_screen u \<notin> super_screens" by (simp add: u_def)
  ultimately show ?thesis using super_screens_guarded [OF u'(1) _ u'(2)] by (auto simp: u_def)
qed

text \<open>
  C29: Outside these screens no key changes a setting, and on them only \<^verbatim>\<open>KEY_ENTER\<close> does, but for the types of the
  switches: on their screen \<^verbatim>\<open>KEY_UP\<close> and \<^verbatim>\<open>KEY_DOWN\<close> at once change the type of one switch to the next or the previous, and
  nothing else of the device.
\<close>

theorem settings_change_on_enter:
  assumes "main_task_round nack key u = Some u'" "settings (device u') \<noteq> settings (device u)"
  shows "current_screen u \<in> super_screens \<and>
    (key = KEY_ENTER_PRESS \<or> current_screen u = SetExtDeviceTypeScreen \<and>
       (key = KEY_UP_PRESS \<and> one_type type_up (device u) (device u') \<or>
        key = KEY_DOWN_PRESS \<and> one_type type_down (device u) (device u')))"
proof -
  have "device u' \<noteq> device u" using assms(2) by auto
  then show ?thesis
    using round_calm [OF assms(1)] round_type [OF assms(1)] assms(2)
    by (auto simp: may_store_def super_screens_def storing_def)
qed

lemma type_up_other: "type_up t \<noteq> t"
  by (auto simp: type_up_def)

theorem settings_change_on_enter_witness:
  fixes u
  defines "u \<equiv> (ui_init new_device)\<lparr>current_screen := SetExtDeviceTypeScreen, row_point := 1, flag_PageState := ModifyState\<rparr>"
  shows "\<exists>u'. main_task_round (\<lambda>n. False) KEY_UP_PRESS u = Some u' \<and>
    SW_Type (device u') 0 = type_up (SW_Type (device u) 0) \<and> current_screen u \<in> super_screens"
proof -
  have run: "\<not> sys_reset (device u)" using new_device_running by (simp add: u_def)
  obtain u' where u': "main_task_round (\<lambda>n. False) KEY_UP_PRESS u = Some u'"
    "SW_Type (device u') 0 = type_up (SW_Type (device u) 0)"
    using run by (simp add: round_on apart_def screen_keys_def on_SetExtDeviceTypeScreen_def
        on_SetExtDeviceType_modify_def keys4_def edit_type_def u_def on_device_def draw_def)
  then have "nv_image NvSw (device u') \<noteq> nv_image NvSw (device u)"
    using type_up_other [of "SW_Type (device u) 0"] by auto
  then have "settings (device u') \<noteq> settings (device u)" using settings_nv by blast
  then show ?thesis using settings_change_on_enter [OF u'(1)] u' by blast
qed


subsection \<open>Typing the password\<close>

text \<open>The keys that type a password: each digit is counted up from 0.\<close>

fun password_keys :: "nat list \<Rightarrow> u32 list" where
  "password_keys [] = []"
| "password_keys [x] = replicate x KEY_UP_PRESS"
| "password_keys (x # xs) = replicate x KEY_UP_PRESS @ KEY_RIGHT_PRESS # password_keys xs"

definition typing :: "nat \<Rightarrow> u8 list \<Rightarrow> u8 \<Rightarrow> ui \<Rightarrow> bool" where
  "typing i pw w u \<longleftrightarrow> current_screen u = InputPasswordScreen \<and> \<not> sys_reset (device u) \<and> row_fx_pos u = of_nat i \<and>
     inputPassword u = pw \<and> UserId u = w \<and> i < 6 \<and> length pw = 6"

lemma typing_pos:
  assumes "i < 6"
  shows "nat (sint (of_nat i :: s8)) = i" "i < 5 \<Longrightarrow> \<not> sint (of_nat i + 1 :: s8) > 5"
    "i < 5 \<Longrightarrow> nat (sint (of_nat i + 1 :: s8)) = Suc i"
proof -
  have "i \<in> {0, 1, 2, 3, 4, 5}" using assms by auto
  then show "nat (sint (of_nat i :: s8)) = i" "i < 5 \<Longrightarrow> \<not> sint (of_nat i + 1 :: s8) > 5"
    "i < 5 \<Longrightarrow> nat (sint (of_nat i + 1 :: s8)) = Suc i"
    by auto
qed

lemma typing_round:
  assumes "typing i pw w u" "key \<noteq> KEY_NO_PRESS"
  shows "main_task_round nack key u = Some (on_InputPasswordScreen key (u\<lparr>no_key_num := 0\<rparr>))"
  using assms by (simp add: typing_def round_on apart_def screen_keys_def)

lemma type_up_key:
  assumes "typing i (pw[i := 0x30 + of_nat x]) w u" "x < 9" "length pw = 6"
  shows "\<exists>v. main_task_round nack KEY_UP_PRESS u = Some v \<and> typing i (pw[i := 0x30 + of_nat (Suc x)]) w v"
proof -
  have "i < 6" using assms by (simp add: typing_def)
  have x: "\<not> 0x39 < 0x31 + (of_nat x :: u8)"
    using assms(2) by (simp add: word_less_nat_alt unat_word_ariths unat_of_nat)
  show ?thesis
    using assms \<open>i < 6\<close> x typing_pos(1) [OF \<open>i < 6\<close>]
    by (simp add: typing_round) (simp add: typing_def on_InputPasswordScreen_def digit_def set_digit_def Let_def draw_def add.assoc)
qed

lemma type_digit:
  assumes "typing i (pw[i := 0x30]) w u" "x \<le> 9" "length pw = 6"
  shows "\<exists>v. run_keys nack (replicate x KEY_UP_PRESS) u = Some v \<and> typing i (pw[i := 0x30 + of_nat x]) w v"
  using assms(2)
proof (induction x)
  case (Suc x)
  then obtain v where v: "run_keys nack (replicate x KEY_UP_PRESS) u = Some v" "typing i (pw[i := 0x30 + of_nat x]) w v"
    by auto
  obtain v' where "main_task_round nack KEY_UP_PRESS v = Some v'" "typing i (pw[i := 0x30 + of_nat (Suc x)]) w v'"
    using type_up_key [OF v(2) _ assms(3)] Suc.prems by auto
  then show ?case
    using v(1) by (simp add: run_keys_append replicate_append_same [symmetric] del: replicate_append_same of_nat_Suc)
qed (use assms in simp)

lemma type_right:
  assumes "typing i pw w u" "i < 5"
  shows "\<exists>v. main_task_round nack KEY_RIGHT_PRESS u = Some v \<and> typing (Suc i) (pw[Suc i := 0x30]) w v"
proof -
  have "\<not> sint (row_fx_pos u + 1) > 5" "nat (sint (row_fx_pos u + 1)) = Suc i"
    using assms typing_pos [of i] by (simp_all add: typing_def)
  then show ?thesis
    using assms by (simp add: typing_round) (simp add: typing_def on_InputPasswordScreen_def set_digit_def Let_def draw_def)
qed

lemma type_digits:
  assumes "typing i (pw[i := 0x30]) w u" "i + length ds = 6" "\<forall>x\<in>set ds. x \<le> 9" "length pw = 6"
  shows "\<exists>v. run_keys nack (password_keys ds) u = Some v \<and> typing 5 (take i pw @ map (\<lambda>x. 0x30 + of_nat x) ds) w v"
  using assms
proof (induction ds arbitrary: i pw u)
  case Nil
  then show ?case by (simp add: typing_def)
next
  case (Cons x xs)
  obtain v where v: "run_keys nack (replicate x KEY_UP_PRESS) u = Some v" "typing i (pw[i := 0x30 + of_nat x]) w v"
    using type_digit [OF Cons.prems(1), of x nack] Cons.prems by auto
  show ?case
  proof (cases xs)
    case Nil
    then have "i = 5" using Cons.prems by simp
    have "pw[5 := c] = take 5 pw @ [c]" for c
      using Cons.prems(4) by (auto simp: eval_nat_numeral length_Suc_conv)
    then show ?thesis using v Nil \<open>i = 5\<close> by simp
  next
    case (Cons y ys)
    then have "i < 5" using Cons.prems by simp
    let ?pw = "pw[i := 0x30 + of_nat x]"
    obtain v' where v': "main_task_round nack KEY_RIGHT_PRESS v = Some v'" "typing (Suc i) (?pw[Suc i := 0x30]) w v'"
      using type_right [OF v(2) \<open>i < 5\<close>] by blast
    have "take (Suc i) ?pw = take i pw @ [0x30 + of_nat x]"
      using \<open>i < 5\<close> Cons.prems(4) by (simp add: take_Suc_conv_app_nth)
    then show ?thesis
      using Cons.IH [OF v'(2)] Cons.prems v(1) v'(1) Cons by (auto simp: run_keys_append)
  qed
qed

lemma digits_inj:
  assumes "map (\<lambda>x. 0x30 + of_nat x :: u8) ds = map (\<lambda>x. 0x30 + of_nat x) es" "\<forall>x\<in>set ds. x \<le> 9" "\<forall>x\<in>set es. x \<le> 9"
  shows "ds = es"
proof (rule map_inj_on [OF assms(1)])
  have "x = y" if "(0x30 + of_nat x :: u8) = 0x30 + of_nat y" "x \<le> 9" "y \<le> 9" for x y
    using arg_cong [of _ _ unat, OF that(1)] that(2,3) by (simp add: unat_word_ariths unat_of_nat)
  then show "inj_on (\<lambda>x. 0x30 + of_nat x :: u8) (set ds \<union> set es)"
    using assms(2,3) by (auto simp: inj_on_def)
qed

lemma passwords: "lcd_super_password = map (\<lambda>x. 0x30 + of_nat x) [1, 2, 3, 4, 5, 6]"
  "lcd_ordinary_password = map (\<lambda>x. 0x30 + of_nat x) [0, 0, 0, 0, 0, 0]"
  by (simp_all add: lcd_super_password_def lcd_ordinary_password_def ascii_def)

lemma check_screen:
  assumes "typing 5 (map (\<lambda>x. 0x30 + of_nat x) ds) w u" "w = SuperUser \<or> w = OrdinaryUser" "\<forall>x\<in>set ds. x \<le> 9"
  shows "\<exists>v. main_task_round nack KEY_ENTER_PRESS u = Some v \<and> UserId v = w \<and> current_screen v =
    (if w = SuperUser \<and> ds = [1, 2, 3, 4, 5, 6] then SuperUserRootScreen
     else if w = OrdinaryUser \<and> ds = [0, 0, 0, 0, 0, 0] then OrdinaryUserRootScreen else PasswordErrorScreen)"
proof -
  define p where "p = map (\<lambda>x. 0x30 + of_nat x :: u8) ds"
  have right: "p = lcd_super_password \<longleftrightarrow> ds = [1, 2, 3, 4, 5, 6]" "p = lcd_ordinary_password \<longleftrightarrow> ds = [0, 0, 0, 0, 0, 0]"
    using digits_inj [of ds "[1, 2, 3, 4, 5, 6]"] digits_inj [of ds "[0, 0, 0, 0, 0, 0]"] assms(3)
    by (auto simp: passwords p_def)
  have u: "current_screen u = InputPasswordScreen" "UserId u = w" "inputPassword u = p" "\<not> sys_reset (device u)"
    using assms(1) by (simp_all add: typing_def p_def)
  have fields: "UserId (goto_late s (draw n) v) = UserId v" "UserId (show_screen s (draw n) v) = UserId v" for s n v
    by (simp_all add: goto_late_def show_screen_def draw_def arrow_def)
  have "main_task_round nack KEY_ENTER_PRESS u = Some (check_password (u\<lparr>no_key_num := 0\<rparr>))"
    using u by (simp add: typing_round [OF assms(1)] on_InputPasswordScreen_def)
  moreover from assms(2) have "UserId (check_password (u\<lparr>no_key_num := 0\<rparr>)) = w \<and>
    current_screen (check_password (u\<lparr>no_key_num := 0\<rparr>)) =
      (if w = SuperUser \<and> ds = [1, 2, 3, 4, 5, 6] then SuperUserRootScreen
       else if w = OrdinaryUser \<and> ds = [0, 0, 0, 0, 0, 0] then OrdinaryUserRootScreen else PasswordErrorScreen)"
    by (elim disjE; simp only: check_password_def Let_def; simp add: u(2,3) right fields)
  ultimately show ?thesis by blast
qed

text \<open>
  C30: Whoever chooses a user and types six digits comes to the root of that user exactly when they are the user's
  password, and to the refusal otherwise.
\<close>

theorem password_checked:
  assumes "current_screen u = UserLoginScreen" "\<not> sys_reset (device u)" "UserId u = SuperUser \<or> UserId u = OrdinaryUser"
    "length ds = 6" "\<forall>x\<in>set ds. x \<le> 9"
  shows "\<exists>u'. run_keys nack (KEY_ENTER_PRESS # password_keys ds @ [KEY_ENTER_PRESS]) u = Some u' \<and>
    UserId u' = UserId u \<and> current_screen u' =
    (if UserId u = SuperUser \<and> ds = [1, 2, 3, 4, 5, 6] then SuperUserRootScreen
     else if UserId u = OrdinaryUser \<and> ds = [0, 0, 0, 0, 0, 0] then OrdinaryUserRootScreen else PasswordErrorScreen)"
proof -
  obtain v where v: "main_task_round nack KEY_ENTER_PRESS u = Some v" "typing 0 ((ascii ''0$$$$$'')[0 := 0x30]) (UserId u) v"
    using assms(1,2) by (simp add: round_on apart_def screen_keys_def on_UserLoginScreen_def keys4_def typing_def ascii_def
        draw_def)
  obtain w where w: "run_keys nack (password_keys ds) v = Some w" "typing 5 (map (\<lambda>x. 0x30 + of_nat x) ds) (UserId u) w"
    using type_digits [OF v(2), of ds nack] assms(4,5) by (auto simp: ascii_def)
  have "run_keys nack (KEY_ENTER_PRESS # password_keys ds @ [KEY_ENTER_PRESS]) u = main_task_round nack KEY_ENTER_PRESS w"
    using v(1) w(1) by (cases "main_task_round nack KEY_ENTER_PRESS w") (simp_all add: run_keys_append)
  then show ?thesis using check_screen [OF w(2) assms(3,5), of nack] by simp
qed

theorem password_checked_witness:
  fixes u
  defines "u \<equiv> (ui_init new_device)\<lparr>current_screen := UserLoginScreen, UserId := SuperUser\<rparr>"
  shows "\<exists>v w. run_keys (\<lambda>n. False) (KEY_ENTER_PRESS # password_keys [1, 2, 3, 4, 5, 6] @ [KEY_ENTER_PRESS]) u = Some v \<and>
    current_screen v = SuperUserRootScreen \<and>
    run_keys (\<lambda>n. False) (KEY_ENTER_PRESS # password_keys [1, 2, 3, 4, 5, 7] @ [KEY_ENTER_PRESS]) u = Some w \<and>
    current_screen w = PasswordErrorScreen"
  using password_checked [of u "[1, 2, 3, 4, 5, 6]" "\<lambda>n. False"] password_checked [of u "[1, 2, 3, 4, 5, 7]" "\<lambda>n. False"]
    new_device_running
  by (auto simp: u_def simp del: run_keys.simps password_keys.simps)

end
