(* ===== verification/AlarmListSpec.thy ===== *)
theory AlarmListSpec
  imports MenuSpec
begin

text \<open>
  What the list of alarms shows, and a way around the password that leads through it.
\<close>

subsection \<open>The list of alarms\<close>

text \<open>The numbers of the alarms that are on, in the order of their bits.\<close>

definition active :: "u16 \<Rightarrow> nat list" where
  "active s = filter (bit s) [0..<10]"

definition alarm_line :: "nat \<Rightarrow> drawing" where
  "alarm_line i = Draw (''alarm '' @ fmt_d (int i))"

lemma bit_shifted: "(drop_bit i (s :: u16) AND 1 = 1) = bit s i"
  by (simp add: and_one_eq bit_iff_odd_drop_bit odd_iff_mod_2_eq_one)

lemma sort_alarms_eq:
  assumes "alarm_type_cnt u = of_nat k" "k + length is \<le> 255"
  shows "sort_alarms is u =
    (let fs = filter (bit (cur_Alarm_Type_Sum u)) is
     in u\<lparr>alarm_sequence_buf := (\<lambda>j. if k \<le> j \<and> j < k + length fs then of_nat (fs ! (j - k)) else alarm_sequence_buf u j),
          alarm_type_cnt := of_nat (k + length fs)\<rparr>)"
  using assms
proof (induction "is" arbitrary: u k)
  case Nil
  then show ?case by (auto simp: fun_eq_iff intro!: ui.equality)
next
  case (Cons i "is")
  let ?s = "cur_Alarm_Type_Sum u"
  show ?case
  proof (cases "bit ?s i")
    case True
    have k: "unat (alarm_type_cnt u) = k" using Cons.prems by (simp add: unat_of_nat)
    let ?u = "u\<lparr>alarm_sequence_buf := (alarm_sequence_buf u)(k := of_nat i), alarm_type_cnt := alarm_type_cnt u + 1\<rparr>"
    have "sort_alarms (i # is) u = sort_alarms is ?u" using True k by (simp add: bit_shifted)
    also have "\<dots> = (let fs = filter (bit ?s) is
       in ?u\<lparr>alarm_sequence_buf := (\<lambda>j. if Suc k \<le> j \<and> j < Suc k + length fs then of_nat (fs ! (j - Suc k))
              else alarm_sequence_buf ?u j), alarm_type_cnt := of_nat (Suc k + length fs)\<rparr>)"
      using Cons.IH [of ?u "Suc k"] Cons.prems by simp
    finally show ?thesis using True by (auto simp: Let_def fun_eq_iff nth_Cons' intro!: ui.equality)
  next
    case False
    then show ?thesis using Cons.IH [of u k] Cons.prems by (simp add: bit_shifted)
  qed
qed

lemma list_alarms_eq:
  "list_alarms is u =
    (if \<forall>i\<in>set is. 0 \<le> i \<and> i < 10
     then Some (u\<lparr>drawn := drawn u @ map (\<lambda>i. Draw (''alarm '' @ fmt_d (uint (alarm_sequence_buf u (nat i))))) is\<rparr>)
     else None)"
  by (induction "is" arbitrary: u) (simp_all add: list_alarm_def draw_def)

text \<open>The list is sorted: the variables hold the active alarms \<open>as\<close>, the last first.\<close>

definition sorted_for :: "nat list \<Rightarrow> ui \<Rightarrow> bool" where
  "sorted_for as u \<longleftrightarrow> old_Alarm_Type_Sum u = shown_alarms u \<and> alarm_type_cnt u = of_nat (length as) \<and>
     (\<forall>i < length as. alarm_sequence_buf u i = of_nat (rev as ! i))"

lemma active_bound: "length (active s) \<le> 10" "i \<in> set (active s) \<Longrightarrow> i < 10"
  using length_filter_le [of "bit s" "[0..<10]"] by (auto simp: active_def)

lemma first_call:
  assumes "old_Alarm_Type_Sum u \<noteq> shown_alarms u"
  shows "\<exists>v. DisplayAlarmTypeList u = Some v \<and> sorted_for (active (shown_alarms u)) v \<and> device v = device u \<and>
    current_screen v = current_screen u \<and> UserId v = UserId u \<and> alarm_key_adj v = alarm_key_adj u \<and>
    drawn v = drawn u @ [Draw ''DisplayAlarmTypeList''] \<and> flag_PageState v = flag_PageState u \<and>
    (\<forall>i\<ge>length (active (shown_alarms u)). alarm_sequence_buf v i = alarm_sequence_buf u i)"
proof -
  let ?s = "shown_alarms u"
  let ?u = "u\<lparr>cur_Alarm_Type_Sum := ?s, drawn := drawn u @ [Draw ''DisplayAlarmTypeList''], alarm_type_cnt := 0\<rparr>"
  have "filter (bit ?s) (rev [0..<10]) = rev (active ?s)" by (simp add: active_def rev_filter)
  then have sort: "sort_alarms (rev [0..<10]) ?u =
    ?u\<lparr>alarm_sequence_buf := (\<lambda>j. if j < length (active ?s) then of_nat (rev (active ?s) ! j) else alarm_sequence_buf u j),
       alarm_type_cnt := of_nat (length (active ?s))\<rparr>"
    using sort_alarms_eq [of ?u 0 "rev [0..<10]"] by (simp cong: if_cong)
  have call: "DisplayAlarmTypeList u = Some ((sort_alarms (rev [0..<10]) ?u)\<lparr>old_Alarm_Type_Sum := cur_Alarm_Type_Sum (sort_alarms (rev [0..<10]) ?u)\<rparr>)"
    using assms by (simp add: DisplayAlarmTypeList_def draw_def Let_def)
  show ?thesis unfolding call sort by (simp add: sorted_for_def) (simp add: shown_alarms_def)
qed

lemma upto_small: "n < 4 \<Longrightarrow> rev [0..int n - 1] = map int (rev [0..<n])"
  by (auto simp: less_Suc_eq eval_nat_numeral upto_rec1)

text \<open>
  The window of three alarms that is shown of more.  A scroll position below zero shows what is left of older lists
  behind the present one in the buffer \<open>buf\<close>.
\<close>

definition window :: "(nat \<Rightarrow> u8) \<Rightarrow> int \<Rightarrow> nat list \<Rightarrow> nat list option" where
  "window buf adj as =
     (if length as < 4 then Some as
      else if 0 \<le> adj then if nat adj + 3 \<le> length as then Some (take 3 (drop (nat adj) as)) else None
      else let m = nat (- adj)
           in if length as + m \<le> 10
              then Some (take 3 (map (\<lambda>i. unat (buf i)) (rev [length as..<length as + m]) @ as)) else None)"

lemma last_index:
  assumes "n \<le> 10"
  shows "sint (of_nat n - 1 :: s8) = int n - 1" "(of_nat n < (4 :: u8)) = (n < 4)" "ucast (of_nat n :: u8) = (of_nat n :: s8)"
proof -
  show "sint (of_nat n - 1 :: s8) = int n - 1"
  proof (cases n)
    case (Suc m)
    then show ?thesis using assms by (simp add: signed_of_nat signed_take_bit_int_eq_self)
  qed simp
qed (use assms in \<open>simp_all add: word_less_nat_alt unat_of_nat\<close>)

text \<open>Three entries of the buffer, from \<open>top\<close> down, are three entries of the list with the older ones in front.\<close>

lemma take_3_drop: "k + 3 \<le> length xs \<Longrightarrow> take 3 (drop k xs) = [xs ! k, xs ! Suc k, xs ! Suc (Suc k)]"
  by (intro nth_equalityI) (auto simp: less_Suc_eq eval_nat_numeral)

lemma window_entries:
  assumes "4 \<le> length as" "length as + m \<le> 10" "3 + k \<le> length as + m"
    and "\<And>i. i < length as \<Longrightarrow> entry i = alarm_line (as ! (length as - Suc i))"
    and "\<And>i. length as \<le> i \<Longrightarrow> i < 10 \<Longrightarrow> entry i = alarm_line (unat (buf i))"
  shows "map entry [length as + m - Suc k, length as + m - Suc (Suc k), length as + m - Suc (Suc (Suc k))] =
    map alarm_line (take 3 (drop k (map (\<lambda>i. unat (buf i)) (rev [length as..<length as + m]) @ as)))"
proof -
  let ?L = "map (\<lambda>i. unat (buf i)) (rev [length as..<length as + m]) @ as"
  have e: "entry (length as + m - Suc j) = alarm_line (?L ! j)" if "j < length as + m" for j
  proof (cases "j < m")
    case True
    then have "entry (length as + m - Suc j) = alarm_line (unat (buf (length as + m - Suc j)))"
      using assms(2) by (intro assms(5)) auto
    then show ?thesis using True by (simp add: nth_append rev_nth)
  next
    case False
    then have "entry (length as + m - Suc j) = alarm_line (as ! (length as - Suc (length as + m - Suc j)))"
      using that by (intro assms(4)) auto
    moreover have "length as - Suc (length as + m - Suc j) = j - m" using False that by auto
    ultimately show ?thesis using False by (simp add: nth_append)
  qed
  have "take 3 (drop k ?L) = [?L ! k, ?L ! Suc k, ?L ! Suc (Suc k)]"
    using assms(3) by (intro take_3_drop) simp
  moreover have "map entry [length as + m - Suc k, length as + m - Suc (Suc k), length as + m - Suc (Suc (Suc k))] =
      [alarm_line (?L ! k), alarm_line (?L ! Suc k), alarm_line (?L ! Suc (Suc k))]"
    using e [of k] e [of "Suc k"] e [of "Suc (Suc k)"] assms(3) by simp
  ultimately show ?thesis by (simp only: list.map)
qed

lemma second_call:
  assumes "sorted_for as u" "length as \<le> 10" "\<forall>i\<in>set as. i < 10"
  shows "map_option drawn (DisplayAlarmTypeList u) =
    map_option (\<lambda>is. drawn u @ Draw ''DisplayAlarmTypeList'' # map alarm_line is)
      (window (alarm_sequence_buf u) (sint (alarm_key_adj u)) as)"
proof -
  let ?n = "length as" and ?a = "sint (alarm_key_adj u)"
  let ?v = "(draw ''DisplayAlarmTypeList'' (u\<lparr>cur_Alarm_Type_Sum := shown_alarms u\<rparr>))\<lparr>alarm_rol := of_nat ?n - 1\<rparr>"
  let ?e = "\<lambda>i. Draw (''alarm '' @ fmt_d (uint (alarm_sequence_buf ?v i)))"
  let ?is = "[int ?n - 1 - ?a, int ?n - 1 - ?a - 1, int ?n - 1 - ?a - 2]"
  note rol = last_index [OF assms(2)]
  have dv: "drawn ?v = drawn u @ [Draw ''DisplayAlarmTypeList'']" by (simp add: draw_def)
  have seq: "alarm_sequence_buf ?v i = of_nat (as ! (?n - Suc i))" if "i < ?n" for i
    using assms(1) that by (simp add: sorted_for_def rev_nth draw_def)
  have line: "?e i = alarm_line (as ! (?n - Suc i))" if "i < ?n" for i
  proof -
    have "as ! (?n - Suc i) < 10" using assms(3) that by simp
    then show ?thesis using seq [OF that] by (simp add: alarm_line_def uint_nat unat_of_nat)
  qed
  have old: "?e i = alarm_line (unat (alarm_sequence_buf u i))" for i
    by (simp add: alarm_line_def draw_def)
  have call: "DisplayAlarmTypeList u =
    (if ?n < 4 then list_alarms (rev [0..int ?n - 1]) ?v else list_alarms ?is ?v)"
    using assms(1) rol by (simp add: DisplayAlarmTypeList_def sorted_for_def draw_def Let_def shown_alarms_def del: upto.simps)
  consider (few) "?n < 4" | (inside) k m where "4 \<le> ?n" "?n + m \<le> 10" "3 + k \<le> ?n + m" "?a = int k - int m" "k = 0 \<or> m = 0"
    | (outside) "4 \<le> ?n" "0 \<le> ?a \<and> ?n < nat ?a + 3 \<or> ?a < 0 \<and> 10 < ?n + nat (- ?a)"
  proof -
    have "\<exists>k m. 4 \<le> ?n \<and> ?n + m \<le> 10 \<and> 3 + k \<le> ?n + m \<and> ?a = int k - int m \<and> (k = 0 \<or> m = 0)"
      if "4 \<le> ?n" "0 \<le> ?a" "nat ?a + 3 \<le> ?n"
      using that assms(2) by (intro exI [of _ "nat ?a"] exI [of _ 0]) auto
    moreover have "\<exists>k m. 4 \<le> ?n \<and> ?n + m \<le> 10 \<and> 3 + k \<le> ?n + m \<and> ?a = int k - int m \<and> (k = 0 \<or> m = 0)"
      if "4 \<le> ?n" "?a < 0" "?n + nat (- ?a) \<le> 10"
      using that by (intro exI [of _ 0] exI [of _ "nat (- ?a)"]) auto
    ultimately show ?thesis using few inside outside by (meson linorder_not_le)
  qed
  then show ?thesis
  proof cases
    case few
    have "map (\<lambda>i. alarm_line (as ! (?n - Suc i))) (rev [0..<?n]) = map alarm_line as"
      by (rule nth_equalityI) (simp_all add: rev_nth)
    moreover have "map ?e (rev [0..<?n]) = map (\<lambda>i. alarm_line (as ! (?n - Suc i))) (rev [0..<?n])"
      using line by (intro map_cong) auto
    ultimately show ?thesis
      using few by (simp add: call list_alarms_eq upto_small window_def comp_def draw_def)
  next
    case (inside k m)
    have idx: "nat (int ?n - 1 - ?a) = ?n + m - Suc k" "nat (int ?n - 1 - ?a - 1) = ?n + m - Suc (Suc k)"
      "nat (int ?n - 1 - ?a - 2) = ?n + m - Suc (Suc (Suc k))" using inside by auto
    have ok: "\<forall>i\<in>set ?is. 0 \<le> i \<and> i < 10" using inside(2-4) by auto
    let ?L = "map (\<lambda>i. unat (alarm_sequence_buf u i)) (rev [?n..<?n + m]) @ as"
    have lines: "map (\<lambda>i. ?e (nat i)) ?is = map alarm_line (take 3 (drop k ?L))"
      unfolding list.map idx
      using window_entries [of as m k ?e "alarm_sequence_buf u"] inside(1-3) line old by (simp only: list.map)
    have "window (alarm_sequence_buf u) ?a as = Some (take 3 (drop k ?L))"
    proof (cases "m = 0")
      case True
      then show ?thesis using inside by (simp add: window_def)
    next
      case False
      then show ?thesis using inside by (simp add: window_def Let_def)
    qed
    then show ?thesis using inside(1) unfolding call list_alarms_eq if_P [OF ok] lines by (simp add: draw_def)
  next
    case outside
    then have "\<not> (\<forall>i\<in>set ?is. 0 \<le> i \<and> i < 10)" by auto
    then have "list_alarms ?is ?v = None" by (simp only: list_alarms_eq if_False)
    moreover have "window (alarm_sequence_buf u) ?a as = None" using outside by (auto simp: window_def Let_def)
    ultimately show ?thesis using outside(1) by (simp add: call)
  qed
qed

lemma window_cong: "(\<And>i. length as \<le> i \<Longrightarrow> buf i = buf' i) \<Longrightarrow> window buf adj as = window buf' adj as"
  by (auto simp: window_def Let_def intro!: arg_cong [where f = "take 3"])

text \<open>
  C31: After a change of the alarms the first call of \<^verbatim>\<open>DisplayAlarmTypeList\<close> sorts them and the second lists them: all
  of fewer than four, or three of more from the place the operator has scrolled to.  When alarms have gone while the
  list was scrolled to its end, the code reads in front of its buffer; and when the scroll position is below zero,
  where \<^verbatim>\<open>KEY_UP\<close> with one or two alarms leaves it, a list of four or more starts with entries of older lists.
\<close>

theorem alarm_list_shows:
  assumes "old_Alarm_Type_Sum u \<noteq> shown_alarms u"
  shows "\<exists>v. DisplayAlarmTypeList u = Some v \<and> map_option drawn (DisplayAlarmTypeList v) =
    map_option (\<lambda>is. drawn u @ [Draw ''DisplayAlarmTypeList'', Draw ''DisplayAlarmTypeList''] @ map alarm_line is)
      (window (alarm_sequence_buf u) (sint (alarm_key_adj u)) (active (shown_alarms u)))"
proof -
  obtain v where v: "DisplayAlarmTypeList u = Some v" "sorted_for (active (shown_alarms u)) v"
    "alarm_key_adj v = alarm_key_adj u" "drawn v = drawn u @ [Draw ''DisplayAlarmTypeList'']"
    "\<forall>i\<ge>length (active (shown_alarms u)). alarm_sequence_buf v i = alarm_sequence_buf u i"
    using first_call [OF assms] by blast
  have "window (alarm_sequence_buf v) adj (active (shown_alarms u)) = window (alarm_sequence_buf u) adj (active (shown_alarms u))" for adj
    using v(5) by (intro window_cong) simp
  then show ?thesis
    using v(1,3,4) second_call [OF v(2)] active_bound [where s = "shown_alarms u"] by simp
qed

theorem alarm_list_shows_witness:
  fixes d
  defines "d \<equiv> new_device\<lparr>config_code := 4, ALARM_STATE := 0x17\<rparr>"
  shows "\<exists>v w x y z. DisplayAlarmTypeList (ui_init d) = Some v \<and> DisplayAlarmTypeList v = Some w \<and>
    drawn w = [Draw ''DisplayAlarmTypeList'', Draw ''DisplayAlarmTypeList'', Draw ''alarm 0'', Draw ''alarm 1'', Draw ''alarm 2''] \<and>
    DisplayAlarmTypeList ((ui_init d)\<lparr>alarm_key_adj := 2\<rparr>) = Some x \<and> DisplayAlarmTypeList x = None \<and>
    DisplayAlarmTypeList ((ui_init d)\<lparr>alarm_key_adj := -1\<rparr>) = Some y \<and> DisplayAlarmTypeList y = Some z \<and>
    drawn z = [Draw ''DisplayAlarmTypeList'', Draw ''DisplayAlarmTypeList'', Draw ''alarm 0'', Draw ''alarm 0'', Draw ''alarm 1'']"
proof -
  have shown: "shown_alarms (ui_init d) = 0x17" "shown_alarms ((ui_init d)\<lparr>alarm_key_adj := 2\<rparr>) = 0x17"
    "shown_alarms ((ui_init d)\<lparr>alarm_key_adj := -1\<rparr>) = 0x17"
    by (simp_all add: shown_alarms_def d_def bit_iff_odd_drop_bit)
  have act: "active 0x17 = [0, 1, 2, 4]" by (simp add: active_def upt_rec bit_iff_odd_drop_bit)
  have old: "old_Alarm_Type_Sum (ui_init d) = 0" "alarm_key_adj (ui_init d) = 0" "drawn (ui_init d) = []"
    "alarm_sequence_buf (ui_init d) = (\<lambda>i. 0)"
    by (simp_all add: ui_init_def)
  have win: "window (\<lambda>i. 0) 0 [0, 1, 2, 4] = Some [0, 1, 2]" "window (\<lambda>i. 0) 2 [0, 1, 2, 4] = None"
    "window (\<lambda>i. 0) (-1) [0, 1, 2, 4] = Some [0, 0, 1]" by (simp_all add: window_def)
  have line: "map alarm_line [0, 1, 2] = [Draw ''alarm 0'', Draw ''alarm 1'', Draw ''alarm 2'']"
    by (simp add: alarm_line_def fmt_d_def fmt_nat.simps digit_char_def char_of_eq_iff)
  have one: "\<exists>v. DisplayAlarmTypeList (ui_init d) = Some v \<and> map_option drawn (DisplayAlarmTypeList v) =
      Some ([Draw ''DisplayAlarmTypeList'', Draw ''DisplayAlarmTypeList''] @ map alarm_line [0, 1, 2])"
    using alarm_list_shows [of "ui_init d"] by (simp only: shown act old) (simp add: win del: One_nat_def)
  have two: "\<exists>x. DisplayAlarmTypeList ((ui_init d)\<lparr>alarm_key_adj := 2\<rparr>) = Some x \<and> map_option drawn (DisplayAlarmTypeList x) = None"
    using alarm_list_shows [of "(ui_init d)\<lparr>alarm_key_adj := 2\<rparr>"] by (simp only: shown act ui.simps old) (simp add: win old del: One_nat_def)
  have three: "\<exists>v. DisplayAlarmTypeList ((ui_init d)\<lparr>alarm_key_adj := -1\<rparr>) = Some v \<and> map_option drawn (DisplayAlarmTypeList v) =
      Some ([Draw ''DisplayAlarmTypeList'', Draw ''DisplayAlarmTypeList''] @ map alarm_line [0, 0, 1])"
    using alarm_list_shows [of "(ui_init d)\<lparr>alarm_key_adj := -1\<rparr>"]
    by (simp only: shown act ui.simps old) (simp add: win old del: One_nat_def)
  have out: "\<exists>w. DisplayAlarmTypeList v = Some w \<and> drawn w = ds" if "map_option drawn (DisplayAlarmTypeList v) = Some ds" for v ds
    using that by (simp add: map_option_eq_Some)
  obtain v w where v: "DisplayAlarmTypeList (ui_init d) = Some v" "DisplayAlarmTypeList v = Some w"
    "drawn w = [Draw ''DisplayAlarmTypeList'', Draw ''DisplayAlarmTypeList''] @ map alarm_line [0, 1, 2]"
    using one out by blast
  obtain x where x: "DisplayAlarmTypeList ((ui_init d)\<lparr>alarm_key_adj := 2\<rparr>) = Some x" "DisplayAlarmTypeList x = None"
    using two by (auto simp only: option.map_disc_iff)
  obtain y z where y: "DisplayAlarmTypeList ((ui_init d)\<lparr>alarm_key_adj := -1\<rparr>) = Some y" "DisplayAlarmTypeList y = Some z"
    "drawn z = [Draw ''DisplayAlarmTypeList'', Draw ''DisplayAlarmTypeList''] @ map alarm_line [0, 0, 1]"
    using three out by blast
  have "drawn w = [Draw ''DisplayAlarmTypeList'', Draw ''DisplayAlarmTypeList'', Draw ''alarm 0'', Draw ''alarm 1'',
      Draw ''alarm 2'']" "drawn z = [Draw ''DisplayAlarmTypeList'', Draw ''DisplayAlarmTypeList'', Draw ''alarm 0'', Draw ''alarm 0'',
      Draw ''alarm 1'']"
    using v(3) y(3) line by (simp_all only: append.simps list.map list.inject)
  with v(1,2) x y(1,2) show ?thesis by blast
qed

subsection \<open>Around the password\<close>

text \<open>Rounds without a key on the running screen only count and refresh.\<close>

definition unseen :: "screen \<Rightarrow> u16 \<Rightarrow> u8 \<Rightarrow> ui \<Rightarrow> bool" where
  "unseen c s w u \<longleftrightarrow> current_screen u = c \<and> \<not> sys_reset (device u) \<and>
     shown_alarms u = s \<and> old_Alarm_Type_Sum u \<noteq> s \<and> alarm_key_adj u = 0 \<and> UserId u = w"

definition idle :: "nat \<Rightarrow> u16 \<Rightarrow> u8 \<Rightarrow> ui \<Rightarrow> bool" where
  "idle k s w u \<longleftrightarrow> unseen RunScreen s w u \<and> no_key_num u = of_nat k"

lemma shown_refresh [simp]: "shown_alarms (u\<lparr>device := (device u)\<lparr>run_screen_refresh := x\<rparr>\<rparr>) = shown_alarms u"
  "shown_alarms (draw n u) = shown_alarms u" "shown_alarms (u\<lparr>no_key_num := k\<rparr>) = shown_alarms u"
  by (simp_all add: shown_alarms_def draw_def)

lemma idle_round:
  assumes "idle k s w u" "k < 49"
  shows "\<exists>v. main_task_round nack KEY_NO_PRESS u = Some v \<and> idle (Suc k) s w v"
proof -
  have "(of_nat k :: u32) < 50" "(of_nat k :: u32) + 1 \<noteq> 50"
    using assms(2) by (auto simp: word_less_nat_alt unat_of_nat word_unat_eq_iff unat_word_ariths)
  then show ?thesis
    using assms(1) by (simp add: main_task_round_def idle_def unseen_def count_idle_def idle_alarms_def screen_round_def on_RunScreen_def
        on_device_def DisplayRunMenu_def Let_def) (auto simp: draw_def add.commute shown_alarms_def)
qed

lemma idle_rounds:
  "idle 0 s w u \<Longrightarrow> k \<le> 49 \<Longrightarrow> \<exists>v. run_keys nack (replicate k KEY_NO_PRESS) u = Some v \<and> idle k s w v"
proof (induction k)
  case (Suc k)
  then obtain v where v: "run_keys nack (replicate k KEY_NO_PRESS) u = Some v" "idle k s w v" by auto
  obtain v' where "main_task_round nack KEY_NO_PRESS v = Some v'" "idle (Suc k) s w v'"
    using idle_round [OF v(2)] Suc.prems by auto
  then show ?case
    using v(1) by (simp add: run_keys_append replicate_append_same [symmetric] del: replicate_append_same)
qed simp

lemma second_call_update:
  assumes "old_Alarm_Type_Sum u = shown_alarms u" "DisplayAlarmTypeList u = Some v"
  shows "\<exists>r ds. v = u\<lparr>cur_Alarm_Type_Sum := shown_alarms u, alarm_rol := r, drawn := ds\<rparr>"
  using assms by (auto simp: DisplayAlarmTypeList_def draw_def Let_def list_alarms_eq split: if_splits)

text \<open>The list of alarms, sorted and not scrolled.\<close>

definition listing :: "u8 \<Rightarrow> ui \<Rightarrow> bool" where
  "listing w u \<longleftrightarrow> current_screen u = AlarmTypeListScreen \<and> \<not> sys_reset (device u) \<and> shown_alarms u \<noteq> 0 \<and>
     sorted_for (active (shown_alarms u)) u \<and> alarm_key_adj u = 0 \<and> UserId u = w"

lemma listing_call:
  assumes "listing w u"
  shows "\<exists>v. DisplayAlarmTypeList u = Some v \<and> listing w v"
proof -
  let ?as = "active (shown_alarms u)"
  have sorted: "sorted_for ?as u" "sint (alarm_key_adj u) = 0" using assms by (simp_all add: listing_def)
  have "window (alarm_sequence_buf u) 0 ?as \<noteq> None" by (simp add: window_def)
  then have "map_option drawn (DisplayAlarmTypeList u) \<noteq> None"
    using second_call [OF sorted(1)] active_bound [where s = "shown_alarms u"] sorted(2) by auto
  then obtain v where v: "DisplayAlarmTypeList u = Some v" by auto
  obtain r ds where "v = u\<lparr>cur_Alarm_Type_Sum := shown_alarms u, alarm_rol := r, drawn := ds\<rparr>"
    using second_call_update [OF _ v] sorted(1) by (auto simp: sorted_for_def)
  moreover have "shown_alarms (u\<lparr>cur_Alarm_Type_Sum := c, alarm_rol := r, drawn := ds\<rparr>) = shown_alarms u" for c r ds
    by (simp add: shown_alarms_def)
  ultimately have "listing w v" using assms by (simp add: listing_def sorted_for_def)
  with v show ?thesis by blast
qed

lemma listing_no_key [simp]: "listing w (u\<lparr>no_key_num := k\<rparr>) = listing w u"
  by (simp add: listing_def sorted_for_def)

lemma last_idle_round:
  assumes "idle 49 s w u" "s \<noteq> 0"
  shows "\<exists>v. main_task_round nack KEY_NO_PRESS u = Some v \<and> listing w v"
proof -
  let ?u = "u\<lparr>no_key_num := 50, current_screen := AlarmTypeListScreen, row_point := 1\<rparr>"
  have shown: "shown_alarms ?u = s" "shown_alarms (u\<lparr>no_key_num := 50\<rparr>) = s"
    using assms(1) by (auto simp: idle_def unseen_def shown_alarms_def)
  obtain v where v: "DisplayAlarmTypeList ?u = Some v" "sorted_for (active s) v" "device v = device u"
    "current_screen v = AlarmTypeListScreen" "UserId v = w" "alarm_key_adj v = 0"
    using first_call [of ?u] assms(1) shown by (auto simp: idle_def unseen_def)
  have "shown_alarms v = s" using shown(2) v(3) by (auto simp: shown_alarms_def)
  then have "listing w v" using v assms by (simp add: listing_def idle_def unseen_def)
  then obtain x where x: "DisplayAlarmTypeList v = Some x" "listing w x" using listing_call by blast
  have "idle_alarms (count_idle KEY_NO_PRESS u) = Some v"
    using assms v(1) shown(2) by (simp add: idle_def unseen_def idle_alarms_def count_idle_def)
  moreover have "screen_round nack KEY_NO_PRESS v = Some x"
    using v(4) x(1) \<open>shown_alarms v = s\<close> assms(2)
    by (simp add: screen_round_def on_AlarmTypeListScreen_def alarm_list_keys_def)
  ultimately have "main_task_round nack KEY_NO_PRESS u = Some x"
    using assms(1) by (simp add: main_task_round_def idle_def unseen_def)
  with x(2) show ?thesis by blast
qed

lemma listing_enter:
  assumes "listing w u"
  shows "\<exists>v. main_task_round nack KEY_ENTER_PRESS u = Some v \<and> current_screen v = InqAlarmRecordScreen \<and>
    UserId v = w \<and> \<not> sys_reset (device v)"
proof -
  obtain v where v: "DisplayAlarmTypeList (u\<lparr>no_key_num := 0\<rparr>) = Some v" "listing w v"
    using listing_call [of w "u\<lparr>no_key_num := 0\<rparr>"] assms by auto
  have "main_task_round nack KEY_ENTER_PRESS u = Some (back_to_InqAlarmRecord v)"
    using assms v(1) by (simp add: round_running screen_round_def on_AlarmTypeListScreen_def alarm_list_keys_def listing_def)
  then show ?thesis
    using v(2) by (simp add: listing_def back_to_InqAlarmRecord_def goto_screen_def arrow_def draw_def)
qed

lemma login_opens:
  assumes "unseen RunScreen s w u"
  shows "\<exists>v. main_task_round nack KEY_ENTER_PRESS u = Some v \<and> unseen UserLoginScreen s w v"
  using assms by (simp add: unseen_def round_run_screen on_RunScreen_def on_device_def Let_def DisplayRunMenu_def draw_def)
    (auto simp: shown_alarms_def)

lemma user_toggles:
  assumes "unseen UserLoginScreen s OrdinaryUser u"
  shows "\<exists>v. main_task_round nack KEY_UP_PRESS u = Some v \<and> unseen UserLoginScreen s SuperUser v"
  using assms by (simp add: unseen_def round_on apart_def screen_keys_def on_UserLoginScreen_def keys4_def toggle_user_def draw_def)
    (auto simp: shown_alarms_def)

lemma login_leaves:
  assumes "unseen UserLoginScreen s w u"
  shows "\<exists>v. main_task_round nack KEY_ESC_PRESS u = Some v \<and> idle 0 s w v"
  using assms by (simp add: unseen_def idle_def round_on apart_def screen_keys_def on_UserLoginScreen_def DisplayRunMenu_def draw_def)
    (auto simp: shown_alarms_def)

lemma inquiry_to_root:
  assumes "current_screen u = InqAlarmRecordScreen" "UserId u = SuperUser" "\<not> sys_reset (device u)"
  shows "\<exists>v. run_keys nack [KEY_ESC_PRESS, KEY_ESC_PRESS] u = Some v \<and> current_screen v = SuperUserRootScreen"
  using assms by (simp add: round_on apart_def screen_keys_def on_InqAlarmRecordScreen_def on_InqScreen_def
      back_to_InqMenu_def back_to_root_def goto_screen_def arrow_def draw_def)

text \<open>
  C32: While an alarm is on, anybody gets to the root of the super user without a password: choose the super user, leave
  the login, wait until the alarms are listed, and go back through the records.
\<close>

theorem password_bypassed:
  assumes "current_screen u = RunScreen" "UserId u = OrdinaryUser" "\<not> sys_reset (device u)" "shown_alarms u \<noteq> 0"
    "old_Alarm_Type_Sum u \<noteq> shown_alarms u" "alarm_key_adj u = 0"
  shows "\<exists>u'. run_keys nack ([KEY_ENTER_PRESS, KEY_UP_PRESS, KEY_ESC_PRESS] @ replicate 50 KEY_NO_PRESS @
      [KEY_ENTER_PRESS, KEY_ESC_PRESS, KEY_ESC_PRESS]) u = Some u' \<and> current_screen u' = SuperUserRootScreen"
proof -
  let ?s = "shown_alarms u"
  have u: "unseen RunScreen ?s OrdinaryUser u" using assms by (simp add: unseen_def)
  obtain a where a: "main_task_round nack KEY_ENTER_PRESS u = Some a" "unseen UserLoginScreen ?s OrdinaryUser a"
    using login_opens [OF u] by blast
  obtain b where b: "main_task_round nack KEY_UP_PRESS a = Some b" "unseen UserLoginScreen ?s SuperUser b"
    using user_toggles [OF a(2)] by blast
  obtain v where v: "main_task_round nack KEY_ESC_PRESS b = Some v" "idle 0 ?s SuperUser v"
    using login_leaves [OF b(2)] by blast
  obtain w where w: "run_keys nack (replicate 49 KEY_NO_PRESS) v = Some w" "idle 49 ?s SuperUser w"
    using idle_rounds [OF v(2), of 49] by auto
  obtain x where x: "main_task_round nack KEY_NO_PRESS w = Some x" "listing SuperUser x"
    using last_idle_round [OF w(2) assms(4)] by blast
  obtain y where y: "main_task_round nack KEY_ENTER_PRESS x = Some y" "current_screen y = InqAlarmRecordScreen"
    "UserId y = SuperUser" "\<not> sys_reset (device y)" using listing_enter [OF x(2)] by blast
  obtain z where z: "run_keys nack [KEY_ESC_PRESS, KEY_ESC_PRESS] y = Some z" "current_screen z = SuperUserRootScreen"
    using inquiry_to_root [OF y(2-4)] by blast
  have fifty: "replicate 50 KEY_NO_PRESS = replicate 49 KEY_NO_PRESS @ [KEY_NO_PRESS]"
    by (simp only: replicate_append_same replicate_Suc [symmetric]) simp
  have "run_keys nack (replicate 50 KEY_NO_PRESS) v = Some x"
    using w(1) x(1) unfolding fifty by (simp only: run_keys_append run_keys.simps bind.simps)
  then show ?thesis using a(1) b(1) v(1) y(1) z by (auto simp only: run_keys_append run_keys.simps bind.simps append.simps)
qed

theorem password_bypassed_witness:
  fixes u
  defines "u \<equiv> ui_init (new_device\<lparr>config_code := 4, ALARM_STATE := 1\<rparr>)"
  shows "\<exists>u'. run_keys (\<lambda>n. False) ([KEY_ENTER_PRESS, KEY_UP_PRESS, KEY_ESC_PRESS] @ replicate 50 KEY_NO_PRESS @
      [KEY_ENTER_PRESS, KEY_ESC_PRESS, KEY_ESC_PRESS]) u = Some u' \<and> current_screen u' = SuperUserRootScreen"
proof (rule password_bypassed)
  have "shown_alarms u = 1" by (simp add: u_def shown_alarms_def bit_iff_odd_drop_bit)
  then show "shown_alarms u \<noteq> 0" "old_Alarm_Type_Sum u \<noteq> shown_alarms u" by (simp_all add: u_def ui_init_def)
qed (use new_device_running in \<open>simp_all add: u_def ui_init_def\<close>)

end
