(* ===== verification/EditSpec.thy ===== *)
theory EditSpec
  imports MenuSpec WriteFrame
begin

text \<open>
  What the screens that edit parameters store: the time as it was edited, numbers in their ranges, and, in two places, values
  the operator never chose.
\<close>

subsection \<open>Date and time\<close>

lemma time_round:
  assumes "\<not> sys_reset (device u)" "key \<noteq> KEY_NO_PRESS" "current_screen u = SetDateTimeScreen"
  shows "main_task_round nack key u = on_SetDateTimeScreen nack key (u\<lparr>no_key_num := 0\<rparr>)"
  using assms by (simp add: round_running screen_round_def)

text \<open>A text \<open>s\<close> is edited in row \<open>r\<close>: the other row keeps what it had in \<open>t\<close>.\<close>

definition editing :: "u8 \<Rightarrow> dev \<Rightarrow> ui \<Rightarrow> bool" where
  "editing r d u \<longleftrightarrow> current_screen u = SetDateTimeScreen \<and> \<not> sys_reset (device u) \<and> \<not> flag_PageState u \<and>
     row_point u = r \<and> device u = d \<and> time_text (rtcTempStr_temp_test u) \<and>
     (r = 1 \<longrightarrow> drop 10 (rtcTempStr_temp_test u) = drop 10 (rtcTempStr d)) \<and>
     (r = 2 \<longrightarrow> take 11 (rtcTempStr_temp_test u) = take 11 (rtcTempStr d))"

lemma rows_kept:
  "drop 10 (date_up fx s) = drop 10 s" "drop 10 (date_down fx s) = drop 10 s"
  "take 11 (time_up fx s) = take 11 s" "take 11 (time_down fx s) = take 11 s"
  by (simp_all add: date_up_def date_down_def time_up_def time_down_def pair_up_def pair_down_def)

lemma editing_round:
  assumes "editing r d u" "r = 1 \<or> r = 2" "key \<in> {KEY_UP_PRESS, KEY_DOWN_PRESS, KEY_LEFT_PRESS, KEY_RIGHT_PRESS}"
  shows "\<exists>v. main_task_round nack key u = Some v \<and> editing r d v \<and> clock_ops v = clock_ops u"
  using assms(2,3)
proof -
  note kept = time_text_edited [where s = "rtcTempStr_temp_test u"] rows_kept
  have "main_task_round nack key u = Some (keys6 (\<lambda>u. u) (\<lambda>u. u) (edit_time date_up time_up) (edit_time date_down time_down)
      (\<lambda>u. draw ''DisplaySetDateTime'' (fx_left 3 u)) (\<lambda>u. draw ''DisplaySetDateTime'' (fx_right 3 u)) key (u\<lparr>no_key_num := 0\<rparr>))"
    using assms by (auto simp: editing_def time_round on_SetDateTimeScreen_def on_SetDateTime_modify_def keys6_def keys4_def)
  then show ?thesis
    using assms kept
    by (auto simp: editing_def keys6_def keys4_def edit_time_def fx_left_eq fx_right_eq draw_def Let_def)
qed

lemma editing_rounds:
  assumes "editing r d u" "r = 1 \<or> r = 2" "set ks \<subseteq> {KEY_UP_PRESS, KEY_DOWN_PRESS, KEY_LEFT_PRESS, KEY_RIGHT_PRESS}"
  shows "\<exists>v. run_keys nack ks u = Some v \<and> editing r d v \<and> clock_ops v = clock_ops u"
  using assms(1,3)
proof (induction ks arbitrary: u)
  case (Cons k ks)
  obtain v where v: "main_task_round nack k u = Some v" "editing r d v" "clock_ops v = clock_ops u"
    using editing_round [OF Cons.prems(1) assms(2), of k] Cons.prems(2) by auto
  then show ?case using Cons.IH [OF v(2)] Cons.prems(2) by auto
qed simp

text \<open>
  C33: A time is edited in place of the shown one and stored by \<^verbatim>\<open>KEY_ENTER\<close>: whatever keys are pressed between, the text
  stays a time with every number in its range, the row that is not edited keeps its value, and the clock is set to
  exactly what the text says.
\<close>

theorem time_edit_sets_clock:
  assumes "current_screen u = SetDateTimeScreen" "flag_PageState u" "row_point u = r" "r = 1 \<or> r = 2"
    "\<not> sys_reset (device u)" "time_text (rtcTempStr (device u))"
    "set ks \<subseteq> {KEY_UP_PRESS, KEY_DOWN_PRESS, KEY_LEFT_PRESS, KEY_RIGHT_PRESS}"
  shows "\<exists>u' t. run_keys nack (KEY_ENTER_PRESS # ks @ [KEY_ENTER_PRESS]) u = Some u' \<and> flag_PageState u' \<and>
    device u' = (device u)\<lparr>rtcTempStr := t\<rparr> \<and> time_text t \<and>
    (if r = 1 then drop 10 t = drop 10 (rtcTempStr (device u)) else take 11 t = take 11 (rtcTempStr (device u))) \<and>
    clock_ops u' = clock_ops u @ fst (PCF8563_Set nack (text_time t))"
proof -
  obtain v where v: "main_task_round nack KEY_ENTER_PRESS u = Some v" "editing r (device u) v" "clock_ops v = clock_ops u"
    using assms by (auto simp: time_round on_SetDateTimeScreen_def on_SetDateTime_normal_def keys4_def draw_def editing_def)
  obtain w where w: "run_keys nack ks v = Some w" "editing r (device u) w" "clock_ops w = clock_ops u"
    using editing_rounds [OF v(2) assms(4,7)] v(3) by auto
  let ?t = "rtcTempStr_temp_test w"
  have wf: "current_screen w = SetDateTimeScreen" "\<not> flag_PageState w" "device w = device u" "\<not> sys_reset (device u)"
    "time_text ?t"
    using w(2) assms(5) by (auto simp: editing_def)
  obtain x where x: "main_task_round nack KEY_ENTER_PRESS w = Some x" "flag_PageState x"
    "device x = (device u)\<lparr>rtcTempStr := ?t\<rparr>" "clock_ops x = clock_ops u @ fst (PCF8563_Set nack (text_time ?t))"
    using parse_time_text [of ?t] wf w(3)
    by (simp add: time_round on_SetDateTimeScreen_def on_SetDateTime_modify_def store_time_def
        PCF8563_Set_Str_def on_device_def arrow_def draw_def Let_def)
  have "run_keys nack (KEY_ENTER_PRESS # ks @ [KEY_ENTER_PRESS]) u = Some x"
    using v(1) w(1) x(1) by (simp add: run_keys_append)
  then show ?thesis using x w(2) assms(4) by (intro exI [of _ x] exI [of _ ?t]) (auto simp: editing_def)
qed

theorem time_edit_sets_clock_witness:
  fixes u
  defines "u \<equiv> (ui_init (new_device\<lparr>rtcTempStr := ascii ''2020-02-29 23:59:58''\<rparr>))\<lparr>current_screen := SetDateTimeScreen, row_point := 2\<rparr>"
  shows "\<exists>u' t. run_keys (\<lambda>n. False) [KEY_ENTER_PRESS, KEY_UP_PRESS, KEY_RIGHT_PRESS, KEY_ENTER_PRESS] u = Some u' \<and>
    rtcTempStr (device u') = t \<and> time_text t \<and> take 11 t = ascii ''2020-02-29 '' \<and>
    clock_ops u' = fst (PCF8563_Set (\<lambda>n. False) (text_time t))"
  using time_edit_sets_clock [of u 2 "[KEY_UP_PRESS, KEY_RIGHT_PRESS]" "\<lambda>n. False"] new_device_running
  by (simp add: u_def ui_init_def time_text_def digit_at_def num2_def ascii_def) fastforce

subsection \<open>Values nobody chose\<close>

lemma saved_thresholds [simp]:
  "alarm_threshold_up_dif (WriteAlmThrdToEEProm d) = alarm_threshold_up_dif d"
  "alarm_threshold_down_dif (WriteAlmThrdToEEProm d) = alarm_threshold_down_dif d"
  "field_num (WriteAlmThrdToEEProm d) = field_num d" "alarm_delay (WriteAlmThrdToEEProm d) = alarm_delay d"
  "alarm_sensitivity (WriteAlmThrdToEEProm d) = alarm_sensitivity d"
  using nv_save_writes [of NvThrd d] by simp_all

text \<open>
  C34: Editing one threshold stores the other one too, from a copy that only the other row loads: whatever that copy
  held is now the threshold, after a start 0.
\<close>

theorem threshold_edit_stores_both:
  assumes "current_screen u = SetAlarmThresholdScreen" "flag_PageState u" "row_point u = 1" "\<not> sys_reset (device u)"
  shows "\<exists>u'. run_keys nack [KEY_ENTER_PRESS, KEY_ENTER_PRESS] u = Some u' \<and>
    alarm_threshold_up_dif (device u') = alarm_threshold_up_dif (device u) \<and>
    alarm_threshold_down_dif (device u') = alarm_threshold_down_dif_temp u"
  using assms
  by (simp add: round_on apart_def screen_keys_def on_SetAlarmThresholdScreen_def on_SetAlarmThreshold_normal_def
      on_SetAlarmThreshold_modify_def keys6_def keys4_def store_thrd_def setAlmThrdUpDif_def
      setAlmThrdDwDif_def on_device_def Let_def draw_def arrow_def)

theorem threshold_edit_stores_both_witness:
  fixes u
  defines "u \<equiv> (ui_init (new_device\<lparr>alarm_threshold_up_dif := 25, alarm_threshold_down_dif := 20\<rparr>))
    \<lparr>current_screen := SetAlarmThresholdScreen, row_point := 1\<rparr>"
  shows "\<exists>u'. run_keys (\<lambda>n. False) [KEY_ENTER_PRESS, KEY_ENTER_PRESS] u = Some u' \<and>
    alarm_threshold_up_dif (device u') = 25 \<and> alarm_threshold_down_dif (device u') = 0"
  using threshold_edit_stores_both [of u "\<lambda>n. False"] new_device_running by (simp add: u_def ui_init_def)

lemma saved_fields [simp]:
  "alarm_threshold_up_dif (WriteFieldParaToEEProm d) = alarm_threshold_up_dif d"
  "alarm_threshold_down_dif (WriteFieldParaToEEProm d) = alarm_threshold_down_dif d"
  "field_num (WriteFieldParaToEEProm d) = field_num d" "alarm_delay (WriteFieldParaToEEProm d) = alarm_delay d"
  "alarm_sensitivity (WriteFieldParaToEEProm d) = alarm_sensitivity d" "sys_reset (WriteFieldParaToEEProm d) = sys_reset d"
  using nv_save_writes [of NvField d] by simp_all

text \<open>
  An edit of a zone's delay that is cancelled with \<^verbatim>\<open>KEY_ESC\<close> is not forgotten: the next edit of the zone number
  stores it.
\<close>

theorem cancelled_edit_is_stored:
  assumes "current_screen u = SetAFangQuParaScreen" "flag_PageState u" "row_point u = 2" "\<not> sys_reset (device u)"
  shows "\<exists>u'. run_keys nack [KEY_ENTER_PRESS, KEY_UP_PRESS, KEY_ESC_PRESS, KEY_ENTER_PRESS, KEY_ENTER_PRESS] u = Some u' \<and>
    field_num (device u') 0 = field_num (device u) 0 \<and>
    alarm_delay (device u') 0 = count_up 999 (alarm_delay (device u) 0)"
  using assms
  by (simp add: round_on apart_def screen_keys_def on_SetAFangQuParaScreen_def zone_normal_def zone_modify_def edit_zone_def
      keys6_def keys4_def store_zone_def setFieldNum_def setAlarmDelay_def copy2_def on_device_def Let_def draw_def arrow_def
      arrow_capped_def)

theorem cancelled_edit_is_stored_witness:
  fixes u
  defines "u \<equiv> (ui_init (new_device\<lparr>alarm_delay := (\<lambda>i. 30)\<rparr>))\<lparr>current_screen := SetAFangQuParaScreen, row_point := 2\<rparr>"
  shows "\<exists>u'. run_keys (\<lambda>n. False) [KEY_ENTER_PRESS, KEY_UP_PRESS, KEY_ESC_PRESS, KEY_ENTER_PRESS, KEY_ENTER_PRESS] u = Some u' \<and>
    alarm_delay (device u') 0 = 31"
  using cancelled_edit_is_stored [of u "\<lambda>n. False"] new_device_running by (auto simp: u_def ui_init_def count_up_def)

subsection \<open>Ranges\<close>

text \<open>The upper ends of the ranges the screens offer.\<close>

definition zone_values :: "(nat \<Rightarrow> u8) \<Rightarrow> (nat \<Rightarrow> u16) \<Rightarrow> (nat \<Rightarrow> u8) \<Rightarrow> bool" where
  "zone_values num delay sens \<longleftrightarrow> (\<forall>z<2. num z \<le> 80 \<and> delay z \<le> 999 \<and> sens z \<le> 10)"

definition within :: "ui \<Rightarrow> bool" where
  "within u \<longleftrightarrow>
     zone_values (field_num (device u)) (alarm_delay (device u)) (alarm_sensitivity (device u)) \<and>
     zone_values (field_num_temp u) (alarm_delay_temp u) (alarm_sensitivity_temp u) \<and>
     alarm_threshold_up_dif (device u) < 500 \<and> alarm_threshold_down_dif (device u) < 500 \<and>
     alarm_threshold_up_dif_temp u < 500 \<and> alarm_threshold_down_dif_temp u < 500"

lemma count_range:
  "x \<le> n \<Longrightarrow> 1 \<le> n \<Longrightarrow> n < 0xFF \<Longrightarrow> 1 \<le> count_up n x \<and> count_up n x \<le> (n :: u8)"
  "x \<le> n \<Longrightarrow> 1 \<le> n \<Longrightarrow> n < 0xFF \<Longrightarrow> 1 \<le> count_down n x \<and> count_down n x \<le> (n :: u8)"
  "y \<le> m \<Longrightarrow> 1 \<le> m \<Longrightarrow> m < 0xFFFF \<Longrightarrow> 1 \<le> count_up m y \<and> count_up m y \<le> (m :: u16)"
  "y \<le> m \<Longrightarrow> 1 \<le> m \<Longrightarrow> m < 0xFFFF \<Longrightarrow> 1 \<le> count_down m y \<and> count_down m y \<le> (m :: u16)"
  by (auto simp: count_up_def count_down_def word_le_nat_alt word_less_nat_alt unat_word_ariths unat_sub_if_size word_size)

lemma thrd_range:
  "x < 500 \<Longrightarrow> thrd_up fx x < 500" "x < 500 \<Longrightarrow> thrd_down fx x < 500"
  by (auto simp: thrd_up_def thrd_down_def word_le_nat_alt word_less_nat_alt unat_word_ariths unat_sub_if_size word_size
      unat_div unat_mod; presburger)+

lemma within_cursor [simp]:
  "within (draw n u) = within u" "within (arrow u) = within u" "within (arrow_capped u) = within u"
  "within (u\<lparr>flag_PageState := b\<rparr>) = within u" "within (u\<lparr>row_fx_pos := x\<rparr>) = within u"
  "within (u\<lparr>row_point := r\<rparr>) = within u" "within (u\<lparr>current_screen := s\<rparr>) = within u"
  "within (u\<lparr>no_key_num := c\<rparr>) = within u" "within (u\<lparr>ten_val_range_temp := t\<rparr>) = within u"
  "within (row_up k u) = within u" "within (row_down k u) = within u"
  "within (fx_left f u) = within u" "within (fx_right f u) = within u"
  by (simp_all add: within_def draw_def arrow_def arrow_capped_def row_up_eq row_down_eq fx_left_eq fx_right_eq)

lemma within_keys:
  assumes "within (esc u)" "within (enter u)" "within (up u)" "within (down u)" "within u"
  shows "within (keys4 esc enter up down key u)"
    "within (left u) \<Longrightarrow> within (right u) \<Longrightarrow> within (keys6 esc enter up down left right key u)"
  using assms by (simp_all add: keys6_def keys4_def)

lemma zone_values_copy:
  "zone_values n d s \<Longrightarrow> zone_values n' d' s' \<Longrightarrow> zone_values (copy2 n n') d' s'"
  "zone_values n d s \<Longrightarrow> zone_values n' d' s' \<Longrightarrow> zone_values n' (copy2 d d') s'"
  "zone_values n d s \<Longrightarrow> zone_values n' d' s' \<Longrightarrow> zone_values n' d' (copy2 s s')"
  "zone_values n d s \<Longrightarrow> zone_values (copy2 n n') (copy2 d d') (copy2 s s')"
  by (auto simp: zone_values_def copy2_def less_2_cases_iff)

lemma zone_values_set:
  "zone_values n d s \<Longrightarrow> x \<le> 80 \<Longrightarrow> zone_values (n(z := x)) d s"
  "zone_values n d s \<Longrightarrow> y \<le> 999 \<Longrightarrow> zone_values n (d(z := y)) s"
  "zone_values n d s \<Longrightarrow> w \<le> 10 \<Longrightarrow> zone_values n d (s(z := w))"
  by (auto simp: zone_values_def)

lemma edit_zone_within:
  assumes "within u" "z < 2"
  shows "within (edit_zone z (draw n) count_up count_up u)" "within (edit_zone z (draw n) count_down count_down u)"
proof -
  have b: "field_num_temp u z \<le> 80" "alarm_delay_temp u z \<le> 999" "alarm_sensitivity_temp u z \<le> 10"
    using assms by (simp_all add: within_def zone_values_def)
  show "within (edit_zone z (draw n) count_up count_up u)" "within (edit_zone z (draw n) count_down count_down u)"
    using assms count_range(1,2) [OF b(1)] count_range(1,2) [OF b(3)] count_range(3,4) [OF b(2)]
    by (simp_all add: edit_zone_def) (simp_all add: within_def zone_values_set)
qed

lemma store_zone_within: "within u \<Longrightarrow> within (store_zone (draw n) u)"
proof -
  assume u: "within u"
  let ?n = "copy2 (field_num_temp u) (field_num (device u))" and ?d = "copy2 (alarm_delay_temp u) (alarm_delay (device u))"
  let ?s = "copy2 (alarm_sensitivity_temp u) (alarm_sensitivity (device u))"
  have "zone_values ?n ?d ?s" using u by (intro zone_values_copy(4)) (simp add: within_def)
  moreover have "?n(0 := ?n 0) = ?n" "?d(0 := ?d 0) = ?d" by simp_all
  ultimately show ?thesis
    using u by (simp add: store_zone_def within_def setFieldNum_def setAlarmDelay_def on_device_def Let_def draw_def arrow_capped_def
        arrow_def)
qed

lemma zone_modify_within: "within u \<Longrightarrow> z < 2 \<Longrightarrow> within (zone_modify z (draw n) key u)"
  unfolding zone_modify_def by (intro within_keys) (simp_all add: store_zone_within edit_zone_within)

lemma zone_load_within [simp]:
  assumes "within u"
  shows "within (u\<lparr>field_num_temp := copy2 (field_num (device u)) (field_num_temp u)\<rparr>)"
    "within (u\<lparr>alarm_delay_temp := copy2 (alarm_delay (device u)) (alarm_delay_temp u)\<rparr>)"
    "within (u\<lparr>alarm_sensitivity_temp := copy2 (alarm_sensitivity (device u)) (alarm_sensitivity_temp u)\<rparr>)"
    "within (DiaplaySetFangQuPara u)"
  using assms by (auto simp: within_def DiaplaySetFangQuPara_def draw_def
      intro: zone_values_copy(1-3) zone_values_copy(1) [OF _ zone_values_copy(2)])

lemma zone_normal_within:
  assumes "within u" "within (load u)"
  shows "within (zone_normal (draw n) load key u)"
proof -
  have "within (goto_screen SetFangQuParaScreen DiaplaySetFangQuPara u)" using assms(1) by (simp add: goto_screen_def)
  moreover note zone_load_within(1,2) [OF assms(2)]
  ultimately show ?thesis
    unfolding zone_normal_def using assms by (intro within_keys) (simp_all add: Let_def)
qed

lemma thresholds_within: "within u \<Longrightarrow> within (on_SetAlarmThresholdScreen key u)"
proof -
  assume u: "within u"
  have edit: "within (edit_thrd thrd_up u)" "within (edit_thrd thrd_down u)"
    using u thrd_range by (simp_all add: edit_thrd_def) (simp_all add: within_def)
  have store: "within (store_thrd u)"
    using u by (simp add: store_thrd_def within_def setAlmThrdUpDif_def setAlmThrdDwDif_def on_device_def Let_def draw_def arrow_def)
  have load: "within (u\<lparr>flag_PageState := b, alarm_threshold_up_dif_temp := alarm_threshold_up_dif (device u)\<rparr>)"
    "within (u\<lparr>flag_PageState := b, alarm_threshold_down_dif_temp := alarm_threshold_down_dif (device u)\<rparr>)"
    "within (u\<lparr>flag_PageState := b, alarm_threshold_up_dif_temp := alarm_threshold_up_dif (device u),
       alarm_threshold_down_dif_temp := alarm_threshold_down_dif (device u)\<rparr>)" for b
    using u by (simp_all add: within_def)
  show ?thesis
    unfolding on_SetAlarmThresholdScreen_def on_SetAlarmThreshold_normal_def on_SetAlarmThreshold_modify_def
    using u edit store load by (auto intro!: within_keys simp: back_to_SetMenu_def goto_screen_def Let_def)
qed

text \<open>
  The lower end: a sensitivity is at least 1, and so is its copy while a zone is edited.  (The copies start as
  zeros and are loaded when an edit begins; the number and the delay of a zone may be zero.)
\<close>

definition zone_edited :: "ui \<Rightarrow> bool" where
  "zone_edited u \<longleftrightarrow> (current_screen u = SetAFangQuParaScreen \<or> current_screen u = SetBFangQuParaScreen) \<and> \<not> flag_PageState u"

definition in_range :: "ui \<Rightarrow> bool" where
  "in_range u \<longleftrightarrow> within u \<and> (\<forall>z<2. 1 \<le> alarm_sensitivity (device u) z) \<and>
     (zone_edited u \<longrightarrow> (\<forall>z<2. 1 \<le> alarm_sensitivity_temp u z))"

lemma zone_normal_fields:
  assumes "flag_PageState u" "current_screen u \<in> {SetAFangQuParaScreen, SetBFangQuParaScreen}"
    and "device (load u) = device u" "alarm_sensitivity_temp (load u) = copy2 (alarm_sensitivity (device u)) s"
  shows "alarm_sensitivity (device (zone_normal (draw n) load key u)) = alarm_sensitivity (device u)"
    "zone_edited (zone_normal (draw n) load key u) \<Longrightarrow>
       alarm_sensitivity_temp (zone_normal (draw n) load key u) = copy2 (alarm_sensitivity (device u)) s"
    "key \<noteq> KEY_ENTER_PRESS \<Longrightarrow> key \<noteq> KEY_ESC_PRESS \<Longrightarrow>
       field_num_temp (zone_normal (draw n) load key u) = field_num_temp u \<and>
       alarm_delay_temp (zone_normal (draw n) load key u) = alarm_delay_temp u"
  using assms
  by (auto simp: zone_normal_def keys4_def Let_def draw_def arrow_def arrow_capped_def row_up_eq row_down_eq zone_edited_def
      goto_screen_def DiaplaySetFangQuPara_def split: if_splits)

lemma edit_zone_fields [simp]:
  "device (edit_zone z (draw n) f g u) = device u" "current_screen (edit_zone z (draw n) f g u) = current_screen u"
  "flag_PageState (edit_zone z (draw n) f g u) = flag_PageState u"
  by (simp_all add: edit_zone_def draw_def)

lemma edit_zone_low:
  assumes "within u" "z < 2" "j < 2"
  shows "1 \<le> alarm_sensitivity_temp u j \<Longrightarrow> 1 \<le> alarm_sensitivity_temp (edit_zone z (draw n) count_up count_up u) j"
    "1 \<le> alarm_sensitivity_temp u j \<Longrightarrow> 1 \<le> alarm_sensitivity_temp (edit_zone z (draw n) count_down count_down u) j"
    "field_num_temp (edit_zone z (draw n) count_up count_up u) j = field_num_temp u j \<or>
       1 \<le> field_num_temp (edit_zone z (draw n) count_up count_up u) j"
    "field_num_temp (edit_zone z (draw n) count_down count_down u) j = field_num_temp u j \<or>
       1 \<le> field_num_temp (edit_zone z (draw n) count_down count_down u) j"
    "alarm_delay_temp (edit_zone z (draw n) count_up count_up u) j = alarm_delay_temp u j \<or>
       1 \<le> alarm_delay_temp (edit_zone z (draw n) count_up count_up u) j"
    "alarm_delay_temp (edit_zone z (draw n) count_down count_down u) j = alarm_delay_temp u j \<or>
       1 \<le> alarm_delay_temp (edit_zone z (draw n) count_down count_down u) j"
proof -
  have b: "field_num_temp u z \<le> 80" "alarm_delay_temp u z \<le> 999" "alarm_sensitivity_temp u z \<le> 10"
    using assms by (simp_all add: within_def zone_values_def)
  note c = count_range(1,2) [OF b(1)] count_range(1,2) [OF b(3)] count_range(3,4) [OF b(2)]
  show "1 \<le> alarm_sensitivity_temp u j \<Longrightarrow> 1 \<le> alarm_sensitivity_temp (edit_zone z (draw n) count_up count_up u) j"
    "1 \<le> alarm_sensitivity_temp u j \<Longrightarrow> 1 \<le> alarm_sensitivity_temp (edit_zone z (draw n) count_down count_down u) j"
    "field_num_temp (edit_zone z (draw n) count_up count_up u) j = field_num_temp u j \<or>
       1 \<le> field_num_temp (edit_zone z (draw n) count_up count_up u) j"
    "field_num_temp (edit_zone z (draw n) count_down count_down u) j = field_num_temp u j \<or>
       1 \<le> field_num_temp (edit_zone z (draw n) count_down count_down u) j"
    "alarm_delay_temp (edit_zone z (draw n) count_up count_up u) j = alarm_delay_temp u j \<or>
       1 \<le> alarm_delay_temp (edit_zone z (draw n) count_up count_up u) j"
    "alarm_delay_temp (edit_zone z (draw n) count_down count_down u) j = alarm_delay_temp u j \<or>
       1 \<le> alarm_delay_temp (edit_zone z (draw n) count_down count_down u) j"
    using c by (simp_all add: edit_zone_def draw_def)
qed

lemma store_zone_fields:
  "alarm_sensitivity (device (store_zone (draw n) u)) = copy2 (alarm_sensitivity_temp u) (alarm_sensitivity (device u))"
  "flag_PageState (store_zone (draw n) u)"
  by (simp_all add: store_zone_def setFieldNum_def setAlarmDelay_def on_device_def Let_def draw_def arrow_capped_def arrow_def)

text \<open>What one key does on a screen: the sensitivities stay at least 1, and no count comes down to zero.\<close>

definition counts_low :: "u32 \<Rightarrow> ui \<Rightarrow> ui \<Rightarrow> bool" where
  "counts_low key u u' \<longleftrightarrow> (key = KEY_UP_PRESS \<or> key = KEY_DOWN_PRESS \<longrightarrow>
     (\<forall>z<2. (field_num_temp u' z = field_num_temp u z \<or> 1 \<le> field_num_temp u' z) \<and>
            (alarm_delay_temp u' z = alarm_delay_temp u z \<or> 1 \<le> alarm_delay_temp u' z)))"

lemma zone_modify_low:
  assumes "in_range u" "z < 2" "zone_edited u"
  shows "in_range (zone_modify z (draw n) key u)" "counts_low key u (zone_modify z (draw n) key u)"
proof -
  have w: "within u" and s: "\<forall>j<2. 1 \<le> alarm_sensitivity (device u) j" "\<forall>j<2. 1 \<le> alarm_sensitivity_temp u j"
    using assms(1,3) by (simp_all add: in_range_def)
  let ?P = "\<lambda>v. (\<forall>j<2. 1 \<le> alarm_sensitivity (device v) j) \<and> (zone_edited v \<longrightarrow> (\<forall>j<2. 1 \<le> alarm_sensitivity_temp v j))"
  have e: "?P (edit_zone z (draw n) count_up count_up u)" "?P (edit_zone z (draw n) count_down count_down u)"
    using s edit_zone_low(1,2) [OF w assms(2)] by simp_all
  have st: "?P (store_zone (draw n) u)"
    using s by (simp add: store_zone_fields zone_edited_def copy2_def less_2_cases_iff)
  have esc: "?P (arrow (draw n (u\<lparr>flag_PageState := NormalState, row_fx_pos := 0, row_point := 1\<rparr>)))"
    using s by (simp add: zone_edited_def arrow_def draw_def)
  have lr: "?P (draw n (fx_left 2 u))" "?P (draw n (fx_right 2 u))"
    using s by (simp_all add: draw_def fx_left_eq fx_right_eq)
  have "?P (zone_modify z (draw n) key u)"
    unfolding zone_modify_def keys6_def keys4_def using s e st esc lr by simp
  with zone_modify_within [OF w assms(2)] show "in_range (zone_modify z (draw n) key u)" by (simp add: in_range_def)
  show "counts_low key u (zone_modify z (draw n) key u)"
    unfolding counts_low_def zone_modify_def keys6_def keys4_def
    using edit_zone_low(3-6) [OF w assms(2)] by auto
qed

lemma zone_normal_low:
  assumes "in_range u" "within (load u)" "flag_PageState u" "current_screen u \<in> {SetAFangQuParaScreen, SetBFangQuParaScreen}"
    and "device (load u) = device u" "alarm_sensitivity_temp (load u) = copy2 (alarm_sensitivity (device u)) s"
  shows "in_range (zone_normal (draw n) load key u)" "counts_low key u (zone_normal (draw n) load key u)"
proof -
  have w: "within u" and l: "\<forall>j<2. 1 \<le> alarm_sensitivity (device u) j" using assms(1) by (simp_all add: in_range_def)
  note f = zone_normal_fields [where u = u and load = load and s = s and n = n and key = key, OF assms(3-6)]
  have "1 \<le> copy2 (alarm_sensitivity (device u)) s j" if "j < 2" for j
    using l that by (auto simp: copy2_def less_2_cases_iff)
  with f(1,2) l zone_normal_within [where load = load, OF w assms(2)] show "in_range (zone_normal (draw n) load key u)"
    by (simp add: in_range_def)
  show "counts_low key u (zone_normal (draw n) load key u)"
    unfolding counts_low_def using f(3) by auto
qed

lemma zones_low:
  assumes "in_range w"
  shows "current_screen w = SetAFangQuParaScreen \<Longrightarrow>
      in_range (on_SetAFangQuParaScreen key w) \<and> counts_low key w (on_SetAFangQuParaScreen key w)"
    "current_screen w = SetBFangQuParaScreen \<Longrightarrow>
      in_range (on_SetBFangQuParaScreen key w) \<and> counts_low key w (on_SetBFangQuParaScreen key w)"
proof -
  have ww: "within w" using assms by (simp add: in_range_def)
  have l: "within (w\<lparr>ten_val_range_temp := t, alarm_sensitivity_temp := copy2 (alarm_sensitivity (device w)) (alarm_sensitivity_temp w)\<rparr>)"
    "within (w\<lparr>alarm_sensitivity_temp := copy2 (alarm_sensitivity (device w)) (alarm_sensitivity_temp w)\<rparr>)"
    for t using zone_load_within(3) [of "w\<lparr>ten_val_range_temp := t\<rparr>"] zone_load_within(3) [OF ww] ww by simp_all
  show "in_range (on_SetAFangQuParaScreen key w) \<and> counts_low key w (on_SetAFangQuParaScreen key w)"
    if "current_screen w = SetAFangQuParaScreen"
  proof (cases "flag_PageState w")
    case True
    then show ?thesis
      using assms that l by (auto simp: on_SetAFangQuParaScreen_def intro!: zone_normal_low [where s = "alarm_sensitivity_temp w"])
  next
    case False
    then show ?thesis unfolding on_SetAFangQuParaScreen_def
      using zone_modify_low [OF assms, of 0] that by (simp add: zone_edited_def)
  qed
  show "in_range (on_SetBFangQuParaScreen key w) \<and> counts_low key w (on_SetBFangQuParaScreen key w)"
    if "current_screen w = SetBFangQuParaScreen"
  proof (cases "flag_PageState w")
    case True
    then show ?thesis
      using assms that l by (auto simp: on_SetBFangQuParaScreen_def intro!: zone_normal_low [where s = "alarm_sensitivity_temp w"])
  next
    case False
    then show ?thesis unfolding on_SetBFangQuParaScreen_def
      using zone_modify_low [OF assms, of 1] that by (simp add: zone_edited_def)
  qed
qed

lemma thresholds_low:
  assumes "in_range u" "current_screen u = SetAlarmThresholdScreen"
  shows "in_range (on_SetAlarmThresholdScreen key u)" "counts_low key u (on_SetAlarmThresholdScreen key u)"
proof -
  have w: "within u" and s: "\<forall>j<2. 1 \<le> alarm_sensitivity (device u) j" using assms(1) by (simp_all add: in_range_def)
  let ?k = "\<lambda>u. (alarm_sensitivity (device u), field_num_temp u, alarm_delay_temp u)"
  have "\<not> zone_edited (on_SetAlarmThresholdScreen key u) \<and> ?k (on_SetAlarmThresholdScreen key u) = ?k u"
    using assms(2)
    by (auto simp: on_SetAlarmThresholdScreen_def on_SetAlarmThreshold_normal_def on_SetAlarmThreshold_modify_def
        keys6_def keys4_def zone_edited_def back_to_SetMenu_def goto_screen_def edit_thrd_def store_thrd_def
        setAlmThrdUpDif_def setAlmThrdDwDif_def on_device_def Let_def draw_def arrow_def fx_left_eq fx_right_eq)
  then show "in_range (on_SetAlarmThresholdScreen key u)" "counts_low key u (on_SetAlarmThresholdScreen key u)"
    using thresholds_within [OF w, of key] s by (simp_all add: in_range_def counts_low_def)
qed

text \<open>
  C35: On the screens of the zones and of the thresholds no key takes a parameter or a copy out of its range: zone numbers
  to 80, delays to 999, sensitivities from 1 to 10 (the copies while a zone is edited), thresholds below 500; and
  a number or a delay that \<^verbatim>\<open>KEY_UP\<close> or \<^verbatim>\<open>KEY_DOWN\<close> changes is at least 1.
\<close>

theorem edits_stay_in_range:
  assumes "main_task_round nack key u = Some u'" "in_range u" "\<not> sys_reset (device u)"
    "current_screen u = SetAFangQuParaScreen \<or> current_screen u = SetBFangQuParaScreen \<or>
     current_screen u = SetAlarmThresholdScreen"
  shows "in_range u' \<and> (key = KEY_UP_PRESS \<or> key = KEY_DOWN_PRESS \<longrightarrow>
     (\<forall>z<2. (field_num_temp u' z = field_num_temp u z \<or> 1 \<le> field_num_temp u' z) \<and>
            (alarm_delay_temp u' z = alarm_delay_temp u z \<or> 1 \<le> alarm_delay_temp u' z)))"
proof (cases "key = KEY_NO_PRESS")
  case True
  then have "u' = u \<or> u' = u\<lparr>no_key_num := no_key_num u + 1\<rparr>"
    using assms by (auto simp: main_task_round_def count_idle_def idle_alarms_def screen_round_def split: if_splits)
  then have "in_range u'" using assms(2) by (auto simp: in_range_def zone_edited_def)
  with True show ?thesis by simp
next
  case False
  let ?v = "u\<lparr>no_key_num := 0\<rparr>"
  have v: "in_range ?v" using assms(2) by (simp add: in_range_def zone_edited_def)
  have known: "\<not> apart (current_screen u)" using assms(4) by (auto simp: apart_def)
  have "u' = screen_keys (current_screen u) key ?v"
    using round_on [OF assms(3) False, of nack] assms(1) known by simp
  moreover have "screen_keys SetAFangQuParaScreen = on_SetAFangQuParaScreen" "screen_keys SetBFangQuParaScreen = on_SetBFangQuParaScreen"
    "screen_keys SetAlarmThresholdScreen = on_SetAlarmThresholdScreen" by (simp_all add: screen_keys_def)
  moreover have "current_screen ?v = current_screen u" by simp
  ultimately have "in_range u' \<and> counts_low key ?v u'"
    using assms(4) thresholds_low [OF v, of key] zones_low [OF v, of key] by (elim disjE) (simp_all only: simp_thms)
  then show ?thesis by (simp add: counts_low_def)
qed

theorem edits_stay_in_range_witness:
  fixes u
  defines "u \<equiv> (ui_init (new_device\<lparr>field_num := (\<lambda>i. 80), alarm_delay := (\<lambda>i. 30), alarm_sensitivity := (\<lambda>i. 4),
      alarm_threshold_up_dif := 25, alarm_threshold_down_dif := 20\<rparr>))
    \<lparr>current_screen := SetAFangQuParaScreen, row_point := 1, flag_PageState := ModifyState, row_fx_pos := 1,
     field_num_temp := (\<lambda>i. 80), alarm_sensitivity_temp := (\<lambda>i. 4)\<rparr>"
  shows "\<exists>u'. main_task_round (\<lambda>n. False) KEY_UP_PRESS u = Some u' \<and> in_range u' \<and> field_num_temp u' 0 = 1"
proof -
  have run: "\<not> sys_reset (device u)" using new_device_running by (simp add: u_def)
  obtain u' where u': "main_task_round (\<lambda>n. False) KEY_UP_PRESS u = Some u'" "field_num_temp u' 0 = 1"
    using run by (simp add: round_on apart_def screen_keys_def on_SetAFangQuParaScreen_def zone_modify_def keys6_def keys4_def
        edit_zone_def count_up_def u_def draw_def)
  have "in_range u" by (simp add: u_def ui_init_def in_range_def within_def zone_values_def)
  then have "in_range u'" using edits_stay_in_range [OF u'(1) _ run] by (simp add: u_def)
  with u' show ?thesis by blast
qed

subsection \<open>Addresses\<close>

lemma digit_byte_value: "k < 10 \<Longrightarrow> unat (0x30 + of_nat k :: u8) = 0x30 + k"
  by (simp add: unat_word_ariths unat_of_nat)

lemma digit_of_word: "(v :: u8) = of_nat (unat v)" by simp

lemma get_put_octet:
  assumes "length s = 16" "i < 4"
  shows "get_octet i (put_octet i b s) = b"
proof -
  let ?b = "unat b"
  have b: "?b < 256" using unsigned_less [of b, where ?'a = nat] by simp
  have parts: "b div 100 = of_nat (?b div 100)" "b mod 100 div 10 = of_nat (?b mod 100 div 10)"
    "b mod 100 mod 10 = of_nat (?b mod 100 mod 10)"
    using b by (simp_all add: word_unat_eq_iff unat_div unat_mod unat_of_nat)
  have less: "?b div 100 < 10" "?b mod 100 div 10 < 10" "?b mod 100 mod 10 < 10" using b by simp_all
  have "(of_nat ?b :: u8) = of_nat (?b div 100 * 100 + ?b mod 100 div 10 * 10 + ?b mod 100 mod 10)"
    by (rule arg_cong) presburger
  then have "(of_nat (?b div 100) * 100 + of_nat (?b mod 100 div 10) * 10 + of_nat (?b mod 100 mod 10) :: u8) = of_nat ?b"
    by (simp only: of_nat_add of_nat_mult of_nat_numeral)
  moreover have "i * 4 + 3 < 16" using assms(2) by simp
  ultimately show ?thesis
    using assms(1) less by (simp add: get_octet_def put_octet_def parts uint_nat digit_byte_value)
qed

lemma put_octet_length [simp]: "length (put_octet i b s) = length s"
  by (simp add: put_octet_def)

lemma get_put_other: "i \<noteq> j \<Longrightarrow> get_octet i (put_octet j b s) = get_octet i s"
proof -
  assume "i \<noteq> j"
  then have "i * 4 + k \<noteq> j * 4 + l" if "k < 3" "l < 4" for k l using that by presburger
  from this [of 0] this [of 1] this [of 2] show ?thesis
    using \<open>i \<noteq> j\<close> by (simp add: get_octet_def put_octet_def)
qed

lemma address_text_roundtrip:
  assumes "length s = 16" "i < 4"
  shows "get_octets (put_octets a s) b i = a i"
proof -
  have "i = 0 \<or> i = 1 \<or> i = 2 \<or> i = 3" using assms(2) by auto
  moreover have "put_octets a s = put_octet 3 (a 3) (put_octet 2 (a 2) (put_octet 1 (a 1) (put_octet 0 (a 0) s)))"
    by (simp add: put_octets_def upt_rec numeral_eq_Suc)
  ultimately show ?thesis
    using assms(1) by (auto simp: get_octets_def get_put_other get_put_octet)
qed

lemma saved_addresses [simp]:
  "lw_ip (WriteNetParasToEEProm d) = lw_ip d" "lw_netmask (WriteNetParasToEEProm d) = lw_netmask d"
  "lw_gateway (WriteNetParasToEEProm d) = lw_gateway d"
  using nv_save_writes [of NvNet d] by simp_all

lemmas address_screens = on_SetEthParaScreen_def on_SetIpAddrScreen_def on_SetSubnetMaskScreen_def on_SetGateWayScreen_def
  address_keys_def keys6_def keys4_def show_screen_def SetIpAddr_def SetSubNetMask_def SetGateWay_def GetIpAddr_def
  GetSubNetMask_def GetGateWay_def lwip_reset_netif_ipaddr_def Sys_Soft_Reset_def

text \<open>
  C36: An address, mask or gateway that is opened for editing and stored as it is shown stays the same, octet by octet, and
  the device restarts with it: the text of four octets gives back every octet.
\<close>

theorem address_edit_roundtrip:
  assumes "menu_wf u" "\<not> sys_reset (device u)" "current_screen u = SetEthParaScreen"
    "row_point u = 2 \<or> row_point u = 3 \<or> row_point u = 4" "i < 4"
  shows "\<exists>u'. run_keys nack [KEY_ENTER_PRESS, KEY_ENTER_PRESS] u = Some u' \<and> sys_reset (device u') \<and>
    lw_ip (device u') i = lw_ip (device u) i \<and> lw_netmask (device u') i = lw_netmask (device u) i \<and>
    lw_gateway (device u') i = lw_gateway (device u) i"
proof -
  have len: "length (eth_ip_addr u) = 16" "length (eth_subnet_mask u) = 16" "length (eth_gateway u) = 16"
    using assms(1) by (simp_all add: menu_wf_def texts_ok_def)
  show ?thesis
    using assms(4)
    by (elim disjE; simp add: assms(2,3) round_on apart_def screen_keys_def address_screens on_device_def draw_def
        address_text_roundtrip [OF len(1) assms(5)] address_text_roundtrip [OF len(2) assms(5)]
        address_text_roundtrip [OF len(3) assms(5)])
qed

theorem address_edit_roundtrip_witness:
  fixes u
  defines "u \<equiv> (ui_init (new_device\<lparr>lw_ip := (\<lambda>i. 192)\<rparr>))\<lparr>current_screen := SetEthParaScreen, row_point := 2\<rparr>"
  shows "\<exists>u'. run_keys (\<lambda>n. False) [KEY_ENTER_PRESS, KEY_ENTER_PRESS] u = Some u' \<and> lw_ip (device u') 3 = 192"
proof -
  have "menu_wf u" by (simp add: u_def wf_defs ui_init_def menu_screens_def row_limit_def fx_limit_def time_pending_def ascii_def row_in_def)
  then show ?thesis
    using address_edit_roundtrip [of u 3 "\<lambda>n. False"] new_device_running by (auto simp: u_def)
qed

end
