(* ===== verification/Font.thy ===== *)
theory Font
  imports Prelude
begin

text \<open>
  The fonts of \<^verbatim>\<open>HARDWARE/LCD/lcd.c\<close> and \<^verbatim>\<open>zk.h\<close>: the code of a character and its bitmap.  The bytes of a bitmap are
  written in the order of the source as one hexadecimal number, the first byte leftmost.
\<close>

type_synonym bitmap = "nat \<Rightarrow> u8"

text \<open>Byte \<open>i\<close> of a bitmap of \<open>n\<close> bytes.\<close>

definition msk :: "nat \<Rightarrow> int \<Rightarrow> bitmap" where
  "msk n g i = of_int (drop_bit (8 * (n - 1 - i)) g)"

text \<open>Two-byte characters, 16 by 16 pixels: 16 columns of the upper half, then 16 of the lower.\<close>

definition GB16x16 :: "((u8 \<times> u8) \<times> int) list" where
  "GB16x16 =
    [((0xB1, 0xB1), 0x0020202020FF000000FF4020100800002060201010FF0000003F404040407800),
     ((0xBE, 0xA9), 0x040404E424242526242424E4040404000040201B0242827E0202020B10600000),
     ((0xD0, 0xC0), 0x0000FC4444C2434220180FC80828180080601F00007F008040300C031C608000),
     ((0xC7, 0xD8), 0x20222AAA6A2A3A2FAAAA6AAA2A22200002424124150D05FF040C142441020200),
     ((0xC1, 0xD6), 0x1010D0FF9010001010D0FFD010101000040300FF001108040300FF0003040800),
     ((0xBF, 0xC6), 0x2424A4FEA3220022CC0000FF00000000080601FF00010404040404FF02020200),
     ((0xBC, 0xBC), 0x101010FF109008888888FF88888808000444827F01808040432C102846818000),
     ((0xB7, 0xA2), 0x0000181610D0B89790909092941000000020108C838041462810284443808000),
     ((0xD5, 0xB9), 0x0000FE129292F2929292F292921E000080601F0404FC47240C1427344C444400),
     ((0xD3, 0xD0), 0x04040484E43C2724242424E40404040004020100FF0909090949897F00000000),
     ((0xCF, 0xDE), 0x00FE225A8600FE9292929292FE00000000FF04080700FF4020030C1422414000),
     ((0xB9, 0xAB), 0x0080402018068000071820408000000001002070282621202024386000010100),
     ((0xCB, 0xBE), 0x001012929292929292121202FE0000000000003F101010103F0040807F000000),
     ((0xB5, 0xE7), 0x0000F888888888FF88888888F800000000001F080808087F888888889F80F000),
     ((0xBB, 0xB0), 0x404042CC000020242424FE22232220000000007F201000FE4242434242FE0000),
     ((0xC0, 0xE0), 0x00101092543010FF10305492101000008485454424140C060C14244445848400),
     ((0xD0, 0xCD), 0x2022A27E2222FE2222007C0000FF0000444249484848497E484848494A414000),
     ((0xC2, 0xF6), 0x00FE2222FE004048C809FAE440201000807F0282FF20100C43807F0007182000),
     ((0xB3, 0xE5), 0x00020CC000F0101010FF101010F0000002027F00000F040404FF0404040F0000),
     ((0xD7, 0xD3), 0x80828282828282E2A2928A8682808000000000000040807F0000000000000000),
     ((0xCE, 0xA7), 0x00FE0212525252FE5252521202FE000000FF40414141417F4149514F40FF0000),
     ((0xC0, 0xB8), 0x1010D0FF901020222C20202826202000040300FF000340424242424242424000),
     ((0xB1, 0xA8), 0x101010FF109000FE82828292A29E00000444827F010000FF80432C102C438000),
     ((0xB8, 0xE6), 0x80A0908E888888FF8888888888808000000000FC44444444444444FC00000000),
     ((0xBE, 0xAF), 0x12EAAFAAEA0FFA02888C5724548C84000202EAAAAAABAAABAAAAAAAAEA020200),
     ((0xCF, 0xB5), 0x000022322AA6A2622111098101000000004222130B42827E02020A1223460000),
     ((0xCD, 0xB3), 0x2030AC63300088C8A8998E88A8C8880022672212128040300F00003F40407100),
     ((0xCB, 0xD1), 0x101010FF109000FE9180FF8092FE00000444827F01008082462A132A46828000),
     ((0xCB, 0xF7), 0x8060242424A4643F2424A42424A0600000804829094D8D7B0B09284C98000000),
     ((0xC9, 0xE8), 0x404042CC0040A09E8282829EA02020000000003F908840432C10284641808000),
     ((0xB1, 0xB8), 0x809090484C57242424544C4480808000000000FF4949497F494949FF00000000),
     ((0xCE, 0xC2), 0x1060028C0000FE9292929292FE00000004047E01407E42427E427E42427E4000),
     ((0xC1, 0xE9), 0x000082929292929292929292FE00000080804846201008070810284640808000),
     ((0xC3, 0xF4), 0x08F714549414F40480708F0808F808001D13115599513F914120130C33408000),
     ((0xB6, 0xC8), 0x0000FC242424FC252624FC242424040040308F80844C55252525554C80808000),
     ((0xA1, 0xB6), 0x0000000080402090482412090402000000000000000102040912244810200000),
     ((0xA1, 0xB7), 0x0000020409122448902040800000000000002010482412090402010000000000),
     ((0xB2, 0xCB), 0x040444C44F4444C424242FB42404040040442424150C04FE040C152424444000),
     ((0xB5, 0xA5), 0x0000F8494A4C48F8484C4A49F800000010101312121212FF1212121213101000),
     ((0xB6, 0xA8), 0x100C4444444445C64444444444140C008040201E2040407F4444444444404000),
     ((0xC5, 0xE4), 0xF212FE12FE12F20084848484FC000000FF4A49484949FF003F40404041407000),
     ((0xD6, 0xC3), 0x001715D55557557D555755D5151700004040407F555555555555557F40404000),
     ((0xB2, 0xE9), 0x404424A4948C84FF848C94A4244440004040405F4A4A4A4A4A4A4A5F40404000),
     ((0xD1, 0xAF), 0x404042CC0020D04C4B48C80808F800000000007F20101F1212125F80403F0000),
     ((0xB0, 0xE6), 0x00FE20203F2000FC24E4242223E20000807F0101FF80601F8041261826418000),
     ((0xB1, 0xBE), 0x0010101010D030FF30D010101010000010080402090808FF0808090204081000),
     ((0xD0, 0xC5), 0x008060F8070004242425262424240400010000FF000000F94949494949F90000),
     ((0xCF, 0xA2), 0x000000FC54545655545454FC0000000040300003394141455941417300083000),
     ((0xC1, 0xD0), 0x0002C2321E1212F20200F80000FF000002814021120C030000000F40807F0000),
     ((0xB1, 0xED), 0x00042424242424FF242424242404000021211109FD8341230509112925414100),
     ((0xD0, 0xDE), 0x4020F807F0A0904C5724A4544C8080000000FF001F8092524929241208000000),
     ((0xB8, 0xC4), 0x0484848484FC4030CC0B0808F8080800007F2010100880402116081621408000),
     ((0xC3, 0xDC), 0x108C4404E40495A64424148444940C0002027A414143427E42424243F8000000),
     ((0xC2, 0xEB), 0x0484E45C44C40002F2828282FE80800002017F10103F00080808084888403F00),
     ((0xB4, 0xED), 0x4030EF246448487F4848487F4848400001017F211100FF4949494949FF000000),
     ((0xCE, 0xF3), 0x4042CC0000809E92929292929E80000000007F2094844424140F142444848400),
     ((0xB2, 0xCE), 0x002020A86C2A3928A82A6CA82020000002828190924A49452422100801020200),
     ((0xCA, 0xFD), 0x90523410FF10345280708F0808F80800829A566322528E008040330C33408000),
     ((0xB2, 0xBC), 0x080888C8A8988FE888888888880808000201003F000000FF000010201F000000),
     ((0xB3, 0xB7), 0x1010FF1020B4ADA6B46440B817F0100042827F0100FF0A8AFF80402718678000),
     ((0xB7, 0xC0), 0x00FE0222DA060808F8898E888888080000FF0810088740300F004080403F0000),
     ((0xD7, 0xB4), 0x00083000FF20202020FF2020222C200004040201FF8040300E01061820408000),
     ((0xCC, 0xAC), 0x000484844424548F1424448484040000413900003C4040424C40407004093100),
     ((0xC7, 0xE5), 0x1060028C00445454547F54545444400004047E010000FF15151555957F000000),
     ((0xB3, 0xFD), 0x00FE225A8620102824E324281020200000FF040827110D41817F010509310000),
     ((0xBC, 0xC7), 0x404042CC0000008484848484FC0000000000007F2010003F4040404041407000),
     ((0xC2, 0xBC), 0x8080829292929292929292FE80808000404022241048807F0408182422404000),
     ((0xD3, 0xB2), 0x0484E45C44C400F29292FE9292F2020002017F10103F808F54245F4484878000),
     ((0xC8, 0xED), 0x08C8B88FE8888840300FC8082818000008180808FF048440300E010E30408000),
     ((0xBC, 0xFE), 0x008060F80780601C1010FF1010100000010000FF000202020202FF0202020200),
     ((0xC8, 0xD5), 0x000000FE82828282828282FE00000000000000FF40404040404040FF00000000),
     ((0xC6, 0xDA), 0x0004FF242424FF0400FE222222FE000088482F090919AF48300F0242827F0000),
     ((0xCA, 0xB1), 0x00FC848484FC001010101010FF101000003F1010103F0000010640807F000000),
     ((0xBC, 0xE4), 0x00F8010600F0121212F2020202FE000000FF0000001F1111111F0040807F0000),
     ((0xCD, 0xF8), 0x00FE0222428272022242827202FE000000FF100806010E100806014E807F0000),
     ((0xC2, 0xE7), 0x2030AC6330201018A744A4140C00000022672212120402FD44444445FD020200),
     ((0xD1, 0xB9), 0x0000FE0282828282FA8282828282020080601F40404040407F40404458404000),
     ((0xD1, 0xD3), 0x0484C4B48C0000E40404FE4243420000804428182720404F48484F4848484000),
     ((0xB6, 0xCC), 0x908887FC84848002F212121212F20200806018070830004045594141514D4000),
     ((0xB6, 0xCF), 0x00FC2024A8FFA82400FC4444C4424000003F2221202F20A3601F0000FF000000),
     ((0xC2, 0xB7), 0x003E22E2223E0010885724548C000000407E403F22220001FE424242FE010100),
     ((0xB2, 0xF0), 0x101010FF109000FC444444C2434240000444827F0180601F000002FF04081000),
     ((0xB5, 0xD8), 0x202020FF202080F88040FF2010F000001030100F0808003F40405F4244437800),
     ((0xD6, 0xB7), 0x202020FF202000F80000FF40404000001030100F0848407F40407F4040404000),
     ((0xD1, 0xDA), 0x101010FF10B4D44C46F5444CD42424000444827F01001F12127F92929F80E000),
     ((0xC2, 0xEB), 0x0484E45C44C40002F2828282FE80800002017F10103F00080808084888403F00),
     ((0xB9, 0xD8), 0x00001011161010F010101413100000008181414121110D030D11214141818100),
     ((0xB1, 0xBE), 0x0010101010D030FF30D010101010000010080402090808FF0808090204081000),
     ((0xBB, 0xFA), 0x1010D0FF901000FE020202FE00000000040300FF0083601F0000003F40407800),
     ((0xC7, 0xF8), 0x00FE0202021222428242221A02020000007F4040484442414041424C40404000),
     ((0xBF, 0xAA), 0x80828282FE8282828282FE8282828000008040300F0000000000FF0000000000),
     ((0xC6, 0xF4), 0x000000FC4444444546444444447C00004020180700FC44444444444444FC0000),
     ((0xB3, 0xA3), 0x201808EAACA8A8AFA8A8ACEA0828180000003E02020202FF020212221E000000),
     ((0xB1, 0xD5), 0x00F80122202222A2FA22222202FE000000FF0008040211201F000040807F0000),
     ((0xB8, 0xDF), 0x04040404F49495969494F4040404040000FE02027A4A4A4A4A4A7A0282FE0000),
     ((0xD5, 0xFD), 0x000202C2020202FE82828282820200004040407F4040407F4040404040404000),
     ((0xD4, 0xDA), 0x080888C8380C0B0808E8080808080800020100FF40414141417F414141414000),
     ((0xC7, 0xEB), 0x4042CC0000445454547F54545444400000007F201000FF15151555957F000000),
     ((0xC9, 0xD4), 0x2424A4FE232200E22C203F2028E60000080601FF010600FF09090949897F0000),
     ((0xBA, 0xF3), 0x000000FC2424242422222223222020004020180700FE424242424242FE000000),
     ((0xA3, 0xA8), 0x000000000000000000E018040200000000000000000000000007182040000000),
     ((0xD6, 0xBB), 0x000000FE02020202020202FE0000000000804023190101010101091320C00000),
     ((0xB6, 0xC1), 0x404042CC00002024A4243FA424A460000000007F2010888A4C29180F1828C800),
     ((0xA3, 0xA9), 0x0000020418E00000000000000000000000004020180700000000000000000000),
     ((0xA1, 0xE6), 0x060909E6F80C040202020202041E0000000000071F3020404040404020100000),
     ((0xD6, 0xC7), 0x109453321E325210007E4242427E0000000000FF49494949494949FF00000000),
     ((0xC4, 0xDC), 0x08CC4A49484ACC18007F88888482E00000FF121252927F00007E88888482E000),
     ((0xBC, 0xFC), 0x4030EF242480E49C105454FF547C100001017F21512618274445455F45454400),
     ((0xC5, 0xCC), 0x202020FC2426A52C342424FC2020200040427D44447C4445447D46457C404000),
     ((0xBF, 0xD8), 0x101010FF9020984828090E2848A818000242817F0040404242427E4242424000),
     ((0xD6, 0xC6), 0x40504E4848FF48484840F80000FF000000003E0202FF12221E000F40807F0000),
     ((0xD6, 0xD5), 0x2030AC6330201018A744A4140C00000022672212120201212444489101020200),
     ((0xB6, 0xCB), 0xC808090EE808405E5050DF50505E4000206F201C131000FE027F027E82FE0000),
     ((0xBC, 0xE0), 0x00007E0000FF0040300F04146404000040407E42427E4242427E42427E404000),
     ((0xB1, 0xE0), 0x2030AC633000FC2425262424243C000022672212523807FF097F093F89FF0000),
     ((0xBA, 0xC5), 0x808080BEA2A2A2A2A2A2A2BE8080800000000006050404044484443C00000000),
     ((0xCA, 0xB8), 0x004020180F0808F808080808080000008181414121110D030D11214141818100),
     ((0xC1, 0xBF), 0x202020BEAAAAAAAAAAAAAABE20202000008080AFAAAAAAFFAAAAAAAF80800000),
     ((0xD0, 0xB9), 0x1060028C2020FE2020FF2020FF20200004047E0100007F404047444447404000),
     ((0xC2, 0xB6), 0x100C05555555057F05D5555505140C0080F7857D5557000AE9ABA5A5EB080800),
     ((0xC0, 0xC2), 0x2030AC6330001EC07F5048474CD40400226722121280804F20180778808FC000),
     ((0xD5, 0xF0), 0x100C05555555057F0555555505140C0080403F1115F5951515355555B5918000),
     ((0xB6, 0xAF), 0x4044C4444444401010FF101010F00000103C131014B840300E014080403F0000),
     ((0xCE, 0xBB), 0x008060F80710901011161010D0100000010000FF4040415E4040704E41404000),
     ((0xB7, 0xD6), 0x804020908886808080838C1020408000008040201807004080403F0000000000),
     ((0xCC, 0xE5), 0x008060F807101010D0FFD01010100000010000FF1008040B08FF080B04081000),
     ((0xD5, 0xC5), 0x02E222223E8080FF80A0908886808000004382423E0000FF4021060810204000),
     ((0xC0, 0xAD), 0x101010FF904010901011161010D010000242817F004040415E4040704E414000),
     ((0xC1, 0xA6), 0x001010101010FF1010101010F00000000080402018060100204080403F000000),
     ((0xD6, 0xB5), 0x008060F80704E4A4A4BFA4A4E4040000010000FF40407F4A4A4A4A4A7F404000),
     ((0xD6, 0xD8), 0x101014D4545454FC525252D312101000404050575555557F5555555750404000),
     ((0xD0, 0xC2), 0x40445465C664544400FC4444C442400020124A827F020A92601F0000FF000000),
     ((0xCA, 0xE4), 0x88681FC80810C85452D1129408D01000091909FF0500FF1292FF005F807F0000),
     ((0xC8, 0xEB), 0x000000000001E21CE000000000000000804020100C03000000030C3040808000),
     ((0xBC, 0xE6), 0x8084A4A5A6FCA4A4FCA6A5E4848480002020120A06FF0202FF060A1310202000),
     ((0xC8, 0xDD), 0x100C4424148445264484142444140C00040402FE45444444444445FE02040400),
     ((0xCD, 0xE2), 0x00C0301F1010F00000FF204080000000814021120C03000000FF000000030000),
     ((0xB2, 0xBF), 0x40445465464464544440FE0222DA060000007E222222227E0000FF0810080700),
     ((0xB1, 0xE0), 0x2030AC633000FC2425262424243C000022672212523807FF097F093F89FF0000),
     ((0xD6, 0xF7), 0x00080808080809FA0808080808080000404041414141417F4141414141404000),
     ((0xBA, 0xEC), 0x2030AC63201800040404FC0404040000226722121212404040407F4040404000),
     ((0xB1, 0xBB), 0x080889EA984000F8888888FF88A81800020100FF0081601F80432C102C438000),
     ((0xCC, 0xBD), 0x1010FF10900E22120AC20A12220E000042827F012021110905FF050911212000),
     ((0xB2, 0xE2), 0x1060028C00FE02F202FE00F800FF000004047E018047300F10270047807F0000),
     ((0xC6, 0xF7), 0x80809E9292929EE0809EB2D2929E80000808F4949292F10001F2929494F80800),
     ((0xCB, 0xAB), 0x0434C404C43C0004FC040404C43C000040300C030C30804020130C1320408000),
     ((0xBC, 0xF8), 0x00003E0080BF40205887840C34040000024249495A6A4A7E4A6A5A4949420200),
     ((0xBB, 0xB7), 0x048484FC848400040484E41C840404002060201F101004020100FF0000010600),
     ((0xBE, 0xB3), 0x1010FF101020A4ACB5A6B4ACA420200010301F0888804F3A0A0A7A8A8F80E000),
     ((0xC3, 0xC5), 0x00F80106000002020202020202FE000000FF00000000000000000040807F0000),
     ((0xB4, 0xC5), 0x84E45CC40008C8398E0808CC3B880800003F103F00635A46E100635A46E10000),
     ((0xCB, 0xAE), 0x00202020A06000FF6080402018000000201008060140807F0001020408101000),
     ((0xBD, 0xFE), 0x1060028C0080A2AAAAAAAAAABE80000004047E010081824E5222524E80818000),
     ((0xC6, 0xE4), 0x00040404FF2424242424FF0404040000080888482F09090909092F4888080800),
     ((0xCB, 0xFC), 0x100C0404E40405060404848444140C00000000003F4242414141404040780000),
     ((0xBD, 0xF4), 0x00003E0000BF4002462A922A4642000000804829094D8D7B0B09284C98000000),
     ((0xBC, 0xB1), 0x0010089493929292929A9690F00000004030047484848CB4848484E407106000),
     ((0xB0, 0xB4), 0x101010FF9020988888E98E8888A898000242817F000080844B28102847800000),
     ((0xC5, 0xA5), 0x20102CE72424008282FE8282FE0000000101017F211140407F4040407F404000),
     ((0xD4, 0xAD), 0x0000FE0202F2929A969292F20202020080601F40201744847C04041720400000),
     ((0xB3, 0xC9), 0x0000F8888888880808FF08090AC8080080601F0010201F80402116182641F800),
     ((0xB9, 0xA6), 0x080808F80808081010FF101010F000001030101F088848300E014080403F0000),
     ((0xD2, 0xD1), 0x0000E28282828282828282FE0000000000003F40404040404040404040780000),
     ((0xC9, 0xFA), 0x8040301E101010FF1010101010100000404042424242427F4242424242404000),
     ((0xD0, 0xA7), 0x884828090A28488880708F0808F808004020110A040B30804020130C33408000),
     ((0xB8, 0xF1), 0x1010D0FF90201018A744A4140C000000040300FF000502FD44444445FD020200),
     ((0xCA, 0xBD), 0x101090909090901010FF101011161000002060203F10101000030C102040F800),
     ((0xCB, 0xC4), 0x00FC040404FC040404FC040404FC0000007F28242320202020212222227F0000),
     ((0xC1, 0xF9), 0x20202020202021222C20202020202000004020100C0300000001020418600000),
     ((0xD7, 0xD6), 0x100C042424242526A464240404140C00020202020242827F0202020202020200),
     ((0xBB, 0xD6), 0x00E000FF10200888780F08E808088800010000FF00100C834423180718628100),
     ((0xB8, 0xB4), 0x201008F754545454545454F404040000809090494D57252525554D4580808000),
     ((0xB3, 0xF6), 0x00007C40404040FF40404040FC000000007C40404040407F4040404040FC0000),
     ((0xB3, 0xA7), 0x0000FE0202020202020202020202020080601F00000000000000000000000000),
     ((0xC6, 0xD5), 0x40445464457E4444447E456454444000000000FF49494949494949FF00000000),
     ((0xCD, 0xA8), 0x4042CC0000E2222A2AF22A2622E0000080403F4080FF898989BF89A9C9BF8000),
     ((0xB3, 0xAC), 0x40484848FF484842A29E82A2C2BE000080601F207F4444404F484848484F4000),
     ((0xBC, 0xB6), 0x2030AC6330000202FE0202625AC60000226722121240308F80432C102C438000),
     ((0xD3, 0xC3), 0x0000FE22222222FE22222222FE00000080601F020202027F020242827F000000),
     ((0xBB, 0xA7), 0x000000F80808090E08080808F80000000080601F010101010101010103000000),
     ((0xB5, 0xC7), 0x00008A52225A464047582452880400000141404F596949494969594F40410100),
     ((0xC2, 0xBC), 0x8080829292929292929292FE80808000404022241048807F0408182422404000),
     ((0xC6, 0xF0), 0x40484848FF484800C4444444FC00000080601F207F4444404F505050505C4000),
     ((0xCA, 0xBC), 0x1010F01F10F00040E05847405060C0004022150816210000FE42424242FE0000),
     ((0xD6, 0xD5), 0x2030AC6330201018A744A4140C00000022672212120201212444489101020200),
     ((0xD6, 0xB9), 0x000000F0000000FF40404040400000004040407F4040407F4040404040404000),
     ((0xC3, 0xEB), 0x2424A4FE232200C03800FF0008106000080601FF01068180404027100C030000),
     ((0xC9, 0xCF), 0x000000000000FF4040404040400000004040404040407F404040404040404000),
     ((0xC0, 0xEB), 0x040404F484D4A5A6A4D484F40404040000FE0202123A1613121A3242827E0000),
     ((0xCF, 0xDF), 0x2030AC632018809090FF90494A484000226722121212404020130C142241F800),
     ((0xD2, 0xBB), 0x8080808080808080808080808080800000000000000000000000000000000000),
     ((0xB6, 0xFE), 0x0000080808080808080808080800000010101010101010101010101010101000),
     ((0xCE, 0xDE), 0x0040424242C27E42C242424240400000804020100C0300003F40404040700000),
     ((0xB3, 0xF5), 0x080889EA1888000404FC040404FC0000020100FF0186402018074080403F0000),
     ((0xBB, 0xAF), 0x008060F807000000FF40201008040000010000FF000402013F40404040407800),
     ((0xA3, 0xBA), 0x00000000001C1C1C000000000000000000000000003838380000000000000000),
     ((0xA3, 0xA1), 0x0000000000387CFEFE7C38000000000000000000000020737320000000000000),
     ((0xA3, 0xAC), 0x0000000000000000000000000000000000005838000000000000000000000000),
     ((0xC7, 0xD6), 0x008060F80780A2AAAAAAAAAABE800000010000FF0081824E5222524E80818000),
     ((0xCB, 0xC9), 0x1010D0FF901080601E00E00718608000040300FF000320702C23202024386000),
     ((0xB3, 0xDA), 0x02E222223E0080F88040FF2010F00000004382423E00003F40405F4244437800),
     ((0xE3, 0xD0), 0x00F80122A0A2A222FE22AA3202FE000000FF0010130A4B20170C133880FF0000),
     ((0xCF, 0xC2), 0x020202020202FE020242820202020200000000000000FF000000000106000000),
     ((0xC6, 0xAB), 0x8060F80700FC242425262424243C00000000FF403C03FF097F097F0989FF0000),
     ((0xD2, 0xC6), 0x2424A4FE2322001008946724940C0000080601FF0106008989444A33120A0600),
     ((0xB7, 0xC7), 0x0888888888FF000000FF8888888808001010101010FF000000FF101010101000),
     ((0xB7, 0xA8), 0x1060028C0010101010FF10101010000004047E0141E151494543415161C10100),
     ((0xB7, 0xB6), 0x04448414640F04E4242F2424E4040400000809780403003F4040424443407800),
     ((0xC1, 0xE3), 0x100C05555555857F8555555505140C000404020A09292A4C48A9190202040400),
     ((0xB5, 0xE3), 0x0000C04040407F48484848C80808000080403704041464041464040710E00000),
     ((0xBB, 0xF9), 0x00040404FF5454545454FF040404000011118985939191FD9191938589111100),
     ((0xD0, 0xA3), 0x1010D0FF9010804828090E0828488800040300FF00018080432C102C43808000),
     ((0xD7, 0xBC), 0x00020CE04020F84F4849FE484848080004047F000000FF2222223F2222222000),
     ((0xCE, 0xB4), 0x80808888888888FF888888888880800020201008040201FF0102040810202000),
     ((0xB5, 0xF7), 0x4042CC0000FE829292FE929282FE000000003F10887F001E1212125E807F0000),
     ((0xD5, 0xFB), 0x0474D454FF54D47414087784443C0400828988E88B8888F9A8AAA9A8A98A8200),
     ((0xC2, 0xFA), 0x1060028C0024242FE42424E42F24240004047E0100FF11090719090749917F00),
     ((0xB3, 0xCC), 0x2424A4FE2322003E22222222223E0000080601FF0106404949497F4949494100),
     ((0xD7, 0xD4), 0x000000F8888C8A89888888F800000000000000FF44444444444444FF00000000),
     ((0xD6, 0xD3), 0x20102CE7242400F01010FF1010F000000101017F211100070202FF0202070000)]"

text \<open>One-byte characters, 8 by 16 pixels.\<close>

definition Char8x16 :: "(u8 \<times> int) list" where
  "Char8x16 =
    [(0x30, 0x00E010080810E000000F102020100F00),
     (0x31, 0x00001010F8000000000020203F202000),
     (0x32, 0x007008080808F0000030282422213000),
     (0x33, 0x00300808088870000018202121221C00),
     (0x34, 0x0000804030F8000000060524243F2424),
     (0x35, 0x00F88888880808000019202020110E00),
     (0x36, 0x00E0108888900000000F112020201F00),
     (0x37, 0x00180808886818000000003E01000000),
     (0x38, 0x0070880808887000001C222121221C00),
     (0x39, 0x00F008080810E0000001122222110F00),
     (0x61, 0x000080808000000000192424123F2000),
     (0x62, 0x10F0008080000000003F112020110E00),
     (0x63, 0x0000008080800000000E112020201100),
     (0x64, 0x000080808090F000001F202020103F20),
     (0x65, 0x0000808080800000001F242424241700),
     (0x66, 0x008080E0909020000020203F20200000),
     (0x67, 0x0000808080808000006B949494936000),
     (0x68, 0x10F0008080800000203F210000203F20),
     (0x69, 0x00809898000000000020203F20200000),
     (0x6A, 0x000000809898000000C08080807F0000),
     (0x6B, 0x10F0000080808000203F240629302000),
     (0x6C, 0x001010F8000000000020203F20200000),
     (0x6D, 0x8080808080808000203F20003F20003F),
     (0x6E, 0x8080008080800000203F210000203F20),
     (0x6F, 0x0000808080800000001F202020201F00),
     (0x70, 0x808000808000000080FF912020110E00),
     (0x71, 0x0000008080008000000E11202091FF80),
     (0x72, 0x808080008080800020203F2120000100),
     (0x73, 0x00008080808080000033242424241900),
     (0x74, 0x008080E0808000000000001F20201000),
     (0x75, 0x8080000000808000001F202020103F20),
     (0x76, 0x808080008080800000030C300C030000),
     (0x77, 0x8080008080008080010E300C07380601),
     (0x78, 0x00808080008080000020310E2E312000),
     (0x79, 0x80808000008080800081867818060100),
     (0x7A, 0x00808080808080000021302C22213000),
     (0x41, 0x0000C038E0000000203C230202273820),
     (0x42, 0x08F8888888700000203F202020110E00),
     (0x43, 0xC0300808080838000718202020100800),
     (0x44, 0x08F808080810E000203F202020100F00),
     (0x45, 0x08F88888E8081000203F202023201800),
     (0x46, 0x08F88888E8081000203F200003000000),
     (0x47, 0xC03008080838000007182020221E0200),
     (0x48, 0x08F808000008F808203F210101213F20),
     (0x49, 0x000808F8080800000020203F20200000),
     (0x4A, 0x00000808F8080800C08080807F000000),
     (0x4B, 0x08F888C028180800203F200126382000),
     (0x4C, 0x08F8080000000000203F202020203000),
     (0x4D, 0x08F8F800F8F80800203F013E013F2000),
     (0x4E, 0x08F830C00008F808203F200007183F00),
     (0x4F, 0xE01008080810E0000F10202020100F00),
     (0x50, 0x08F808080808F000203F210101010000),
     (0x51, 0xE01008080810E0000F10282830504F00),
     (0x52, 0x08F8888888887000203F2000030C3020),
     (0x53, 0x00708808080838000038202121221C00),
     (0x54, 0x180808F8080818000000203F20000000),
     (0x55, 0x08F808000008F808001F202020201F00),
     (0x56, 0x0878880000C83808000007380E010000),
     (0x57, 0x08F800F800F8080000033E013E030000),
     (0x58, 0x081868808068180820302C03032C3020),
     (0x59, 0x0838C800C83808000000203F20000000),
     (0x5A, 0x10080808C83808002038262120201800),
     (0x20, 0x00000000000000000000000000000000),
     (0x2E, 0x00000000000000000030300000000000),
     (0x2C, 0x00000000000000000090700000000000),
     (0x3A, 0x000000C0C00000000000003030000000),
     (0x3B, 0x0000008000000000000000E000000000),
     (0x2D, 0x00000000000000000001010101010100),
     (0x21, 0x000000F8000000000000003300000000),
     (0x2A, 0x404080F0804040000202010F01020200),
     (0x28, 0x000000E0180402000000000718204000),
     (0x29, 0x00020418E00000000040201807000000),
     (0x23, 0x0040C07840C0780000043F04043F0400),
     (0x2B, 0x00000000E0000000000101010F010101),
     (0x7B, 0x0000000000FC020200000000013E4040),
     (0x7D, 0x0202FC000000000040403E0100000000),
     (0x2F, 0x00000000C03804000060180700000000),
     (0x5B, 0x000000FE020202000000007F40404000),
     (0x5D, 0x00020202FE000000004040407F000000),
     (0x3C, 0x00008040201008000001020408102000),
     (0x3E, 0x00081020408000000020100804020100),
     (0x3F, 0x00704808088870000000003037000000),
     (0x26, 0x00F00888700000001E21232C19272110),
     (0x25, 0xF008F0806018000000310C031E211E00),
     (0x40, 0xC030C828E810E000071827282F281700),
     (0x7E, 0x00020102020402000000000000000000),
     (0x5E, 0x00000402020400000000000000000000),
     (0x7C, 0x00000000FF00000000000000FF000000)]"

text \<open>The characters of the time.\<close>

definition zifu :: "(u8 \<times> int) list" where
  "zifu =
    [(0x30, 0x00E010080810E000000F102020100F00),
     (0x31, 0x00001010F8000000000020203F202000),
     (0x32, 0x007008080808F0000030282422213000),
     (0x33, 0x00300808088870000018202121221C00),
     (0x34, 0x0000804030F8000000060524243F2424),
     (0x35, 0x00F88888880808000019202020110E00),
     (0x36, 0x00E0108888900000000F112020201F00),
     (0x37, 0x00180808886818000000003E01000000),
     (0x38, 0x0070880808887000001C222121221C00),
     (0x39, 0x00F008080810E0000001122222110F00),
     (0x41, 0x0000C038E0000000203C230202273820),
     (0x42, 0x08F8888888700000203F202020110E00),
     (0x43, 0xC0300808080838000718202020100800),
     (0x44, 0x08F808080810E000203F202020100F00),
     (0x45, 0x08F88888E8081000203F202023201800),
     (0x46, 0x08F88888E8081000203F200003000000),
     (0x47, 0xC03008080838000007182020221E0200),
     (0x48, 0x08F808000008F808203F210101213F20),
     (0x49, 0x000808F8080800000020203F20200000),
     (0x4A, 0x00000808F8080800C08080807F000000),
     (0x4B, 0x08F888C028180800203F200126382000),
     (0x4C, 0x08F8080000000000203F202020203000),
     (0x4D, 0x08F8F800F8F80800203F013E013F2000),
     (0x4E, 0x08F830C00008F808203F200007183F00),
     (0x4F, 0xE01008080810E0000F10202020100F00),
     (0x50, 0x08F808080808F000203F210101010000),
     (0x51, 0xE01008080810E0000F10282830504F00),
     (0x52, 0x08F8888888887000203F2000030C3020),
     (0x53, 0x00708808080838000038202121221C00),
     (0x54, 0x180808F8080818000000203F20000000),
     (0x55, 0x08F808000008F808001F202020201F00),
     (0x56, 0x0878880000C83808000007380E010000),
     (0x57, 0x08F800F800F8080000033E013E030000),
     (0x58, 0x081868808068180820302C03032C3020),
     (0x59, 0x0838C800C83808000000203F20000000),
     (0x5A, 0x10080808C83808002038262120201800),
     (0x2D, 0x00000000000000000001010101010100),
     (0x2E, 0x00000000000000000030300000000000),
     (0x3A, 0x000000C0C00000000000003030000000)]"

end
