(* ===== verification/Lcd.thy ===== *)
theory Lcd
  imports Font
begin

text \<open>
  \<^verbatim>\<open>HARDWARE/LCD/lcd.c\<close>: the display and the lines of text written on it.  A display of 128 by 64 pixels has two
  controllers, one for each half: a controller keeps eight pages of 64 columns, a byte in a page is a column of
  eight pixels, and writing a byte moves on to the next column.  What a controller does with a command is what the
  comments of the source say of it; the lines of the port and the delays are not modelled.
\<close>

subsection \<open>Controllers\<close>

record half =
  x_addr :: nat
  y_addr :: nat
  z_addr :: nat
  lit :: bool
  ram :: "nat \<Rightarrow> nat \<Rightarrow> u8"

text \<open>Both chips with their select lines.\<close>

record lcd =
  LCD_CS1 :: bool
  LCD_CS2 :: bool
  left_half :: half
  right_half :: half

definition chip_cmd :: "u8 \<Rightarrow> half \<Rightarrow> half" where
  "chip_cmd c h =
     (if c AND 0xF8 = 0xB8 then h\<lparr>x_addr := unat (c AND 7)\<rparr>
      else if c AND 0xC0 = 0x40 then h\<lparr>y_addr := unat (c AND 0x3F)\<rparr>
      else if c AND 0xC0 = 0xC0 then h\<lparr>z_addr := unat (c AND 0x3F)\<rparr>
      else if c AND 0xFE = 0x3E then h\<lparr>lit := (c AND 1 = 1)\<rparr>
      else h)"

definition chip_data :: "u8 \<Rightarrow> half \<Rightarrow> half" where
  "chip_data b h =
     h\<lparr>ram := (ram h)(x_addr h := (ram h (x_addr h))(y_addr h := b)), y_addr := (y_addr h + 1) mod 64\<rparr>"

definition selected :: "(half \<Rightarrow> half) \<Rightarrow> lcd \<Rightarrow> lcd" where
  "selected f l =
     l\<lparr>left_half := (if LCD_CS1 l then f (left_half l) else left_half l),
       right_half := (if LCD_CS2 l then f (right_half l) else right_half l)\<rparr>"

definition LcdWriteCmd :: "u8 \<Rightarrow> lcd \<Rightarrow> lcd" where "LcdWriteCmd c = selected (chip_cmd c)"
definition LcdWriteData :: "u8 \<Rightarrow> lcd \<Rightarrow> lcd" where "LcdWriteData b = selected (chip_data b)"

definition LcdSetPage :: "u8 \<Rightarrow> lcd \<Rightarrow> lcd" where "LcdSetPage page = LcdWriteCmd (0xB8 OR page)"
definition LcdSetLine :: "u8 \<Rightarrow> lcd \<Rightarrow> lcd" where "LcdSetLine sline = LcdWriteCmd (0xC0 OR sline)"
definition LcdSetColumn :: "u8 \<Rightarrow> lcd \<Rightarrow> lcd" where "LcdSetColumn column = LcdWriteCmd (0x40 OR (0x3F AND column))"
definition Lcd_On_Off :: "u8 \<Rightarrow> lcd \<Rightarrow> lcd" where "Lcd_On_Off s = LcdWriteCmd (0x3E OR s)"

abbreviation (input) FullScreen :: u8 where "FullScreen \<equiv> 0"
abbreviation (input) LeftScreen :: u8 where "LeftScreen \<equiv> 1"
abbreviation (input) RighScreen :: u8 where "RighScreen \<equiv> 2"
abbreviation (input) DISPLAY_POSITIVE :: bool where "DISPLAY_POSITIVE \<equiv> True"
abbreviation (input) DISPLAY_NEGATIVE :: bool where "DISPLAY_NEGATIVE \<equiv> False"

definition Lcd_Cs :: "u8 \<Rightarrow> lcd \<Rightarrow> lcd" where
  "Lcd_Cs cs_sel l =
     (if cs_sel = FullScreen then l\<lparr>LCD_CS1 := True, LCD_CS2 := True\<rparr>
      else if cs_sel = LeftScreen then l\<lparr>LCD_CS1 := True, LCD_CS2 := False\<rparr>
      else if cs_sel = RighScreen then l\<lparr>LCD_CS1 := False, LCD_CS2 := True\<rparr>
      else l)"

definition clear_page :: "nat \<Rightarrow> lcd \<Rightarrow> lcd" where
  "clear_page i l = fold (\<lambda>j. LcdWriteData 0) [0..<64] (LcdSetColumn 0 (LcdSetPage (of_nat i) l))"

definition Lcd_Clear :: "u8 \<Rightarrow> lcd \<Rightarrow> lcd" where
  "Lcd_Clear cs_sel l = fold clear_page [0..<8] (Lcd_Cs cs_sel l)"

text \<open>The start of the display, behind the set-up of the port.\<close>

definition LCD_Init :: "lcd \<Rightarrow> lcd" where
  "LCD_Init l =
     (let l = Lcd_On_Off 0 (Lcd_Cs FullScreen l);
          l = Lcd_Clear FullScreen (Lcd_Cs FullScreen l)
      in Lcd_On_Off 1 (LcdSetLine 0xC0 (LcdSetPage 0xB8 (LcdSetColumn 0x40 l))))"

subsection \<open>Characters\<close>

text \<open>\<open>n\<close> bytes of a bitmap from byte \<open>k\<close>, inverted unless \<open>p_or_n\<close>.\<close>

definition ink :: "bool \<Rightarrow> u8 \<Rightarrow> u8" where
  "ink p_or_n b = (if p_or_n then b else NOT b)"

definition put_bytes :: "bool \<Rightarrow> nat \<Rightarrow> nat \<Rightarrow> bitmap \<Rightarrow> lcd \<Rightarrow> lcd" where
  "put_bytes p_or_n n k p = fold (\<lambda>i. LcdWriteData (ink p_or_n (p (i + k)))) [0..<n]"

definition Display_16x16 :: "u8 \<Rightarrow> u8 \<Rightarrow> u8 \<Rightarrow> bitmap \<Rightarrow> bool \<Rightarrow> lcd \<Rightarrow> lcd" where
  "Display_16x16 cs page column p p_or_n l =
     (let l = put_bytes p_or_n 16 0 p (LcdSetColumn column (LcdSetPage page (Lcd_Cs cs l)))
      in put_bytes p_or_n 16 16 p (LcdSetColumn column (LcdSetPage (page + 1) l)))"

definition Display_8x16 :: "u8 \<Rightarrow> u8 \<Rightarrow> u8 \<Rightarrow> bitmap \<Rightarrow> bool \<Rightarrow> lcd \<Rightarrow> lcd" where
  "Display_8x16 cs page column p p_or_n l =
     (let l = put_bytes p_or_n 8 0 p (LcdSetColumn column (LcdSetPage page (Lcd_Cs cs l)))
      in put_bytes p_or_n 8 8 p (LcdSetColumn column (LcdSetPage (page + 1) l)))"

subsection \<open>Lines of text\<close>

text \<open>The searches of the fonts stop at the first entry that fits.\<close>

definition find_GB16x16 :: "u8 \<Rightarrow> u8 \<Rightarrow> bitmap option" where
  "find_GB16x16 a b = map_option (msk 32) (map_of GB16x16 (a, b))"

definition find_Char8x16 :: "u8 \<Rightarrow> bitmap option" where
  "find_Char8x16 a = map_option (msk 16) (map_of Char8x16 a)"

text \<open>The half for a place at column \<open>x\<close>, which is not truncated here but where it is passed on.\<close>

definition half_at :: "nat \<Rightarrow> u8" where
  "half_at x = (if x < 64 then LeftScreen else RighScreen)"

definition put_16x16 :: "u8 \<Rightarrow> nat \<Rightarrow> bool \<Rightarrow> bitmap option \<Rightarrow> lcd \<Rightarrow> lcd" where
  "put_16x16 page x p_or_n g l =
     (case g of None \<Rightarrow> l | Some p \<Rightarrow> Display_16x16 (half_at x) page (of_nat x) p p_or_n l)"

definition put_8x16 :: "u8 \<Rightarrow> nat \<Rightarrow> bool \<Rightarrow> bitmap option \<Rightarrow> lcd \<Rightarrow> lcd" where
  "put_8x16 page x p_or_n g l =
     (case g of None \<Rightarrow> l | Some p \<Rightarrow> Display_8x16 (half_at x) page (of_nat x) p p_or_n l)"

text \<open>A text is the bytes before its terminator; their number is counted in a byte.\<close>

definition char_num :: "u8 list \<Rightarrow> nat" where
  "char_num s = length s mod 256"

definition Display_Line_Index_16x16 :: "u8 \<Rightarrow> u8 \<Rightarrow> u8 list \<Rightarrow> bool \<Rightarrow> lcd \<Rightarrow> lcd" where
  "Display_Line_Index_16x16 page column s p_or_n =
     fold (\<lambda>i. put_16x16 page (unat column + i * 16) p_or_n (find_GB16x16 (s ! (i * 2)) (s ! (i * 2 + 1))))
       [0..<length s div 2 mod 256]"

definition Display_Line_Index_8x16 :: "u8 \<Rightarrow> u8 \<Rightarrow> u8 list \<Rightarrow> bool \<Rightarrow> lcd \<Rightarrow> lcd" where
  "Display_Line_Index_8x16 page column s p_or_n =
     fold (\<lambda>i. put_8x16 page (unat column + i * 8) p_or_n (find_Char8x16 (s ! i))) [0..<char_num s]"

text \<open>
  The line with characters of both fonts: \<open>i\<close> is the byte the text \<open>s\<close> is at; behind the last byte stands the
  terminator.  A character in the marked places is inverted.
\<close>

definition next_byte :: "u8 list \<Rightarrow> u8" where
  "next_byte s = (case s of [] \<Rightarrow> 0 | b # _ \<Rightarrow> b)"

function mixed_line :: "u8 \<Rightarrow> u8 \<Rightarrow> (nat \<Rightarrow> bool) \<Rightarrow> nat \<Rightarrow> u8 list \<Rightarrow> lcd \<Rightarrow> lcd" where
  "mixed_line page column positive i [] l = l"
| "mixed_line page column positive i (a # s) l =
     (case find_GB16x16 a (next_byte s) of
        Some p \<Rightarrow> mixed_line page column positive (i + 2) (tl s)
          (put_16x16 page (unat column + i * 8) (positive i) (Some p) l)
      | None \<Rightarrow> mixed_line page column positive (i + 1) s
          (put_8x16 page (unat column + i * 8) (positive i) (find_Char8x16 a) l))"
  by pat_completeness auto
termination by (relation "measure (\<lambda>(p, c, q, i, s, l). length s)") auto

definition Display_Line_Index_8x16_16x16 :: "u8 \<Rightarrow> u8 \<Rightarrow> u8 list \<Rightarrow> bool \<Rightarrow> lcd \<Rightarrow> lcd" where
  "Display_Line_Index_8x16_16x16 page column s p_or_n =
     mixed_line page column (\<lambda>i. p_or_n) 0 (take (char_num s) s)"

definition Display_Line_Index_8x16_pn :: "u8 \<Rightarrow> u8 \<Rightarrow> u8 list \<Rightarrow> u8 \<Rightarrow> lcd \<Rightarrow> lcd" where
  "Display_Line_Index_8x16_pn page column s fx_pos =
     fold (\<lambda>i. put_8x16 page (unat column + i * 8) (i \<noteq> unat fx_pos) (find_Char8x16 (s ! i))) [0..<char_num s]"

definition Display_Line_Index_8x16_pn2 :: "u8 \<Rightarrow> u8 \<Rightarrow> u8 list \<Rightarrow> u8 \<Rightarrow> u8 \<Rightarrow> lcd \<Rightarrow> lcd" where
  "Display_Line_Index_8x16_pn2 page column s fx_pos_1 fx_pos_2 =
     fold (\<lambda>i. put_8x16 page (unat column + i * 8) (\<not> (i = unat fx_pos_1 \<or> i = unat fx_pos_2)) (find_Char8x16 (s ! i)))
       [0..<char_num s]"

definition Display_Line_Index_8x16_16x16_pn2 :: "u8 \<Rightarrow> u8 \<Rightarrow> u8 list \<Rightarrow> u8 \<Rightarrow> u8 \<Rightarrow> lcd \<Rightarrow> lcd" where
  "Display_Line_Index_8x16_16x16_pn2 page column s fx_pos_1 fx_pos_2 =
     mixed_line page column (\<lambda>i. \<not> (i = unat fx_pos_1 \<or> i = unat fx_pos_2)) 0 (take (char_num s) s)"

end
