(* ===== verification/Texts.thy ===== *)
theory Texts
  imports Clock
begin

text \<open>
  The string literals of \<^verbatim>\<open>HARDWARE/LCD/DisplayMenu.c\<close> as the bytes the compiler stores, in the encoding GBK of the
  source, without the terminator.  The names translate the texts.
\<close>

named_theorems text_defs \<open>the literals\<close>

definition t_initialising :: "u8 list" where [text_defs]:
  "t_initialising = [0xD5, 0xFD, 0xD4, 0xDA, 0xB3, 0xF5, 0xCA, 0xBC, 0xBB, 0xAF, 0xA3, 0xA1]"
definition t_name_D :: "u8 list" where [text_defs]: "t_name_D = ascii ''    XC-100WD    ''"
definition t_name_S :: "u8 list" where [text_defs]: "t_name_S = ascii ''    XC-100WS    ''"
definition t_host :: "u8 list" where [text_defs]:
  "t_host = [0x20, 0x20, 0xD5, 0xC5, 0xC1, 0xA6, 0xCE, 0xA7, 0xC0, 0xB8, 0xD6, 0xF7, 0xBB, 0xFA, 0x20, 0x20]"
definition t_temperature :: "u8 list" where [text_defs]:
  "t_temperature = [0xC9, 0xE8, 0xB1, 0xB8, 0xCE, 0xC2, 0xB6, 0xC8, 0xA3, 0xBA, 0x20, 0x20, 0x20, 0x20, 0xA1, 0xE6]"
definition t_login :: "u8 list" where [text_defs]:
  "t_login = [0xA1, 0xB6, 0xD3, 0xC3, 0xBB, 0xA7, 0xB5, 0xC7, 0xC2, 0xBC, 0xA1, 0xB7]"
definition t_super_user :: "u8 list" where [text_defs]:
  "t_super_user = [0xB3, 0xAC, 0xBC, 0xB6, 0xD3, 0xC3, 0xBB, 0xA7]"
definition t_ordinary_user :: "u8 list" where [text_defs]:
  "t_ordinary_user = [0xC6, 0xD5, 0xCD, 0xA8, 0xD3, 0xC3, 0xBB, 0xA7]"
definition t_menu :: "u8 list" where [text_defs]: "t_menu = [0xA1, 0xB6, 0xB2, 0xCB, 0xB5, 0xA5, 0xA1, 0xB7]"
definition t_set :: "u8 list" where [text_defs]: "t_set = [0xC9, 0xE8, 0xB6, 0xA8]"
definition t_inquire :: "u8 list" where [text_defs]: "t_inquire = [0xB2, 0xE9, 0xD1, 0xAF]"
definition t_monitor :: "u8 list" where [text_defs]: "t_monitor = [0xC0, 0xAD, 0xC1, 0xA6, 0xBC, 0xE0, 0xBF, 0xD8]"
definition t_version :: "u8 list" where [text_defs]: "t_version = [0xB0, 0xE6, 0xB1, 0xBE, 0xD0, 0xC5, 0xCF, 0xA2]"
definition t_set_title :: "u8 list" where [text_defs]:
  "t_set_title = [0xA1, 0xB6, 0xC9, 0xE8, 0xB6, 0xA8, 0xA1, 0xB7]"
definition t_system_para :: "u8 list" where [text_defs]:
  "t_system_para = [0xCF, 0xB5, 0xCD, 0xB3, 0xB2, 0xCE, 0xCA, 0xFD]"
definition t_zone_para :: "u8 list" where [text_defs]:
  "t_zone_para = [0xB7, 0xC0, 0xC7, 0xF8, 0xB2, 0xCE, 0xCA, 0xFD]"
definition t_calibration :: "u8 list" where [text_defs]:
  "t_calibration = [0xD0, 0xA3, 0xD7, 0xBC, 0xC9, 0xE8, 0xD6, 0xC3]"
definition t_arming_para :: "u8 list" where [text_defs]:
  "t_arming_para = [0xB2, 0xBC, 0xB7, 0xC0, 0xB2, 0xCE, 0xCA, 0xFD]"
definition t_threshold :: "u8 list" where [text_defs]:
  "t_threshold = [0xB8, 0xE6, 0xBE, 0xAF, 0xE3, 0xD0, 0xD6, 0xB5]"
definition t_clear_records :: "u8 list" where [text_defs]:
  "t_clear_records = [0xC7, 0xE5, 0xB3, 0xFD, 0xBC, 0xC7, 0xC2, 0xBC]"
definition t_ext_device :: "u8 list" where [text_defs]:
  "t_ext_device = [0xBC, 0xE6, 0xC8, 0xDD, 0xCD, 0xE2, 0xB2, 0xBF, 0xC9, 0xE8, 0xB1, 0xB8]"
definition t_full_scale :: "u8 list" where [text_defs]:
  "t_full_scale = [0xC2, 0xFA, 0xC1, 0xBF, 0xB3, 0xCC, 0xC0, 0xAD, 0xC1, 0xA6, 0xD6, 0xB5]"
definition t_auto_time :: "u8 list" where [text_defs]:
  "t_auto_time = [0xBB, 0xF9, 0xD7, 0xBC, 0xD7, 0xD4, 0xD0, 0xA3, 0xCA, 0xB1, 0xBC, 0xE4]"
definition t_inquire_title :: "u8 list" where [text_defs]:
  "t_inquire_title = [0xA1, 0xB6, 0xB2, 0xE9, 0xD1, 0xAF, 0xA1, 0xB7]"
definition t_alarm_records :: "u8 list" where [text_defs]:
  "t_alarm_records = [0xB8, 0xE6, 0xBE, 0xAF, 0xBC, 0xC7, 0xC2, 0xBC]"
definition t_calibration_val :: "u8 list" where [text_defs]:
  "t_calibration_val = [0xD0, 0xA3, 0xD7, 0xBC, 0xD6, 0xB5]"
definition t_monitor_title :: "u8 list" where [text_defs]:
  "t_monitor_title = [0xA1, 0xB6, 0xC0, 0xAD, 0xC1, 0xA6, 0xBC, 0xE0, 0xBF, 0xD8, 0xA1, 0xB7]"
definition t_zone_A :: "u8 list" where [text_defs]: "t_zone_A = [0x41, 0xB7, 0xC0, 0xC7, 0xF8]"
definition t_zone_B :: "u8 list" where [text_defs]: "t_zone_B = [0x42, 0xB7, 0xC0, 0xC7, 0xF8]"
definition t_version_title :: "u8 list" where [text_defs]:
  "t_version_title = [0xA1, 0xB6, 0xB0, 0xE6, 0xB1, 0xBE, 0xD0, 0xC5, 0xCF, 0xA2, 0xA1, 0xB7]"
definition t_hardware_version :: "u8 list" where [text_defs]:
  "t_hardware_version = [0xD3, 0xB2, 0xBC, 0xFE, 0xB0, 0xE6, 0xB1, 0xBE, 0xA3, 0xBA]"
definition t_software_version :: "u8 list" where [text_defs]:
  "t_software_version = [0xC8, 0xED, 0xBC, 0xFE, 0xB0, 0xE6, 0xB1, 0xBE, 0xA3, 0xBA]"
definition t_configuration :: "u8 list" where [text_defs]:
  "t_configuration = [0xB1, 0xBE, 0xBB, 0xFA, 0xC5, 0xE4, 0xD6, 0xC3, 0xA3, 0xBA]"
definition t_double :: "u8 list" where [text_defs]: "t_double = [0xCB, 0xAB]"
definition t_single :: "u8 list" where [text_defs]: "t_single = [0xB5, 0xA5]"
definition t_four :: "u8 list" where [text_defs]: "t_four = [0xCB, 0xC4]"
definition t_six :: "u8 list" where [text_defs]: "t_six = [0xC1, 0xF9]"
definition t_system_title :: "u8 list" where [text_defs]:
  "t_system_title = [0xA1, 0xB6, 0xCF, 0xB5, 0xCD, 0xB3, 0xB2, 0xCE, 0xCA, 0xFD, 0xA1, 0xB7]"
definition t_date_time :: "u8 list" where [text_defs]:
  "t_date_time = [0xC8, 0xD5, 0xC6, 0xDA, 0xCA, 0xB1, 0xBC, 0xE4]"
definition t_net_para :: "u8 list" where [text_defs]: "t_net_para = [0xCD, 0xF8, 0xC2, 0xE7, 0xB2, 0xCE, 0xCA, 0xFD]"
definition t_zone_title :: "u8 list" where [text_defs]:
  "t_zone_title = [0xA1, 0xB6, 0xB7, 0xC0, 0xC7, 0xF8, 0xB2, 0xCE, 0xCA, 0xFD, 0xA1, 0xB7]"
definition t_calibration_title :: "u8 list" where [text_defs]:
  "t_calibration_title = [0xA1, 0xB6, 0xD0, 0xA3, 0xD7, 0xBC, 0xC9, 0xE8, 0xD6, 0xC3, 0xA1, 0xB7]"
definition t_zero_cal :: "u8 list" where [text_defs]:
  "t_zero_cal = [0xC1, 0xE3, 0xB5, 0xE3, 0xD6, 0xB5, 0xD0, 0xA3, 0xD7, 0xBC]"
definition t_datum_cal :: "u8 list" where [text_defs]:
  "t_datum_cal = [0xBB, 0xF9, 0xD7, 0xBC, 0xD6, 0xB5, 0xD0, 0xA3, 0xD7, 0xBC]"
definition t_zone_A_title :: "u8 list" where [text_defs]:
  "t_zone_A_title = [0xA1, 0xB6, 0x41, 0x20, 0xB7, 0xC0, 0xC7, 0xF8, 0xB2, 0xCE, 0xCA, 0xFD, 0xA1, 0xB7]"
definition t_zone_number :: "u8 list" where [text_defs]:
  "t_zone_number = [0xB7, 0xC0, 0xC7, 0xF8, 0xBA, 0xC5, 0x3A, 0x20]"
definition t_delay :: "u8 list" where [text_defs]:
  "t_delay = [0xB8, 0xE6, 0xBE, 0xAF, 0xD1, 0xD3, 0xCA, 0xB1, 0x3A, 0x20, 0x20, 0x20, 0xC3, 0xEB]"
definition t_sensitivity :: "u8 list" where [text_defs]:
  "t_sensitivity = [0xC1, 0xE9, 0xC3, 0xF4, 0xB6, 0xC8, 0x3A, 0x20, 0x20]"
definition t_zone_B_title :: "u8 list" where [text_defs]:
  "t_zone_B_title = [0xA1, 0xB6, 0x42, 0x20, 0xB7, 0xC0, 0xC7, 0xF8, 0xB2, 0xCE, 0xCA, 0xFD, 0xA1, 0xB7]"
definition t_illegal :: "u8 list" where [text_defs]: "t_illegal = [0xB7, 0xC7, 0xB7, 0xA8, 0xB7, 0xB6, 0xCE, 0xA7]"
definition t_again :: "u8 list" where [text_defs]:
  "t_again = [0xC7, 0xEB, 0xD6, 0xD8, 0xD0, 0xC2, 0xCA, 0xE4, 0xC8, 0xEB, 0xA3, 0xA1]"
definition t_zero_cal_title :: "u8 list" where [text_defs]:
  "t_zero_cal_title = [0xA1, 0xB6, 0xC1, 0xE3, 0xB5, 0xE3, 0xD0, 0xA3, 0xD7, 0xBC, 0xA1, 0xB7]"
definition t_zone_A_wide :: "u8 list" where [text_defs]: "t_zone_A_wide = [0x41, 0x20, 0xB7, 0xC0, 0xC7, 0xF8]"
definition t_zone_B_wide :: "u8 list" where [text_defs]: "t_zone_B_wide = [0x42, 0x20, 0xB7, 0xC0, 0xC7, 0xF8]"
definition t_zero_A_title :: "u8 list" where [text_defs]:
  "t_zero_A_title = [0xA1, 0xB6, 0x41, 0x20, 0xB7, 0xC0, 0xC7, 0xF8, 0xC1, 0xE3, 0xB5, 0xE3, 0xD6, 0xB5, 0xA1, 0xB7]"
definition t_wires_12 :: "u8 list" where [text_defs]: "t_wires_12 = ascii ''L1:  .  L2:  . ''"
definition t_wires_34 :: "u8 list" where [text_defs]: "t_wires_34 = ascii ''L3:  .  L4:  . ''"
definition t_wires_56 :: "u8 list" where [text_defs]: "t_wires_56 = ascii ''L5:  .  L6:  . ''"
definition t_zero_B_title :: "u8 list" where [text_defs]:
  "t_zero_B_title = [0xA1, 0xB6, 0x42, 0x20, 0xB7, 0xC0, 0xC7, 0xF8, 0xC1, 0xE3, 0xB5, 0xE3, 0xD6, 0xB5, 0xA1, 0xB7]"
definition t_datum_cal_title :: "u8 list" where [text_defs]:
  "t_datum_cal_title = [0xA1, 0xB6, 0xBB, 0xF9, 0xD7, 0xBC, 0xD0, 0xA3, 0xD7, 0xBC, 0xA1, 0xB7]"
definition t_calibrating :: "u8 list" where [text_defs]:
  "t_calibrating = [0xD5, 0xFD, 0xD4, 0xDA, 0xD0, 0xA3, 0xD7, 0xBC]"
definition t_wait :: "u8 list" where [text_defs]: "t_wait = [0xC7, 0xEB, 0xC9, 0xD4, 0xBA, 0xF3, 0xA3, 0xA1]"
definition t_datum_A_title :: "u8 list" where [text_defs]:
  "t_datum_A_title = [0xA1, 0xB6, 0x41, 0x20, 0xB7, 0xC0, 0xC7, 0xF8, 0xBB, 0xF9, 0xD7, 0xBC, 0xD6, 0xB5, 0xA1, 0xB7]"
definition t_datum_B_title :: "u8 list" where [text_defs]:
  "t_datum_B_title = [0xA1, 0xB6, 0x42, 0x20, 0xB7, 0xC0, 0xC7, 0xF8, 0xBB, 0xF9, 0xD7, 0xBC, 0xD6, 0xB5, 0xA1, 0xB7]"
definition t_not_in_range :: "u8 list" where [text_defs]:
  "t_not_in_range = [0xCE, 0xB4, 0xD4, 0xDA, 0xD3, 0xD0, 0xD0, 0xA7, 0xB7, 0xB6, 0xCE, 0xA7]"
definition t_adjust :: "u8 list" where [text_defs]:
  "t_adjust = [0xC7, 0xEB, 0xB5, 0xF7, 0xD5, 0xFB, 0xC0, 0xAD, 0xC1, 0xA6, 0xD6, 0xB5]"
definition t_arming_title :: "u8 list" where [text_defs]:
  "t_arming_title = [0xA1, 0xB6, 0xB2, 0xBC, 0xB7, 0xC0, 0xB2, 0xCE, 0xCA, 0xFD, 0xA1, 0xB7]"
definition t_letter_A :: "u8 list" where [text_defs]: "t_letter_A = ascii ''A''"
definition t_letter_B :: "u8 list" where [text_defs]: "t_letter_B = ascii ''B''"
definition t_colon :: "u8 list" where [text_defs]: "t_colon = ascii '':''"
definition t_on :: "u8 list" where [text_defs]: "t_on = [0xBF, 0xAA]"
definition t_off :: "u8 list" where [text_defs]: "t_off = [0xB9, 0xD8]"
definition t_zone :: "u8 list" where [text_defs]: "t_zone = [0xB7, 0xC0, 0xC7, 0xF8]"
definition t_tamper_alarm :: "u8 list" where [text_defs]:
  "t_tamper_alarm = [0xB7, 0xC0, 0xB2, 0xF0, 0xB8, 0xE6, 0xBE, 0xAF]"
definition t_threshold_title :: "u8 list" where [text_defs]:
  "t_threshold_title = [0xA1, 0xB6, 0xB8, 0xE6, 0xBE, 0xAF, 0xE3, 0xD0, 0xD6, 0xB5, 0xA1, 0xB7]"
definition t_up_offset :: "u8 list" where [text_defs]:
  "t_up_offset = [0xC9, 0xCF, 0xC6, 0xAB, 0xD2, 0xC6, 0x3A, 0x20, 0x20, 0x20, 0x2E, 0x20, 0x4B, 0x67]"
definition t_down_offset :: "u8 list" where [text_defs]:
  "t_down_offset = [0xCF, 0xC2, 0xC6, 0xAB, 0xD2, 0xC6, 0x3A, 0x20, 0x20, 0x20, 0x2E, 0x20, 0x4B, 0x67]"
definition t_clear_title :: "u8 list" where [text_defs]:
  "t_clear_title = [0xA1, 0xB6, 0xC7, 0xE5, 0xB3, 0xFD, 0xBC, 0xC7, 0xC2, 0xBC, 0xA1, 0xB7]"
definition t_intrusion_alarm :: "u8 list" where [text_defs]:
  "t_intrusion_alarm = [0xC8, 0xEB, 0xC7, 0xD6, 0xB8, 0xE6, 0xBE, 0xAF]"
definition t_break_alarm :: "u8 list" where [text_defs]:
  "t_break_alarm = [0xB6, 0xCF, 0xCF, 0xDF, 0xB8, 0xE6, 0xBE, 0xAF]"
definition t_clearing :: "u8 list" where [text_defs]: "t_clearing = [0xD5, 0xFD, 0xD4, 0xDA, 0xC7, 0xE5, 0xB3, 0xFD]"
definition t_wait_2 :: "u8 list" where [text_defs]:
  "t_wait_2 = [0xC7, 0xEB, 0xC9, 0xD4, 0xBA, 0xF3, 0xA3, 0xA1, 0xA3, 0xA1]"
definition t_tension_range :: "u8 list" where [text_defs]:
  "t_tension_range = [0xC0, 0xAD, 0xC1, 0xA6, 0xD6, 0xB5, 0x3A, 0x20, 0x20, 0x2D, 0x20, 0x20, 0x4B, 0x67]"
definition t_zone_blank :: "u8 list" where [text_defs]:
  "t_zone_blank = [0xB7, 0xC0, 0xC7, 0xF8, 0x20, 0x20, 0x20, 0x20]"
definition t_records_title :: "u8 list" where [text_defs]:
  "t_records_title = [0xA1, 0xB6, 0xB8, 0xE6, 0xBE, 0xAF, 0xBC, 0xC7, 0xC2, 0xBC, 0xA1, 0xB7]"
definition t_calibration_val_title :: "u8 list" where [text_defs]:
  "t_calibration_val_title = [0xA1, 0xB6, 0xD0, 0xA3, 0xD7, 0xBC, 0xD6, 0xB5, 0xA1, 0xB7]"
definition t_zero_val :: "u8 list" where [text_defs]: "t_zero_val = [0xC1, 0xE3, 0xB5, 0xE3, 0xD6, 0xB5]"
definition t_datum_val :: "u8 list" where [text_defs]: "t_datum_val = [0xBB, 0xF9, 0xD7, 0xBC, 0xD6, 0xB5]"
definition t_zero_title :: "u8 list" where [text_defs]:
  "t_zero_title = [0xA1, 0xB6, 0xC1, 0xE3, 0xB5, 0xE3, 0xD6, 0xB5, 0xA1, 0xB7]"
definition t_datum_title :: "u8 list" where [text_defs]:
  "t_datum_title = [0xA1, 0xB6, 0xBB, 0xF9, 0xD7, 0xBC, 0xD6, 0xB5, 0xA1, 0xB7]"
definition t_ext_title :: "u8 list" where [text_defs]:
  "t_ext_title = [0xA1, 0xB6, 0xBC, 0xE6, 0xC8, 0xDD, 0xCD, 0xE2, 0xB2, 0xBF, 0xC9, 0xE8, 0xB1, 0xB8, 0xA1, 0xB7]"
definition t_zone_A_colon :: "u8 list" where [text_defs]: "t_zone_A_colon = [0x41, 0xB7, 0xC0, 0xC7, 0xF8, 0x3A]"
definition t_zone_B_colon :: "u8 list" where [text_defs]: "t_zone_B_colon = [0x42, 0xB7, 0xC0, 0xC7, 0xF8, 0x3A]"
definition t_closed_switch :: "u8 list" where [text_defs]:
  "t_closed_switch = [0xA3, 0xA8, 0xB3, 0xA3, 0xB1, 0xD5, 0xD0, 0xCD, 0xBF, 0xAA, 0xB9, 0xD8, 0xC1, 0xBF, 0xA3, 0xA9]"
definition t_no_device :: "u8 list" where [text_defs]: "t_no_device = [0xCE, 0xDE, 0xC9, 0xE8, 0xB1, 0xB8]"
definition t_active_ir :: "u8 list" where [text_defs]:
  "t_active_ir = [0xD6, 0xF7, 0xB6, 0xAF, 0xBA, 0xEC, 0xCD, 0xE2]"
definition t_passive_ir :: "u8 list" where [text_defs]:
  "t_passive_ir = [0xB1, 0xBB, 0xB6, 0xAF, 0xBA, 0xEC, 0xCD, 0xE2]"
definition t_dual :: "u8 list" where [text_defs]: "t_dual = [0xCB, 0xAB, 0xBC, 0xF8, 0xCC, 0xBD, 0xB2, 0xE2]"
definition t_environment :: "u8 list" where [text_defs]:
  "t_environment = [0xBB, 0xB7, 0xBE, 0xB3, 0xCC, 0xBD, 0xB2, 0xE2]"
definition t_door :: "u8 list" where [text_defs]: "t_door = [0xC3, 0xC5, 0xB4, 0xC5, 0xCC, 0xBD, 0xB2, 0xE2]"
definition t_button :: "u8 list" where [text_defs]: "t_button = [0xBD, 0xF4, 0xBC, 0xB1, 0xB0, 0xB4, 0xC5, 0xA5]"
definition t_water :: "u8 list" where [text_defs]: "t_water = [0xCB, 0xAE, 0xBD, 0xFE, 0xCC, 0xBD, 0xB2, 0xE2]"
definition t_other_device :: "u8 list" where [text_defs]:
  "t_other_device = [0xC6, 0xE4, 0xCB, 0xFC, 0xC9, 0xE8, 0xB1, 0xB8]"
definition t_full_scale_title :: "u8 list" where [text_defs]:
  "t_full_scale_title = [0xA1, 0xB6, 0xC2, 0xFA, 0xC1, 0xBF, 0xB3, 0xCC, 0xC0, 0xAD, 0xC1, 0xA6, 0xD6, 0xB5, 0xA1, 0xB7]"
definition t_kg_line :: "u8 list" where [text_defs]: "t_kg_line = ascii ''         KG      ''"
definition t_auto_time_title :: "u8 list" where [text_defs]:
  "t_auto_time_title = [0xA1, 0xB6, 0xBB, 0xF9, 0xD7, 0xBC, 0xD7, 0xD4, 0xD0, 0xA3, 0xCA, 0xB1, 0xBC, 0xE4, 0xA1, 0xB7]"
definition t_minutes :: "u8 list" where [text_defs]: "t_minutes = [0xB7, 0xD6, 0xD6, 0xD3]"
definition t_monitor_A_title :: "u8 list" where [text_defs]:
  "t_monitor_A_title = [0x41, 0x20, 0xB7, 0xC0, 0xC7, 0xF8, 0xC0, 0xAD, 0xC1, 0xA6, 0xA3, 0xA8, 0x4B, 0x67, 0xA3, 0xA9]"
definition t_monitor_B_title :: "u8 list" where [text_defs]:
  "t_monitor_B_title = [0x42, 0x20, 0xB7, 0xC0, 0xC7, 0xF8, 0xC0, 0xAD, 0xC1, 0xA6, 0xA3, 0xA8, 0x4B, 0x67, 0xA3, 0xA9]"
definition t_date_title :: "u8 list" where [text_defs]:
  "t_date_title = [0xA1, 0xB6, 0xC8, 0xD5, 0xC6, 0xDA, 0xCA, 0xB1, 0xBC, 0xE4, 0xA1, 0xB7]"
definition t_set_net_title :: "u8 list" where [text_defs]:
  "t_set_net_title = [0xA1, 0xB6, 0xC9, 0xE8, 0xD6, 0xC3, 0xCD, 0xF8, 0xC2, 0xE7, 0xB2, 0xCE, 0xCA, 0xFD, 0xA1, 0xB7]"
definition t_mac :: "u8 list" where [text_defs]: "t_mac = ascii ''MAC''"
definition t_ip :: "u8 list" where [text_defs]: "t_ip = ascii ''IP''"
definition t_address :: "u8 list" where [text_defs]: "t_address = [0xB5, 0xD8, 0xD6, 0xB7]"
definition t_subnet_mask :: "u8 list" where [text_defs]:
  "t_subnet_mask = [0xD7, 0xD3, 0xCD, 0xF8, 0xD1, 0xDA, 0xC2, 0xEB]"
definition t_gateway :: "u8 list" where [text_defs]: "t_gateway = [0xCD, 0xF8, 0xB9, 0xD8]"
definition t_clear_intrusion :: "u8 list" where [text_defs]:
  "t_clear_intrusion = [0xA1, 0xB6, 0xC7, 0xE5, 0xB3, 0xFD, 0xC8, 0xEB, 0xC7, 0xD6, 0xB8, 0xE6, 0xBE, 0xAF, 0xA1, 0xB7]"
definition t_area :: "u8 list" where [text_defs]: "t_area = [0xC7, 0xF8]"
definition t_clear_break :: "u8 list" where [text_defs]:
  "t_clear_break = [0xA1, 0xB6, 0xC7, 0xE5, 0xB3, 0xFD, 0xB6, 0xCF, 0xCF, 0xDF, 0xB8, 0xE6, 0xBE, 0xAF, 0xA1, 0xB7]"
definition t_inq_net_title :: "u8 list" where [text_defs]:
  "t_inq_net_title = [0xA1, 0xB6, 0xB2, 0xE9, 0xD1, 0xAF, 0xCD, 0xF8, 0xC2, 0xE7, 0xB2, 0xCE, 0xCA, 0xFD, 0xA1, 0xB7]"
definition t_intrusion_title :: "u8 list" where [text_defs]:
  "t_intrusion_title = [0xA1, 0xB6, 0xC8, 0xEB, 0xC7, 0xD6, 0xB8, 0xE6, 0xBE, 0xAF, 0xA1, 0xB7]"
definition t_break_title :: "u8 list" where [text_defs]:
  "t_break_title = [0xA1, 0xB6, 0xB6, 0xCF, 0xCF, 0xDF, 0xB8, 0xE6, 0xBE, 0xAF, 0xA1, 0xB7]"
definition t_tamper_title :: "u8 list" where [text_defs]:
  "t_tamper_title = [0xA1, 0xB6, 0xB7, 0xC0, 0xB2, 0xF0, 0xB8, 0xE6, 0xBE, 0xAF, 0xA1, 0xB7]"
definition t_address_title :: "u8 list" where [text_defs]:
  "t_address_title = [0xA1, 0xB6, 0x20, 0x20, 0x20, 0x20, 0xB5, 0xD8, 0xD6, 0xB7, 0xA1, 0xB7]"
definition t_read_only :: "u8 list" where [text_defs]:
  "t_read_only = [0xA3, 0xA8, 0xD6, 0xBB, 0xB6, 0xC1, 0xA3, 0xA9]"
definition t_subnet_title :: "u8 list" where [text_defs]:
  "t_subnet_title = [0xA1, 0xB6, 0xD7, 0xD3, 0xCD, 0xF8, 0xD1, 0xDA, 0xC2, 0xEB, 0xA1, 0xB7]"
definition t_gateway_title :: "u8 list" where [text_defs]:
  "t_gateway_title = [0xA1, 0xB6, 0xCD, 0xF8, 0xB9, 0xD8, 0xA1, 0xB7]"
definition t_area_intrusion :: "u8 list" where [text_defs]:
  "t_area_intrusion = [0xA1, 0xB6, 0x20, 0x20, 0xC7, 0xF8, 0xC8, 0xEB, 0xC7, 0xD6, 0xB8, 0xE6, 0xBE, 0xAF, 0xA1, 0xB7]"
definition t_area_break :: "u8 list" where [text_defs]:
  "t_area_break = [0xA1, 0xB6, 0x20, 0x20, 0xC7, 0xF8, 0xB6, 0xCF, 0xCF, 0xDF, 0xB8, 0xE6, 0xBE, 0xAF, 0xA1, 0xB7]"
definition t_enter_password :: "u8 list" where [text_defs]:
  "t_enter_password = [0xC7, 0xEB, 0xCA, 0xE4, 0xC8, 0xEB, 0xC3, 0xDC, 0xC2, 0xEB, 0xA3, 0xBA]"
definition t_password_wrong :: "u8 list" where [text_defs]:
  "t_password_wrong = [0xC3, 0xDC, 0xC2, 0xEB, 0xB4, 0xED, 0xCE, 0xF3]"
definition t_alarm_list :: "u8 list" where [text_defs]:
  "t_alarm_list = [0xA1, 0xB6, 0xB8, 0xE6, 0xBE, 0xAF, 0xD0, 0xC5, 0xCF, 0xA2, 0xC1, 0xD0, 0xB1, 0xED, 0xA1, 0xB7]"
definition t_zone_intrusion :: "u8 list" where [text_defs]:
  "t_zone_intrusion = [0xB7, 0xC0, 0xC7, 0xF8, 0xC8, 0xEB, 0xC7, 0xD6, 0xB8, 0xE6, 0xBE, 0xAF]"
definition t_zone_break :: "u8 list" where [text_defs]:
  "t_zone_break = [0xB7, 0xC0, 0xC7, 0xF8, 0xB6, 0xCF, 0xCF, 0xDF, 0xB8, 0xE6, 0xBE, 0xAF]"
definition t_zone_slack :: "u8 list" where [text_defs]:
  "t_zone_slack = [0xB7, 0xC0, 0xC7, 0xF8, 0xCB, 0xC9, 0xB3, 0xDA, 0xB8, 0xE6, 0xBE, 0xAF]"
definition t_switch_1 :: "u8 list" where [text_defs]: "t_switch_1 = [0xBF, 0xAA, 0xB9, 0xD8, 0xC1, 0xBF, 0x31]"
definition t_switch_2 :: "u8 list" where [text_defs]: "t_switch_2 = [0xBF, 0xAA, 0xB9, 0xD8, 0xC1, 0xBF, 0x32]"
definition t_active_ir_alarm :: "u8 list" where [text_defs]:
  "t_active_ir_alarm = [0xD6, 0xF7, 0xB6, 0xAF, 0xBA, 0xEC, 0xCD, 0xE2, 0xB8, 0xE6, 0xBE, 0xAF]"
definition t_passive_ir_alarm :: "u8 list" where [text_defs]:
  "t_passive_ir_alarm = [0xB1, 0xBB, 0xB6, 0xAF, 0xBA, 0xEC, 0xCD, 0xE2, 0xB8, 0xE6, 0xBE, 0xAF]"
definition t_dual_alarm :: "u8 list" where [text_defs]:
  "t_dual_alarm = [0xCB, 0xAB, 0xBC, 0xF8, 0xCC, 0xBD, 0xB2, 0xE2, 0xB8, 0xE6, 0xBE, 0xAF]"
definition t_environment_alarm :: "u8 list" where [text_defs]:
  "t_environment_alarm = [0xBB, 0xB7, 0xBE, 0xB3, 0xCC, 0xBD, 0xB2, 0xE2, 0xB8, 0xE6, 0xBE, 0xAF]"
definition t_door_alarm :: "u8 list" where [text_defs]:
  "t_door_alarm = [0xC3, 0xC5, 0xB4, 0xC5, 0xCC, 0xBD, 0xB2, 0xE2, 0xB8, 0xE6, 0xBE, 0xAF]"
definition t_button_alarm :: "u8 list" where [text_defs]:
  "t_button_alarm = [0xBD, 0xF4, 0xBC, 0xB1, 0xB0, 0xB4, 0xC5, 0xA5, 0xB8, 0xE6, 0xBE, 0xAF]"
definition t_water_alarm :: "u8 list" where [text_defs]:
  "t_water_alarm = [0xCB, 0xAE, 0xBD, 0xFE, 0xCC, 0xBD, 0xB2, 0xE2, 0xB8, 0xE6, 0xBE, 0xAF]"
definition t_other_alarm :: "u8 list" where [text_defs]:
  "t_other_alarm = [0xC6, 0xE4, 0xCB, 0xFC, 0xC9, 0xE8, 0xB1, 0xB8, 0xB8, 0xE6, 0xBE, 0xAF]"
definition t_area_colon :: "u8 list" where [text_defs]: "t_area_colon = [0xC7, 0xF8, 0xA3, 0xBA]"

end
