(* ===== verification/Pictures.thy ===== *)
theory Pictures
  imports Ui Lcd Texts "HOL-Library.Monad_Syntax"
begin

text \<open>
  The drawing functions of \<^verbatim>\<open>HARDWARE/LCD/DisplayMenu.c\<close>: a picture is the list of the calls of \<^verbatim>\<open>lcd.c\<close> a function
  makes, from the state of the menu it finds.  \<open>None\<close> stands for a text that is printed or copied beyond its
  array, an entry outside a list, and text that was never written.  The only exception is the time, whose terminator falls on
  the byte behind its array and its copy.
\<close>

subsection \<open>Calls of the display\<close>

datatype paint =
    Clear
  | Line16 nat nat "u8 list" bool
  | Line8 nat nat "u8 list" bool
  | Mixed nat nat "u8 list" bool
  | Marked nat nat "u8 list" u8
  | Cell nat nat u8 bool

definition find_zifu :: "u8 \<Rightarrow> bitmap option" where
  "find_zifu a = map_option (msk 16) (map_of zifu a)"

fun paint_on :: "paint \<Rightarrow> lcd \<Rightarrow> lcd" where
  "paint_on Clear l = Lcd_Clear FullScreen l"
| "paint_on (Line16 page column s p_or_n) l = Display_Line_Index_16x16 (of_nat page) (of_nat column) s p_or_n l"
| "paint_on (Line8 page column s p_or_n) l = Display_Line_Index_8x16 (of_nat page) (of_nat column) s p_or_n l"
| "paint_on (Mixed page column s p_or_n) l = Display_Line_Index_8x16_16x16 (of_nat page) (of_nat column) s p_or_n l"
| "paint_on (Marked page column s fx_pos) l = Display_Line_Index_8x16_pn (of_nat page) (of_nat column) s fx_pos l"
| "paint_on (Cell page x c p_or_n) l = put_8x16 (of_nat page) x p_or_n (find_zifu c) l"

definition paint_all :: "paint list \<Rightarrow> lcd \<Rightarrow> lcd" where
  "paint_all ps l = fold paint_on ps l"

subsection \<open>Texts\<close>

text \<open>The text in an array is the bytes before the first zero.\<close>

definition c_text :: "u8 list \<Rightarrow> u8 list" where
  "c_text s = takeWhile (\<lambda>b. b \<noteq> 0) s"

text \<open>Text in an array without a terminator has no end.\<close>

definition c_array :: "u8 list \<Rightarrow> u8 list option" where
  "c_array s = (if 0 \<in> set s then Some (c_text s) else None)"

text \<open>\<^verbatim>\<open>strcpy\<close> into an array of \<open>n\<close> bytes.\<close>

definition copy_into :: "nat \<Rightarrow> u8 list \<Rightarrow> u8 list option" where
  "copy_into n s = (if length s < n then Some s else None)"

text \<open>\<^verbatim>\<open>sprintf\<close> of \<^verbatim>\<open>%0<w>d\<close> into an array of \<open>n\<close> bytes.\<close>

definition fmt_0wd :: "nat \<Rightarrow> int \<Rightarrow> string" where
  "fmt_0wd w x = (if x < 0 then CHR ''-'' # pad_left (w - 1) (fmt_nat (nat (- x))) else fmt_0d w (nat x))"

definition sprintf :: "nat \<Rightarrow> nat \<Rightarrow> int \<Rightarrow> u8 list option" where
  "sprintf n w x = copy_into n (ascii (fmt_0wd w x))"

subsection \<open>Lists\<close>

definition list_row :: "u8 list list \<Rightarrow> int \<Rightarrow> u8 list option" where
  "list_row xs i = (if 0 \<le> i \<and> nat i < length xs then Some (xs ! nat i) else None)"

text \<open>The three rows of a list the cursor is in; \<open>line\<close> is the function that writes them.\<close>

definition list_rows :: "(nat \<Rightarrow> nat \<Rightarrow> u8 list \<Rightarrow> bool \<Rightarrow> paint) \<Rightarrow> u8 list list \<Rightarrow> u8 \<Rightarrow> paint list option" where
  "list_rows line xs r =
     (let i = (if r > 3 then uint r - 3 else 0)
      in do { a \<leftarrow> list_row xs i; b \<leftarrow> list_row xs (i + 1); c \<leftarrow> list_row xs (i + 2);
              Some [line 2 16 a True, line 4 16 b True, line 6 16 c True] })"

definition menu_picture :: "paint \<Rightarrow> u8 list list \<Rightarrow> ui \<Rightarrow> paint list option" where
  "menu_picture title xs u = do { rows \<leftarrow> list_rows Line16 xs (row_point u); Some (Clear # title # rows) }"

text \<open>Titles with two fixed entries.\<close>

definition two_lines :: "paint \<Rightarrow> (nat \<Rightarrow> nat \<Rightarrow> u8 list \<Rightarrow> bool \<Rightarrow> paint) \<Rightarrow> u8 list \<Rightarrow> u8 list \<Rightarrow> paint list option" where
  "two_lines title line a b = Some [Clear, title, line 2 16 a True, line 4 16 b True]"

definition two_zones :: "u8 list \<Rightarrow> u8 list \<Rightarrow> ui \<Rightarrow> paint list option" where
  "two_zones title word u =
     Some ([Clear, Line16 0 16 title True, Line8 2 16 t_letter_A True, Line16 2 24 word True] @
       (if FIELD_FLAG_S0D1 (device u) then [] else [Line8 4 16 t_letter_B True, Line16 4 24 word True]))"

subsection \<open>Start and menus\<close>

definition DisplayInitMenu_picture :: "ui \<Rightarrow> paint list option" where
  "DisplayInitMenu_picture u = Some [Clear, Line16 3 16 t_initialising True]"

text \<open>
  The start screen shows the time without its seconds.  The text of the temperature is the argument \<open>temp\<close>; the
  copy of the time ends at the terminator behind its array.
\<close>

definition DisplayRunMenu_picture :: "u8 list \<Rightarrow> ui \<Rightarrow> paint list option" where
  "DisplayRunMenu_picture temp u =
     Some [Clear, Line8 0 0 (if FIELD_FLAG_S0D1 (device u) then t_name_D else t_name_S) True,
           Line16 2 0 t_host True, Line8 4 0 (c_text (take 16 (rtcTempStr (device u)))) True,
           Line16 6 0 t_temperature True, Line8 6 80 temp True]"

definition DisplayUserLogin_picture :: "ui \<Rightarrow> paint list option" where
  "DisplayUserLogin_picture u =
     do { line \<leftarrow> (if UserId u = SuperUser then copy_into 16 t_super_user
                  else if UserId u = OrdinaryUser then copy_into 16 t_ordinary_user else None);
          Some [Clear, Line16 0 16 t_login True, Line16 4 32 line False] }"

definition DisplaySuperUserRootMenu_picture :: "ui \<Rightarrow> paint list option" where
  "DisplaySuperUserRootMenu_picture =
     menu_picture (Line16 0 32 t_menu True) [t_set, t_inquire, t_monitor, t_version]"

definition DisplayOrdinaryUserRootMenu_picture :: "ui \<Rightarrow> paint list option" where
  "DisplayOrdinaryUserRootMenu_picture u =
     Some [Clear, Line16 0 32 t_menu True, Line16 2 16 t_inquire True, Line16 4 16 t_monitor True,
           Line16 6 16 t_version True]"

definition DisplaySetMenu_picture :: "ui \<Rightarrow> paint list option" where
  "DisplaySetMenu_picture =
     menu_picture (Line16 0 32 t_set_title True)
       [t_system_para, t_zone_para, t_calibration, t_arming_para, t_threshold, t_clear_records, t_ext_device,
        t_full_scale, t_auto_time]"

definition DisplayInquireMenu_picture :: "ui \<Rightarrow> paint list option" where
  "DisplayInquireMenu_picture =
     menu_picture (Line16 0 32 t_inquire_title True)
       [t_system_para, t_zone_para, t_arming_para, t_alarm_records, t_threshold, t_calibration_val, t_ext_device,
        t_full_scale, t_auto_time]"

definition DisplayTensionMonitor_picture :: "ui \<Rightarrow> paint list option" where
  "DisplayTensionMonitor_picture u = two_lines (Line16 0 16 t_monitor_title True) Mixed t_zone_A t_zone_B"

text \<open>\<^verbatim>\<open>SYSTEM/version/version.c\<close>: the second array has no place for a terminator.\<close>

definition hardware_ver :: "u8 list" where "hardware_ver = ascii ''0.1'' @ [0]"
definition software_ver :: "u8 list" where "software_ver = ascii ''00.01''"

definition DisplayVersionMenu_picture :: "ui \<Rightarrow> paint list option" where
  "DisplayVersionMenu_picture u =
     do { hardware \<leftarrow> c_array hardware_ver; software \<leftarrow> c_array software_ver;
          Some [Clear, Line16 0 16 t_version_title True, Line16 2 0 t_hardware_version True,
            Line16 4 0 t_software_version True, Line16 6 0 t_configuration True, Line8 2 80 hardware True,
            Line8 4 80 software True,
            Line16 6 80 ((if \<not> FIELD_FLAG_S0D1 (device u) then t_double else t_single) @
              (if W4_W6 (device u) = 0 then t_four else t_six)) True] }"

definition DisplaySetSysPara_picture :: "ui \<Rightarrow> paint list option" where
  "DisplaySetSysPara_picture u =
     (if row_point u > 3 then menu_picture (Line16 0 16 t_system_title True) [t_date_time, t_net_para] u
      else two_lines (Line16 0 16 t_system_title True) Line16 t_date_time t_net_para)"

definition DiaplaySetFangQuPara_picture :: "ui \<Rightarrow> paint list option" where
  "DiaplaySetFangQuPara_picture u =
     Some ([Clear, Line16 0 16 t_zone_title True, Mixed 2 16 t_zone_A True] @
       (if FIELD_FLAG_S0D1 (device u) then [] else [Mixed 4 16 t_zone_B True]))"

definition DiaplayCalibrationSet_picture :: "ui \<Rightarrow> paint list option" where
  "DiaplayCalibrationSet_picture u = two_lines (Line16 0 16 t_calibration_title True) Line16 t_zero_cal t_datum_cal"

subsection \<open>Parameters of a zone\<close>

text \<open>The three values of a zone in their places; the one in the row \<open>edited\<close> is inverted.\<close>

definition zone_numbers :: "u8 \<Rightarrow> u16 \<Rightarrow> u8 \<Rightarrow> u8 \<Rightarrow> paint list option" where
  "zone_numbers number delay sensitivity edited =
     do { fangquhao \<leftarrow> sprintf 3 2 (uint number); gaojingyanshi \<leftarrow> sprintf 4 3 (uint delay);
          lingmindu \<leftarrow> sprintf 3 2 (uint sensitivity);
          Some [Line8 2 80 fangquhao (edited \<noteq> 1), Line8 4 88 gaojingyanshi (edited \<noteq> 2), Line8 6 72 lingmindu (edited \<noteq> 3)] }"

definition set_zone_picture :: "nat \<Rightarrow> u8 list \<Rightarrow> ui \<Rightarrow> paint list option" where
  "set_zone_picture z title u =
     (let d = device u; r = row_point u
      in do { rows \<leftarrow> list_rows Mixed [t_zone_number, t_delay, t_sensitivity] r;
              vals \<leftarrow>
                (if flag_PageState u then zone_numbers (field_num d z) (alarm_delay d z) (alarm_sensitivity d z) 0
                 else if r = 1 then zone_numbers (field_num_temp u z) (alarm_delay d z) (alarm_sensitivity_temp u z) 1
                 else if r = 2 then zone_numbers (field_num d z) (alarm_delay_temp u z) (alarm_sensitivity_temp u z) 2
                 else if r = 3 then zone_numbers (field_num d z) (alarm_delay d z) (alarm_sensitivity_temp u z) 3
                 else Some []);
              Some (Clear # Mixed 0 16 title True # rows @ vals) })"

definition DisplaySetAFangQuPara_picture :: "ui \<Rightarrow> paint list option" where
  "DisplaySetAFangQuPara_picture = set_zone_picture 0 t_zone_A_title"

definition DisplaySetBFangQuPara_picture :: "ui \<Rightarrow> paint list option" where
  "DisplaySetBFangQuPara_picture = set_zone_picture 1 t_zone_B_title"

definition inq_zone_picture :: "nat \<Rightarrow> u8 list \<Rightarrow> ui \<Rightarrow> paint list option" where
  "inq_zone_picture z title u =
     (let d = device u; r = row_point u
      in do { rows \<leftarrow> list_rows Mixed [t_zone_number, t_delay, t_tension_range, t_sensitivity] r;
              fangquhao \<leftarrow> (if r > 3 then Some [] else sprintf 3 2 (uint (field_num d z)));
              gaojingyanshi \<leftarrow> sprintf 4 3 (uint (alarm_delay d z));
              min_tension \<leftarrow> sprintf 3 2 (uint (ten_val_range d z 0) div 10);
              max_tension \<leftarrow> sprintf 3 2 (uint (ten_val_range d z 1) div 10);
              lingmindu \<leftarrow> (if r > 3 then sprintf 3 2 (uint (alarm_sensitivity d z)) else Some []);
              Some (Clear # Mixed 0 16 title True # rows @
                (if r > 3 then [Line8 2 88 gaojingyanshi True, Line8 4 72 min_tension True, Line8 4 96 max_tension True,
                   Line8 6 72 lingmindu True]
                 else [Line8 2 80 fangquhao True, Line8 4 88 gaojingyanshi True, Line8 6 72 min_tension True,
                   Line8 6 96 max_tension True])) })"

definition DiaplayInqAFangQuPara_picture :: "ui \<Rightarrow> paint list option" where
  "DiaplayInqAFangQuPara_picture = inq_zone_picture 0 t_zone_A_title"

definition DiaplayInqBFangQuPara_picture :: "ui \<Rightarrow> paint list option" where
  "DiaplayInqBFangQuPara_picture = inq_zone_picture 1 t_zone_B_title"

end
