(* ===== verification/Screens.thy ===== *)
theory Screens
  imports Pictures "HOL-Library.Signed_Division"
begin

text \<open>
  The drawing functions of \<^verbatim>\<open>HARDWARE/LCD/DisplayMenu.c\<close>, continued: calibration, tensions, arming, thresholds,
  records, switches, time, addresses, login and alarms; and the pictures by the names of their functions.
\<close>

subsection \<open>Calibration and tensions\<close>

definition DisplayiLlegalInput_picture :: "ui \<Rightarrow> paint list option" where
  "DisplayiLlegalInput_picture u = Some [Clear, Line16 2 32 t_illegal True, Line16 4 16 t_again True]"

definition DisplayZeroCalibration_picture :: "ui \<Rightarrow> paint list option" where
  "DisplayZeroCalibration_picture u = two_lines (Line16 0 16 t_zero_cal_title True) Mixed t_zone_A_wide t_zone_B_wide"

definition DisplayDatumCalibration_picture :: "ui \<Rightarrow> paint list option" where
  "DisplayDatumCalibration_picture u = two_lines (Line16 0 16 t_datum_cal_title True) Mixed t_zone_A_wide t_zone_B_wide"

definition Displayzhengzaijiaozhun_picture :: "ui \<Rightarrow> paint list option" where
  "Displayzhengzaijiaozhun_picture u = Some [Clear, Line16 2 32 t_calibrating True, Line16 4 32 t_wait True]"

definition DisplayNotAtValidRange_picture :: "ui \<Rightarrow> paint list option" where
  "DisplayNotAtValidRange_picture u = Some [Clear, Line16 2 16 t_not_in_range True, Line16 4 16 t_adjust True]"

text \<open>
  A screen with six wires prints \<open>w i / 10\<close> as the whole kilograms of wire \<open>i\<close> and \<open>t i % 10\<close> as its tenths.
\<close>

definition wire_text :: "(nat \<Rightarrow> s16) \<Rightarrow> (nat \<Rightarrow> s16) \<Rightarrow> nat \<Rightarrow> paint list option" where
  "wire_text w t i =
     do { wire \<leftarrow> sprintf 3 2 (sint (w i) sdiv 10); wire_dot \<leftarrow> sprintf 2 1 (sint (t i) smod 10);
          Some [Line8 (2 + 2 * (i div 2)) (24 + 64 * (i mod 2)) wire True,
                Line8 (2 + 2 * (i div 2)) (48 + 64 * (i mod 2)) wire_dot True] }"

definition wires_picture :: "u8 list \<Rightarrow> (nat \<Rightarrow> s16) \<Rightarrow> (nat \<Rightarrow> s16) \<Rightarrow> paint list option" where
  "wires_picture title w t =
     do { a \<leftarrow> wire_text w t 0; b \<leftarrow> wire_text w t 1; c \<leftarrow> wire_text w t 2;
          d \<leftarrow> wire_text w t 3; e \<leftarrow> wire_text w t 4; f \<leftarrow> wire_text w t 5;
          Some ([Clear, Mixed 0 0 title True, Mixed 2 0 t_wires_12 True, Mixed 4 0 t_wires_34 True,
            Mixed 6 0 t_wires_56 True] @ a @ b @ c @ d @ e @ f) }"

definition DisplayAareaZeroVal_picture :: "ui \<Rightarrow> paint list option" where
  "DisplayAareaZeroVal_picture u = wires_picture t_zero_A_title (zero_val (device u) 0) (zero_val (device u) 0)"

definition DisplayBareaZeroVal_picture :: "ui \<Rightarrow> paint list option" where
  "DisplayBareaZeroVal_picture u =
     (let d = device u
      in wires_picture t_zero_B_title (zero_val d 1) (\<lambda>i. if i < 5 then zero_val d 0 i else zero_val d 1 i))"

definition DisplayAareaDatumVal_picture :: "ui \<Rightarrow> paint list option" where
  "DisplayAareaDatumVal_picture u =
     (let d = device u
      in wires_picture t_datum_A_title (base_val d 0) (\<lambda>i. if i < 3 then zero_val d 0 i else base_val d 0 i))"

definition DisplayBareaDatumVal_picture :: "ui \<Rightarrow> paint list option" where
  "DisplayBareaDatumVal_picture u =
     (let d = device u
      in wires_picture t_datum_B_title (base_val d 1) (\<lambda>i. if i < 5 then base_val d 0 i else base_val d 1 i))"

definition DiaplayAFangQuMonitor_picture :: "ui \<Rightarrow> paint list option" where
  "DiaplayAFangQuMonitor_picture u = wires_picture t_monitor_A_title (crt_val (device u) 0) (crt_val (device u) 0)"

definition DiaplayBFangQuMonitor_picture :: "ui \<Rightarrow> paint list option" where
  "DiaplayBFangQuMonitor_picture u = wires_picture t_monitor_B_title (crt_val (device u) 1) (crt_val (device u) 1)"

subsection \<open>Arming\<close>

definition on_off :: "u8 \<Rightarrow> u8 list" where
  "on_off f = (if f = ON then t_on else t_off)"

text \<open>The states of zone A, zone B and the tamper watch in their places.\<close>

definition arm_A :: "u8 \<Rightarrow> bool \<Rightarrow> paint list" where "arm_A f p_or_n = [Line16 2 64 (on_off f) p_or_n]"
definition arm_B :: "u8 \<Rightarrow> bool \<Rightarrow> paint list" where "arm_B f p_or_n = [Line16 4 64 (on_off f) p_or_n]"
definition arm_tamper :: "u8 \<Rightarrow> bool \<Rightarrow> paint list" where "arm_tamper f p_or_n = [Line16 6 96 (on_off f) p_or_n]"

definition double_zone :: "ui \<Rightarrow> paint list \<Rightarrow> paint list" where
  "double_zone u ps = (if FIELD_FLAG_S0D1 (device u) then [] else ps)"

text \<open>The value that is edited: inverted with the cursor on it, and shown with the cursor beside it.\<close>

definition edited :: "(u8 \<Rightarrow> bool \<Rightarrow> paint list) \<Rightarrow> u8 \<Rightarrow> ui \<Rightarrow> paint list" where
  "edited arm f u = (if sint (row_fx_pos u) = 1 then arm f False else if sint (row_fx_pos u) = 2 then arm f True else [])"

definition DiaplaySetBuFangPara_picture :: "ui \<Rightarrow> paint list option" where
  "DiaplaySetBuFangPara_picture u =
     (let d = device u;
          A = arm_A (BU_FANG_A_FLAG d) True; B = arm_B (BU_FANG_B_FLAG d) True; T = arm_tamper (flag_fcgjsn d) True
      in Some ([Clear, Line16 0 16 t_arming_title True, Line8 2 16 t_letter_A True, Line16 2 24 t_zone True,
           Line8 2 56 t_colon True] @
         double_zone u [Line8 4 16 t_letter_B True, Line16 4 24 t_zone True, Line8 4 56 t_colon True] @
         [Line16 6 16 t_tamper_alarm True, Line8 6 80 t_colon True] @
         (if flag_PageState u then A @ double_zone u B @ T
          else if row_point u = 1 then edited arm_A (BU_FANG_A_FLAG_TEMP u) u @ double_zone u B @ T
          else if row_point u = 2 then edited arm_B (BU_FANG_B_FLAG_TEMP u) u @ A @ T
          else if row_point u = 3 then A @ double_zone u B @ arm_tamper (flag_fcgjsn_tmp u) False
          else [])))"

definition DisplayInqBuFangPara_picture :: "ui \<Rightarrow> paint list option" where
  "DisplayInqBuFangPara_picture u =
     (let d = device u
      in Some ([Clear, Line16 0 16 t_arming_title True, Line16 2 24 t_zone_blank True] @
         double_zone u [Line16 4 24 t_zone_blank True] @
         [Line16 6 16 t_tamper_alarm True, Line8 2 16 t_letter_A True, Line8 2 56 t_colon True] @
         double_zone u [Line8 4 16 t_letter_B True, Line8 4 56 t_colon True] @
         [Line8 6 80 t_colon True] @ arm_A (BU_FANG_A_FLAG d) True @
         double_zone u (arm_B (BU_FANG_B_FLAG d) True) @ arm_tamper (flag_fcgjsn d) True))"

subsection \<open>Thresholds\<close>

definition threshold_text :: "nat \<Rightarrow> u16 \<Rightarrow> bool \<Rightarrow> bool \<Rightarrow> paint list option" where
  "threshold_text page v p_or_n p_or_n_dot =
     do { whole \<leftarrow> sprintf 3 2 (uint v div 10); dot \<leftarrow> sprintf 2 1 (uint v mod 10);
          Some [Line8 page 80 whole p_or_n, Line8 page 104 dot p_or_n_dot] }"

definition edited_threshold :: "nat \<Rightarrow> u16 \<Rightarrow> ui \<Rightarrow> paint list option" where
  "edited_threshold page v u =
     do { both \<leftarrow> threshold_text page v (sint (row_fx_pos u) \<noteq> 1) (sint (row_fx_pos u) \<noteq> 2);
          Some (if sint (row_fx_pos u) = 1 \<or> sint (row_fx_pos u) = 2 then both else []) }"

definition DiaplaySetAlarmThreshold_picture :: "ui \<Rightarrow> paint list option" where
  "DiaplaySetAlarmThreshold_picture u =
     (let up = alarm_threshold_up_dif (device u); down = alarm_threshold_down_dif (device u)
      in do { vals \<leftarrow>
                (if flag_PageState u
                 then do { a \<leftarrow> threshold_text 2 up True True; b \<leftarrow> threshold_text 4 down True True; Some (a @ b) }
                 else if row_point u = 1
                 then do { a \<leftarrow> edited_threshold 2 (alarm_threshold_up_dif_temp u) u;
                           b \<leftarrow> threshold_text 4 down True True; Some (a @ b) }
                 else if row_point u = 2
                 then do { a \<leftarrow> threshold_text 2 up True True;
                           b \<leftarrow> edited_threshold 4 (alarm_threshold_down_dif_temp u) u; Some (a @ b) }
                 else Some []);
              Some ([Clear, Line16 0 16 t_threshold_title True, Mixed 2 16 t_up_offset True, Mixed 4 16 t_down_offset True] @
                vals) })"

definition DisplayInqAlarmThreshold_picture :: "ui \<Rightarrow> paint list option" where
  "DisplayInqAlarmThreshold_picture u =
     do { a \<leftarrow> threshold_text 2 (alarm_threshold_up_dif (device u)) True True;
          b \<leftarrow> threshold_text 4 (alarm_threshold_down_dif (device u)) True True;
          Some ([Clear, Line16 0 16 t_threshold_title True, Mixed 2 16 t_up_offset True, Mixed 4 16 t_down_offset True] @
            a @ b) }"

subsection \<open>Records and values\<close>

definition DisplaySetClearRecord_picture :: "ui \<Rightarrow> paint list option" where
  "DisplaySetClearRecord_picture =
     menu_picture (Line16 0 16 t_clear_title True) [t_intrusion_alarm, t_break_alarm, t_tamper_alarm]"

definition DisplayZhengZaiQingChu_picture :: "ui \<Rightarrow> paint list option" where
  "DisplayZhengZaiQingChu_picture u = Some [Clear, Line16 2 32 t_clearing True, Line16 4 32 t_wait_2 True]"

definition DisplayInqSysPara_picture :: "ui \<Rightarrow> paint list option" where
  "DisplayInqSysPara_picture u = Some [Clear, Line16 0 16 t_system_title True, Line16 2 16 t_net_para True]"

definition DiaplayInqFangQuPara_picture :: "ui \<Rightarrow> paint list option" where
  "DiaplayInqFangQuPara_picture = two_zones t_zone_title t_zone"

definition DisplayInqAlarmRecord_picture :: "ui \<Rightarrow> paint list option" where
  "DisplayInqAlarmRecord_picture u =
     Some [Clear, Line16 0 16 t_records_title True, Line16 2 16 t_intrusion_alarm True, Line16 4 16 t_break_alarm True,
           Line16 6 16 t_tamper_alarm True]"

definition DisplayInqCalibrationVal_picture :: "ui \<Rightarrow> paint list option" where
  "DisplayInqCalibrationVal_picture u = two_lines (Line16 0 16 t_calibration_val_title True) Line16 t_zero_val t_datum_val"

definition DisplayInqZeroVal_picture :: "ui \<Rightarrow> paint list option" where
  "DisplayInqZeroVal_picture u = two_lines (Line16 0 16 t_zero_title True) Mixed t_zone_A t_zone_B"

definition DiaplayInqDatumVal_picture :: "ui \<Rightarrow> paint list option" where
  "DiaplayInqDatumVal_picture u = two_lines (Line16 0 16 t_datum_title True) Mixed t_zone_A t_zone_B"

definition clear_zones_picture :: "u8 list \<Rightarrow> paint list option" where
  "clear_zones_picture title =
     Some [Clear, Line16 0 0 title True, Line8 2 16 t_letter_A True, Line16 2 32 t_area True,
           Line8 4 16 t_letter_B True, Line16 4 32 t_area True]"

definition DisplayClearRuQinAlarmRecord_picture :: "ui \<Rightarrow> paint list option" where
  "DisplayClearRuQinAlarmRecord_picture u = clear_zones_picture t_clear_intrusion"

definition DisplayClearDuanXianAlarmRecord_picture :: "ui \<Rightarrow> paint list option" where
  "DisplayClearDuanXianAlarmRecord_picture u = clear_zones_picture t_clear_break"

definition inq_areas_picture :: "u8 list \<Rightarrow> ui \<Rightarrow> paint list option" where
  "inq_areas_picture title u =
     Some ([Clear, Line16 0 16 title True, Line8 2 16 t_letter_A True, Line16 2 32 t_area True] @
       double_zone u [Line8 4 16 t_letter_B True, Line16 4 32 t_area True])"

definition DisplayInqRuQinAlarmRecord_picture :: "ui \<Rightarrow> paint list option" where
  "DisplayInqRuQinAlarmRecord_picture = inq_areas_picture t_intrusion_title"

definition DisplayInqDuanXianAlarmRecord_picture :: "ui \<Rightarrow> paint list option" where
  "DisplayInqDuanXianAlarmRecord_picture = inq_areas_picture t_break_title"

text \<open>The three records of a page, cut to the width of the display.\<close>

definition UpdateAlarmRecord_picture :: "ui \<Rightarrow> paint list option" where
  "UpdateAlarmRecord_picture u =
     (let row = (\<lambda>i. c_text (take 16 (crtLCDPageLogData (device u) i)))
      in Some [Line8 2 0 (row 0) True, Line8 4 0 (row 1) True, Line8 6 0 (row 2) True])"

definition records_picture :: "paint list \<Rightarrow> ui \<Rightarrow> paint list option" where
  "records_picture title u = do { rows \<leftarrow> UpdateAlarmRecord_picture u; Some (Clear # title @ rows) }"

definition DisplayInqFangChaiAlarmRecord_picture :: "ui \<Rightarrow> paint list option" where
  "DisplayInqFangChaiAlarmRecord_picture = records_picture [Line16 0 16 t_tamper_title True]"

definition DisplayInqAAreaRuQinAlarmRecord_picture :: "ui \<Rightarrow> paint list option" where
  "DisplayInqAAreaRuQinAlarmRecord_picture =
     records_picture [Line16 0 0 t_area_intrusion True, Line8 0 16 t_letter_A True]"

definition DisplayInqBAreaRuQinAlarmRecord_picture :: "ui \<Rightarrow> paint list option" where
  "DisplayInqBAreaRuQinAlarmRecord_picture =
     records_picture [Line16 0 0 t_area_intrusion True, Line8 0 16 t_letter_B True]"

definition DisplayInqAAreaDuanXianAlarmRecord_picture :: "ui \<Rightarrow> paint list option" where
  "DisplayInqAAreaDuanXianAlarmRecord_picture =
     records_picture [Line16 0 0 t_area_break True, Line8 0 16 t_letter_A True]"

definition DisplayInqBAreaDuanXianAlarmRecord_picture :: "ui \<Rightarrow> paint list option" where
  "DisplayInqBAreaDuanXianAlarmRecord_picture =
     records_picture [Line16 0 0 t_area_break True, Line8 0 16 t_letter_B True]"

end
