(* ===== verification/Display.thy ===== *)
theory Display
  imports Screens
begin

text \<open>
  The drawing functions of \<^verbatim>\<open>HARDWARE/LCD/DisplayMenu.c\<close> for switches, time, addresses, login and alarms, and all
  pictures by the names of their functions, with which theory \<open>Ui\<close> records what the menu draws.
\<close>

subsection \<open>External devices\<close>

definition device_names :: "u8 list list" where
  "device_names =
     [t_no_device, t_active_ir, t_passive_ir, t_dual, t_environment, t_door, t_button, t_water, t_other_device]"

text \<open>The text for a type, copied into an array of \<open>n\<close> bytes that holds the text \<open>before\<close>, if any.\<close>

definition device_text :: "nat \<Rightarrow> u8 list option \<Rightarrow> u8 \<Rightarrow> u8 list option" where
  "device_text n before ty = (if ty \<le> 8 then copy_into n (device_names ! unat ty) else before)"

text \<open>The arrays of this screen hold one byte.\<close>

definition DisplayInqExtDeviceType_picture :: "ui \<Rightarrow> paint list option" where
  "DisplayInqExtDeviceType_picture u =
     (let d = device u
      in do { line_2 \<leftarrow> device_text 1 (Some []) (SW_Type d 0);
              line_3 \<leftarrow> (if FIELD_FLAG_S0D1 d then Some [] else device_text 1 (Some []) (SW_Type d 1));
              Some ([Clear, Line16 0 0 t_ext_title True, Mixed 2 16 t_zone_A_colon True, Mixed 4 16 t_zone_B_colon True,
                Line16 6 0 t_closed_switch True, Line16 2 64 line_2 True] @ double_zone u [Line16 4 64 line_3 True]) })"

definition both_devices :: "bool \<Rightarrow> bool \<Rightarrow> ui \<Rightarrow> paint list option" where
  "both_devices p_A p_B u =
     do { line_2 \<leftarrow> device_text 16 None (SW_Type (device u) 0); line_3 \<leftarrow> device_text 16 None (SW_Type (device u) 1);
          Some [Line16 2 64 line_2 p_A, Line16 4 64 line_3 p_B] }"

definition DiaplaySetExtDeviceTypeScreen_picture :: "ui \<Rightarrow> paint list option" where
  "DiaplaySetExtDeviceTypeScreen_picture u =
     do { vals \<leftarrow>
            (if flag_PageState u
             then if FIELD_FLAG_S0D1 (device u)
                  then do { line_2 \<leftarrow> device_text 16 None (SW_Type (device u) 0); Some [Line16 2 64 line_2 True] }
                  else both_devices True True u
             else if row_point u = 1 then both_devices False True u
             else if row_point u = 2 then both_devices True False u
             else Some []);
          Some ([Clear, Line16 0 0 t_ext_title True, Line8 2 16 t_letter_A True, Line16 2 24 t_area_colon True] @
            double_zone u [Line8 4 16 t_letter_B True, Line16 4 24 t_area_colon True] @
            [Line16 6 0 t_closed_switch True] @ vals) }"

subsection \<open>Full scale and automatic calibration\<close>

text \<open>The arrays of the first two screens hold one byte.\<close>

definition DisplayInqFullScale_picture :: "ui \<Rightarrow> paint list option" where
  "DisplayInqFullScale_picture u =
     do { fullscale \<leftarrow> sprintf 1 3 (uint (tension_max_range (device u)) div 10);
          Some [Clear, Line16 0 0 t_full_scale_title True, Line8 4 0 t_kg_line True, Line8 4 40 fullscale True] }"

definition DisplayInqBaseAutoCalibrateTime_picture :: "ui \<Rightarrow> paint list option" where
  "DisplayInqBaseAutoCalibrateTime_picture u =
     do { calibratetime \<leftarrow> sprintf 1 5 (uint (base_auto_calibrate_time (device u)));
          Some [Clear, Line16 0 0 t_auto_time_title True, Line16 4 80 t_minutes True, Line8 4 24 calibratetime True] }"

text \<open>The place of the cursor, \<open>row_fx_pos - 1\<close> in a byte.\<close>

definition cursor :: "ui \<Rightarrow> u8" where
  "cursor u = of_int (sint (row_fx_pos u) - 1)"

definition DisplaySetFullScale_picture :: "ui \<Rightarrow> paint list option" where
  "DisplaySetFullScale_picture u =
     Some [Clear, Line16 0 0 t_full_scale_title True, Line8 4 0 t_kg_line True,
           Marked 4 40 (c_text (tension_max_range_temp u)) (cursor u)]"

definition DisplaySetBaseAutoCalibrateTime_picture :: "ui \<Rightarrow> paint list option" where
  "DisplaySetBaseAutoCalibrateTime_picture u =
     Some [Clear, Line16 0 0 t_auto_time_title True, Line16 4 80 t_minutes True,
           Marked 4 24 (c_text (base_auto_calibrate_time_tmp u)) (cursor u)]"

subsection \<open>Time\<close>

text \<open>The date in the cells 3 to 12 of the second row, the time in the cells 4 to 11 of the third.\<close>

definition date_cells :: "u8 list \<Rightarrow> (nat \<Rightarrow> bool) \<Rightarrow> paint list" where
  "date_cells s marked = map (\<lambda>i. Cell 2 ((i + 3) * 8) (s ! i) (\<not> marked (i + 3))) [0..<10]"

definition time_cells :: "u8 list \<Rightarrow> (nat \<Rightarrow> bool) \<Rightarrow> paint list" where
  "time_cells s marked = map (\<lambda>i. Cell 4 ((i + 4) * 8) (s ! (i + 11)) (\<not> marked (i + 4))) [0..<8]"

definition date_marks :: "int \<Rightarrow> nat \<Rightarrow> bool" where
  "date_marks fx k =
     (if k < 8 then fx = 1 \<and> (k = 5 \<or> k = 6) else fx = 2 \<and> (k = 8 \<or> k = 9) \<or> fx = 3 \<and> (k = 11 \<or> k = 12))"

definition time_marks :: "int \<Rightarrow> nat \<Rightarrow> bool" where
  "time_marks fx k =
     (if k < 8 then fx = 1 \<and> (k = 4 \<or> k = 5) \<or> fx = 2 \<and> k = 7 else fx = 2 \<and> k = 8 \<or> fx = 3 \<and> (k = 10 \<or> k = 11))"

definition DisplaySetDateTime_picture :: "ui \<Rightarrow> paint list option" where
  "DisplaySetDateTime_picture u =
     (let s = rtcTempStr_temp_test u; fx = sint (row_fx_pos u)
      in Some ([Clear, Line16 0 16 t_date_title True] @
         (if flag_PageState u
          then date_cells (rtcTempStr (device u)) (\<lambda>k. False) @ time_cells (rtcTempStr (device u)) (\<lambda>k. False)
          else if row_point u = 1 then date_cells s (date_marks fx) @ time_cells s (\<lambda>k. False)
          else if row_point u = 2 then date_cells s (\<lambda>k. False) @ time_cells s (time_marks fx)
          else [])))"

subsection \<open>Addresses\<close>

definition net_picture :: "u8 list \<Rightarrow> ui \<Rightarrow> paint list option" where
  "net_picture title u =
     Some ([Clear, Line16 0 0 title True] @
       (if row_point u > 3
        then [Line8 2 16 t_ip True, Line16 2 48 t_address True, Line16 4 16 t_subnet_mask True, Line16 6 16 t_gateway True]
        else [Line8 2 16 t_mac True, Line16 2 48 t_address True, Line8 4 16 t_ip True, Line16 4 48 t_address True,
              Line16 6 16 t_subnet_mask True]))"

definition DisplaySetEthPara_picture :: "ui \<Rightarrow> paint list option" where
  "DisplaySetEthPara_picture = net_picture t_set_net_title"

definition DisplayInqEthPara_picture :: "ui \<Rightarrow> paint list option" where
  "DisplayInqEthPara_picture = net_picture t_inq_net_title"

definition mac_lines :: "ui \<Rightarrow> u8 list \<times> u8 list" where
  "mac_lines u = (c_text (take 8 (eth_mac_addr u)), c_text (take 8 (drop 9 (eth_mac_addr u))))"

definition DisplaySetMacAddr_picture :: "ui \<Rightarrow> paint list option" where
  "DisplaySetMacAddr_picture u =
     Some [Clear, Line16 0 16 t_address_title True, Line8 0 32 t_mac True, Line8 2 32 (fst (mac_lines u)) True,
           Line8 4 32 (snd (mac_lines u)) True, Line16 6 32 t_read_only True]"

definition DisplayInqMacAddr_picture :: "ui \<Rightarrow> paint list option" where
  "DisplayInqMacAddr_picture u =
     Some [Clear, Line16 0 16 t_address_title True, Line8 0 32 t_mac True, Line8 3 32 (fst (mac_lines u)) True,
           Line8 5 32 (snd (mac_lines u)) True]"

text \<open>An address is written with its cursor, but not with the cursor on a dot.\<close>

definition address_text :: "u8 list \<Rightarrow> u8 list" where
  "address_text s = c_text (take 15 s)"

definition address_line :: "u8 list \<Rightarrow> ui \<Rightarrow> paint list" where
  "address_line s u =
     (if sint (row_fx_pos u) \<in> {1, 2, 3, 5, 6, 7, 9, 10, 11, 13, 14, 15} then [Marked 4 0 (address_text s) (cursor u)] else [])"

definition DisplaySetIpAddr_picture :: "ui \<Rightarrow> paint list option" where
  "DisplaySetIpAddr_picture u =
     Some ([Clear, Line16 0 16 t_address_title True, Line8 0 32 t_ip True] @ address_line (eth_ip_addr u) u)"

definition DisplaySetSubnetMask_picture :: "ui \<Rightarrow> paint list option" where
  "DisplaySetSubnetMask_picture u = Some ([Clear, Line16 0 16 t_subnet_title True] @ address_line (eth_subnet_mask u) u)"

definition DisplaySetGateWay_picture :: "ui \<Rightarrow> paint list option" where
  "DisplaySetGateWay_picture u = Some ([Clear, Line16 0 32 t_gateway_title True] @ address_line (eth_gateway u) u)"

definition DisplayInqIpAddr_picture :: "ui \<Rightarrow> paint list option" where
  "DisplayInqIpAddr_picture u =
     Some [Clear, Line16 0 16 t_address_title True, Line8 0 32 t_ip True, Line8 4 0 (address_text (eth_ip_addr u)) True]"

definition DisplayInqSubnetMask_picture :: "ui \<Rightarrow> paint list option" where
  "DisplayInqSubnetMask_picture u =
     Some [Clear, Line16 0 16 t_subnet_title True, Line8 4 0 (address_text (eth_subnet_mask u)) True]"

definition DisplayInqGateWay_picture :: "ui \<Rightarrow> paint list option" where
  "DisplayInqGateWay_picture u =
     Some [Clear, Line16 0 32 t_gateway_title True, Line8 4 0 (address_text (eth_gateway u)) True]"

subsection \<open>Login\<close>

definition DisplayInputPassword_picture :: "ui \<Rightarrow> paint list option" where
  "DisplayInputPassword_picture u = Some [Clear, Line16 1 16 t_enter_password True, Line8 4 40 (inputPassword u) False]"

definition DisplayPasswordError_picture :: "ui \<Rightarrow> paint list option" where
  "DisplayPasswordError_picture u = Some [Clear, Line16 2 32 t_password_wrong True, Line16 4 16 t_again True]"

subsection \<open>Alarms\<close>

definition switch_alarms :: "u8 list list" where
  "switch_alarms =
     [t_active_ir_alarm, t_passive_ir_alarm, t_dual_alarm, t_environment_alarm, t_door_alarm, t_button_alarm,
      t_water_alarm, t_other_alarm]"

text \<open>The name of a switch; without a type it has one only in a list of up to three alarms.\<close>

definition switch_name :: "nat \<Rightarrow> u8 list option \<Rightarrow> u8 \<Rightarrow> paint list" where
  "switch_name page plain ty =
     (if ty = 0 then (case plain of None \<Rightarrow> [] | Some s \<Rightarrow> [Mixed page 32 s True])
      else if ty \<le> 8 then [Line16 page 32 (switch_alarms ! (unat ty - 1)) True] else [])"

definition alarm_text :: "bool \<Rightarrow> nat \<Rightarrow> dev \<Rightarrow> u8 \<Rightarrow> paint list" where
  "alarm_text short page d a =
     (if a = 0 then [Line8 page 0 t_letter_A True, Line16 page 16 t_zone_intrusion True]
      else if a = 1 then [Line8 page 0 t_letter_A True, Line16 page 16 t_zone_break True]
      else if a = 2 then [Line8 page 0 t_letter_B True, Line16 page 16 t_zone_intrusion True]
      else if a = 3 then [Line8 page 0 t_letter_B True, Line16 page 16 t_zone_break True]
      else if a = 4 then [Line16 page 0 t_tamper_alarm True]
      else if a = 5 then [Line8 page 0 t_letter_A True, Line16 page 16 t_area True] @
        switch_name page (if short then Some t_switch_1 else None) (SW_Type d 0)
      else if a = 6 then [Line8 page 0 t_letter_B True, Line16 page 16 t_area True] @
        switch_name page (if short then Some t_switch_2 else None) (SW_Type d 1)
      else if a = 8 then [Line8 page 0 t_letter_A True, Line16 page 16 t_zone_slack True]
      else if a = 9 then [Line8 page 0 t_letter_B True, Line16 page 16 t_zone_slack True]
      else [])"

text \<open>The alarms at the places \<open>is\<close> of the sorted list, one below the other.\<close>

definition alarm_texts :: "bool \<Rightarrow> ui \<Rightarrow> int list \<Rightarrow> paint list option" where
  "alarm_texts short u is =
     (if \<forall>i\<in>set is. 0 \<le> i \<and> i < 10
      then Some (concat (map (\<lambda>(k, i). alarm_text short (2 + 2 * k) (device u) (alarm_sequence_buf u (nat i)))
        (enumerate 0 is)))
      else None)"

text \<open>The state is that behind the call, whose first drawing of a new list shows its title only.\<close>

definition DisplayAlarmTypeList_picture :: "bool \<Rightarrow> ui \<Rightarrow> paint list option" where
  "DisplayAlarmTypeList_picture changed u =
     (let top = sint (alarm_rol u) - sint (alarm_key_adj u)
      in do { lines \<leftarrow>
                (if changed then Some []
                 else if alarm_type_cnt u < 4 then alarm_texts True u (rev [0..sint (alarm_rol u)])
                 else alarm_texts False u [top, top - 1, top - 2]);
              Some (Clear # Line16 0 0 t_alarm_list True # lines) })"

subsection \<open>Pictures by name\<close>

text \<open>The picture of a function, by its name; \<open>temp\<close> is the text of the temperature.\<close>

definition picture_named :: "u8 list \<Rightarrow> string \<Rightarrow> ui \<Rightarrow> paint list option" where
  "picture_named temp n =
     (if n = ''DisplayRunMenu'' then DisplayRunMenu_picture temp
      else if n = ''DisplayUserLogin'' then DisplayUserLogin_picture
      else if n = ''DisplaySuperUserRootMenu'' then DisplaySuperUserRootMenu_picture
      else if n = ''DisplayOrdinaryUserRootMenu'' then DisplayOrdinaryUserRootMenu_picture
      else if n = ''DisplaySetMenu'' then DisplaySetMenu_picture
      else if n = ''DisplayInquireMenu'' then DisplayInquireMenu_picture
      else if n = ''DisplayTensionMonitor'' then DisplayTensionMonitor_picture
      else if n = ''DisplayVersionMenu'' then DisplayVersionMenu_picture
      else if n = ''DisplaySetSysPara'' then DisplaySetSysPara_picture
      else if n = ''DiaplaySetFangQuPara'' then DiaplaySetFangQuPara_picture
      else if n = ''DiaplayCalibrationSet'' then DiaplayCalibrationSet_picture
      else if n = ''DisplaySetAFangQuPara'' then DisplaySetAFangQuPara_picture
      else if n = ''DisplaySetBFangQuPara'' then DisplaySetBFangQuPara_picture
      else if n = ''DisplayZeroCalibration'' then DisplayZeroCalibration_picture
      else if n = ''DisplayAareaZeroVal'' then DisplayAareaZeroVal_picture
      else if n = ''DisplayBareaZeroVal'' then DisplayBareaZeroVal_picture
      else if n = ''DisplayDatumCalibration'' then DisplayDatumCalibration_picture
      else if n = ''Displayzhengzaijiaozhun'' then Displayzhengzaijiaozhun_picture
      else if n = ''DisplayAareaDatumVal'' then DisplayAareaDatumVal_picture
      else if n = ''DisplayBareaDatumVal'' then DisplayBareaDatumVal_picture
      else if n = ''DisplayNotAtValidRange'' then DisplayNotAtValidRange_picture
      else if n = ''DiaplaySetBuFangPara'' then DiaplaySetBuFangPara_picture
      else if n = ''DiaplaySetAlarmThreshold'' then DiaplaySetAlarmThreshold_picture
      else if n = ''DisplaySetClearRecord'' then DisplaySetClearRecord_picture
      else if n = ''DisplayZhengZaiQingChu'' then DisplayZhengZaiQingChu_picture
      else if n = ''DisplayInqSysPara'' then DisplayInqSysPara_picture
      else if n = ''DiaplayInqFangQuPara'' then DiaplayInqFangQuPara_picture
      else if n = ''DiaplayInqAFangQuPara'' then DiaplayInqAFangQuPara_picture
      else if n = ''DiaplayInqBFangQuPara'' then DiaplayInqBFangQuPara_picture
      else if n = ''DisplayInqBuFangPara'' then DisplayInqBuFangPara_picture
      else if n = ''DisplayInqAlarmRecord'' then DisplayInqAlarmRecord_picture
      else if n = ''DisplayInqAlarmThreshold'' then DisplayInqAlarmThreshold_picture
      else if n = ''DisplayInqCalibrationVal'' then DisplayInqCalibrationVal_picture
      else if n = ''DisplayInqZeroVal'' then DisplayInqZeroVal_picture
      else if n = ''DiaplayInqDatumVal'' then DiaplayInqDatumVal_picture
      else if n = ''DisplayInqExtDeviceType'' then DisplayInqExtDeviceType_picture
      else if n = ''DisplayInqFullScale'' then DisplayInqFullScale_picture
      else if n = ''DisplayInqBaseAutoCalibrateTime'' then DisplayInqBaseAutoCalibrateTime_picture
      else if n = ''DiaplayAFangQuMonitor'' then DiaplayAFangQuMonitor_picture
      else if n = ''DiaplayBFangQuMonitor'' then DiaplayBFangQuMonitor_picture
      else if n = ''DisplaySetDateTime'' then DisplaySetDateTime_picture
      else if n = ''DisplaySetEthPara'' then DisplaySetEthPara_picture
      else if n = ''DisplayClearRuQinAlarmRecord'' then DisplayClearRuQinAlarmRecord_picture
      else if n = ''DisplayClearDuanXianAlarmRecord'' then DisplayClearDuanXianAlarmRecord_picture
      else if n = ''DisplayInqEthPara'' then DisplayInqEthPara_picture
      else if n = ''DisplayInqRuQinAlarmRecord'' then DisplayInqRuQinAlarmRecord_picture
      else if n = ''DisplayInqDuanXianAlarmRecord'' then DisplayInqDuanXianAlarmRecord_picture
      else if n = ''DisplaySetMacAddr'' then DisplaySetMacAddr_picture
      else if n = ''DisplaySetIpAddr'' then DisplaySetIpAddr_picture
      else if n = ''DisplaySetSubnetMask'' then DisplaySetSubnetMask_picture
      else if n = ''DisplaySetGateWay'' then DisplaySetGateWay_picture
      else if n = ''DisplayInqMacAddr'' then DisplayInqMacAddr_picture
      else if n = ''DisplayInqIpAddr'' then DisplayInqIpAddr_picture
      else if n = ''DisplayInqSubnetMask'' then DisplayInqSubnetMask_picture
      else if n = ''DisplayInqGateWay'' then DisplayInqGateWay_picture
      else if n = ''UpdateAlarmRecord'' then UpdateAlarmRecord_picture
      else if n = ''DisplayInputPassword'' then DisplayInputPassword_picture
      else if n = ''DisplayPasswordError'' then DisplayPasswordError_picture
      else if n = ''DiaplaySetExtDeviceTypeScreen'' then DiaplaySetExtDeviceTypeScreen_picture
      else if n = ''DisplaySetFullScale'' then DisplaySetFullScale_picture
      else if n = ''DisplaySetBaseAutoCalibrateTime'' then DisplaySetBaseAutoCalibrateTime_picture
      else if n = ''DisplayInitMenu'' then DisplayInitMenu_picture
      else if n = ''DisplayiLlegalInput'' then DisplayiLlegalInput_picture
      else if n = ''DisplayInqFangChaiAlarmRecord'' then DisplayInqFangChaiAlarmRecord_picture
      else if n = ''DisplayInqAAreaRuQinAlarmRecord'' then DisplayInqAAreaRuQinAlarmRecord_picture
      else if n = ''DisplayInqBAreaRuQinAlarmRecord'' then DisplayInqBAreaRuQinAlarmRecord_picture
      else if n = ''DisplayInqAAreaDuanXianAlarmRecord'' then DisplayInqAAreaDuanXianAlarmRecord_picture
      else if n = ''DisplayInqBAreaDuanXianAlarmRecord'' then DisplayInqBAreaDuanXianAlarmRecord_picture
      else (\<lambda>u. None))"

end
