(* ===== verification/LcdSpec.thy ===== *)
theory LcdSpec
  imports Display
begin

text \<open>
  The display as one canvas of eight pages and 128 columns: a character that does not cross the middle is written
  as it stands, and a picture is the sum of its characters on an empty canvas.
\<close>

subsection \<open>Chips\<close>

type_synonym canvas = "nat \<Rightarrow> nat \<Rightarrow> u8"

definition canvas :: "lcd \<Rightarrow> canvas" where
  "canvas l = (\<lambda>page x. if page < 8 \<and> x < 128
     then if x < 64 then ram (left_half l) page x else ram (right_half l) page (x - 64) else 0)"

lemma selected_cs [simp]: "LCD_CS1 (selected f l) = LCD_CS1 l" "LCD_CS2 (selected f l) = LCD_CS2 l"
  by (simp_all add: selected_def)

lemma selected_selected: "selected g (selected f l) = selected (\<lambda>h. g (f h)) l"
  by (simp add: selected_def)

lemma fold_selected: "fold (\<lambda>i. selected (f i)) is l = selected (fold f is) l"
  by (induction "is" arbitrary: l) (simp_all add: selected_selected comp_def, simp add: selected_def)

lemma below_8: "n < 8 \<longleftrightarrow> n \<in> {0, 1, 2, 3, 4, 5, 6, 7 :: nat}"
  by auto

lemma set_page: "page < 8 \<Longrightarrow> chip_cmd (0xB8 OR of_nat page) h = h\<lparr>x_addr := page\<rparr>"
  unfolding below_8 chip_cmd_def by (elim insertE emptyE; simp)

lemma column_bits:
  assumes "\<And>n. n \<in> {0, 1, 2, 3, 4, 5, 6, 7} \<Longrightarrow> bit a n = bit b n"
  shows "a = (b :: u8)"
  using assms below_8 by (intro bit_word_eqI) simp

lemma column_cmd:
  fixes w :: u8
  shows "(0x40 OR take_bit 6 w) AND 0xF8 \<noteq> 0xB8" "(0x40 OR take_bit 6 w) AND 0xC0 = 0x40"
    "(0x40 OR take_bit 6 w) AND 0x3F = take_bit 6 w"
proof -
  show "(0x40 OR take_bit 6 w) AND 0xF8 \<noteq> 0xB8"
  proof
    assume "(0x40 OR take_bit 6 w) AND 0xF8 = 0xB8"
    then have "bit ((0x40 OR take_bit 6 w) AND 0xF8) 7 = bit (0xB8 :: u8) 7" by simp
    then show False unfolding bit_and_iff bit_or_iff bit_take_bit_iff by (simp add: bit_iff_odd_drop_bit)
  qed
  show "(0x40 OR take_bit 6 w) AND 0xC0 = 0x40" "(0x40 OR take_bit 6 w) AND 0x3F = take_bit 6 w"
    by (rule column_bits, unfold bit_and_iff bit_or_iff bit_take_bit_iff, elim insertE emptyE,
        simp_all add: bit_iff_odd_drop_bit [of "numeral _"])+
qed

lemma set_column: "chip_cmd (0x40 OR (0x3F AND of_nat x)) h = h\<lparr>y_addr := x mod 64\<rparr>"
proof -
  have low: "0x3F AND w = take_bit 6 w" for w :: u8
    by (simp add: take_bit_eq_mask mask_eq_exp_minus_1 and.commute)
  have "unat (take_bit 6 (of_nat x) :: u8) = x mod 64"
    by (simp add: unsigned_take_bit_eq unsigned_of_nat take_bit_nat_def mod_mod_cancel)
  then show ?thesis by (simp add: chip_cmd_def low column_cmd)
qed

text \<open>A run of bytes that stays in its row of columns.\<close>

lemma chip_run:
  assumes "y_addr h = y" "y + n \<le> 64" "0 < n"
  shows "fold (\<lambda>i. chip_data (b i)) [0..<n] h =
    h\<lparr>ram := (ram h)(x_addr h := (\<lambda>c. if y \<le> c \<and> c < y + n then b (c - y) else ram h (x_addr h) c)),
      y_addr := (y + n) mod 64\<rparr>"
  using assms(2,3)
proof (induction n)
  case (Suc n)
  show ?case
  proof (cases n)
    case 0
    then show ?thesis using assms(1) by (auto simp: chip_data_def fun_eq_iff)
  next
    case (Suc m)
    then show ?thesis using Suc.IH Suc.prems by (auto simp: chip_data_def fun_eq_iff)
  qed
qed simp

lemma put_bytes_run:
  assumes "y + n \<le> 64" "0 < n" "page < 8" "x mod 64 = y"
  shows "put_bytes p n k g (LcdSetColumn (of_nat x) (LcdSetPage (of_nat page) l)) =
    selected (\<lambda>h. h\<lparr>x_addr := page,
      ram := (ram h)(page := (\<lambda>c. if y \<le> c \<and> c < y + n then ink p (g (c - y + k)) else ram h page c)),
      y_addr := (y + n) mod 64\<rparr>) l"
  unfolding put_bytes_def LcdSetColumn_def LcdSetPage_def LcdWriteCmd_def LcdWriteData_def fold_selected selected_selected
    set_page [OF assms(3)] set_column
  by (rule arg_cong [of _ _ "\<lambda>f. selected f l"], rule ext, subst chip_run [of _ y n])
    (use assms in \<open>simp_all cong: if_cong\<close>)

subsection \<open>Characters on the canvas\<close>

text \<open>A character of \<open>w\<close> columns: its upper half is on \<open>page\<close>, its lower half on the page below.\<close>

definition put_glyph :: "nat \<Rightarrow> bool \<Rightarrow> bitmap \<Rightarrow> nat \<Rightarrow> nat \<Rightarrow> canvas \<Rightarrow> canvas" where
  "put_glyph w p g page x C =
     (\<lambda>pg col. if (pg = page \<or> pg = page + 1) \<and> x \<le> col \<and> col < x + w
               then ink p (g ((pg - page) * w + (col - x))) else C pg col)"

text \<open>A place that does not cross the middle or the right edge.\<close>

definition fits :: "nat \<Rightarrow> nat \<Rightarrow> nat \<Rightarrow> bool" where
  "fits w page x \<longleftrightarrow> page < 7 \<and> (x + w \<le> 64 \<or> 64 \<le> x \<and> x + w \<le> 128)"

lemma fits_mod: "fits w page x \<Longrightarrow> 0 < w \<Longrightarrow> x mod 64 + w \<le> 64"
  by (cases "x < 64") (auto simp: fits_def le_mod_geq)

text \<open>One half of a character, with the half of the display selected that holds it.\<close>

definition put_row :: "nat \<Rightarrow> bool \<Rightarrow> bitmap \<Rightarrow> nat \<Rightarrow> nat \<Rightarrow> nat \<Rightarrow> canvas \<Rightarrow> canvas" where
  "put_row w p g k page x C =
     (\<lambda>pg col. if pg = page \<and> x \<le> col \<and> col < x + w then ink p (g (col - x + k)) else C pg col)"

definition chosen :: "nat \<Rightarrow> lcd \<Rightarrow> bool" where
  "chosen x l \<longleftrightarrow> LCD_CS1 l = (x < 64) \<and> LCD_CS2 l = (64 \<le> x)"

lemma chosen_Lcd_Cs: "chosen x (Lcd_Cs (half_at x) l)" "canvas (Lcd_Cs c l) = canvas l"
  by (auto simp: chosen_def Lcd_Cs_def half_at_def canvas_def cong: if_cong)

lemma put_bytes_canvas:
  assumes "x mod 64 + w \<le> 64" "0 < w" "page < 8" "x < 128" "chosen x l"
  shows "canvas (put_bytes p w k g (LcdSetColumn (of_nat x) (LcdSetPage (of_nat page) l))) = put_row w p g k page x (canvas l)"
    and "chosen x (put_bytes p w k g (LcdSetColumn (of_nat x) (LcdSetPage (of_nat page) l)))"
proof -
  note run = put_bytes_run [OF assms(1-3) refl]
  have x: "x mod 64 = (if x < 64 then x else x - 64)" using assms(4) by (auto simp: le_mod_geq)
  show "canvas (put_bytes p w k g (LcdSetColumn (of_nat x) (LcdSetPage (of_nat page) l))) =
      put_row w p g k page x (canvas l)"
    using assms unfolding run x
    by (cases "x < 64") (auto simp: fun_eq_iff canvas_def put_row_def selected_def chosen_def Nat.diff_diff_right)
  show "chosen x (put_bytes p w k g (LcdSetColumn (of_nat x) (LcdSetPage (of_nat page) l)))"
    using assms(5) by (simp add: run chosen_def)
qed

lemma put_twice:
  assumes "fits w page x" "0 < w"
  shows "canvas (put_bytes p w w g (LcdSetColumn (of_nat x) (LcdSetPage (of_nat page + 1)
      (put_bytes p w 0 g (LcdSetColumn (of_nat x) (LcdSetPage (of_nat page) (Lcd_Cs (half_at x) l))))))) =
    put_glyph w p g page x (canvas l)"
proof -
  have bounds: "x mod 64 + w \<le> 64" "page < 8" "page + 1 < 8" "x < 128" "of_nat page + 1 = (of_nat (page + 1) :: u8)"
    using assms fits_mod [OF assms] by (auto simp: fits_def)
  show ?thesis
    unfolding bounds(5)
    by (simp only: put_bytes_canvas bounds(1-4) assms(2) chosen_Lcd_Cs)
      (auto simp: fun_eq_iff put_row_def put_glyph_def add.commute)
qed

lemma put_8x16_canvas:
  assumes "fits 8 page x"
  shows "canvas (put_8x16 (of_nat page) x p g l) =
    (case g of None \<Rightarrow> canvas l | Some m \<Rightarrow> put_glyph 8 p m page x (canvas l))"
  using put_twice [OF assms] by (simp add: put_8x16_def Display_8x16_def Let_def split: option.split)

lemma put_16x16_canvas:
  assumes "fits 16 page x"
  shows "canvas (put_16x16 (of_nat page) x p g l) =
    (case g of None \<Rightarrow> canvas l | Some m \<Rightarrow> put_glyph 16 p m page x (canvas l))"
  using put_twice [OF assms] by (simp add: put_16x16_def Display_16x16_def Let_def split: option.split)

subsection \<open>Calls on the canvas\<close>

type_synonym glyph = "nat \<times> nat \<times> nat \<times> bool \<times> bitmap"

text \<open>The characters a call writes: their width, page, column, and bitmap.\<close>

definition placed :: "nat \<Rightarrow> nat \<Rightarrow> nat \<Rightarrow> bool \<Rightarrow> bitmap option \<Rightarrow> glyph list" where
  "placed w page x p g = (case g of None \<Rightarrow> [] | Some m \<Rightarrow> [(w, page, x, p, m)])"

fun mixed_glyphs :: "nat \<Rightarrow> nat \<Rightarrow> bool \<Rightarrow> nat \<Rightarrow> u8 list \<Rightarrow> glyph list"
  and mixed_rest :: "nat \<Rightarrow> nat \<Rightarrow> bool \<Rightarrow> nat \<Rightarrow> u8 list \<Rightarrow> glyph list" where
  "mixed_glyphs page c p i [] = []"
| "mixed_glyphs page c p i (a # s) =
     (case find_GB16x16 a (next_byte s) of
        Some m \<Rightarrow> (16, page, c + i * 8, p, m) # mixed_rest page c p (i + 2) s
      | None \<Rightarrow> placed 8 page (c + i * 8) p (find_Char8x16 a) @ mixed_glyphs page c p (i + 1) s)"
| "mixed_rest page c p i [] = []"
| "mixed_rest page c p i (b # s) = mixed_glyphs page c p i s"

fun glyphs :: "paint \<Rightarrow> glyph list" where
  "glyphs Clear = []"
| "glyphs (Line16 page c s p) =
     concat (map (\<lambda>i. placed 16 page (c + i * 16) p (find_GB16x16 (s ! (i * 2)) (s ! (i * 2 + 1)))) [0..<length s div 2])"
| "glyphs (Line8 page c s p) = concat (map (\<lambda>i. placed 8 page (c + i * 8) p (find_Char8x16 (s ! i))) [0..<length s])"
| "glyphs (Mixed page c s p) = mixed_glyphs page c p 0 s"
| "glyphs (Marked page c s pos) =
     concat (map (\<lambda>i. placed 8 page (c + i * 8) (i \<noteq> unat pos) (find_Char8x16 (s ! i))) [0..<length s])"
| "glyphs (Cell page x a p) = placed 8 page x p (find_zifu a)"

fun draw_glyph :: "glyph \<Rightarrow> canvas \<Rightarrow> canvas" where
  "draw_glyph (w, page, x, p, m) C = put_glyph w p m page x C"

definition blank :: canvas where "blank = (\<lambda>page x. 0)"

definition render :: "paint list \<Rightarrow> canvas" where
  "render ps = fold draw_glyph (concat (map glyphs ps)) blank"

text \<open>A call is in order if its numbers are bytes and each of its characters has a place that holds it.\<close>

definition glyph_fits :: "glyph \<Rightarrow> bool" where
  "glyph_fits g = (case g of (w, page, x, p, m) \<Rightarrow> fits w page x)"

fun small :: "paint \<Rightarrow> bool" where
  "small (Line16 page c s p) \<longleftrightarrow> c < 256 \<and> length s < 256"
| "small (Line8 page c s p) \<longleftrightarrow> c < 256 \<and> length s < 256"
| "small (Mixed page c s p) \<longleftrightarrow> c < 256 \<and> length s < 256"
| "small (Marked page c s pos) \<longleftrightarrow> c < 256 \<and> length s < 256"
| "small _ \<longleftrightarrow> True"

definition in_order :: "paint \<Rightarrow> bool" where
  "in_order pt \<longleftrightarrow> small pt \<and> (\<forall>g\<in>set (glyphs pt). glyph_fits g)"

lemma placed_canvas_8:
  assumes "\<forall>g\<in>set (placed 8 page x p m). glyph_fits g"
  shows "canvas (put_8x16 (of_nat page) x p m l) = fold draw_glyph (placed 8 page x p m) (canvas l)"
  using assms put_8x16_canvas [of page x p m l]
  by (cases m) (simp_all add: placed_def glyph_fits_def put_8x16_def)

lemma placed_canvas_16:
  assumes "\<forall>g\<in>set (placed 16 page x p m). glyph_fits g"
  shows "canvas (put_16x16 (of_nat page) x p m l) = fold draw_glyph (placed 16 page x p m) (canvas l)"
  using assms put_16x16_canvas [of page x p m l]
  by (cases m) (simp_all add: placed_def glyph_fits_def put_16x16_def)

text \<open>A line is the run of its characters.\<close>

lemma line_canvas:
  assumes "\<And>i l. i \<in> set is \<Longrightarrow> \<forall>g\<in>set (gs i). glyph_fits g \<Longrightarrow> canvas (f i l) = fold draw_glyph (gs i) (canvas l)"
    "\<forall>g\<in>set (concat (map gs is)). glyph_fits g"
  shows "canvas (fold f is l) = fold draw_glyph (concat (map gs is)) (canvas l)"
  using assms by (induction "is" arbitrary: l) auto

lemma mixed_canvas:
  assumes "\<forall>g\<in>set (mixed_glyphs page c p i s). glyph_fits g" "c < 256"
  shows "canvas (mixed_line (of_nat page) (of_nat c) (\<lambda>i. p) i s l) = fold draw_glyph (mixed_glyphs page c p i s) (canvas l)"
  using assms(1)
proof (induction s arbitrary: i l rule: length_induct)
  case (1 s)
  note IH = "1.IH" [rule_format]
  have c: "unat (of_nat c :: u8) = c" using assms(2) by (simp add: unsigned_of_nat take_bit_nat_eq_self_iff)
  show ?case
  proof (cases s)
    case (Cons a t)
    show ?thesis
    proof (cases "find_GB16x16 a (next_byte t)")
      case None
      with "1.prems" Cons IH [of t "i + 1"] placed_canvas_8 [of page "c + i * 8" p "find_Char8x16 a"]
      show ?thesis by (simp add: c ball_Un)
    next
      case (Some m)
      have rest: "mixed_rest page c p k t = mixed_glyphs page c p k (tl t)" for k by (cases t) simp_all
      from Some "1.prems" Cons IH [of "tl t" "i + 2"] placed_canvas_16 [of page "c + i * 8" p "Some m"]
      show ?thesis by (simp add: c rest placed_def del: draw_glyph.simps)
    qed
  qed simp
qed

lemma byte_numbers:
  "c < 256 \<Longrightarrow> unat (of_nat c :: u8) = c" "length s < 256 \<Longrightarrow> char_num s = length s"
  "length s < 256 \<Longrightarrow> length s div 2 mod 256 = length s div 2"
  by (simp_all add: unsigned_of_nat take_bit_nat_eq_self_iff char_num_def)

lemma call_canvas:
  assumes "in_order pt" "pt \<noteq> Clear"
  shows "canvas (paint_on pt l) = fold draw_glyph (glyphs pt) (canvas l)"
proof (cases pt)
  case (Line16 page c s p)
  then show ?thesis using assms
    by (simp add: in_order_def Display_Line_Index_16x16_def byte_numbers line_canvas placed_canvas_16)
next
  case (Line8 page c s p)
  then show ?thesis using assms
    by (simp add: in_order_def Display_Line_Index_8x16_def byte_numbers line_canvas placed_canvas_8)
next
  case (Mixed page c s p)
  then show ?thesis using assms
    by (simp add: in_order_def Display_Line_Index_8x16_16x16_def byte_numbers mixed_canvas)
next
  case (Marked page c s pos)
  then show ?thesis using assms
    by (simp add: in_order_def Display_Line_Index_8x16_pn_def byte_numbers line_canvas placed_canvas_8)
next
  case (Cell page x a p)
  then show ?thesis using assms by (simp add: in_order_def placed_canvas_8)
qed (use assms in simp)

subsection \<open>An empty display\<close>

lemma clear_page_canvas:
  assumes "LCD_CS1 l" "LCD_CS2 l" "page < 8"
  shows "canvas (clear_page page l) = (canvas l)(page := (\<lambda>x. 0))"
    and "LCD_CS1 (clear_page page l)" "LCD_CS2 (clear_page page l)"
proof -
  have run: "clear_page page l = put_bytes True 64 0 (\<lambda>i. 0) (LcdSetColumn (of_nat 0) (LcdSetPage (of_nat page) l))"
    by (simp add: clear_page_def put_bytes_def ink_def)
  note bytes = put_bytes_run [of 0 64 page 0 True 0 "\<lambda>i. 0", simplified, OF assms(3)]
  show "canvas (clear_page page l) = (canvas l)(page := (\<lambda>x. 0))"
    using assms by (auto simp: run bytes canvas_def selected_def fun_eq_iff ink_def)
  show "LCD_CS1 (clear_page page l)" "LCD_CS2 (clear_page page l)"
    using assms by (simp_all add: run bytes)
qed

lemma clear_pages_canvas:
  assumes "LCD_CS1 l" "LCD_CS2 l" "n \<le> 8"
  shows "canvas (fold clear_page [0..<n] l) = (\<lambda>page x. if page < n then 0 else canvas l page x) \<and>
     LCD_CS1 (fold clear_page [0..<n] l) \<and> LCD_CS2 (fold clear_page [0..<n] l)"
  using assms(3)
proof (induction n)
  case 0
  then show ?case using assms by simp
next
  case (Suc n)
  then show ?case using clear_page_canvas [of "fold clear_page [0..<n] l" n] by (auto simp: fun_eq_iff)
qed

lemma Lcd_Clear_canvas: "canvas (Lcd_Clear FullScreen l) = blank"
proof -
  have cs: "LCD_CS1 (Lcd_Cs FullScreen l)" "LCD_CS2 (Lcd_Cs FullScreen l)" by (simp_all add: Lcd_Cs_def)
  have "canvas (Lcd_Clear FullScreen l) = (\<lambda>page x. if page < 8 then 0 else canvas (Lcd_Cs FullScreen l) page x)"
    using clear_pages_canvas [OF cs, of 8] by (simp add: Lcd_Clear_def)
  then show ?thesis by (auto simp: blank_def fun_eq_iff canvas_def)
qed

lemma calls_canvas:
  assumes "\<forall>pt\<in>set ps. in_order pt \<and> pt \<noteq> Clear"
  shows "canvas (paint_all ps l) = fold draw_glyph (concat (map glyphs ps)) (canvas l)"
  using assms unfolding paint_all_def by (induction ps arbitrary: l) (simp_all add: call_canvas)

lemma picture_canvas:
  assumes "\<forall>pt\<in>set ps. in_order pt \<and> pt \<noteq> Clear"
  shows "canvas (paint_all (Clear # ps) l) = render (Clear # ps)"
  using calls_canvas [OF assms, of "Lcd_Clear FullScreen l"]
  by (simp add: paint_all_def render_def Lcd_Clear_canvas)

end
