(* ===== verification/PictureSpec.thy ===== *)
theory PictureSpec
  imports LcdSpec MenuInv
begin

text \<open>
  The pictures on the display: with values that have their digits, every picture of a menu in its invariant is
  made of characters that fit, each in its place.
\<close>

subsection \<open>Texts that fit\<close>

lemma text_length [simp]:
  "length t_initialising = 12" "length t_name_D = 16" "length t_name_S = 16" "length t_host = 16"
  "length t_temperature = 16" "length t_login = 12" "length t_super_user = 8" "length t_ordinary_user = 8"
  "length t_menu = 8" "length t_set = 4" "length t_inquire = 4" "length t_monitor = 8" "length t_version = 8"
  "length t_set_title = 8" "length t_system_para = 8" "length t_zone_para = 8" "length t_calibration = 8"
  "length t_arming_para = 8" "length t_threshold = 8" "length t_clear_records = 8" "length t_ext_device = 12"
  "length t_full_scale = 12" "length t_auto_time = 12" "length t_inquire_title = 8" "length t_alarm_records = 8"
  "length t_calibration_val = 6" "length t_monitor_title = 12" "length t_zone_A = 5" "length t_zone_B = 5"
  "length t_version_title = 12" "length t_hardware_version = 10" "length t_software_version = 10"
  "length t_configuration = 10" "length t_double = 2" "length t_single = 2" "length t_four = 2" "length t_six = 2"
  "length t_system_title = 12" "length t_date_time = 8" "length t_net_para = 8" "length t_zone_title = 12"
  "length t_calibration_title = 12" "length t_zero_cal = 10" "length t_datum_cal = 10"
  "length t_zone_A_title = 14" "length t_zone_number = 8" "length t_delay = 14" "length t_sensitivity = 9"
  "length t_zone_B_title = 14" "length t_illegal = 8" "length t_again = 12" "length t_zero_cal_title = 12"
  "length t_zone_A_wide = 6" "length t_zone_B_wide = 6" "length t_zero_A_title = 16" "length t_wires_12 = 15"
  "length t_wires_34 = 15" "length t_wires_56 = 15" "length t_zero_B_title = 16" "length t_datum_cal_title = 12"
  "length t_calibrating = 8" "length t_wait = 8" "length t_datum_A_title = 16" "length t_datum_B_title = 16"
  "length t_not_in_range = 12" "length t_adjust = 12" "length t_arming_title = 12" "length t_letter_A = 1"
  "length t_letter_B = 1" "length t_colon = 1" "length t_on = 2" "length t_off = 2" "length t_zone = 4"
  "length t_tamper_alarm = 8" "length t_threshold_title = 12" "length t_up_offset = 14"
  "length t_down_offset = 14" "length t_clear_title = 12" "length t_intrusion_alarm = 8"
  "length t_break_alarm = 8" "length t_clearing = 8" "length t_wait_2 = 10" "length t_tension_range = 14"
  "length t_zone_blank = 8" "length t_records_title = 12" "length t_calibration_val_title = 10"
  "length t_zero_val = 6" "length t_datum_val = 6" "length t_zero_title = 10" "length t_datum_title = 10"
  "length t_ext_title = 16" "length t_zone_A_colon = 6" "length t_zone_B_colon = 6" "length t_closed_switch = 16"
  "length t_no_device = 6" "length t_active_ir = 8" "length t_passive_ir = 8" "length t_dual = 8"
  "length t_environment = 8" "length t_door = 8" "length t_button = 8" "length t_water = 8"
  "length t_other_device = 8" "length t_full_scale_title = 16" "length t_kg_line = 17"
  "length t_auto_time_title = 16" "length t_minutes = 4" "length t_monitor_A_title = 16"
  "length t_monitor_B_title = 16" "length t_date_title = 12" "length t_set_net_title = 16" "length t_mac = 3"
  "length t_ip = 2" "length t_address = 4" "length t_subnet_mask = 8" "length t_gateway = 4"
  "length t_clear_intrusion = 16" "length t_area = 2" "length t_clear_break = 16" "length t_inq_net_title = 16"
  "length t_intrusion_title = 12" "length t_break_title = 12" "length t_tamper_title = 12"
  "length t_address_title = 12" "length t_read_only = 8" "length t_subnet_title = 12" "length t_gateway_title = 8"
  "length t_area_intrusion = 16" "length t_area_break = 16" "length t_enter_password = 12"
  "length t_password_wrong = 8" "length t_alarm_list = 16" "length t_zone_intrusion = 12"
  "length t_zone_break = 12" "length t_zone_slack = 12" "length t_switch_1 = 7" "length t_switch_2 = 7"
  "length t_active_ir_alarm = 12" "length t_passive_ir_alarm = 12" "length t_dual_alarm = 12"
  "length t_environment_alarm = 12" "length t_door_alarm = 12" "length t_button_alarm = 12"
  "length t_water_alarm = 12" "length t_other_alarm = 12" "length t_area_colon = 4"
  by (simp_all add: text_defs ascii_def)

lemma aligned_fits:
  assumes "page < 7" "c mod w = 0" "w dvd 64" "c + i * w + w \<le> 128"
  shows "fits w page (c + i * w)"
proof -
  obtain k where c: "c = w * k" using assms(2) by (auto simp: mod_eq_0_iff_dvd)
  obtain m where m: "64 = w * m" using assms(3) by (auto simp: dvd_def)
  have "k + i + 1 \<le> m \<or> m \<le> k + i" by linarith
  then have "w * (k + i + 1) \<le> w * m \<or> w * m \<le> w * (k + i)" using mult_le_mono2 by blast
  then have "c + i * w + w \<le> 64 \<or> 64 \<le> c + i * w" by (simp add: c m algebra_simps)
  then show ?thesis using assms(1,4) by (auto simp: fits_def)
qed

lemma placed_fits: "fits w page x \<Longrightarrow> g \<in> set (placed w page x p m) \<Longrightarrow> glyph_fits g"
  by (auto simp: placed_def glyph_fits_def split: option.splits)

lemma Line8_in_order:
  "page < 7 \<Longrightarrow> c mod 8 = 0 \<Longrightarrow> c + 8 * length s \<le> 128 \<Longrightarrow> in_order (Line8 page c s p)"
  unfolding in_order_def by (auto intro!: placed_fits aligned_fits)

lemma Marked_in_order:
  "page < 7 \<Longrightarrow> c mod 8 = 0 \<Longrightarrow> c + 8 * length s \<le> 128 \<Longrightarrow> in_order (Marked page c s pos)"
  unfolding in_order_def by (auto intro!: placed_fits aligned_fits)

lemma Cell_in_order: "page < 7 \<Longrightarrow> k < 16 \<Longrightarrow> in_order (Cell page (k * 8) a p)"
  using aligned_fits [of page 0 8 k] unfolding in_order_def by (auto intro!: placed_fits)

lemma Line16_in_order:
  assumes "page < 7" "length s < 256"
    "c mod 16 = 0 \<and> c + 16 * (length s div 2) \<le> 128 \<or> c + 16 * (length s div 2) \<le> 64"
  shows "in_order (Line16 page c s p)"
proof -
  have "fits 16 page (c + i * 16)" if "i < length s div 2" for i
  proof (cases "c + 16 * (length s div 2) \<le> 64")
    case True
    then show ?thesis using that assms(1) by (simp add: fits_def)
  next
    case False
    then show ?thesis using that assms aligned_fits [of page c 16 i] by simp
  qed
  then show ?thesis using assms unfolding in_order_def by (auto intro!: placed_fits)
qed

subsection \<open>Lines with characters of both widths\<close>

definition known :: "u8 \<Rightarrow> u8 \<Rightarrow> bool" where
  "known a b \<longleftrightarrow> find_GB16x16 a b \<noteq> None"

text \<open>The codes of the font as numbers, which are found faster.\<close>

definition gb_code :: "u8 \<times> u8 \<Rightarrow> nat" where
  "gb_code k = unat (fst k) * 256 + unat (snd k)"

lemma gb_codes:
  "map gb_code (map fst GB16x16) =
    [45489, 48809, 53440, 51160, 49622, 49094, 48316, 47010, 54713, 54224, 53214, 47531, 52158, 46567, 48048, 49376,
     53453, 49910, 46053, 55251, 52903, 49336, 45480, 47334, 48815, 53173, 52659, 52177, 52215, 51688, 45496, 52930,
     49641, 50164, 46792, 41398, 41399, 45771, 46501, 46760, 50660, 54979, 45801, 53679, 45286, 45502, 53445, 53154,
     49616, 45549, 53470, 47300, 50140, 49899, 46317, 52979, 45774, 51965, 45756, 46007, 47040, 55220, 52396, 51173,
     46077, 48327, 49852, 54194, 51437, 48382, 51413, 50906, 51889, 48356, 52728, 49895, 53689, 53715, 46796, 46799,
     49847, 45808, 46552, 54967, 53722, 49899, 47576, 45502, 48122, 51192, 49066, 50932, 45987, 45525, 47327, 54781,
     54490, 51179, 51668, 47859, 41896, 54971, 46785, 41897, 41446, 54983, 50396, 48380, 50636, 49112, 54982, 54997,
     46795, 48352, 45536, 47813, 51896, 49599, 53433, 49846, 49346, 54768, 46767, 52923, 47062, 52453, 54725, 49325,
     49574, 54965, 55000, 53442, 51940, 51435, 48358, 51421, 52706, 45759, 45536, 55031, 47852, 45499, 52413, 45794,
     50935, 52139, 48376, 48055, 48819, 50117, 46277, 52142, 48638, 50916, 52220, 48628, 48305, 45236, 50597, 54445,
     46025, 47526, 53969, 51706, 53415, 47345, 51901, 52164, 49657, 55254, 48086, 47284, 46070, 45991, 50901, 52648,
     45996, 48310, 54211, 48039, 46535, 49852, 50928, 51900, 54997, 54969, 50155, 51663, 49387, 53215, 53947, 46846,
     52958, 46069, 48047, 41914, 41889, 41900, 51158, 52169, 46042, 58320, 53186, 50859, 53958, 47047, 47016, 47030,
     49635, 46563, 48121, 53411, 55228, 52916, 46583, 54779, 49914, 46028, 55252, 54995]"
  unfolding GB16x16_def list.map fst_conv gb_code_def snd_conv by simp

lemma gb_code_inj: "inj gb_code"
proof (rule injI)
  fix k j assume e: "gb_code k = gb_code j"
  have b: "unat (w :: u8) < 256" for w using unsigned_less [of w, where ?'a = nat] by simp
  have "gb_code i div 256 = unat (fst i)" "gb_code i mod 256 = unat (snd i)" for i
    using b [of "snd i"] by (simp_all add: gb_code_def)
  then have "unat (fst k) = unat (fst j)" "unat (snd k) = unat (snd j)" using e by metis+
  then show "k = j" by (simp add: prod_eq_iff word_unat_eq_iff)
qed

lemma known_code: "known a b \<longleftrightarrow> gb_code (a, b) \<in> set (map gb_code (map fst GB16x16))"
proof -
  have "known a b \<longleftrightarrow> (a, b) \<in> set (map fst GB16x16)"
    by (simp add: known_def find_GB16x16_def map_of_eq_None_iff)
  also have "\<dots> \<longleftrightarrow> gb_code (a, b) \<in> gb_code ` set (map fst GB16x16)" by (simp add: inj_image_mem_iff [OF gb_code_inj])
  finally show ?thesis by (simp only: set_map)
qed

lemma known_ascii: "a < 0x80 \<Longrightarrow> \<not> known a b"
proof
  assume a: "a < 0x80" and k: "known a b"
  have "list_all (\<lambda>n. 0x8000 \<le> n) (map gb_code (map fst GB16x16))" by (simp only: gb_codes) simp
  with k have "0x8000 \<le> gb_code (a, b)" by (simp only: known_code list_all_iff)
  moreover have "unat a < 0x80" using a by (simp add: word_less_nat_alt)
  moreover have "unat b < 256" using unsigned_less [of b, where ?'a = nat] by simp
  ultimately show False by (simp add: gb_code_def)
qed

lemma known_texts:
  "known 0xA1 0xB6" "known 0xA1 0xB7" "known 0xA3 0xA8" "known 0xA3 0xA9" "known 0xB2 0xCE" "known 0xB5 0xE3"
  "known 0xB6 0xC8" "known 0xB7 0xC0" "known 0xB8 0xE6" "known 0xB9 0xD8" "known 0xBA 0xC5" "known 0xBB 0xF9"
  "known 0xBE 0xAF" "known 0xBF 0xAA" "known 0xC0 0xAD" "known 0xC1 0xA6" "known 0xC1 0xBF" "known 0xC1 0xE3"
  "known 0xC1 0xE9" "known 0xC3 0xEB" "known 0xC3 0xF4" "known 0xC6 0xAB" "known 0xC7 0xF8" "known 0xC9 0xCF"
  "known 0xCA 0xB1" "known 0xCA 0xFD" "known 0xCF 0xC2" "known 0xD1 0xD3" "known 0xD2 0xC6" "known 0xD6 0xB5"
  "known 0xD7 0xBC"
  by (simp_all only: known_code gb_codes) (simp_all add: gb_code_def)

fun line_fits_from :: "nat \<Rightarrow> nat \<Rightarrow> u8 list \<Rightarrow> bool"
  and line_fits_rest :: "nat \<Rightarrow> nat \<Rightarrow> u8 list \<Rightarrow> bool" where
  "line_fits_from c i [] \<longleftrightarrow> True"
| "line_fits_from c i (a # s) \<longleftrightarrow>
     (if known a (next_byte s) then fits 16 0 (c + i * 8) \<and> line_fits_rest c (i + 2) s
      else fits 8 0 (c + i * 8) \<and> line_fits_from c (i + 1) s)"
| "line_fits_rest c i [] \<longleftrightarrow> True"
| "line_fits_rest c i (b # s) \<longleftrightarrow> line_fits_from c i s"

definition line_fits :: "nat \<Rightarrow> u8 list \<Rightarrow> bool" where
  "line_fits c s \<longleftrightarrow> c < 256 \<and> length s < 256 \<and> line_fits_from c 0 s"

lemma fits_page: "fits w 0 x \<Longrightarrow> page < 7 \<Longrightarrow> fits w page x"
  by (simp add: fits_def)

lemma line_fits_glyphs:
  assumes "page < 7"
  shows "line_fits_from c i s \<Longrightarrow> g \<in> set (mixed_glyphs page c p i s) \<Longrightarrow> glyph_fits g"
    and "line_fits_rest c i s \<Longrightarrow> g \<in> set (mixed_rest page c p i s) \<Longrightarrow> glyph_fits g"
proof (induction c i s and c i s rule: line_fits_from_line_fits_rest.induct)
  case (2 c i a s)
  then show ?case using assms
    by (auto simp: known_def intro: placed_fits [OF fits_page] split: option.splits if_splits)
      (auto simp: glyph_fits_def intro: fits_page)
qed (use assms in auto)

lemma Mixed_in_order: "page < 7 \<Longrightarrow> line_fits c s \<Longrightarrow> in_order (Mixed page c s p)"
  unfolding in_order_def line_fits_def by (auto intro: line_fits_glyphs(1))

lemma texts_fit:
  "line_fits 0 t_datum_A_title" "line_fits 0 t_datum_B_title" "line_fits 16 t_delay" "line_fits 16 t_down_offset"
  "line_fits 0 t_monitor_A_title" "line_fits 0 t_monitor_B_title" "line_fits 16 t_sensitivity"
  "line_fits 16 t_tension_range" "line_fits 16 t_up_offset" "line_fits 0 t_wires_12" "line_fits 0 t_wires_34"
  "line_fits 0 t_wires_56" "line_fits 0 t_zero_A_title" "line_fits 0 t_zero_B_title" "line_fits 16 t_zone_A"
  "line_fits 16 t_zone_A_colon" "line_fits 16 t_zone_A_title" "line_fits 16 t_zone_A_wide" "line_fits 16 t_zone_B"
  "line_fits 16 t_zone_B_colon" "line_fits 16 t_zone_B_title" "line_fits 16 t_zone_B_wide"
  "line_fits 16 t_zone_number" "line_fits 32 t_switch_1" "line_fits 32 t_switch_2"
  by (simp_all add: line_fits_def text_defs ascii_def known_texts known_ascii next_byte_def fits_def)

subsection \<open>Numbers\<close>

definition digits :: "nat \<Rightarrow> int \<Rightarrow> u8 list" where
  "digits w x = ascii (fmt_0d w (nat x))"

lemma digits_length [simp]: "0 \<le> x \<Longrightarrow> x < 10 ^ w \<Longrightarrow> 0 < w \<Longrightarrow> length (digits w x) = w"
  using fmt_nat_length(2) [of "nat x" w] by (simp add: digits_def ascii_def fmt_0d_def pad_left_def nat_less_iff)

lemma sprintf_digits: "0 \<le> x \<Longrightarrow> x < 10 ^ w \<Longrightarrow> 0 < w \<Longrightarrow> w < n \<Longrightarrow> sprintf n w x = Some (digits w x)"
  using digits_length [of x w] by (simp add: sprintf_def copy_into_def fmt_0wd_def digits_def)

lemma sprintf_cases [simp]:
  "0 \<le> x \<Longrightarrow> x < 10 \<Longrightarrow> sprintf 2 1 x = Some (digits 1 x)"
  "0 \<le> x \<Longrightarrow> x < 100 \<Longrightarrow> sprintf 3 2 x = Some (digits 2 x)"
  "0 \<le> x \<Longrightarrow> x < 1000 \<Longrightarrow> sprintf 4 3 x = Some (digits 3 x)"
  by (simp_all add: sprintf_digits)

lemma digits_cases [simp]:
  "0 \<le> x \<Longrightarrow> x < 10 \<Longrightarrow> length (digits (Suc 0) x) = 1" "0 \<le> x \<Longrightarrow> x < 100 \<Longrightarrow> length (digits 2 x) = 2"
  "0 \<le> x \<Longrightarrow> x < 1000 \<Longrightarrow> length (digits 3 x) = 3"
  by simp_all

lemma whole_part [simp]:
  assumes "0 \<le> x" "x < 1000"
  shows "sprintf 3 2 (x div 10) = Some (digits 2 (x div 10))" "length (digits 2 (x div 10)) = 2"
proof -
  have "0 \<le> x div 10" "x div 10 < 100" using assms by auto
  then show "sprintf 3 2 (x div 10) = Some (digits 2 (x div 10))" "length (digits 2 (x div 10)) = 2" by simp_all
qed

text \<open>A tension of up to 99.9 kilograms.\<close>

definition tension :: "s16 \<Rightarrow> bool" where
  "tension v \<longleftrightarrow> 0 \<le> sint v \<and> sint v < 1000"

lemma wire_text_digits:
  assumes "tension (w i)" "tension (t i)"
  shows "wire_text w t i =
    Some [Line8 (2 + 2 * (i div 2)) (24 + 64 * (i mod 2)) (digits 2 (sint (w i) div 10)) True,
          Line8 (2 + 2 * (i div 2)) (48 + 64 * (i mod 2)) (digits 1 (sint (t i) mod 10)) True]"
proof -
  have q: "sint (w i) sdiv 10 = sint (w i) div 10" "sint (t i) smod 10 = sint (t i) mod 10"
    using assms by (simp_all add: tension_def signed_divide_int_def signed_modulo_int_def sgn_if)
  have "0 \<le> sint (w i) div 10" "sint (w i) div 10 < 100" using assms(1) by (auto simp: tension_def)
  then show ?thesis by (simp add: wire_text_def q del: One_nat_def)
qed

subsection \<open>Drawable pictures\<close>

text \<open>A picture that starts with an empty display, with every text in its array and on the display.\<close>

definition drawable :: "paint list option \<Rightarrow> bool" where
  "drawable q \<longleftrightarrow> (\<exists>ps. q = Some (Clear # ps) \<and> (\<forall>pt\<in>set ps. in_order pt \<and> pt \<noteq> Clear))"

lemma drawable_Some [simp]: "drawable (Some (Clear # ps)) \<longleftrightarrow> (\<forall>pt\<in>set ps. in_order pt \<and> pt \<noteq> Clear)"
  by (simp add: drawable_def)

lemma drawable_canvas: "drawable q \<Longrightarrow> \<exists>ps. q = Some ps \<and> (\<forall>l. canvas (paint_all ps l) = render ps)"
  using picture_canvas by (fastforce simp: drawable_def)

lemmas order_rules = Line8_in_order Line16_in_order Mixed_in_order Marked_in_order Cell_in_order texts_fit

lemma list_rows_in:
  assumes "row_in r (of_nat (length xs))" "3 \<le> length xs" "length xs < 256"
  obtains a b c where "list_rows line xs r = Some [line 2 16 a True, line 4 16 b True, line 6 16 c True]"
    "a \<in> set xs" "b \<in> set xs" "c \<in> set xs"
proof -
  define i where "i = (if r > 3 then uint r - 3 else 0)"
  have "take_bit 8 (length xs) = length xs" using assms(3) by (simp add: take_bit_nat_eq_self_iff)
  then have "uint r \<le> int (length xs)" using assms(1) by (simp add: row_in_def word_le_def unsigned_of_nat)
  then have "0 \<le> i" "i + 2 < int (length xs)" using assms(2) by (auto simp: i_def word_less_def)
  then have "list_row xs i = Some (xs ! nat i)" "list_row xs (i + 1) = Some (xs ! nat (i + 1))"
    "list_row xs (i + 2) = Some (xs ! nat (i + 2))" by (simp_all add: list_row_def nat_less_iff)
  moreover have "nat i < length xs" "nat (i + 1) < length xs" "nat (i + 2) < length xs"
    using \<open>0 \<le> i\<close> \<open>i + 2 < int (length xs)\<close> by (simp_all add: nat_less_iff)
  ultimately show ?thesis using that [of "xs ! nat i" "xs ! nat (i + 1)" "xs ! nat (i + 2)"]
    by (simp add: list_rows_def i_def [symmetric])
qed

lemma menu_picture_drawable:
  assumes "row_in (row_point u) (of_nat (length xs))" "3 \<le> length xs" "length xs < 256" "in_order title" "title \<noteq> Clear"
    "\<forall>t\<in>set xs. length t \<le> 14"
  shows "drawable (menu_picture title xs u)"
proof -
  obtain a b c where rows: "list_rows Line16 xs (row_point u) = Some [Line16 2 16 a True, Line16 4 16 b True, Line16 6 16 c True]"
    and abc: "a \<in> set xs" "b \<in> set xs" "c \<in> set xs" using list_rows_in [OF assms(1-3)] by blast
  have "in_order (Line16 page 16 t True)" if "page < 7" "t \<in> set xs" for page t
    using that assms(6) by (intro Line16_in_order) auto
  then show ?thesis using abc assms(4,5) by (simp add: menu_picture_def rows)
qed

subsection \<open>The pictures of the menu\<close>

text \<open>Every value has at most the digits of its place.\<close>

definition printable :: "ui \<Rightarrow> bool" where
  "printable u \<longleftrightarrow>
     (\<forall>z<2. uint (field_num (device u) z) < 100 \<and> uint (field_num_temp u z) < 100 \<and>
        uint (alarm_delay (device u) z) < 1000 \<and> uint (alarm_delay_temp u z) < 1000 \<and>
        uint (alarm_sensitivity (device u) z) < 100 \<and> uint (alarm_sensitivity_temp u z) < 100 \<and>
        uint (ten_val_range (device u) z 0) < 1000 \<and> uint (ten_val_range (device u) z 1) < 1000 \<and>
        SW_Type (device u) z \<le> 8 \<and>
        (\<forall>i<6. tension (zero_val (device u) z i) \<and> tension (base_val (device u) z i) \<and> tension (crt_val (device u) z i))) \<and>
     uint (alarm_threshold_up_dif (device u)) < 1000 \<and> uint (alarm_threshold_down_dif (device u)) < 1000 \<and>
     uint (alarm_threshold_up_dif_temp u) < 1000 \<and> uint (alarm_threshold_down_dif_temp u) < 1000"

lemma fixed_pictures:
  "drawable (DisplayOrdinaryUserRootMenu_picture u)" "drawable (DisplayTensionMonitor_picture u)"
  "drawable (DiaplaySetFangQuPara_picture u)" "drawable (DiaplayCalibrationSet_picture u)"
  "drawable (DisplayZeroCalibration_picture u)" "drawable (DisplayDatumCalibration_picture u)"
  "drawable (Displayzhengzaijiaozhun_picture u)" "drawable (DisplayNotAtValidRange_picture u)"
  "drawable (DisplayZhengZaiQingChu_picture u)" "drawable (DisplayInqSysPara_picture u)"
  "drawable (DiaplayInqFangQuPara_picture u)" "drawable (DisplayInqAlarmRecord_picture u)"
  "drawable (DisplayInqCalibrationVal_picture u)" "drawable (DisplayInqZeroVal_picture u)"
  "drawable (DiaplayInqDatumVal_picture u)" "drawable (DisplayClearRuQinAlarmRecord_picture u)"
  "drawable (DisplayClearDuanXianAlarmRecord_picture u)" "drawable (DisplayInqRuQinAlarmRecord_picture u)"
  "drawable (DisplayInqDuanXianAlarmRecord_picture u)" "drawable (DisplaySetEthPara_picture u)"
  "drawable (DisplayInqEthPara_picture u)" "drawable (DisplayPasswordError_picture u)"
  by (simp_all add: DisplayOrdinaryUserRootMenu_picture_def DisplayTensionMonitor_picture_def
      DiaplaySetFangQuPara_picture_def DiaplayCalibrationSet_picture_def DisplayZeroCalibration_picture_def
      DisplayDatumCalibration_picture_def Displayzhengzaijiaozhun_picture_def DisplayNotAtValidRange_picture_def
      DisplayZhengZaiQingChu_picture_def DisplayInqSysPara_picture_def DiaplayInqFangQuPara_picture_def
      DisplayInqAlarmRecord_picture_def DisplayInqCalibrationVal_picture_def DisplayInqZeroVal_picture_def
      DiaplayInqDatumVal_picture_def DisplayClearRuQinAlarmRecord_picture_def DisplayClearDuanXianAlarmRecord_picture_def
      DisplayInqRuQinAlarmRecord_picture_def DisplayInqDuanXianAlarmRecord_picture_def DisplaySetEthPara_picture_def
      DisplayInqEthPara_picture_def DisplayPasswordError_picture_def two_lines_def two_zones_def clear_zones_picture_def
      inq_areas_picture_def double_zone_def net_picture_def order_rules)

lemma list_pictures:
  "row_in (row_point u) 4 \<Longrightarrow> drawable (DisplaySuperUserRootMenu_picture u)"
  "row_in (row_point u) 9 \<Longrightarrow> drawable (DisplaySetMenu_picture u)"
  "row_in (row_point u) 9 \<Longrightarrow> drawable (DisplayInquireMenu_picture u)"
  "row_in (row_point u) 3 \<Longrightarrow> drawable (DisplaySetClearRecord_picture u)"
  by (simp_all add: DisplaySuperUserRootMenu_picture_def DisplaySetMenu_picture_def DisplayInquireMenu_picture_def
      DisplaySetClearRecord_picture_def menu_picture_drawable order_rules)

lemma sys_picture: "row_in (row_point u) 2 \<Longrightarrow> drawable (DisplaySetSysPara_picture u)"
  by (auto simp: DisplaySetSysPara_picture_def two_lines_def order_rules row_in_2)

text \<open>A text of up to \<open>n\<close> bytes cut from an array.\<close>

lemma c_text_length: "length (c_text s) \<le> length s"
  by (simp add: c_text_def length_takeWhile_le)

lemma c_text_take: "length (c_text (take n s)) \<le> n"
  using c_text_length [of "take n s"] by simp

lemma cells_in_order:
  "pt \<in> set (date_cells s m) \<Longrightarrow> in_order pt \<and> pt \<noteq> Clear" "pt \<in> set (time_cells s m) \<Longrightarrow> in_order pt \<and> pt \<noteq> Clear"
  unfolding date_cells_def time_cells_def by (auto simp del: add_mult_distrib add_mult_distrib2 distrib_right_numeral intro!: Cell_in_order)

lemma text_pictures:
  assumes "menu_wf u"
  shows "length temp \<le> 6 \<Longrightarrow> drawable (DisplayRunMenu_picture temp u)" "drawable (DisplayUserLogin_picture u)"
    "drawable (DisplayInputPassword_picture u)"
    "drawable (DisplayInqFangChaiAlarmRecord_picture u)" "drawable (DisplayInqAAreaRuQinAlarmRecord_picture u)"
    "drawable (DisplayInqBAreaRuQinAlarmRecord_picture u)" "drawable (DisplayInqAAreaDuanXianAlarmRecord_picture u)"
    "drawable (DisplayInqBAreaDuanXianAlarmRecord_picture u)"
    "drawable (DisplaySetMacAddr_picture u)" "drawable (DisplayInqMacAddr_picture u)"
    "drawable (DisplaySetIpAddr_picture u)" "drawable (DisplaySetSubnetMask_picture u)" "drawable (DisplaySetGateWay_picture u)"
    "drawable (DisplayInqIpAddr_picture u)" "drawable (DisplayInqSubnetMask_picture u)" "drawable (DisplayInqGateWay_picture u)"
    "current_screen u = SetBaseAutoCalibrateTimeScreen \<Longrightarrow> drawable (DisplaySetBaseAutoCalibrateTime_picture u)"
    "drawable (DisplaySetDateTime_picture u)"
proof -
  note cut = c_text_take [of 16] c_text_take [of 15] c_text_take [of 8]
  have line: "page < 7 \<Longrightarrow> in_order (Line8 page 0 (c_text (take 16 s)) p)"
    "page < 7 \<Longrightarrow> in_order (Line8 page 0 (c_text (take 15 s)) p)"
    "page < 7 \<Longrightarrow> in_order (Line8 page 32 (c_text (take 8 s)) p)"
    "page < 7 \<Longrightarrow> in_order (Marked page 0 (c_text (take 15 s)) pos)" for page s p pos
    using cut [of s] by (auto intro!: Line8_in_order Marked_in_order)
  show "length temp \<le> 6 \<Longrightarrow> drawable (DisplayRunMenu_picture temp u)"
    by (simp add: DisplayRunMenu_picture_def order_rules line)
  show "drawable (DisplayUserLogin_picture u)" "drawable (DisplayInputPassword_picture u)"
    using assms by (auto simp: wf_defs DisplayUserLogin_picture_def DisplayInputPassword_picture_def copy_into_def order_rules)
  show "drawable (DisplayInqFangChaiAlarmRecord_picture u)" "drawable (DisplayInqAAreaRuQinAlarmRecord_picture u)"
    "drawable (DisplayInqBAreaRuQinAlarmRecord_picture u)" "drawable (DisplayInqAAreaDuanXianAlarmRecord_picture u)"
    "drawable (DisplayInqBAreaDuanXianAlarmRecord_picture u)"
    by (simp_all add: DisplayInqFangChaiAlarmRecord_picture_def DisplayInqAAreaRuQinAlarmRecord_picture_def
        DisplayInqBAreaRuQinAlarmRecord_picture_def DisplayInqAAreaDuanXianAlarmRecord_picture_def
        DisplayInqBAreaDuanXianAlarmRecord_picture_def records_picture_def UpdateAlarmRecord_picture_def order_rules line)
  show "drawable (DisplaySetMacAddr_picture u)" "drawable (DisplayInqMacAddr_picture u)"
    by (simp_all add: DisplaySetMacAddr_picture_def DisplayInqMacAddr_picture_def mac_lines_def order_rules line)
  show "drawable (DisplaySetIpAddr_picture u)" "drawable (DisplaySetSubnetMask_picture u)" "drawable (DisplaySetGateWay_picture u)"
    "drawable (DisplayInqIpAddr_picture u)" "drawable (DisplayInqSubnetMask_picture u)" "drawable (DisplayInqGateWay_picture u)"
    by (simp_all add: DisplaySetIpAddr_picture_def DisplaySetSubnetMask_picture_def DisplaySetGateWay_picture_def
        DisplayInqIpAddr_picture_def DisplayInqSubnetMask_picture_def DisplayInqGateWay_picture_def address_line_def
        address_text_def order_rules line)
  show "current_screen u = SetBaseAutoCalibrateTimeScreen \<Longrightarrow> drawable (DisplaySetBaseAutoCalibrateTime_picture u)"
    using assms c_text_length [of "base_auto_calibrate_time_tmp u"]
    by (simp add: wf_defs DisplaySetBaseAutoCalibrateTime_picture_def order_rules)
  show "drawable (DisplaySetDateTime_picture u)"
    by (auto simp: DisplaySetDateTime_picture_def Let_def order_rules dest: cells_in_order)
qed

lemma wires_drawable:
  assumes "\<forall>i<6. tension (w i) \<and> tension (t i)" "line_fits 0 title"
  shows "drawable (wires_picture title w t)"
proof -
  have d: "in_order (Line8 page c (digits 2 (sint (w i) div 10)) True)" "in_order (Line8 page c (digits 1 (sint (t i) mod 10)) True)"
    if "page < 7" "c mod 8 = 0" "c \<le> 112" "i < 6" for page c i
  proof -
    have v: "0 \<le> sint (w i)" "sint (w i) < 1000" using assms(1) that(4) by (auto simp: tension_def)
    then show "in_order (Line8 page c (digits 2 (sint (w i) div 10)) True)"
      using that by (intro Line8_in_order) auto
    show "in_order (Line8 page c (digits 1 (sint (t i) mod 10)) True)"
      using that by (intro Line8_in_order) (auto simp del: One_nat_def)
  qed
  show ?thesis
    using assms by (simp add: wires_picture_def wire_text_digits d Mixed_in_order texts_fit del: One_nat_def)
qed

lemma wires_pictures:
  assumes "printable u"
  shows "drawable (DisplayAareaZeroVal_picture u)" "drawable (DisplayBareaZeroVal_picture u)"
    "drawable (DisplayAareaDatumVal_picture u)" "drawable (DisplayBareaDatumVal_picture u)"
    "drawable (DiaplayAFangQuMonitor_picture u)" "drawable (DiaplayBFangQuMonitor_picture u)"
proof -
  have "\<forall>i<6. tension (zero_val (device u) z i) \<and> tension (base_val (device u) z i) \<and> tension (crt_val (device u) z i)"
    if "z < 2" for z using assms that by (simp add: printable_def)
  note v = this [of 0, simplified] this [of 1, simplified]
  show "drawable (DisplayAareaZeroVal_picture u)" "drawable (DisplayBareaZeroVal_picture u)"
    "drawable (DisplayAareaDatumVal_picture u)" "drawable (DisplayBareaDatumVal_picture u)"
    "drawable (DiaplayAFangQuMonitor_picture u)" "drawable (DiaplayBFangQuMonitor_picture u)"
    unfolding DisplayAareaZeroVal_picture_def DisplayBareaZeroVal_picture_def DisplayAareaDatumVal_picture_def
      DisplayBareaDatumVal_picture_def DiaplayAFangQuMonitor_picture_def DiaplayBFangQuMonitor_picture_def Let_def
    using v by (auto intro!: wires_drawable texts_fit)
qed

text \<open>Parts of a picture.\<close>

definition parts :: "paint list option \<Rightarrow> bool" where
  "parts q \<longleftrightarrow> (\<exists>ps. q = Some ps \<and> (\<forall>pt\<in>set ps. in_order pt \<and> pt \<noteq> Clear))"

lemma parts_Some [simp]: "parts (Some ps) \<longleftrightarrow> (\<forall>pt\<in>set ps. in_order pt \<and> pt \<noteq> Clear)"
  by (simp add: parts_def)

lemma rows_parts:
  assumes "row_in r (of_nat (length xs))" "3 \<le> length xs" "length xs < 256" "\<forall>t\<in>set xs. line_fits 16 t"
  shows "parts (list_rows Mixed xs r)"
  by (rule list_rows_in [OF assms(1-3), of Mixed]) (use assms(4) in \<open>simp add: Mixed_in_order\<close>)

lemma zone_numbers_parts:
  "uint number < 100 \<Longrightarrow> uint delay < 1000 \<Longrightarrow> uint sensitivity < 100 \<Longrightarrow> parts (zone_numbers number delay sensitivity e)"
  by (simp add: zone_numbers_def order_rules)

lemma zone_pictures:
  assumes "printable u" "z < 2" "line_fits 16 title"
  shows "row_in (row_point u) 3 \<Longrightarrow> drawable (set_zone_picture z title u)"
    "row_in (row_point u) 4 \<Longrightarrow> drawable (inq_zone_picture z title u)"
proof -
  have v: "uint (field_num (device u) z) < 100" "uint (field_num_temp u z) < 100"
    "uint (alarm_delay (device u) z) < 1000" "uint (alarm_delay_temp u z) < 1000"
    "uint (alarm_sensitivity (device u) z) < 100" "uint (alarm_sensitivity_temp u z) < 100"
    "uint (ten_val_range (device u) z 0) < 1000" "uint (ten_val_range (device u) z 1) < 1000"
    using assms(1,2) by (simp_all add: printable_def)
  show "drawable (set_zone_picture z title u)" if r: "row_in (row_point u) 3"
  proof -
    have "parts (list_rows Mixed [t_zone_number, t_delay, t_sensitivity] (row_point u))"
      using r by (intro rows_parts) (simp_all add: texts_fit)
    then obtain rows where rows: "list_rows Mixed [t_zone_number, t_delay, t_sensitivity] (row_point u) = Some rows"
      and ok: "\<forall>pt\<in>set rows. in_order pt \<and> pt \<noteq> Clear" by (auto simp: parts_def)
    let ?vals = "if flag_PageState u
          then zone_numbers (field_num (device u) z) (alarm_delay (device u) z) (alarm_sensitivity (device u) z) 0
        else if row_point u = 1
          then zone_numbers (field_num_temp u z) (alarm_delay (device u) z) (alarm_sensitivity_temp u z) 1
        else if row_point u = 2
          then zone_numbers (field_num (device u) z) (alarm_delay_temp u z) (alarm_sensitivity_temp u z) 2
        else if row_point u = 3
          then zone_numbers (field_num (device u) z) (alarm_delay (device u) z) (alarm_sensitivity_temp u z) 3
        else Some []"
    have "parts ?vals" using v by (simp add: zone_numbers_parts)
    then obtain vals where "?vals = Some vals" "\<forall>pt\<in>set vals. in_order pt \<and> pt \<noteq> Clear" by (auto simp: parts_def)
    then show ?thesis using ok assms(3) by (simp add: set_zone_picture_def rows Let_def Mixed_in_order ball_Un)
  qed
  show "drawable (inq_zone_picture z title u)" if r: "row_in (row_point u) 4"
  proof -
    have "parts (list_rows Mixed [t_zone_number, t_delay, t_tension_range, t_sensitivity] (row_point u))"
      using r by (intro rows_parts) (simp_all add: texts_fit)
    then obtain rows where rows: "list_rows Mixed [t_zone_number, t_delay, t_tension_range, t_sensitivity] (row_point u) = Some rows"
      and ok: "\<forall>pt\<in>set rows. in_order pt \<and> pt \<noteq> Clear" by (auto simp: parts_def)
    show ?thesis using ok assms(3) v by (simp add: inq_zone_picture_def rows Let_def order_rules ball_Un)
  qed
qed

lemma zone_blank_fits: "page < 7 \<Longrightarrow> in_order (Line16 page 24 t_zone_blank p)"
proof -
  assume p: "page < 7"
  have "\<not> known 0x20 0x20" by (simp add: known_ascii)
  then have "find_GB16x16 0x20 0x20 = None" by (simp add: known_def)
  then show ?thesis using p
    by (auto simp: in_order_def t_zone_blank_def placed_def glyph_fits_def fits_def upt_rec split: option.splits)
qed

lemma threshold_parts: "uint v < 1000 \<Longrightarrow> page < 7 \<Longrightarrow> parts (threshold_text page v p q)"
  by (simp add: threshold_text_def order_rules del: One_nat_def)

lemma edited_threshold_parts: "uint v < 1000 \<Longrightarrow> page < 7 \<Longrightarrow> parts (edited_threshold page v u)"
  using threshold_parts [of v page "sint (row_fx_pos u) \<noteq> 1" "sint (row_fx_pos u) \<noteq> 2"]
  by (auto simp: edited_threshold_def parts_def)

lemma threshold_pictures:
  assumes "printable u"
  shows "drawable (DisplayInqAlarmThreshold_picture u)" "drawable (DiaplaySetAlarmThreshold_picture u)"
proof -
  have v: "uint (alarm_threshold_up_dif (device u)) < 1000" "uint (alarm_threshold_down_dif (device u)) < 1000"
    "uint (alarm_threshold_up_dif_temp u) < 1000" "uint (alarm_threshold_down_dif_temp u) < 1000"
    using assms by (simp_all add: printable_def)
  have both: "parts (do { a \<leftarrow> x; b \<leftarrow> y; Some (a @ b) })" if "parts x" "parts y" for x y
    using that by (auto simp: parts_def)
  have titled: "drawable (do { vals \<leftarrow> q; Some ([Clear, Line16 0 16 t_threshold_title True, Mixed 2 16 t_up_offset True,
      Mixed 4 16 t_down_offset True] @ vals) })" if "parts q" for q
    using that by (auto simp: parts_def order_rules)
  show "drawable (DiaplaySetAlarmThreshold_picture u)"
    unfolding DiaplaySetAlarmThreshold_picture_def Let_def
    using v by (intro titled) (simp add: both threshold_parts edited_threshold_parts)
  have "drawable (do { vals \<leftarrow> do { a \<leftarrow> threshold_text 2 (alarm_threshold_up_dif (device u)) True True;
      b \<leftarrow> threshold_text 4 (alarm_threshold_down_dif (device u)) True True; Some (a @ b) };
      Some ([Clear, Line16 0 16 t_threshold_title True, Mixed 2 16 t_up_offset True, Mixed 4 16 t_down_offset True] @ vals) })"
    using v by (intro titled both threshold_parts) auto
  then show "drawable (DisplayInqAlarmThreshold_picture u)" by (simp add: DisplayInqAlarmThreshold_picture_def)
qed

lemma arming_pictures: "drawable (DiaplaySetBuFangPara_picture u)" "drawable (DisplayInqBuFangPara_picture u)"
proof -
  have arm: "in_order (Line16 2 64 (on_off f) p)" "in_order (Line16 4 64 (on_off f) p)" "in_order (Line16 6 96 (on_off f) p)"
    for f p by (simp_all add: on_off_def order_rules)
  show "drawable (DiaplaySetBuFangPara_picture u)" "drawable (DisplayInqBuFangPara_picture u)"
    by (simp_all add: DiaplaySetBuFangPara_picture_def DisplayInqBuFangPara_picture_def arm_A_def arm_B_def arm_tamper_def
        double_zone_def edited_def Let_def arm zone_blank_fits order_rules ball_Un)
      (auto simp: arm)
qed

lemma device_names_8: "\<forall>t\<in>set device_names. length t \<le> 8"
  by (simp add: device_names_def)

lemma device_picture:
  assumes "printable u"
  shows "drawable (DiaplaySetExtDeviceTypeScreen_picture u)"
proof -
  have name: "\<exists>s. device_text 16 q (SW_Type (device u) z) = Some s \<and> length s \<le> 8" if "z < 2" for z q
  proof -
    have "SW_Type (device u) z \<le> 8" using assms that by (simp add: printable_def)
    moreover have "unat (SW_Type (device u) z) < length device_names"
      using \<open>SW_Type (device u) z \<le> 8\<close> by (simp add: device_names_def word_le_nat_alt)
    ultimately show ?thesis using device_names_8 nth_mem by (fastforce simp: device_text_def copy_into_def)
  qed
  obtain A B where "device_text 16 None (SW_Type (device u) 0) = Some A" "length A \<le> 8"
    "device_text 16 None (SW_Type (device u) 1) = Some B" "length B \<le> 8" using name [of 0 None] name [of 1 None] by auto
  moreover have "in_order (Line16 page 64 s p)" if "page < 7" "length s \<le> 8" for page s p
    using that by (intro Line16_in_order) auto
  ultimately show ?thesis
    by (simp add: DiaplaySetExtDeviceTypeScreen_picture_def both_devices_def double_zone_def order_rules ball_Un)
qed

end
