(* ===== verification/ScreenShown.thy ===== *)
theory ScreenShown
  imports MenuGuard
begin

text \<open>
  The screen the menu is on is the one on the display: whatever a round of \<^verbatim>\<open>main_task\<close> does, the last picture it
  drew is the picture of the screen it leaves the menu on.
\<close>

text \<open>The function of \<^verbatim>\<open>DisplayMenu.c\<close> that draws a screen.\<close>

definition screen_name :: "screen \<Rightarrow> string" where
  "screen_name s =
     (if s = RunScreen then ''DisplayRunMenu''
      else if s = SetScreen then ''DisplaySetMenu''
      else if s = InqScreen then ''DisplayInquireMenu''
      else if s = VerScreen then ''DisplayVersionMenu''
      else if s = SetSysScreen then ''DisplaySetSysPara''
      else if s = SetFangQuParaScreen then ''DiaplaySetFangQuPara''
      else if s = SetAFangQuParaScreen then ''DisplaySetAFangQuPara''
      else if s = SetBFangQuParaScreen then ''DisplaySetBFangQuPara''
      else if s = SetBuFangParaScreen then ''DiaplaySetBuFangPara''
      else if s = SetClearRecordScreen then ''DisplaySetClearRecord''
      else if s = InqSysParaScreen then ''DisplayInqSysPara''
      else if s = InqFangQuParaScreen then ''DiaplayInqFangQuPara''
      else if s = InqAFangQuParaScreen then ''DiaplayInqAFangQuPara''
      else if s = InqBFangQuParaScreen then ''DiaplayInqBFangQuPara''
      else if s = InqBuFangParaScreen then ''DisplayInqBuFangPara''
      else if s = InqAlarmRecordScreen then ''DisplayInqAlarmRecord''
      else if s = SetDateTimeScreen then ''DisplaySetDateTime''
      else if s = SetEthParaScreen then ''DisplaySetEthPara''
      else if s = InqDuanLuAlarmScreen then ''DisplayInqRuQinAlarmRecord''
      else if s = InqDuanXianAlarmScreen then ''DisplayInqDuanXianAlarmRecord''
      else if s = InqFangChaiAlarmRecordScreen then ''DisplayInqFangChaiAlarmRecord''
      else if s = InqEthParaScreen then ''DisplayInqEthPara''
      else if s = SetMacAddrScreen then ''DisplaySetMacAddr''
      else if s = SetIpAddrScreen then ''DisplaySetIpAddr''
      else if s = SetSubnetMaskScreen then ''DisplaySetSubnetMask''
      else if s = SetGateWayScreen then ''DisplaySetGateWay''
      else if s = InqMacAddrScreen then ''DisplayInqMacAddr''
      else if s = InqIpAddrScreen then ''DisplayInqIpAddr''
      else if s = InqSubnetMaskScreen then ''DisplayInqSubnetMask''
      else if s = InqGateWayScreen then ''DisplayInqGateWay''
      else if s = InqAAreaDuanLuAlarmRecordScreen then ''DisplayInqAAreaRuQinAlarmRecord''
      else if s = InqBAreaDuanLuAlarmRecordScreen then ''DisplayInqBAreaRuQinAlarmRecord''
      else if s = InqAAreaDuanXianAlarmRecordScreen then ''DisplayInqAAreaDuanXianAlarmRecord''
      else if s = InqBAreaDuanXianAlarmRecordScreen then ''DisplayInqBAreaDuanXianAlarmRecord''
      else if s = ClearDuanLuAlarmRecordScreen then ''DisplayClearRuQinAlarmRecord''
      else if s = ClearDuanXianAlarmRecordScreen then ''DisplayClearDuanXianAlarmRecord''
      else if s = InputPasswordScreen then ''DisplayInputPassword''
      else if s = PasswordErrorScreen then ''DisplayPasswordError''
      else if s = AlarmTypeListScreen then ''DisplayAlarmTypeList''
      else if s = SetExtDeviceTypeScreen then ''DiaplaySetExtDeviceTypeScreen''
      else if s = UserLoginScreen then ''DisplayUserLogin''
      else if s = SuperUserRootScreen then ''DisplaySuperUserRootMenu''
      else if s = OrdinaryUserRootScreen then ''DisplayOrdinaryUserRootMenu''
      else if s = TensionMonitorScreen then ''DisplayTensionMonitor''
      else if s = AFangQuMonitorScreen then ''DiaplayAFangQuMonitor''
      else if s = BFangQuMonitorScreen then ''DiaplayBFangQuMonitor''
      else if s = SetAlarmThresholdScreen then ''DiaplaySetAlarmThreshold''
      else if s = CalibrationSetScreen then ''DiaplayCalibrationSet''
      else if s = ZeroCalibrationScreen then ''DisplayZeroCalibration''
      else if s = DatumCalibrationScreen then ''DisplayDatumCalibration''
      else if s = InqAlarmThresholdScreen then ''DisplayInqAlarmThreshold''
      else if s = InqCalibrationValScreen then ''DisplayInqCalibrationVal''
      else if s = InqExtDeviceTypeScreen then ''DisplayInqExtDeviceType''
      else if s = InqZeroValScreen then ''DisplayInqZeroVal''
      else if s = InqDatumValScreen then ''DiaplayInqDatumVal''
      else if s = AzeroCalibrationScreen then ''Displayzhengzaijiaozhun''
      else if s = BzeroCalibrationScreen then ''Displayzhengzaijiaozhun''
      else if s = AdatumCalibrationScreen then ''Displayzhengzaijiaozhun''
      else if s = BdatumCalibrationScreen then ''Displayzhengzaijiaozhun''
      else if s = NotAtValidRangeScreen then ''DisplayNotAtValidRange''
      else if s = CaliOverAareaZeroValScreen then ''DisplayAareaZeroVal''
      else if s = CaliOverBareaZeroValScreen then ''DisplayBareaZeroVal''
      else if s = CaliOverAareaDatumValScreen then ''DisplayAareaDatumVal''
      else if s = CaliOverBareaDatumValScreen then ''DisplayBareaDatumVal''
      else if s = InqAareaZeroValScreen then ''DisplayAareaZeroVal''
      else if s = InqBareaZeroValScreen then ''DisplayBareaZeroVal''
      else if s = InqAareaDatumValScreen then ''DisplayAareaDatumVal''
      else if s = InqBareaDatumValScreen then ''DisplayBareaDatumVal''
      else if s = SetFullScaleScreen then ''DisplaySetFullScale''
      else if s = InqFullScaleScreen then ''DisplayInqFullScale''
      else if s = SetBaseAutoCalibrateTimeScreen then ''DisplaySetBaseAutoCalibrateTime''
      else if s = InqBaseAutoCalibrateTimeScreen then ''DisplayInqBaseAutoCalibrateTime''
      else [])"

text \<open>
  The last picture: records and alarms are lines in one.  Before the first, the display shows what the start of the
  system has drawn.
\<close>

fun draws :: "string \<Rightarrow> drawing \<Rightarrow> string" where
  "draws n (Draw m) = (if m = ''UpdateAlarmRecord'' \<or> take 6 m = ''alarm '' then n else m)"
| "draws n (Arrow p) = n"

definition last_picture :: "drawing list \<Rightarrow> string" where
  "last_picture ds = foldl draws ''DisplayInitMenu'' ds"

definition displayed :: "ui \<Rightarrow> bool" where
  "displayed u \<longleftrightarrow> last_picture (drawn u) = screen_name (current_screen u) \<or>
     last_picture (drawn u) = ''DisplayInitMenu'' \<and> current_screen u = RunScreen"

lemma screen_name_simps [simp]:
  "screen_name 3 = ''DisplaySetMenu''" "screen_name 4 = ''DisplayInquireMenu''"
  "screen_name 5 = ''DisplayVersionMenu''" "screen_name 6 = ''DisplaySetSysPara''"
  "screen_name 7 = ''DiaplaySetFangQuPara''" "screen_name 8 = ''DisplaySetAFangQuPara''"
  "screen_name 9 = ''DisplaySetBFangQuPara''" "screen_name 10 = ''DiaplaySetBuFangPara''"
  "screen_name 11 = ''DisplaySetClearRecord''" "screen_name 12 = ''DisplayInqSysPara''"
  "screen_name 13 = ''DiaplayInqFangQuPara''" "screen_name 14 = ''DiaplayInqAFangQuPara''"
  "screen_name 15 = ''DiaplayInqBFangQuPara''" "screen_name 16 = ''DisplayInqBuFangPara''"
  "screen_name 17 = ''DisplayInqAlarmRecord''" "screen_name 18 = ''DisplaySetDateTime''"
  "screen_name 19 = ''DisplaySetEthPara''" "screen_name 25 = ''DisplayInqRuQinAlarmRecord''"
  "screen_name 26 = ''DisplayInqDuanXianAlarmRecord''" "screen_name 27 = ''DisplayInqFangChaiAlarmRecord''"
  "screen_name 28 = ''DisplayInqEthPara''" "screen_name 30 = ''DisplaySetMacAddr''"
  "screen_name 31 = ''DisplaySetIpAddr''" "screen_name 32 = ''DisplaySetSubnetMask''"
  "screen_name 33 = ''DisplaySetGateWay''" "screen_name 34 = ''DisplayInqMacAddr''"
  "screen_name 35 = ''DisplayInqIpAddr''" "screen_name 36 = ''DisplayInqSubnetMask''"
  "screen_name 37 = ''DisplayInqGateWay''" "screen_name 38 = ''DisplayInqAAreaRuQinAlarmRecord''"
  "screen_name 39 = ''DisplayInqBAreaRuQinAlarmRecord''"
  "screen_name 40 = ''DisplayInqAAreaDuanXianAlarmRecord''"
  "screen_name 41 = ''DisplayInqBAreaDuanXianAlarmRecord''" "screen_name 42 = ''DisplayClearRuQinAlarmRecord''"
  "screen_name 43 = ''DisplayClearDuanXianAlarmRecord''" "screen_name 44 = ''DisplayInputPassword''"
  "screen_name 45 = ''DisplayPasswordError''" "screen_name 46 = ''DisplayAlarmTypeList''"
  "screen_name 47 = ''DiaplaySetExtDeviceTypeScreen''" "screen_name 48 = ''DisplayUserLogin''"
  "screen_name 49 = ''DisplaySuperUserRootMenu''" "screen_name 50 = ''DisplayOrdinaryUserRootMenu''"
  "screen_name 100 = ''DisplayTensionMonitor''" "screen_name 101 = ''DiaplayAFangQuMonitor''"
  "screen_name 102 = ''DiaplayBFangQuMonitor''" "screen_name 103 = ''DiaplaySetAlarmThreshold''"
  "screen_name 104 = ''DiaplayCalibrationSet''" "screen_name 105 = ''DisplayZeroCalibration''"
  "screen_name 106 = ''DisplayDatumCalibration''" "screen_name 107 = ''DisplayInqAlarmThreshold''"
  "screen_name 108 = ''DisplayInqCalibrationVal''" "screen_name 109 = ''DisplayInqExtDeviceType''"
  "screen_name 110 = ''DisplayInqZeroVal''" "screen_name 111 = ''DiaplayInqDatumVal''"
  "screen_name 112 = ''Displayzhengzaijiaozhun''" "screen_name 113 = ''Displayzhengzaijiaozhun''"
  "screen_name 114 = ''Displayzhengzaijiaozhun''" "screen_name 115 = ''Displayzhengzaijiaozhun''"
  "screen_name 116 = ''DisplayNotAtValidRange''" "screen_name 117 = ''DisplayAareaZeroVal''"
  "screen_name 118 = ''DisplayBareaZeroVal''" "screen_name 119 = ''DisplayAareaDatumVal''"
  "screen_name 120 = ''DisplayBareaDatumVal''" "screen_name 121 = ''DisplayAareaZeroVal''"
  "screen_name 122 = ''DisplayBareaZeroVal''" "screen_name 123 = ''DisplayAareaDatumVal''"
  "screen_name 124 = ''DisplayBareaDatumVal''" "screen_name 125 = ''DisplaySetFullScale''"
  "screen_name 126 = ''DisplayInqFullScale''" "screen_name 127 = ''DisplaySetBaseAutoCalibrateTime''"
  "screen_name 128 = ''DisplayInqBaseAutoCalibrateTime''" "screen_name (Suc 0) = ''DisplayRunMenu''"
  by (simp_all add: screen_name_def)

lemma last_picture_append [simp]: "last_picture (ds @ es) = foldl draws (last_picture ds) es"
  by (simp add: last_picture_def)

definition keeps_shown :: "screen \<Rightarrow> u32 \<Rightarrow> ui \<Rightarrow> ui \<Rightarrow> bool" where
  "keeps_shown s key u u' \<longleftrightarrow> (current_screen u = s \<longrightarrow> displayed u \<longrightarrow> displayed u')"

lemma keeps_shownI:
  "(\<And>key u. current_screen u = s \<Longrightarrow> displayed u \<Longrightarrow> displayed (f key u)) \<Longrightarrow> every (keeps_shown s) f"
  by (simp add: every_def keeps_shown_def)

subsection \<open>Drawing and moving\<close>

definition pic :: "string \<Rightarrow> bool" where
  "pic n \<longleftrightarrow> n \<noteq> ''UpdateAlarmRecord'' \<and> take 6 n \<noteq> ''alarm ''"

lemma last_draw [simp]:
  "pic n \<Longrightarrow> last_picture (drawn (draw n u)) = n" "last_picture (drawn (draw ''UpdateAlarmRecord'' u)) = last_picture (drawn u)"
  "last_picture (drawn (arrow u)) = last_picture (drawn u)" "last_picture (drawn (arrow_capped u)) = last_picture (drawn u)"
  by (simp_all add: draw_def pic_def arrow_def arrow_capped_def)

lemma drawn_kept [simp]:
  "drawn (on_device f u) = drawn u" "drawn (store_arm_A u) = drawn u" "drawn (store_arm_B u) = drawn u"
  "drawn (store_tamper u) = drawn u" "drawn (MacAddrInsertMaohao u) = drawn u" "drawn (SetIpAddr u) = drawn u"
  "drawn (SetSubNetMask u) = drawn u" "drawn (SetGateWay u) = drawn u"
  by (simp_all add: on_device_def store_arm_A_def store_arm_B_def store_tamper_def MacAddrInsertMaohao_def SetIpAddr_def
      SetSubNetMask_def SetGateWay_def)

lemma screen_kept [simp]:
  "current_screen (row_up n u) = current_screen u" "current_screen (row_down n u) = current_screen u"
  "current_screen (fx_left k u) = current_screen u" "current_screen (fx_right k u) = current_screen u"
  "current_screen (octet_left u) = current_screen u" "current_screen (octet_right u) = current_screen u"
  "current_screen (number_left k u) = current_screen u" "current_screen (set_digit c u) = current_screen u"
  "current_screen (store_arm_A u) = current_screen u" "current_screen (store_arm_B u) = current_screen u"
  "current_screen (store_tamper u) = current_screen u" "current_screen (MacAddrInsertMaohao u) = current_screen u"
  "current_screen (SetIpAddr u) = current_screen u" "current_screen (SetSubNetMask u) = current_screen u"
  "current_screen (SetGateWay u) = current_screen u" "current_screen (GetIpAddr u) = current_screen u"
  "current_screen (GetSubNetMask u) = current_screen u" "current_screen (GetGateWay u) = current_screen u"
  by (simp_all add: row_up_eq row_down_eq fx_left_eq fx_right_eq octet_left_def octet_right_def number_left_def Let_def
      set_digit_def store_arm_A_def store_arm_B_def store_tamper_def MacAddrInsertMaohao_def SetIpAddr_def
      SetSubNetMask_def SetGateWay_def GetIpAddr_def GetSubNetMask_def GetGateWay_def)

lemma shown_if: "displayed (if b then u else v) \<longleftrightarrow> (if b then displayed u else displayed v)"
  by simp

lemma screen_if [simp]: "current_screen (if b then u else v) = (if b then current_screen u else current_screen v)"
  by simp

lemma shown_keys4:
  "displayed (esc u) \<Longrightarrow> displayed (enter u) \<Longrightarrow> displayed (up u) \<Longrightarrow> displayed (down u) \<Longrightarrow> displayed u \<Longrightarrow> displayed (keys4 esc enter up down key u)"
  by (simp add: keys4_def)

lemma shown_keys6:
  "displayed (keys4 esc enter up down key u) \<Longrightarrow> displayed (left u) \<Longrightarrow> displayed (right u) \<Longrightarrow>
    displayed (keys6 esc enter up down left right key u)"
  by (simp add: keys6_def)

lemma shown_draw [simp]:
  "pic n \<Longrightarrow> screen_name (current_screen u) = n \<Longrightarrow> displayed (draw n u)"
  "displayed (arrow u) = displayed u" "displayed (arrow_capped u) = displayed u" "displayed (draw ''UpdateAlarmRecord'' u) = displayed u"
  by (simp_all add: displayed_def)

lemma shown_other [simp]:
  "displayed (u\<lparr>row_fx_pos := x1\<rparr>) = displayed u" "displayed (u\<lparr>device := x2\<rparr>) = displayed u" "displayed (on_device f u) = displayed u"
  "displayed (u\<lparr>clock_ops := x3\<rparr>) = displayed u" "displayed (u\<lparr>flag_PageState := x4\<rparr>) = displayed u" "displayed (u\<lparr>no_key_num := x5\<rparr>) = displayed u"
  "displayed (store_arm_A u) = displayed u" "displayed (store_arm_B u) = displayed u" "displayed (store_tamper u) = displayed u"
  "displayed (SetIpAddr u) = displayed u" "displayed (SetSubNetMask u) = displayed u" "displayed (SetGateWay u) = displayed u"
  by (simp_all add: displayed_def on_device_def)

lemma shown_move [simp]:
  "last_picture (drawn (display (u\<lparr>row_point := 1\<rparr>))) = screen_name s \<Longrightarrow> displayed (goto_screen s display u)"
  "last_picture (drawn (display u)) = screen_name s \<Longrightarrow> displayed (goto_late s display u)"
  "last_picture (drawn (display u)) = screen_name s \<Longrightarrow> displayed (show_screen s display u)"
  by (simp_all add: displayed_def goto_screen_def goto_late_def show_screen_def)

lemma shown_back [simp]:
  "displayed (back_to_root u)" "displayed (back_to_SetMenu u)" "displayed (back_to_InqMenu u)" "displayed (back_to_login u)"
  "displayed (back_to_InqAlarmRecord u)"
  by (simp_all add: back_to_root_def back_to_SetMenu_def back_to_InqMenu_def back_to_InqAlarmRecord_def pic_def)
    (simp add: back_to_login_def displayed_def pic_def)

subsection \<open>The screens\<close>

lemmas shown_defs = pic_def Let_def DisplayRunMenu_def DiaplaySetFangQuPara_def DisplaySetMacAddr_def DisplayInqMacAddr_def
  toggle_user_def check_password_def

lemma nav_shown:
  "every (keeps_shown UserLoginScreen) on_UserLoginScreen"
  "every (keeps_shown InputPasswordScreen) on_InputPasswordScreen"
  "every (keeps_shown PasswordErrorScreen) on_PasswordErrorScreen"
  "every (keeps_shown SuperUserRootScreen) on_SuperUserRootScreen"
  "every (keeps_shown OrdinaryUserRootScreen) on_OrdinaryUserRootScreen"
  "every (keeps_shown SetScreen) on_SetScreen" "every (keeps_shown InqScreen) on_InqScreen"
  "every (keeps_shown TensionMonitorScreen) on_TensionMonitorScreen"
  "every (keeps_shown VerScreen) on_VerScreen" "every (keeps_shown SetSysScreen) on_SetSysScreen"
  "every (keeps_shown SetFangQuParaScreen) on_SetFangQuParaScreen"
  "every (keeps_shown CalibrationSetScreen) on_CalibrationSetScreen"
  "every (keeps_shown SetEthParaScreen) on_SetEthParaScreen"
  "every (keeps_shown SetMacAddrScreen) on_SetMacAddrScreen"
  by (rule keeps_shownI; simp only: on_UserLoginScreen_def on_InputPasswordScreen_def on_PasswordErrorScreen_def
        on_SuperUserRootScreen_def on_OrdinaryUserRootScreen_def on_SetScreen_def on_InqScreen_def
        on_TensionMonitorScreen_def on_VerScreen_def on_SetSysScreen_def on_SetFangQuParaScreen_def
        on_CalibrationSetScreen_def on_SetEthParaScreen_def on_SetMacAddrScreen_def;
      (rule shown_keys4)?; simp add: shown_defs displayed_def [of "current_screen_update f u" for f u])+

lemma inq_shown:
  "every (keeps_shown InqSysParaScreen) on_InqSysParaScreen"
  "every (keeps_shown InqFangQuParaScreen) on_InqFangQuParaScreen"
  "every (keeps_shown InqBuFangParaScreen) on_InqBuFangParaScreen"
  "every (keeps_shown InqAlarmThresholdScreen) on_InqAlarmThresholdScreen"
  "every (keeps_shown InqExtDeviceTypeScreen) on_InqExtDeviceTypeScreen"
  "every (keeps_shown InqFullScaleScreen) on_InqFullScaleScreen"
  "every (keeps_shown InqBaseAutoCalibrateTimeScreen) on_InqBaseAutoCalibrateTimeScreen"
  "every (keeps_shown InqCalibrationValScreen) on_InqCalibrationValScreen"
  "every (keeps_shown InqZeroValScreen) on_InqZeroValScreen"
  "every (keeps_shown InqDatumValScreen) on_InqDatumValScreen"
  "every (keeps_shown InqAareaZeroValScreen) on_InqAareaZeroValScreen"
  "every (keeps_shown InqBareaZeroValScreen) on_InqAareaZeroValScreen"
  "every (keeps_shown InqAareaDatumValScreen) on_InqAareaDatumValScreen"
  "every (keeps_shown InqBareaDatumValScreen) on_InqAareaDatumValScreen"
  "every (keeps_shown InqEthParaScreen) on_InqEthParaScreen"
  "every (keeps_shown InqMacAddrScreen) on_InqAddrScreen"
  "every (keeps_shown InqIpAddrScreen) on_InqAddrScreen"
  "every (keeps_shown InqSubnetMaskScreen) on_InqAddrScreen"
  "every (keeps_shown InqGateWayScreen) on_InqAddrScreen"
  "every (keeps_shown InqAFangQuParaScreen) on_InqAFangQuParaScreen"
  "every (keeps_shown InqBFangQuParaScreen) on_InqBFangQuParaScreen"
  "every (keeps_shown NotAtValidRangeScreen) on_NotAtValidRangeScreen"
  "every (keeps_shown CaliOverAareaZeroValScreen) on_CaliOverZeroValScreen"
  "every (keeps_shown CaliOverBareaZeroValScreen) on_CaliOverZeroValScreen"
  "every (keeps_shown CaliOverAareaDatumValScreen) on_CaliOverDatumValScreen"
  "every (keeps_shown CaliOverBareaDatumValScreen) on_CaliOverDatumValScreen"
  by (rule keeps_shownI; simp only: inq_defs; (rule shown_keys4)?; simp add: shown_defs)+

lemma shown_records [simp]:
  "pic n \<Longrightarrow> screen_name (current_screen u) = n \<Longrightarrow> displayed (show_records n u)"
  "pic n \<Longrightarrow> last_picture (drawn (show_records n u)) = n"
  "pic n \<Longrightarrow> screen_name s = n \<Longrightarrow> displayed (open_records t s (show_records n) u)"
  by (simp_all add: show_records_def UpdateAlarmRecord_def open_records_def)

lemma shown_page_keys:
  "displayed (back u) \<Longrightarrow> pic n \<Longrightarrow> screen_name (current_screen u) = n \<Longrightarrow> displayed u \<Longrightarrow>
    displayed (page_keys t (show_records n) back key u)"
  by (simp add: page_keys_def)

lemma record_shown:
  "every (keeps_shown InqAlarmRecordScreen) on_InqAlarmRecordScreen"
  "every (keeps_shown InqDuanLuAlarmScreen) on_InqDuanLuAlarmScreen"
  "every (keeps_shown InqDuanXianAlarmScreen) on_InqDuanXianAlarmScreen"
  "every (keeps_shown InqFangChaiAlarmRecordScreen) on_InqFangChaiAlarmRecordScreen"
  "every (keeps_shown InqAAreaDuanLuAlarmRecordScreen) on_InqAAreaDuanLuAlarmRecordScreen"
  "every (keeps_shown InqBAreaDuanLuAlarmRecordScreen) on_InqBAreaDuanLuAlarmRecordScreen"
  "every (keeps_shown InqAAreaDuanXianAlarmRecordScreen) on_InqAAreaDuanXianAlarmRecordScreen"
  "every (keeps_shown InqBAreaDuanXianAlarmRecordScreen) on_InqBAreaDuanXianAlarmRecordScreen"
  by (rule keeps_shownI; simp only: record_defs(1-8); rule shown_keys4 shown_page_keys; simp add: shown_defs)+

lemma edit_shown:
  "every (keeps_shown SetBuFangParaScreen) on_SetBuFangParaScreen"
  "every (keeps_shown SetAFangQuParaScreen) on_SetAFangQuParaScreen"
  "every (keeps_shown SetBFangQuParaScreen) on_SetBFangQuParaScreen"
  "every (keeps_shown SetAlarmThresholdScreen) on_SetAlarmThresholdScreen"
  "every (keeps_shown SetIpAddrScreen) on_SetIpAddrScreen"
  "every (keeps_shown SetSubnetMaskScreen) on_SetSubnetMaskScreen"
  "every (keeps_shown SetGateWayScreen) on_SetGateWayScreen"
  "every (keeps_shown SetExtDeviceTypeScreen) on_SetExtDeviceTypeScreen"
  "every (keeps_shown SetFullScaleScreen) on_SetFullScaleScreen"
  "every (keeps_shown SetBaseAutoCalibrateTimeScreen) on_SetBaseAutoCalibrateTimeScreen"
  "every (keeps_shown ZeroCalibrationScreen) on_ZeroCalibrationScreen"
  "every (keeps_shown DatumCalibrationScreen) on_DatumCalibrationScreen"
  by (rule keeps_shownI; simp only: on_SetBuFangParaScreen_def on_SetAlarmThresholdScreen_def on_SetAFangQuParaScreen_def
        on_SetBFangQuParaScreen_def on_SetIpAddrScreen_def on_SetSubnetMaskScreen_def on_SetGateWayScreen_def
        on_SetExtDeviceTypeScreen_def on_SetFullScaleScreen_def on_SetBaseAutoCalibrateTimeScreen_def
        on_ZeroCalibrationScreen_def on_DatumCalibrationScreen_def on_SetBuFang_normal_def on_SetBuFang_modify_def
        on_SetAlarmThreshold_normal_def on_SetAlarmThreshold_modify_def on_SetExtDeviceType_normal_def
        on_SetExtDeviceType_modify_def zone_normal_def zone_modify_def address_keys_def Let_def shown_if
        split: if_split; intro conjI impI shown_keys6 shown_keys4;
      simp add: shown_defs edit_arming_def store_arming_def edit_thrd_def store_thrd_def edit_zone_def store_zone_def
        edit_type_def start_datum_def)+

lemma keys_shown: "every (keeps_shown s) (screen_keys s)"
proof -
  have same: "every (keeps_shown s) (\<lambda>key u. u)" for s by (rule keeps_shownI)
  show ?thesis
    unfolding screen_keys_def
    by (intro every_if; (elim disjE)?; hypsubst?; rule nav_shown inq_shown record_shown edit_shown same)
qed

lemma option_shown:
  assumes "displayed u"
  shows "current_screen u = SetDateTimeScreen \<Longrightarrow> on_SetDateTimeScreen nack key u = Some u' \<Longrightarrow> displayed u'"
    "current_screen u = SetClearRecordScreen \<Longrightarrow> on_SetClearRecordScreen key u = Some u' \<Longrightarrow> displayed u'"
    "current_screen u = ClearDuanLuAlarmRecordScreen \<Longrightarrow> on_ClearDuanLuAlarmRecordScreen key u = Some u' \<Longrightarrow> displayed u'"
    "current_screen u = ClearDuanXianAlarmRecordScreen \<Longrightarrow> on_ClearDuanXianAlarmRecordScreen key u = Some u' \<Longrightarrow> displayed u'"
proof -
  have cleared: "displayed u'" if "clear_records t sc (draw n) u = Some u'" "pic n" "screen_name sc = n" for t sc n
    using that by (auto simp: clear_records_def)
  show "current_screen u = SetDateTimeScreen \<Longrightarrow> on_SetDateTimeScreen nack key u = Some u' \<Longrightarrow> displayed u'"
    using assms by (auto simp: on_SetDateTimeScreen_def on_SetDateTime_normal_def on_SetDateTime_modify_def keys6_def keys4_def
        edit_time_def store_time_def shown_defs split: if_splits)
  show "current_screen u = SetClearRecordScreen \<Longrightarrow> on_SetClearRecordScreen key u = Some u' \<Longrightarrow> displayed u'"
    "current_screen u = ClearDuanLuAlarmRecordScreen \<Longrightarrow> on_ClearDuanLuAlarmRecordScreen key u = Some u' \<Longrightarrow> displayed u'"
    "current_screen u = ClearDuanXianAlarmRecordScreen \<Longrightarrow> on_ClearDuanXianAlarmRecordScreen key u = Some u' \<Longrightarrow> displayed u'"
    using assms by (auto simp: clear_defs keys4_def shown_defs split: if_splits dest: cleared)
qed

subsection \<open>The list of alarms\<close>

lemma list_alarms_drawn: "list_alarms is u = Some u' \<Longrightarrow> last_picture (drawn u') = last_picture (drawn u)"
  by (induction "is" arbitrary: u) (auto simp: list_alarm_def draw_def bind_eq_Some_conv split: if_splits)

lemma sort_alarms_drawn [simp]: "drawn (sort_alarms is u) = drawn u"
  by (induction "is" arbitrary: u) simp_all

lemma alarm_list_drawn: "DisplayAlarmTypeList u = Some u' \<Longrightarrow> last_picture (drawn u') = ''DisplayAlarmTypeList''"
  by (auto simp: DisplayAlarmTypeList_def Let_def pic_def simp del: list_alarms.simps split: if_splits
      dest!: list_alarms_drawn)

lemma alarm_list_displayed:
  "DisplayAlarmTypeList u = Some u' \<Longrightarrow> current_screen u = AlarmTypeListScreen \<Longrightarrow> displayed u' \<and> current_screen u' = AlarmTypeListScreen"
  using alarm_list_drawn [of u u'] DisplayAlarmTypeList_same [of u u'] by (simp add: displayed_def same_menu_def)

lemma alarm_screen_displayed:
  assumes "on_AlarmTypeListScreen key u = Some u'" "current_screen u = AlarmTypeListScreen"
  shows "displayed u'"
proof -
  have keys: "displayed u'" if "alarm_list_keys key v = Some u'" "displayed v" "current_screen v = AlarmTypeListScreen" for v
    using that by (auto simp: alarm_list_keys_def shown_defs displayed_def [of "u\<lparr>current_screen := s\<rparr>" for u s]
        split: if_splits dest!: alarm_list_displayed)
  show ?thesis
    using assms by (auto simp: on_AlarmTypeListScreen_def shown_defs displayed_def [of "u\<lparr>current_screen := s\<rparr>" for u s]
        bind_eq_Some_conv split: if_splits dest!: alarm_list_displayed intro: keys)
qed

subsection \<open>Rounds\<close>

lemma screen_round_displayed:
  assumes "screen_round nack key u = Some u'" "displayed u"
  shows "displayed u'"
proof -
  have run: "current_screen u = RunScreen \<Longrightarrow> displayed (on_RunScreen key u)"
    using assms(2) by (simp add: on_RunScreen_def shown_defs)
  have watch: "current_screen u = AFangQuMonitorScreen \<Longrightarrow> displayed (on_AFangQuMonitorScreen key u)"
    "current_screen u = BFangQuMonitorScreen \<Longrightarrow> displayed (on_BFangQuMonitorScreen key u)"
    "displayed (on_AzeroCalibrationScreen u)" "displayed (on_BzeroCalibrationScreen u)"
    "displayed (on_AdatumCalibrationScreen u)" "displayed (on_BdatumCalibrationScreen u)"
    using assms(2) by (simp_all add: on_AFangQuMonitorScreen_def on_BFangQuMonitorScreen_def on_AzeroCalibrationScreen_def
        on_BzeroCalibrationScreen_def on_AdatumCalibrationScreen_def on_BdatumCalibrationScreen_def await_calibration_def shown_defs)
  have keys: "displayed (screen_keys (current_screen u) key u)"
    using keys_shown [of "current_screen u"] assms(2) by (simp add: every_def keeps_shown_def)
  show ?thesis
    using assms run watch keys option_shown [OF assms(2)] alarm_screen_displayed
    by (auto simp: screen_round_def Let_def split: if_splits)
qed

lemma round_displayed:
  assumes "main_task_round nack key u = Some u'" "displayed u"
  shows "displayed u'"
proof (cases "sys_reset (device u)")
  case False
  then obtain v where v: "idle_alarms (count_idle key u) = Some v" "screen_round nack key v = Some u'"
    using assms(1) by (auto simp: main_task_round_def bind_eq_Some_conv)
  have "displayed (count_idle key u)" using assms(2) by (simp add: count_idle_def)
  then have "displayed v" using v(1) by (auto simp: idle_alarms_def split: if_splits dest: alarm_list_displayed)
  then show ?thesis using screen_round_displayed v(2) by blast
qed (use assms in \<open>simp add: main_task_round_def\<close>)

lemma alive_displayed: "alive u \<Longrightarrow> displayed u"
proof (induction rule: alive.induct)
  case (runs u u')
  from runs.hyps(2) show ?case
  proof cases
    case (background e)
    then show ?thesis using runs.IH by simp
  next
    case (round nack key)
    then show ?thesis using runs.IH round_displayed by blast
  qed
qed (simp_all add: displayed_def ui_init_def last_picture_def)

end
