(* ===== verification/DisplaySpec.thy ===== *)
theory DisplaySpec
  imports PictureSpec ScreenShown
begin

text \<open>
  Properties of the display: lines of text on the canvas, the picture of every screen, and the screens whose
  drawing is wrong.
\<close>

subsection \<open>Lines on the canvas\<close>

text \<open>What a line of characters of \<open>w\<close> columns makes of a canvas; \<open>g i\<close> is the bitmap of its character \<open>i\<close>.\<close>

definition line_on :: "nat \<Rightarrow> bool \<Rightarrow> (nat \<Rightarrow> bitmap option) \<Rightarrow> nat \<Rightarrow> nat \<Rightarrow> nat \<Rightarrow> canvas \<Rightarrow> canvas" where
  "line_on w p g n page c C =
     (\<lambda>pg col. if (pg = page \<or> pg = page + 1) \<and> c \<le> col \<and> col < c + n * w
               then case g ((col - c) div w) of None \<Rightarrow> C pg col
                    | Some m \<Rightarrow> ink p (m ((pg - page) * w + (col - c) mod w))
               else C pg col)"

lemma last_cell:
  fixes x n w :: nat
  assumes "n * w \<le> x" "x < n * w + w"
  shows "x div w = n" "x mod w = x - n * w"
proof -
  have "(x - n * w) div w = 0" using assms by simp
  moreover have x: "x = (x - n * w) + n * w" using assms(1) by simp
  moreover have "0 < w" using assms by (cases w) auto
  ultimately show "x div w = n" by (metis add.commute add_0 div_mult_self3 less_not_refl)
  then show "x mod w = x - n * w" by (metis minus_div_mult_eq_mod)
qed

lemma line_on_Suc:
  "line_on w p g (Suc n) page c C = fold draw_glyph (placed w page (c + n * w) p (g n)) (line_on w p g n page c C)"
proof (intro ext)
  fix pg col
  consider "col < c + n * w" | "c + n * w \<le> col" "col < c + n * w + w" | "c + n * w + w \<le> col" by linarith
  then show "line_on w p g (Suc n) page c C pg col =
      fold draw_glyph (placed w page (c + n * w) p (g n)) (line_on w p g n page c C) pg col"
  proof cases
    case 1
    then show ?thesis by (cases "g n") (simp_all add: line_on_def placed_def put_glyph_def)
  next
    case 2
    then have "(col - c) div w = n" "(col - c) mod w = col - (c + n * w)"
      using last_cell [of n w "col - c"] by (simp_all add: le_diff_conv2 less_diff_conv2)
    with 2 show ?thesis by (cases "g n") (auto simp: line_on_def placed_def put_glyph_def)
  next
    case 3
    then show ?thesis by (cases "g n") (simp_all add: line_on_def placed_def put_glyph_def)
  qed
qed

lemma placed_line:
  "fold draw_glyph (concat (map (\<lambda>i. placed w page (c + i * w) p (g i)) [0..<n])) C = line_on w p g n page c C"
proof (induction n)
  case 0
  then show ?case by (auto simp: line_on_def fun_eq_iff)
qed (simp add: line_on_Suc)

text \<open>
  C39: A line of text in the small font shows each character in its own cell of eight columns, upper half on the
  page of the call and lower half on the next; a character the font does not have leaves its cell as it was, and
  nothing else on the display changes.
\<close>

theorem text_line_shown:
  assumes "page < 7" "c mod 8 = 0" "c + 8 * length s \<le> 128"
  shows "canvas (Display_Line_Index_8x16 (of_nat page) (of_nat c) s p l) =
    (\<lambda>pg col. if (pg = page \<or> pg = page + 1) \<and> c \<le> col \<and> col < c + 8 * length s
       then case find_Char8x16 (s ! ((col - c) div 8)) of None \<Rightarrow> canvas l pg col
            | Some m \<Rightarrow> (if p then m ((pg - page) * 8 + (col - c) mod 8) else NOT (m ((pg - page) * 8 + (col - c) mod 8)))
       else canvas l pg col)"
proof -
  have "canvas (Display_Line_Index_8x16 (of_nat page) (of_nat c) s p l) =
      line_on 8 p (\<lambda>i. find_Char8x16 (s ! i)) (length s) page c (canvas l)"
    using call_canvas [OF Line8_in_order [OF assms, of p], of l] by (simp add: placed_line)
  then show ?thesis by (simp add: line_on_def ink_def mult.commute cong: if_cong option.case_cong)
qed

theorem text_line_shown_witness:
  fixes h l defines "h \<equiv> \<lparr>x_addr = 0, y_addr = 0, z_addr = 0, lit = True, ram = (\<lambda>page x. 0x55)\<rparr>"
    and "l \<equiv> \<lparr>LCD_CS1 = False, LCD_CS2 = True, left_half = h, right_half = h\<rparr>"
  shows "canvas (Display_Line_Index_8x16 2 56 [0x41, 1, 0x42] True l) 2 67 = 0x55 \<and>
    canvas (Display_Line_Index_8x16 2 56 [0x41, 1, 0x42] True l) 3 58 = 0x23"
proof -
  have line: "canvas (Display_Line_Index_8x16 2 56 [0x41, 1, 0x42] True l) =
    (\<lambda>pg col. if (pg = 2 \<or> pg = 3) \<and> 56 \<le> col \<and> col < 80
       then case find_Char8x16 ([0x41, 1, 0x42] ! ((col - 56) div 8)) of None \<Rightarrow> canvas l pg col
            | Some m \<Rightarrow> m ((pg - 2) * 8 + (col - 56) mod 8)
       else canvas l pg col)"
    using text_line_shown [of 2 56 "[0x41, 1, 0x42]" True l] by (simp cong: if_cong option.case_cong)
  show ?thesis
    unfolding line by (simp_all add: canvas_def l_def h_def find_Char8x16_def Char8x16_def msk_def)
qed

subsection \<open>The picture of the screen\<close>



text \<open>The picture of the screen the menu is on.\<close>

definition screen_picture :: "u8 list \<Rightarrow> ui \<Rightarrow> paint list option" where
  "screen_picture temp u = picture_named temp (screen_name (current_screen u)) u"

lemma picture_named_simps [simp]:
  "picture_named temp ''DisplayRunMenu'' = DisplayRunMenu_picture temp"
  "picture_named temp ''DisplayUserLogin'' = DisplayUserLogin_picture"
  "picture_named temp ''DisplaySuperUserRootMenu'' = DisplaySuperUserRootMenu_picture"
  "picture_named temp ''DisplayOrdinaryUserRootMenu'' = DisplayOrdinaryUserRootMenu_picture"
  "picture_named temp ''DisplaySetMenu'' = DisplaySetMenu_picture"
  "picture_named temp ''DisplayInquireMenu'' = DisplayInquireMenu_picture"
  "picture_named temp ''DisplayTensionMonitor'' = DisplayTensionMonitor_picture"
  "picture_named temp ''DisplayVersionMenu'' = DisplayVersionMenu_picture"
  "picture_named temp ''DisplaySetSysPara'' = DisplaySetSysPara_picture"
  "picture_named temp ''DiaplaySetFangQuPara'' = DiaplaySetFangQuPara_picture"
  "picture_named temp ''DiaplayCalibrationSet'' = DiaplayCalibrationSet_picture"
  "picture_named temp ''DisplaySetAFangQuPara'' = DisplaySetAFangQuPara_picture"
  "picture_named temp ''DisplaySetBFangQuPara'' = DisplaySetBFangQuPara_picture"
  "picture_named temp ''DisplayZeroCalibration'' = DisplayZeroCalibration_picture"
  "picture_named temp ''DisplayAareaZeroVal'' = DisplayAareaZeroVal_picture"
  "picture_named temp ''DisplayBareaZeroVal'' = DisplayBareaZeroVal_picture"
  "picture_named temp ''DisplayDatumCalibration'' = DisplayDatumCalibration_picture"
  "picture_named temp ''Displayzhengzaijiaozhun'' = Displayzhengzaijiaozhun_picture"
  "picture_named temp ''DisplayAareaDatumVal'' = DisplayAareaDatumVal_picture"
  "picture_named temp ''DisplayBareaDatumVal'' = DisplayBareaDatumVal_picture"
  "picture_named temp ''DisplayNotAtValidRange'' = DisplayNotAtValidRange_picture"
  "picture_named temp ''DiaplaySetBuFangPara'' = DiaplaySetBuFangPara_picture"
  "picture_named temp ''DiaplaySetAlarmThreshold'' = DiaplaySetAlarmThreshold_picture"
  "picture_named temp ''DisplaySetClearRecord'' = DisplaySetClearRecord_picture"
  "picture_named temp ''DisplayInqSysPara'' = DisplayInqSysPara_picture"
  "picture_named temp ''DiaplayInqFangQuPara'' = DiaplayInqFangQuPara_picture"
  "picture_named temp ''DiaplayInqAFangQuPara'' = DiaplayInqAFangQuPara_picture"
  "picture_named temp ''DiaplayInqBFangQuPara'' = DiaplayInqBFangQuPara_picture"
  "picture_named temp ''DisplayInqBuFangPara'' = DisplayInqBuFangPara_picture"
  "picture_named temp ''DisplayInqAlarmRecord'' = DisplayInqAlarmRecord_picture"
  "picture_named temp ''DisplayInqAlarmThreshold'' = DisplayInqAlarmThreshold_picture"
  "picture_named temp ''DisplayInqCalibrationVal'' = DisplayInqCalibrationVal_picture"
  "picture_named temp ''DisplayInqZeroVal'' = DisplayInqZeroVal_picture"
  "picture_named temp ''DiaplayInqDatumVal'' = DiaplayInqDatumVal_picture"
  "picture_named temp ''DisplayInqExtDeviceType'' = DisplayInqExtDeviceType_picture"
  "picture_named temp ''DisplayInqFullScale'' = DisplayInqFullScale_picture"
  "picture_named temp ''DisplayInqBaseAutoCalibrateTime'' = DisplayInqBaseAutoCalibrateTime_picture"
  "picture_named temp ''DiaplayAFangQuMonitor'' = DiaplayAFangQuMonitor_picture"
  "picture_named temp ''DiaplayBFangQuMonitor'' = DiaplayBFangQuMonitor_picture"
  "picture_named temp ''DisplaySetDateTime'' = DisplaySetDateTime_picture"
  "picture_named temp ''DisplaySetEthPara'' = DisplaySetEthPara_picture"
  "picture_named temp ''DisplayClearRuQinAlarmRecord'' = DisplayClearRuQinAlarmRecord_picture"
  "picture_named temp ''DisplayClearDuanXianAlarmRecord'' = DisplayClearDuanXianAlarmRecord_picture"
  "picture_named temp ''DisplayInqEthPara'' = DisplayInqEthPara_picture"
  "picture_named temp ''DisplayInqRuQinAlarmRecord'' = DisplayInqRuQinAlarmRecord_picture"
  "picture_named temp ''DisplayInqDuanXianAlarmRecord'' = DisplayInqDuanXianAlarmRecord_picture"
  "picture_named temp ''DisplaySetMacAddr'' = DisplaySetMacAddr_picture"
  "picture_named temp ''DisplaySetIpAddr'' = DisplaySetIpAddr_picture"
  "picture_named temp ''DisplaySetSubnetMask'' = DisplaySetSubnetMask_picture"
  "picture_named temp ''DisplaySetGateWay'' = DisplaySetGateWay_picture"
  "picture_named temp ''DisplayInqMacAddr'' = DisplayInqMacAddr_picture"
  "picture_named temp ''DisplayInqIpAddr'' = DisplayInqIpAddr_picture"
  "picture_named temp ''DisplayInqSubnetMask'' = DisplayInqSubnetMask_picture"
  "picture_named temp ''DisplayInqGateWay'' = DisplayInqGateWay_picture"
  "picture_named temp ''DisplayInputPassword'' = DisplayInputPassword_picture"
  "picture_named temp ''DisplayPasswordError'' = DisplayPasswordError_picture"
  "picture_named temp ''DiaplaySetExtDeviceTypeScreen'' = DiaplaySetExtDeviceTypeScreen_picture"
  "picture_named temp ''DisplaySetFullScale'' = DisplaySetFullScale_picture"
  "picture_named temp ''DisplaySetBaseAutoCalibrateTime'' = DisplaySetBaseAutoCalibrateTime_picture"
  "picture_named temp ''DisplayInqFangChaiAlarmRecord'' = DisplayInqFangChaiAlarmRecord_picture"
  "picture_named temp ''DisplayInqAAreaRuQinAlarmRecord'' = DisplayInqAAreaRuQinAlarmRecord_picture"
  "picture_named temp ''DisplayInqBAreaRuQinAlarmRecord'' = DisplayInqBAreaRuQinAlarmRecord_picture"
  "picture_named temp ''DisplayInqAAreaDuanXianAlarmRecord'' = DisplayInqAAreaDuanXianAlarmRecord_picture"
  "picture_named temp ''DisplayInqBAreaDuanXianAlarmRecord'' = DisplayInqBAreaDuanXianAlarmRecord_picture"
  by (simp_all add: picture_named_def)

text \<open>The screens whose pictures are drawn without fault.\<close>

definition sound_screens :: "screen list" where
  "sound_screens =
     filter (\<lambda>s. s \<notin> {VerScreen, AlarmTypeListScreen, InqExtDeviceTypeScreen, SetFullScaleScreen, InqFullScaleScreen,
       InqBaseAutoCalibrateTimeScreen})
       ([1, 3, 4, 5, 6, 7, 8, 9, 10, 11, 12, 13, 14, 15, 16, 17, 18, 19, 25, 26, 27, 28] @ [30..<51] @ [100..<129])"

lemma menu_screens_enum: "menu_screens = set ([1, 3, 4, 5, 6, 7, 8, 9, 10, 11, 12, 13, 14, 15, 16, 17, 18, 19, 25, 26, 27, 28] @
   [30..<51] @ [100..<129])"
  by (simp only: menu_screens_def set_append set_simps set_upt atLeastLessThanSuc_atLeastAtMost [symmetric] Un_assoc) simp

lemma screen_drawable:
  assumes "menu_wf u" "printable u" "length temp \<le> 6" "current_screen u \<in> set sound_screens"
  shows "drawable (screen_picture temp u)"
proof -
  have limit: "row_in (row_point u) n" if "row_limit (current_screen u) = n" "n \<noteq> 0" for n
    using assms(1) that by (auto simp: menu_wf_def cursor_ok_def)
  have row: "current_screen u \<in> {3, 4} \<Longrightarrow> row_in (row_point u) 9" "current_screen u \<in> {14, 15, 49} \<Longrightarrow> row_in (row_point u) 4"
    "current_screen u \<in> {8, 9, 11} \<Longrightarrow> row_in (row_point u) 3" "current_screen u \<in> {6} \<Longrightarrow> row_in (row_point u) 2"
    by (rule limit; (elim insertE emptyE)?; simp add: row_limit_def)+
  note rules = fixed_pictures [of u] text_pictures [OF assms(1)]
    wires_pictures [OF assms(2)] threshold_pictures [OF assms(2)] arming_pictures [of u] device_picture [OF assms(2)]
  have zones: "row_in (row_point u) 3 \<Longrightarrow> drawable (DisplaySetAFangQuPara_picture u)"
    "row_in (row_point u) 3 \<Longrightarrow> drawable (DisplaySetBFangQuPara_picture u)"
    "row_in (row_point u) 4 \<Longrightarrow> drawable (DiaplayInqAFangQuPara_picture u)"
    "row_in (row_point u) 4 \<Longrightarrow> drawable (DiaplayInqBFangQuPara_picture u)"
    unfolding DisplaySetAFangQuPara_picture_def DisplaySetBFangQuPara_picture_def DiaplayInqAFangQuPara_picture_def
      DiaplayInqBFangQuPara_picture_def
    using zone_pictures [OF assms(2)] texts_fit by simp_all
  have lists: "current_screen u = SetScreen \<Longrightarrow> drawable (DisplaySetMenu_picture u)"
    "current_screen u = InqScreen \<Longrightarrow> drawable (DisplayInquireMenu_picture u)"
    "current_screen u = SetSysScreen \<Longrightarrow> drawable (DisplaySetSysPara_picture u)"
    "current_screen u = SetAFangQuParaScreen \<Longrightarrow> drawable (DisplaySetAFangQuPara_picture u)"
    "current_screen u = SetBFangQuParaScreen \<Longrightarrow> drawable (DisplaySetBFangQuPara_picture u)"
    "current_screen u = SetClearRecordScreen \<Longrightarrow> drawable (DisplaySetClearRecord_picture u)"
    "current_screen u = InqAFangQuParaScreen \<Longrightarrow> drawable (DiaplayInqAFangQuPara_picture u)"
    "current_screen u = InqBFangQuParaScreen \<Longrightarrow> drawable (DiaplayInqBFangQuPara_picture u)"
    "current_screen u = SuperUserRootScreen \<Longrightarrow> drawable (DisplaySuperUserRootMenu_picture u)"
    using row by (simp_all only: list_pictures sys_picture zones insert_iff simp_thms)
  have "\<forall>s\<in>set sound_screens. current_screen u = s \<longrightarrow> drawable (picture_named temp (screen_name s) u)"
    unfolding sound_screens_def using assms(3) by (simp add: rules) (intro conjI impI; erule lists)
  with assms(4) show ?thesis by (simp add: screen_picture_def)
qed

text \<open>
  C38: For every screen but six - the version, the alarm list, the types of the switches, the setting and the query of
  the full scale and the query of the calibration time - and for a menu inside its lists, values that have the digits
  of their places (\<open>printable\<close>) and a temperature text of at most six characters: the texts of the picture fit their arrays,
  and whatever the display showed before, it then shows exactly the characters of the picture on an empty background.
\<close>

theorem screen_is_drawn:
  assumes "menu_wf u" "printable u" "length temp \<le> 6"
    "current_screen u \<notin> {VerScreen, AlarmTypeListScreen, InqExtDeviceTypeScreen, SetFullScaleScreen, InqFullScaleScreen,
       InqBaseAutoCalibrateTimeScreen}"
  shows "\<exists>ps. screen_picture temp u = Some ps \<and> (\<forall>l. canvas (paint_all ps l) = render ps)"
proof (rule drawable_canvas [OF screen_drawable [OF assms(1-3)]])
  have "current_screen u \<in> menu_screens" using assms(1) by (simp add: menu_wf_def)
  with assms(4) show "current_screen u \<in> set sound_screens"
    by (simp only: menu_screens_enum sound_screens_def set_filter) blast
qed

theorem screen_is_drawn_witness:
  fixes u defines "u \<equiv> ui_init (globals_init\<lparr>zero_val := (\<lambda>z i. 123)\<rparr>)\<lparr>current_screen := InqBareaZeroValScreen\<rparr>"
  shows "\<exists>ps. screen_picture [] u = Some ps \<and> (\<forall>l. canvas (paint_all ps l) = render ps)"
proof (rule screen_is_drawn)
  show "menu_wf u"
    by (simp add: u_def wf_defs ui_init_def menu_screens_def row_limit_def fx_limit_def time_pending_def ascii_def)
  show "printable u" by (simp add: u_def printable_def ui_init_def globals_init_def tension_def)
qed (simp_all add: u_def ui_init_def)

subsection \<open>Screens that are drawn wrong\<close>

lemma sprintf_None: "0 < w \<Longrightarrow> sprintf (Suc 0) w x = None"
  by (simp add: sprintf_def copy_into_def ascii_def fmt_0wd_def fmt_0d_def pad_left_def)

lemma device_names_count: "length device_names = Suc 8"
  by (simp add: device_names_def)

lemma device_lengths: "n \<le> 8 \<Longrightarrow> device_names ! n \<noteq> []"
proof -
  assume "n \<le> 8"
  moreover have "[] \<notin> set device_names" by (simp add: device_names_def text_defs)
  ultimately show ?thesis by (metis device_names_count le_imp_less_Suc nth_mem)
qed

text \<open>
  Three screens of values copy or print into arrays of one byte, and the screen of the versions reads a text
  that has no end: none of them has a picture.
\<close>

theorem pictures_beyond_arrays:
  assumes "SW_Type (device u) 0 \<le> 8"
  shows "DisplayVersionMenu_picture u = None \<and> DisplayInqFullScale_picture u = None \<and>
    DisplayInqBaseAutoCalibrateTime_picture u = None \<and> DisplayInqExtDeviceType_picture u = None"
proof (intro conjI)
  show "DisplayVersionMenu_picture u = None"
    by (simp add: DisplayVersionMenu_picture_def c_array_def software_ver_def ascii_def)
  show "DisplayInqFullScale_picture u = None" "DisplayInqBaseAutoCalibrateTime_picture u = None"
    by (simp_all add: DisplayInqFullScale_picture_def DisplayInqBaseAutoCalibrateTime_picture_def sprintf_None)
  show "DisplayInqExtDeviceType_picture u = None"
    using assms by (simp add: DisplayInqExtDeviceType_picture_def device_text_def copy_into_def device_lengths word_le_nat_alt)
qed

theorem pictures_beyond_arrays_witness:
  "DisplayVersionMenu_picture (ui_init globals_init) = None \<and> DisplayInqFullScale_picture (ui_init globals_init) = None \<and>
    DisplayInqBaseAutoCalibrateTime_picture (ui_init globals_init) = None \<and>
    DisplayInqExtDeviceType_picture (ui_init globals_init) = None"
  by (rule pictures_beyond_arrays) (simp add: ui_init_def globals_init_def)

lemma ascii_inj: "ascii s = ascii t \<longleftrightarrow> s = t"
proof -
  have "inj (\<lambda>c. of_nat (of_char c) :: u8)"
  proof (rule injI)
    fix c c' assume "(of_nat (of_char c) :: u8) = of_nat (of_char c')"
    then have "unat (of_nat (of_char c) :: u8) = unat (of_nat (of_char c') :: u8)" by simp
    then show "c = c'" by (simp add: unsigned_of_nat take_bit_nat_def)
  qed
  then show ?thesis by (simp only: ascii_def inj_map_eq_map)
qed

lemma digit_inj: "0 \<le> x \<Longrightarrow> x < 10 \<Longrightarrow> 0 \<le> y \<Longrightarrow> y < 10 \<Longrightarrow> digits 1 x = digits 1 y \<longleftrightarrow> x = y"
proof
  assume b: "0 \<le> x" "x < 10" "0 \<le> y" "y < 10" and e: "digits 1 x = digits 1 y"
  have one: "fmt_0d 1 (nat z) = fmt_nat (nat z)" if "0 \<le> z" "z < 10" for z
    using that by (simp add: fmt_0d_def pad_left_def fmt_nat.simps [of "nat z"] nat_less_iff)
  have "fmt_0d 1 (nat x) = fmt_0d 1 (nat y)" using e by (simp add: digits_def ascii_inj)
  then have "dec_value 0 (fmt_nat (nat x)) = dec_value 0 (fmt_nat (nat y))" by (simp only: one b)
  then show "x = y" using b by simp
qed simp

lemma wires_picture_eq:
  assumes "\<forall>i<6. tension (w i) \<and> tension (t i) \<and> tension (t' i)"
  shows "wires_picture title w t = wires_picture title w t' \<longleftrightarrow> (\<forall>i<6. sint (t i) mod 10 = sint (t' i) mod 10)"
proof -
  have six: "(\<forall>i<6. Q i) \<longleftrightarrow> Q 0 \<and> Q 1 \<and> Q 2 \<and> Q 3 \<and> Q 4 \<and> Q 5" for Q :: "nat \<Rightarrow> bool"
    by (simp add: less_Suc_eq numeral_eq_Suc all_conj_distrib conj_ac)
  have one: "digits 1 (sint (t i) mod 10) = digits 1 (sint (t' i) mod 10) \<longleftrightarrow> sint (t i) mod 10 = sint (t' i) mod 10" for i
    by (rule digit_inj) simp_all
  show ?thesis using assms by (simp add: wires_picture_def wire_text_digits six one del: One_nat_def)
qed

text \<open>
  C40: With readings of up to 99.9 kilograms, the zero screen of zone B and both reference screens show the stored
  tensions only by chance: the zero screen of zone B takes the tenths of its first five wires from zone A, as the
  reference screen of zone B does, and the reference screen of zone A takes those of its first three from the zero
  values.
\<close>

theorem tenths_of_other_values:
  assumes "\<And>z i. z < 2 \<Longrightarrow> i < 6 \<Longrightarrow> tension (zero_val (device u) z i) \<and> tension (base_val (device u) z i)"
  shows "(DisplayBareaZeroVal_picture u = wires_picture t_zero_B_title (zero_val (device u) 1) (zero_val (device u) 1) \<longleftrightarrow>
      (\<forall>i<5. sint (zero_val (device u) 0 i) mod 10 = sint (zero_val (device u) 1 i) mod 10)) \<and>
    (DisplayBareaDatumVal_picture u = wires_picture t_datum_B_title (base_val (device u) 1) (base_val (device u) 1) \<longleftrightarrow>
      (\<forall>i<5. sint (base_val (device u) 0 i) mod 10 = sint (base_val (device u) 1 i) mod 10)) \<and>
    (DisplayAareaDatumVal_picture u = wires_picture t_datum_A_title (base_val (device u) 0) (base_val (device u) 0) \<longleftrightarrow>
      (\<forall>i<3. sint (zero_val (device u) 0 i) mod 10 = sint (base_val (device u) 0 i) mod 10))"
proof (intro conjI)
  have cut: "(\<forall>i<6. sint ((if i < n then f i else g i) :: s16) mod 10 = sint (g i) mod 10) \<longleftrightarrow>
      (\<forall>i<n. sint (f i) mod 10 = sint (g i) mod 10)" if "n \<le> 6" for n :: nat and f g
    using that by (auto dest: less_le_trans)
  show "DisplayBareaZeroVal_picture u = wires_picture t_zero_B_title (zero_val (device u) 1) (zero_val (device u) 1) \<longleftrightarrow>
      (\<forall>i<5. sint (zero_val (device u) 0 i) mod 10 = sint (zero_val (device u) 1 i) mod 10)"
    unfolding DisplayBareaZeroVal_picture_def Let_def
    by (subst wires_picture_eq) (simp_all add: assms cut)
  show "DisplayBareaDatumVal_picture u = wires_picture t_datum_B_title (base_val (device u) 1) (base_val (device u) 1) \<longleftrightarrow>
      (\<forall>i<5. sint (base_val (device u) 0 i) mod 10 = sint (base_val (device u) 1 i) mod 10)"
    unfolding DisplayBareaDatumVal_picture_def Let_def
    by (subst wires_picture_eq) (simp_all add: assms cut)
  show "DisplayAareaDatumVal_picture u = wires_picture t_datum_A_title (base_val (device u) 0) (base_val (device u) 0) \<longleftrightarrow>
      (\<forall>i<3. sint (zero_val (device u) 0 i) mod 10 = sint (base_val (device u) 0 i) mod 10)"
    unfolding DisplayAareaDatumVal_picture_def Let_def
    by (subst wires_picture_eq) (simp_all add: assms cut)
qed

theorem tenths_of_other_values_witness:
  fixes u defines "u \<equiv> ui_init (globals_init\<lparr>zero_val := (\<lambda>z i. if z = 0 then 57 else 61)\<rparr>)"
  shows "DisplayBareaZeroVal_picture u \<noteq> wires_picture t_zero_B_title (zero_val (device u) 1) (zero_val (device u) 1)"
proof -
  have "DisplayBareaZeroVal_picture u = wires_picture t_zero_B_title (zero_val (device u) 1) (zero_val (device u) 1) \<longleftrightarrow>
      (\<forall>i<5. sint (zero_val (device u) 0 i) mod 10 = sint (zero_val (device u) 1 i) mod 10)"
    by (rule tenths_of_other_values [THEN conjunct1]) (simp add: u_def ui_init_def globals_init_def tension_def)
  moreover have "\<exists>i<5. sint (zero_val (device u) 0 i) mod 10 \<noteq> sint (zero_val (device u) 1 i) mod 10"
    by (rule exI [of _ 0]) (simp add: u_def ui_init_def)
  ultimately show ?thesis by blast
qed

end
