(* ===== verification/Spec2Isabelle.thy ===== *)
theory Spec2Isabelle
  imports LogSpec ParamSpec AlarmSpec TimerSpec CalibSpec ServerSpec MemSpec BusSpec TextSpec AlarmListSpec EditSpec DisplaySpec
begin

text \<open>
  Verification of the VectorFence firmware: an alarm host for tensioned fences (STM32F407, uC/OS-II,
  lwIP).  Two zones, A and B, of up to six wires each are measured; a wire that is pulled, cut or slack,
  or an opened case, raises an alarm, switches siren, lamps and outputs, and is logged.  Parameters and
  logs live in an EEPROM; a clock, a temperature sensor, an LCD with keys, a web page and a TCP protocol
  serve the operator.  All file names below are under \<^verbatim>\<open>src/\<close>.

  \<^bold>\<open>The model.\<close>  The global variables of the firmware are the fields of one record, \<open>dev\<close> (theory
  \<open>Device\<close>, extended file by file under the names of the C files); an operation takes the record and
  returns it.  Integers keep their widths (\<^verbatim>\<open>u8\<close>, \<^verbatim>\<open>u16\<close>, \<^verbatim>\<open>s16\<close>, \<^verbatim>\<open>u32\<close> are words), and an expression
  the compiler promotes to \<^verbatim>\<open>int\<close> is computed in \<^typ>\<open>int\<close> and truncated where it is stored.  Reads
  outside an array, null pointers and loops that do not end are \<open>None\<close>.  What is outside the processor is
  data: the cells of the EEPROM, the input pins, the answers of the converter, the acknowledge bits and
  bytes of the bus.  The third-party parts (ST library, lwIP, uC/OS-II, the HTTP server) are parameters
  or recorded calls.

  \<^bold>\<open>Theories and sources.\<close>
  \<^item> \<open>Prelude\<close>, \<open>Device\<close>, \<open>CString\<close>: C integers and bit macros (\<^verbatim>\<open>SYSTEM/sys/sys.h\<close>, \<^verbatim>\<open>HARDWARE/ALARM/alarm.h\<close>,
    \<^verbatim>\<open>HARDWARE/TIMER/timer.h\<close>), the state, and the C string functions in use.
  \<^item> \<open>I2cBus\<close>: \<^verbatim>\<open>HARDWARE/IIC/myiic.c\<close>, \<^verbatim>\<open>iicrw.c\<close> and the transfers of \<^verbatim>\<open>HARDWARE/LM75/lm75.c\<close>; properties in \<open>BusSpec\<close>.
  \<^item> \<open>Eeprom\<close>, \<open>ParamStore\<close>, \<open>WriteFrame\<close>: \<^verbatim>\<open>HARDWARE/24CXX/24cxx.c\<close>.  Byte transfers run against the protocol of
    the chip; the locale \<open>byte_store\<close> gives the runs of bytes, the locale \<open>param_groups\<close> the twelve
    parameter groups; properties in \<open>ParamSpec\<close>.
  \<^item> \<open>EventLog\<close>, \<open>LogRing\<close>, \<open>LogPages\<close>, \<open>LogStore\<close>: \<^verbatim>\<open>HARDWARE/LOG/log.c\<close>.  The abstraction \<open>log_abs\<close> of a ring of
    300 records is a list, newest first, under the invariant \<open>log_wf\<close>; refinement in \<open>LogSpec\<close>.
  \<^item> \<open>Adc\<close>, \<open>Alarm\<close>, \<open>Timer\<close>: \<^verbatim>\<open>HARDWARE/ADC/adc.c\<close>, \<^verbatim>\<open>HARDWARE/ALARM/alarm.c\<close>, \<^verbatim>\<open>HARDWARE/TIMER/timer.c\<close>.  \<open>Frames\<close> says
    what their building blocks leave alone; \<open>MeasureSpec\<close> is about readings, \<open>AlarmSteps\<close> and \<open>AlarmSpec\<close>
    about confirmation (the locale \<open>confirmation\<close> with its seven instances), \<open>TimerSpec\<close> about the siren and
    the schedule, \<open>CalibSpec\<close> about calibration.
  \<^item> \<open>Clock\<close>: \<^verbatim>\<open>HARDWARE/PCF8563/pcf8563.c\<close>, the text of \<^verbatim>\<open>lm75.c\<close> and \<^verbatim>\<open>HARDWARE/KEY/key.c\<close>.
  \<^item> \<open>SysCtl\<close>, \<open>NetConfig\<close>: \<^verbatim>\<open>SYSTEM/sys/sys.c\<close> and \<^verbatim>\<open>LWIP/lwip_app/lwip_comm/lwip_comm.c\<close>.
  \<^item> \<open>TcpServer\<close>: \<^verbatim>\<open>LWIP/lwip_app/tcp_server/tcp_server.c\<close>; properties in \<open>ServerSpec\<close>.
  \<^item> \<open>WebCgi\<close>: \<^verbatim>\<open>LWIP/lwip_app/web_server/httpd_cgi_ssi.c\<close>; the texts of its pages in \<open>TextSpec\<close>.
  \<^item> \<open>Malloc\<close>, \<open>LwipMem\<close>: \<^verbatim>\<open>MALLOC/malloc.c\<close> and its client in \<^verbatim>\<open>lwip_comm.c\<close>, through the locale \<open>allocator\<close>;
    properties in \<open>MemSpec\<close>.
  \<^item> \<open>Tasks\<close>: start-up and background tasks of \<^verbatim>\<open>USER/main.c\<close>.
  \<^item> \<open>Ui\<close>, \<open>MenuNav\<close>, \<open>MenuInq\<close>, \<open>MenuEdit\<close>, \<open>MainTask\<close>: the operator menu, \<^verbatim>\<open>main_task\<close> of \<^verbatim>\<open>USER/main.c\<close>.  The record \<open>ui\<close>
    holds the variables of \<^verbatim>\<open>HARDWARE/LCD/DisplayMenu.c\<close> and the device; \<open>on_X\<close> is the code of screen \<open>X\<close>,
    \<open>main_task_round\<close> one round of the loop with the key it found.  \<open>drawn\<close> records the pictures by the names of
    their functions.  \<open>MenuEffect\<close> says what a round may do to the device, \<open>MenuWf\<close> and \<open>MenuInv\<close> hold the invariant
    \<open>menu_wf\<close>, \<open>MenuGuard\<close> and \<open>MenuHome\<close> the guards and the ways back; properties in \<open>MenuSpec\<close>, \<open>AlarmListSpec\<close> and
    \<open>EditSpec\<close>.
  \<^item> \<open>Font\<close>, \<open>Lcd\<close>: \<^verbatim>\<open>HARDWARE/LCD/lcd.c\<close> with its fonts, and the font of \<^verbatim>\<open>zk.h\<close>.  \<open>Texts\<close>, \<open>Pictures\<close>, \<open>Screens\<close>,
    \<open>Display\<close>: the drawing functions of \<^verbatim>\<open>DisplayMenu.c\<close> with their literals, \<open>X_picture\<close> for function \<open>X\<close>.
    \<open>LcdSpec\<close> relates the two controllers to one canvas, \<open>PictureSpec\<close> shows the pictures to fit it, and
    \<open>ScreenShown\<close> that a round leaves the picture of its screen on the display; properties in \<open>DisplaySpec\<close>.
  \<^item> \<open>Durable\<close>, \<open>Firmware\<close>, \<open>Boot\<close>, \<open>Machine\<close>: the whole device.  \<open>fw_step\<close> is the step relation of its handlers
    (locale \<open>handlers\<close>), \<open>life\<close> the states a device can be in from its first start through steps, power
    failures and restarts; \<open>device_step\<close> adds the rounds of the menu, between which the handlers run, and \<open>alive\<close>
    are the states of a device with its menu.

  \<^bold>\<open>What is shown.\<close>  For the whole device, below: in every state of its life the logs are well formed and the
  EEPROM holds the parameters that are saved at once, and a restart brings back the logs and every parameter that was
  saved.  For the parts: the logs refine lists; a
  parameter group reads back what was saved; a measurement reads each wire through its own input; a lasting
  condition raises its alarm after the confirmation time, one tick less than configured, an intrusion or a broken wire is
  logged once, and an alarm stays in its zone; the siren, the tests and
  the calibrations keep their schedule; the protocol accepts exactly the well-formed messages, answers with
  well-formed frames and reports the parameters it was sent; the allocator hands out disjoint free blocks;
  bytes, times and addresses survive the bus, the clock and the pages.  The menu stays inside its lists, leads
  home, guards the settings by the password and changes them only on the enter key (the types
  of the switches with up and down); edited values keep their ranges; the display shows the picture of the screen the
  menu is on, and every picture but those of six screens as the characters its function writes.  Some properties state where the code does
  not keep its intention: two isolated blips that raise an alarm, a siren that does not stop or starts late, a
  mutex that is kept, a connection that is used after it was deleted, a password that is bypassed while an alarm
  is on, a threshold that is stored unread, a list that starts with entries of an older one, tenths that belong to other
  wires.

  \<^bold>\<open>Bounds and fuel.\<close>  The loops of the logs run over at most 300 records, their recursions take the number of
  the remaining records or the page length as fuel and the lemmas show that it is never used up; waiting for
  an acknowledge polls 251 times; \<open>split_rest\<close> takes the length of the text, which every token shortens;
  \<open>wait_eeprom\<close> is a \<^verbatim>\<open>partial_function\<close>, because it does not end without an EEPROM.  Every other recursion is on
  its data.

  \<^bold>\<open>Not modelled.\<close>  Register set-up of pins, timers, converter and bus (no state of the program); of the LCD the
  lines of its port, its busy bit and the delays, so that a controller takes every command, and the functions of
  \<^verbatim>\<open>lcd.c\<close> no other code calls; the creation of tasks and mailboxes, and handlers that interrupt a round of the menu
  (a round is one step); the vendored libraries and generated web content, and demo code the firmware does not
  call.  The terminator behind the 19 characters of the time, which is one byte too many in \<^verbatim>\<open>rtcTempStr\<close> and in its
  copy on the start screen, is taken to fall on a byte nobody uses; so is the terminator behind a web page of 200
  characters in \<^verbatim>\<open>crtWebPageLogData\<close>, whose writing the field \<open>web_page_overrun\<close> records.
\<close>

section \<open>Properties of the whole device\<close>

text \<open>
  C1: From its first start on a blank EEPROM, through any interleaving of interrupts, tests of the
  watch task, messages, requests, rounds of the menu with any keys, and restarts, the five logs of a device are
  well formed and the menu stays inside its lists and texts; and while the device has not asked for a restart, its
  time string has 19 bytes the first of which is neither a terminator nor the mark of an erased record, so that a
  record written with it is found again, and the EEPROM holds the current value of every parameter group but the
  network addresses, the arming flags and the types of the switches.
\<close>

theorem device_invariant:
  assumes "alive u"
  shows "(\<forall>t<5. log_wf t (device u)) \<and> menu_wf u \<and>
     (\<not> sys_reset (device u) \<longrightarrow> rtc_ok (device u) \<and>
        (\<forall>g. g \<noteq> NvNet \<and> g \<noteq> NvControl \<and> g \<noteq> NvSw \<longrightarrow>
           AT24CXX_Read (device u) (nv_addr g) (nv_len g) = nv_image g (device u)))"
  using life_safe [OF alive_life [OF assms]] alive_wf [OF assms] by (auto simp: safe_def inv_on_def nv.stored_def)

theorem device_invariant_witness:
  "log_wf 4 (TIM3_IRQHandler new_device)"
  using device_invariant [OF alive.runs [OF alive_new_device device_step.background [OF fw_step.tim3]]]
    new_device_running by simp

text \<open>
  C2: A restart always comes up, and recovers what the device knew: all five logs with every record,
  and each of the twelve parameter groups whose current value the EEPROM holds and which a start leaves as it is.
  It leaves every value but those that carry the mark of a blank EEPROM (\<open>marked\<close>), a MAC address with
  the manufacturer code of older devices, which gets the new one, and an armed zone B on a device for a single
  zone, which is disarmed.
\<close>

theorem restart_recovers:
  assumes "alive u"
  shows "\<exists>e. boot nack rx junk sn0 (device u) = Some e \<and> alive (ui_init e) \<and>
     (\<forall>t<5. log_abs t e = log_abs t (device u)) \<and> (\<forall>g. kept g (device u) \<longrightarrow> nv_image g e = nv_image g (device u))"
proof -
  obtain e where e: "boot nack rx junk sn0 (device u) = Some e" by (simp only: boot_eq)
  have wf: "\<forall>t<5. log_wf t (device u)" using life_safe [OF alive_life [OF assms]] by (simp add: safe_def)
  have "\<forall>t<5. log_abs t e = log_abs t (device u)" using boot_recovers_logs [OF wf _ e] by blast
  moreover have "\<forall>g. kept g (device u) \<longrightarrow> nv_image g e = nv_image g (device u)"
    using boot_recovers_group [OF wf e] by blast
  ultimately show ?thesis using e alive.restarts [OF assms e] by blast
qed

theorem restart_recovers_witness:
  "\<exists>e. boot (\<lambda>n. True) (\<lambda>n. 0) (\<lambda>n. 0xFF) 1 new_device = Some e \<and>
     log_abs 4 e = log_abs 4 new_device \<and> nv_image NvConfig e = nv_image NvConfig new_device"
  using restart_recovers [OF alive_new_device, of "\<lambda>n. True" "\<lambda>n. 0" "\<lambda>n. 0xFF" 1] new_device_kept
  by (auto simp del: nv_image.simps)

end
